(* ===== verification/Prelude.thy ===== *)
theory Prelude
  imports Main "HOL-Library.List_Lexorder" "HOL-Library.Char_ord"
begin

text \<open>
  Vocabulary shared by every theory of the development: the names of the model's basic
  types, the table operations that stand for the SQL statements the source issues through
  SQLAlchemy (select one, update where, delete where, insert), and the list facts about them
  that carry the component proofs.

  Text is a list of characters; a character is a Unicode code point up to 255.
  An instant is a number of microseconds since the epoch, in UTC.
\<close>

named_theorems table_simps \<open>what the table operations do to keys, filters and lookups\<close>
named_theorems py_simps \<open>evaluation rules of the modelled Python text functions\<close>

type_synonym pystr = string
type_synonym bytes = string
type_synonym time = int

abbreviation seconds :: "int \<Rightarrow> time" where
  "seconds n \<equiv> n * 1000000"

abbreviation days :: "int \<Rightarrow> time" where
  "days n \<equiv> n * 86400000000"


subsection \<open>Tables as lists of rows\<close>

text \<open>
  A table is the list of its rows in insertion order. \<open>scalar_one_or_none\<close> is the source's
  \<open>session.execute(select(..).where(P)).scalar_one_or_none()\<close> on a filter that contains a
  unique key, so at most one row qualifies (\<open>scalar_unique\<close> below).
\<close>

definition scalar_one_or_none :: "('a \<Rightarrow> bool) \<Rightarrow> 'a list \<Rightarrow> 'a option" where
  "scalar_one_or_none P rows = find P rows"

definition upd_where :: "('a \<Rightarrow> bool) \<Rightarrow> ('a \<Rightarrow> 'a) \<Rightarrow> 'a list \<Rightarrow> 'a list" where
  "upd_where P f rows = map (\<lambda>r. if P r then f r else r) rows"

definition del_where :: "('a \<Rightarrow> bool) \<Rightarrow> 'a list \<Rightarrow> 'a list" where
  "del_where P rows = filter (\<lambda>r. \<not> P r) rows"

definition unique :: "('a \<Rightarrow> 'k) \<Rightarrow> 'a list \<Rightarrow> bool" where
  "unique key rows = distinct (map key rows)"

text \<open>A UNIQUE constraint with a nullable column: rows with NULL never clash.\<close>

definition unique_nullable :: "('a \<Rightarrow> 'k option) \<Rightarrow> 'a list \<Rightarrow> bool" where
  "unique_nullable key rows = distinct (map key (filter (\<lambda>r. key r \<noteq> None) rows))"

lemma scalar_SomeD: "scalar_one_or_none P rows = Some r \<Longrightarrow> P r \<and> r \<in> set rows"
  by (auto simp: scalar_one_or_none_def find_Some_iff)

lemma scalar_None_iff [table_simps]:
  "scalar_one_or_none P rows = None \<longleftrightarrow> (\<forall>r\<in>set rows. \<not> P r)"
  by (auto simp: scalar_one_or_none_def find_None_iff)

lemma scalar_Nil [simp]: "scalar_one_or_none P [] = None"
  by (simp add: scalar_one_or_none_def)

lemma scalar_Cons:
  "scalar_one_or_none P (r # rows) = (if P r then Some r else scalar_one_or_none P rows)"
  by (simp add: scalar_one_or_none_def)

lemma scalar_append [table_simps]:
  "scalar_one_or_none P (xs @ ys) =
     (case scalar_one_or_none P xs of None \<Rightarrow> scalar_one_or_none P ys | Some r \<Rightarrow> Some r)"
  by (induction xs) (auto simp: scalar_Cons)

lemma unique_inj: "unique key rows \<Longrightarrow> r \<in> set rows \<Longrightarrow> r' \<in> set rows \<Longrightarrow> key r = key r' \<Longrightarrow> r = r'"
  by (simp add: unique_def distinct_map inj_on_def)

lemma scalar_unique:
  assumes "unique key rows" and "r \<in> set rows" and "P r"
    and "\<And>r'. P r' \<Longrightarrow> key r' = key r"
  shows "scalar_one_or_none P rows = Some r"
proof (cases "scalar_one_or_none P rows")
  case None
  with assms(2,3) show ?thesis by (auto simp: scalar_None_iff)
next
  case (Some r')
  with scalar_SomeD [OF Some] assms show ?thesis by (auto dest: unique_inj)
qed

lemma unique_Nil [simp]: "unique key []"
  by (simp add: unique_def)

lemma unique_snoc [table_simps]:
  "unique key (rows @ [r]) \<longleftrightarrow> unique key rows \<and> (\<forall>r'\<in>set rows. key r' \<noteq> key r)"
  by (auto simp: unique_def image_iff)

lemma unique_nullable_Nil [simp]: "unique_nullable key []"
  by (simp add: unique_nullable_def)

lemma unique_nullable_snoc [table_simps]:
  "unique_nullable key (rows @ [r]) \<longleftrightarrow>
     unique_nullable key rows \<and> (key r = None \<or> (\<forall>r'\<in>set rows. key r' \<noteq> key r))"
  by (auto simp: unique_nullable_def image_iff)

lemma map_upd_where [table_simps]:
  "(\<And>r. g (f r) = g r) \<Longrightarrow> map g (upd_where P f rows) = map g rows"
  by (simp add: upd_where_def)

lemma unique_upd_where [table_simps]:
  "(\<And>r. key (f r) = key r) \<Longrightarrow> unique key (upd_where P f rows) = unique key rows"
  by (simp add: unique_def map_upd_where)

lemma unique_nullable_upd_where [table_simps]:
  assumes "\<And>r. key (f r) = key r"
  shows "unique_nullable key (upd_where P f rows) = unique_nullable key rows"
proof -
  have "map key (filter (\<lambda>r. key r \<noteq> None) (upd_where P f rows)) =
        map key (filter (\<lambda>r. key r \<noteq> None) rows)"
    by (induction rows) (auto simp: upd_where_def assms)
  then show ?thesis by (simp add: unique_nullable_def)
qed

lemma length_upd_where [simp]: "length (upd_where P f rows) = length rows"
  by (simp add: upd_where_def)

lemma upd_where_Nil [simp]: "upd_where P f [] = []"
  by (simp add: upd_where_def)

lemma upd_where_append [table_simps]:
  "upd_where P f (xs @ ys) = upd_where P f xs @ upd_where P f ys"
  by (simp add: upd_where_def)

lemma upd_where_none [table_simps]:
  "(\<And>r. r \<in> set rows \<Longrightarrow> \<not> P r) \<Longrightarrow> upd_where P f rows = rows"
  unfolding upd_where_def by (rule map_idI) simp

lemma in_set_upd_where:
  "r \<in> set (upd_where P f rows) \<longleftrightarrow> (\<exists>r0\<in>set rows. r = (if P r0 then f r0 else r0))"
  by (auto simp: upd_where_def)

lemma filter_upd_where_other [table_simps]:
  assumes "\<And>r. P r \<Longrightarrow> \<not> Q r" and "\<And>r. Q (f r) = Q r"
  shows "filter Q (upd_where P f rows) = filter Q rows"
  by (induction rows) (auto simp: upd_where_def assms)

lemma filter_del_where_other [table_simps]:
  assumes "\<And>r. P r \<Longrightarrow> \<not> Q r"
  shows "filter Q (del_where P rows) = filter Q rows"
  by (induction rows) (auto simp: del_where_def assms)

lemma unique_del_where [table_simps]: "unique key rows \<Longrightarrow> unique key (del_where P rows)"
  by (simp add: unique_def del_where_def distinct_map_filter)

lemma unique_nullable_del_where [table_simps]:
  "unique_nullable key rows \<Longrightarrow> unique_nullable key (del_where P rows)"
proof (induction rows)
  case (Cons a rows)
  then show ?case
    by (auto simp: unique_nullable_def del_where_def image_iff) (metis option.distinct(1))+
qed (simp add: del_where_def)

lemma set_del_where [table_simps]: "set (del_where P rows) = {r \<in> set rows. \<not> P r}"
  by (auto simp: del_where_def)

lemma scalar_upd_where:
  assumes "\<And>r. Q (if P r then f r else r) = Q r"
  shows "scalar_one_or_none Q (upd_where P f rows) =
         map_option (\<lambda>r. if P r then f r else r) (scalar_one_or_none Q rows)"
  using assms by (induction rows) (auto simp: upd_where_def scalar_Cons)


subsection \<open>Small list facts\<close>

lemma filter_snoc_other [table_simps]: "\<not> Q r \<Longrightarrow> filter Q (rows @ [r]) = filter Q rows"
  by simp

lemma find_map_fst_distinct:
  "distinct (map fst kvs) \<Longrightarrow> (k, v) \<in> set kvs \<Longrightarrow> map_of kvs k = Some v"
  by simp

lemma takeWhile_append_stop: "\<forall>x\<in>set xs. P x \<Longrightarrow> \<not> P y \<Longrightarrow> takeWhile P (xs @ y # ys) = xs"
  by (induction xs) auto

lemma dropWhile_append_stop: "\<forall>x\<in>set xs. P x \<Longrightarrow> \<not> P y \<Longrightarrow> dropWhile P (xs @ y # ys) = y # ys"
  by (induction xs) auto

end
