(* ===== verification/Py_Text.thy ===== *)
theory Py_Text
  imports Prelude
begin

text \<open>
  The Python text operations the source uses, on code points up to 255: \<open>str.strip\<close>,
  \<open>str.lower\<close>, \<open>str.join\<close>, decimal printing of integers, \<open>str.split\<close> at a
  separator, and the idiom \<open>(value or "").strip() or None\<close> that normalises optional
  arguments. The lemmas show the normal forms these produce.
\<close>

definition py_isspace :: "char \<Rightarrow> bool" where
  "py_isspace c =
     (let n = (of_char c :: nat) in (9 \<le> n \<and> n \<le> 13) \<or> (28 \<le> n \<and> n \<le> 32) \<or> n = 133 \<or> n = 160)"

definition py_strip_with :: "(char \<Rightarrow> bool) \<Rightarrow> pystr \<Rightarrow> pystr" where
  "py_strip_with P s = rev (dropWhile P (rev (dropWhile P s)))"

definition py_strip :: "pystr \<Rightarrow> pystr" where
  "py_strip s = py_strip_with py_isspace s"

definition lower_char :: "char \<Rightarrow> char" where
  "lower_char c =
     (let n = (of_char c :: nat)
      in if (65 \<le> n \<and> n \<le> 90) \<or> (192 \<le> n \<and> n \<le> 222 \<and> n \<noteq> 215) then char_of (n + 32) else c)"

definition py_lower :: "pystr \<Rightarrow> pystr" where
  "py_lower s = map lower_char s"

text \<open>\<open>(value or "").strip() or None\<close>\<close>

definition strip_or_none :: "pystr option \<Rightarrow> pystr option" where
  "strip_or_none v =
     (let s = py_strip (case v of None \<Rightarrow> [] | Some s \<Rightarrow> s) in if s = [] then None else Some s)"

fun py_join :: "pystr \<Rightarrow> pystr list \<Rightarrow> pystr" where
  "py_join sep [] = []"
| "py_join sep [x] = x"
| "py_join sep (x # y # ys) = x @ sep @ py_join sep (y # ys)"

text \<open>\<open>s.split(sep)\<close> for a one-character separator.\<close>

fun py_split :: "char \<Rightarrow> pystr \<Rightarrow> pystr list" where
  "py_split sep [] = [[]]"
| "py_split sep (c # cs) =
     (if c = sep then [] # py_split sep cs
      else (case py_split sep cs of [] \<Rightarrow> [[c]] | p # ps \<Rightarrow> (c # p) # ps))"

text \<open>\<open>s.split(sep, maxsplit=n)\<close> for a one-character separator.\<close>

fun py_splitn :: "nat \<Rightarrow> char \<Rightarrow> pystr \<Rightarrow> pystr list" where
  "py_splitn 0 sep s = [s]"
| "py_splitn (Suc n) sep s =
     (if sep \<in> set s
      then takeWhile (\<lambda>c. c \<noteq> sep) s # py_splitn n sep (tl (dropWhile (\<lambda>c. c \<noteq> sep) s))
      else [s])"

text \<open>Decimal printing, \<open>str(n)\<close>, and reading it back.\<close>

definition digit_char :: "nat \<Rightarrow> char" where
  "digit_char d = char_of (48 + d)"

definition is_digit :: "char \<Rightarrow> bool" where
  "is_digit c = (let n = (of_char c :: nat) in 48 \<le> n \<and> n \<le> 57)"

definition digit_value :: "char \<Rightarrow> nat" where
  "digit_value c = of_char c - 48"

fun py_str_nat :: "nat \<Rightarrow> pystr" where
  "py_str_nat n = (if n < 10 then [digit_char n] else py_str_nat (n div 10) @ [digit_char (n mod 10)])"

declare py_str_nat.simps [simp del]

definition py_str_int :: "int \<Rightarrow> pystr" where
  "py_str_int i = (if i < 0 then CHR ''-'' # py_str_nat (nat (- i)) else py_str_nat (nat i))"

definition nat_of_digits :: "pystr \<Rightarrow> nat" where
  "nat_of_digits ds = foldl (\<lambda>n c. 10 * n + digit_value c) 0 ds"


subsection \<open>Stripping and lower case\<close>

lemma py_strip_with_id:
  "s = [] \<or> (\<not> P (hd s) \<and> \<not> P (last s)) \<Longrightarrow> py_strip_with P s = s"
proof (cases s)
  case (Cons a t)
  assume "s = [] \<or> (\<not> P (hd s) \<and> \<not> P (last s))"
  with Cons have "dropWhile P s = s" and l: "\<not> P (last s)" by auto
  moreover have "rev s = last s # rev (butlast s)"
    using Cons by (metis append_butlast_last_id list.distinct(1) rev_eq_Cons_iff rev_rev_ident)
  ultimately have "dropWhile P (rev s) = rev s" by (metis dropWhile.simps(2))
  then show ?thesis using \<open>dropWhile P s = s\<close> by (simp add: py_strip_with_def)
qed (simp add: py_strip_with_def)

lemma last_dropWhile: "dropWhile P s \<noteq> [] \<Longrightarrow> last (dropWhile P s) = last s"
  by (induction s) (auto split: if_splits)

lemma hd_py_strip_with:
  assumes "py_strip_with P s \<noteq> []"
  shows "\<not> P (hd (py_strip_with P s)) \<and> \<not> P (last (py_strip_with P s))"
proof -
  let ?d = "dropWhile P s" and ?r = "dropWhile P (rev (dropWhile P s))"
  from assms have r: "?r \<noteq> []" by (auto simp: py_strip_with_def)
  then have "\<not> P (hd ?r)" by (rule hd_dropWhile)
  moreover from r have d: "?d \<noteq> []" by (cases "?d") auto
  then have "\<not> P (hd ?d)" by (rule hd_dropWhile)
  moreover have "last ?r = hd ?d"
    using last_dropWhile [OF r] d by (simp add: last_rev)
  ultimately show ?thesis using r by (simp add: py_strip_with_def hd_rev last_rev)
qed

lemma py_strip_with_idem [simp]: "py_strip_with P (py_strip_with P s) = py_strip_with P s"
  using hd_py_strip_with [of P s] by (cases "py_strip_with P s = []") (auto intro!: py_strip_with_id)

lemma py_strip_idem [simp]: "py_strip (py_strip s) = py_strip s"
  by (simp add: py_strip_def)

lemma set_py_strip_with: "set (py_strip_with P s) \<subseteq> set s"
  unfolding py_strip_with_def by (auto dest!: set_dropWhileD)

lemma py_strip_with_all: "(\<And>c. c \<in> set s \<Longrightarrow> P c) \<Longrightarrow> py_strip_with P s = []"
  by (simp add: py_strip_with_def dropWhile_eq_Nil_conv) (meson set_dropWhileD)

lemma of_char_char_of_small: "n < 256 \<Longrightarrow> of_char (char_of n) = (n :: nat)"
  by simp

lemma of_char_lt_256: "of_char c < (256 :: nat)"
  by (rule nat_of_char_less_256)

lemma lower_char_idem [simp]: "lower_char (lower_char c) = lower_char c"
  using of_char_lt_256 [of c] by (auto simp: lower_char_def Let_def)

lemma isspace_lower [simp]: "py_isspace (lower_char c) = py_isspace c"
  using of_char_lt_256 [of c] by (auto simp: lower_char_def py_isspace_def Let_def)

lemma py_lower_idem [simp]: "py_lower (py_lower s) = py_lower s"
  by (simp add: py_lower_def)

lemma dropWhile_lower: "dropWhile py_isspace (map lower_char s) = map lower_char (dropWhile py_isspace s)"
  by (simp add: dropWhile_map comp_def)

lemma py_strip_lower: "py_strip (py_lower s) = py_lower (py_strip s)"
  by (simp add: py_strip_def py_strip_with_def py_lower_def dropWhile_lower rev_map)

text \<open>The normal form of \<open>value.strip().lower()\<close> is a fixed point of the normalisation.\<close>

lemma strip_lower_idem [simp]: "py_lower (py_strip (py_lower (py_strip s))) = py_lower (py_strip s)"
  by (simp add: py_strip_lower)

lemma py_strip_Nil [simp]: "py_strip [] = []"
  by (simp add: py_strip_def py_strip_with_def)

lemma strip_or_none_idem [simp]: "strip_or_none (strip_or_none v) = strip_or_none v"
  by (simp add: strip_or_none_def Let_def)

lemma strip_or_none_nonempty: "strip_or_none v = Some k \<Longrightarrow> k \<noteq> [] \<and> py_strip k = k"
  by (auto simp: strip_or_none_def Let_def split: if_splits)

lemma strip_or_none_None [simp]: "strip_or_none None = None"
  by (simp add: strip_or_none_def py_strip_def py_strip_with_def)


subsection \<open>Decimal numbers\<close>

lemma is_digit_digit_char [simp]: "d < 10 \<Longrightarrow> is_digit (digit_char d)"
  by (simp add: is_digit_def digit_char_def)

lemma digit_value_digit_char [simp]: "d < 10 \<Longrightarrow> digit_value (digit_char d) = d"
  by (simp add: digit_value_def digit_char_def)

lemma py_str_nat_digits: "\<forall>c\<in>set (py_str_nat n). is_digit c"
proof (induction n rule: py_str_nat.induct)
  case (1 n)
  then show ?case by (subst py_str_nat.simps) auto
qed

lemma py_str_nat_nonempty [simp]: "py_str_nat n \<noteq> []"
  by (subst py_str_nat.simps) simp

lemma nat_of_digits_snoc: "nat_of_digits (ds @ [c]) = 10 * nat_of_digits ds + digit_value c"
  by (simp add: nat_of_digits_def)

lemma nat_of_digits_py_str_nat [simp]: "nat_of_digits (py_str_nat n) = n"
proof (induction n rule: py_str_nat.induct)
  case (1 n)
  show ?case
  proof (cases "n < 10")
    case True
    then show ?thesis by (simp add: py_str_nat.simps [of n] nat_of_digits_def)
  next
    case False
    with 1 show ?thesis by (simp add: py_str_nat.simps [of n] nat_of_digits_snoc)
  qed
qed

lemma py_str_nat_inj: "py_str_nat m = py_str_nat n \<Longrightarrow> m = n"
  by (metis nat_of_digits_py_str_nat)

lemma py_str_nat_hd: "hd (py_str_nat n) = CHR ''0'' \<Longrightarrow> n = 0"
proof (induction n rule: py_str_nat.induct)
  case (1 n)
  show ?case
  proof (cases "n < 10")
    case True
    with "1.prems" have "digit_char n = CHR ''0''" by (simp add: py_str_nat.simps [of n])
    then have "of_char (digit_char n) = (48 :: nat)" by simp
    with True show ?thesis by (simp add: digit_char_def)
  next
    case False
    with "1.prems" have "hd (py_str_nat (n div 10)) = CHR ''0''"
      by (simp add: py_str_nat.simps [of n])
    with "1.IH" False have "n div 10 = 0" by simp
    with False show ?thesis by simp
  qed
qed


subsection \<open>Splitting and joining\<close>

lemma py_split_nonempty [simp]: "py_split sep s \<noteq> []"
  by (cases s) (auto split: list.splits)

lemma py_join_split: "py_join [sep] (py_split sep s) = s"
proof (induction s)
  case (Cons c cs)
  then show ?case
    by (cases "py_split sep cs"; cases "tl (py_split sep cs)") (auto split: list.splits)
qed simp

lemma py_split_no_sep: "p \<in> set (py_split sep s) \<Longrightarrow> sep \<notin> set p"
  by (induction s arbitrary: p) (auto split: if_splits list.splits)

end
