(* ===== verification/Py_Float.thy ===== *)
theory Py_Float
  imports Complex_Main Py_Text
begin

text \<open>
  Python floats as the rationals IEEE binary64 can hold: rounding to the nearest double
  (ties to even), the shortest decimal text \<open>repr\<close> prints, and the fixed two-decimal
  format \<open>f"{x:.2f}"\<close> of the report summaries. Infinities, NaN and the sign of zero are not
  modelled: an operation whose result leaves the finite range is None.
\<close>

definition pow2 :: "int \<Rightarrow> rat" where
  "pow2 e = (if e \<ge> 0 then 2 ^ nat e else 1 / 2 ^ nat (- e))"

definition pow10 :: "int \<Rightarrow> rat" where
  "pow10 e = (if e \<ge> 0 then 10 ^ nat e else 1 / 10 ^ nat (- e))"

function ilog :: "int \<Rightarrow> int \<Rightarrow> int" where
  "ilog b n = (if b < 2 \<or> n < b then 0 else 1 + ilog b (n div b))"
  by pat_completeness auto
termination
proof (relation "measure (\<lambda>(b, n). nat n)")
  fix b n :: int
  assume "\<not> (b < 2 \<or> n < b)"
  then have "n div b < n" "0 < n" by (simp_all add: int_div_less_self)
  then show "((b, n div b), (b, n)) \<in> measure (\<lambda>(b, n). nat n)" by simp
qed simp

declare ilog.simps [simp del]

text \<open>Floor of the base-2 and base-10 logarithm of a positive rational.\<close>

definition floor_log2 :: "rat \<Rightarrow> int" where
  "floor_log2 x =
     (let (p, q) = quotient_of x; e = ilog 2 p - ilog 2 q
      in if pow2 e \<le> x then e else e - 1)"

definition floor_log10 :: "rat \<Rightarrow> int" where
  "floor_log10 x =
     (let (p, q) = quotient_of x; e = ilog 10 p - ilog 10 q
      in if pow10 e \<le> x then e else e - 1)"

definition round_half_even :: "rat \<Rightarrow> int" where
  "round_half_even x =
     (let f = floor x; r = x - of_int f
      in if r < 1/2 then f else if r > 1/2 then f + 1 else if even f then f else f + 1)"

definition round_double :: "rat \<Rightarrow> rat" where
  "round_double x =
     (if x = 0 then 0
      else let a = \<bar>x\<bar>; e = max (floor_log2 a - 52) (- 1074)
           in (if x < 0 then -1 else 1) * of_int (round_half_even (a / pow2 e)) * pow2 e)"

definition max_double :: rat where
  "max_double = of_int ((2 ^ 53 - 1) * 2 ^ 971)"

definition py_float :: "rat \<Rightarrow> rat option" where
  "py_float x = (let y = round_double x in if \<bar>y\<bar> \<le> max_double then Some y else None)"

definition py_float_add :: "rat \<Rightarrow> rat \<Rightarrow> rat" where
  "py_float_add x y = round_double (x + y)"

definition is_double :: "rat \<Rightarrow> bool" where
  "is_double x \<longleftrightarrow> round_double x = x"

text \<open>\<open>round(x, n)\<close>, correctly rounded\<close>

definition py_round :: "nat \<Rightarrow> rat \<Rightarrow> rat" where
  "py_round n x = round_double (of_int (round_half_even (x * 10 ^ n)) / 10 ^ n)"

text \<open>\<open>f"{x:.2f}"\<close>: the exact value rounded to two decimals, ties to even.\<close>

definition pad_zeros :: "nat \<Rightarrow> pystr \<Rightarrow> pystr" where
  "pad_zeros n s = replicate (n - length s) (CHR ''0'') @ s"

definition py_fixed2 :: "rat \<Rightarrow> pystr" where
  "py_fixed2 x =
     (let c = nat (round_half_even (\<bar>x\<bar> * 100))
      in (if x < 0 then ''-'' else '''') @ py_str_nat (c div 100) @ ''.''
         @ pad_zeros 2 (py_str_nat (c mod 100)))"

text \<open>\<open>repr(x)\<close>: the shortest digit string that rounds back to the same double.\<close>

definition decimal_digits :: "rat \<Rightarrow> nat \<Rightarrow> int \<times> int" where
  "decimal_digits x n =
     (let k = floor_log10 x; d = round_half_even (x / pow10 (k - int n + 1))
      in if d = 10 ^ n then (10 ^ (n - 1), k + 1) else (d, k))"

definition shortest_digits :: "rat \<Rightarrow> int \<times> int" where
  "shortest_digits x =
     (case find (\<lambda>n. let (d, k) = decimal_digits x n
                     in round_double (of_int d * pow10 (k - int n + 1)) = x) [1..<18] of
        Some n \<Rightarrow> decimal_digits x n
      | None \<Rightarrow> decimal_digits x 17)"

definition format_repr :: "pystr \<Rightarrow> int \<Rightarrow> pystr" where
  "format_repr ds k =
     (let p = k + 1 in
      if - 4 < p \<and> p \<le> 16 then
        (if p \<le> 0 then ''0.'' @ replicate (nat (- p)) (CHR ''0'') @ ds
         else if int (length ds) \<le> p then ds @ replicate (nat p - length ds) (CHR ''0'') @ ''.0''
         else take (nat p) ds @ ''.'' @ drop (nat p) ds)
      else take 1 ds @ (if length ds > 1 then ''.'' @ drop 1 ds else '''') @ ''e''
           @ (if k < 0 then ''-'' else ''+'') @ pad_zeros 2 (py_str_nat (nat \<bar>k\<bar>)))"

definition py_float_repr :: "rat \<Rightarrow> pystr" where
  "py_float_repr x =
     (if x = 0 then ''0.0''
      else let (d, k) = shortest_digits \<bar>x\<bar>
           in (if x < 0 then ''-'' else '''') @ format_repr (py_str_nat (nat d)) k)"

lemma round_half_even_error: "\<bar>of_int (round_half_even x) - x\<bar> \<le> 1 / 2"
proof -
  have "of_int \<lfloor>x\<rfloor> \<le> x" and "x < of_int \<lfloor>x\<rfloor> + 1"
    using floor_correct [of x] by simp_all
  then show ?thesis by (auto simp: round_half_even_def Let_def abs_le_iff)
qed

lemma round_half_even_of_int [simp]: "round_half_even (of_int n) = n"
  by (simp add: round_half_even_def)

lemma round_half_even_mono: "x \<le> y \<Longrightarrow> round_half_even x \<le> round_half_even y"
proof -
  assume "x \<le> y"
  have fx: "of_int \<lfloor>x\<rfloor> \<le> x" "x < of_int \<lfloor>x\<rfloor> + 1"
    and fy: "of_int \<lfloor>y\<rfloor> \<le> y" "y < of_int \<lfloor>y\<rfloor> + 1"
    using floor_correct [of x] floor_correct [of y] by simp_all
  have le: "\<lfloor>x\<rfloor> \<le> \<lfloor>y\<rfloor>" using \<open>x \<le> y\<close> by (rule floor_mono)
  show ?thesis
  proof (cases "\<lfloor>x\<rfloor> = \<lfloor>y\<rfloor>")
    case True
    with \<open>x \<le> y\<close> show ?thesis by (auto simp: round_half_even_def Let_def)
  next
    case False
    with le have "\<lfloor>x\<rfloor> + 1 \<le> \<lfloor>y\<rfloor>" by simp
    then show ?thesis by (auto simp: round_half_even_def Let_def)
  qed
qed

text \<open>The printed amount is within half a cent of the float.\<close>

lemma py_fixed2_error:
  "0 \<le> x \<Longrightarrow> \<bar>of_nat (nat (round_half_even (\<bar>x\<bar> * 100))) / 100 - x\<bar> \<le> 1 / 200"
proof -
  assume "0 \<le> x"
  have "0 \<le> round_half_even (\<bar>x\<bar> * 100)"
    using round_half_even_mono [of "of_int 0" "\<bar>x\<bar> * 100"] round_half_even_of_int [of 0] by simp
  then have "(of_nat (nat (round_half_even (\<bar>x\<bar> * 100))) :: rat) = of_int (round_half_even (\<bar>x\<bar> * 100))"
    by simp
  with round_half_even_error [of "\<bar>x\<bar> * 100"] \<open>0 \<le> x\<close> show ?thesis
    by (simp add: abs_le_iff field_simps)
qed

end
