(* ===== verification/Py_Json.thy ===== *)
theory Py_Json
  imports Py_Float
begin

text \<open>
  The source stores structured columns (\<open>config_json\<close>, \<open>providers_json\<close>,
  \<open>payload_json\<close>, \<open>requested_formats_json\<close>, ..) as the text \<open>json.dumps\<close> prints and
  reads some of them back with \<open>json.loads\<close>. This theory models the two calls: the printer
  with its separators and escapes, the parser with its error case (None is
  \<open>JSONDecodeError\<close>), and the round trip \<open>json_loads_dumps\<close>. Numbers with a fraction go
  through \<open>Py_Float\<close>; NaN, infinities and escapes above code point 255 are outside the model
  (the parser rejects them).
\<close>

datatype json =
    JNull
  | JBool bool
  | JInt int
  | JFloat rat
  | JStr pystr
  | JList "json list"
  | JObj "(pystr \<times> json) list"

subsection \<open>Dictionaries in insertion order\<close>

text \<open>\<open>d[k] = v\<close> keeps the position of an existing key; \<open>d.pop(k, None)\<close> removes it.\<close>

fun dict_set :: "'k \<Rightarrow> 'v \<Rightarrow> ('k \<times> 'v) list \<Rightarrow> ('k \<times> 'v) list" where
  "dict_set k v [] = [(k, v)]"
| "dict_set k v ((k', v') # kvs) = (if k = k' then (k, v) # kvs else (k', v') # dict_set k v kvs)"

definition dict_pop :: "'k \<Rightarrow> ('k \<times> 'v) list \<Rightarrow> ('k \<times> 'v) list" where
  "dict_pop k kvs = filter (\<lambda>kv. fst kv \<noteq> k) kvs"

definition dict_of :: "('k \<times> 'v) list \<Rightarrow> ('k \<times> 'v) list" where
  "dict_of kvs = foldl (\<lambda>d kv. dict_set (fst kv) (snd kv) d) [] kvs"

lemma map_of_dict_set [simp]: "map_of (dict_set k v kvs) = (map_of kvs)(k \<mapsto> v)"
  by (induction kvs) (auto simp: fun_eq_iff)

lemma keys_dict_set: "fst ` set (dict_set k v kvs) = insert k (fst ` set kvs)"
proof (induction kvs)
  case (Cons kv kvs)
  then show ?case by (cases kv) (simp add: insert_commute)
qed simp

lemma distinct_dict_set [simp]: "distinct (map fst kvs) \<Longrightarrow> distinct (map fst (dict_set k v kvs))"
proof (induction kvs)
  case (Cons kv kvs)
  then show ?case using keys_dict_set [of k v kvs] by (cases kv) auto
qed simp

lemma map_of_dict_pop [simp]: "map_of (dict_pop k kvs) = (map_of kvs)(k := None)"
  by (induction kvs) (auto simp: dict_pop_def fun_eq_iff)

lemma distinct_dict_pop [simp]: "distinct (map fst kvs) \<Longrightarrow> distinct (map fst (dict_pop k kvs))"
  by (simp add: dict_pop_def distinct_map_filter)

lemma dict_set_snoc: "k \<notin> fst ` set kvs \<Longrightarrow> dict_set k v kvs = kvs @ [(k, v)]"
  by (induction kvs) auto

lemma dict_of_snoc: "dict_of (kvs @ [(k, v)]) = dict_set k v (dict_of kvs)"
  by (simp add: dict_of_def)

lemma dict_of_distinct: "distinct (map fst kvs) \<Longrightarrow> dict_of kvs = kvs"
proof (induction kvs rule: rev_induct)
  case Nil
  show ?case by (simp add: dict_of_def)
next
  case (snoc kv kvs)
  then show ?case by (cases kv) (simp add: dict_of_snoc dict_set_snoc)
qed

text \<open>\<open>json.dumps(.., sort_keys=True)\<close> sorts the members of every object.\<close>

fun json_sort :: "json \<Rightarrow> json" where
  "json_sort (JList js) = JList (map json_sort js)"
| "json_sort (JObj kvs) = JObj (sort_key fst (map (\<lambda>(k, v). (k, json_sort v)) kvs))"
| "json_sort j = j"


subsection \<open>Printing\<close>

definition quote_c :: char where "quote_c = CHR 0x22"
definition bslash_c :: char where "bslash_c = CHR 0x5C"

definition hex_digit :: "nat \<Rightarrow> char" where
  "hex_digit n = (if n < 10 then char_of (48 + n) else char_of (87 + n))"

definition hex_value :: "char \<Rightarrow> nat option" where
  "hex_value c =
     (let n = (of_char c :: nat) in
      if 48 \<le> n \<and> n \<le> 57 then Some (n - 48)
      else if 97 \<le> n \<and> n \<le> 102 then Some (n - 87)
      else if 65 \<le> n \<and> n \<le> 70 then Some (n - 55)
      else None)"

definition u_escape :: "char \<Rightarrow> pystr" where
  "u_escape c =
     (let n = (of_char c :: nat)
      in [bslash_c, CHR ''u'', CHR ''0'', CHR ''0'', hex_digit (n div 16), hex_digit (n mod 16)])"

definition json_escape :: "bool \<Rightarrow> char \<Rightarrow> pystr" where
  "json_escape ascii c =
     (if c = quote_c then [bslash_c, quote_c]
      else if c = bslash_c then [bslash_c, bslash_c]
      else if c = CHR 0x0A then [bslash_c, CHR ''n'']
      else if c = CHR 0x0D then [bslash_c, CHR ''r'']
      else if c = CHR 0x09 then [bslash_c, CHR ''t'']
      else if c = CHR 0x0C then [bslash_c, CHR ''f'']
      else if c = CHR 0x08 then [bslash_c, CHR ''b'']
      else if (of_char c :: nat) < 32 \<or> (ascii \<and> (of_char c :: nat) > 126) then u_escape c
      else [c])"

definition json_quote :: "bool \<Rightarrow> pystr \<Rightarrow> pystr" where
  "json_quote ascii s = quote_c # concat (map (json_escape ascii) s) @ [quote_c]"

fun json_str :: "bool \<Rightarrow> pystr \<Rightarrow> pystr \<Rightarrow> json \<Rightarrow> pystr" where
  "json_str a isep ksep JNull = ''null''"
| "json_str a isep ksep (JBool b) = (if b then ''true'' else ''false'')"
| "json_str a isep ksep (JInt i) = py_str_int i"
| "json_str a isep ksep (JFloat x) = py_float_repr x"
| "json_str a isep ksep (JStr s) = json_quote a s"
| "json_str a isep ksep (JList js) = ''['' @ py_join isep (map (json_str a isep ksep) js) @ '']''"
| "json_str a isep ksep (JObj kvs) =
     ''{'' @ py_join isep (map (\<lambda>(k, v). json_quote a k @ ksep @ json_str a isep ksep v) kvs) @ ''}''"

definition json_dumps :: "json \<Rightarrow> pystr" where
  "json_dumps j = json_str True '', '' '': '' j"

definition json_dumps_sorted :: "json \<Rightarrow> pystr" where
  "json_dumps_sorted j = json_dumps (json_sort j)"

text \<open>\<open>json.dumps(payload, separators=(",", ":"), sort_keys=True)\<close>\<close>

definition json_dumps_compact :: "json \<Rightarrow> pystr" where
  "json_dumps_compact j = json_str True '','' '':'' (json_sort j)"


subsection \<open>Parsing\<close>

definition json_ws :: "char \<Rightarrow> bool" where
  "json_ws c \<longleftrightarrow> c = CHR '' '' \<or> c = CHR 0x09 \<or> c = CHR 0x0A \<or> c = CHR 0x0D"

definition skip_ws :: "pystr \<Rightarrow> pystr" where
  "skip_ws s = dropWhile json_ws s"

definition unescape :: "char \<Rightarrow> char option" where
  "unescape c =
     (if c = quote_c \<or> c = bslash_c \<or> c = CHR ''/'' then Some c
      else if c = CHR ''n'' then Some (CHR 0x0A)
      else if c = CHR ''r'' then Some (CHR 0x0D)
      else if c = CHR ''t'' then Some (CHR 0x09)
      else if c = CHR ''f'' then Some (CHR 0x0C)
      else if c = CHR ''b'' then Some (CHR 0x08)
      else None)"

definition u_unescape :: "char \<Rightarrow> char \<Rightarrow> char \<Rightarrow> char \<Rightarrow> char option" where
  "u_unescape a b c d =
     (case (hex_value a, hex_value b, hex_value c, hex_value d) of
        (Some 0, Some 0, Some h, Some l) \<Rightarrow> Some (char_of (16 * h + l))
      | _ \<Rightarrow> None)"

definition cons_fst :: "'a \<Rightarrow> ('a list \<times> 'b) option \<Rightarrow> ('a list \<times> 'b) option" where
  "cons_fst x r = map_option (\<lambda>(xs, rest). (x # xs, rest)) r"

text \<open>The characters of a string literal after its opening quote.\<close>

fun p_string :: "pystr \<Rightarrow> (pystr \<times> pystr) option" where
  "p_string [] = None"
| "p_string (c # cs) =
     (if c = quote_c then Some ([], cs)
      else if c = bslash_c then
        (case cs of
           [] \<Rightarrow> None
         | e # cs' \<Rightarrow>
             if e = CHR ''u'' then
               (case cs' of
                  h1 # h2 # h3 # h4 # cs'' \<Rightarrow>
                    (case u_unescape h1 h2 h3 h4 of
                       None \<Rightarrow> None
                     | Some ch \<Rightarrow> cons_fst ch (p_string cs''))
                | _ \<Rightarrow> None)
             else (case unescape e of None \<Rightarrow> None | Some ch \<Rightarrow> cons_fst ch (p_string cs')))
      else if (of_char c :: nat) < 32 then None
      else cons_fst c (p_string cs))"

definition digits_value :: "pystr \<Rightarrow> rat" where
  "digits_value ds = of_nat (nat_of_digits ds)"

text \<open>The number grammar of \<open>json.scanner\<close>: integer part, optional fraction and exponent.\<close>

definition p_frac :: "pystr \<Rightarrow> (pystr \<times> pystr) option" where
  "p_frac s =
     (case s of
        c # cs \<Rightarrow> if c = CHR ''.'' \<and> takeWhile is_digit cs \<noteq> []
                  then Some (takeWhile is_digit cs, dropWhile is_digit cs) else None
      | [] \<Rightarrow> None)"

definition p_exp :: "pystr \<Rightarrow> (int \<times> pystr) option" where
  "p_exp s =
     (case s of
        c # cs \<Rightarrow>
          if c = CHR ''e'' \<or> c = CHR ''E'' then
            (let sgn = (if cs \<noteq> [] \<and> hd cs = CHR ''-'' then -1 else 1);
                 ds = (if cs \<noteq> [] \<and> (hd cs = CHR ''-'' \<or> hd cs = CHR ''+'') then tl cs else cs)
             in if takeWhile is_digit ds = [] then None
                else Some (sgn * int (nat_of_digits (takeWhile is_digit ds)), dropWhile is_digit ds))
          else None
      | [] \<Rightarrow> None)"

definition float_token :: "bool \<Rightarrow> pystr \<Rightarrow> pystr \<Rightarrow> int \<Rightarrow> rat option" where
  "float_token neg ds fs ex =
     py_float ((if neg then -1 else 1)
       * (digits_value (ds @ fs) * pow10 (ex - int (length fs))))"

definition p_unsigned :: "bool \<Rightarrow> pystr \<Rightarrow> (json \<times> pystr) option" where
  "p_unsigned neg s =
     (let ds = (if s \<noteq> [] \<and> hd s = CHR ''0'' then [CHR ''0''] else takeWhile is_digit s);
          r = drop (length ds) s
      in if ds = [] then None
         else (case p_frac r of
                 None \<Rightarrow>
                   (case p_exp r of
                      None \<Rightarrow> Some (JInt (if neg then - int (nat_of_digits ds) else int (nat_of_digits ds)), r)
                    | Some (ex, r') \<Rightarrow> map_option (\<lambda>x. (JFloat x, r')) (float_token neg ds [] ex))
               | Some (fs, r') \<Rightarrow>
                   (case p_exp r' of
                      None \<Rightarrow> map_option (\<lambda>x. (JFloat x, r')) (float_token neg ds fs 0)
                    | Some (ex, r'') \<Rightarrow> map_option (\<lambda>x. (JFloat x, r'')) (float_token neg ds fs ex))))"

definition p_number :: "pystr \<Rightarrow> (json \<times> pystr) option" where
  "p_number s =
     (case s of c # cs \<Rightarrow> if c = CHR ''-'' then p_unsigned True cs else p_unsigned False s
              | [] \<Rightarrow> None)"

fun p_value :: "nat \<Rightarrow> pystr \<Rightarrow> (json \<times> pystr) option"
and p_elems :: "nat \<Rightarrow> pystr \<Rightarrow> (json list \<times> pystr) option"
and p_members :: "nat \<Rightarrow> pystr \<Rightarrow> ((pystr \<times> json) list \<times> pystr) option" where
  "p_value 0 s = None"
| "p_value (Suc f) s =
     (case skip_ws s of
        [] \<Rightarrow> None
      | c # cs \<Rightarrow>
          if c = quote_c then map_option (\<lambda>(t, r). (JStr t, r)) (p_string cs)
          else if c = CHR ''['' then
            (if skip_ws cs \<noteq> [] \<and> hd (skip_ws cs) = CHR '']'' then Some (JList [], tl (skip_ws cs))
             else map_option (\<lambda>(js, r). (JList js, r)) (p_elems f cs))
          else if c = CHR ''{'' then
            (if skip_ws cs \<noteq> [] \<and> hd (skip_ws cs) = CHR ''}'' then Some (JObj [], tl (skip_ws cs))
             else map_option (\<lambda>(kvs, r). (JObj (dict_of kvs), r)) (p_members f cs))
          else if take 4 (c # cs) = ''null'' then Some (JNull, drop 3 cs)
          else if take 4 (c # cs) = ''true'' then Some (JBool True, drop 3 cs)
          else if take 5 (c # cs) = ''false'' then Some (JBool False, drop 4 cs)
          else p_number (c # cs))"
| "p_elems 0 s = None"
| "p_elems (Suc f) s =
     (case p_value f s of
        None \<Rightarrow> None
      | Some (v, r) \<Rightarrow>
          (case skip_ws r of
             [] \<Rightarrow> None
           | c # cs \<Rightarrow>
               if c = CHR '','' then cons_fst v (p_elems f cs)
               else if c = CHR '']'' then Some ([v], cs)
               else None))"
| "p_members 0 s = None"
| "p_members (Suc f) s =
     (case skip_ws s of
        [] \<Rightarrow> None
      | c # cs \<Rightarrow>
          if c \<noteq> quote_c then None
          else (case p_string cs of
                  None \<Rightarrow> None
                | Some (k, r) \<Rightarrow>
                    (case skip_ws r of
                       [] \<Rightarrow> None
                     | c' # cs' \<Rightarrow>
                         if c' \<noteq> CHR '':'' then None
                         else (case p_value f cs' of
                                 None \<Rightarrow> None
                               | Some (v, r') \<Rightarrow>
                                   (case skip_ws r' of
                                      [] \<Rightarrow> None
                                    | c'' # cs'' \<Rightarrow>
                                        if c'' = CHR '','' then cons_fst (k, v) (p_members f cs'')
                                        else if c'' = CHR ''}'' then Some ([(k, v)], cs'')
                                        else None)))))"

text \<open>Every call consumes a character or precedes one that does: the fuel below is enough.\<close>

definition json_loads :: "pystr \<Rightarrow> json option" where
  "json_loads s =
     (case p_value (2 * length s + 2) s of
        None \<Rightarrow> None
      | Some (j, r) \<Rightarrow> if skip_ws r = [] then Some j else None)"


subsection \<open>Strings round trip\<close>

lemma hex_value_hex_digit [simp]: "n < 16 \<Longrightarrow> hex_value (hex_digit n) = Some n"
  by (auto simp: hex_value_def hex_digit_def Let_def)

lemma hex_value_zero [simp]: "hex_value (CHR ''0'') = Some 0"
  by (simp add: hex_value_def)

lemma u_unescape_escape:
  "u_unescape (CHR ''0'') (CHR ''0'') (hex_digit (of_char c div 16)) (hex_digit (of_char c mod 16)) = Some c"
proof -
  have "of_char c div 16 < (16 :: nat)" using of_char_lt_256 [of c] by (intro less_mult_imp_div_less) simp
  then show ?thesis by (simp add: u_unescape_def)
qed

lemma special_chars [simp]:
  "quote_c \<noteq> bslash_c" "bslash_c \<noteq> quote_c"
  "CHR ''u'' \<noteq> quote_c" "CHR ''u'' \<noteq> bslash_c"
  by (simp_all add: quote_c_def bslash_c_def)

lemma unescape_simps [simp]:
  "unescape quote_c = Some quote_c" "unescape bslash_c = Some bslash_c"
  "unescape (CHR ''n'') = Some (CHR 0x0A)" "unescape (CHR ''r'') = Some (CHR 0x0D)"
  "unescape (CHR ''t'') = Some (CHR 0x09)" "unescape (CHR ''f'') = Some (CHR 0x0C)"
  "unescape (CHR ''b'') = Some (CHR 0x08)"
  by (simp_all add: unescape_def quote_c_def bslash_c_def)

lemma quote_bslash_u [simp]: "quote_c \<noteq> CHR ''u''" "bslash_c \<noteq> CHR ''u''"
  by (simp_all add: quote_c_def bslash_c_def)

lemma p_string_escape: "p_string (json_escape a c @ rest) = cons_fst c (p_string rest)"
  by (auto simp: json_escape_def u_escape_def u_unescape_escape Let_def)

lemma p_string_body: "p_string (concat (map (json_escape a) s) @ quote_c # rest) = Some (s, rest)"
  by (induction s) (auto simp: p_string_escape cons_fst_def)


subsection \<open>Numbers round trip\<close>

text \<open>What may follow a number without becoming part of it.\<close>

definition number_stop :: "pystr \<Rightarrow> bool" where
  "number_stop s \<longleftrightarrow>
     s = [] \<or> \<not> (is_digit (hd s) \<or> hd s = CHR ''.'' \<or> hd s = CHR ''e'' \<or> hd s = CHR ''E'')"

lemma takeWhile_digits:
  "number_stop rest \<Longrightarrow> takeWhile is_digit (py_str_nat n @ rest) = py_str_nat n"
  using py_str_nat_digits [of n]
  by (cases rest) (auto simp: number_stop_def takeWhile_append_stop)

lemma p_frac_stop [simp]: "number_stop rest \<Longrightarrow> p_frac rest = None"
  by (cases rest) (auto simp: p_frac_def number_stop_def)

lemma p_exp_stop [simp]: "number_stop rest \<Longrightarrow> p_exp rest = None"
  by (cases rest) (auto simp: p_exp_def number_stop_def)

lemma py_str_nat_0 [simp]: "py_str_nat 0 = ''0''"
  by code_simp

lemma p_unsigned_nat:
  assumes "number_stop rest"
  shows "p_unsigned neg (py_str_nat n @ rest) = Some (JInt (if neg then - int n else int n), rest)"
proof (cases "n = 0")
  case True
  with assms show ?thesis
    by (simp add: p_unsigned_def nat_of_digits_def digit_value_def)
next
  case False
  with py_str_nat_hd [of n] have "hd (py_str_nat n) \<noteq> CHR ''0''" by auto
  with assms show ?thesis
    by (simp add: p_unsigned_def takeWhile_digits Let_def)
qed

lemma minus_not_digit: "\<not> is_digit (CHR ''-'')"
  by (simp add: is_digit_def)

lemma hd_py_str_nat_not_minus: "hd (py_str_nat n) \<noteq> CHR ''-''"
  using py_str_nat_digits [of n] minus_not_digit by (metis hd_in_set py_str_nat_nonempty)

lemma p_number_int:
  assumes "number_stop rest"
  shows "p_number (py_str_int i @ rest) = Some (JInt i, rest)"
proof (cases "i < 0")
  case True
  with assms show ?thesis by (simp add: p_number_def py_str_int_def p_unsigned_nat)
next
  case False
  obtain c cs where "py_str_nat (nat i) = c # cs" by (cases "py_str_nat (nat i)") auto
  moreover from this hd_py_str_nat_not_minus [of "nat i"] have "c \<noteq> CHR ''-''" by simp
  ultimately show ?thesis
    using assms False p_unsigned_nat [of rest False "nat i"]
    by (simp add: p_number_def py_str_int_def)
qed


subsection \<open>Values round trip\<close>

text \<open>Trees without floats and without repeated keys, which is what Python dictionaries are.\<close>

fun json_wf :: "json \<Rightarrow> bool" where
  "json_wf (JFloat x) = False"
| "json_wf (JList js) = list_all json_wf js"
| "json_wf (JObj kvs) = (distinct (map fst kvs) \<and> list_all (\<lambda>kv. json_wf (snd kv)) kvs)"
| "json_wf j = True"

text \<open>The nesting the parser goes through on a printed tree.\<close>

fun json_need :: "json \<Rightarrow> nat" where
  "json_need (JList js) = Suc (sum_list (map (\<lambda>j. Suc (json_need j)) js))"
| "json_need (JObj kvs) = Suc (sum_list (map (\<lambda>(k, v). Suc (json_need v)) kvs))"
| "json_need j = 1"

definition all_ws :: "pystr \<Rightarrow> bool" where
  "all_ws w \<longleftrightarrow> (\<forall>c\<in>set w. json_ws c)"

lemma skip_ws_append [simp]: "all_ws w \<Longrightarrow> skip_ws (w @ s) = skip_ws s"
  by (simp add: skip_ws_def all_ws_def dropWhile_append)

lemma skip_ws_Cons [simp]: "\<not> json_ws c \<Longrightarrow> skip_ws (c # s) = c # s"
  by (simp add: skip_ws_def)

lemma skip_ws_Nil [simp]: "skip_ws [] = []"
  by (simp add: skip_ws_def)

lemma json_ws_punct [simp]:
  "\<not> json_ws quote_c" "\<not> json_ws (CHR '','')" "\<not> json_ws (CHR '':'')"
  "\<not> json_ws (CHR ''n'')" "\<not> json_ws (CHR ''t'')" "\<not> json_ws (CHR ''f'')"
  "\<not> json_ws (CHR ''['')" "\<not> json_ws (CHR '']'')" "\<not> json_ws (CHR ''{'')" "\<not> json_ws (CHR ''}'')"
  by (simp_all add: json_ws_def quote_c_def)

lemma quote_punct [simp]:
  "quote_c \<noteq> CHR ''[''" "quote_c \<noteq> CHR ''{''" "CHR ''['' \<noteq> quote_c" "CHR ''{'' \<noteq> quote_c"
  "quote_c \<noteq> CHR '']''" "quote_c \<noteq> CHR ''}''"
  by (simp_all add: quote_c_def)

lemma p_value_ws: "all_ws w \<Longrightarrow> p_value f (w @ s) = p_value f s"
  by (cases f) simp_all

lemma p_elems_ws: "all_ws w \<Longrightarrow> p_elems f (w @ s) = p_elems f s"
  by (cases f) (simp_all add: p_value_ws)

lemma p_members_ws: "all_ws w \<Longrightarrow> p_members f (w @ s) = p_members f s"
  by (cases f) simp_all

lemma number_stop_punct [simp]:
  "number_stop (CHR '','' # s)" "number_stop (CHR '']'' # s)" "number_stop (CHR ''}'' # s)" "number_stop []"
  by (simp_all add: number_stop_def is_digit_def)

text \<open>First characters of the printed values decide the parser's branch.\<close>

lemma digit_head:
  assumes "is_digit c \<or> c = CHR ''-''"
  shows "\<not> json_ws c \<and> c \<noteq> quote_c \<and> c \<noteq> CHR ''['' \<and> c \<noteq> CHR ''{'' \<and>
     c \<noteq> CHR ''n'' \<and> c \<noteq> CHR ''t'' \<and> c \<noteq> CHR ''f'' \<and> c \<noteq> CHR '']'' \<and> c \<noteq> CHR ''}''"
  using assms by (auto simp: is_digit_def json_ws_def quote_c_def Let_def)

lemma py_str_int_head: "\<exists>c cs. py_str_int i = c # cs \<and> (is_digit c \<or> c = CHR ''-'')"
  using py_str_nat_digits [of "nat i"]
  by (cases "py_str_nat (nat i)") (auto simp: py_str_int_def)

lemma p_value_int:
  assumes "number_stop rest"
  shows "p_value (Suc f) (py_str_int i @ rest) = Some (JInt i, rest)"
proof -
  obtain c cs where c: "py_str_int i = c # cs" "is_digit c \<or> c = CHR ''-''"
    using py_str_int_head by blast
  with digit_head [of c] p_number_int [OF assms, of i] show ?thesis by simp
qed

text \<open>What a tree's text does when parsed with enough fuel, and the two list loops.\<close>

definition parses :: "(json \<Rightarrow> pystr) \<Rightarrow> json \<Rightarrow> bool" where
  "parses pr j \<longleftrightarrow>
     (\<forall>f rest. json_need j \<le> f \<longrightarrow> number_stop rest \<longrightarrow> p_value f (pr j @ rest) = Some (j, rest))"

lemma parsesD: "parses pr j \<Longrightarrow> json_need j \<le> f \<Longrightarrow> number_stop rest \<Longrightarrow> p_value f (pr j @ rest) = Some (j, rest)"
  by (simp add: parses_def)

lemma p_elems_join:
  assumes "all_ws w" and "js \<noteq> []" and "\<forall>j\<in>set js. parses pr j"
    and "sum_list (map (\<lambda>j. Suc (json_need j)) js) \<le> f"
  shows "p_elems f (py_join (CHR '','' # w) (map pr js) @ CHR '']'' # rest) = Some (js, rest)"
  using assms(2-4)
proof (induction js arbitrary: f)
  case (Cons j js)
  obtain f' where f: "f = Suc f'" using Cons.prems by (cases f) auto
  have j: "parses pr j" and need: "json_need j \<le> f'" using Cons.prems f by auto
  show ?case
  proof (cases js)
    case Nil
    then show ?thesis using f j need parsesD [OF j need] by simp
  next
    case (Cons j' js')
    with Cons.prems f
    have "p_elems f' (py_join (CHR '','' # w) (map pr js) @ CHR '']'' # rest) = Some (js, rest)"
      by (intro Cons.IH) auto
    with Cons f show ?thesis
      using parsesD [OF j need] by (simp add: p_elems_ws assms(1) cons_fst_def)
  qed
qed simp

lemma p_members_join:
  assumes "all_ws w" and "all_ws w'" and "kvs \<noteq> []" and "\<forall>kv\<in>set kvs. parses pr (snd kv)"
    and "sum_list (map (\<lambda>(k, v). Suc (json_need v)) kvs) \<le> f"
  shows "p_members f (py_join (CHR '','' # w)
           (map (\<lambda>(k, v). json_quote a k @ (CHR '':'' # w') @ pr v) kvs) @ CHR ''}'' # rest) = Some (kvs, rest)"
  using assms(3-5)
proof (induction kvs arbitrary: f)
  case (Cons kv kvs)
  obtain k v where kv: "kv = (k, v)" by (cases kv)
  obtain f' where f: "f = Suc f'" using Cons.prems kv by (cases f) auto
  have j: "parses pr v" and need: "json_need v \<le> f'" using Cons.prems f kv by auto
  show ?case
  proof (cases kvs)
    case Nil
    then show ?thesis
      using f kv parsesD [OF j need]
      by (simp add: json_quote_def p_string_body p_value_ws assms(2))
  next
    case (Cons kv' kvs')
    with Cons.prems f kv
    have "p_members f' (py_join (CHR '','' # w)
           (map (\<lambda>(k, v). json_quote a k @ (CHR '':'' # w') @ pr v) kvs) @ CHR ''}'' # rest) = Some (kvs, rest)"
      by (intro Cons.IH) auto
    with Cons f kv show ?thesis
      using parsesD [OF j need]
      by (simp add: json_quote_def p_string_body p_value_ws p_members_ws assms(1,2) cons_fst_def)
  qed
qed simp

lemma json_str_head:
  assumes "json_wf j"
  shows "\<exists>c cs. json_str a is ks j = c # cs \<and> \<not> json_ws c \<and> c \<noteq> CHR '']'' \<and> c \<noteq> CHR ''}''"
proof (cases j)
  case (JInt i)
  then show ?thesis using py_str_int_head [of i] digit_head by fastforce
qed (use assms in \<open>auto simp: json_quote_def json_ws_def quote_c_def\<close>)

lemma py_join_head: "\<exists>cs. py_join sep ((c # x) # xs) = c # cs"
  by (cases xs) auto

lemma json_parses:
  assumes "json_wf j" and "all_ws w" and "all_ws w'"
  shows "parses (json_str a (CHR '','' # w) (CHR '':'' # w')) j"
  using assms(1)
proof (induction j)
  case (JInt i)
  show ?case unfolding parses_def
  proof (intro allI impI)
    fix f rest
    assume "json_need (JInt i) \<le> f" and "number_stop rest"
    then show "p_value f (json_str a (CHR '','' # w) (CHR '':'' # w') (JInt i) @ rest) = Some (JInt i, rest)"
      by (cases f) (simp_all add: p_value_int del: p_value.simps)
  qed
next
  case (JStr s)
  show ?case by (auto simp: parses_def json_quote_def p_string_body dest!: Suc_le_D)
next
  case (JList js)
  let ?pr = "json_str a (CHR '','' # w) (CHR '':'' # w')"
  have ps: "\<forall>j\<in>set js. parses ?pr j" using JList by (auto simp: list_all_iff)
  show ?case unfolding parses_def
  proof (intro allI impI)
    fix f rest
    assume need: "json_need (JList js) \<le> f"
    then obtain f' where f: "f = Suc f'" "sum_list (map (\<lambda>j. Suc (json_need j)) js) \<le> f'"
      by (cases f) auto
    show "p_value f (?pr (JList js) @ rest) = Some (JList js, rest)"
    proof (cases js)
      case Nil
      with f show ?thesis by simp
    next
      case (Cons j js')
      with JList.prems obtain c cs where c: "?pr j = c # cs" "\<not> json_ws c" "c \<noteq> CHR '']''"
        using json_str_head [of j a "CHR '','' # w" "CHR '':'' # w'"] by auto
      obtain ds where "py_join (CHR '','' # w) (map ?pr js) = c # ds"
        using py_join_head [of "CHR '','' # w" c cs "map ?pr js'"] c Cons by auto
      with p_elems_join [OF assms(2) _ ps f(2), of rest] Cons c f show ?thesis by simp
    qed
  qed
next
  case (JObj kvs)
  let ?pr = "json_str a (CHR '','' # w) (CHR '':'' # w')"
  have ps: "\<forall>kv\<in>set kvs. parses ?pr (snd kv)"
    using JObj by (auto simp: list_all_iff snds.simps)
  show ?case unfolding parses_def
  proof (intro allI impI)
    fix f rest
    assume need: "json_need (JObj kvs) \<le> f"
    then obtain f' where f: "f = Suc f'" "sum_list (map (\<lambda>(k, v). Suc (json_need v)) kvs) \<le> f'"
      by (cases f) auto
    let ?m = "\<lambda>(k, v). json_quote a k @ (CHR '':'' # w') @ ?pr v"
    have eq: "?pr (JObj kvs) = ''{'' @ py_join (CHR '','' # w) (map ?m kvs) @ ''}''" by simp
    show "p_value f (?pr (JObj kvs) @ rest) = Some (JObj kvs, rest)"
    proof (cases kvs)
      case Nil
      with f show ?thesis by simp
    next
      case (Cons kv kvs')
      obtain ds where "py_join (CHR '','' # w) (map ?m kvs) = quote_c # ds"
        using py_join_head [of "CHR '','' # w" quote_c _ "map ?m kvs'"] Cons
        by (cases kv) (auto simp: json_quote_def)
      with p_members_join [OF assms(2,3) _ ps f(2), of a rest] Cons f JObj.prems
      show ?thesis unfolding eq by (simp add: dict_of_distinct)
    qed
  qed
qed (use assms in \<open>auto simp: parses_def quote_c_def dest!: Suc_le_D\<close>)

text \<open>The printed text is at least as long as the nesting: the fuel of \<open>json_loads\<close> is enough.\<close>

lemma length_py_join:
  "length (py_join (c # w) xs) + 1 \<ge> sum_list (map (\<lambda>x. Suc (length x)) xs)"
  by (induction "c # w" xs rule: py_join.induct) auto

lemma json_need_le: "json_wf j \<Longrightarrow> json_need j \<le> length (json_str a (CHR '','' # w) (CHR '':'' # w') j)"
proof (induction j)
  case (JInt i)
  obtain c cs where "py_str_int i = c # cs" using py_str_int_head by blast
  then show ?case by simp
next
  case (JList js)
  let ?pr = "json_str a (CHR '','' # w) (CHR '':'' # w')"
  have "sum_list (map (\<lambda>j. Suc (json_need j)) js) \<le> sum_list (map (\<lambda>j. Suc (length (?pr j))) js)"
    using JList by (intro sum_list_mono) (auto simp: list_all_iff)
  also have "\<dots> \<le> length (py_join (CHR '','' # w) (map ?pr js)) + 1"
    using length_py_join [where c = "CHR '',''" and w = w and xs = "map ?pr js"] by (simp add: comp_def)
  finally show ?case by simp
next
  case (JObj kvs)
  let ?pr = "json_str a (CHR '','' # w) (CHR '':'' # w')"
  let ?m = "\<lambda>(k, v). json_quote a k @ (CHR '':'' # w') @ ?pr v"
  have "sum_list (map (\<lambda>(k, v). Suc (json_need v)) kvs) \<le> sum_list (map (\<lambda>x. Suc (length (?m x))) kvs)"
  proof (rule sum_list_mono)
    fix kv assume "kv \<in> set kvs"
    with JObj have "json_need (snd kv) \<le> length (?pr (snd kv))"
      by (cases kv) (auto simp: list_all_iff snds.simps)
    then show "(\<lambda>(k, v). Suc (json_need v)) kv \<le> Suc (length (?m kv))"
      by (cases kv) simp
  qed
  also have "\<dots> \<le> length (py_join (CHR '','' # w) (map ?m kvs)) + 1"
    using length_py_join [where c = "CHR '',''" and w = w and xs = "map ?m kvs"] by (simp add: comp_def)
  finally show ?case by simp
qed (simp_all add: json_quote_def)

lemma json_loads_str:
  assumes "json_wf j" and "all_ws w" and "all_ws w'"
  shows "json_loads (json_str a (CHR '','' # w) (CHR '':'' # w') j) = Some j"
proof -
  let ?s = "json_str a (CHR '','' # w) (CHR '':'' # w') j"
  have "json_need j \<le> 2 * length ?s + 2" using json_need_le [OF assms(1), of a w w'] by simp
  from parsesD [OF json_parses [OF assms] this, of "[]"] show ?thesis
    by (simp add: json_loads_def)
qed

lemma json_loads_dumps: "json_wf j \<Longrightarrow> json_loads (json_dumps j) = Some j"
  using json_loads_str [of j "'' ''" "'' ''" True]
  by (simp add: json_dumps_def all_ws_def json_ws_def)

lemma distinct_fst_sort: "distinct (map fst (sort_key f xs)) = distinct (map fst xs)"
  by (simp add: distinct_map)

lemma map_fst_json_sort: "map fst (map (\<lambda>(k, v). (k, json_sort v)) kvs) = map fst kvs"
  by (induction kvs) auto

lemma json_wf_sort: "json_wf j \<Longrightarrow> json_wf (json_sort j)"
proof (induction j)
  case (JList js)
  then show ?case by (auto simp: list_all_iff)
next
  case (JObj kvs)
  let ?ms = "map (\<lambda>(k, v). (k, json_sort v)) kvs"
  have "distinct (map fst (sort_key fst ?ms))"
    using JObj.prems unfolding distinct_fst_sort map_fst_json_sort by simp
  moreover have "\<forall>kv\<in>set ?ms. json_wf (snd kv)"
    using JObj by (auto simp: list_all_iff snds.simps)
  ultimately show ?case by (simp add: list_all_iff)
qed simp_all

lemma json_loads_dumps_sorted: "json_wf j \<Longrightarrow> json_loads (json_dumps_sorted j) = Some (json_sort j)"
  by (simp add: json_dumps_sorted_def json_loads_dumps json_wf_sort)

lemma json_loads_dumps_compact: "json_wf j \<Longrightarrow> json_loads (json_dumps_compact j) = Some (json_sort j)"
  using json_loads_str [OF json_wf_sort, of j "[]" "[]" True]
  by (simp add: json_dumps_compact_def all_ws_def)

text \<open>Sorting the members of an object does not change a lookup.\<close>

lemma map_of_json_sort:
  assumes "distinct (map fst kvs)" and "json_sort (JObj kvs) = JObj kvs'"
  shows "map_of kvs' k = map_option json_sort (map_of kvs k)"
proof -
  let ?ms = "map (\<lambda>(k, v). (k, json_sort v)) kvs"
  have d: "distinct (map fst ?ms)" unfolding map_fst_json_sort by (rule assms(1))
  have kvs': "kvs' = sort_key fst ?ms" using assms(2) by simp
  have "distinct (map fst kvs')" unfolding kvs' distinct_fst_sort by (rule d)
  moreover have "set kvs' = set ?ms" using kvs' by simp
  ultimately have "map_of kvs' = map_of ?ms" using d by (simp add: map_of_inject_set)
  then show ?thesis by (simp add: map_of_map)
qed

end
