(* ===== verification/Models.thy ===== *)
theory Models
  imports Complex_Main Prelude
begin

text \<open>
  The database schema of \<open>saas/models.py\<close>: one record per mapped class, its columns in
  the source's order and prefixed by the table (\<open>pj_status\<close> is \<open>ParseJob.status\<close>), one
  datatype per enumeration, the database as the record of its tables, and the UNIQUE and
  PRIMARY KEY constraints the schema declares, as the executable check
  \<open>db_violation\<close> that every flush and commit of the model runs.

  A nullable column is an option. A \<open>DateTime\<close> column holds the instant. The columns
  \<open>status\<close> of jobs, files and reports are strings in the source that only ever receive a
  value of their enumeration; here they have the enumeration's type, and
  \<open>job_status_value\<close> is the stored text. Python floats are rationals.
\<close>

datatype py_date = Date (year: int) (month: int) (day: int)

instantiation py_date :: linorder
begin

definition less_eq_py_date :: "py_date \<Rightarrow> py_date \<Rightarrow> bool" where
  "less_eq_py_date a b \<longleftrightarrow>
     year a < year b \<or> (year a = year b \<and>
       (month a < month b \<or> (month a = month b \<and> day a \<le> day b)))"

definition less_py_date :: "py_date \<Rightarrow> py_date \<Rightarrow> bool" where
  "less_py_date a b \<longleftrightarrow>
     year a < year b \<or> (year a = year b \<and>
       (month a < month b \<or> (month a = month b \<and> day a < day b)))"

instance
  by standard (auto simp: less_eq_py_date_def less_py_date_def intro: py_date.expand)

end


subsection \<open>Enumerations\<close>

text \<open>\<open>ParseJobStatus\<close>, \<open>ReportStatus\<close> and \<open>CollectionJobStatus\<close> have the same members.\<close>

datatype job_status = QUEUED | RUNNING | SUCCEEDED | FAILED

fun job_status_value :: "job_status \<Rightarrow> pystr" where
  "job_status_value QUEUED = ''queued''"
| "job_status_value RUNNING = ''running''"
| "job_status_value SUCCEEDED = ''succeeded''"
| "job_status_value FAILED = ''failed''"

definition all_job_statuses :: "job_status list" where
  "all_job_statuses = [QUEUED, RUNNING, SUCCEEDED, FAILED]"

definition job_status_of :: "pystr \<Rightarrow> job_status option" where
  "job_status_of s = find (\<lambda>st. job_status_value st = s) all_job_statuses"

lemma job_status_of_value [simp]: "job_status_of (job_status_value st) = Some st"
  by (cases st) (simp_all add: job_status_of_def all_job_statuses_def)

lemma job_status_value_inj [simp]: "job_status_value a = job_status_value b \<longleftrightarrow> a = b"
  by (metis job_status_of_value option.inject)

datatype file_status = UPLOADED | VALIDATED | PARSED | REJECTED

fun file_status_value :: "file_status \<Rightarrow> pystr" where
  "file_status_value UPLOADED = ''uploaded''"
| "file_status_value VALIDATED = ''validated''"
| "file_status_value PARSED = ''parsed''"
| "file_status_value REJECTED = ''rejected''"


subsection \<open>Identity and access tables\<close>

record tenant =
  tn_id :: pystr
  tn_name :: pystr
  tn_slug :: pystr
  tn_created_at :: time

record user =
  us_id :: pystr
  us_email :: pystr
  us_email_normalized :: pystr
  us_password_hash :: pystr
  us_full_name :: "pystr option"
  us_is_active :: bool
  us_last_login_at :: "time option"
  us_created_at :: time
  us_updated_at :: time

record tenant_membership =
  tm_id :: pystr
  tm_tenant_id :: pystr
  tm_user_id :: pystr
  tm_role :: pystr
  tm_status :: pystr
  tm_created_at :: time
  tm_updated_at :: time

record auth_session =
  as_id :: pystr
  as_tenant_id :: pystr
  as_user_id :: pystr
  as_membership_id :: pystr
  as_refresh_token_hash :: pystr
  as_created_at :: time
  as_updated_at :: time
  as_last_seen_at :: "time option"
  as_access_expires_at :: time
  as_refresh_expires_at :: time
  as_revoked_at :: "time option"
  as_revoke_reason :: "pystr option"
  as_created_ip :: "pystr option"
  as_created_user_agent :: "pystr option"

record provider_config =
  pc_id :: pystr
  pc_tenant_id :: pystr
  pc_provider_type :: pystr
  pc_display_name :: "pystr option"
  pc_connection_status :: pystr
  pc_config_json :: pystr
  pc_token_expires_at :: "time option"
  pc_last_successful_sync_at :: "time option"
  pc_last_error_code :: "pystr option"
  pc_last_error_message :: "pystr option"
  pc_oauth_access_token_enc :: "pystr option"
  pc_oauth_refresh_token_enc :: "pystr option"
  pc_created_at :: time
  pc_updated_at :: time

record api_key =
  ak_id :: pystr
  ak_tenant_id :: pystr
  ak_key_prefix :: pystr
  ak_key_hash :: pystr
  ak_revoked :: bool
  ak_created_at :: time
  ak_revoked_at :: "time option"


subsection \<open>Files, jobs and records\<close>

record invoice_file =
  fl_id :: pystr
  fl_tenant_id :: pystr
  fl_filename :: pystr
  fl_storage_path :: pystr
  fl_mime_type :: pystr
  fl_content_sha256 :: "pystr option"
  fl_bytes :: "int option"
  fl_status :: file_status
  fl_created_at :: time

record parse_job =
  pj_id :: pystr
  pj_tenant_id :: pystr
  pj_status :: job_status
  pj_idempotency_key :: "pystr option"
  pj_queue_job_id :: "pystr option"
  pj_debug :: bool
  pj_records_count :: int
  pj_failed_count :: int
  pj_error_message :: "pystr option"
  pj_created_at :: time
  pj_started_at :: "time option"
  pj_finished_at :: "time option"

record collection_job =
  cj_id :: pystr
  cj_tenant_id :: pystr
  cj_status :: job_status
  cj_idempotency_key :: "pystr option"
  cj_providers_json :: pystr
  cj_month_scope :: pystr
  cj_queue_job_id :: "pystr option"
  cj_files_discovered :: int
  cj_files_downloaded :: int
  cj_parse_job_ids_json :: pystr
  cj_error_message :: "pystr option"
  cj_created_at :: time
  cj_updated_at :: time
  cj_started_at :: "time option"
  cj_finished_at :: "time option"

record parse_job_file =
  pf_parse_job_id :: pystr
  pf_file_id :: pystr
  pf_created_at :: time

record report_parse_job =
  rj_report_id :: pystr
  rj_parse_job_id :: pystr
  rj_created_at :: time

record invoice_record =
  ir_id :: pystr
  ir_tenant_id :: pystr
  ir_parse_job_id :: pystr
  ir_vendor :: pystr
  ir_file_name :: pystr
  ir_invoice_number :: "pystr option"
  ir_invoice_date :: "py_date option"
  ir_invoice_total :: "rat option"
  ir_invoice_vat :: "rat option"
  ir_currency :: pystr
  ir_purpose :: "pystr option"
  ir_raw_json :: pystr
  ir_created_at :: time

record report =
  rp_id :: pystr
  rp_tenant_id :: pystr
  rp_status :: job_status
  rp_idempotency_key :: "pystr option"
  rp_queue_job_id :: "pystr option"
  rp_requested_formats_json :: pystr
  rp_filters_json :: pystr
  rp_error_message :: "pystr option"
  rp_created_at :: time
  rp_started_at :: "time option"
  rp_finished_at :: "time option"

record report_artifact =
  ra_id :: pystr
  ra_tenant_id :: pystr
  ra_report_id :: pystr
  ra_format :: pystr
  ra_storage_path :: pystr
  ra_bytes :: "int option"
  ra_created_at :: time

record audit_event =
  ae_id :: pystr
  ae_tenant_id :: pystr
  ae_event_type :: pystr
  ae_actor :: "pystr option"
  ae_payload_json :: pystr
  ae_created_at :: time

record idempotency_record =
  ik_id :: pystr
  ik_tenant_id :: pystr
  ik_scope :: pystr
  ik_idempotency_key :: pystr
  ik_resource_type :: pystr
  ik_resource_id :: pystr
  ik_created_at :: time


subsection \<open>The database\<close>

record db =
  tenants :: "tenant list"
  users :: "user list"
  memberships :: "tenant_membership list"
  auth_sessions :: "auth_session list"
  provider_configs :: "provider_config list"
  api_keys :: "api_key list"
  invoice_files :: "invoice_file list"
  parse_jobs :: "parse_job list"
  collection_jobs :: "collection_job list"
  parse_job_files :: "parse_job_file list"
  report_parse_jobs :: "report_parse_job list"
  invoice_records :: "invoice_record list"
  reports :: "report list"
  report_artifacts :: "report_artifact list"
  audit_events :: "audit_event list"
  idempotency_records :: "idempotency_record list"

definition empty_db :: db where
  "empty_db = \<lparr>tenants = [], users = [], memberships = [], auth_sessions = [],
     provider_configs = [], api_keys = [], invoice_files = [], parse_jobs = [],
     collection_jobs = [], parse_job_files = [], report_parse_jobs = [], invoice_records = [],
     reports = [], report_artifacts = [], audit_events = [], idempotency_records = []\<rparr>"

text \<open>Keys of the composite UNIQUE constraints; a NULL idempotency key never clashes.\<close>

definition pj_idem_key :: "parse_job \<Rightarrow> (pystr \<times> pystr) option" where
  "pj_idem_key j = map_option (\<lambda>k. (pj_tenant_id j, k)) (pj_idempotency_key j)"

definition cj_idem_key :: "collection_job \<Rightarrow> (pystr \<times> pystr) option" where
  "cj_idem_key j = map_option (\<lambda>k. (cj_tenant_id j, k)) (cj_idempotency_key j)"

definition rp_idem_key :: "report \<Rightarrow> (pystr \<times> pystr) option" where
  "rp_idem_key r = map_option (\<lambda>k. (rp_tenant_id r, k)) (rp_idempotency_key r)"

definition pc_type_key :: "provider_config \<Rightarrow> pystr \<times> pystr" where
  "pc_type_key p = (pc_tenant_id p, pc_provider_type p)"

definition tm_user_key :: "tenant_membership \<Rightarrow> pystr \<times> pystr" where
  "tm_user_key m = (tm_tenant_id m, tm_user_id m)"

definition ik_scope_key :: "idempotency_record \<Rightarrow> pystr \<times> pystr \<times> pystr" where
  "ik_scope_key r = (ik_tenant_id r, ik_scope r, ik_idempotency_key r)"

definition pf_key :: "parse_job_file \<Rightarrow> pystr \<times> pystr" where
  "pf_key l = (pf_parse_job_id l, pf_file_id l)"

definition rj_key :: "report_parse_job \<Rightarrow> pystr \<times> pystr" where
  "rj_key l = (rj_report_id l, rj_parse_job_id l)"

lemmas db_key_defs = pj_idem_key_def cj_idem_key_def rp_idem_key_def pc_type_key_def
  tm_user_key_def ik_scope_key_def pf_key_def rj_key_def

definition uq_provider :: pystr where
  "uq_provider = ''uq_saas_provider_configs_tenant_provider''"

text \<open>Every PRIMARY KEY and UNIQUE constraint of the schema, in the order of the classes.\<close>

definition db_constraints :: "db \<Rightarrow> (pystr \<times> bool) list" where
  "db_constraints d =
    [(''saas_tenants.id'', unique tn_id (tenants d)),
     (''saas_tenants.slug'', unique tn_slug (tenants d)),
     (''saas_users.id'', unique us_id (users d)),
     (''saas_users.email_normalized'', unique us_email_normalized (users d)),
     (''saas_tenant_memberships.id'', unique tm_id (memberships d)),
     (''uq_saas_tenant_memberships_tenant_user'', unique tm_user_key (memberships d)),
     (''saas_auth_sessions.id'', unique as_id (auth_sessions d)),
     (''saas_auth_sessions.refresh_token_hash'', unique as_refresh_token_hash (auth_sessions d)),
     (''saas_provider_configs.id'', unique pc_id (provider_configs d)),
     (uq_provider, unique pc_type_key (provider_configs d)),
     (''saas_api_keys.id'', unique ak_id (api_keys d)),
     (''saas_api_keys.key_hash'', unique ak_key_hash (api_keys d)),
     (''saas_invoice_files.id'', unique fl_id (invoice_files d)),
     (''saas_parse_jobs.id'', unique pj_id (parse_jobs d)),
     (''uq_saas_parse_jobs_idempotency'', unique_nullable pj_idem_key (parse_jobs d)),
     (''saas_collection_jobs.id'', unique cj_id (collection_jobs d)),
     (''uq_saas_collection_jobs_idempotency'', unique_nullable cj_idem_key (collection_jobs d)),
     (''saas_parse_job_files'', unique pf_key (parse_job_files d)),
     (''saas_report_parse_jobs'', unique rj_key (report_parse_jobs d)),
     (''saas_invoice_records.id'', unique ir_id (invoice_records d)),
     (''saas_reports.id'', unique rp_id (reports d)),
     (''uq_saas_reports_idempotency'', unique_nullable rp_idem_key (reports d)),
     (''saas_report_artifacts.id'', unique ra_id (report_artifacts d)),
     (''saas_audit_events.id'', unique ae_id (audit_events d)),
     (''saas_idempotency_records.id'', unique ik_id (idempotency_records d)),
     (''uq_saas_idempotency_scope_key'', unique ik_scope_key (idempotency_records d))]"

text \<open>The first violated constraint, if any: what an \<open>IntegrityError\<close> names.\<close>

definition db_violation :: "db \<Rightarrow> pystr option" where
  "db_violation d = map_option fst (find (\<lambda>c. \<not> snd c) (db_constraints d))"

definition db_ok :: "db \<Rightarrow> bool" where
  "db_ok d \<longleftrightarrow> db_violation d = None"

lemma db_ok_iff: "db_ok d \<longleftrightarrow> (\<forall>c\<in>set (db_constraints d). snd c)"
  unfolding db_ok_def db_violation_def option.map_disc_iff find_None_iff by blast

lemma db_ok_unfold:
  "db_ok d \<longleftrightarrow>
     unique tn_id (tenants d) \<and> unique tn_slug (tenants d) \<and>
     unique us_id (users d) \<and> unique us_email_normalized (users d) \<and>
     unique tm_id (memberships d) \<and> unique tm_user_key (memberships d) \<and>
     unique as_id (auth_sessions d) \<and> unique as_refresh_token_hash (auth_sessions d) \<and>
     unique pc_id (provider_configs d) \<and> unique pc_type_key (provider_configs d) \<and>
     unique ak_id (api_keys d) \<and> unique ak_key_hash (api_keys d) \<and>
     unique fl_id (invoice_files d) \<and>
     unique pj_id (parse_jobs d) \<and> unique_nullable pj_idem_key (parse_jobs d) \<and>
     unique cj_id (collection_jobs d) \<and> unique_nullable cj_idem_key (collection_jobs d) \<and>
     unique pf_key (parse_job_files d) \<and> unique rj_key (report_parse_jobs d) \<and>
     unique ir_id (invoice_records d) \<and>
     unique rp_id (reports d) \<and> unique_nullable rp_idem_key (reports d) \<and>
     unique ra_id (report_artifacts d) \<and> unique ae_id (audit_events d) \<and>
     unique ik_id (idempotency_records d) \<and> unique ik_scope_key (idempotency_records d)"
  unfolding db_ok_iff db_constraints_def by simp

lemma db_violation_None [simp]: "db_violation d = None \<longleftrightarrow> db_ok d"
  by (simp add: db_ok_def)

lemma db_ok_empty [simp]: "db_ok empty_db"
  by (simp add: db_ok_unfold empty_db_def)

end
