(* ===== verification/Runtime.thy ===== *)
theory Runtime
  imports Py_Json Models "HOL-Library.Product_Lexorder"
begin

text \<open>
  What every component shares at run time: the exceptions the code raises, as one datatype
  whose values are the left summand of every fallible operation; the record of the
  primitives that come from outside the repository (randomness, hash functions); and the
  Python built-ins \<open>int(str)\<close>, \<open>str(value)\<close> and the SQL clauses ORDER BY, LIMIT and OFFSET.

  The random primitives are functions of a draw number: the state of the program counts
  the draws it has made, so two draws are two arguments. That two draws differ is a
  hypothesis of the theorems that need it, never of the definitions.
\<close>

datatype exn =
    ValueError pystr
  | RuntimeError pystr
  | KeyError pystr
  | TypeError pystr
  | OverflowError pystr
  | OSError pystr
  | UnicodeEncodeError
  | JSONDecodeError
  | IntegrityError pystr
  | MultipleResultsFound
  | TenantGuardError
  | AuthError (auth_code: pystr) (auth_message: pystr) (auth_status: int)
  | ProviderConfigError (provider_code: pystr) (provider_message: pystr)
  | CollectionJobError (collection_code: pystr) (collection_message: pystr)
  | OtherError pystr

type_synonym 'a res = "exn + 'a"

text \<open>\<open>str(exc)\<close>, which the workers store as a job's error message.\<close>

fun exn_text :: "exn \<Rightarrow> pystr" where
  "exn_text (ValueError m) = m"
| "exn_text (RuntimeError m) = m"
| "exn_text (KeyError m) = CHR 0x27 # m @ [CHR 0x27]"
| "exn_text (TypeError m) = m"
| "exn_text (OverflowError m) = m"
| "exn_text (OSError m) = m"
| "exn_text UnicodeEncodeError = ''ascii codec can't encode character''"
| "exn_text JSONDecodeError = ''Expecting value''"
| "exn_text (IntegrityError c) = ''UNIQUE constraint failed: '' @ c"
| "exn_text MultipleResultsFound = ''Multiple rows were found when one or none was required''"
| "exn_text TenantGuardError = ''Tenant context required for tenant-scoped query. Set session.info['tenant_id'] or disable guard explicitly.''"
| "exn_text (AuthError _ m _) = m"
| "exn_text (ProviderConfigError _ m) = m"
| "exn_text (CollectionJobError _ m) = m"
| "exn_text (OtherError m) = m"

text \<open>Sequencing: the first exception ends the computation.\<close>

fun res_bind :: "'a res \<Rightarrow> ('a \<Rightarrow> 'b res) \<Rightarrow> 'b res" where
  "res_bind (Inl err) f = Inl err"
| "res_bind (Inr x) f = f x"

lemma res_bind_Inr: "res_bind r f = Inr y \<longleftrightarrow> (\<exists>x. r = Inr x \<and> f x = Inr y)"
  by (cases r) auto

text \<open>\<open>sub in s\<close>\<close>

fun py_contains :: "pystr \<Rightarrow> pystr \<Rightarrow> bool" where
  "py_contains sub [] = (sub = [])"
| "py_contains sub (c # s) = (take (length sub) (c # s) = sub \<or> py_contains sub s)"

lemma py_contains_iff: "py_contains sub s \<longleftrightarrow> (\<exists>u v. s = u @ sub @ v)"
proof (induction s)
  case (Cons c s)
  have "(\<exists>u v. c # s = u @ sub @ v) \<longleftrightarrow> (\<exists>v. c # s = sub @ v) \<or> (\<exists>u v. s = u @ sub @ v)"
    by (metis append_Cons append_Nil list.exhaust list.inject)
  moreover have "(\<exists>v. c # s = sub @ v) \<longleftrightarrow> take (length sub) (c # s) = sub"
    by (metis append_eq_conv_conj)
  ultimately show ?case using Cons by simp
qed auto

record env =
  uuid4 :: "nat \<Rightarrow> pystr"
  token_urlsafe :: "nat \<Rightarrow> nat \<Rightarrow> pystr"
  token_hex :: "nat \<Rightarrow> nat \<Rightarrow> pystr"
  token_bytes :: "nat \<Rightarrow> nat \<Rightarrow> bytes"
  sha256 :: "bytes \<Rightarrow> bytes"
  hmac_sha256 :: "bytes \<Rightarrow> bytes \<Rightarrow> bytes"
  pbkdf2_sha256 :: "bytes \<Rightarrow> bytes \<Rightarrow> int \<Rightarrow> bytes"
  ip_literal_ok :: "pystr \<Rightarrow> bool"


subsection \<open>Built-ins\<close>

text \<open>\<open>int(s)\<close>: surrounding white space, a sign, digits with single underscores between.\<close>

fun digits_with_underscores :: "pystr \<Rightarrow> bool" where
  "digits_with_underscores [] = False"
| "digits_with_underscores [c] = is_digit c"
| "digits_with_underscores (c # d # s) =
     (is_digit c \<and> (if d = CHR ''_'' then digits_with_underscores s
                    else digits_with_underscores (d # s)))"

definition py_int_unsigned :: "pystr \<Rightarrow> int option" where
  "py_int_unsigned s =
     (if digits_with_underscores s
      then Some (int (nat_of_digits (filter is_digit s))) else None)"

definition py_int :: "pystr \<Rightarrow> int option" where
  "py_int raw =
     (case py_strip raw of
        [] \<Rightarrow> None
      | c # s \<Rightarrow>
          if c = CHR ''-'' then map_option uminus (py_int_unsigned s)
          else if c = CHR ''+'' then py_int_unsigned s
          else py_int_unsigned (c # s))"

lemma digits_with_underscores_digits:
  "s \<noteq> [] \<Longrightarrow> \<forall>c\<in>set s. is_digit c \<Longrightarrow> digits_with_underscores s"
proof (induction s rule: digits_with_underscores.induct)
  case (3 c d s)
  moreover from 3 have "d \<noteq> CHR ''_''" by (auto simp: is_digit_def)
  ultimately show ?case by simp
qed auto

lemma digit_not_space: "is_digit c \<Longrightarrow> \<not> py_isspace c"
  by (auto simp: is_digit_def py_isspace_def Let_def)

lemma py_strip_digits: "\<forall>c\<in>set s. is_digit c \<Longrightarrow> py_strip s = s"
  unfolding py_strip_def
  by (rule py_strip_with_id) (auto dest!: digit_not_space simp: hd_in_set last_in_set)

lemma py_int_str_nat [simp]: "py_int (py_str_nat n) = Some (int n)"
proof -
  obtain c s where cs: "py_str_nat n = c # s"
    by (cases "py_str_nat n") auto
  have all: "\<forall>x\<in>set (c # s). is_digit x"
    using py_str_nat_digits [of n] by (simp add: cs)
  have "c \<noteq> CHR ''-''" "c \<noteq> CHR ''+''"
    using all by (auto simp: is_digit_def)
  moreover have "filter is_digit (c # s) = c # s"
    using all by (subst filter_id_conv) auto
  moreover have "nat_of_digits (c # s) = n"
    using nat_of_digits_py_str_nat [of n] by (simp add: cs)
  ultimately show ?thesis
    using digits_with_underscores_digits [OF _ all] py_strip_digits [OF all]
    by (simp add: py_int_def py_int_unsigned_def cs del: filter.simps)
qed

text \<open>\<open>repr(str)\<close> and \<open>str(value)\<close> on decoded JSON.\<close>

definition py_repr_char :: "char \<Rightarrow> char \<Rightarrow> pystr" where
  "py_repr_char q c =
     (let n = of_char c :: nat in
      if c = q \<or> c = bslash_c then [bslash_c, c]
      else if n = 9 then [bslash_c, CHR ''t'']
      else if n = 10 then [bslash_c, CHR ''n'']
      else if n = 13 then [bslash_c, CHR ''r'']
      else if n < 32 \<or> (127 \<le> n \<and> n < 161) \<or> n = 173
           then [bslash_c, CHR ''x'', hex_digit (n div 16), hex_digit (n mod 16)]
      else [c])"

definition py_repr_str :: "pystr \<Rightarrow> pystr" where
  "py_repr_str s =
     (let q = (if CHR 0x27 \<in> set s \<and> quote_c \<notin> set s then quote_c else CHR 0x27)
      in q # concat (map (py_repr_char q) s) @ [q])"

fun py_repr :: "json \<Rightarrow> pystr" where
  "py_repr JNull = ''None''"
| "py_repr (JBool b) = (if b then ''True'' else ''False'')"
| "py_repr (JInt i) = py_str_int i"
| "py_repr (JFloat r) = py_float_repr r"
| "py_repr (JStr s) = py_repr_str s"
| "py_repr (JList xs) = ''['' @ py_join '', '' (map py_repr xs) @ '']''"
| "py_repr (JObj kvs) =
     ''{'' @ py_join '', '' (map (\<lambda>(k, v). py_repr_str k @ '': '' @ py_repr v) kvs) @ ''}''"

fun py_str :: "json \<Rightarrow> pystr" where
  "py_str (JStr s) = s"
| "py_str v = py_repr v"

text \<open>Python truthiness of a decoded JSON value.\<close>

fun json_truthy :: "json \<Rightarrow> bool" where
  "json_truthy JNull = False"
| "json_truthy (JBool b) = b"
| "json_truthy (JInt i) = (i \<noteq> 0)"
| "json_truthy (JFloat r) = (r \<noteq> 0)"
| "json_truthy (JStr s) = (s \<noteq> [])"
| "json_truthy (JList xs) = (xs \<noteq> [])"
| "json_truthy (JObj kvs) = (kvs \<noteq> [])"

text \<open>\<open>int(value)\<close>: None for the \<open>TypeError\<close> or \<open>ValueError\<close> Python raises.\<close>

definition trunc_rat :: "rat \<Rightarrow> int" where
  "trunc_rat r = (if 0 \<le> r then \<lfloor>r\<rfloor> else \<lceil>r\<rceil>)"

fun json_int :: "json \<Rightarrow> int option" where
  "json_int (JInt i) = Some i"
| "json_int (JBool b) = Some (if b then 1 else 0)"
| "json_int (JFloat r) = Some (trunc_rat r)"
| "json_int (JStr s) = py_int s"
| "json_int _ = None"


subsection \<open>ORDER BY, LIMIT, OFFSET\<close>

text \<open>\<open>order_by(created_at.desc(), id.desc())\<close>; identifiers are unique, so ties do not occur.\<close>

definition order_desc :: "('a \<Rightarrow> time) \<Rightarrow> ('a \<Rightarrow> pystr) \<Rightarrow> 'a list \<Rightarrow> 'a list" where
  "order_desc created ident rows = rev (sort_key (\<lambda>r. (created r, ident r)) rows)"

definition order_asc :: "('a \<Rightarrow> time) \<Rightarrow> ('a \<Rightarrow> pystr) \<Rightarrow> 'a list \<Rightarrow> 'a list" where
  "order_asc created ident rows = sort_key (\<lambda>r. (created r, ident r)) rows"

definition limit_offset :: "int \<Rightarrow> int \<Rightarrow> 'a list \<Rightarrow> 'a list" where
  "limit_offset n k rows = take (nat n) (drop (nat k) rows)"

lemma set_order_desc [simp]: "set (order_desc c i rows) = set rows"
  by (simp add: order_desc_def)

lemma length_order_desc [simp]: "length (order_desc c i rows) = length rows"
  by (simp add: order_desc_def)

lemma set_order_asc [simp]: "set (order_asc c i rows) = set rows"
  by (simp add: order_asc_def)

lemma set_limit_offset: "set (limit_offset l k rows) \<subseteq> set rows"
  unfolding limit_offset_def by (meson set_drop_subset set_take_subset subset_trans)

text \<open>The newest row comes first.\<close>

lemma order_desc_sorted:
  "sorted_wrt (\<lambda>a b. (created b, ident b) \<le> (created a, ident a)) (order_desc created ident rows)"
proof -
  have "sorted (map (\<lambda>r. (created r, ident r)) (sort_key (\<lambda>r. (created r, ident r)) rows))"
    by simp
  then show ?thesis
    by (simp only: order_desc_def sorted_wrt_rev sorted_map)
qed

text \<open>The pages of a listing, put one after the other, are the listing.\<close>

lemma limit_offset_pages:
  assumes "0 < n"
  shows "concat (map (\<lambda>k. limit_offset (int n) (int (k * n)) rows) [0..<m]) = take (m * n) rows"
proof (induction m)
  case (Suc m)
  have "take (Suc m * n) rows = take (m * n) rows @ take n (drop (m * n) rows)"
    by (metis add.commute mult_Suc take_add)
  moreover have "nat (int m * int n) = m * n"
    by (simp add: nat_mult_distrib)
  ultimately show ?case
    using Suc by (simp add: limit_offset_def)
qed simp


text \<open>A concrete environment, for the runs that the development evaluates.\<close>

definition toy_env :: env where
  "toy_env = \<lparr>uuid4 = (\<lambda>n. ''id-'' @ py_str_nat n), token_urlsafe = (\<lambda>n k. ''tok-'' @ py_str_nat n),
     token_hex = (\<lambda>n k. py_str_nat n), token_bytes = (\<lambda>n k. replicate k (CHR ''s'')),
     sha256 = (\<lambda>b. b), hmac_sha256 = (\<lambda>k m. k @ m), pbkdf2_sha256 = (\<lambda>p s i. p @ s),
     ip_literal_ok = (\<lambda>s. False)\<rparr>"

end
