(* ===== verification/Py_Codec.thy ===== *)
theory Py_Codec
  imports Runtime
begin

text \<open>
  The encodings the program uses from the standard library: UTF-8 and ASCII, hexadecimal
  digests, base64 as \<open>base64.urlsafe_b64encode\<close> and \<open>binascii.a2b_base64\<close> compute it (the
  decoder in its non-strict mode, which skips foreign characters), percent encoding for
  query strings, and the part of \<open>urllib.parse.urlparse\<close> the redirect validation reads.
  A byte string is a list of characters, each standing for its code.
\<close>

abbreviation byte_of :: "nat \<Rightarrow> char" where "byte_of n \<equiv> char_of n"
abbreviation code :: "char \<Rightarrow> nat" where "code c \<equiv> of_char c"


subsection \<open>UTF-8, ASCII, hexadecimal\<close>

definition utf8_char :: "char \<Rightarrow> bytes" where
  "utf8_char c =
     (if code c < 128 then [c] else [byte_of (192 + code c div 64), byte_of (128 + code c mod 64)])"

definition utf8 :: "pystr \<Rightarrow> bytes" where
  "utf8 s = concat (map utf8_char s)"

definition is_ascii :: "pystr \<Rightarrow> bool" where
  "is_ascii s = list_all (\<lambda>c. code c < 128) s"

text \<open>\<open>s.encode("ascii")\<close>: None for the \<open>UnicodeEncodeError\<close>.\<close>

definition encode_ascii :: "pystr \<Rightarrow> bytes option" where
  "encode_ascii s = (if is_ascii s then Some s else None)"

text \<open>UTF-8 decoding, up to the code points the model has; None for malformed input.\<close>

fun utf8_decode :: "bytes \<Rightarrow> pystr option" where
  "utf8_decode [] = Some []"
| "utf8_decode [c] = (if code c < 128 then Some [c] else None)"
| "utf8_decode (c # d # s) =
     (if code c < 128 then map_option ((#) c) (utf8_decode (d # s))
      else if (code c = 194 \<or> code c = 195) \<and> 128 \<le> code d \<and> code d < 192
      then map_option ((#) (byte_of ((code c - 192) * 64 + (code d - 128)))) (utf8_decode s)
      else None)"

lemma is_ascii_simps [simp]:
  "is_ascii []" "is_ascii (c # s) \<longleftrightarrow> code c < 128 \<and> is_ascii s"
  "is_ascii (s @ t) \<longleftrightarrow> is_ascii s \<and> is_ascii t"
  by (simp_all add: is_ascii_def)

lemma utf8_ascii: "is_ascii s \<Longrightarrow> utf8 s = s"
  by (induction s) (auto simp: utf8_def utf8_char_def)

lemma utf8_decode_ascii: "is_ascii s \<Longrightarrow> utf8_decode s = Some s"
  by (induction s rule: utf8_decode.induct) auto

lemma code_byte_of: "n < 256 \<Longrightarrow> code (byte_of n) = n"
  by (rule of_char_char_of_small)

lemma code_lt: "code c < 256"
  by (rule of_char_lt_256)

lemma utf8_decode_utf8: "utf8_decode (utf8 s) = Some s"
proof (induction s)
  case (Cons c s)
  show ?case
  proof (cases "code c < 128")
    case True
    then have u: "utf8 (c # s) = c # utf8 s" by (simp add: utf8_def utf8_char_def)
    show ?thesis
    proof (cases "utf8 s")
      case Nil
      with Cons have "s = []" by simp
      with True u Nil show ?thesis by simp
    next
      case (Cons d r)
      with True u \<open>utf8_decode (utf8 s) = Some s\<close> show ?thesis by simp
    qed
  next
    case False
    have lt: "code c < 256" by (rule code_lt)
    define q r where "q = code c div 64" and "r = code c mod 64"
    have q: "q = 2 \<or> q = 3" 
    proof -
      have "2 \<le> q" using False by (simp add: q_def less_eq_div_iff_mult_less_eq)
      moreover have "q < 4" using lt by (simp add: q_def div_less_iff_less_mult)
      ultimately show ?thesis by auto
    qed
    have r: "r < 64" unfolding r_def by simp
    have c: "c = byte_of (q * 64 + r)" unfolding q_def r_def by simp
    from False have u: "utf8 (c # s) = byte_of (192 + q) # byte_of (128 + r) # utf8 s"
      by (simp add: utf8_def utf8_char_def q_def r_def)
    have cr: "code (byte_of (128 + r)) = 128 + r"
      using r by (intro code_byte_of) simp
    have "utf8_decode (byte_of (192 + q) # byte_of (128 + r) # utf8 s) = Some (byte_of (q * 64 + r) # s)"
    proof (cases "q = 2")
      case True
      then have "code (byte_of (192 + q)) = 194" by (simp add: code_byte_of)
      then show ?thesis using True Cons.IH r by (simp only: utf8_decode.simps cr) simp
    next
      case False
      with q have "q = 3" by simp
      then have "code (byte_of (192 + q)) = 195" by (simp add: code_byte_of)
      then show ?thesis using \<open>q = 3\<close> Cons.IH r by (simp only: utf8_decode.simps cr) simp
    qed
    with u c show ?thesis by metis
  qed
qed (simp add: utf8_def)

lemma utf8_inj: "utf8 s = utf8 t \<Longrightarrow> s = t"
  by (metis utf8_decode_utf8 option.inject)

definition hexdigest :: "bytes \<Rightarrow> pystr" where
  "hexdigest bs = concat (map (\<lambda>c. [hex_digit (code c div 16), hex_digit (code c mod 16)]) bs)"

text \<open>\<open>hashlib.sha256(s.encode("utf-8")).hexdigest()\<close>\<close>

definition sha256_hex :: "env \<Rightarrow> pystr \<Rightarrow> pystr" where
  "sha256_hex e s = hexdigest (sha256 e (utf8 s))"

lemma hex_digit_inj: "m < 16 \<Longrightarrow> n < 16 \<Longrightarrow> hex_digit m = hex_digit n \<Longrightarrow> m = n"
  by (metis hex_value_hex_digit option.inject)

lemma hexdigest_inj: "hexdigest a = hexdigest b \<Longrightarrow> a = b"
proof (induction a arbitrary: b)
  case Nil
  then show ?case by (cases b) (simp_all add: hexdigest_def)
next
  case (Cons c a)
  then obtain d b' where b: "b = d # b'" by (cases b) (simp_all add: hexdigest_def)
  have lt: "code c < 256" "code d < 256" by (rule code_lt)+
  from Cons.prems have "hex_digit (code c div 16) = hex_digit (code d div 16)"
    "hex_digit (code c mod 16) = hex_digit (code d mod 16)" "hexdigest a = hexdigest b'"
    by (simp_all add: b hexdigest_def)
  moreover have "code c div 16 < 16" "code d div 16 < 16"
    using lt by (simp_all add: div_less_iff_less_mult)
  ultimately have "code c div 16 = code d div 16" "code c mod 16 = code d mod 16"
    by (meson hex_digit_inj mod_less_divisor zero_less_numeral)+
  then have "code c = code d" by (metis div_mult_mod_eq)
  then have "c = d" by simp
  with Cons.IH [OF \<open>hexdigest a = hexdigest b'\<close>] show ?case by (simp add: b)
qed


subsection \<open>Base64\<close>

text \<open>The URL-safe alphabet.\<close>

definition b64_char :: "nat \<Rightarrow> char" where
  "b64_char n =
     (if n < 26 then byte_of (65 + n)
      else if n < 52 then byte_of (97 + (n - 26))
      else if n < 62 then byte_of (48 + (n - 52))
      else if n = 62 then CHR ''-'' else CHR ''_'')"

text \<open>
  \<open>urlsafe_b64decode\<close> first translates \<open>-_\<close> to \<open>+/\<close>, so both spellings of the two last
  digits are accepted.
\<close>

definition b64_value :: "char \<Rightarrow> nat option" where
  "b64_value c =
     (let n = code c in
      if 65 \<le> n \<and> n \<le> 90 then Some (n - 65)
      else if 97 \<le> n \<and> n \<le> 122 then Some (n - 97 + 26)
      else if 48 \<le> n \<and> n \<le> 57 then Some (n - 48 + 52)
      else if n = 45 \<or> n = 43 then Some 62
      else if n = 95 \<or> n = 47 then Some 63
      else None)"

definition pad_c :: char where "pad_c = CHR ''=''"

fun urlsafe_b64encode :: "bytes \<Rightarrow> pystr" where
  "urlsafe_b64encode (a # b # c # s) =
     b64_char (code a div 4)
     # b64_char (code a mod 4 * 16 + code b div 16)
     # b64_char (code b mod 16 * 4 + code c div 64)
     # b64_char (code c mod 64) # urlsafe_b64encode s"
| "urlsafe_b64encode [a, b] =
     [b64_char (code a div 4), b64_char (code a mod 4 * 16 + code b div 16),
      b64_char (code b mod 16 * 4), pad_c]"
| "urlsafe_b64encode [a] = [b64_char (code a div 4), b64_char (code a mod 4 * 16), pad_c, pad_c]"
| "urlsafe_b64encode [] = []"

text \<open>
  \<open>binascii.a2b_base64\<close>, non-strict: the position in the group of four, the bits carried
  over, and the padding characters seen in a row. A padding that completes the group ends
  the input; any other character outside the alphabet is skipped. None is \<open>binascii.Error\<close>.
\<close>

fun a2b_base64 :: "nat \<Rightarrow> nat \<Rightarrow> nat \<Rightarrow> pystr \<Rightarrow> bytes option" where
  "a2b_base64 quad left pads [] = (if quad = 0 then Some [] else None)"
| "a2b_base64 quad left pads (c # s) =
     (if c = pad_c then
        (if 2 \<le> quad then
           (if 4 \<le> quad + (pads + 1) then Some [] else a2b_base64 quad left (pads + 1) s)
         else a2b_base64 quad left pads s)
      else
        (case b64_value c of
           None \<Rightarrow> a2b_base64 quad left pads s
         | Some v \<Rightarrow>
             if quad = 0 then a2b_base64 1 v 0 s
             else if quad = 1 then
               map_option ((#) (byte_of (left * 4 + v div 16))) (a2b_base64 2 (v mod 16) 0 s)
             else if quad = 2 then
               map_option ((#) (byte_of (left * 16 + v div 4))) (a2b_base64 3 (v mod 4) 0 s)
             else map_option ((#) (byte_of (left * 64 + v))) (a2b_base64 0 0 0 s)))"

text \<open>\<open>base64.urlsafe_b64decode(raw.encode("ascii"))\<close>\<close>

definition urlsafe_b64decode :: "pystr \<Rightarrow> bytes option" where
  "urlsafe_b64decode raw = (if is_ascii raw then a2b_base64 0 0 0 raw else None)"

definition rstrip_char :: "char \<Rightarrow> pystr \<Rightarrow> pystr" where
  "rstrip_char c s = rev (dropWhile (\<lambda>x. x = c) (rev s))"

definition lstrip_char :: "char \<Rightarrow> pystr \<Rightarrow> pystr" where
  "lstrip_char c s = dropWhile (\<lambda>x. x = c) s"

lemma rstrip_char_append:
  "rstrip_char c (s @ t) = (if rstrip_char c t = [] then rstrip_char c s else s @ rstrip_char c t)"
  unfolding rstrip_char_def by (auto simp: dropWhile_append)

lemma rstrip_char_simps [simp]:
  "rstrip_char c [] = []"
  "rstrip_char c [x] = (if x = c then [] else [x])"
  by (simp_all add: rstrip_char_def)

lemma rstrip_char_Cons: "rstrip_char c (x # s) =
    (if rstrip_char c s = [] then (if x = c then [] else [x]) else x # rstrip_char c s)"
  using rstrip_char_append [of c "[x]" s] by simp

text \<open>\<open>_b64url_encode\<close> and \<open>_b64url_decode\<close>: base64 without the padding.\<close>

definition b64url_encode :: "bytes \<Rightarrow> pystr" where
  "b64url_encode raw = rstrip_char pad_c (urlsafe_b64encode raw)"

definition b64url_decode :: "pystr \<Rightarrow> bytes option" where
  "b64url_decode raw = urlsafe_b64decode (raw @ replicate ((4 - length raw mod 4) mod 4) pad_c)"

lemma code_b64_char:
  "n < 64 \<Longrightarrow> code (b64_char n) =
     (if n < 26 then 65 + n else if n < 52 then 97 + (n - 26) else if n < 62 then 48 + (n - 52)
      else if n = 62 then 45 else 95)"
  by (simp add: b64_char_def)

lemma b64_value_char: "n < 64 \<Longrightarrow> b64_value (b64_char n) = Some n"
  unfolding b64_value_def Let_def code_b64_char by auto

lemma b64_char_ascii: "n < 64 \<Longrightarrow> code (b64_char n) < 128"
  unfolding code_b64_char by auto

lemma b64_char_other:
  assumes "n < 64"
  shows b64_char_not_pad: "b64_char n \<noteq> pad_c"
    and b64_char_not_dot: "b64_char n \<noteq> CHR ''.''" and b64_char_not_dollar: "b64_char n \<noteq> CHR ''$''"
proof -
  have "code (b64_char n) \<notin> {36, 46, 61}"
    using assms by (auto simp: code_b64_char)
  moreover have "code pad_c = 61" "code (CHR ''.'') = 46" "code (CHR ''$'') = 36"
    by (simp_all add: pad_c_def)
  ultimately show "b64_char n \<noteq> pad_c" "b64_char n \<noteq> CHR ''.''" "b64_char n \<noteq> CHR ''$''"
    by auto
qed

lemma b64_digits:
  "code a div 4 < 64" "code a mod 4 * 16 + code b div 16 < 64" "code b mod 16 * 4 + code c div 64 < 64"
  "code c mod 64 < 64" "code b mod 16 * 4 < 64" "code a mod 4 * 16 < 64"
proof -
  have lt: "code a < 256" "code b < 256" "code c < 256" by (rule code_lt)+
  have "code b div 16 < 16" "code c div 64 < 4" "code a mod 4 < 4" "code b mod 16 < 16"
    using lt by (simp_all add: div_less_iff_less_mult)
  then show "code a mod 4 * 16 + code b div 16 < 64" "code b mod 16 * 4 + code c div 64 < 64"
    "code b mod 16 * 4 < 64" "code a mod 4 * 16 < 64" by linarith+
  show "code a div 4 < 64" "code c mod 64 < 64"
    using lt by (simp_all add: div_less_iff_less_mult)
qed

lemmas b64_digit_simps = b64_digits b64_value_char b64_char_not_pad

lemma b64_join [simp]:
  "code b div 16 div 16 = 0" "code b div 16 mod 16 = code b div 16"
  "code c div 64 div 4 = 0" "code c div 64 mod 4 = code c div 64"
proof -
  have "code b div 16 < 16" "code c div 64 < 4"
    using code_lt [of b] code_lt [of c] by (simp_all add: div_less_iff_less_mult)
  then show "code b div 16 div 16 = 0" "code b div 16 mod 16 = code b div 16"
    "code c div 64 div 4 = 0" "code c div 64 mod 4 = code c div 64" by simp_all
qed

lemma a2b_base64_encode: "a2b_base64 0 0 0 (urlsafe_b64encode raw) = Some raw"
proof (induction raw rule: urlsafe_b64encode.induct)
  case (1 a b c s)
  then show ?case by (simp add: b64_digit_simps)
next
  case (2 a b)
  show ?case by (simp add: b64_digit_simps)
next
  case (3 a)
  show ?case by (simp add: b64_digit_simps)
qed simp

lemma code_pad: "code pad_c = 61"
  by (simp add: pad_c_def)

lemma urlsafe_b64encode_ascii: "is_ascii (urlsafe_b64encode raw)"
  by (induction raw rule: urlsafe_b64encode.induct)
    (simp_all add: b64_digits b64_char_ascii code_pad)

lemma urlsafe_b64decode_encode: "urlsafe_b64decode (urlsafe_b64encode raw) = Some raw"
  by (simp add: urlsafe_b64decode_def urlsafe_b64encode_ascii a2b_base64_encode)

lemma rstrip_char_split: "\<exists>k. s = rstrip_char c s @ replicate k c"
proof (induction s)
  case (Cons x s)
  then obtain k where k: "s = rstrip_char c s @ replicate k c" by blast
  then have "x # s = rstrip_char c (x # s) @ replicate (if rstrip_char c (x # s) = [] then Suc k else k) c"
    by (auto simp: rstrip_char_Cons)
  then show ?case by blast
qed simp

lemma length_urlsafe_b64encode: "length (urlsafe_b64encode raw) mod 4 = 0"
  by (induction raw rule: urlsafe_b64encode.induct) simp_all

lemma length_b64url_encode: "length (urlsafe_b64encode raw) \<le> length (b64url_encode raw) + 2"
  unfolding b64url_encode_def
proof (induction raw rule: urlsafe_b64encode.induct)
  case (1 a b c s)
  then show ?case
    by (cases "rstrip_char pad_c (urlsafe_b64encode s) = []")
      (simp_all add: rstrip_char_Cons b64_digits b64_char_not_pad)
qed (simp_all add: rstrip_char_Cons b64_digits b64_char_not_pad)

lemma pad_count:
  assumes "(n + k) mod 4 = 0" and "k \<le> 2"
  shows "(4 - n mod 4) mod 4 = (k :: nat)"
proof -
  have small: "m < 4 \<Longrightarrow> (m + k) mod 4 = 0 \<Longrightarrow> (4 - m) mod 4 = k" for m :: nat
  proof -
    assume "m < 4" and zero: "(m + k) mod 4 = 0"
    then have "m = 0 \<or> m = 1 \<or> m = 2 \<or> m = 3" by linarith
    moreover have "k = 0 \<or> k = 1 \<or> k = 2" using assms(2) by linarith
    ultimately show ?thesis using zero by (elim disjE) simp_all
  qed
  have "(n mod 4 + k) mod 4 = 0" using assms(1) by (simp add: mod_add_left_eq)
  then show ?thesis by (rule small [rotated]) simp
qed

lemma rstrip_pad_encode:
  "b64url_encode raw @ replicate ((4 - length (b64url_encode raw) mod 4) mod 4) pad_c = urlsafe_b64encode raw"
proof -
  obtain k where k: "urlsafe_b64encode raw = b64url_encode raw @ replicate k pad_c"
    using rstrip_char_split unfolding b64url_encode_def by blast
  define n where "n = length (b64url_encode raw)"
  have "(n + k) mod 4 = 0" "k \<le> 2"
    using length_urlsafe_b64encode [of raw] length_b64url_encode [of raw]
    by (simp_all add: k n_def)
  then have "(4 - n mod 4) mod 4 = k" by (rule pad_count)
  then show ?thesis by (simp add: k n_def)
qed

lemma b64url_decode_encode: "b64url_decode (b64url_encode raw) = Some raw"
  by (simp add: b64url_decode_def rstrip_pad_encode urlsafe_b64decode_encode)

lemma set_rstrip_char: "set (rstrip_char c s) \<subseteq> set s"
  unfolding rstrip_char_def by (auto dest: set_dropWhileD)

lemma urlsafe_b64encode_chars: "CHR ''.'' \<notin> set (urlsafe_b64encode raw) \<and> CHR ''$'' \<notin> set (urlsafe_b64encode raw)"
  by (induction raw rule: urlsafe_b64encode.induct)
    (simp_all add: b64_digits b64_char_not_dot [symmetric] b64_char_not_dollar [symmetric] pad_c_def)

lemma b64url_encode_chars: "CHR ''.'' \<notin> set (b64url_encode raw)" "is_ascii (b64url_encode raw)"
proof -
  show "CHR ''.'' \<notin> set (b64url_encode raw)"
    unfolding b64url_encode_def using urlsafe_b64encode_chars [of raw] set_rstrip_char by blast
  show "is_ascii (b64url_encode raw)"
    using urlsafe_b64encode_ascii [of raw] set_rstrip_char [of pad_c "urlsafe_b64encode raw"]
    unfolding b64url_encode_def is_ascii_def list_all_iff by blast
qed


subsection \<open>Query strings\<close>

definition is_alpha :: "char \<Rightarrow> bool" where
  "is_alpha c = (let n = code c in (65 \<le> n \<and> n \<le> 90) \<or> (97 \<le> n \<and> n \<le> 122))"

definition url_safe_char :: "char \<Rightarrow> bool" where
  "url_safe_char c = (is_alpha c \<or> is_digit c \<or> c \<in> set ''_.-~'')"

text \<open>\<open>quote_plus\<close> writes upper-case hexadecimal digits.\<close>

definition upper_hex :: "nat \<Rightarrow> char" where
  "upper_hex n = (if n < 10 then byte_of (48 + n) else byte_of (65 + (n - 10)))"

definition quote_plus :: "pystr \<Rightarrow> pystr" where
  "quote_plus s =
     concat (map (\<lambda>c. if url_safe_char c then [c]
                      else if c = CHR '' '' then ''+''
                      else CHR ''%'' # [upper_hex (code c div 16), upper_hex (code c mod 16)])
       (utf8 s))"

definition urlencode :: "(pystr \<times> pystr) list \<Rightarrow> pystr" where
  "urlencode params = py_join ''&'' (map (\<lambda>(k, v). quote_plus k @ ''='' @ quote_plus v) params)"


subsection \<open>\<open>urlparse\<close>\<close>

record parsed_url =
  url_scheme :: pystr
  url_netloc :: pystr
  url_path :: pystr
  url_query :: pystr
  url_fragment :: pystr

text \<open>\<open>s.partition(c)\<close> without the separator, and its last-occurrence twin.\<close>

definition before_char :: "char \<Rightarrow> pystr \<Rightarrow> pystr" where
  "before_char c s = takeWhile (\<lambda>x. x \<noteq> c) s"

definition after_char :: "char \<Rightarrow> pystr \<Rightarrow> pystr" where
  "after_char c s = drop 1 (dropWhile (\<lambda>x. x \<noteq> c) s)"

definition after_last :: "char \<Rightarrow> pystr \<Rightarrow> pystr" where
  "after_last c s = rev (takeWhile (\<lambda>x. x \<noteq> c) (rev s))"

definition scheme_char :: "char \<Rightarrow> bool" where
  "scheme_char c = (is_alpha c \<or> is_digit c \<or> c \<in> set ''+-.'')"

text \<open>
  \<open>urlsplit\<close>: leading control characters and blanks are stripped, tabs and line ends
  removed, then scheme, network location, fragment and query are cut off. Unbalanced
  brackets in the network location, or an IP literal the library rejects, raise
  \<open>ValueError\<close>. The parameters part \<open>urlparse\<close> splits off the path is left in the path.
\<close>

definition urlparse :: "env \<Rightarrow> pystr \<Rightarrow> parsed_url res" where
  "urlparse e raw =
     (let url = filter (\<lambda>c. c \<notin> {CHR 0x09, CHR 0x0A, CHR 0x0D}) (dropWhile (\<lambda>c. code c \<le> 32) raw);
          pre = before_char (CHR '':'') url;
          has_scheme = (CHR '':'' \<in> set url \<and> pre \<noteq> [] \<and> is_alpha (hd pre) \<and> list_all scheme_char pre);
          scheme = (if has_scheme then py_lower pre else []);
          rest = (if has_scheme then after_char (CHR '':'') url else url);
          has_netloc = (take 2 rest = ''//'');
          netloc = (if has_netloc then takeWhile (\<lambda>c. c \<notin> set ''/?#'') (drop 2 rest) else []);
          rest = (if has_netloc then dropWhile (\<lambda>c. c \<notin> set ''/?#'') (drop 2 rest) else rest)
      in if (CHR ''['' \<in> set netloc) \<noteq> (CHR '']'' \<in> set netloc) then Inl (ValueError ''Invalid IPv6 URL'')
         else if CHR ''['' \<in> set netloc \<and> \<not> ip_literal_ok e netloc
         then Inl (ValueError ''Invalid IPv6 URL'')
         else let fragment = after_char (CHR ''#'') rest;
                  rest = before_char (CHR ''#'') rest
              in Inr \<lparr>url_scheme = scheme, url_netloc = netloc,
                      url_path = before_char (CHR ''?'') rest,
                      url_query = after_char (CHR ''?'') rest, url_fragment = fragment\<rparr>)"

text \<open>The \<open>hostname\<close> property; the empty string stands for None.\<close>

definition url_hostname :: "parsed_url \<Rightarrow> pystr" where
  "url_hostname u =
     (let hostinfo = after_last (CHR ''@'') (url_netloc u)
      in if CHR ''['' \<in> set hostinfo
         then let bracketed = before_char (CHR '']'') (after_char (CHR ''['') hostinfo)
              in py_lower (before_char (CHR ''%'') bracketed)
                 @ (if CHR ''%'' \<in> set bracketed then CHR ''%'' # after_char (CHR ''%'') bracketed else [])
         else let host = before_char (CHR '':'') hostinfo
              in py_lower (before_char (CHR ''%'') host)
                 @ (if CHR ''%'' \<in> set host then CHR ''%'' # after_char (CHR ''%'') host else []))"

end
