(* ===== verification/Py_Date.thy ===== *)
theory Py_Date
  imports Py_Codec
begin

text \<open>
  Calendar dates and instants as Python's \<open>datetime\<close> has them: the proleptic Gregorian
  calendar by day ordinals, \<open>isoformat\<close> of dates and of UTC instants, and
  \<open>datetime.fromisoformat\<close> for the extended format \<open>isoformat\<close> writes (date, separator,
  hours, minutes, optional seconds and fraction, optional offset); the other ISO 8601
  spellings the library accepts (week dates, no separators) are rejected here. The last
  theorem is the round trip the OAuth state relies on.
\<close>

subsection \<open>The calendar\<close>

definition is_leap :: "int \<Rightarrow> bool" where
  "is_leap y = (y mod 4 = 0 \<and> (y mod 100 \<noteq> 0 \<or> y mod 400 = 0))"

definition days_before_year :: "int \<Rightarrow> int" where
  "days_before_year y = (y - 1) * 365 + (y - 1) div 4 - (y - 1) div 100 + (y - 1) div 400"

definition days_before_month :: "bool \<Rightarrow> nat \<Rightarrow> int" where
  "days_before_month leap m =
     [0, 0, 31, 59, 90, 120, 151, 181, 212, 243, 273, 304, 334, 365] ! m
     + (if 2 < m \<and> leap then 1 else 0)"

definition days_in_month :: "bool \<Rightarrow> nat \<Rightarrow> int" where
  "days_in_month leap m = days_before_month leap (m + 1) - days_before_month leap m"

definition valid_date :: "py_date \<Rightarrow> bool" where
  "valid_date d \<longleftrightarrow>
     1 \<le> year d \<and> year d \<le> 9999 \<and> 1 \<le> month d \<and> month d \<le> 12 \<and>
     1 \<le> day d \<and> day d \<le> days_in_month (is_leap (year d)) (nat (month d))"

definition date_toordinal :: "py_date \<Rightarrow> int" where
  "date_toordinal d =
     days_before_year (year d) + days_before_month (is_leap (year d)) (nat (month d)) + day d"

definition year_of_ordinal :: "int \<Rightarrow> int" where
  "year_of_ordinal n =
     (let r = (n - 1) mod 146097; b = min 3 (r div 36524);
          r' = r - b * 36524; c = r' div 1461; d = min 3 (r' mod 1461 div 365)
      in 400 * ((n - 1) div 146097) + 100 * b + 4 * c + d + 1)"

definition date_fromordinal :: "int \<Rightarrow> py_date" where
  "date_fromordinal n =
     (let y = year_of_ordinal n; k = n - 1 - days_before_year y;
          m = length (filter (\<lambda>m. days_before_month (is_leap y) m \<le> k) [1..<13])
      in Date y (int m) (k - days_before_month (is_leap y) m + 1))"

lemma date_toordinal_fromordinal: "date_toordinal (date_fromordinal n) = n"
  by (simp add: date_toordinal_def date_fromordinal_def Let_def)

lemma div_decompose:
  fixes a b c d :: int
  assumes "0 \<le> b" "b \<le> 3" "0 \<le> c" "c \<le> 24" "0 \<le> d" "d \<le> 3"
  shows "(400 * a + 100 * b + 4 * c + d) div 4 = 100 * a + 25 * b + c"
    "(400 * a + 100 * b + 4 * c + d) div 100 = 4 * a + b"
    "(400 * a + 100 * b + 4 * c + d) div 400 = a"
proof -
  have "(400 * a + 100 * b + 4 * c + d) div 4 = (d + (100 * a + 25 * b + c) * 4) div 4"
    by (simp add: algebra_simps)
  also have "\<dots> = 100 * a + 25 * b + c" using assms by (subst div_mult_self1) auto
  finally show "(400 * a + 100 * b + 4 * c + d) div 4 = 100 * a + 25 * b + c" .
  have "(400 * a + 100 * b + 4 * c + d) div 100 = ((4 * c + d) + (4 * a + b) * 100) div 100"
    by (simp add: algebra_simps)
  also have "\<dots> = 4 * a + b" using assms by (subst div_mult_self1) auto
  finally show "(400 * a + 100 * b + 4 * c + d) div 100 = 4 * a + b" .
  have "(400 * a + 100 * b + 4 * c + d) div 400 = ((100 * b + 4 * c + d) + a * 400) div 400"
    by (simp add: algebra_simps)
  also have "\<dots> = a" using assms by (subst div_mult_self1) auto
  finally show "(400 * a + 100 * b + 4 * c + d) div 400 = a" .
qed

text \<open>The year of an ordinal is the one its day falls in.\<close>

lemma year_of_ordinal_bounds:
  fixes n :: int
  defines "y \<equiv> year_of_ordinal n" and "k \<equiv> n - 1 - days_before_year (year_of_ordinal n)"
  shows "0 \<le> k" "k < 365 + (if is_leap y then 1 else 0)"
proof -
  define a where "a = (n - 1) div 146097"
  define r where "r = (n - 1) mod 146097"
  define b where "b = min 3 (r div 36524)"
  define r' where "r' = r - b * 36524"
  define c where "c = r' div 1461"
  define s where "s = r' mod 1461"
  define d where "d = min 3 (s div 365)"
  have r: "0 \<le> r" "r < 146097" by (simp_all add: r_def)
  have b: "0 \<le> b" "b \<le> 3" using r by (simp_all add: b_def pos_imp_zdiv_nonneg_iff)
  have r': "0 \<le> r'" "r' < (if b = 3 then 36525 else 36524)"
    using r unfolding r'_def b_def by (auto simp: min_def)
  have s: "0 \<le> s" "s < 1461" by (simp_all add: s_def)
  have cs: "r' = c * 1461 + s" by (simp add: c_def s_def)
  have c: "0 \<le> c" "c \<le> 24" using r' cs s by (auto split: if_splits)
  have d: "0 \<le> d" "d \<le> 3" using s by (simp_all add: d_def pos_imp_zdiv_nonneg_iff)
  have ds: "365 * d \<le> s" "d < 3 \<longrightarrow> s < 365 * d + 365"
    using s unfolding d_def by (auto simp: min_def)
  have y: "y = 400 * a + 100 * b + 4 * c + d + 1"
    by (simp add: y_def year_of_ordinal_def Let_def a_def b_def r_def c_def d_def r'_def s_def)
  have y1: "y - 1 = 400 * a + 100 * b + 4 * c + d" using y by simp
  have "days_before_year y = 146097 * a + 36524 * b + 1461 * c + 365 * d"
    unfolding days_before_year_def y1 using div_decompose [OF b c d, of a] by simp
  moreover have "n - 1 = 146097 * a + 36524 * b + 1461 * c + s"
    using cs div_mult_mod_eq [of "n - 1" 146097] unfolding r'_def a_def r_def by linarith
  ultimately have k: "k = s - 365 * d" by (simp add: k_def y_def)
  show "0 \<le> k" using ds k by simp
  show "k < 365 + (if is_leap y then 1 else 0)"
  proof (cases "d < 3")
    case True
    with ds k show ?thesis by auto
  next
    case False
    with d have d3: "d = 3" by simp
    have y4: "y = 4 * (100 * a + 25 * b + c + 1)" using y d3 by simp
    show ?thesis
    proof (cases "s = 1460")
      case True
      have "c = 24 \<longrightarrow> b = 3" using r' cs True by (auto split: if_splits)
      have "is_leap y"
      proof (cases "c = 24")
        case True
        with \<open>c = 24 \<longrightarrow> b = 3\<close> y4 have "y = 400 * (a + 1)" by simp
        then show ?thesis by (simp add: is_leap_def)
      next
        case False
        have "y mod 100 = (4 * c + 4 + (4 * a + b) * 100) mod 100" using y4 by (simp add: algebra_simps)
        also have "\<dots> = 4 * c + 4" using c False by (simp only: mod_mult_self1) simp
        finally have "y mod 100 \<noteq> 0" using c by simp
        then show ?thesis using y4 by (simp add: is_leap_def)
      qed
      with k d3 True show ?thesis by simp
    next
      case False
      with k d3 s show ?thesis by auto
    qed
  qed
qed


lemma days_before_month_1 [simp]: "days_before_month leap (Suc 0) = 0"
  by (simp add: days_before_month_def)

text \<open>The month the calendar finds is the one its day falls in.\<close>

lemma month_found:
  assumes "0 \<le> k" and "k < 365 + (if leap then 1 else 0)"
  defines "m \<equiv> length (filter (\<lambda>m. days_before_month leap m \<le> k) [1..<13])"
  shows "1 \<le> m \<and> m \<le> 12 \<and> days_before_month leap m \<le> k \<and> k < days_before_month leap (m + 1)"
proof -
  define f where "f = days_before_month leap"
  have f: "f 1 = 0" "f 13 = 365 + (if leap then 1 else 0)"
    by (simp_all add: f_def days_before_month_def)
  have up: "[1..<13] = [1, 2, 3, 4, 5, 6, 7, 8, 9, 10, 11, 12 :: nat]" by (simp add: upt_rec)
  have step: "f j \<le> f (j + 1)" if "1 \<le> j" "j < 13" for j
  proof -
    from that have "j \<in> set [1..<13]" by simp
    then have "j \<in> {1, 2, 3, 4, 5, 6, 7, 8, 9, 10, 11, 12}" unfolding up by simp
    then show ?thesis by (elim insertE) (simp_all add: f_def days_before_month_def)
  qed
  have mono: "f i \<le> f j" if "1 \<le> i" "i \<le> j" "j \<le> 13" for i j
    using that(2,3)
  proof (induction j rule: nat_induct_at_least)
    case (Suc j)
    then show ?case using step [of j] that(1) by simp
  qed simp
  have "(\<forall>i. 1 \<le> i \<and> i < 13 \<longrightarrow> f i \<le> k \<and> k < f (i + 1) \<longrightarrow> m = i)"
  proof (intro allI impI)
    fix i assume i: "1 \<le> i \<and> i < 13" and fi: "f i \<le> k \<and> k < f (i + 1)"
    have "f j \<le> k \<longleftrightarrow> j \<le> i" if "j \<in> set [1..<13]" for j
    proof (cases "j \<le> i")
      case True
      then show ?thesis using mono [of j i] that i fi by auto
    next
      case False
      then show ?thesis using mono [of "i + 1" j] that i fi by auto
    qed
    then have "filter (\<lambda>m. f m \<le> k) [1..<13] = filter (\<lambda>j. j \<le> i) [1..<13]"
      by (rule filter_cong [OF refl])
    moreover have "[1..<13] = [1..<Suc i] @ [Suc i..<13]"
      using i upt_add_eq_append [of 1 "Suc i" "12 - i"] by simp
    moreover have "filter (\<lambda>j. j \<le> i) [1..<Suc i] = [1..<Suc i]" "filter (\<lambda>j. j \<le> i) [Suc i..<13] = []"
      by (auto simp: filter_id_conv filter_empty_conv)
    ultimately show "m = i" by (simp add: m_def f_def)
  qed
  moreover have "\<exists>i. 1 \<le> i \<and> i < 13 \<and> f i \<le> k \<and> k < f (i + 1)"
  proof (rule ccontr)
    assume none: "\<not> ?thesis"
    have "f i \<le> k" if "1 \<le> i" "i \<le> 13" for i
      using that
    proof (induction i rule: nat_induct_at_least)
      case base
      then show ?case using assms(1) f by simp
    next
      case (Suc i)
      then show ?case using none by (metis Suc_eq_plus1 Suc_leD Suc_le_lessD not_le)
    qed
    from this [of 13] assms(2) f(2) show False by simp
  qed
  ultimately obtain i where "1 \<le> i" "i < 13" "f i \<le> k" "k < f (i + 1)" "m = i" by blast
  then show ?thesis by (auto simp: f_def)
qed

lemma valid_date_fromordinal:
  assumes "1 \<le> year (date_fromordinal n)" and "year (date_fromordinal n) \<le> 9999"
  shows "valid_date (date_fromordinal n)"
proof -
  define k where "k = n - 1 - days_before_year (year_of_ordinal n)"
  define leap where "leap = is_leap (year_of_ordinal n)"
  define m where "m = length (filter (\<lambda>m. days_before_month leap m \<le> k) [1..<13])"
  have "0 \<le> k" "k < 365 + (if leap then 1 else 0)"
    using year_of_ordinal_bounds [of n] by (simp_all add: k_def leap_def)
  from month_found [OF this] have m: "1 \<le> m" "m \<le> 12" "days_before_month leap m \<le> k"
    "k < days_before_month leap (m + 1)" by (simp_all add: m_def)
  have d: "date_fromordinal n = Date (year_of_ordinal n) (int m) (k - days_before_month leap m + 1)"
    by (simp add: date_fromordinal_def Let_def k_def leap_def m_def)
  show ?thesis
    using m assms by (simp add: d valid_date_def leap_def [symmetric] days_in_month_def)
qed


subsection \<open>ISO 8601 text\<close>

definition pad_num :: "nat \<Rightarrow> int \<Rightarrow> pystr" where
  "pad_num w i = pad_zeros w (py_str_nat (nat i))"

definition date_isoformat :: "py_date \<Rightarrow> pystr" where
  "date_isoformat d = pad_num 4 (year d) @ ''-'' @ pad_num 2 (month d) @ ''-'' @ pad_num 2 (day d)"

definition micros_per_day :: int where "micros_per_day = 86400000000"
definition epoch_ordinal :: int where "epoch_ordinal = 719163"

definition date_of_time :: "time \<Rightarrow> py_date" where
  "date_of_time t = date_fromordinal (t div micros_per_day + epoch_ordinal)"

text \<open>\<open>isoformat()\<close> of an aware UTC instant: the fraction only when it is not zero.\<close>

definition datetime_isoformat :: "time \<Rightarrow> pystr" where
  "datetime_isoformat t =
     (let tod = t mod micros_per_day; us = tod mod 1000000; s = tod div 1000000
      in date_isoformat (date_of_time t) @ ''T''
         @ pad_num 2 (s div 3600) @ '':'' @ pad_num 2 (s div 60 mod 60) @ '':'' @ pad_num 2 (s mod 60)
         @ (if us = 0 then '''' else ''.'' @ pad_num 6 us) @ ''+00:00'')"

definition take_num :: "nat \<Rightarrow> pystr \<Rightarrow> (int \<times> pystr) option" where
  "take_num w s =
     (if w \<le> length s \<and> list_all is_digit (take w s)
      then Some (int (nat_of_digits (take w s)), drop w s) else None)"

definition expect :: "char list \<Rightarrow> pystr \<Rightarrow> pystr option" where
  "expect cs s = (case s of c # r \<Rightarrow> if c \<in> set cs then Some r else None | [] \<Rightarrow> None)"

definition parse_date :: "pystr \<Rightarrow> (py_date \<times> pystr) option" where
  "parse_date s =
     Option.bind (take_num 4 s) (\<lambda>(y, s). Option.bind (expect ''-'' s) (\<lambda>s.
     Option.bind (take_num 2 s) (\<lambda>(m, s). Option.bind (expect ''-'' s) (\<lambda>s.
     Option.bind (take_num 2 s) (\<lambda>(d, s).
       if valid_date (Date y m d) then Some (Date y m d, s) else None)))))"

text \<open>A fraction of a second: any number of digits, cut after the sixth.\<close>

definition parse_fraction :: "pystr \<Rightarrow> (int \<times> pystr) option" where
  "parse_fraction s =
     (case expect ''.,'' s of
        None \<Rightarrow> Some (0, s)
      | Some s \<Rightarrow>
          let ds = takeWhile is_digit s
          in if ds = [] then None
             else Some (int (nat_of_digits (take 6 (ds @ ''000000''))), dropWhile is_digit s))"

definition parse_seconds :: "pystr \<Rightarrow> (int \<times> pystr) option" where
  "parse_seconds s =
     (case expect '':'' s of
        None \<Rightarrow> Some (0, s)
      | Some s \<Rightarrow>
          Option.bind (take_num 2 s) (\<lambda>(sec, s).
            if sec < 60
            then map_option (\<lambda>(us, s). (sec * 1000000 + us, s)) (parse_fraction s) else None))"

definition parse_clock :: "pystr \<Rightarrow> (int \<times> pystr) option" where
  "parse_clock s =
     Option.bind (take_num 2 s) (\<lambda>(h, s). Option.bind (expect '':'' s) (\<lambda>s.
     Option.bind (take_num 2 s) (\<lambda>(m, s). Option.bind (parse_seconds s) (\<lambda>(us, s).
       if h < 24 \<and> m < 60 then Some ((h * 3600 + m * 60) * 1000000 + us, s) else None))))"

text \<open>The offset at the end, as microseconds; None inside for a naive value.\<close>

definition parse_offset :: "pystr \<Rightarrow> (int option) option" where
  "parse_offset s =
     (if s = [] then Some None
      else if s = ''Z'' then Some (Some 0)
      else Option.bind (expect ''+-'' s) (\<lambda>r. Option.bind (parse_clock r) (\<lambda>(us, r).
        if r = [] then Some (Some (if hd s = CHR ''-'' then - us else us)) else None)))"

text \<open>
  \<open>_coerce_utc(datetime.fromisoformat(s))\<close>: a naive value counts as UTC. None stands for
  the \<open>ValueError\<close>.
\<close>

definition fromisoformat_utc :: "pystr \<Rightarrow> time option" where
  "fromisoformat_utc s =
     Option.bind (parse_date s) (\<lambda>(d, s).
       let midnight = (date_toordinal d - epoch_ordinal) * micros_per_day
       in if s = [] then Some midnight
          else Option.bind (parse_clock (tl s)) (\<lambda>(us, s).
               map_option (\<lambda>off. midnight + us - (case off of None \<Rightarrow> 0 | Some k \<Rightarrow> k))
                 (parse_offset s)))"

lemma length_py_str_nat: "n < 10 ^ w \<Longrightarrow> 0 < w \<Longrightarrow> length (py_str_nat n) \<le> w"
proof (induction w arbitrary: n)
  case (Suc w)
  show ?case
  proof (cases "n < 10")
    case True
    then show ?thesis by (simp add: py_str_nat.simps [of n])
  next
    case False
    then have "w \<noteq> 0" using Suc.prems by (cases w) auto
    moreover have "n div 10 < 10 ^ w" using Suc.prems by (simp add: less_mult_imp_div_less)
    ultimately have "length (py_str_nat (n div 10)) \<le> w" using Suc.IH by simp
    then show ?thesis using False by (simp add: py_str_nat.simps [of n])
  qed
qed simp

lemma nat_of_digits_zeros: "nat_of_digits (replicate k (CHR ''0'') @ s) = nat_of_digits s"
  by (induction k) (simp_all add: nat_of_digits_def digit_value_def)

lemma pad_num_facts:
  assumes "0 \<le> i" "i < 10 ^ w" "0 < w"
  shows "length (pad_num w i) = w" "list_all is_digit (pad_num w i)"
    "int (nat_of_digits (pad_num w i)) = i"
proof -
  have "nat i < 10 ^ w" using assms by (simp add: nat_less_iff)
  from length_py_str_nat [OF this assms(3)] show "length (pad_num w i) = w"
    by (simp add: pad_num_def pad_zeros_def)
  show "list_all is_digit (pad_num w i)"
    using py_str_nat_digits [of "nat i"] by (auto simp: pad_num_def pad_zeros_def list_all_iff is_digit_def)
  show "int (nat_of_digits (pad_num w i)) = i"
    using assms by (simp add: pad_num_def pad_zeros_def nat_of_digits_zeros)
qed

lemma take_num_pad [simp]:
  "0 \<le> i \<Longrightarrow> i < 10 ^ w \<Longrightarrow> 0 < w \<Longrightarrow> take_num w (pad_num w i @ s) = Some (i, s)"
  by (simp add: take_num_def pad_num_facts)

lemma expect_Cons [simp]: "expect cs (c # s) = (if c \<in> set cs then Some s else None)"
  by (simp add: expect_def)

lemma days_in_month_le: "1 \<le> m \<Longrightarrow> m \<le> 12 \<Longrightarrow> days_in_month leap m \<le> 31"
proof -
  assume "1 \<le> m" "m \<le> 12"
  then have "m \<in> set [1..<13]" by simp
  moreover have "[1..<13] = [1, 2, 3, 4, 5, 6, 7, 8, 9, 10, 11, 12 :: nat]" by (simp add: upt_rec)
  ultimately have "m \<in> set [1, 2, 3, 4, 5, 6, 7, 8, 9, 10, 11, 12]" by metis
  then have "m \<in> {1, 2, 3, 4, 5, 6, 7, 8, 9, 10, 11, 12}" by simp
  then show ?thesis
    by (elim insertE) (simp_all add: days_in_month_def days_before_month_def)
qed

lemma parse_date_iso: "valid_date d \<Longrightarrow> parse_date (date_isoformat d @ s) = Some (d, s)"
proof -
  assume v: "valid_date d"
  have "day d \<le> 31"
  proof -
    have "1 \<le> nat (month d)" "nat (month d) \<le> 12" using v unfolding valid_date_def by linarith+
    from days_in_month_le [OF this] v show ?thesis unfolding valid_date_def by (meson order_trans)
  qed
  with v show ?thesis
    by (simp add: parse_date_def date_isoformat_def valid_date_def)
qed

lemma parse_fraction_pad:
  assumes "0 \<le> us" "us < 1000000"
  shows "parse_fraction (''.'' @ pad_num 6 us @ ''+00:00'') = Some (us, ''+00:00'')"
proof -
  have f: "length (pad_num 6 us) = 6" "list_all is_digit (pad_num 6 us)" "int (nat_of_digits (pad_num 6 us)) = us"
    using assms by (simp_all add: pad_num_facts)
  have nd: "\<not> is_digit (CHR ''+'')" by (simp add: is_digit_def)
  have "takeWhile is_digit (pad_num 6 us @ ''+00:00'') = pad_num 6 us"
    "dropWhile is_digit (pad_num 6 us @ ''+00:00'') = ''+00:00''"
    using f(2) nd by (simp_all add: list_all_iff)
  moreover from f(1) have "pad_num 6 us \<noteq> []" by auto
  ultimately show ?thesis using f by (simp add: parse_fraction_def Let_def)
qed

text \<open>Parsing what \<open>isoformat\<close> wrote gives the instant back.\<close>

lemma fromisoformat_isoformat:
  assumes "valid_date (date_of_time t)"
  shows "fromisoformat_utc (datetime_isoformat t) = Some t"
proof -
  define tod us s where "tod = t mod micros_per_day" and "us = tod mod 1000000" and "s = tod div 1000000"
  have tod: "0 \<le> tod" "tod < 86400 * 1000000" by (simp_all add: tod_def micros_per_day_def)
  have us: "0 \<le> us" "us < 1000000" by (simp_all add: us_def)
  have s: "0 \<le> s" "s < 86400" using tod unfolding s_def by (auto simp: pos_imp_zdiv_nonneg_iff)
  define z where "z = (if us = 0 then '''' else ''.'' @ pad_num 6 us) @ ''+00:00''"
  have z: "parse_fraction z = Some (us, ''+00:00'')"
    using parse_fraction_pad [OF us] by (auto simp: z_def parse_fraction_def)
  have h: "s div 3600 < 24" "0 \<le> s div 3600" "s div 60 mod 60 < 60" "s mod 60 < 60"
    using s by (auto simp: pos_imp_zdiv_nonneg_iff)
  have "parse_clock (pad_num 2 (s div 3600) @ '':'' @ pad_num 2 (s div 60 mod 60) @ '':'' @ pad_num 2 (s mod 60) @ z)
      = Some ((s div 3600 * 3600 + s div 60 mod 60 * 60) * 1000000 + (s mod 60 * 1000000 + us), ''+00:00'')"
    using h z by (simp add: parse_clock_def parse_seconds_def)
  moreover have "(s div 3600 * 3600 + s div 60 mod 60 * 60) * 1000000 + (s mod 60 * 1000000 + us) = tod"
  proof -
    have "s div 60 div 60 = s div 3600" by (simp add: zdiv_zmult2_eq [symmetric])
    then have "s div 3600 * 60 + s div 60 mod 60 = s div 60"
      using div_mult_mod_eq [of "s div 60" 60] by simp
    then have "s div 3600 * 3600 + s div 60 mod 60 * 60 + s mod 60 = s"
      using div_mult_mod_eq [of s 60] by linarith
    moreover have "s * 1000000 + us = tod" by (simp add: s_def us_def)
    ultimately show ?thesis by (simp add: algebra_simps)
  qed
  moreover have "parse_offset ''+00:00'' = Some (Some 0)"
    by code_simp
  moreover have "(date_toordinal (date_of_time t) - epoch_ordinal) * micros_per_day + tod = t"
    by (simp add: date_of_time_def date_toordinal_fromordinal tod_def)
  ultimately show ?thesis
    using assms unfolding z_def
    by (cases "us = 0")
      (simp_all add: fromisoformat_utc_def datetime_isoformat_def Let_def parse_date_iso
        tod_def [symmetric] us_def [symmetric] s_def [symmetric])
qed

end
