(* ===== verification/Storage.thy ===== *)
theory Storage
  imports Py_Codec
begin

text \<open>
  The storage backends of \<open>saas/storage.py\<close>. The local backend works on a file system that
  is a map from paths (lists of components) to contents together with the directories that
  exist. The S3 backend works on an object client, which is not code of the repository and
  is therefore a record of functions, and on the cache directory it reads through. The
  locale \<open>blob_store\<close> is the contract the service and the workers rely on; the local
  backend satisfies it, the S3 backend satisfies it for reads and writes but not for the
  cached local path, which is what the last theorems show.

  Errors of the operating system other than missing files, directories in the way and
  embedded NUL bytes (name too long, permissions, no space) are not modelled.
\<close>

record stored_object =
  so_key :: pystr
  so_size :: int
  so_sha256 :: pystr

type_synonym path = "pystr list"

record 's storage_ops =
  st_save :: "pystr \<Rightarrow> bytes \<Rightarrow> 's \<Rightarrow> stored_object res \<times> 's"
  st_read :: "pystr \<Rightarrow> 's \<Rightarrow> bytes res \<times> 's"
  st_resolve :: "pystr \<Rightarrow> 's \<Rightarrow> path res \<times> 's"
  st_delete :: "pystr \<Rightarrow> 's \<Rightarrow> unit res \<times> 's"
  st_file :: "path \<Rightarrow> 's \<Rightarrow> bytes option"


subsection \<open>Keys\<close>

text \<open>\<open>s.replace("..", "_")\<close>\<close>

fun replace_dots :: "pystr \<Rightarrow> pystr" where
  "replace_dots (c # d # s) =
     (if c = CHR ''.'' \<and> d = CHR ''.'' then CHR ''_'' # replace_dots s else c # replace_dots (d # s))"
| "replace_dots s = s"

definition normalize_key :: "pystr \<Rightarrow> pystr" where
  "normalize_key key = replace_dots (lstrip_char (CHR ''/'') key)"

text \<open>The components \<open>pathlib\<close> makes of a relative path: empty ones and \<open>.\<close> vanish.\<close>

definition path_parts :: "pystr \<Rightarrow> path" where
  "path_parts s = filter (\<lambda>p. p \<noteq> [] \<and> p \<noteq> ''.'') (py_split (CHR ''/'') s)"

text \<open>\<open>Path(name).name\<close> and \<open>Path(name).suffix\<close>\<close>

definition path_name :: "pystr \<Rightarrow> pystr" where
  "path_name s = (let ps = path_parts s in if ps = [] then [] else last ps)"

definition path_suffix :: "pystr \<Rightarrow> pystr" where
  "path_suffix s =
     (let name = path_name s; ext = after_last (CHR ''.'') name
      in if CHR ''.'' \<in> set name \<and> ext \<noteq> [] \<and> length ext + 1 < length name
         then CHR ''.'' # ext else [])"

definition path_text :: "path \<Rightarrow> pystr" where
  "path_text p = py_join ''/'' p"

definition stored :: "env \<Rightarrow> pystr \<Rightarrow> bytes \<Rightarrow> stored_object" where
  "stored e key data =
     \<lparr>so_key = key, so_size = int (length data), so_sha256 = hexdigest (sha256 e data)\<rparr>"


subsection \<open>The local backend\<close>

record local_fs =
  fs_files :: "(path \<times> bytes) list"
  fs_dirs :: "path list"

definition local_abs :: "path \<Rightarrow> pystr \<Rightarrow> path" where
  "local_abs base key = base @ path_parts (normalize_key key)"

definition proper_prefixes :: "path \<Rightarrow> path list" where
  "proper_prefixes p = map (\<lambda>n. take n p) [0..<length p]"

definition is_file :: "local_fs \<Rightarrow> path \<Rightarrow> bool" where
  "is_file fs p \<longleftrightarrow> map_of (fs_files fs) p \<noteq> None"

definition is_dir :: "local_fs \<Rightarrow> path \<Rightarrow> bool" where
  "is_dir fs p \<longleftrightarrow> p \<in> set (fs_dirs fs)"

definition os_error :: "pystr \<Rightarrow> path \<Rightarrow> exn" where
  "os_error what p = OSError (what @ '': '' @ py_repr_str (path_text p))"

text \<open>\<open>path.parent.mkdir(parents=True, exist_ok=True)\<close>, then \<open>path.write_bytes(data)\<close>\<close>

definition mkdir_parents :: "path \<Rightarrow> local_fs \<Rightarrow> local_fs" where
  "mkdir_parents p fs =
     fs\<lparr>fs_dirs := fs_dirs fs @ filter (\<lambda>q. \<not> is_dir fs q) (proper_prefixes p)\<rparr>"

definition local_save :: "env \<Rightarrow> path \<Rightarrow> pystr \<Rightarrow> bytes \<Rightarrow> local_fs \<Rightarrow> stored_object res \<times> local_fs" where
  "local_save e base key data fs =
     (let p = local_abs base key in
      if CHR 0x00 \<in> set key then (Inl (ValueError ''embedded null byte''), fs)
      else if list_ex (is_file fs) (proper_prefixes p)
      then (Inl (os_error ''[Errno 17] File exists'' p), fs)
      else if is_dir (mkdir_parents p fs) p
      then (Inl (os_error ''[Errno 21] Is a directory'' p), mkdir_parents p fs)
      else (Inr (stored e key data),
            (mkdir_parents p fs)\<lparr>fs_files := dict_set p data (fs_files fs)\<rparr>))"

definition local_read :: "path \<Rightarrow> pystr \<Rightarrow> local_fs \<Rightarrow> bytes res \<times> local_fs" where
  "local_read base key fs =
     (let p = local_abs base key in
      if CHR 0x00 \<in> set key then (Inl (ValueError ''embedded null byte''), fs)
      else if is_dir fs p then (Inl (os_error ''[Errno 21] Is a directory'' p), fs)
      else case map_of (fs_files fs) p of
        None \<Rightarrow> (Inl (os_error ''[Errno 2] No such file or directory'' p), fs)
      | Some data \<Rightarrow> (Inr data, fs))"

definition local_resolve :: "path \<Rightarrow> pystr \<Rightarrow> local_fs \<Rightarrow> path res \<times> local_fs" where
  "local_resolve base key fs = (Inr (local_abs base key), fs)"

definition local_delete :: "path \<Rightarrow> pystr \<Rightarrow> local_fs \<Rightarrow> unit res \<times> local_fs" where
  "local_delete base key fs =
     (let p = local_abs base key in
      if CHR 0x00 \<in> set key then (Inr (), fs)
      else if is_dir fs p then (Inl (os_error ''[Errno 21] Is a directory'' p), fs)
      else if is_file fs p then (Inr (), fs\<lparr>fs_files := dict_pop p (fs_files fs)\<rparr>)
      else (Inr (), fs))"

definition local_file :: "path \<Rightarrow> local_fs \<Rightarrow> bytes option" where
  "local_file p fs = (if is_dir fs p then None else map_of (fs_files fs) p)"

text \<open>\<open>LocalStorageBackend(root)\<close>: the constructor makes the root directory.\<close>

definition local_init :: "path \<Rightarrow> local_fs \<Rightarrow> local_fs" where
  "local_init base fs = mkdir_parents (base @ [[]]) fs"

definition local_storage :: "env \<Rightarrow> path \<Rightarrow> local_fs storage_ops" where
  "local_storage e base =
     \<lparr>st_save = local_save e base, st_read = local_read base, st_resolve = local_resolve base,
      st_delete = local_delete base, st_file = local_file\<rparr>"


subsection \<open>The S3 backend\<close>

text \<open>The client's three calls; a failing call is its exception.\<close>

record 'c s3_client =
  put_object :: "pystr \<Rightarrow> pystr \<Rightarrow> bytes \<Rightarrow> 'c \<Rightarrow> unit res \<times> 'c"
  get_object :: "pystr \<Rightarrow> pystr \<Rightarrow> 'c \<Rightarrow> bytes res \<times> 'c"
  delete_object :: "pystr \<Rightarrow> pystr \<Rightarrow> 'c \<Rightarrow> unit res \<times> 'c"

record s3_config =
  s3_bucket :: pystr
  s3_prefix :: pystr

record 'c s3_state =
  s3_objects :: 'c
  s3_cache :: "(path \<times> bytes) list"

definition s3_init :: "pystr \<Rightarrow> pystr \<Rightarrow> s3_config res" where
  "s3_init bucket prefix =
     (if bucket = [] then Inl (ValueError ''s3 bucket is required'')
      else Inr \<lparr>s3_bucket = bucket, s3_prefix = rstrip_char (CHR ''/'') (normalize_key prefix)\<rparr>)"

definition object_key :: "s3_config \<Rightarrow> pystr \<Rightarrow> pystr" where
  "object_key c key =
     (if s3_prefix c = [] then normalize_key key else s3_prefix c @ ''/'' @ normalize_key key)"

definition cache_path :: "env \<Rightarrow> s3_config \<Rightarrow> pystr \<Rightarrow> path" where
  "cache_path e c key = [sha256_hex e (object_key c key) @ path_suffix key]"

definition s3_save ::
  "env \<Rightarrow> 'c s3_client \<Rightarrow> s3_config \<Rightarrow> pystr \<Rightarrow> bytes \<Rightarrow> 'c s3_state \<Rightarrow> stored_object res \<times> 'c s3_state" where
  "s3_save e cl c key data s =
     (case put_object cl (s3_bucket c) (object_key c key) data (s3_objects s) of
        (Inl err, o') \<Rightarrow> (Inl err, s\<lparr>s3_objects := o'\<rparr>)
      | (Inr _, o') \<Rightarrow> (Inr (stored e key data), s\<lparr>s3_objects := o'\<rparr>))"

definition s3_read ::
  "'c s3_client \<Rightarrow> s3_config \<Rightarrow> pystr \<Rightarrow> 'c s3_state \<Rightarrow> bytes res \<times> 'c s3_state" where
  "s3_read cl c key s =
     (case get_object cl (s3_bucket c) (object_key c key) (s3_objects s) of
        (r, o') \<Rightarrow> (r, s\<lparr>s3_objects := o'\<rparr>))"

definition s3_resolve ::
  "env \<Rightarrow> 'c s3_client \<Rightarrow> s3_config \<Rightarrow> pystr \<Rightarrow> 'c s3_state \<Rightarrow> path res \<times> 'c s3_state" where
  "s3_resolve e cl c key s =
     (let p = cache_path e c key in
      if map_of (s3_cache s) p \<noteq> None then (Inr p, s)
      else case s3_read cl c key s of
        (Inl err, s') \<Rightarrow> (Inl err, s')
      | (Inr data, s') \<Rightarrow> (Inr p, s'\<lparr>s3_cache := dict_set p data (s3_cache s')\<rparr>))"

definition s3_delete ::
  "env \<Rightarrow> 'c s3_client \<Rightarrow> s3_config \<Rightarrow> pystr \<Rightarrow> 'c s3_state \<Rightarrow> unit res \<times> 'c s3_state" where
  "s3_delete e cl c key s =
     (case delete_object cl (s3_bucket c) (object_key c key) (s3_objects s) of
        (Inl err, o') \<Rightarrow> (Inl err, s\<lparr>s3_objects := o'\<rparr>)
      | (Inr _, o') \<Rightarrow>
          (Inr (), s\<lparr>s3_objects := o', s3_cache := dict_pop (cache_path e c key) (s3_cache s)\<rparr>))"

definition s3_storage :: "env \<Rightarrow> 'c s3_client \<Rightarrow> s3_config \<Rightarrow> 'c s3_state storage_ops" where
  "s3_storage e cl c =
     \<lparr>st_save = s3_save e cl c, st_read = s3_read cl c, st_resolve = s3_resolve e cl c,
      st_delete = s3_delete e cl c, st_file = (\<lambda>p s. map_of (s3_cache s) p)\<rparr>"


subsection \<open>Keys never leave the root\<close>

fun no_dots :: "pystr \<Rightarrow> bool" where
  "no_dots (c # d # s) = (\<not> (c = CHR ''.'' \<and> d = CHR ''.'') \<and> no_dots (d # s))"
| "no_dots s = True"

lemma hd_replace_dots: "s \<noteq> [] \<Longrightarrow> replace_dots s \<noteq> [] \<and> hd (replace_dots s) \<in> {hd s, CHR ''_''}"
  by (induction s rule: replace_dots.induct) auto

lemma no_dots_Cons: "no_dots (c # s) \<longleftrightarrow> (c = CHR ''.'' \<longrightarrow> s \<noteq> [] \<longrightarrow> hd s \<noteq> CHR ''.'') \<and> no_dots s"
  by (cases s) auto

lemma no_dots_replace: "no_dots (replace_dots s)"
proof (induction s rule: replace_dots.induct)
  case (1 c d s)
  then show ?case
    using hd_replace_dots [of "d # s"] by (auto simp: no_dots_Cons)
qed simp_all

lemma no_dots_appendD: "no_dots (s @ t) \<Longrightarrow> no_dots s \<and> no_dots t"
  by (induction s) (auto simp: no_dots_Cons hd_append split: if_splits)

lemma py_join_infix: "p \<in> set ps \<Longrightarrow> \<exists>u v. py_join sep ps = u @ p @ v"
proof (induction sep ps rule: py_join.induct)
  case (2 sep x)
  then have "py_join sep [x] = [] @ p @ []" by simp
  then show ?case by blast
next
  case (3 sep x y ys)
  show ?case
  proof (cases "p = x")
    case True
    then have "py_join sep (x # y # ys) = [] @ p @ (sep @ py_join sep (y # ys))" by simp
    then show ?thesis by blast
  next
    case False
    with 3 obtain u v where "py_join sep (y # ys) = u @ p @ v" by auto
    then have "py_join sep (x # y # ys) = (x @ sep @ u) @ p @ v" by simp
    then show ?thesis by blast
  qed
qed simp

lemma no_dots_split: "no_dots s \<Longrightarrow> p \<in> set (py_split c s) \<Longrightarrow> no_dots p"
proof -
  assume "no_dots s" "p \<in> set (py_split c s)"
  moreover from py_join_infix [OF this(2)] obtain u v where "s = u @ p @ v"
    by (metis py_join_split)
  ultimately show ?thesis by (blast dest: no_dots_appendD)
qed

lemma path_parts_no_dotdot: "''..'' \<notin> set (path_parts (normalize_key key))"
proof
  assume "''..'' \<in> set (path_parts (normalize_key key))"
  then have "''..'' \<in> set (py_split (CHR ''/'') (normalize_key key))"
    by (simp add: path_parts_def)
  with no_dots_split [OF no_dots_replace] show False
    unfolding normalize_key_def by fastforce
qed

lemma path_parts_no_sep: "p \<in> set (path_parts s) \<Longrightarrow> CHR ''/'' \<notin> set p \<and> p \<noteq> [] \<and> p \<noteq> ''.''"
  by (auto simp: path_parts_def dest: py_split_no_sep)



subsection \<open>The contract of a blob store\<close>

text \<open>
  \<open>slot\<close> is where the backend keeps a key: two keys with one slot name the same object. A
  successful save makes the object readable under every key of its slot and leaves the other
  slots as they were; a successful delete removes its own slot only.
\<close>

definition content :: "(pystr \<Rightarrow> 's \<Rightarrow> bytes res \<times> 's) \<Rightarrow> 's \<Rightarrow> pystr \<Rightarrow> bytes option" where
  "content rd s key = (case fst (rd key s) of Inr d \<Rightarrow> Some d | Inl _ \<Rightarrow> None)"

locale blob_store =
  fixes save :: "pystr \<Rightarrow> bytes \<Rightarrow> 's \<Rightarrow> stored_object res \<times> 's"
    and rd :: "pystr \<Rightarrow> 's \<Rightarrow> bytes res \<times> 's"
    and del :: "pystr \<Rightarrow> 's \<Rightarrow> unit res \<times> 's"
    and slot :: "pystr \<Rightarrow> 'k"
    and valid_key :: "pystr \<Rightarrow> bool"
  assumes save_content: "save key data s = (Inr obj, s') \<Longrightarrow> valid_key key' \<Longrightarrow>
      content rd s' key' = (if slot key' = slot key then Some data else content rd s key')"
    and save_stored: "save key data s = (Inr obj, s') \<Longrightarrow> so_key obj = key \<and> so_size obj = int (length data)"
    and save_valid: "save key data s = (Inr obj, s') \<Longrightarrow> valid_key key"
    and delete_content: "del key s = (Inr u, s') \<Longrightarrow> valid_key key \<Longrightarrow>
      content rd s' key' = (if slot key' = slot key then None else content rd s key')"
begin

text \<open>A chain of saves leaves the last value of each slot.\<close>

lemma save_read: "save key data s = (Inr obj, s') \<Longrightarrow> content rd s' key = Some data"
  using save_content save_valid by auto

lemma save_overwrite:
  assumes "save key d1 s = (Inr o1, s1)" and "save key d2 s1 = (Inr o2, s2)"
  shows "content rd s2 key = Some d2"
  using assms(2) by (rule save_read)

lemma save_delete:
  assumes "save key d s = (Inr o1, s1)" and "del key s1 = (Inr u, s2)" and "valid_key key'"
  shows "content rd s2 key' = (if slot key' = slot key then None else content rd s key')"
  using delete_content [OF assms(2) save_valid [OF assms(1)]] save_content [OF assms(1,3)] by simp

end

lemma is_dir_mkdir [simp]: "is_dir (mkdir_parents p fs) q \<longleftrightarrow> is_dir fs q \<or> q \<in> set (proper_prefixes p)"
  by (auto simp: is_dir_def mkdir_parents_def)

lemma files_mkdir [simp]: "fs_files (mkdir_parents p fs) = fs_files fs"
  by (simp add: mkdir_parents_def)

lemma local_save_cases:
  assumes "local_save e base key data fs = (Inr obj, fs')"
  shows "CHR 0x00 \<notin> set key" "obj = stored e key data"
    "\<not> is_dir (mkdir_parents (local_abs base key) fs) (local_abs base key)"
    "\<forall>q\<in>set (proper_prefixes (local_abs base key)). \<not> is_file fs q"
    "fs_files fs' = dict_set (local_abs base key) data (fs_files fs)"
    "fs_dirs fs' = fs_dirs (mkdir_parents (local_abs base key) fs)"
  using assms by (auto simp: local_save_def Let_def list_ex_iff split: if_splits)

lemma local_content:
  "CHR 0x00 \<notin> set key \<Longrightarrow> content (local_read base) fs key =
     (if is_dir fs (local_abs base key) then None else map_of (fs_files fs) (local_abs base key))"
  by (auto simp: content_def local_read_def Let_def split: option.splits)

lemma local_content_save:
  assumes "local_save e base key data fs = (Inr obj, fs')" and "CHR 0x00 \<notin> set key'"
  shows "content (local_read base) fs' key' =
     (if local_abs base key' = local_abs base key then Some data else content (local_read base) fs key')"
proof -
  note c = local_save_cases [OF assms(1)]
  have dirs: "is_dir fs' q \<longleftrightarrow> is_dir fs q \<or> q \<in> set (proper_prefixes (local_abs base key))" for q
    using c(6) by (simp add: is_dir_def mkdir_parents_def) blast
  show ?thesis
    using c(3,4) by (auto simp: local_content [OF assms(2)] dirs c(5) is_file_def)
qed

interpretation local_blobs: blob_store "local_save e base" "local_read base" "local_delete base"
  "local_abs base" "\<lambda>key. CHR 0x00 \<notin> set key"
proof unfold_locales
  fix key key' data s s' obj
  assume "local_save e base key data s = (Inr obj, s')" and "CHR 0x00 \<notin> set key'"
  then show "content (local_read base) s' key' =
      (if local_abs base key' = local_abs base key then Some data else content (local_read base) s key')"
    by (rule local_content_save)
next
  fix key data s s' obj
  assume "local_save e base key data s = (Inr obj, s')"
  then show "so_key obj = key \<and> so_size obj = int (length data)" "CHR 0x00 \<notin> set key"
    by (auto dest: local_save_cases(1,2) simp: stored_def)
next
  fix key key' :: pystr and s s' u
  assume d: "local_delete base key s = (Inr u, s')" and k: "CHR 0x00 \<notin> set key"
  show "content (local_read base) s' key' =
      (if local_abs base key' = local_abs base key then None else content (local_read base) s key')"
  proof (cases "CHR 0x00 \<in> set key'")
    case True
    then show ?thesis by (simp add: content_def local_read_def Let_def)
  next
    case False
    with d k show ?thesis
      by (auto simp: local_content [OF False] local_delete_def Let_def is_dir_def is_file_def split: if_splits)
  qed
qed

subsection \<open>What the backends promise\<close>

text \<open>
  C17: Whatever key a caller gives, the local backend works on a path under its root: the
  root's components come first, no component after them is \<open>..\<close>, \<open>.\<close>, empty or holds a
  separator.
\<close>

theorem local_path_confined:
  "\<exists>rest. local_abs base key = base @ rest \<and> ''..'' \<notin> set rest \<and>
     list_all (\<lambda>p. p \<noteq> [] \<and> p \<noteq> ''.'' \<and> CHR ''/'' \<notin> set p) rest"
  using path_parts_no_dotdot [of key] path_parts_no_sep [of _ "normalize_key key"]
  by (auto simp: local_abs_def list_all_iff)

text \<open>
  The local store is a map from paths: after a save every key that names the same path
  reads the saved bytes and every other key reads as before, and after a delete of that key
  nothing is left under any of its names while the other keys still read as before.
\<close>

theorem local_save_then_delete:
  assumes "local_save e base key data fs = (Inr obj, fs1)"
    and "local_delete base key fs1 = (Inr u, fs2)" and "CHR 0x00 \<notin> set key'"
  shows "content (local_read base) fs1 key = Some data \<and>
    content (local_read base) fs1 key' =
      (if local_abs base key' = local_abs base key then Some data else content (local_read base) fs key') \<and>
    content (local_read base) fs2 key' =
      (if local_abs base key' = local_abs base key then None else content (local_read base) fs key')"
  using local_blobs.save_read [OF assms(1)] local_content_save [OF assms(1,3)]
    local_blobs.save_delete [OF assms] by simp

lemma local_save_then_delete_witness:
  "\<exists>fs1 fs2. local_save toy_env [''d''] ''a..b'' ''x'' \<lparr>fs_files = [], fs_dirs = [[], [''d'']]\<rparr> = (Inr (stored toy_env ''a..b'' ''x''), fs1) \<and>
     content (local_read [''d'']) fs1 ''a_b'' = Some ''x'' \<and>
     local_delete [''d''] ''a..b'' fs1 = (Inr (), fs2) \<and> content (local_read [''d'']) fs2 ''a_b'' = None"
proof -
  let ?s = "local_save toy_env [''d''] ''a..b'' ''x'' \<lparr>fs_files = [], fs_dirs = [[], [''d'']]\<rparr>"
  let ?t = "local_delete [''d''] ''a..b'' (snd ?s)"
  have s: "?s = (Inr (stored toy_env ''a..b'' ''x''), snd ?s)" and t: "?t = (Inr (), snd ?t)"
    by code_simp+
  have "local_abs [''d''] ''a_b'' = local_abs [''d''] ''a..b''" by code_simp
  with local_save_then_delete [OF s t, of "''a_b''"] s t show ?thesis by auto
qed

text \<open>
  The S3 backend keeps serving the old bytes through the local path after an overwrite:
  once a key is in the cache, a later save of other bytes is what \<open>read_bytes\<close> returns, but
  not what the path of \<open>resolve_local_path\<close> holds.
\<close>

theorem s3_cached_path_stale:
  assumes client: "\<And>b k d c c' u. put_object cl b k d c = (Inr u, c') \<Longrightarrow> fst (get_object cl b k c') = Inr d"
    and cached: "map_of (s3_cache s) (cache_path e c key) = Some old"
    and saved: "s3_save e cl c key new s = (Inr obj, s')"
  shows "s3_resolve e cl c key s' = (Inr (cache_path e c key), s') \<and>
    st_file (s3_storage e cl c) (cache_path e c key) s' = Some old \<and>
    fst (s3_read cl c key s') = Inr new"
proof -
  obtain o' where o': "put_object cl (s3_bucket c) (object_key c key) new (s3_objects s) = (Inr (), o')"
    and s': "s' = s\<lparr>s3_objects := o'\<rparr>"
    using saved by (auto simp: s3_save_def split: prod.splits sum.splits)
  from client [OF o'] show ?thesis
    by (simp add: s' s3_resolve_def s3_storage_def s3_read_def cached prod.case_eq_if)
qed

definition toy_s3 :: "((pystr \<times> pystr) \<times> bytes) list s3_client" where
  "toy_s3 =
     \<lparr>put_object = (\<lambda>b k d c. (Inr (), ((b, k), d) # c)),
      get_object = (\<lambda>b k c. (case map_of c (b, k) of None \<Rightarrow> Inl (OtherError ''NoSuchKey'') | Some d \<Rightarrow> Inr d, c)),
      delete_object = (\<lambda>b k c. (Inr (), filter (\<lambda>x. fst x \<noteq> (b, k)) c))\<rparr>"

definition toy_bucket :: s3_config where
  "toy_bucket = \<lparr>s3_bucket = ''b'', s3_prefix = []\<rparr>"

definition toy_cached :: "((pystr \<times> pystr) \<times> bytes) list s3_state" where
  "toy_cached =
     \<lparr>s3_objects = [((''b'', ''k.pdf''), ''old'')], s3_cache = [(cache_path toy_env toy_bucket ''k.pdf'', ''old'')]\<rparr>"

lemma s3_cached_path_stale_witness:
  "\<exists>obj s'. s3_save toy_env toy_s3 toy_bucket ''k.pdf'' ''new'' toy_cached = (Inr obj, s') \<and>
     st_file (s3_storage toy_env toy_s3 toy_bucket) (cache_path toy_env toy_bucket ''k.pdf'') s' = Some ''old'' \<and>
     fst (s3_read toy_s3 toy_bucket ''k.pdf'' s') = Inr ''new''"
proof -
  have saved: "s3_save toy_env toy_s3 toy_bucket ''k.pdf'' ''new'' toy_cached = (Inr (stored toy_env ''k.pdf'' ''new''),
      toy_cached\<lparr>s3_objects := ((''b'', ''k.pdf''), ''new'') # s3_objects toy_cached\<rparr>)"
    by code_simp
  have cached: "map_of (s3_cache toy_cached) (cache_path toy_env toy_bucket ''k.pdf'') = Some ''old''"
    by (simp add: toy_cached_def)
  show ?thesis
    using s3_cached_path_stale [OF _ cached saved] saved by (auto simp: toy_s3_def)
qed

end
