(* ===== verification/Saas_World.thy ===== *)
theory Saas_World
  imports Storage
begin

text \<open>
  The state every operation of the SaaS core reads and writes: the committed database, the
  in-memory job queue of \<open>saas/queue.py\<close>, the state of the storage backend and the number
  of random draws made so far. Then the transaction end (commit checks every constraint of
  the schema and either replaces the database or leaves it and raises), the queue with its
  drain loop, and the tenant guard of \<open>saas/db.py\<close>.

  An operation of the service runs against one committed database: between its first
  statement and its commit no other transaction commits, except where a definition takes an
  explicit interference argument. A unit of work is the database it would commit; rows are
  appended by \<open>session.add\<close>, changed in place by attribute assignment.
\<close>

type_synonym payload = "(pystr \<times> pystr) list"
type_synonym queued_job = "pystr \<times> payload \<times> pystr"

record 's world =
  w_db :: db
  w_queue :: "queued_job list"
  w_store :: 's
  w_ctr :: nat


subsection \<open>Transactions\<close>

text \<open>\<open>session.commit()\<close> of the unit of work \<open>d\<close>, then the value or exception \<open>r\<close>.\<close>

definition commit_with :: "db \<Rightarrow> 'a res \<Rightarrow> 's world \<Rightarrow> 'a res \<times> 's world" where
  "commit_with d r w =
     (case db_violation d of
        Some c \<Rightarrow> (Inl (IntegrityError c), w)
      | None \<Rightarrow> (r, w\<lparr>w_db := d\<rparr>))"

text \<open>\<open>session_scope\<close>: commit when the body returns, roll back when it raises.\<close>

definition session_scope :: "(db \<Rightarrow> 'a res \<times> db) \<Rightarrow> 's world \<Rightarrow> 'a res \<times> 's world" where
  "session_scope body w =
     (case body (w_db w) of
        (Inl err, _) \<Rightarrow> (Inl err, w)
      | (Inr x, d) \<Rightarrow> commit_with d (Inr x) w)"

definition draw :: "nat \<Rightarrow> 's world \<Rightarrow> 's world" where
  "draw k w = w\<lparr>w_ctr := w_ctr w + k\<rparr>"

lemma db_violation_Some: "db_violation d = Some c \<Longrightarrow> \<not> db_ok d"
  by (auto simp flip: db_violation_None)

lemma commit_ok: "db_ok d \<Longrightarrow> commit_with d r w = (r, w\<lparr>w_db := d\<rparr>)"
  by (auto simp: commit_with_def dest: db_violation_Some split: option.splits)

lemma commit_not_ok: "\<not> db_ok d \<Longrightarrow> \<exists>c. commit_with d r w = (Inl (IntegrityError c), w)"
  by (auto simp: commit_with_def split: option.splits)

lemma commit_cases:
  "commit_with d r w = (r', w') \<Longrightarrow>
     (db_ok d \<and> r' = r \<and> w' = w\<lparr>w_db := d\<rparr>) \<or> (\<exists>c. \<not> db_ok d \<and> r' = Inl (IntegrityError c) \<and> w' = w)"
  using commit_ok [of d r w] commit_not_ok [of d r w] by (cases "db_ok d") auto

lemma commit_db_ok: "db_ok (w_db w) \<Longrightarrow> db_ok (w_db (snd (commit_with d r w)))"
  using commit_ok [of d r w] commit_not_ok [of d r w] by (cases "db_ok d") auto

lemma commit_frame [simp]:
  "w_queue (snd (commit_with d r w)) = w_queue w" "w_store (snd (commit_with d r w)) = w_store w"
  "w_ctr (snd (commit_with d r w)) = w_ctr w"
  by (auto simp: commit_with_def split: option.splits)

lemma draw_simps [simp]:
  "w_db (draw k w) = w_db w" "w_queue (draw k w) = w_queue w" "w_store (draw k w) = w_store w"
  "w_ctr (draw k w) = w_ctr w + k"
  by (simp_all add: draw_def)


subsection \<open>The job queue\<close>

text \<open>\<open>InMemoryJobQueue.enqueue\<close>: a fresh identifier, the job at the end.\<close>

definition enqueue :: "env \<Rightarrow> pystr \<Rightarrow> payload \<Rightarrow> 's world \<Rightarrow> pystr \<times> 's world" where
  "enqueue e task payload w =
     (let job_id = uuid4 e (w_ctr w)
      in (job_id, w\<lparr>w_queue := w_queue w @ [(task, payload, job_id)], w_ctr := w_ctr w + 1\<rparr>))"

definition pop_job :: "'s world \<Rightarrow> (queued_job \<times> 's world) option" where
  "pop_job w =
     (case w_queue w of [] \<Rightarrow> None | job # rest \<Rightarrow> Some (job, w\<lparr>w_queue := rest\<rparr>))"

text \<open>
  \<open>drain_in_memory_queue\<close>: handlers may enqueue further jobs, so the loop need not end; None
  is a drain that does not return. A task without a handler is a \<open>KeyError\<close> after the job
  has been taken off the queue.
\<close>

partial_function (option) drain_from ::
  "(pystr \<Rightarrow> (payload \<Rightarrow> 's world \<Rightarrow> unit res \<times> 's world) option) \<Rightarrow> nat \<Rightarrow> 's world
    \<Rightarrow> (nat res \<times> 's world) option" where
  "drain_from handlers processed w =
     (case pop_job w of
        None \<Rightarrow> Some (Inr processed, w)
      | Some ((task, payload, job_id), w1) \<Rightarrow>
          (case handlers task of
             None \<Rightarrow> Some (Inl (KeyError task), w1)
           | Some handler \<Rightarrow>
               (case handler payload w1 of
                  (Inl err, w2) \<Rightarrow> Some (Inl err, w2)
                | (Inr _, w2) \<Rightarrow> drain_from handlers (processed + 1) w2)))"

definition drain_in_memory_queue ::
  "(pystr \<Rightarrow> (payload \<Rightarrow> 's world \<Rightarrow> unit res \<times> 's world) option) \<Rightarrow> 's world
    \<Rightarrow> (nat res \<times> 's world) option" where
  "drain_in_memory_queue handlers w = drain_from handlers 0 w"

locale job_queue =
  fixes enq :: "'j \<Rightarrow> 'q \<Rightarrow> 'q" and pop :: "'q \<Rightarrow> ('j \<times> 'q) option" and pending :: "'q \<Rightarrow> 'j list"
  assumes pending_enq: "pending (enq j q) = pending q @ [j]"
    and pop_empty: "pop q = None \<longleftrightarrow> pending q = []"
    and pop_first: "pop q = Some (j, q') \<Longrightarrow> pending q = j # pending q'"
begin

lemma pending_enq_all: "pending (fold enq js q) = pending q @ js"
  by (induction js arbitrary: q) (simp_all add: pending_enq)

text \<open>First in, first out: what was queued first is popped first, nothing is lost.\<close>

lemma pop_fold: "pending q = [] \<Longrightarrow> \<exists>q'. pop (fold enq (j # js) q) = Some (j, q') \<and> pending q' = js"
proof -
  assume "pending q = []"
  then have p: "pending (fold enq (j # js) q) = j # js"
    using pending_enq_all [of "j # js" q] by simp
  then obtain x q' where "pop (fold enq (j # js) q) = Some (x, q')"
    using pop_empty [of "fold enq (j # js) q"] by fastforce
  with pop_first [OF this] p show ?thesis by simp
qed

end

definition enqueue_job :: "queued_job \<Rightarrow> 's world \<Rightarrow> 's world" where
  "enqueue_job j w = w\<lparr>w_queue := w_queue w @ [j]\<rparr>"

lemma enqueue_as_job:
  "enqueue e task payload w =
     (uuid4 e (w_ctr w), draw 1 (enqueue_job (task, payload, uuid4 e (w_ctr w)) w))"
  by (simp add: enqueue_def enqueue_job_def draw_def Let_def)

interpretation mem_queue: job_queue enqueue_job pop_job w_queue
  by unfold_locales (auto simp: enqueue_job_def pop_job_def split: list.splits)

lemma enqueue_simps [simp]:
  "fst (enqueue e t p w) = uuid4 e (w_ctr w)"
  "w_db (snd (enqueue e t p w)) = w_db w"
  "w_queue (snd (enqueue e t p w)) = w_queue w @ [(t, p, uuid4 e (w_ctr w))]"
  "w_store (snd (enqueue e t p w)) = w_store w"
  "w_ctr (snd (enqueue e t p w)) = w_ctr w + 1"
  by (simp_all add: enqueue_def Let_def)

text \<open>
  Termination: when every successful handler run lowers a measure of the state, draining
  returns.
\<close>

lemma drain_from_terminates:
  assumes "\<And>task payload job_id h w w1 w2 x.
      pop_job w = Some ((task, payload, job_id), w1) \<Longrightarrow> handlers task = Some h \<Longrightarrow>
      h payload w1 = (Inr x, w2) \<Longrightarrow> (m w2 :: 'm::wellorder) < m w"
  shows "\<exists>r. drain_from handlers n w = Some r"
proof (induction "m w" arbitrary: n w rule: less_induct)
  case less
  show ?case
  proof (cases "pop_job w")
    case None
    then show ?thesis by (simp add: drain_from.simps)
  next
    case (Some jw)
    obtain task payload job_id w1 where jw: "jw = ((task, payload, job_id), w1)" by (metis surj_pair)
    show ?thesis
    proof (cases "handlers task")
      case None
      then show ?thesis using Some jw by (simp add: drain_from.simps)
    next
      case (Some h)
      obtain r w2 where r: "h payload w1 = (r, w2)" by force
      show ?thesis
      proof (cases r)
        case (Inl err)
        then show ?thesis using \<open>pop_job w = Some jw\<close> Some jw r by (simp add: drain_from.simps)
      next
        case (Inr x)
        then have "m w2 < m w" using assms \<open>pop_job w = Some jw\<close> Some jw r by blast
        from less [OF this, of "n + 1"] show ?thesis
          using \<open>pop_job w = Some jw\<close> Some jw r Inr by (subst drain_from.simps) simp
      qed
    qed
  qed
qed

subsection \<open>What the queue and the drain promise\<close>

text \<open>
  The queue is first in, first out over the service's \<open>enqueue\<close>: jobs queued on an empty
  queue are popped in the order queued, each exactly once.
\<close>

theorem queue_fifo:
  assumes "w_queue w = []"
  shows "\<exists>w'. pop_job (fold enqueue_job (j # js) w) = Some (j, w') \<and> w_queue w' = js"
  using assms by (rule mem_queue.pop_fold)

text \<open>One step of a drain, on the job at the head.\<close>

definition handle_first ::
  "(pystr \<Rightarrow> (payload \<Rightarrow> 's world \<Rightarrow> unit res \<times> 's world) option) \<Rightarrow> queued_job \<Rightarrow> 's world \<Rightarrow> 's world" where
  "handle_first handlers job w =
     (case job of (task, payload, _) \<Rightarrow>
        snd (the (handlers task) payload (w\<lparr>w_queue := tl (w_queue w)\<rparr>)))"

lemma drain_from_all:
  assumes "\<And>task payload w. \<exists>h w'. handlers task = Some h \<and> h payload w = (Inr (), w') \<and> w_queue w' = w_queue w"
  shows "drain_from handlers n w =
    Some (Inr (n + length (w_queue w)), fold (handle_first handlers) (w_queue w) w)"
proof (induction "w_queue w" arbitrary: n w)
  case Nil
  then show ?case by (subst drain_from.simps) (simp add: pop_job_def)
next
  case (Cons job rest)
  obtain task payload job_id where job: "job = (task, payload, job_id)" by (metis surj_pair)
  let ?w = "w\<lparr>w_queue := rest\<rparr>"
  obtain h w' where h: "handlers task = Some h" "h payload ?w = (Inr (), w')" "w_queue w' = rest"
    using assms [of task payload ?w] by auto
  have first: "pop_job w = Some ((task, payload, job_id), ?w)"
    unfolding pop_job_def by (simp add: Cons(2) [symmetric] job)
  have "drain_from handlers n w = drain_from handlers (n + 1) w'"
    using h first by (subst drain_from.simps) simp
  also have "\<dots> = Some (Inr (n + 1 + length rest), fold (handle_first handlers) rest w')"
    using Cons(1) [of w' "n + 1"] h(3) by simp
  also have "handle_first handlers job w = w'"
    using h job by (simp add: handle_first_def Cons(2) [symmetric])
  ultimately show ?case by (simp add: Cons(2) [symmetric])
qed


text \<open>A handler that counts its runs in the world's counter.\<close>

definition count_handlers :: "pystr \<Rightarrow> (payload \<Rightarrow> 's world \<Rightarrow> unit res \<times> 's world) option" where
  "count_handlers task = Some (\<lambda>p w. (Inr (), w\<lparr>w_ctr := w_ctr w + length p\<rparr>))"


lemma queue_fifo_witness:
  "\<exists>w'. pop_job (fold enqueue_job [(''a'', [], ''i''), (''b'', [], ''j'')]
      \<lparr>w_db = empty_db, w_queue = [], w_store = (), w_ctr = 0\<rparr>) = Some ((''a'', [], ''i''), w') \<and>
     w_queue w' = [(''b'', [], ''j'')]"
  by (rule queue_fifo) simp

text \<open>
  A drain stops at the first job that cannot be run: the job, already taken off the
  queue, is lost when no handler is registered for it or its handler raises, and the jobs
  behind it stay queued.
\<close>

theorem drain_stops_at_failure:
  assumes "w_queue w = (task, payload, job_id) # rest"
    and "handlers task = None \<or> (\<exists>h w'. handlers task = Some h \<and> w_queue w' = rest \<and>
      h payload (w\<lparr>w_queue := rest\<rparr>) = (Inl err, w'))"
  shows "\<exists>x w'. drain_in_memory_queue handlers w = Some (Inl x, w') \<and> w_queue w' = rest \<and>
    (handlers task = None \<longrightarrow> x = KeyError task \<and> w' = w\<lparr>w_queue := rest\<rparr>)"
  using assms unfolding drain_in_memory_queue_def
  by (subst drain_from.simps) (auto simp: pop_job_def)

lemma drain_stops_at_failure_witness:
  "\<exists>w'. drain_in_memory_queue (\<lambda>_. None)
      \<lparr>w_db = empty_db, w_queue = [(''a'', [], ''i''), (''b'', [], ''j'')], w_store = (), w_ctr = 0\<rparr> =
    Some (Inl (KeyError ''a''), w') \<and> w_queue w' = [(''b'', [], ''j'')]"
  using drain_stops_at_failure [of "\<lparr>w_db = empty_db, w_queue = [(''a'', [], ''i''), (''b'', [], ''j'')], w_store = (), w_ctr = 0\<rparr>"
      "''a''" "[]" "''i''" "[(''b'', [], ''j'')]" "\<lambda>_. None"] by auto

end
