(* ===== verification/Auth_Core.thy ===== *)
theory Auth_Core
  imports Py_Date Saas_World
begin

text \<open>
  \<open>saas/auth.py\<close>: slugs and e-mail addresses, API keys, password hashes and access tokens.
  The hash functions and the randomness are the environment's; everything around them (the
  encodings, the splitting, the checks and their order) is the code's.
\<close>

subsection \<open>Slugs\<close>

definition slug_alnum :: "char \<Rightarrow> bool" where
  "slug_alnum c = (let n = code c in (97 \<le> n \<and> n \<le> 122) \<or> (48 \<le> n \<and> n \<le> 57))"

definition dash_c :: char where "dash_c = CHR ''-''"

definition slug_char :: "char \<Rightarrow> bool" where
  "slug_char c = (slug_alnum c \<or> c = dash_c)"

text \<open>\<open>re.sub(r"[^a-z0-9]+", "-", value)\<close>: each maximal run of other characters is one dash.\<close>

fun collapse_runs :: "bool \<Rightarrow> pystr \<Rightarrow> pystr" where
  "collapse_runs in_run [] = []"
| "collapse_runs in_run (c # s) =
     (if slug_alnum c then c # collapse_runs False s
      else if in_run then collapse_runs True s
      else dash_c # collapse_runs True s)"

definition slugify_tenant_name :: "pystr \<Rightarrow> pystr" where
  "slugify_tenant_name raw_name =
     (let value = py_lower (py_strip raw_name);
          value = collapse_runs False value;
          value = py_strip_with (\<lambda>c. c = dash_c) value
      in if value = [] then ''tenant'' else take 64 value)"

definition is_valid_tenant_slug :: "pystr \<Rightarrow> bool" where
  "is_valid_tenant_slug raw_slug =
     (let s = py_lower (py_strip raw_slug)
      in list_all slug_char s \<and> 2 \<le> length s \<and> length s \<le> 64)"

text \<open>The regular expression \<open>^[^@\s]+@[^@\s]+\.[^@\s]+$\<close>, by where its characters fall.\<close>

definition email_char :: "char \<Rightarrow> bool" where
  "email_char c = (c \<noteq> CHR ''@'' \<and> \<not> py_isspace c)"

definition is_valid_email :: "pystr \<Rightarrow> bool" where
  "is_valid_email raw_email =
     (let s = py_strip raw_email; user_part = before_char (CHR ''@'') s; domain = after_char (CHR ''@'') s
      in CHR ''@'' \<in> set s \<and> user_part \<noteq> [] \<and> list_all email_char user_part
         \<and> list_all email_char domain
         \<and> list_ex (\<lambda>i. domain ! i = CHR ''.'') [1..<length domain - 1])"

text \<open>\<open>unique_tenant_slug\<close>: the loop over numbered candidates; it need not end in general.\<close>

definition slug_candidate :: "pystr \<Rightarrow> nat \<Rightarrow> pystr" where
  "slug_candidate base_slug suffix =
     (let suffix_text = dash_c # py_str_nat suffix; trim_to = max 1 (64 - int (length suffix_text))
      in take (nat trim_to) base_slug @ suffix_text)"

partial_function (option) slug_loop :: "pystr \<Rightarrow> (pystr \<Rightarrow> bool) \<Rightarrow> pystr \<Rightarrow> nat \<Rightarrow> pystr option" where
  "slug_loop base_slug slug_exists candidate suffix =
     (if slug_exists candidate
      then slug_loop base_slug slug_exists (slug_candidate base_slug suffix) (suffix + 1)
      else Some candidate)"

definition unique_tenant_slug :: "pystr \<Rightarrow> (pystr \<Rightarrow> bool) \<Rightarrow> pystr option" where
  "unique_tenant_slug name slug_exists =
     (let base_slug = slugify_tenant_name name in slug_loop base_slug slug_exists base_slug 1)"


subsection \<open>Keys and passwords\<close>

definition hash_api_key :: "env \<Rightarrow> pystr \<Rightarrow> pystr" where
  "hash_api_key e raw_key = sha256_hex e raw_key"

definition hash_refresh_token :: "env \<Rightarrow> pystr \<Rightarrow> pystr" where
  "hash_refresh_token e raw_token = sha256_hex e raw_token"

record api_key_material =
  plain_text :: pystr
  key_prefix :: pystr
  key_hash :: pystr

text \<open>The functions that draw randomness take the number of the draw.\<close>

definition generate_api_key :: "env \<Rightarrow> nat \<Rightarrow> api_key_material" where
  "generate_api_key e n =
     (let plain = token_urlsafe e n 32
      in \<lparr>plain_text = plain, key_prefix = take 8 plain, key_hash = hash_api_key e plain\<rparr>)"

definition generate_refresh_token :: "env \<Rightarrow> nat \<Rightarrow> pystr" where
  "generate_refresh_token e n = token_urlsafe e n 48"

definition dollar_c :: char where "dollar_c = CHR ''$''"

definition default_iterations :: int where "default_iterations = 120000"

definition hash_password :: "env \<Rightarrow> nat \<Rightarrow> pystr \<Rightarrow> int \<Rightarrow> pystr res" where
  "hash_password e n password iterations =
     (if password = [] then Inl (ValueError ''password cannot be empty'')
      else if iterations < 1 then Inl (ValueError ''iteration value must be greater than 0.'')
      else if 2147483647 < iterations then Inl (OverflowError ''iteration value is too great.'')
      else let salt = token_bytes e n 16; digest = pbkdf2_sha256 e (utf8 password) salt iterations
           in Inr (''pbkdf2_sha256'' @ [dollar_c] @ py_str_int iterations @ [dollar_c]
                   @ urlsafe_b64encode salt @ [dollar_c] @ urlsafe_b64encode digest))"

definition verify_password :: "env \<Rightarrow> pystr \<Rightarrow> pystr \<Rightarrow> bool res" where
  "verify_password e password encoded_hash =
     (case py_splitn 3 dollar_c encoded_hash of
        [algo, iter_raw, salt_raw, digest_raw] \<Rightarrow>
          if algo \<noteq> ''pbkdf2_sha256'' then Inr False
          else (case (py_int iter_raw, urlsafe_b64decode salt_raw, urlsafe_b64decode digest_raw) of
                  (Some iterations, Some salt, Some expected) \<Rightarrow>
                    if iterations < 1 then Inl (ValueError ''iteration value must be greater than 0.'')
                    else if 2147483647 < iterations then Inl (OverflowError ''iteration value is too great.'')
                    else Inr (pbkdf2_sha256 e (utf8 password) salt iterations = expected)
                | _ \<Rightarrow> Inr False)
      | _ \<Rightarrow> Inr False)"


subsection \<open>Access tokens\<close>

record access_token_claims =
  cl_user_id :: pystr
  cl_tenant_id :: pystr
  cl_membership_id :: pystr
  cl_session_id :: pystr
  cl_exp :: int

text \<open>\<open>int(t.timestamp())\<close>; exact for instants up to the year 2242.\<close>

definition timestamp_int :: "time \<Rightarrow> int" where
  "timestamp_int t = (if 0 \<le> t then t div 1000000 else - ((- t) div 1000000))"

definition token_payload ::
  "pystr \<Rightarrow> pystr \<Rightarrow> pystr \<Rightarrow> pystr \<Rightarrow> int \<Rightarrow> pystr \<Rightarrow> json" where
  "token_payload user_id tenant_id membership_id session_id expiry jti =
     JObj [(''v'', JInt 1), (''sub'', JStr user_id), (''tid'', JStr tenant_id),
           (''mid'', JStr membership_id), (''sid'', JStr session_id), (''exp'', JInt expiry),
           (''jti'', JStr jti)]"

definition sign_payload :: "env \<Rightarrow> pystr \<Rightarrow> pystr \<Rightarrow> bytes" where
  "sign_payload e secret payload_b64 = hmac_sha256 e (utf8 secret) payload_b64"

definition issue_access_token ::
  "env \<Rightarrow> nat \<Rightarrow> pystr \<Rightarrow> pystr \<Rightarrow> pystr \<Rightarrow> pystr \<Rightarrow> pystr \<Rightarrow> time \<Rightarrow> pystr" where
  "issue_access_token e n secret user_id tenant_id membership_id session_id expires_at =
     (let expiry = timestamp_int expires_at;
          payload = token_payload user_id tenant_id membership_id session_id expiry (token_hex e n 8);
          payload_b64 = b64url_encode (utf8 (json_dumps_compact payload));
          signature_b64 = b64url_encode (sign_payload e secret payload_b64)
      in ''v1.'' @ payload_b64 @ ''.'' @ signature_b64)"

text \<open>\<open>payload[key]\<close>: None for the \<open>KeyError\<close> and for a payload that is no object.\<close>

definition json_get :: "json \<Rightarrow> pystr \<Rightarrow> json option" where
  "json_get j k = (case j of JObj kvs \<Rightarrow> map_of kvs k | _ \<Rightarrow> None)"

definition claims_of_payload :: "json \<Rightarrow> access_token_claims option" where
  "claims_of_payload payload =
     Option.bind (json_get payload ''sub'') (\<lambda>u. Option.bind (json_get payload ''tid'') (\<lambda>t.
     Option.bind (json_get payload ''mid'') (\<lambda>m. Option.bind (json_get payload ''sid'') (\<lambda>s.
     Option.bind (Option.bind (json_get payload ''exp'') json_int) (\<lambda>x.
       Some \<lparr>cl_user_id = py_str u, cl_tenant_id = py_str t, cl_membership_id = py_str m,
             cl_session_id = py_str s, cl_exp = x\<rparr>)))))"

definition decode_access_token ::
  "env \<Rightarrow> pystr \<Rightarrow> pystr \<Rightarrow> time \<Rightarrow> access_token_claims option \<times> pystr option" where
  "decode_access_token e token secret now =
     (if token = [] then (None, Some ''missing'')
      else case py_splitn 2 (CHR ''.'') token of
        [version, payload_b64, signature_b64] \<Rightarrow>
          if version \<noteq> ''v1'' then (None, Some ''invalid'')
          else if \<not> is_ascii payload_b64 then (None, Some ''invalid'')
          else (case b64url_decode signature_b64 of
                  None \<Rightarrow> (None, Some ''invalid'')
                | Some parsed_sig \<Rightarrow>
                    if sign_payload e secret payload_b64 \<noteq> parsed_sig then (None, Some ''invalid'')
                    else (case Option.bind (Option.bind (Option.bind (b64url_decode payload_b64)
                                 utf8_decode) json_loads) claims_of_payload of
                            None \<Rightarrow> (None, Some ''invalid'')
                          | Some claims \<Rightarrow>
                              if cl_exp claims \<le> timestamp_int now then (None, Some ''expired'')
                              else (Some claims, None)))
      | _ \<Rightarrow> (None, Some ''invalid''))"

text \<open>\<open>resolve_tenant_id_from_api_key\<close>\<close>

definition resolve_tenant_id_from_api_key :: "env \<Rightarrow> db \<Rightarrow> pystr \<Rightarrow> pystr option" where
  "resolve_tenant_id_from_api_key e d raw_key =
     (case scalar_one_or_none (\<lambda>k. ak_key_hash k = hash_api_key e raw_key) (api_keys d) of
        None \<Rightarrow> None
      | Some k \<Rightarrow> if ak_revoked k then None else Some (ak_tenant_id k))"



subsection \<open>Slug and e-mail lemmas\<close>

lemma slug_alnum_dash [simp]: "\<not> slug_alnum dash_c"
  by (simp add: slug_alnum_def dash_c_def)

lemma collapse_runs_chars: "list_all slug_char (collapse_runs r s)"
  by (induction r s rule: collapse_runs.induct) (auto simp: slug_char_def)

lemma slugify_facts:
  "list_all slug_char (slugify_tenant_name name)" "slugify_tenant_name name \<noteq> []"
  "length (slugify_tenant_name name) \<le> 64"
proof -
  define v where "v = py_strip_with (\<lambda>c. c = dash_c) (collapse_runs False (py_lower (py_strip name)))"
  have v: "list_all slug_char v"
    using set_py_strip_with collapse_runs_chars unfolding v_def list_all_iff by blast
  have t: "list_all slug_char (take 64 v)"
    using v set_take_subset unfolding list_all_iff by fastforce
  have d: "list_all slug_char ''tenant''" by (simp add: slug_char_def slug_alnum_def)
  show "list_all slug_char (slugify_tenant_name name)" "slugify_tenant_name name \<noteq> []"
    "length (slugify_tenant_name name) \<le> 64"
    using t d by (auto simp: slugify_tenant_name_def Let_def v_def [symmetric])
qed

lemma slug_char_plain: "slug_char c \<Longrightarrow> \<not> py_isspace c \<and> lower_char c = c"
  by (auto simp: slug_char_def slug_alnum_def dash_c_def py_isspace_def lower_char_def Let_def)

lemma slug_strip_lower: "list_all slug_char s \<Longrightarrow> py_lower (py_strip s) = s"
proof -
  assume s: "list_all slug_char s"
  then have "py_strip s = s"
    unfolding py_strip_def list_all_iff
    by (intro py_strip_with_id) (auto dest!: slug_char_plain simp: hd_in_set last_in_set)
  moreover have "py_lower s = s"
    using s unfolding py_lower_def list_all_iff by (intro map_idI) (auto dest: slug_char_plain)
  ultimately show ?thesis by simp
qed

lemma valid_slug_iff: "list_all slug_char s \<Longrightarrow> is_valid_tenant_slug s \<longleftrightarrow> 2 \<le> length s \<and> length s \<le> 64"
  by (simp add: is_valid_tenant_slug_def Let_def slug_strip_lower)

lemma after_last_append: "c \<notin> set t \<Longrightarrow> after_last c (s @ c # t) = t"
  by (auto simp: after_last_def takeWhile_append)

lemma slug_candidate_inj: "slug_candidate b i = slug_candidate b j \<Longrightarrow> i = j"
proof -
  have nd: "dash_c \<notin> set (py_str_nat k)" for k
    using py_str_nat_digits [of k] by (auto simp: is_digit_def dash_c_def)
  have "after_last dash_c (slug_candidate b k) = py_str_nat k" for k
    unfolding slug_candidate_def Let_def by (rule after_last_append [OF nd])
  then show "slug_candidate b i = slug_candidate b j \<Longrightarrow> i = j"
    by (metis py_str_nat_inj)
qed

lemma slug_candidate_chars: "list_all slug_char b \<Longrightarrow> list_all slug_char (slug_candidate b k)"
proof -
  assume b: "list_all slug_char b"
  have "list_all slug_char (py_str_nat k)"
    using py_str_nat_digits [of k] by (auto simp: list_all_iff slug_char_def slug_alnum_def is_digit_def Let_def)
  then show ?thesis
    using b by (auto simp: slug_candidate_def Let_def slug_char_def list_all_iff dest: in_set_takeD)
qed

lemma slug_loop_result:
  "slug_loop b ex c n = Some r \<Longrightarrow> \<not> ex r \<and> (r = c \<or> (\<exists>k. r = slug_candidate b k))"
proof (rule slug_loop.raw_induct [where P = "\<lambda>b ex c n r. \<not> ex r \<and> (r = c \<or> (\<exists>k. r = slug_candidate b k))"])
  fix f b ex c n r
  assume ih: "\<And>b ex c n r. f b ex c n = Some r \<Longrightarrow> \<not> ex r \<and> (r = c \<or> (\<exists>k. r = slug_candidate b k))"
    and r: "(if ex c then f b ex (slug_candidate b n) (n + 1) else Some c) = Some r"
  then show "\<not> ex r \<and> (r = c \<or> (\<exists>k. r = slug_candidate b k))"
    by (cases "ex c") (auto dest: ih)
qed

lemma slug_loop_terminates:
  assumes "finite {k. n \<le> k \<and> ex (slug_candidate b k)}"
  shows "\<exists>r. slug_loop b ex c n = Some r"
  using assms
proof (induction "card {k. n \<le> k \<and> ex (slug_candidate b k)}" arbitrary: n c rule: less_induct)
  case less
  let ?S = "\<lambda>n. {k. n \<le> k \<and> ex (slug_candidate b k)}"
  show ?case
  proof (cases "ex c")
    case True
    then have step: "slug_loop b ex c n = slug_loop b ex (slug_candidate b n) (n + 1)"
      by (simp add: slug_loop.simps [of b ex c])
    show ?thesis
    proof (cases "ex (slug_candidate b n)")
      case True
      then have "n \<in> ?S n" "n \<notin> ?S (n + 1)" by simp_all
      moreover have "?S (n + 1) \<subseteq> ?S n" by auto
      ultimately have "?S (n + 1) \<subset> ?S n" by blast
      then have "card (?S (n + 1)) < card (?S n)" by (rule psubset_card_mono [OF less.prems])
      moreover have "finite (?S (n + 1))" using less.prems \<open>?S (n + 1) \<subset> ?S n\<close> by (meson finite_subset psubset_imp_subset)
      ultimately show ?thesis using less.hyps step by simp
    next
      case False
      then show ?thesis using step by (simp add: slug_loop.simps [of b ex "slug_candidate b n"])
    qed
  next
    case False
    then show ?thesis by (simp add: slug_loop.simps)
  qed
qed

lemma finite_candidates: "finite {s. ex s} \<Longrightarrow> finite {k. n \<le> k \<and> ex (slug_candidate b k)}"
proof -
  assume "finite {s. ex s}"
  moreover have "slug_candidate b ` {k. n \<le> k \<and> ex (slug_candidate b k)} \<subseteq> {s. ex s}" by auto
  moreover have "inj_on (slug_candidate b) {k. n \<le> k \<and> ex (slug_candidate b k)}"
    by (auto intro!: inj_onI dest: slug_candidate_inj)
  ultimately show ?thesis by (meson finite_imageD finite_subset)
qed

lemma unique_tenant_slug_returns:
  assumes "finite {s. slug_exists s}"
  shows "\<exists>slug. unique_tenant_slug name slug_exists = Some slug \<and> \<not> slug_exists slug \<and>
    slug \<noteq> [] \<and> list_all slug_char slug"
proof -
  obtain slug where s: "unique_tenant_slug name slug_exists = Some slug"
    using slug_loop_terminates [OF finite_candidates [OF assms]]
    unfolding unique_tenant_slug_def Let_def by blast
  then have "\<not> slug_exists slug \<and> (slug = slugify_tenant_name name \<or>
      (\<exists>k. slug = slug_candidate (slugify_tenant_name name) k))"
    unfolding unique_tenant_slug_def Let_def by (rule slug_loop_result)
  moreover have "slug_candidate b k \<noteq> []" for b k by (simp add: slug_candidate_def Let_def)
  ultimately show ?thesis
    using s slugify_facts [of name] slug_candidate_chars [OF slugify_facts(1)] by auto
qed

text \<open>
  The slug generator terminates whenever finitely many slugs are taken; what it returns is
  not taken, is not empty and consists of the characters a slug may have.
\<close>

theorem unique_tenant_slug_total:
  assumes "finite {s. slug_exists s}"
  shows "\<exists>slug. unique_tenant_slug name slug_exists = Some slug \<and> \<not> slug_exists slug \<and>
    slug \<noteq> [] \<and> list_all slug_char slug"
  using assms by (rule unique_tenant_slug_returns)

lemma unique_tenant_slug_total_witness:
  "\<exists>slug. unique_tenant_slug ''Acme Ltd'' (\<lambda>s. s = ''acme-ltd'') = Some slug \<and> slug \<noteq> ''acme-ltd'' \<and>
    slug \<noteq> [] \<and> list_all slug_char slug"
  using unique_tenant_slug_total [of "\<lambda>s. s = ''acme-ltd''" "''Acme Ltd''"] by simp

text \<open>
  A one-character name gets a one-character slug, which the login form's slug check
  rejects: the generator and the validator disagree on the minimal length.
\<close>

theorem slug_generator_below_validator:
  "unique_tenant_slug ''A'' (\<lambda>s. False) = Some ''a'' \<and> \<not> is_valid_tenant_slug ''a'' \<and>
   (is_valid_tenant_slug (slugify_tenant_name name) \<longleftrightarrow> 2 \<le> length (slugify_tenant_name name))"
proof -
  have "slugify_tenant_name ''A'' = ''a''" by code_simp
  moreover have "\<not> is_valid_tenant_slug ''a''" by code_simp
  ultimately show ?thesis
    using slugify_facts [of name] by (simp add: unique_tenant_slug_def slug_loop.simps valid_slug_iff)
qed


lemma before_after_char: "c \<in> set s \<Longrightarrow> s = before_char c s @ c # after_char c s"
  unfolding before_char_def after_char_def
  by (induction s) auto

lemma before_after_append: "c \<notin> set u \<Longrightarrow> before_char c (u @ c # v) = u \<and> after_char c (u @ c # v) = v"
  by (auto simp: before_char_def after_char_def takeWhile_append dropWhile_append)

text \<open>
  The e-mail check accepts exactly the strings its regular expression describes: after
  stripping, a non-empty part, an at sign, a non-empty part, a dot and a non-empty part, none
  of them with white space or a further at sign.
\<close>

theorem is_valid_email_iff:
  "is_valid_email raw \<longleftrightarrow>
     (\<exists>a b c. py_strip raw = a @ ''@'' @ b @ ''.'' @ c \<and> a \<noteq> [] \<and> b \<noteq> [] \<and> c \<noteq> []
        \<and> list_all email_char (a @ b @ c))"
proof
  assume v: "is_valid_email raw"
  define s u d where "s = py_strip raw" and "u = before_char (CHR ''@'') s" and "d = after_char (CHR ''@'') s"
  from v obtain i where i: "1 \<le> i" "i < length d - 1" "d ! i = CHR ''.''"
    and u: "u \<noteq> []" "list_all email_char u" "list_all email_char d" "CHR ''@'' \<in> set s"
    by (auto simp: is_valid_email_def Let_def s_def u_def d_def list_ex_iff)
  have "s = u @ CHR ''@'' # d" using before_after_char [OF u(4)] by (simp add: u_def d_def)
  moreover have "d = take i d @ CHR ''.'' # drop (Suc i) d"
    using id_take_nth_drop [of i d] i by simp
  moreover have "take i d \<noteq> []" "drop (Suc i) d \<noteq> []" using i by auto
  moreover have "list_all email_char (u @ take i d @ drop (Suc i) d)"
    using u by (auto simp: list_all_iff dest: in_set_takeD in_set_dropD)
  moreover note u(1)
  ultimately show "\<exists>a b c. py_strip raw = a @ ''@'' @ b @ ''.'' @ c \<and> a \<noteq> [] \<and> b \<noteq> [] \<and> c \<noteq> []
        \<and> list_all email_char (a @ b @ c)"
    unfolding s_def [symmetric] 
    by - (rule exI [of _ u], rule exI [of _ "take i d"], rule exI [of _ "drop (Suc i) d"], simp)
next
  assume "\<exists>a b c. py_strip raw = a @ ''@'' @ b @ ''.'' @ c \<and> a \<noteq> [] \<and> b \<noteq> [] \<and> c \<noteq> []
        \<and> list_all email_char (a @ b @ c)"
  then obtain a b c where s: "py_strip raw = a @ CHR ''@'' # (b @ ''.'' @ c)" and ne: "a \<noteq> []" "b \<noteq> []" "c \<noteq> []"
    and chars: "list_all email_char (a @ b @ c)" by auto
  have at: "CHR ''@'' \<notin> set a" using chars by (auto simp: list_all_iff email_char_def)
  have dot: "email_char (CHR ''.'')" by (simp add: email_char_def py_isspace_def)
  have "(b @ ''.'' @ c) ! length b = CHR ''.''" by (simp add: nth_append)
  moreover have "length b \<in> set [1..<length (b @ ''.'' @ c) - 1]"
  proof -
    have "1 \<le> length b" "0 < length c" using ne by (simp_all add: Suc_le_eq)
    then show ?thesis by simp
  qed
  ultimately have "list_ex (\<lambda>i. (b @ ''.'' @ c) ! i = CHR ''.'') [1..<length (b @ ''.'' @ c) - 1]"
    unfolding list_ex_iff by blast
  then show "is_valid_email raw"
    using chars ne dot by (simp add: is_valid_email_def Let_def s before_after_append [OF at])
qed


subsection \<open>Passwords\<close>

lemma py_splitn_cut: "c \<notin> set u \<Longrightarrow> py_splitn (Suc n) c (u @ c # v) = u # py_splitn n c v"
  by (simp add: takeWhile_append dropWhile_append)

lemma py_splitn_two:
  "c \<notin> set a \<Longrightarrow> c \<notin> set b \<Longrightarrow> py_splitn 2 c (a @ c # (b @ c # x)) = [a, b, x]"
  unfolding numeral_2_eq_2 by (simp only: py_splitn_cut py_splitn.simps(1) not_False_eq_True)

lemma py_splitn_three:
  "c \<notin> set a \<Longrightarrow> c \<notin> set b \<Longrightarrow> c \<notin> set d \<Longrightarrow>
   py_splitn 3 c (a @ c # (b @ c # (d @ c # x))) = [a, b, d, x]"
  unfolding numeral_3_eq_3 by (simp only: py_splitn_cut py_splitn.simps(1) not_False_eq_True)

lemma py_str_int_chars: "c \<in> set (py_str_int i) \<Longrightarrow> is_digit c \<or> c = CHR ''-''"
  using py_str_nat_digits by (auto simp: py_str_int_def split: if_splits)

lemma py_int_str_int: "0 \<le> i \<Longrightarrow> py_int (py_str_int i) = Some i"
  by (simp add: py_str_int_def)

text \<open>
  Verifying a password against a hash made from it compares the two PBKDF2 digests and
  nothing else: the stored text survives its encoding, the right password is accepted, and a
  wrong one is accepted only when its digest collides.
\<close>

theorem verify_hash_password:
  assumes "hash_password e n password iterations = Inr encoded"
  shows "verify_password e attempt encoded =
    Inr (pbkdf2_sha256 e (utf8 attempt) (token_bytes e n 16) iterations =
         pbkdf2_sha256 e (utf8 password) (token_bytes e n 16) iterations)"
proof -
  define salt where "salt = token_bytes e n 16"
  define digest where "digest = pbkdf2_sha256 e (utf8 password) salt iterations"
  have it: "1 \<le> iterations" "iterations \<le> 2147483647"
    and enc: "encoded = ''pbkdf2_sha256'' @ dollar_c # (py_str_int iterations @ dollar_c #
        (urlsafe_b64encode salt @ dollar_c # urlsafe_b64encode digest))"
    using assms by (auto simp: hash_password_def Let_def salt_def digest_def split: if_splits)
  have "dollar_c \<notin> set ''pbkdf2_sha256''" by (simp add: dollar_c_def)
  moreover have "dollar_c \<notin> set (py_str_int iterations)"
    using py_str_int_chars [of dollar_c iterations] by (auto simp: dollar_c_def is_digit_def)
  moreover have "dollar_c \<notin> set (urlsafe_b64encode salt)"
    using urlsafe_b64encode_chars by (simp add: dollar_c_def)
  ultimately have "py_splitn 3 dollar_c encoded =
      [''pbkdf2_sha256'', py_str_int iterations, urlsafe_b64encode salt, urlsafe_b64encode digest]"
    unfolding enc by (rule py_splitn_three)
  then show ?thesis
    using it by (simp add: verify_password_def py_int_str_int urlsafe_b64decode_encode salt_def digest_def)
qed

lemma verify_hash_password_witness:
  "verify_password toy_env ''pw'' (projr (hash_password toy_env 0 ''pw'' 120000)) = Inr True \<and>
   verify_password toy_env ''px'' (projr (hash_password toy_env 0 ''pw'' 120000)) = Inr False"
proof -
  have "hash_password toy_env 0 ''pw'' 120000 = Inr (projr (hash_password toy_env 0 ''pw'' 120000))"
    by (simp add: hash_password_def Let_def)
  note v = verify_hash_password [OF this]
  show ?thesis
    unfolding v by (simp add: toy_env_def utf8_def utf8_char_def)
qed



subsection \<open>Access tokens: round trip and integrity\<close>

lemma json_get_sorted:
  assumes "distinct (map fst kvs)"
  shows "json_get (json_sort (JObj kvs)) k = map_option json_sort (map_of kvs k)"
proof -
  obtain kvs' where kvs': "json_sort (JObj kvs) = JObj kvs'" by simp
  with map_of_json_sort [OF assms kvs'] show ?thesis by (simp add: json_get_def)
qed

lemma claims_of_token_payload:
  "claims_of_payload (json_sort (token_payload u t m s x jti)) =
     Some \<lparr>cl_user_id = u, cl_tenant_id = t, cl_membership_id = m, cl_session_id = s, cl_exp = x\<rparr>"
  unfolding token_payload_def claims_of_payload_def by (subst json_get_sorted, simp)+ simp

lemma json_wf_token_payload: "json_wf (token_payload u t m s x jti)"
  by (simp add: token_payload_def)

lemma py_splitn_token:
  assumes "CHR ''.'' \<notin> set p" and "token = ''v1.'' @ p @ ''.'' @ sg"
  shows "py_splitn 2 (CHR ''.'') token = [''v1'', p, sg]"
proof -
  have "token = ''v1'' @ CHR ''.'' # (p @ CHR ''.'' # sg)" using assms(2) by simp
  then show ?thesis using py_splitn_two [of "CHR ''.''" "''v1''" p sg] assms(1) by simp
qed

lemma py_splitn_two_join:
  assumes "py_splitn 2 c s = [x, y, z]"
  shows "s = x @ c # (y @ c # z)"
proof -
  have cut: "c \<in> set s \<Longrightarrow> s = takeWhile (\<lambda>d. d \<noteq> c) s @ c # tl (dropWhile (\<lambda>d. d \<noteq> c) s)" for s
    by (induction s) auto
  show ?thesis
    using assms cut [of s] cut [of "tl (dropWhile (\<lambda>d. d \<noteq> c) s)"]
    by (auto simp: numeral_2_eq_2 split: if_splits)
qed

lemma decode_issued:
  "decode_access_token e (issue_access_token e n secret u t m s expires_at) secret now =
     (if timestamp_int now < timestamp_int expires_at
      then (Some \<lparr>cl_user_id = u, cl_tenant_id = t, cl_membership_id = m, cl_session_id = s,
                  cl_exp = timestamp_int expires_at\<rparr>, None)
      else (None, Some ''expired''))"
proof -
  define payload where "payload = token_payload u t m s (timestamp_int expires_at) (token_hex e n 8)"
  define p where "p = b64url_encode (utf8 (json_dumps_compact payload))"
  define sg where "sg = b64url_encode (sign_payload e secret p)"
  have token: "issue_access_token e n secret u t m s expires_at = ''v1.'' @ p @ ''.'' @ sg"
    by (simp add: issue_access_token_def Let_def payload_def p_def sg_def)
  have p: "CHR ''.'' \<notin> set p" "is_ascii p"
    unfolding p_def by (rule b64url_encode_chars)+
  have "json_loads (json_dumps_compact payload) = Some (json_sort payload)"
    unfolding payload_def by (intro json_loads_dumps_compact json_wf_token_payload)
  then have body: "Option.bind (Option.bind (Option.bind (b64url_decode p) utf8_decode) json_loads) claims_of_payload =
      Some \<lparr>cl_user_id = u, cl_tenant_id = t, cl_membership_id = m, cl_session_id = s,
            cl_exp = timestamp_int expires_at\<rparr>"
    by (simp add: p_def b64url_decode_encode utf8_decode_utf8 payload_def claims_of_token_payload)
  have sg: "b64url_decode sg = Some (sign_payload e secret p)"
    by (simp add: sg_def b64url_decode_encode)
  note split = py_splitn_token [OF p(1) refl, of sg]
  show ?thesis
    unfolding token decode_access_token_def split list.case body using p(2) by (simp add: sg)
qed

text \<open>
  An access token decodes, under the secret it was issued with, to the identifiers it was
  issued for until the second of its expiry, and is reported expired from that second on.
\<close>

theorem access_token_roundtrip:
  "decode_access_token e (issue_access_token e n secret u t m s expires_at) secret now =
     (if timestamp_int now < timestamp_int expires_at
      then (Some \<lparr>cl_user_id = u, cl_tenant_id = t, cl_membership_id = m, cl_session_id = s,
                  cl_exp = timestamp_int expires_at\<rparr>, None)
      else (None, Some ''expired''))"
  by (rule decode_issued)

text \<open>
  Whoever presents a token that decodes to claims knew the secret's signature: the token
  has the three parts of version v1, its last part carries the HMAC of its middle part under
  the secret, the claims are read from that middle part, and the expiry lies ahead.
\<close>

theorem access_token_integrity:
  assumes "decode_access_token e token secret now = (Some claims, err)"
  shows "err = None \<and> timestamp_int now < cl_exp claims \<and>
    (\<exists>p sg raw payload. token = ''v1.'' @ p @ ''.'' @ sg \<and>
       b64url_decode sg = Some (hmac_sha256 e (utf8 secret) p) \<and>
       b64url_decode p = Some raw \<and> Option.bind (utf8_decode raw) json_loads = Some payload \<and>
       claims_of_payload payload = Some claims)"
proof -
  obtain v p sg where parts: "py_splitn 2 (CHR ''.'') token = [v, p, sg]"
    and v: "v = ''v1''" and sg: "b64url_decode sg = Some (sign_payload e secret p)"
    and body: "Option.bind (Option.bind (Option.bind (b64url_decode p) utf8_decode) json_loads) claims_of_payload = Some claims"
    and rest: "\<not> cl_exp claims \<le> timestamp_int now" "err = None"
    using assms unfolding decode_access_token_def
    by (auto split: if_splits list.splits option.splits)
  have "token = ''v1.'' @ p @ ''.'' @ sg" using py_splitn_two_join [OF parts] v by simp
  moreover obtain raw payload where "b64url_decode p = Some raw"
    "Option.bind (utf8_decode raw) json_loads = Some payload" "claims_of_payload payload = Some claims"
    using body by (auto simp: bind_eq_Some_conv)
  ultimately show ?thesis using sg rest unfolding sign_payload_def by fastforce
qed

lemma access_token_integrity_witness:
  "\<exists>p sg raw payload. issue_access_token toy_env 0 ''k'' ''u'' ''t'' ''m'' ''s'' 5000000 = ''v1.'' @ p @ ''.'' @ sg \<and>
     b64url_decode sg = Some (hmac_sha256 toy_env (utf8 ''k'') p) \<and>
     b64url_decode p = Some raw \<and> Option.bind (utf8_decode raw) json_loads = Some payload \<and>
     claims_of_payload payload =
       Some \<lparr>cl_user_id = ''u'', cl_tenant_id = ''t'', cl_membership_id = ''m'', cl_session_id = ''s'', cl_exp = 5\<rparr>"
proof -
  have "decode_access_token toy_env (issue_access_token toy_env 0 ''k'' ''u'' ''t'' ''m'' ''s'' 5000000) ''k'' 0 =
     (Some \<lparr>cl_user_id = ''u'', cl_tenant_id = ''t'', cl_membership_id = ''m'', cl_session_id = ''s'', cl_exp = 5\<rparr>, None)"
    unfolding decode_issued by (simp add: timestamp_int_def)
  from access_token_integrity [OF this] show ?thesis by blast
qed

end
