(* ===== verification/Tenant_Guard.thy ===== *)
theory Tenant_Guard
  imports Saas_World
begin

text \<open>
  Tenant scoping: the session listener of \<open>saas/db.py\<close> that refuses or narrows selects on
  tenant-scoped models, the \<open>_tenant_scope\<close> context manager of \<open>saas/service.py\<close> and the
  \<open>TenantScopedRepository\<close> of \<open>saas/repository.py\<close>. The locale \<open>tenant_table\<close> is what a
  table with a tenant column gives its readers; it is interpreted for the tables the service
  reads through the repository.
\<close>

datatype orm_model =
    MTenant | MUser | MTenantMembership | MAuthSession | MProviderConfig | MApiKey
  | MInvoiceFile | MParseJob | MCollectionJob | MParseJobFile | MReportParseJob | MInvoiceRecord
  | MReport | MReportArtifact | MAuditEvent | MIdempotencyRecord

definition tenant_scoped_models :: "orm_model list" where
  "tenant_scoped_models =
     [MInvoiceFile, MParseJob, MCollectionJob, MInvoiceRecord, MReport, MReportArtifact,
      MProviderConfig, MAuditEvent, MIdempotencyRecord, MTenantMembership, MAuthSession]"

text \<open>\<open>session.info\<close>; an absent key is None or False.\<close>

record session_info =
  enforce_tenant_guard :: bool
  disable_tenant_guard :: bool
  info_tenant_id :: "pystr option"

text \<open>
  A select statement as the listener sees it: the mapped classes among its columns (a
  \<open>select(func.count())\<close> has none), and the tenant criterion its execution adds per model.
\<close>

record orm_execute_state =
  is_select :: bool
  skip_tenant_guard :: bool
  column_entities :: "orm_model list"

definition enforce_tenant_scope ::
  "session_info \<Rightarrow> orm_execute_state \<Rightarrow> (orm_model \<rightharpoonup> pystr) res" where
  "enforce_tenant_scope info st =
     (if \<not> is_select st then Inr Map.empty
      else if \<not> enforce_tenant_guard info then Inr Map.empty
      else if disable_tenant_guard info then Inr Map.empty
      else if skip_tenant_guard st then Inr Map.empty
      else if \<not> list_ex (\<lambda>m. m \<in> set tenant_scoped_models) (column_entities st) then Inr Map.empty
      else case info_tenant_id info of
        None \<Rightarrow> Inl TenantGuardError
      | Some t \<Rightarrow>
          if t = [] then Inl TenantGuardError
          else Inr (\<lambda>m. if m \<in> set tenant_scoped_models then Some t else None))"

text \<open>The rows a guarded select of model \<open>m\<close> returns.\<close>

definition guarded_select ::
  "session_info \<Rightarrow> orm_execute_state \<Rightarrow> orm_model \<Rightarrow> ('a \<Rightarrow> pystr) \<Rightarrow> ('a \<Rightarrow> bool) \<Rightarrow> 'a list \<Rightarrow> 'a list res" where
  "guarded_select info st m tenant_of P rows =
     (case enforce_tenant_scope info st of
        Inl err \<Rightarrow> Inl err
      | Inr criteria \<Rightarrow>
          Inr (filter (\<lambda>r. P r \<and> (case criteria m of None \<Rightarrow> True | Some t \<Rightarrow> tenant_of r = t)) rows))"

text \<open>\<open>_tenant_scope\<close>: the body runs with the tenant set; the old value comes back after.\<close>

definition tenant_scope ::
  "pystr \<Rightarrow> (session_info \<Rightarrow> 'a res \<times> session_info) \<Rightarrow> session_info \<Rightarrow> 'a res \<times> session_info" where
  "tenant_scope tid body info =
     (let previous = info_tenant_id info;
          (r, info') = body (info\<lparr>info_tenant_id := Some tid\<rparr>)
      in (r, info'\<lparr>info_tenant_id := previous\<rparr>))"


subsection \<open>\<open>TenantScopedRepository\<close>\<close>

text \<open>\<open>_tenant_clause\<close>: a model without a tenant column is refused.\<close>

definition tenant_clause :: "pystr \<Rightarrow> ('a \<Rightarrow> pystr) option \<Rightarrow> pystr \<Rightarrow> ('a \<Rightarrow> bool) res" where
  "tenant_clause model tenant_column tid =
     (case tenant_column of
        None \<Rightarrow> Inl (ValueError (''model '' @ model @ '' is missing tenant_id for scoped query''))
      | Some col \<Rightarrow> Inr (\<lambda>r. col r = tid))"

definition repo_one_or_none :: "('a \<Rightarrow> pystr) \<Rightarrow> pystr \<Rightarrow> ('a \<Rightarrow> bool) \<Rightarrow> 'a list \<Rightarrow> 'a option" where
  "repo_one_or_none tenant_of tid P rows = scalar_one_or_none (\<lambda>r. tenant_of r = tid \<and> P r) rows"

text \<open>\<open>list\<close>: LIMIT and OFFSET only when given and not zero.\<close>

definition repo_list ::
  "('a \<Rightarrow> pystr) \<Rightarrow> pystr \<Rightarrow> ('a \<Rightarrow> bool) \<Rightarrow> ('a list \<Rightarrow> 'a list) \<Rightarrow> int option \<Rightarrow> int option \<Rightarrow> 'a list \<Rightarrow> 'a list" where
  "repo_list tenant_of tid P order_by limit_n offset_n rows =
     (let found = order_by (filter (\<lambda>r. tenant_of r = tid \<and> P r) rows);
          found = (case offset_n of Some k \<Rightarrow> if k \<noteq> 0 then drop (nat k) found else found | None \<Rightarrow> found)
      in (case limit_n of Some n \<Rightarrow> if n \<noteq> 0 then take (nat n) found else found | None \<Rightarrow> found))"

definition repo_count :: "('a \<Rightarrow> pystr) \<Rightarrow> pystr \<Rightarrow> ('a \<Rightarrow> bool) \<Rightarrow> 'a list \<Rightarrow> int" where
  "repo_count tenant_of tid P rows = int (length (filter (\<lambda>r. tenant_of r = tid \<and> P r) rows))"

text \<open>The rows of one tenant.\<close>

definition tenant_rows :: "('a \<Rightarrow> pystr) \<Rightarrow> pystr \<Rightarrow> 'a list \<Rightarrow> 'a list" where
  "tenant_rows tenant_of tid rows = filter (\<lambda>r. tenant_of r = tid) rows"

text \<open>
  A table of tenants' rows: a primary key and the column that owns the row. Its readers see
  the rows of one tenant only, so a change of another tenant's rows is invisible to them.
\<close>

locale tenant_table =
  fixes tenant_of :: "'a \<Rightarrow> pystr" and ident :: "'a \<Rightarrow> pystr" and created :: "'a \<Rightarrow> time"
    and table :: "db \<Rightarrow> 'a list"
  assumes primary_key: "db_ok d \<Longrightarrow> unique ident (table d)"
begin

lemma one_or_none_own:
  "repo_one_or_none tenant_of tid P (table d) = Some r \<Longrightarrow> tenant_of r = tid \<and> P r \<and> r \<in> set (table d)"
  by (auto simp: repo_one_or_none_def dest: scalar_SomeD)

lemma one_or_none_by_id:
  assumes "db_ok d"
  shows "repo_one_or_none tenant_of tid (\<lambda>r. ident r = i) (table d) = Some r \<longleftrightarrow>
    r \<in> set (table d) \<and> tenant_of r = tid \<and> ident r = i"
proof
  assume "r \<in> set (table d) \<and> tenant_of r = tid \<and> ident r = i"
  then show "repo_one_or_none tenant_of tid (\<lambda>r. ident r = i) (table d) = Some r"
    unfolding repo_one_or_none_def by (intro scalar_unique [OF primary_key [OF assms]]) auto
qed (auto dest: one_or_none_own)

lemma list_own:
  "set (repo_list tenant_of tid P (order_desc created ident) n k (table d)) \<subseteq>
     {r \<in> set (table d). tenant_of r = tid \<and> P r}"
proof -
  have "set (take i xs) \<subseteq> set xs" "set (drop i xs) \<subseteq> set xs" for i and xs :: "'a list"
    by (rule set_take_subset, rule set_drop_subset)
  then show ?thesis
    unfolding repo_list_def Let_def
    by (auto split: option.splits if_splits dest!: in_set_takeD in_set_dropD)
qed

lemma reads_of_tenant:
  "repo_one_or_none tenant_of tid P rows = scalar_one_or_none P (tenant_rows tenant_of tid rows)"
  "repo_list tenant_of tid P ord n k rows = repo_list tenant_of tid P ord n k (tenant_rows tenant_of tid rows)"
  "repo_count tenant_of tid P rows = repo_count tenant_of tid P (tenant_rows tenant_of tid rows)"
proof -
  show "repo_one_or_none tenant_of tid P rows = scalar_one_or_none P (tenant_rows tenant_of tid rows)"
    unfolding repo_one_or_none_def tenant_rows_def
    by (induction rows) (auto simp: scalar_Cons)
  have "filter (\<lambda>r. tenant_of r = tid \<and> P r) (filter (\<lambda>r. tenant_of r = tid) rows) =
      filter (\<lambda>r. tenant_of r = tid \<and> P r) rows"
    by (simp add: conj_commute cong: conj_cong)
  then show "repo_list tenant_of tid P ord n k rows = repo_list tenant_of tid P ord n k (tenant_rows tenant_of tid rows)"
    "repo_count tenant_of tid P rows = repo_count tenant_of tid P (tenant_rows tenant_of tid rows)"
    by (simp_all add: repo_list_def repo_count_def tenant_rows_def)
qed

lemma reads_same:
  assumes "tenant_rows tenant_of tid rows = tenant_rows tenant_of tid rows'"
  shows "repo_one_or_none tenant_of tid P rows = repo_one_or_none tenant_of tid P rows'"
    and "repo_list tenant_of tid P ord n k rows = repo_list tenant_of tid P ord n k rows'"
    and "repo_count tenant_of tid P rows = repo_count tenant_of tid P rows'"
  by (metis assms reads_of_tenant(1), metis assms reads_of_tenant(2), metis assms reads_of_tenant(3))

text \<open>The count is the length of the unpaged listing, and a page is a part of it.\<close>

lemma count_list:
  "repo_count tenant_of tid P rows = int (length (repo_list tenant_of tid P (order_desc created ident) None None rows))"
  by (simp add: repo_count_def repo_list_def)

lemma list_page:
  assumes "1 \<le> n" and "0 \<le> k"
  shows "repo_list tenant_of tid P ord (Some n) (Some k) rows =
    limit_offset n k (repo_list tenant_of tid P ord None None rows)"
  using assms by (auto simp: repo_list_def limit_offset_def Let_def)

end

interpretation parse_job_table: tenant_table pj_tenant_id pj_id pj_created_at parse_jobs
  by unfold_locales (simp add: db_ok_unfold)

interpretation report_table: tenant_table rp_tenant_id rp_id rp_created_at reports
  by unfold_locales (simp add: db_ok_unfold)

interpretation collection_job_table: tenant_table cj_tenant_id cj_id cj_created_at collection_jobs
  by unfold_locales (simp add: db_ok_unfold)

interpretation invoice_table: tenant_table ir_tenant_id ir_id ir_created_at invoice_records
  by unfold_locales (simp add: db_ok_unfold)

interpretation file_table: tenant_table fl_tenant_id fl_id fl_created_at invoice_files
  by unfold_locales (simp add: db_ok_unfold)

interpretation provider_table: tenant_table pc_tenant_id pc_id pc_created_at provider_configs
  by unfold_locales (simp add: db_ok_unfold)

interpretation artifact_table: tenant_table ra_tenant_id ra_id ra_created_at report_artifacts
  by unfold_locales (simp add: db_ok_unfold)

interpretation api_key_table: tenant_table ak_tenant_id ak_id ak_created_at api_keys
  by unfold_locales (simp add: db_ok_unfold)

text \<open>
  A guarded select on a tenant-scoped model returns only rows of the session's tenant,
  whatever its own filter says, and raises when the session has no tenant; it never falls
  through to an unscoped read.
\<close>

theorem guarded_select_isolated:
  assumes "enforce_tenant_guard info" and "\<not> disable_tenant_guard info"
    and "is_select st" and "\<not> skip_tenant_guard st"
    and "m \<in> set tenant_scoped_models" and "m \<in> set (column_entities st)"
  shows "guarded_select info st m tenant_of P rows =
    (case info_tenant_id info of
       None \<Rightarrow> Inl TenantGuardError
     | Some t \<Rightarrow> if t = [] then Inl TenantGuardError
                else Inr (filter P (tenant_rows tenant_of t rows)))"
proof -
  have "list_ex (\<lambda>m. m \<in> set tenant_scoped_models) (column_entities st)"
    using assms(5,6) by (auto simp: list_ex_iff)
  then show ?thesis
    using assms by (auto simp: guarded_select_def enforce_tenant_scope_def tenant_rows_def
        split: option.splits intro: filter_cong)
qed

lemma guarded_select_isolated_witness:
  "guarded_select \<lparr>enforce_tenant_guard = True, disable_tenant_guard = False, info_tenant_id = Some ''t''\<rparr>
      \<lparr>is_select = True, skip_tenant_guard = False, column_entities = [MParseJob]\<rparr> MParseJob fst (\<lambda>_. True)
      [(''t'', 1 :: int), (''u'', 2)] = Inr [(''t'', 1)]"
  by (subst guarded_select_isolated) (simp_all add: tenant_scoped_models_def tenant_rows_def)

text \<open>
  The repository's reads are isolated: what a lookup, a listing or a count of one tenant's
  parse jobs and invoice records returns does not change when the rows of other tenants do.
\<close>

theorem repository_noninterference:
  fixes jobs jobs' :: "parse_job list" and recs recs' :: "invoice_record list"
  assumes "tenant_rows pj_tenant_id tid jobs = tenant_rows pj_tenant_id tid jobs'"
    and "tenant_rows ir_tenant_id tid recs = tenant_rows ir_tenant_id tid recs'"
  shows "repo_list pj_tenant_id tid P order_by n k jobs = repo_list pj_tenant_id tid P order_by n k jobs' \<and>
    repo_one_or_none pj_tenant_id tid P jobs = repo_one_or_none pj_tenant_id tid P jobs' \<and>
    repo_list ir_tenant_id tid Q order_recs n k recs = repo_list ir_tenant_id tid Q order_recs n k recs' \<and>
    repo_count ir_tenant_id tid Q recs = repo_count ir_tenant_id tid Q recs'"
  by (intro conjI parse_job_table.reads_same [OF assms(1)] invoice_table.reads_same [OF assms(2)])

definition foreign_record :: invoice_record where
  "foreign_record =
     \<lparr>ir_id = ''i'', ir_tenant_id = ''u'', ir_parse_job_id = ''p'', ir_vendor = ''v'', ir_file_name = ''f'',
      ir_invoice_number = None, ir_invoice_date = None, ir_invoice_total = None, ir_invoice_vat = None,
      ir_currency = ''ILS'', ir_purpose = None, ir_raw_json = ''{}'', ir_created_at = 0\<rparr>"

lemma repository_noninterference_witness:
  "repo_count ir_tenant_id ''t'' (\<lambda>_. True) [foreign_record] = 0"
proof -
  have "repo_count ir_tenant_id ''t'' (\<lambda>_. True) [foreign_record] = repo_count ir_tenant_id ''t'' (\<lambda>_. True) ([] :: invoice_record list)"
    using repository_noninterference [where tid = "''t''" and jobs = "[]" and jobs' = "[]" and
        recs = "[foreign_record]" and recs' = "[]" and Q = "\<lambda>_. True"]
    by (simp add: tenant_rows_def foreign_record_def)
  then show ?thesis by (simp add: repo_count_def)
qed

end
