(* ===== verification/Service_Base.thy ===== *)
theory Service_Base
  imports Auth_Core Tenant_Guard
begin

text \<open>
  The shared parts of \<open>saas/service.py\<close>: the configuration, the validators and normalisers
  of user input, the lookups by idempotency key, the audit events, and the OAuth helpers of
  provider configurations. A value of the source's type \<open>object\<close> is decoded JSON or a
  \<open>datetime\<close>.
\<close>

record service_config =
  parse_job_task_name :: pystr
  report_job_task_name :: pystr
  report_cleanup_task_name :: pystr
  collection_job_task_name :: pystr
  auth_access_token_secret :: "pystr option"
  auth_access_token_ttl_seconds :: int
  auth_refresh_token_ttl_seconds :: int
  provider_oauth_client_ids :: "(pystr \<times> pystr) list"
  provider_oauth_scopes :: "(pystr \<times> pystr) list"
  provider_oauth_allowed_redirect_hosts :: "pystr list"
  provider_oauth_allow_insecure_local_redirect :: bool

definition default_config :: service_config where
  "default_config =
     \<lparr>parse_job_task_name = ''invplatform.saas.tasks.run_parse_job_task'',
      report_job_task_name = ''invplatform.saas.tasks.run_report_job_task'',
      report_cleanup_task_name = ''invplatform.saas.tasks.run_report_retention_cleanup_task'',
      collection_job_task_name = ''invplatform.saas.tasks.run_collection_job_task'',
      auth_access_token_secret = None, auth_access_token_ttl_seconds = 900,
      auth_refresh_token_ttl_seconds = 30 * 24 * 60 * 60,
      provider_oauth_client_ids =
        [(''gmail'', ''invoices-codex-local''), (''outlook'', ''invoices-codex-local'')],
      provider_oauth_scopes =
        [(''gmail'', ''openid email https://www.googleapis.com/auth/gmail.readonly''),
         (''outlook'', ''offline_access User.Read Mail.Read'')],
      provider_oauth_allowed_redirect_hosts = [''app.example.test'', ''localhost'', ''127.0.0.1''],
      provider_oauth_allow_insecure_local_redirect = True\<rparr>"

definition report_allowed_formats :: "pystr list" where
  "report_allowed_formats = [''json'', ''csv'', ''summary_csv'', ''pdf'']"

definition provider_allowed_types :: "pystr list" where
  "provider_allowed_types = [''gmail'', ''outlook'']"

definition provider_allowed_statuses :: "pystr list" where
  "provider_allowed_statuses = [''connected'', ''disconnected'', ''error'']"

definition oauth_state_hash_key :: pystr where "oauth_state_hash_key = ''_oauth_state_hash''"
definition oauth_state_expires_at_key :: pystr where
  "oauth_state_expires_at_key = ''_oauth_state_expires_at''"
definition oauth_redirect_uri_key :: pystr where "oauth_redirect_uri_key = ''_oauth_redirect_uri''"

lemmas oauth_key_defs = oauth_state_hash_key_def oauth_state_expires_at_key_def oauth_redirect_uri_key_def

definition oauth_state_ttl_seconds :: int where "oauth_state_ttl_seconds = 10 * 60"
definition provider_access_token_ttl_seconds :: int where
  "provider_access_token_ttl_seconds = 60 * 60"

text \<open>A value of type \<open>object\<close>; a datetime is its local microseconds and its UTC offset.\<close>

datatype pyobj = PJson json | PDatetime int "int option"

definition coerce_utc :: "int \<Rightarrow> int option \<Rightarrow> time" where
  "coerce_utc local_time offset = (case offset of None \<Rightarrow> local_time | Some k \<Rightarrow> local_time - k)"

definition provider_validation :: "pystr \<Rightarrow> exn" where
  "provider_validation m = ProviderConfigError ''PROVIDER_VALIDATION_ERROR'' m"

definition collection_validation :: "pystr \<Rightarrow> exn" where
  "collection_validation m = CollectionJobError ''COLLECTION_VALIDATION_ERROR'' m"

definition provider_not_found :: exn where
  "provider_not_found = ProviderConfigError ''PROVIDER_NOT_FOUND'' ''provider config not found''"

definition provider_conflict :: exn where
  "provider_conflict =
     ProviderConfigError ''PROVIDER_CONFLICT'' ''provider config already exists for provider_type''"


subsection \<open>Normalisers\<close>

definition normalize_provider_type :: "pyobj \<Rightarrow> pystr res" where
  "normalize_provider_type v =
     (case v of
        PJson (JStr s) \<Rightarrow>
          let normalized = py_lower (py_strip s)
          in if normalized \<in> set provider_allowed_types then Inr normalized
             else Inl (provider_validation ''provider_type must be one of: gmail, outlook'')
      | _ \<Rightarrow> Inl (provider_validation ''provider_type must be a string''))"

definition normalize_provider_status :: "pyobj \<Rightarrow> pystr res" where
  "normalize_provider_status v =
     (case v of
        PJson (JStr s) \<Rightarrow>
          let normalized = py_lower (py_strip s)
          in if normalized \<in> set provider_allowed_statuses then Inr normalized
             else Inl (provider_validation
               ''connection_status must be one of: connected, disconnected, error'')
      | _ \<Rightarrow> Inl (provider_validation ''connection_status must be a string''))"

text \<open>The normalised status is one of the enumeration's values, so it is given as a member.\<close>

definition normalize_collection_status :: "pyobj \<Rightarrow> job_status res" where
  "normalize_collection_status v =
     (case v of
        PJson (JStr s) \<Rightarrow>
          (case job_status_of (py_lower (py_strip s)) of
             Some st \<Rightarrow> Inr st
           | None \<Rightarrow> Inl (collection_validation
               ''status must be one of: failed, queued, running, succeeded''))
      | _ \<Rightarrow> Inl (collection_validation ''status must be a string''))"

text \<open>\<open>^\d{4}-(0[1-9]|1[0-2])$\<close> on stripped text; only ASCII digits are in the model's text.\<close>

definition month_scope_matches :: "pystr \<Rightarrow> bool" where
  "month_scope_matches s =
     (case s of
        [y1, y2, y3, y4, d, m1, m2] \<Rightarrow>
          list_all is_digit [y1, y2, y3, y4] \<and> d = CHR ''-'' \<and>
          ((m1 = CHR ''0'' \<and> is_digit m2 \<and> m2 \<noteq> CHR ''0'') \<or>
           (m1 = CHR ''1'' \<and> (m2 = CHR ''0'' \<or> m2 = CHR ''1'' \<or> m2 = CHR ''2'')))
      | _ \<Rightarrow> False)"

definition normalize_collection_month_scope :: "pyobj \<Rightarrow> pystr res" where
  "normalize_collection_month_scope v =
     (case v of
        PJson (JStr s) \<Rightarrow>
          let normalized = py_strip s
          in if month_scope_matches normalized then Inr normalized
             else Inl (collection_validation ''month_scope must match YYYY-MM'')
      | _ \<Rightarrow> Inl (collection_validation ''month_scope must be a string''))"

text \<open>The loop over the providers: \<open>seen\<close> is the set of the list built so far.\<close>

fun collect_providers :: "pystr list \<Rightarrow> json list \<Rightarrow> (pystr list) res" where
  "collect_providers normalized [] = Inr normalized"
| "collect_providers normalized (raw # rest) =
     (case raw of
        JStr s \<Rightarrow>
          let provider = py_lower (py_strip s)
          in if provider \<notin> set provider_allowed_types
             then Inl (collection_validation ''providers must only contain: gmail, outlook'')
             else collect_providers
               (if provider \<in> set normalized then normalized else normalized @ [provider]) rest
      | _ \<Rightarrow> Inl (collection_validation ''provider entries must be strings''))"

definition normalize_collection_providers :: "pyobj \<Rightarrow> (pystr list) res" where
  "normalize_collection_providers v =
     (case v of
        PJson (JList providers) \<Rightarrow>
          if providers = [] then Inl (collection_validation ''providers must be a non-empty list'')
          else (case collect_providers [] providers of
                  Inl err \<Rightarrow> Inl err
                | Inr normalized \<Rightarrow>
                    if normalized = []
                    then Inl (collection_validation ''providers must be a non-empty list'')
                    else Inr normalized)
      | _ \<Rightarrow> Inl (collection_validation ''providers must be a non-empty list''))"

definition str_or_none :: "pyobj \<Rightarrow> pystr \<Rightarrow> (pystr option) res" where
  "str_or_none v field_name =
     (case v of
        PJson JNull \<Rightarrow> Inr None
      | PJson (JStr s) \<Rightarrow> Inr (strip_or_none (Some s))
      | _ \<Rightarrow> Inl (provider_validation (field_name @ '' must be a string or null'')))"

definition nullable_datetime :: "pyobj \<Rightarrow> pystr \<Rightarrow> (time option) res" where
  "nullable_datetime v field_name =
     (case v of
        PJson JNull \<Rightarrow> Inr None
      | PDatetime t off \<Rightarrow> Inr (Some (coerce_utc t off))
      | _ \<Rightarrow> Inl (provider_validation (field_name @ '' must be a datetime or null'')))"

definition config_to_json :: "pyobj \<Rightarrow> bool \<Rightarrow> pystr res" where
  "config_to_json v allow_null =
     (case v of
        PJson JNull \<Rightarrow>
          if allow_null then Inr ''{}''
          else Inl (provider_validation ''config must be an object'')
      | PJson (JObj kvs) \<Rightarrow> Inr (json_dumps_sorted (JObj kvs))
      | _ \<Rightarrow> Inl (provider_validation
            (''config must be an object'' @ (if allow_null then '' or null'' else []))))"


subsection \<open>Lookups and audit events\<close>

definition resolve_record :: "pystr \<Rightarrow> pystr \<Rightarrow> pystr \<Rightarrow> db \<Rightarrow> idempotency_record option" where
  "resolve_record scope tid key d =
     scalar_one_or_none
       (\<lambda>r. ik_tenant_id r = tid \<and> ik_scope r = scope \<and> ik_idempotency_key r = key)
       (idempotency_records d)"

definition resolve_idempotent_parse_job :: "pystr \<Rightarrow> pystr \<Rightarrow> db \<Rightarrow> parse_job option" where
  "resolve_idempotent_parse_job tid key d =
     (case resolve_record ''parse_jobs.create'' tid key d of
        None \<Rightarrow> None
      | Some r \<Rightarrow>
          scalar_one_or_none (\<lambda>j. pj_tenant_id j = tid \<and> pj_id j = ik_resource_id r) (parse_jobs d))"

definition resolve_idempotent_report :: "pystr \<Rightarrow> pystr \<Rightarrow> db \<Rightarrow> report option" where
  "resolve_idempotent_report tid key d =
     (case resolve_record ''reports.create'' tid key d of
        None \<Rightarrow> None
      | Some r \<Rightarrow>
          scalar_one_or_none (\<lambda>j. rp_tenant_id j = tid \<and> rp_id j = ik_resource_id r) (reports d))"

definition resolve_idempotent_collection_job :: "pystr \<Rightarrow> pystr \<Rightarrow> db \<Rightarrow> collection_job option" where
  "resolve_idempotent_collection_job tid key d =
     (case resolve_record ''collection_jobs.create'' tid key d of
        None \<Rightarrow> None
      | Some r \<Rightarrow>
          scalar_one_or_none (\<lambda>j. cj_tenant_id j = tid \<and> cj_id j = ik_resource_id r)
            (collection_jobs d))"

definition add_audit ::
  "env \<Rightarrow> nat \<Rightarrow> time \<Rightarrow> pystr \<Rightarrow> pystr \<Rightarrow> pystr option \<Rightarrow> json \<Rightarrow> db \<Rightarrow> db" where
  "add_audit e n now tid event_type actor payload d =
     d\<lparr>audit_events := audit_events d @
        [\<lparr>ae_id = uuid4 e n, ae_tenant_id = tid, ae_event_type = event_type, ae_actor = actor,
          ae_payload_json = json_dumps payload, ae_created_at = now\<rparr>]\<rparr>"

definition add_idempotency ::
  "env \<Rightarrow> nat \<Rightarrow> time \<Rightarrow> pystr \<Rightarrow> pystr \<Rightarrow> pystr \<Rightarrow> pystr \<Rightarrow> pystr \<Rightarrow> db \<Rightarrow> db" where
  "add_idempotency e n now tid scope key resource_type resource_id d =
     d\<lparr>idempotency_records := idempotency_records d @
        [\<lparr>ik_id = uuid4 e n, ik_tenant_id = tid, ik_scope = scope, ik_idempotency_key = key,
          ik_resource_type = resource_type, ik_resource_id = resource_id, ik_created_at = now\<rparr>]\<rparr>"

definition json_opt_str :: "pystr option \<Rightarrow> json" where
  "json_opt_str v = (case v of None \<Rightarrow> JNull | Some s \<Rightarrow> JStr s)"

definition json_strs :: "pystr list \<Rightarrow> json" where
  "json_strs xs = JList (map JStr xs)"

definition auth_event_payload ::
  "pystr option \<Rightarrow> pystr option \<Rightarrow> pystr option \<Rightarrow> int option \<Rightarrow> pystr option \<Rightarrow> json" where
  "auth_event_payload request_id user_id session_id status_code reason_code =
     JObj ((case request_id of None \<Rightarrow> [] | Some r \<Rightarrow> [(''request_id'', JStr r)])
        @ (case user_id of None \<Rightarrow> [] | Some r \<Rightarrow> [(''user_id'', JStr r)])
        @ (case session_id of None \<Rightarrow> [] | Some r \<Rightarrow> [(''session_id'', JStr r)])
        @ (case status_code of None \<Rightarrow> [] | Some r \<Rightarrow> [(''status_code'', JInt r)])
        @ (case reason_code of None \<Rightarrow> [] | Some r \<Rightarrow> [(''reason_code'', JStr r)]))"

definition emit_auth_event ::
  "env \<Rightarrow> nat \<Rightarrow> time \<Rightarrow> pystr \<Rightarrow> pystr \<Rightarrow> pystr option \<Rightarrow> pystr option \<Rightarrow> pystr option
    \<Rightarrow> int option \<Rightarrow> pystr option \<Rightarrow> db \<Rightarrow> db" where
  "emit_auth_event e n now tid event_type request_id user_id session_id status_code reason_code d =
     add_audit e n now tid event_type user_id
       (auth_event_payload request_id user_id session_id status_code reason_code) d"

text \<open>\<open>_auth_fail\<close>: the event is committed with whatever the session changed, then the error.\<close>

definition auth_fail ::
  "env \<Rightarrow> time \<Rightarrow> pystr \<Rightarrow> pystr \<Rightarrow> pystr \<Rightarrow> pystr \<Rightarrow> int \<Rightarrow> pystr option \<Rightarrow> pystr option
    \<Rightarrow> pystr option \<Rightarrow> pystr option \<Rightarrow> db \<Rightarrow> 's world \<Rightarrow> 'a res \<times> 's world" where
  "auth_fail e now tid event_type error_code message status_code request_id user_id session_id reason_code d w =
     commit_with
       (emit_auth_event e (w_ctr w) now tid event_type request_id user_id session_id
          (Some status_code) reason_code d)
       (Inl (AuthError error_code message status_code)) (draw 1 w)"

definition get_active_principals ::
  "pystr \<Rightarrow> pystr \<Rightarrow> pystr \<Rightarrow> db \<Rightarrow> (user \<times> tenant_membership \<times> tenant) option" where
  "get_active_principals tid user_id membership_id d =
     (case (scalar_one_or_none (\<lambda>u. us_id u = user_id) (users d),
            scalar_one_or_none (\<lambda>m. tm_id m = membership_id) (memberships d),
            scalar_one_or_none (\<lambda>t. tn_id t = tid) (tenants d)) of
        (Some u, Some m, Some t) \<Rightarrow>
          if \<not> us_is_active u \<or> tm_status m \<noteq> ''active'' then None else Some (u, m, t)
      | _ \<Rightarrow> None)"



subsection \<open>What the audit and idempotency helpers leave alone\<close>

lemma add_audit_tables [simp]:
  "tenants (add_audit e n now tid ty a p d) = tenants d"
  "users (add_audit e n now tid ty a p d) = users d"
  "memberships (add_audit e n now tid ty a p d) = memberships d"
  "auth_sessions (add_audit e n now tid ty a p d) = auth_sessions d"
  "provider_configs (add_audit e n now tid ty a p d) = provider_configs d"
  "api_keys (add_audit e n now tid ty a p d) = api_keys d"
  "invoice_files (add_audit e n now tid ty a p d) = invoice_files d"
  "parse_jobs (add_audit e n now tid ty a p d) = parse_jobs d"
  "collection_jobs (add_audit e n now tid ty a p d) = collection_jobs d"
  "parse_job_files (add_audit e n now tid ty a p d) = parse_job_files d"
  "report_parse_jobs (add_audit e n now tid ty a p d) = report_parse_jobs d"
  "invoice_records (add_audit e n now tid ty a p d) = invoice_records d"
  "reports (add_audit e n now tid ty a p d) = reports d"
  "report_artifacts (add_audit e n now tid ty a p d) = report_artifacts d"
  "idempotency_records (add_audit e n now tid ty a p d) = idempotency_records d"
  by (simp_all add: add_audit_def)

lemma add_idempotency_tables [simp]:
  "tenants (add_idempotency e n now tid sc k rt rid d) = tenants d"
  "users (add_idempotency e n now tid sc k rt rid d) = users d"
  "memberships (add_idempotency e n now tid sc k rt rid d) = memberships d"
  "auth_sessions (add_idempotency e n now tid sc k rt rid d) = auth_sessions d"
  "provider_configs (add_idempotency e n now tid sc k rt rid d) = provider_configs d"
  "api_keys (add_idempotency e n now tid sc k rt rid d) = api_keys d"
  "invoice_files (add_idempotency e n now tid sc k rt rid d) = invoice_files d"
  "parse_jobs (add_idempotency e n now tid sc k rt rid d) = parse_jobs d"
  "collection_jobs (add_idempotency e n now tid sc k rt rid d) = collection_jobs d"
  "parse_job_files (add_idempotency e n now tid sc k rt rid d) = parse_job_files d"
  "report_parse_jobs (add_idempotency e n now tid sc k rt rid d) = report_parse_jobs d"
  "invoice_records (add_idempotency e n now tid sc k rt rid d) = invoice_records d"
  "reports (add_idempotency e n now tid sc k rt rid d) = reports d"
  "report_artifacts (add_idempotency e n now tid sc k rt rid d) = report_artifacts d"
  "audit_events (add_idempotency e n now tid sc k rt rid d) = audit_events d"
  by (simp_all add: add_idempotency_def)

lemma audit_events_add_audit:
  "audit_events (add_audit e n now tid ty a p d) = audit_events d @
     [\<lparr>ae_id = uuid4 e n, ae_tenant_id = tid, ae_event_type = ty, ae_actor = a,
       ae_payload_json = json_dumps p, ae_created_at = now\<rparr>]"
  by (simp add: add_audit_def)

lemma idempotency_add_idempotency:
  "idempotency_records (add_idempotency e n now tid sc k rt rid d) = idempotency_records d @
     [\<lparr>ik_id = uuid4 e n, ik_tenant_id = tid, ik_scope = sc, ik_idempotency_key = k,
       ik_resource_type = rt, ik_resource_id = rid, ik_created_at = now\<rparr>]"
  by (simp add: add_idempotency_def)

text \<open>
  In a database that satisfies its constraints, a record just added for a key is the one the
  lookup finds.
\<close>

lemma resolve_record_added:
  assumes "db_ok d" and "r \<in> set (idempotency_records d)"
    and "ik_tenant_id r = tid" "ik_scope r = scope" "ik_idempotency_key r = k"
  shows "resolve_record scope tid k d = Some r"
  unfolding resolve_record_def
  by (rule scalar_unique [of ik_scope_key]) (use assms in \<open>auto simp: db_ok_unfold ik_scope_key_def\<close>)

lemma resolve_record_appended:
  assumes "db_ok d" and "idempotency_records d = rs @
     [\<lparr>ik_id = i, ik_tenant_id = tid, ik_scope = scope, ik_idempotency_key = k,
       ik_resource_type = rt, ik_resource_id = rid, ik_created_at = now\<rparr>]"
  shows "\<exists>r. resolve_record scope tid k d = Some r \<and> ik_resource_id r = rid"
  using resolve_record_added [OF assms(1), of "last (idempotency_records d)"] assms(2) by simp

subsection \<open>What the normalisers accept\<close>

text \<open>The first occurrences of a list, in order.\<close>

definition first_occurrences :: "'a list \<Rightarrow> 'a list" where
  "first_occurrences xs = rev (remdups (rev xs))"

lemma first_occurrences_snoc:
  "first_occurrences (xs @ [x]) = (if x \<in> set xs then first_occurrences xs else first_occurrences xs @ [x])"
  by (simp add: first_occurrences_def)

lemma collect_providers_first:
  "collect_providers (first_occurrences pre) js =
     (if list_all (\<lambda>j. case j of JStr s \<Rightarrow> py_lower (py_strip s) \<in> set provider_allowed_types | _ \<Rightarrow> False) js
      then Inr (first_occurrences (pre @ map (\<lambda>j. case j of JStr s \<Rightarrow> py_lower (py_strip s) | _ \<Rightarrow> []) js))
      else collect_providers (first_occurrences pre) js)"
proof (induction js arbitrary: pre)
  case (Cons j js)
  show ?case
  proof (cases j)
    case (JStr s)
    let ?p = "py_lower (py_strip s)"
    have "(if ?p \<in> set (first_occurrences pre) then first_occurrences pre else first_occurrences pre @ [?p]) =
        first_occurrences (pre @ [?p])"
      by (simp add: first_occurrences_snoc) (simp add: first_occurrences_def)
    then show ?thesis using Cons [of "pre @ [?p]"] JStr by (auto simp: Let_def)
  qed auto
qed simp

lemma collect_providers_fails:
  "\<not> list_all (\<lambda>j. case j of JStr s \<Rightarrow> py_lower (py_strip s) \<in> set provider_allowed_types | _ \<Rightarrow> False) js \<Longrightarrow>
   \<exists>m. collect_providers acc js = Inl (collection_validation m)"
  by (induction acc js rule: collect_providers.induct) (auto simp: Let_def split: json.splits)

text \<open>
  The provider list of a collection job is what its request names, lower-cased and
  stripped, each provider once at its first place; a request is accepted exactly when it is a
  non-empty list of strings that all name a supported provider, and every other value is a
  \<open>COLLECTION_VALIDATION_ERROR\<close>.
\<close>

theorem collection_providers_normalised:
  "case normalize_collection_providers v of
     Inr ps \<Rightarrow> \<exists>names. v = PJson (JList (map JStr names)) \<and> names \<noteq> [] \<and>
         ps = first_occurrences (map (\<lambda>s. py_lower (py_strip s)) names) \<and>
         distinct ps \<and> ps \<noteq> [] \<and> set ps \<subseteq> set provider_allowed_types
   | Inl err \<Rightarrow> (\<exists>m. err = collection_validation m) \<and>
       (\<nexists>names. v = PJson (JList (map JStr names)) \<and> names \<noteq> [] \<and>
         set (map (\<lambda>s. py_lower (py_strip s)) names) \<subseteq> set provider_allowed_types)"
proof (cases "\<exists>js. v = PJson (JList js)")
  case False
  then show ?thesis
    by (auto simp: normalize_collection_providers_def split: pyobj.splits json.splits)
next
  case True
  then obtain js where v: "v = PJson (JList js)" by blast
  let ?ok = "list_all (\<lambda>j. case j of JStr s \<Rightarrow> py_lower (py_strip s) \<in> set provider_allowed_types | _ \<Rightarrow> False) js"
  show ?thesis
  proof (cases ?ok)
    case False
    then obtain m where "collect_providers [] js = Inl (collection_validation m)"
      using collect_providers_fails by blast
    moreover have "js \<noteq> []" using False by auto
    moreover have "\<nexists>names. js = map JStr names \<and> set (map (\<lambda>s. py_lower (py_strip s)) names) \<subseteq> set provider_allowed_types"
      using False by (auto simp: list_all_iff image_subset_iff) blast
    ultimately show ?thesis by (auto simp: v normalize_collection_providers_def)
  next
    case True
    define names where "names = map (\<lambda>j. case j of JStr s \<Rightarrow> s | _ \<Rightarrow> []) js"
    have js: "js = map JStr names"
      using True unfolding names_def by (induction js) (auto split: json.splits)
    let ?ps = "first_occurrences (map (\<lambda>s. py_lower (py_strip s)) names)"
    have "map (\<lambda>j. case j of JStr s \<Rightarrow> py_lower (py_strip s) | _ \<Rightarrow> []) js = map (\<lambda>s. py_lower (py_strip s)) names"
      by (simp add: js)
    then have c: "collect_providers [] js = Inr ?ps"
      using collect_providers_first [of "[]" js] True by (simp add: first_occurrences_def)
    have "set ?ps \<subseteq> set provider_allowed_types" and "distinct ?ps" and "?ps = [] \<longleftrightarrow> names = []"
      using True by (auto simp: first_occurrences_def js list_all_iff)
    with c show ?thesis
      by (cases "names = []") (auto simp: v normalize_collection_providers_def js)
  qed
qed

end
