(* ===== verification/Service_Auth.thy ===== *)
theory Service_Auth
  imports Service_Base "HOL-Library.Code_Target_Nat"
begin

text \<open>
  Identity operations of \<open>saas/service.py\<close>: users and memberships, login, session refresh,
  logout, the current user, and the tenants and API keys that machine clients use. A session
  is a row: its refresh token's hash, its expiries, whether it is revoked.
\<close>

record auth_session_result =
  ar_access_token :: pystr
  ar_refresh_token :: pystr
  ar_expires_in :: int
  ar_user :: user
  ar_tenant :: tenant
  ar_membership :: tenant_membership
  ar_session :: auth_session

record auth_me_result =
  me_user :: user
  me_tenant :: tenant
  me_membership :: tenant_membership
  me_session :: auth_session

definition tenant_by_id :: "pystr \<Rightarrow> db \<Rightarrow> tenant option" where
  "tenant_by_id tid d = scalar_one_or_none (\<lambda>t. tn_id t = tid) (tenants d)"

definition user_by_email :: "pystr \<Rightarrow> db \<Rightarrow> user option" where
  "user_by_email email d = scalar_one_or_none (\<lambda>u. us_email_normalized u = email) (users d)"

definition membership_of :: "pystr \<Rightarrow> pystr \<Rightarrow> db \<Rightarrow> tenant_membership option" where
  "membership_of tid user_id d =
     scalar_one_or_none (\<lambda>m. tm_tenant_id m = tid \<and> tm_user_id m = user_id) (memberships d)"

definition session_by_hash :: "pystr \<Rightarrow> db \<Rightarrow> auth_session option" where
  "session_by_hash token_hash d =
     scalar_one_or_none (\<lambda>s. as_refresh_token_hash s = token_hash) (auth_sessions d)"

definition put_session :: "auth_session \<Rightarrow> db \<Rightarrow> db" where
  "put_session s d =
     d\<lparr>auth_sessions := upd_where (\<lambda>r. as_id r = as_id s) (\<lambda>_. s) (auth_sessions d)\<rparr>"

text \<open>\<open>_issue_access_token\<close>\<close>

definition service_issue_access_token ::
  "env \<Rightarrow> nat \<Rightarrow> service_config \<Rightarrow> auth_session \<Rightarrow> time \<Rightarrow> pystr res" where
  "service_issue_access_token e n cfg s expires_at =
     (case auth_access_token_secret cfg of
        None \<Rightarrow> Inl (RuntimeError ''auth access token secret is not configured'')
      | Some secret \<Rightarrow>
          if secret = [] then Inl (RuntimeError ''auth access token secret is not configured'')
          else Inr (issue_access_token e n secret (as_user_id s) (as_tenant_id s) (as_membership_id s)
                      (as_id s) expires_at))"


subsection \<open>Users\<close>

text \<open>The user of an e-mail address: a new row, or the existing one when the password fits.\<close>

definition user_for_login ::
  "env \<Rightarrow> nat \<Rightarrow> time \<Rightarrow> pystr \<Rightarrow> pystr \<Rightarrow> pystr option \<Rightarrow> db \<Rightarrow> (user \<times> db) res" where
  "user_for_login e n now email password full_name d =
     (case user_by_email (py_lower (py_strip email)) d of
        None \<Rightarrow>
          res_bind (hash_password e n password default_iterations) (\<lambda>h.
            let u = \<lparr>us_id = uuid4 e (n + 1), us_email = py_strip email,
                     us_email_normalized = py_lower (py_strip email), us_password_hash = h,
                     us_full_name = full_name, us_is_active = True, us_last_login_at = None,
                     us_created_at = now, us_updated_at = now\<rparr>
            in Inr (u, d\<lparr>users := users d @ [u]\<rparr>))
      | Some u \<Rightarrow>
          res_bind (verify_password e password (us_password_hash u)) (\<lambda>ok.
            if ok then Inr (u, d) else Inl (ValueError ''password does not match existing user'')))"

definition create_tenant_user ::
  "env \<Rightarrow> time \<Rightarrow> pystr \<Rightarrow> pystr \<Rightarrow> pystr \<Rightarrow> pystr option \<Rightarrow> pystr \<Rightarrow> pystr
    \<Rightarrow> 's world \<Rightarrow> (user \<times> tenant_membership) res \<times> 's world" where
  "create_tenant_user e now tid email password full_name role status w =
     (let n = w_ctr w; d = w_db w in
      if py_lower (py_strip email) = [] then (Inl (ValueError ''email is required''), w)
      else if password = [] then (Inl (ValueError ''password is required''), w)
      else if status \<notin> {''active'', ''disabled'', ''invited''}
      then (Inl (ValueError ''invalid membership status''), w)
      else if tenant_by_id tid d = None then (Inl (ValueError ''tenant not found''), w)
      else case user_for_login e n now email password (strip_or_none full_name) d of
        Inl err \<Rightarrow> (Inl err, draw 2 w)
      | Inr (u, d) \<Rightarrow>
          (case membership_of tid (us_id u) d of
             None \<Rightarrow>
               let m = \<lparr>tm_id = uuid4 e (n + 2), tm_tenant_id = tid, tm_user_id = us_id u, tm_role = role,
                        tm_status = status, tm_created_at = now, tm_updated_at = now\<rparr>
               in commit_with (d\<lparr>memberships := memberships d @ [m]\<rparr>) (Inr (u, m)) (draw 3 w)
           | Some m \<Rightarrow>
               let m = m\<lparr>tm_role := role, tm_status := status, tm_updated_at := now\<rparr>
               in commit_with
                    (d\<lparr>memberships := upd_where (\<lambda>r. tm_id r = tm_id m) (\<lambda>_. m) (memberships d)\<rparr>)
                    (Inr (u, m)) (draw 2 w)))"

text \<open>\<open>bootstrap_tenant_admin_user\<close>: only for a tenant that has no members yet.\<close>

definition bootstrap_tenant_admin_user ::
  "env \<Rightarrow> time \<Rightarrow> pystr \<Rightarrow> pystr \<Rightarrow> pystr \<Rightarrow> pystr option \<Rightarrow> pystr option
    \<Rightarrow> 's world \<Rightarrow> (user \<times> tenant_membership) res \<times> 's world" where
  "bootstrap_tenant_admin_user e now tid email password full_name actor w =
     (let n = w_ctr w; d = w_db w; normalized_email = py_lower (py_strip email) in
      if normalized_email = [] then (Inl (ValueError ''email is required''), w)
      else if \<not> is_valid_email normalized_email then (Inl (ValueError ''email format is invalid''), w)
      else if password = [] then (Inl (ValueError ''password is required''), w)
      else if tenant_by_id tid d = None then (Inl (ValueError ''tenant not found''), w)
      else if filter (\<lambda>m. tm_tenant_id m = tid) (memberships d) \<noteq> []
      then (Inl (ValueError ''tenant already has users''), w)
      else case user_for_login e n now email password (strip_or_none full_name) d of
        Inl err \<Rightarrow> (Inl err, draw 2 w)
      | Inr (u, d) \<Rightarrow>
          let m = \<lparr>tm_id = uuid4 e (n + 2), tm_tenant_id = tid, tm_user_id = us_id u, tm_role = ''admin'',
                   tm_status = ''active'', tm_created_at = now, tm_updated_at = now\<rparr>
          in commit_with
               (add_audit e (n + 3) now tid ''tenant.user.bootstrap'' actor
                  (JObj [(''user_id'', JStr (us_id u)), (''email'', JStr (us_email u)),
                         (''membership_id'', JStr (tm_id m)), (''role'', JStr (tm_role m)),
                         (''status'', JStr (tm_status m))])
                  (d\<lparr>memberships := memberships d @ [m]\<rparr>))
               (Inr (u, m)) (draw 4 w))"


subsection \<open>Login\<close>

definition auth_validation :: "pystr \<Rightarrow> exn" where
  "auth_validation m = AuthError ''VALIDATION_ERROR'' m 400"

definition invalid_credentials :: exn where
  "invalid_credentials = AuthError ''AUTH_INVALID_CREDENTIALS'' ''Email or password is incorrect.'' 401"

text \<open>
  The check of tenant, user and password short-circuits: the stored hash is only looked at
  when both rows exist.
\<close>

definition login_credentials ::
  "env \<Rightarrow> tenant option \<Rightarrow> user option \<Rightarrow> pystr \<Rightarrow> ((tenant \<times> user) option) res" where
  "login_credentials e tn us password =
     (case (tn, us) of
        (Some t, Some u) \<Rightarrow>
          res_bind (verify_password e password (us_password_hash u))
            (\<lambda>ok. Inr (if ok then Some (t, u) else None))
      | _ \<Rightarrow> Inr None)"

definition authenticate_user ::
  "env \<Rightarrow> service_config \<Rightarrow> time \<Rightarrow> pystr \<Rightarrow> pystr \<Rightarrow> pystr \<Rightarrow> pystr option \<Rightarrow> pystr option
    \<Rightarrow> pystr option \<Rightarrow> 's world \<Rightarrow> auth_session_result res \<times> 's world" where
  "authenticate_user e cfg now tenant_slug email password request_id remote_ip user_agent w =
     (let normalized_email = py_lower (py_strip email); normalized_slug = py_lower (py_strip tenant_slug);
          n = w_ctr w; d = w_db w in
      if normalized_email = [] \<or> password = [] \<or> normalized_slug = []
      then (Inl (auth_validation ''email, password, and tenant_slug are required.''), w)
      else if \<not> is_valid_email normalized_email
      then (Inl (auth_validation ''email format is invalid.''), w)
      else if \<not> is_valid_tenant_slug normalized_slug
      then (Inl (auth_validation ''tenant_slug format is invalid.''), w)
      else
        let access_expires_at = now + seconds (auth_access_token_ttl_seconds cfg);
            refresh_expires_at = now + seconds (auth_refresh_token_ttl_seconds cfg);
            tn = scalar_one_or_none (\<lambda>t. tn_slug t = normalized_slug) (tenants d);
            us = user_by_email normalized_email d
        in (case login_credentials e tn us password of
              Inl err \<Rightarrow> (Inl err, w)
            | Inr None \<Rightarrow>
                (case tn of
                   Some t \<Rightarrow>
                     auth_fail e now (tn_id t) ''auth.login.failed'' ''AUTH_INVALID_CREDENTIALS''
                       ''Email or password is incorrect.'' 401 request_id None None
                       (Some ''AUTH_INVALID_CREDENTIALS'') d w
                 | None \<Rightarrow> (Inl invalid_credentials, w))
            | Inr (Some (t, u)) \<Rightarrow>
                (case membership_of (tn_id t) (us_id u) d of
                   None \<Rightarrow>
                     auth_fail e now (tn_id t) ''auth.login.failed'' ''AUTH_MEMBERSHIP_INACTIVE''
                       ''User membership is inactive for this tenant.'' 403 request_id (Some (us_id u)) None
                       (Some ''AUTH_MEMBERSHIP_INACTIVE'') d w
                 | Some m \<Rightarrow>
                     if tm_status m \<noteq> ''active'' \<or> \<not> us_is_active u then
                       auth_fail e now (tn_id t) ''auth.login.failed'' ''AUTH_MEMBERSHIP_INACTIVE''
                         ''User membership is inactive for this tenant.'' 403 request_id (Some (us_id u)) None
                         (Some ''AUTH_MEMBERSHIP_INACTIVE'') d w
                     else
                       let refresh_token = generate_refresh_token e n;
                           s = \<lparr>as_id = uuid4 e (n + 1), as_tenant_id = tn_id t, as_user_id = us_id u,
                                as_membership_id = tm_id m,
                                as_refresh_token_hash = hash_refresh_token e refresh_token,
                                as_created_at = now, as_updated_at = now, as_last_seen_at = None,
                                as_access_expires_at = access_expires_at,
                                as_refresh_expires_at = refresh_expires_at, as_revoked_at = None,
                                as_revoke_reason = None, as_created_ip = remote_ip,
                                as_created_user_agent =
                                  (case user_agent of None \<Rightarrow> None
                                   | Some ua \<Rightarrow> if take 512 ua = [] then None else Some (take 512 ua))\<rparr>;
                           u = u\<lparr>us_last_login_at := Some now, us_updated_at := now\<rparr>;
                           d = d\<lparr>auth_sessions := auth_sessions d @ [s],
                                 users := upd_where (\<lambda>r. us_id r = us_id u) (\<lambda>_. u) (users d)\<rparr>;
                           d = emit_auth_event e (n + 2) now (tn_id t) ''auth.login.succeeded'' request_id
                                 (Some (us_id u)) (Some (as_id s)) (Some 200) None d
                       in commit_with d
                            (res_bind (service_issue_access_token e (n + 3) cfg s access_expires_at)
                               (\<lambda>access_token.
                                 Inr \<lparr>ar_access_token = access_token, ar_refresh_token = refresh_token,
                                      ar_expires_in = auth_access_token_ttl_seconds cfg, ar_user = u,
                                      ar_tenant = t, ar_membership = m, ar_session = s\<rparr>))
                            (draw 4 w))))"



subsection \<open>Refresh, logout, current user\<close>

definition session_revoked_error :: exn where
  "session_revoked_error = AuthError ''AUTH_SESSION_REVOKED'' ''Session has been revoked.'' 401"

definition refresh_session ::
  "env \<Rightarrow> service_config \<Rightarrow> time \<Rightarrow> pystr \<Rightarrow> pystr option \<Rightarrow> 's world \<Rightarrow> auth_session_result res \<times> 's world" where
  "refresh_session e cfg now refresh_token request_id w =
     (let n = w_ctr w; d = w_db w in
      if refresh_token = []
      then (Inl (AuthError ''AUTH_REFRESH_MISSING'' ''Refresh token is required.'' 401), w)
      else case session_by_hash (hash_refresh_token e refresh_token) d of
        None \<Rightarrow> (Inl (AuthError ''AUTH_REFRESH_INVALID'' ''Refresh token is invalid.'' 401), w)
      | Some s \<Rightarrow>
          if as_revoked_at s \<noteq> None then
            auth_fail e now (as_tenant_id s) ''auth.refresh.failed'' ''AUTH_SESSION_REVOKED''
              ''Session has been revoked.'' 401 request_id (Some (as_user_id s)) (Some (as_id s))
              (Some ''AUTH_SESSION_REVOKED'') d w
          else if as_refresh_expires_at s \<le> now then
            auth_fail e now (as_tenant_id s) ''auth.refresh.failed'' ''AUTH_SESSION_EXPIRED''
              ''Session refresh window has expired.'' 401 request_id (Some (as_user_id s)) (Some (as_id s))
              (Some ''AUTH_SESSION_EXPIRED'') d w
          else (case get_active_principals (as_tenant_id s) (as_user_id s) (as_membership_id s) d of
            None \<Rightarrow>
              auth_fail e now (as_tenant_id s) ''auth.refresh.failed'' ''AUTH_SESSION_REVOKED''
                ''Session has been revoked.'' 401 request_id (Some (as_user_id s)) (Some (as_id s))
                (Some ''AUTH_SESSION_REVOKED'')
                (put_session (s\<lparr>as_revoked_at := Some now, as_revoke_reason := Some ''inactive_membership'',
                                as_updated_at := now\<rparr>) d) w
          | Some (u, m, t) \<Rightarrow>
              let new_refresh_token = generate_refresh_token e n;
                  access_expires_at = now + seconds (auth_access_token_ttl_seconds cfg);
                  s = s\<lparr>as_refresh_token_hash := hash_refresh_token e new_refresh_token,
                        as_access_expires_at := access_expires_at, as_last_seen_at := Some now,
                        as_updated_at := now\<rparr>;
                  d = emit_auth_event e (n + 1) now (as_tenant_id s) ''auth.refresh.succeeded'' request_id
                        (Some (as_user_id s)) (Some (as_id s)) (Some 200) None (put_session s d)
              in commit_with d
                   (res_bind (service_issue_access_token e (n + 2) cfg s access_expires_at)
                      (\<lambda>access_token.
                        Inr \<lparr>ar_access_token = access_token, ar_refresh_token = new_refresh_token,
                             ar_expires_in = auth_access_token_ttl_seconds cfg, ar_user = u,
                             ar_tenant = t, ar_membership = m, ar_session = s\<rparr>))
                   (draw 3 w)))"

definition revoke_session ::
  "env \<Rightarrow> time \<Rightarrow> pystr option \<Rightarrow> pystr option \<Rightarrow> 's world \<Rightarrow> unit res \<times> 's world" where
  "revoke_session e now refresh_token request_id w =
     (case refresh_token of
        None \<Rightarrow> (Inr (), w)
      | Some token \<Rightarrow>
          if token = [] then (Inr (), w)
          else (case session_by_hash (hash_refresh_token e token) (w_db w) of
            None \<Rightarrow> (Inr (), w)
          | Some s \<Rightarrow>
              let d = (if as_revoked_at s = None
                       then put_session (s\<lparr>as_revoked_at := Some now, as_revoke_reason := Some ''logout'',
                                          as_updated_at := now\<rparr>) (w_db w)
                       else w_db w)
              in commit_with
                   (emit_auth_event e (w_ctr w) now (as_tenant_id s) ''auth.logout.succeeded'' request_id
                      (Some (as_user_id s)) (Some (as_id s)) (Some 204) None d)
                   (Inr ()) (draw 1 w)))"

definition access_invalid :: exn where
  "access_invalid = AuthError ''AUTH_ACCESS_INVALID'' ''Access token is invalid.'' 401"

definition get_current_user ::
  "env \<Rightarrow> service_config \<Rightarrow> time \<Rightarrow> pystr \<Rightarrow> db \<Rightarrow> auth_me_result res" where
  "get_current_user e cfg now access_token d =
     (case auth_access_token_secret cfg of
        None \<Rightarrow> Inl (RuntimeError ''auth access token secret is not configured'')
      | Some secret \<Rightarrow>
          if secret = [] then Inl (RuntimeError ''auth access token secret is not configured'')
          else (case decode_access_token e access_token secret now of
            (claims, token_error) \<Rightarrow>
              if token_error = Some ''missing''
              then Inl (AuthError ''AUTH_ACCESS_MISSING'' ''Access token is missing.'' 401)
              else if token_error = Some ''expired''
              then Inl (AuthError ''AUTH_ACCESS_EXPIRED'' ''Access token has expired.'' 401)
              else (case claims of
                None \<Rightarrow> Inl access_invalid
              | Some c \<Rightarrow>
                  (case scalar_one_or_none
                     (\<lambda>s. as_id s = cl_session_id c \<and> as_tenant_id s = cl_tenant_id c \<and>
                          as_user_id s = cl_user_id c) (auth_sessions d) of
                     None \<Rightarrow> Inl access_invalid
                   | Some s \<Rightarrow>
                       if as_revoked_at s \<noteq> None then Inl access_invalid
                       else (case get_active_principals (cl_tenant_id c) (cl_user_id c) (cl_membership_id c) d of
                         None \<Rightarrow> Inl access_invalid
                       | Some (u, m, t) \<Rightarrow>
                           Inr \<lparr>me_user = u, me_tenant = t, me_membership = m, me_session = s\<rparr>)))))"


subsection \<open>Tenants and API keys\<close>

definition next_unique_tenant_slug :: "db \<Rightarrow> pystr \<Rightarrow> pystr option" where
  "next_unique_tenant_slug d name =
     unique_tenant_slug name
       (\<lambda>candidate. scalar_one_or_none (\<lambda>t. tn_slug t = candidate) (tenants d) \<noteq> None)"

text \<open>None when the slug loop does not return; \<open>bootstrap_tenant_returns\<close> shows it does.\<close>

definition bootstrap_tenant ::
  "env \<Rightarrow> time \<Rightarrow> pystr \<Rightarrow> pystr option \<Rightarrow> 's world \<Rightarrow> ((tenant \<times> pystr) res \<times> 's world) option" where
  "bootstrap_tenant e now name actor w =
     (let n = w_ctr w; d = w_db w; material = generate_api_key e n in
      map_option (\<lambda>slug.
        let t = \<lparr>tn_id = uuid4 e (n + 1), tn_name = name, tn_slug = slug, tn_created_at = now\<rparr>;
            k = \<lparr>ak_id = uuid4 e (n + 2), ak_tenant_id = tn_id t, ak_key_prefix = key_prefix material,
                 ak_key_hash = key_hash material, ak_revoked = False, ak_created_at = now,
                 ak_revoked_at = None\<rparr>
        in commit_with
             (add_audit e (n + 3) now (tn_id t) ''tenant.bootstrap'' actor
                (JObj [(''tenant_name'', JStr name)])
                (d\<lparr>tenants := tenants d @ [t], api_keys := api_keys d @ [k]\<rparr>))
             (Inr (t, plain_text material)) (draw 4 w))
        (next_unique_tenant_slug d name))"

definition list_tenants :: "int \<Rightarrow> int \<Rightarrow> 's world \<Rightarrow> (tenant list \<times> int) res" where
  "list_tenants n k w =
     (if n < 1 then Inl (ValueError ''limit must be >= 1'')
      else if k < 0 then Inl (ValueError ''offset must be >= 0'')
      else Inr (limit_offset n k (order_desc tn_created_at tn_id (tenants (w_db w))),
                int (length (tenants (w_db w)))))"

definition list_api_keys :: "pystr \<Rightarrow> 's world \<Rightarrow> api_key list" where
  "list_api_keys tid w =
     order_desc ak_created_at ak_id (filter (\<lambda>k. ak_tenant_id k = tid) (api_keys (w_db w)))"

definition api_key_row :: "pystr \<Rightarrow> pystr \<Rightarrow> db \<Rightarrow> api_key option" where
  "api_key_row tid key_id d =
     scalar_one_or_none (\<lambda>k. ak_tenant_id k = tid \<and> ak_id k = key_id) (api_keys d)"

definition put_api_key :: "api_key \<Rightarrow> db \<Rightarrow> db" where
  "put_api_key k d =
     d\<lparr>api_keys := upd_where (\<lambda>r. ak_tenant_id r = ak_tenant_id k \<and> ak_id r = ak_id k) (\<lambda>_. k) (api_keys d)\<rparr>"

definition create_api_key ::
  "env \<Rightarrow> time \<Rightarrow> pystr \<Rightarrow> pystr option \<Rightarrow> 's world \<Rightarrow> (api_key \<times> pystr) res \<times> 's world" where
  "create_api_key e now tid actor w =
     (let n = w_ctr w; d = w_db w; material = generate_api_key e n;
          k = \<lparr>ak_id = uuid4 e (n + 1), ak_tenant_id = tid, ak_key_prefix = key_prefix material,
               ak_key_hash = key_hash material, ak_revoked = False, ak_created_at = now,
               ak_revoked_at = None\<rparr>
      in commit_with
           (add_audit e (n + 2) now tid ''api_key.create'' actor
              (JObj [(''api_key_id'', JStr (ak_id k)), (''key_prefix'', JStr (ak_key_prefix k))])
              (d\<lparr>api_keys := api_keys d @ [k]\<rparr>))
           (Inr (k, plain_text material)) (draw 3 w))"

definition rotate_api_key ::
  "env \<Rightarrow> time \<Rightarrow> pystr \<Rightarrow> pystr \<Rightarrow> pystr option \<Rightarrow> 's world \<Rightarrow> (api_key \<times> pystr) res \<times> 's world" where
  "rotate_api_key e now tid key_id actor w =
     (let n = w_ctr w; d = w_db w; material = generate_api_key e n in
      case api_key_row tid key_id d of
        None \<Rightarrow> (Inl (ValueError ''api key not found''), draw 1 w)
      | Some k \<Rightarrow>
          if ak_revoked k then (Inl (ValueError ''cannot rotate revoked api key''), draw 1 w)
          else
            let k = k\<lparr>ak_key_prefix := key_prefix material, ak_key_hash := key_hash material\<rparr>
            in commit_with
                 (add_audit e (n + 1) now tid ''api_key.rotate'' actor
                    (JObj [(''api_key_id'', JStr (ak_id k)), (''key_prefix'', JStr (ak_key_prefix k))])
                    (put_api_key k d))
                 (Inr (k, plain_text material)) (draw 2 w))"

definition revoke_api_key ::
  "env \<Rightarrow> time \<Rightarrow> pystr \<Rightarrow> pystr \<Rightarrow> pystr option \<Rightarrow> 's world \<Rightarrow> api_key res \<times> 's world" where
  "revoke_api_key e now tid key_id actor w =
     (let n = w_ctr w; d = w_db w in
      case api_key_row tid key_id d of
        None \<Rightarrow> (Inl (ValueError ''api key not found''), w)
      | Some k \<Rightarrow>
          let k = k\<lparr>ak_revoked := True, ak_revoked_at := Some now\<rparr>
          in commit_with
               (add_audit e n now tid ''api_key.revoke'' actor (JObj [(''api_key_id'', JStr (ak_id k))])
                  (put_api_key k d))
               (Inr k) (draw 1 w))"

definition get_tenant_by_api_key :: "env \<Rightarrow> pystr \<Rightarrow> db \<Rightarrow> tenant option" where
  "get_tenant_by_api_key e raw_key d =
     (case resolve_tenant_id_from_api_key e d raw_key of
        None \<Rightarrow> None
      | Some tid \<Rightarrow> tenant_by_id tid d)"

subsection \<open>Session facts\<close>

lemma active_principalsD:
  "get_active_principals tid uid mid d = Some (u, m, t) \<Longrightarrow>
     u \<in> set (users d) \<and> us_id u = uid \<and> us_is_active u \<and>
     m \<in> set (memberships d) \<and> tm_id m = mid \<and> tm_status m = ''active'' \<and>
     t \<in> set (tenants d) \<and> tn_id t = tid"
  unfolding get_active_principals_def
  by (auto dest!: scalar_SomeD split: option.splits if_splits)

lemma put_session_tables [simp]:
  "tenants (put_session s d) = tenants d" "users (put_session s d) = users d"
  "memberships (put_session s d) = memberships d" "provider_configs (put_session s d) = provider_configs d"
  "api_keys (put_session s d) = api_keys d" "invoice_files (put_session s d) = invoice_files d"
  "parse_jobs (put_session s d) = parse_jobs d" "collection_jobs (put_session s d) = collection_jobs d"
  "parse_job_files (put_session s d) = parse_job_files d" "report_parse_jobs (put_session s d) = report_parse_jobs d"
  "invoice_records (put_session s d) = invoice_records d" "reports (put_session s d) = reports d"
  "report_artifacts (put_session s d) = report_artifacts d" "audit_events (put_session s d) = audit_events d"
  "idempotency_records (put_session s d) = idempotency_records d"
  by (simp_all add: put_session_def)

lemma emit_sessions [simp]:
  "auth_sessions (emit_auth_event e n now tid ty rid uid sid sc rc d) = auth_sessions d"
  "users (emit_auth_event e n now tid ty rid uid sid sc rc d) = users d"
  "memberships (emit_auth_event e n now tid ty rid uid sid sc rc d) = memberships d"
  "tenants (emit_auth_event e n now tid ty rid uid sid sc rc d) = tenants d"
  "api_keys (emit_auth_event e n now tid ty rid uid sid sc rc d) = api_keys d"
  by (simp_all add: emit_auth_event_def)

lemma session_by_hashD: "session_by_hash h d = Some s \<Longrightarrow> as_refresh_token_hash s = h \<and> s \<in> set (auth_sessions d)"
  by (auto simp: session_by_hash_def dest: scalar_SomeD)

lemma set_put_session:
  assumes "unique as_id (auth_sessions d)" and "s \<in> set (auth_sessions d)" and "as_id s' = as_id s"
  shows "set (auth_sessions (put_session s' d)) = insert s' (set (auth_sessions d) - {s})"
proof -
  have "r \<in> set (auth_sessions d) \<Longrightarrow> (as_id r = as_id s) = (r = s)" for r
    using unique_inj [OF assms(1) _ assms(2)] by blast
  with assms(2) show ?thesis
    by (auto simp: put_session_def upd_where_def image_iff assms(3))
qed

lemma Inr_res_bind: "Inr y = res_bind r f \<longleftrightarrow> (\<exists>x. r = Inr x \<and> f x = Inr y)"
  using res_bind_Inr [of r f y] by metis

lemma refresh_session_succeeds:
  assumes "refresh_session e cfg now tok rid w = (Inr r, w')"
  obtains s u m t where "tok \<noteq> []" "session_by_hash (hash_refresh_token e tok) (w_db w) = Some s"
    "as_revoked_at s = None" "now < as_refresh_expires_at s"
    "get_active_principals (as_tenant_id s) (as_user_id s) (as_membership_id s) (w_db w) = Some (u, m, t)"
    "ar_session r = s\<lparr>as_refresh_token_hash := hash_refresh_token e (ar_refresh_token r),
        as_access_expires_at := now + seconds (auth_access_token_ttl_seconds cfg),
        as_last_seen_at := Some now, as_updated_at := now\<rparr>"
    "auth_sessions (w_db w') = auth_sessions (put_session (ar_session r) (w_db w))" "db_ok (w_db w')"
  using assms unfolding refresh_session_def auth_fail_def Let_def
  by (auto split: if_splits option.splits prod.splits sum.splits dest!: commit_cases
      simp: Inr_res_bind)

text \<open>
  A refresh rotates the token of its session and nothing else of its lifetime: it only
  succeeds for a session that is neither revoked nor past its refresh window, the new token
  names the same session with the same window, and the old token is invalid from then on.
  The hash of the new token is assumed to differ from the old one's.
\<close>

theorem refresh_rotates:
  assumes "db_ok (w_db w)" and "refresh_session e cfg now tok rid w = (Inr r, w')"
    and "hash_refresh_token e (ar_refresh_token r) \<noteq> hash_refresh_token e tok"
  shows "(\<exists>s. session_by_hash (hash_refresh_token e tok) (w_db w) = Some s \<and> as_revoked_at s = None \<and>
      now < as_refresh_expires_at s \<and> as_id (ar_session r) = as_id s \<and>
      as_refresh_expires_at (ar_session r) = as_refresh_expires_at s \<and> as_revoked_at (ar_session r) = None) \<and>
    session_by_hash (hash_refresh_token e (ar_refresh_token r)) (w_db w') = Some (ar_session r) \<and>
    refresh_session e cfg' now' tok rid' w' =
      (Inl (AuthError ''AUTH_REFRESH_INVALID'' ''Refresh token is invalid.'' 401), w')"
proof -
  obtain s where s: "tok \<noteq> []" "session_by_hash (hash_refresh_token e tok) (w_db w) = Some s"
    "as_revoked_at s = None" "now < as_refresh_expires_at s"
    "ar_session r = s\<lparr>as_refresh_token_hash := hash_refresh_token e (ar_refresh_token r),
        as_access_expires_at := now + seconds (auth_access_token_ttl_seconds cfg),
        as_last_seen_at := Some now, as_updated_at := now\<rparr>"
    and w': "auth_sessions (w_db w') = auth_sessions (put_session (ar_session r) (w_db w))" "db_ok (w_db w')"
    using refresh_session_succeeds [OF assms(2)] by metis
  note mem = session_by_hashD [OF s(2)]
  have sessions: "set (auth_sessions (w_db w')) = insert (ar_session r) (set (auth_sessions (w_db w)) - {s})"
    unfolding w'(1) by (rule set_put_session) (use assms(1) mem s(5) in \<open>auto simp: db_ok_unfold\<close>)
  have "session_by_hash (hash_refresh_token e (ar_refresh_token r)) (w_db w') = Some (ar_session r)"
    unfolding session_by_hash_def
    by (rule scalar_unique [of as_refresh_token_hash]) (use w'(2) sessions s(5) in \<open>auto simp: db_ok_unfold\<close>)
  moreover have "session_by_hash (hash_refresh_token e tok) (w_db w') = None"
    unfolding session_by_hash_def scalar_None_iff sessions
    using unique_inj [of as_refresh_token_hash "auth_sessions (w_db w)"] assms(1,3) mem s(5)
    by (auto simp: db_ok_unfold)
  then have "refresh_session e cfg' now' tok rid' w' =
      (Inl (AuthError ''AUTH_REFRESH_INVALID'' ''Refresh token is invalid.'' 401), w')"
    using s(1) by (simp add: refresh_session_def Let_def)
  ultimately show ?thesis using s by simp
qed


lemma login_credentials_Some:
  "login_credentials e tn us password = Inr (Some (t, u)) \<longleftrightarrow>
     tn = Some t \<and> us = Some u \<and> verify_password e password (us_password_hash u) = Inr True"
  by (auto simp: login_credentials_def res_bind_Inr split: option.splits if_splits)

lemma authenticate_succeeds:
  assumes "authenticate_user e cfg now slug email password rid ip ua w = (Inr r, w')"
  obtains u m d1 secret where
    "scalar_one_or_none (\<lambda>t. tn_slug t = py_lower (py_strip slug)) (tenants (w_db w)) = Some (ar_tenant r)"
    "user_by_email (py_lower (py_strip email)) (w_db w) = Some u"
    "verify_password e password (us_password_hash u) = Inr True" "us_is_active u"
    "membership_of (tn_id (ar_tenant r)) (us_id u) (w_db w) = Some m" "tm_status m = ''active''"
    "ar_user r = u\<lparr>us_last_login_at := Some now, us_updated_at := now\<rparr>" "ar_membership r = m"
    "as_tenant_id (ar_session r) = tn_id (ar_tenant r)" "as_user_id (ar_session r) = us_id u"
    "as_membership_id (ar_session r) = tm_id m" "as_revoked_at (ar_session r) = None"
    "as_refresh_token_hash (ar_session r) = hash_refresh_token e (ar_refresh_token r)"
    "as_refresh_expires_at (ar_session r) = now + seconds (auth_refresh_token_ttl_seconds cfg)"
    "auth_sessions (w_db w') = auth_sessions (w_db w) @ [ar_session r]"
    "users (w_db w') = upd_where (\<lambda>x. us_id x = us_id u) (\<lambda>_. ar_user r) (users (w_db w))"
    "memberships (w_db w') = memberships (w_db w)" "tenants (w_db w') = tenants (w_db w)" "db_ok (w_db w')"
    "auth_access_token_secret cfg = Some secret" "secret \<noteq> []"
    "ar_access_token r = issue_access_token e (w_ctr w + 3) secret (us_id u) (tn_id (ar_tenant r)) (tm_id m)
       (as_id (ar_session r)) (now + seconds (auth_access_token_ttl_seconds cfg))"
  using assms unfolding authenticate_user_def auth_fail_def Let_def service_issue_access_token_def
  by (auto split: if_splits option.splits prod.splits sum.splits dest!: commit_cases
      simp: Inr_res_bind login_credentials_Some)

lemma me_of_session:
  assumes "db_ok d" and "s \<in> set (auth_sessions d)" and "as_revoked_at s = None"
    and "u \<in> set (users d)" "us_id u = as_user_id s" "us_is_active u"
    and "m \<in> set (memberships d)" "tm_id m = as_membership_id s" "tm_status m = ''active''"
    and "t \<in> set (tenants d)" "tn_id t = as_tenant_id s"
    and "auth_access_token_secret cfg = Some secret" "secret \<noteq> []"
    and "timestamp_int now < timestamp_int expires"
    and "token = issue_access_token e n secret (as_user_id s) (as_tenant_id s) (as_membership_id s) (as_id s) expires"
  shows "get_current_user e cfg now token d = Inr \<lparr>me_user = u, me_tenant = t, me_membership = m, me_session = s\<rparr>"
proof -
  have "scalar_one_or_none (\<lambda>x. us_id x = as_user_id s) (users d) = Some u"
    by (rule scalar_unique [of us_id]) (use assms in \<open>auto simp: db_ok_unfold\<close>)
  moreover have "scalar_one_or_none (\<lambda>x. tm_id x = as_membership_id s) (memberships d) = Some m"
    by (rule scalar_unique [of tm_id]) (use assms in \<open>auto simp: db_ok_unfold\<close>)
  moreover have "scalar_one_or_none (\<lambda>x. tn_id x = as_tenant_id s) (tenants d) = Some t"
    by (rule scalar_unique [of tn_id]) (use assms in \<open>auto simp: db_ok_unfold\<close>)
  ultimately have p: "get_active_principals (as_tenant_id s) (as_user_id s) (as_membership_id s) d = Some (u, m, t)"
    using assms(6,9) by (simp add: get_active_principals_def)
  have "scalar_one_or_none (\<lambda>x. as_id x = as_id s \<and> as_tenant_id x = as_tenant_id s \<and>
      as_user_id x = as_user_id s) (auth_sessions d) = Some s"
    by (rule scalar_unique [of as_id]) (use assms(1,2) in \<open>auto simp: db_ok_unfold\<close>)
  with p show ?thesis
    using assms(3,12-15) by (simp add: get_current_user_def decode_issued)
qed

text \<open>
  C6: A successful login was given an existing tenant's slug, an existing user's address and a
  password that verifies against the user's stored hash; the user is active and an active
  member of that tenant; and until it expires the access token it returns is accepted and
  leads back to the same user, tenant, membership and stored session.
\<close>

theorem login_sound_and_usable:
  assumes "db_ok (w_db w)" and "authenticate_user e cfg now slug email password rid ip ua w = (Inr r, w')"
    and "timestamp_int now' < timestamp_int (now + seconds (auth_access_token_ttl_seconds cfg))"
  shows "ar_tenant r \<in> set (tenants (w_db w)) \<and> tn_slug (ar_tenant r) = py_lower (py_strip slug) \<and>
    (\<exists>u\<in>set (users (w_db w)). us_id u = us_id (ar_user r) \<and> us_email_normalized u = py_lower (py_strip email) \<and>
       verify_password e password (us_password_hash u) = Inr True \<and> us_is_active u) \<and>
    ar_membership r \<in> set (memberships (w_db w)) \<and> tm_status (ar_membership r) = ''active'' \<and>
    tm_user_id (ar_membership r) = us_id (ar_user r) \<and> tm_tenant_id (ar_membership r) = tn_id (ar_tenant r) \<and>
    session_by_hash (hash_refresh_token e (ar_refresh_token r)) (w_db w') = Some (ar_session r) \<and>
    get_current_user e cfg now' (ar_access_token r) (w_db w') =
      Inr \<lparr>me_user = ar_user r, me_tenant = ar_tenant r, me_membership = ar_membership r, me_session = ar_session r\<rparr>"
proof -
  obtain u m secret where l:
    "scalar_one_or_none (\<lambda>t. tn_slug t = py_lower (py_strip slug)) (tenants (w_db w)) = Some (ar_tenant r)"
    "user_by_email (py_lower (py_strip email)) (w_db w) = Some u"
    "verify_password e password (us_password_hash u) = Inr True" "us_is_active u"
    "membership_of (tn_id (ar_tenant r)) (us_id u) (w_db w) = Some m" "tm_status m = ''active''"
    "ar_user r = u\<lparr>us_last_login_at := Some now, us_updated_at := now\<rparr>" "ar_membership r = m"
    "as_tenant_id (ar_session r) = tn_id (ar_tenant r)" "as_user_id (ar_session r) = us_id u"
    "as_membership_id (ar_session r) = tm_id m" "as_revoked_at (ar_session r) = None"
    "as_refresh_token_hash (ar_session r) = hash_refresh_token e (ar_refresh_token r)"
    and w': "auth_sessions (w_db w') = auth_sessions (w_db w) @ [ar_session r]"
    "users (w_db w') = upd_where (\<lambda>x. us_id x = us_id u) (\<lambda>_. ar_user r) (users (w_db w))"
    "memberships (w_db w') = memberships (w_db w)" "tenants (w_db w') = tenants (w_db w)" "db_ok (w_db w')"
    and sec: "auth_access_token_secret cfg = Some secret" "secret \<noteq> []"
    "ar_access_token r = issue_access_token e (w_ctr w + 3) secret (us_id u) (tn_id (ar_tenant r)) (tm_id m)
       (as_id (ar_session r)) (now + seconds (auth_access_token_ttl_seconds cfg))"
    using authenticate_succeeds [OF assms(2)] by metis
  have mems: "ar_tenant r \<in> set (tenants (w_db w)) \<and> tn_slug (ar_tenant r) = py_lower (py_strip slug)"
    "u \<in> set (users (w_db w)) \<and> us_email_normalized u = py_lower (py_strip email)"
    "m \<in> set (memberships (w_db w)) \<and> tm_tenant_id m = tn_id (ar_tenant r) \<and> tm_user_id m = us_id u"
    using scalar_SomeD [OF l(1)] scalar_SomeD [OF l(2) [unfolded user_by_email_def]]
      scalar_SomeD [OF l(5) [unfolded membership_of_def]] by auto
  have au: "ar_user r \<in> set (users (w_db w'))"
    unfolding w'(2) in_set_upd_where using mems(2) by auto
  have me: "get_current_user e cfg now' (ar_access_token r) (w_db w') =
      Inr \<lparr>me_user = ar_user r, me_tenant = ar_tenant r, me_membership = m, me_session = ar_session r\<rparr>"
    by (rule me_of_session [OF w'(5) _ l(12)]) (use w' l mems sec assms(3) au in auto)
  have "session_by_hash (hash_refresh_token e (ar_refresh_token r)) (w_db w') = Some (ar_session r)"
    unfolding session_by_hash_def
    by (rule scalar_unique [of as_refresh_token_hash]) (use w' l(13) in \<open>auto simp: db_ok_unfold\<close>)
  with me mems l show ?thesis by auto
qed

subsection \<open>Revocation is for good\<close>

text \<open>
  The identity operations as steps of a state machine: logins, refreshes and logouts with any
  arguments at any time, in any order.
\<close>

inductive auth_step :: "env \<Rightarrow> service_config \<Rightarrow> 's world \<Rightarrow> 's world \<Rightarrow> bool" for e cfg where
  login: "auth_step e cfg w (snd (authenticate_user e cfg now slug email password rid ip ua w))"
| refresh: "auth_step e cfg w (snd (refresh_session e cfg now token rid w))"
| logout: "auth_step e cfg w (snd (revoke_session e now token' rid w))"

inductive_cases auth_step_cases: "auth_step e cfg w w'"

definition session_revoked :: "pystr \<Rightarrow> db \<Rightarrow> bool" where
  "session_revoked i d = list_ex (\<lambda>s. as_id s = i \<and> as_revoked_at s \<noteq> None) (auth_sessions d)"

lemma session_revoked_iff: "session_revoked i d \<longleftrightarrow> (\<exists>s\<in>set (auth_sessions d). as_id s = i \<and> as_revoked_at s \<noteq> None)"
  by (auto simp: session_revoked_def list_ex_iff)

lemma revoked_put:
  assumes "unique as_id (auth_sessions d)" "session_by_hash h d = Some s" "as_id s' = as_id s"
    and "as_revoked_at s = None \<or> as_revoked_at s' \<noteq> None" and "session_revoked i d"
  shows "session_revoked i (put_session s' d)"
  using set_put_session [OF assms(1) _ assms(3)] session_by_hashD [OF assms(2)] assms(3-5)
  unfolding session_revoked_iff by (metis Diff_iff empty_iff insert_iff)

lemma revoked_same: "auth_sessions d' = auth_sessions d \<Longrightarrow> session_revoked i d' = session_revoked i d"
  by (simp add: session_revoked_def)

lemma commit_revoked:
  "session_revoked i (w_db w) \<Longrightarrow> session_revoked i d \<Longrightarrow> session_revoked i (w_db (snd (commit_with d r w)))"
  by (auto simp: commit_with_def split: option.splits)

lemma auth_fail_revoked:
  "session_revoked i (w_db w) \<Longrightarrow> session_revoked i d \<Longrightarrow>
     session_revoked i (w_db (snd (auth_fail e now t ty c m st rid u s rc d w)))"
  unfolding auth_fail_def by (rule commit_revoked) (simp_all add: session_revoked_def)

lemma auth_fail_ok: "db_ok (w_db w) \<Longrightarrow> db_ok (w_db (snd (auth_fail e now t ty c m st rid u s rc d w)))"
  unfolding auth_fail_def by (rule commit_db_ok) simp

lemma auth_step_db_ok: "auth_step e cfg w w' \<Longrightarrow> db_ok (w_db w) \<Longrightarrow> db_ok (w_db w')"
proof (induction rule: auth_step.induct)
  case (login w now slug email password rid ip ua)
  then show ?case
    by (auto simp: authenticate_user_def Let_def intro!: auth_fail_ok commit_db_ok split: sum.splits option.splits)
next
  case (refresh w now token rid)
  then show ?case
    by (auto simp: refresh_session_def Let_def intro!: auth_fail_ok commit_db_ok split: option.splits)
next
  case (logout w now token' rid)
  then show ?case
    by (auto simp: revoke_session_def Let_def intro!: commit_db_ok split: option.splits)
qed

lemma auth_step_revoked:
  "auth_step e cfg w w' \<Longrightarrow> db_ok (w_db w) \<Longrightarrow> session_revoked i (w_db w) \<Longrightarrow> session_revoked i (w_db w')"
proof (induction rule: auth_step.induct)
  case (login w now slug email password rid ip ua)
  have "session_revoked i (emit_auth_event e n t tid ty rid uid sid sc rc
      ((w_db w)\<lparr>auth_sessions := auth_sessions (w_db w) @ [s], users := us\<rparr>))" for n t tid ty uid sid sc rc s us
    using login(2) by (simp add: session_revoked_def)
  with login(2) show ?case
    by (auto simp: authenticate_user_def Let_def intro!: auth_fail_revoked commit_revoked split: sum.splits option.splits)
next
  case (refresh w now token rid)
  have u: "unique as_id (auth_sessions (w_db w))" using refresh(1) by (simp add: db_ok_unfold)
  have put: "session_by_hash h (w_db w) = Some s \<Longrightarrow> as_revoked_at s = None \<or> as_revoked_at s' \<noteq> None \<Longrightarrow>
      as_id s' = as_id s \<Longrightarrow> session_revoked i (put_session s' (w_db w))" for h s s'
    by (rule revoked_put [OF u]) (use refresh(2) in auto)
  with refresh(2) show ?case
    by (auto simp: refresh_session_def Let_def revoked_same [OF emit_sessions(1)]
        intro!: auth_fail_revoked commit_revoked split: option.splits)
next
  case (logout w now token' rid)
  have u: "unique as_id (auth_sessions (w_db w))" using logout(1) by (simp add: db_ok_unfold)
  have put: "session_by_hash h (w_db w) = Some s \<Longrightarrow> as_revoked_at s = None \<or> as_revoked_at s' \<noteq> None \<Longrightarrow>
      as_id s' = as_id s \<Longrightarrow> session_revoked i (put_session s' (w_db w))" for h s s'
    by (rule revoked_put [OF u]) (use logout(2) in auto)
  with logout(2) show ?case
    by (auto simp: revoke_session_def Let_def revoked_same [OF emit_sessions(1)] intro!: commit_revoked split: option.splits)
qed

lemma auth_steps_revoked:
  "(auth_step e cfg)\<^sup>*\<^sup>* w w' \<Longrightarrow> db_ok (w_db w) \<Longrightarrow> session_revoked i (w_db w) \<Longrightarrow>
     db_ok (w_db w') \<and> session_revoked i (w_db w')"
  by (induction rule: rtranclp_induct) (auto intro: auth_step_db_ok auth_step_revoked)

lemma revoked_unique:
  assumes "db_ok d" and "session_revoked i d" and "s \<in> set (auth_sessions d)" and "as_id s = i"
  shows "as_revoked_at s \<noteq> None"
  using assms unique_inj [of as_id "auth_sessions d"] by (auto simp: session_revoked_iff db_ok_unfold)

lemma revoked_session_dead:
  assumes "db_ok (w_db w)" and "session_revoked i (w_db w)" and "(auth_step e cfg)\<^sup>*\<^sup>* w w'"
  shows "(\<forall>now token rid r w2. refresh_session e cfg now token rid w' = (Inr r, w2) \<longrightarrow> as_id (ar_session r) \<noteq> i) \<and>
    (\<forall>now token me. get_current_user e cfg now token (w_db w') = Inr me \<longrightarrow> as_id (me_session me) \<noteq> i)"
proof -
  have ok: "db_ok (w_db w')" and rv: "session_revoked i (w_db w')"
    using auth_steps_revoked [OF assms(3,1,2)] by simp_all
  have "as_id (ar_session r) \<noteq> i" if r: "refresh_session e cfg now token rid w' = (Inr r, w2)" for now token rid r w2
  proof -
    obtain s where "session_by_hash (hash_refresh_token e token) (w_db w') = Some s" "as_revoked_at s = None"
      "as_id (ar_session r) = as_id s"
      by (rule refresh_session_succeeds [OF r], rule that) simp_all
    with revoked_unique [OF ok rv, of s] session_by_hashD show ?thesis by fastforce
  qed
  moreover have "as_id (me_session me) \<noteq> i" if "get_current_user e cfg now token (w_db w') = Inr me" for now token me
    using that revoked_unique [OF ok rv, of "me_session me"] unfolding get_current_user_def
    by (auto split: option.splits if_splits prod.splits dest!: scalar_SomeD)
  ultimately show ?thesis by blast
qed

lemma revoke_session_revokes:
  assumes "db_ok (w_db w)" and "token \<noteq> []" and "session_by_hash (hash_refresh_token e token) (w_db w) = Some s"
    and "revoke_session e now (Some token) rid w = (Inr u, w')"
  shows "session_revoked (as_id s) (w_db w') \<and> db_ok (w_db w')"
proof -
  let ?s = "s\<lparr>as_revoked_at := Some now, as_revoke_reason := Some ''logout'', as_updated_at := now\<rparr>"
  have mem: "s \<in> set (auth_sessions (w_db w))" using session_by_hashD [OF assms(3)] by simp
  have "set (auth_sessions (put_session ?s (w_db w))) = insert ?s (set (auth_sessions (w_db w)) - {s})"
    by (rule set_put_session) (use assms(1) mem in \<open>auto simp: db_ok_unfold\<close>)
  then have "session_revoked (as_id s) (if as_revoked_at s = None then put_session ?s (w_db w) else w_db w)"
    using mem by (auto simp: session_revoked_iff)
  moreover have "auth_sessions (w_db w') = auth_sessions (if as_revoked_at s = None then put_session ?s (w_db w) else w_db w)"
    "db_ok (w_db w')"
    using assms(4) by (auto simp: revoke_session_def assms(2,3) Let_def dest!: commit_cases)
  ultimately show ?thesis using revoked_same by metis
qed

text \<open>
  C7: A logout is final: once a refresh token has logged its session out, whatever logins,
  refreshes and logouts follow, no refresh ever returns that session again and no access
  token is ever accepted for it.
\<close>

theorem logout_is_final:
  assumes "db_ok (w_db w)" and "token \<noteq> []" and "session_by_hash (hash_refresh_token e token) (w_db w) = Some s"
    and "revoke_session e now (Some token) rid w = (Inr u, w1)" and "(auth_step e cfg)\<^sup>*\<^sup>* w1 w'"
  shows "(\<forall>now token rid r w2. refresh_session e cfg now token rid w' = (Inr r, w2) \<longrightarrow> as_id (ar_session r) \<noteq> as_id s) \<and>
    (\<forall>now token me. get_current_user e cfg now token (w_db w') = Inr me \<longrightarrow> as_id (me_session me) \<noteq> as_id s)"
  using revoke_session_revokes [OF assms(1-4)] assms(5) revoked_session_dead by blast

subsection \<open>Tenants and API keys\<close>

lemma api_key_rowD:
  "api_key_row tid i d = Some k \<Longrightarrow> k \<in> set (api_keys d) \<and> ak_tenant_id k = tid \<and> ak_id k = i"
  by (auto simp: api_key_row_def dest!: scalar_SomeD)

lemma set_put_api_key:
  assumes "unique ak_id (api_keys d)" and "k0 \<in> set (api_keys d)" and "ak_id k = ak_id k0"
    and "ak_tenant_id k = ak_tenant_id k0"
  shows "set (api_keys (put_api_key k d)) = insert k (set (api_keys d) - {k0})"
proof -
  have "r \<in> set (api_keys d) \<Longrightarrow> (ak_tenant_id r = ak_tenant_id k0 \<and> ak_id r = ak_id k0) = (r = k0)" for r
    using unique_inj [OF assms(1) _ assms(2)] by blast
  with assms(2) show ?thesis
    by (auto simp: put_api_key_def upd_where_def image_iff assms(3,4))
qed

lemma put_api_key_tables [simp]:
  "tenants (put_api_key k d) = tenants d" "audit_events (put_api_key k d) = audit_events d"
  by (simp_all add: put_api_key_def)

lemma tenant_of_live_key:
  assumes "db_ok d" and "k \<in> set (api_keys d)" and "ak_key_hash k = hash_api_key e raw"
  shows "get_tenant_by_api_key e raw d = (if ak_revoked k then None else tenant_by_id (ak_tenant_id k) d)"
proof -
  have "scalar_one_or_none (\<lambda>k. ak_key_hash k = hash_api_key e raw) (api_keys d) = Some k"
    by (rule scalar_unique [of ak_key_hash]) (use assms in \<open>auto simp: db_ok_unfold\<close>)
  then show ?thesis by (simp add: get_tenant_by_api_key_def resolve_tenant_id_from_api_key_def)
qed

text \<open>
  Rotating an API key replaces it: the key that authenticated the tenant before is refused
  afterwards, the returned one authenticates the same tenant, and revoking the row refuses
  that one too. The hash of the new key is assumed to differ from the old one's.
\<close>

theorem api_key_rotate_revoke:
  assumes "db_ok (w_db w)" and "rotate_api_key e now tid i actor w = (Inr (k, raw), w1)"
    and "api_key_row tid i (w_db w) = Some k0" and "hash_api_key e old = ak_key_hash k0"
    and "hash_api_key e raw \<noteq> hash_api_key e old" and "revoke_api_key e now2 tid i actor2 w1 = (Inr k2, w2)"
  shows "get_tenant_by_api_key e old (w_db w) = tenant_by_id tid (w_db w) \<and>
    get_tenant_by_api_key e old (w_db w1) = None \<and>
    get_tenant_by_api_key e raw (w_db w1) = tenant_by_id tid (w_db w) \<and>
    get_tenant_by_api_key e raw (w_db w2) = None"
proof -
  note k0 = api_key_rowD [OF assms(3)]
  have live: "\<not> ak_revoked k0" and raw: "ak_key_hash k = hash_api_key e raw" "ak_id k = i" "ak_tenant_id k = tid" "\<not> ak_revoked k"
    and w1: "api_keys (w_db w1) = api_keys (put_api_key k (w_db w))" "tenants (w_db w1) = tenants (w_db w)" "db_ok (w_db w1)"
    using assms(2) k0 by (auto simp: rotate_api_key_def Let_def assms(3) generate_api_key_def split: if_splits dest!: commit_cases)
  have keys1: "set (api_keys (w_db w1)) = insert k (set (api_keys (w_db w)) - {k0})"
    unfolding w1(1) by (rule set_put_api_key) (use assms(1) k0 raw in \<open>auto simp: db_ok_unfold\<close>)
  obtain k1 where k1: "api_key_row tid i (w_db w1) = Some k1" "k2 = k1\<lparr>ak_revoked := True, ak_revoked_at := Some now2\<rparr>"
    and w2: "api_keys (w_db w2) = api_keys (put_api_key k2 (w_db w1))" "db_ok (w_db w2)"
    using assms(6) by (auto simp: revoke_api_key_def Let_def split: option.splits dest!: commit_cases)
  have u1: "unique ak_id (api_keys (w_db w1))" using w1(3) by (simp add: db_ok_unfold)
  have "k1 = k"
    by (rule unique_inj [OF u1]) (use api_key_rowD [OF k1(1)] keys1 raw in simp_all)
  then have "set (api_keys (w_db w2)) = insert k2 (set (api_keys (w_db w1)) - {k})"
    unfolding w2(1) by (intro set_put_api_key [OF u1]) (simp_all add: keys1 k1(2))
  then have keys2: "k2 \<in> set (api_keys (w_db w2))" "ak_revoked k2" "ak_key_hash k2 = hash_api_key e raw"
    using \<open>k1 = k\<close> k1(2) raw(1) by simp_all
  have "ak_key_hash x \<noteq> hash_api_key e old" if "x \<in> set (api_keys (w_db w1))" for x
    using that unique_inj [of ak_key_hash "api_keys (w_db w)" x k0] assms(1,4,5) k0 raw(1)
    unfolding keys1 db_ok_unfold by force
  then have "scalar_one_or_none (\<lambda>k. ak_key_hash k = hash_api_key e old) (api_keys (w_db w1)) = None"
    by (simp add: scalar_None_iff)
  then have "get_tenant_by_api_key e old (w_db w1) = None"
    by (simp add: get_tenant_by_api_key_def resolve_tenant_id_from_api_key_def)
  with tenant_of_live_key [OF assms(1), of k0 e old] tenant_of_live_key [OF w1(3), of k e raw]
    tenant_of_live_key [OF w2(2) keys2(1), of e raw] keys1 keys2 k0 live raw assms(4) w1(2)
  show ?thesis by (simp add: tenant_by_id_def)
qed

text \<open>
  C19: Bootstrapping a tenant always returns. Either a constraint stops it and the database is
  as before, or the new tenant has a slug no tenant had, and the API key it returns
  authenticates it.
\<close>

theorem bootstrap_tenant_returns:
  "case bootstrap_tenant e now name actor w of
     None \<Rightarrow> False
   | Some (Inl err, w') \<Rightarrow> w_db w' = w_db w
   | Some (Inr (t, raw), w') \<Rightarrow>
       tenants (w_db w') = tenants (w_db w) @ [t] \<and> tn_slug t \<notin> tn_slug ` set (tenants (w_db w)) \<and>
       tn_slug t \<noteq> [] \<and> list_all slug_char (tn_slug t) \<and>
       get_tenant_by_api_key e raw (w_db w') = Some t"
proof -
  let ?ex = "\<lambda>c. scalar_one_or_none (\<lambda>t. tn_slug t = c) (tenants (w_db w)) \<noteq> None"
  have ex: "?ex c \<longleftrightarrow> c \<in> tn_slug ` set (tenants (w_db w))" for c
    using scalar_None_iff [of "\<lambda>t. tn_slug t = c" "tenants (w_db w)"] by (auto simp: image_iff)
  have "finite {c. ?ex c}" unfolding ex by simp
  then obtain slug where slug: "next_unique_tenant_slug (w_db w) name = Some slug" "\<not> ?ex slug" "slug \<noteq> []"
      "list_all slug_char slug"
    using unique_tenant_slug_returns unfolding next_unique_tenant_slug_def by blast
  show ?thesis
  proof (cases "bootstrap_tenant e now name actor w")
    case None
    then show ?thesis using slug(1) by (simp add: bootstrap_tenant_def Let_def)
  next
    case (Some rw)
    obtain r w' where rw: "rw = (r, w')" by force
    let ?t = "\<lparr>tn_id = uuid4 e (w_ctr w + 1), tn_name = name, tn_slug = slug, tn_created_at = now\<rparr>"
    show ?thesis
    proof (cases r)
      case (Inl err)
      with Some rw slug(1) show ?thesis
        by (auto simp: bootstrap_tenant_def Let_def dest!: commit_cases)
    next
      case (Inr tr)
      from Some rw slug(1) Inr have t: "fst tr = ?t" "snd tr = plain_text (generate_api_key e (w_ctr w))"
        and w': "tenants (w_db w') = tenants (w_db w) @ [?t]" "db_ok (w_db w')"
        "\<exists>k\<in>set (api_keys (w_db w')). ak_key_hash k = hash_api_key e (snd tr) \<and> \<not> ak_revoked k \<and> ak_tenant_id k = tn_id ?t"
        by (auto simp: bootstrap_tenant_def Let_def generate_api_key_def dest!: commit_cases)
      have "tenant_by_id (tn_id ?t) (w_db w') = Some ?t"
        unfolding tenant_by_id_def by (rule scalar_unique [of tn_id]) (use w' in \<open>auto simp: db_ok_unfold\<close>)
      moreover obtain k where "k \<in> set (api_keys (w_db w'))" "ak_key_hash k = hash_api_key e (snd tr)"
        "\<not> ak_revoked k" "ak_tenant_id k = tn_id ?t" using w'(3) by blast
      ultimately have "get_tenant_by_api_key e (snd tr) (w_db w') = Some ?t"
        using tenant_of_live_key [OF w'(2)] by simp
      then show ?thesis using Some rw Inr t w'(1) slug(3,4) slug(2) [unfolded ex] by (cases tr) simp
    qed
  qed
qed

subsection \<open>A concrete login\<close>

definition demo_auth_config :: service_config where
  "demo_auth_config = default_config\<lparr>auth_access_token_secret := Some ''k''\<rparr>"

definition demo_auth_world :: "unit world" where
  "demo_auth_world =
     \<lparr>w_db = empty_db
        \<lparr>tenants := [\<lparr>tn_id = ''t'', tn_name = ''Acme'', tn_slug = ''acme'', tn_created_at = 0\<rparr>],
         users := [\<lparr>us_id = ''u'', us_email = ''a@b.co'', us_email_normalized = ''a@b.co'',
           us_password_hash = projr (hash_password toy_env 0 ''pw'' 120000), us_full_name = None,
           us_is_active = True, us_last_login_at = None, us_created_at = 0, us_updated_at = 0\<rparr>],
         memberships := [\<lparr>tm_id = ''m'', tm_tenant_id = ''t'', tm_user_id = ''u'', tm_role = ''admin'',
           tm_status = ''active'', tm_created_at = 0, tm_updated_at = 0\<rparr>],
         api_keys := [\<lparr>ak_id = ''a'', ak_tenant_id = ''t'', ak_key_prefix = ''old'', ak_key_hash = hash_api_key toy_env ''old'',
           ak_revoked = False, ak_created_at = 0, ak_revoked_at = None\<rparr>]\<rparr>,
      w_queue = [], w_store = (), w_ctr = 10\<rparr>"

definition demo_login :: "auth_session_result res \<times> unit world" where
  "demo_login = authenticate_user toy_env demo_auth_config 5000000 '' Acme'' ''A@b.co'' ''pw'' None None None demo_auth_world"

definition demo_refresh :: "auth_session_result res \<times> unit world" where
  "demo_refresh = refresh_session toy_env demo_auth_config 6000000 ''tok-10'' None (snd demo_login)"

lemma demo_auth_world_ok: "db_ok (w_db demo_auth_world)"
  by (simp add: demo_auth_world_def db_ok_unfold empty_db_def unique_def unique_nullable_def)

lemma demo_login_eq: "demo_login = (Inr (projr (fst demo_login)), snd demo_login)"
proof -
  have "\<not> isl (fst demo_login)" by code_simp
  then show ?thesis by (metis prod.collapse sum.collapse(2))
qed

lemma demo_login_session:
  "map_option as_id (session_by_hash (hash_refresh_token toy_env ''tok-10'') (w_db (snd demo_login))) = Some ''id-11''"
  by code_simp

lemma demo_refresh_eq: "demo_refresh = (Inr (projr (fst demo_refresh)), snd demo_refresh)"
proof -
  have "\<not> isl (fst demo_refresh)" by code_simp
  then show ?thesis by (metis prod.collapse sum.collapse(2))
qed

lemma demo_login_db_ok: "db_ok (w_db (snd demo_login))"
  using auth_step_db_ok [OF auth_step.login demo_auth_world_ok] by (simp add: demo_login_def)

lemma refresh_rotates_witness:
  "refresh_session toy_env demo_auth_config 7000000 ''tok-10'' None (snd demo_refresh) =
     (Inl (AuthError ''AUTH_REFRESH_INVALID'' ''Refresh token is invalid.'' 401), snd demo_refresh)"
proof -
  have "hash_refresh_token toy_env (ar_refresh_token (projr (fst demo_refresh))) \<noteq> hash_refresh_token toy_env ''tok-10''"
    by code_simp
  from refresh_rotates [OF demo_login_db_ok trans [OF demo_refresh_def [symmetric] demo_refresh_eq] this]
  show ?thesis by blast
qed

lemma login_sound_and_usable_witness:
  "get_current_user toy_env demo_auth_config 6000000 (ar_access_token (projr (fst demo_login))) (w_db (snd demo_login)) =
    Inr \<lparr>me_user = ar_user (projr (fst demo_login)), me_tenant = ar_tenant (projr (fst demo_login)),
         me_membership = ar_membership (projr (fst demo_login)), me_session = ar_session (projr (fst demo_login))\<rparr>"
  using login_sound_and_usable [OF demo_auth_world_ok trans [OF demo_login_def [symmetric] demo_login_eq], of 6000000]
  by (simp add: timestamp_int_def demo_auth_config_def default_config_def)

definition demo_me :: "auth_me_result res" where
  "demo_me = get_current_user toy_env demo_auth_config 6000000 (ar_access_token (projr (fst demo_login))) (w_db (snd demo_login))"


definition demo_logout :: "unit res \<times> unit world" where
  "demo_logout = revoke_session toy_env 7000000 (Some ''tok-10'') None (snd demo_login)"

lemma logout_is_final_witness:
  "\<nexists>now token me. get_current_user toy_env demo_auth_config now token (w_db (snd demo_logout)) = Inr me \<and>
     as_id (me_session me) = ''id-11''"
proof -
  obtain s where s: "session_by_hash (hash_refresh_token toy_env ''tok-10'') (w_db (snd demo_login)) = Some s" "as_id s = ''id-11''"
    using demo_login_session by auto
  have "\<not> isl (fst demo_logout)" by code_simp
  then have "demo_logout = (Inr (projr (fst demo_logout)), snd demo_logout)" by (metis prod.collapse sum.collapse(2))
  from logout_is_final [OF demo_login_db_ok _ s(1) trans [OF demo_logout_def [symmetric] this] rtranclp.rtrancl_refl] s(2)
  show ?thesis by simp
qed

definition demo_rotate :: "(api_key \<times> pystr) res \<times> unit world" where
  "demo_rotate = rotate_api_key toy_env 5 ''t'' ''a'' None demo_auth_world"

lemma api_key_rotate_revoke_witness:
  "get_tenant_by_api_key toy_env ''old'' (w_db (snd demo_rotate)) = None \<and>
   get_tenant_by_api_key toy_env ''tok-10'' (w_db (snd demo_rotate)) = tenant_by_id ''t'' (w_db demo_auth_world)"
proof -
  let ?r = "projr (fst demo_rotate)"
  let ?v = "revoke_api_key toy_env 6 ''t'' ''a'' None (snd demo_rotate)"
  have "\<not> isl (fst demo_rotate)" by code_simp
  moreover have raw: "snd ?r = ''tok-10''" by code_simp
  ultimately have "demo_rotate = (Inr (fst ?r, ''tok-10''), snd demo_rotate)"
    by (metis prod.collapse sum.collapse(2))
  note r = trans [OF demo_rotate_def [symmetric] this]
  have "\<not> isl (fst ?v)" by code_simp
  then have v: "?v = (Inr (projr (fst ?v)), snd ?v)" by (metis prod.collapse sum.collapse(2))
  have "map_option ak_key_hash (api_key_row ''t'' ''a'' (w_db demo_auth_world)) = Some (hash_api_key toy_env ''old'')"
    by code_simp
  then obtain k0 where k0: "api_key_row ''t'' ''a'' (w_db demo_auth_world) = Some k0" "hash_api_key toy_env ''old'' = ak_key_hash k0"
    by auto
  have "hash_api_key toy_env ''tok-10'' \<noteq> hash_api_key toy_env ''old''" by code_simp
  from api_key_rotate_revoke [OF demo_auth_world_ok r k0 this v] show ?thesis by simp
qed

end
