(* ===== verification/Service_Providers.thy ===== *)
theory Service_Providers
  imports Service_Base "HOL-Library.Code_Target_Nat"
begin

text \<open>
  Provider configurations of \<open>saas/service.py\<close>: create, update, delete and list, and the
  OAuth life cycle (start, callback, refresh, revoke, connection test). The state of a
  connection is the row: its status, its sealed tokens and, inside \<open>config_json\<close>, the hash
  and expiry of the one pending OAuth state.
\<close>

definition provider_row :: "pystr \<Rightarrow> pystr \<Rightarrow> db \<Rightarrow> provider_config option" where
  "provider_row tid pid d =
     scalar_one_or_none (\<lambda>p. pc_tenant_id p = tid \<and> pc_id p = pid) (provider_configs d)"

definition put_provider :: "provider_config \<Rightarrow> db \<Rightarrow> db" where
  "put_provider row d =
     d\<lparr>provider_configs :=
        upd_where (\<lambda>p. pc_tenant_id p = pc_tenant_id row \<and> pc_id p = pc_id row) (\<lambda>_. row)
          (provider_configs d)\<rparr>"

definition ensure_unique_provider_type ::
  "db \<Rightarrow> pystr \<Rightarrow> pystr \<Rightarrow> pystr option \<Rightarrow> unit res" where
  "ensure_unique_provider_type d tid ptype exclude_id =
     (case scalar_one_or_none
        (\<lambda>p. pc_tenant_id p = tid \<and> pc_provider_type p = ptype \<and>
             (case exclude_id of None \<Rightarrow> True | Some i \<Rightarrow> pc_id p \<noteq> i)) (provider_configs d) of
        Some _ \<Rightarrow> Inl provider_conflict
      | None \<Rightarrow> Inr ())"

definition is_provider_unique_violation :: "exn \<Rightarrow> bool" where
  "is_provider_unique_violation err =
     (let raw_message = py_lower (exn_text err)
      in py_contains uq_provider raw_message \<or>
         py_contains ''saas_provider_configs.tenant_id, saas_provider_configs.provider_type'' raw_message)"

text \<open>An integrity error of a flush or commit, as the two \<open>except\<close> clauses re-raise it.\<close>

definition provider_integrity :: "exn \<Rightarrow> exn" where
  "provider_integrity err = (if is_provider_unique_violation err then provider_conflict else err)"

definition provider_config_payload :: "provider_config \<Rightarrow> ((pystr \<times> json) list) res" where
  "provider_config_payload row =
     (case json_loads (pc_config_json row) of
        None \<Rightarrow> Inl (ProviderConfigError ''PROVIDER_CONFIG_ERROR'' ''config_json must be valid JSON'')
      | Some (JObj kvs) \<Rightarrow> Inr kvs
      | Some _ \<Rightarrow> Inl (ProviderConfigError ''PROVIDER_CONFIG_ERROR'' ''config_json must be a JSON object''))"

definition set_provider_config_payload :: "(pystr \<times> json) list \<Rightarrow> provider_config \<Rightarrow> provider_config" where
  "set_provider_config_payload payload row = row\<lparr>pc_config_json := json_dumps_sorted (JObj payload)\<rparr>"

definition clear_provider_oauth_state :: "(pystr \<times> json) list \<Rightarrow> (pystr \<times> json) list" where
  "clear_provider_oauth_state payload =
     dict_pop oauth_redirect_uri_key (dict_pop oauth_state_expires_at_key
       (dict_pop oauth_state_hash_key payload))"

definition provider_row_or_error :: "pystr \<Rightarrow> pystr \<Rightarrow> db \<Rightarrow> provider_config res" where
  "provider_row_or_error tid pid d =
     (case provider_row tid pid d of None \<Rightarrow> Inl provider_not_found | Some row \<Rightarrow> Inr row)"

definition state_hash :: "env \<Rightarrow> pystr \<Rightarrow> pystr" where
  "state_hash e state = sha256_hex e state"

definition seal_provider_token :: "env \<Rightarrow> pystr \<Rightarrow> pystr" where
  "seal_provider_token e raw_token = ''sha256:'' @ sha256_hex e raw_token"

definition validate_oauth_redirect_uri :: "env \<Rightarrow> service_config \<Rightarrow> pyobj \<Rightarrow> pystr res" where
  "validate_oauth_redirect_uri e cfg v =
     (case v of
        PJson (JStr s) \<Rightarrow>
          let normalized = py_strip s in
          res_bind (urlparse e normalized) (\<lambda>parsed.
            let host = py_lower (py_strip (url_hostname parsed));
                is_local_host = (host = ''localhost'' \<or> host = ''127.0.0.1'');
                allowed_hosts = map (\<lambda>h. py_lower (py_strip h))
                  (filter (\<lambda>h. py_strip h \<noteq> []) (provider_oauth_allowed_redirect_hosts cfg))
            in if host = [] \<or> url_netloc parsed = [] \<or> url_fragment parsed \<noteq> []
               then Inl (provider_validation ''redirect_uri must be an absolute http(s) URL'')
               else if \<not> (url_scheme parsed = ''https'' \<or>
                          (url_scheme parsed = ''http'' \<and>
                           provider_oauth_allow_insecure_local_redirect cfg \<and> is_local_host))
               then Inl (provider_validation
                 ''redirect_uri must use https (http is allowed only for localhost)'')
               else if allowed_hosts \<noteq> [] \<and> host \<notin> set allowed_hosts
               then Inl (provider_validation ''redirect_uri host is not allowed'')
               else Inr normalized)
      | _ \<Rightarrow> Inl (provider_validation ''redirect_uri must be a string''))"

definition provider_oauth_authorization_url ::
  "service_config \<Rightarrow> pystr \<Rightarrow> pystr \<Rightarrow> pystr \<Rightarrow> pystr res" where
  "provider_oauth_authorization_url cfg ptype redirect_uri state =
     (case map_of [(''gmail'', ''https://accounts.google.com/o/oauth2/v2/auth''),
                   (''outlook'', ''https://login.microsoftonline.com/common/oauth2/v2.0/authorize'')] ptype of
        None \<Rightarrow> Inl (provider_validation ''provider_type does not support oauth'')
      | Some base_url \<Rightarrow>
          let client_id = py_strip (case map_of (provider_oauth_client_ids cfg) ptype of
                 None \<Rightarrow> [] | Some c \<Rightarrow> c);
              oauth_scope = py_strip (case map_of (provider_oauth_scopes cfg) ptype of
                 None \<Rightarrow> [] | Some c \<Rightarrow> c)
          in if client_id = []
             then Inl (ProviderConfigError ''PROVIDER_OAUTH_CONFIG_ERROR''
                    (''oauth client_id is not configured for provider_type='' @ ptype))
             else if oauth_scope = []
             then Inl (ProviderConfigError ''PROVIDER_OAUTH_CONFIG_ERROR''
                    (''oauth scope is not configured for provider_type='' @ ptype))
             else Inr (base_url @ ''?'' @ urlencode
                    [(''response_type'', ''code''), (''client_id'', client_id),
                     (''redirect_uri'', redirect_uri), (''scope'', oauth_scope), (''state'', state)]))"


subsection \<open>Create, update, delete, list\<close>

definition list_provider_configs ::
  "pystr \<Rightarrow> int \<Rightarrow> int \<Rightarrow> 's world \<Rightarrow> (provider_config list \<times> int) res" where
  "list_provider_configs tid n k w =
     (if n < 1 then Inl (provider_validation ''limit must be >= 1'')
      else if k < 0 then Inl (provider_validation ''offset must be >= 0'')
      else Inr (repo_list pc_tenant_id tid (\<lambda>_. True) (order_desc pc_created_at pc_id) (Some n) (Some k)
                  (provider_configs (w_db w)),
                repo_count pc_tenant_id tid (\<lambda>_. True) (provider_configs (w_db w))))"

text \<open>
  Between the uniqueness check and the flush another transaction may commit; \<open>race\<close> is what
  it does to the database (the identity when there is none).
\<close>

definition create_provider_config ::
  "env \<Rightarrow> time \<Rightarrow> pystr \<Rightarrow> pyobj \<Rightarrow> pyobj \<Rightarrow> pyobj \<Rightarrow> pyobj option \<Rightarrow> pystr option
    \<Rightarrow> (db \<Rightarrow> db) \<Rightarrow> 's world \<Rightarrow> provider_config res \<times> 's world" where
  "create_provider_config e now tid ptype display_name status config actor race w =
     (case res_bind (normalize_provider_type ptype) (\<lambda>t.
           res_bind (normalize_provider_status status) (\<lambda>st.
           res_bind (config_to_json (case config of None \<Rightarrow> PJson (JObj []) | Some c \<Rightarrow> c) False) (\<lambda>cj.
           res_bind (str_or_none display_name ''display_name'') (\<lambda>dn.
           res_bind (ensure_unique_provider_type (w_db w) tid t None) (\<lambda>_. Inr (t, st, cj, dn)))))) of
        Inl err \<Rightarrow> (Inl err, w)
      | Inr (t, st, cj, dn) \<Rightarrow>
          let n = w_ctr w; w = w\<lparr>w_db := race (w_db w)\<rparr>; d = w_db w;
              row = \<lparr>pc_id = uuid4 e n, pc_tenant_id = tid, pc_provider_type = t, pc_display_name = dn,
                     pc_connection_status = st, pc_config_json = cj, pc_token_expires_at = None,
                     pc_last_successful_sync_at = None, pc_last_error_code = None,
                     pc_last_error_message = None, pc_oauth_access_token_enc = None,
                     pc_oauth_refresh_token_enc = None, pc_created_at = now, pc_updated_at = now\<rparr>;
              d1 = d\<lparr>provider_configs := provider_configs d @ [row]\<rparr>
          in (case db_violation d1 of
                Some c \<Rightarrow> (Inl (provider_integrity (IntegrityError c)), draw 1 w)
              | None \<Rightarrow>
                  (case commit_with
                     (add_audit e (n + 1) now tid ''provider.create'' actor
                        (JObj [(''provider_id'', JStr (pc_id row)), (''provider_type'', JStr t),
                               (''connection_status'', JStr st)]) d1) (Inr row) (draw 2 w) of
                     (Inl err, w') \<Rightarrow> (Inl (provider_integrity err), w')
                   | (Inr row, w') \<Rightarrow> (Inr row, w'))))"

type_synonym updates = "(pystr \<times> pyobj) list"

definition provider_update_fields :: "pystr list" where
  "provider_update_fields =
     [''provider_type'', ''display_name'', ''connection_status'', ''config'', ''token_expires_at'',
      ''last_successful_sync_at'', ''last_error_code'', ''last_error_message'']"

text \<open>\<open>if field in updates: ...\<close>\<close>

definition when_given ::
  "updates \<Rightarrow> pystr \<Rightarrow> (pyobj \<Rightarrow> provider_config \<Rightarrow> provider_config res) \<Rightarrow> provider_config \<Rightarrow> provider_config res" where
  "when_given ups field f row = (case map_of ups field of None \<Rightarrow> Inr row | Some v \<Rightarrow> f v row)"

definition set_provider_type ::
  "db \<Rightarrow> pystr \<Rightarrow> pystr \<Rightarrow> pyobj \<Rightarrow> provider_config \<Rightarrow> provider_config res" where
  "set_provider_type d tid pid v row =
     res_bind (normalize_provider_type v) (\<lambda>t.
     res_bind (if t \<noteq> pc_provider_type row then ensure_unique_provider_type d tid t (Some pid) else Inr ())
       (\<lambda>_. Inr (row\<lparr>pc_provider_type := t\<rparr>)))"

definition apply_provider_updates ::
  "db \<Rightarrow> pystr \<Rightarrow> pystr \<Rightarrow> updates \<Rightarrow> provider_config \<Rightarrow> provider_config res" where
  "apply_provider_updates d tid pid ups row =
     res_bind (when_given ups ''provider_type'' (set_provider_type d tid pid) row) (\<lambda>row.
     res_bind (when_given ups ''display_name'' (\<lambda>v row. res_bind (str_or_none v ''display_name'')
       (\<lambda>x. Inr (row\<lparr>pc_display_name := x\<rparr>))) row) (\<lambda>row.
     res_bind (when_given ups ''connection_status'' (\<lambda>v row. res_bind (normalize_provider_status v)
       (\<lambda>x. Inr (row\<lparr>pc_connection_status := x\<rparr>))) row) (\<lambda>row.
     res_bind (when_given ups ''config'' (\<lambda>v row. res_bind (config_to_json v True)
       (\<lambda>x. Inr (row\<lparr>pc_config_json := x\<rparr>))) row) (\<lambda>row.
     res_bind (when_given ups ''token_expires_at'' (\<lambda>v row. res_bind (nullable_datetime v ''token_expires_at'')
       (\<lambda>x. Inr (row\<lparr>pc_token_expires_at := x\<rparr>))) row) (\<lambda>row.
     res_bind (when_given ups ''last_successful_sync_at'' (\<lambda>v row. res_bind (nullable_datetime v ''last_successful_sync_at'')
       (\<lambda>x. Inr (row\<lparr>pc_last_successful_sync_at := x\<rparr>))) row) (\<lambda>row.
     res_bind (when_given ups ''last_error_code'' (\<lambda>v row. res_bind (str_or_none v ''last_error_code'')
       (\<lambda>x. Inr (row\<lparr>pc_last_error_code := x\<rparr>))) row) (\<lambda>row.
     when_given ups ''last_error_message'' (\<lambda>v row. res_bind (str_or_none v ''last_error_message'')
       (\<lambda>x. Inr (row\<lparr>pc_last_error_message := x\<rparr>))) row)))))))"

definition update_provider_config ::
  "env \<Rightarrow> time \<Rightarrow> pystr \<Rightarrow> pystr \<Rightarrow> updates \<Rightarrow> pystr option \<Rightarrow> 's world \<Rightarrow> provider_config res \<times> 's world" where
  "update_provider_config e now tid pid ups actor w =
     (if ups = [] then (Inl (provider_validation ''at least one field must be provided''), w)
      else let unknown_fields = sort (remdups (filter (\<lambda>f. f \<notin> set provider_update_fields) (map fst ups))) in
      if unknown_fields \<noteq> []
      then (Inl (provider_validation (''unknown provider fields: '' @ py_join '', '' unknown_fields)), w)
      else case provider_row tid pid (w_db w) of
        None \<Rightarrow> (Inl provider_not_found, w)
      | Some row \<Rightarrow>
          (case apply_provider_updates (w_db w) tid pid ups row of
             Inl err \<Rightarrow> (Inl err, w)
           | Inr row' \<Rightarrow>
               let row' = row'\<lparr>pc_updated_at := now\<rparr> in
               (case commit_with
                  (add_audit e (w_ctr w) now tid ''provider.update'' actor
                     (JObj [(''provider_id'', JStr (pc_id row')), (''provider_type'', JStr (pc_provider_type row')),
                            (''updated_fields'', json_strs (sort (map fst ups)))])
                     (put_provider row' (w_db w))) (Inr row') (draw 1 w) of
                  (Inl err, w') \<Rightarrow> (Inl (provider_integrity err), w')
                | (Inr r, w') \<Rightarrow> (Inr r, w'))))"

definition delete_provider_config ::
  "env \<Rightarrow> time \<Rightarrow> pystr \<Rightarrow> pystr \<Rightarrow> pystr option \<Rightarrow> 's world \<Rightarrow> unit res \<times> 's world" where
  "delete_provider_config e now tid pid actor w =
     (case provider_row tid pid (w_db w) of
        None \<Rightarrow> (Inl provider_not_found, w)
      | Some row \<Rightarrow>
          let d = w_db w;
              d1 = d\<lparr>provider_configs :=
                       del_where (\<lambda>p. pc_tenant_id p = tid \<and> pc_id p = pid) (provider_configs d)\<rparr>
          in commit_with
               (add_audit e (w_ctr w) now tid ''provider.delete'' actor
                  (JObj [(''provider_id'', JStr pid), (''provider_type'', JStr (pc_provider_type row))]) d1)
               (Inr ()) (draw 1 w))"



subsection \<open>The OAuth life cycle\<close>

record oauth_start_result =
  os_provider :: provider_config
  os_authorization_url :: pystr
  os_state :: pystr
  os_state_expires_at :: time

definition truthy_str :: "pystr option \<Rightarrow> bool" where
  "truthy_str v = (v \<noteq> None \<and> v \<noteq> Some [])"

text \<open>An event of the row's tenant about the row, with further members after the common ones.\<close>

definition provider_event ::
  "env \<Rightarrow> nat \<Rightarrow> time \<Rightarrow> pystr \<Rightarrow> pystr \<Rightarrow> pystr option \<Rightarrow> pystr option \<Rightarrow> provider_config
    \<Rightarrow> (pystr \<times> json) list \<Rightarrow> db \<Rightarrow> db" where
  "provider_event e n now tid event_type actor request_id row extra d =
     add_audit e n now tid event_type actor
       (JObj ([(''provider_id'', JStr (pc_id row)), (''provider_type'', JStr (pc_provider_type row)),
               (''request_id'', json_opt_str request_id)] @ extra)) d"

definition start_provider_oauth ::
  "env \<Rightarrow> service_config \<Rightarrow> time \<Rightarrow> pystr \<Rightarrow> pystr \<Rightarrow> pyobj \<Rightarrow> pystr option \<Rightarrow> pystr option
    \<Rightarrow> 's world \<Rightarrow> oauth_start_result res \<times> 's world" where
  "start_provider_oauth e cfg now tid pid redirect_uri actor request_id w =
     (case validate_oauth_redirect_uri e cfg redirect_uri of
        Inl err \<Rightarrow> (Inl err, w)
      | Inr uri \<Rightarrow>
          let n = w_ctr w; state = token_urlsafe e n 24;
              expires = now + seconds oauth_state_ttl_seconds; d = w_db w
          in (case res_bind (provider_row_or_error tid pid d)
                     (\<lambda>row. res_bind (provider_config_payload row) (\<lambda>payload. Inr (row, payload))) of
                Inl err \<Rightarrow> (Inl err, draw 1 w)
              | Inr (row, payload) \<Rightarrow>
                  let payload = dict_set oauth_state_hash_key (JStr (state_hash e state)) payload;
                      payload = dict_set oauth_state_expires_at_key (JStr (datetime_isoformat expires)) payload;
                      payload = dict_set oauth_redirect_uri_key (JStr uri) payload;
                      row = (set_provider_config_payload payload row)\<lparr>pc_updated_at := now\<rparr>
                  in commit_with
                       (provider_event e (n + 1) now tid ''provider.oauth.start'' actor request_id row
                          [(''state_expires_at'', JStr (datetime_isoformat expires))] (put_provider row d))
                       (res_bind (provider_oauth_authorization_url cfg (pc_provider_type row) uri state)
                          (\<lambda>url. Inr \<lparr>os_provider = row, os_authorization_url = url, os_state = state,
                                      os_state_expires_at = expires\<rparr>))
                       (draw 2 w)))"

definition oauth_state_invalid :: exn where
  "oauth_state_invalid =
     ProviderConfigError ''PROVIDER_OAUTH_STATE_INVALID'' ''oauth state is missing or invalid''"

text \<open>The pending state of a payload: the expected hash and the expiry, when both are usable.\<close>

definition pending_oauth_state :: "(pystr \<times> json) list \<Rightarrow> (pystr \<times> time) option" where
  "pending_oauth_state payload =
     (case (map_of payload oauth_state_hash_key, map_of payload oauth_state_expires_at_key) of
        (Some (JStr expected_hash), Some (JStr raw)) \<Rightarrow>
          map_option (\<lambda>t. (expected_hash, t)) (fromisoformat_utc raw)
      | _ \<Rightarrow> None)"

text \<open>The row after new tokens have been sealed into it.\<close>

definition with_fresh_tokens :: "env \<Rightarrow> nat \<Rightarrow> time \<Rightarrow> provider_config \<Rightarrow> provider_config" where
  "with_fresh_tokens e n now row =
     row\<lparr>pc_oauth_access_token_enc := Some (seal_provider_token e
           (pc_provider_type row @ '':access:'' @ token_urlsafe e n 32)),
         pc_oauth_refresh_token_enc := Some (seal_provider_token e
           (pc_provider_type row @ '':refresh:'' @ token_urlsafe e (n + 1) 40)),
         pc_connection_status := ''connected'',
         pc_token_expires_at := Some (now + seconds provider_access_token_ttl_seconds),
         pc_last_successful_sync_at := Some now, pc_last_error_code := None,
         pc_last_error_message := None, pc_updated_at := now\<rparr>"

definition complete_provider_oauth_callback ::
  "env \<Rightarrow> time \<Rightarrow> pystr \<Rightarrow> pystr \<Rightarrow> pystr \<Rightarrow> pystr \<Rightarrow> pystr option \<Rightarrow> pystr option
    \<Rightarrow> 's world \<Rightarrow> provider_config res \<times> 's world" where
  "complete_provider_oauth_callback e now tid pid state oauth_code actor request_id w =
     (let n = w_ctr w; d = w_db w; normalized_state = py_strip state in
      if normalized_state = [] then (Inl (provider_validation ''state is required''), w)
      else if py_strip oauth_code = [] then (Inl (provider_validation ''code is required''), w)
      else case res_bind (provider_row_or_error tid pid d)
                  (\<lambda>row. res_bind (provider_config_payload row) (\<lambda>payload. Inr (row, payload))) of
        Inl err \<Rightarrow> (Inl err, w)
      | Inr (row, payload) \<Rightarrow>
          (case pending_oauth_state payload of
             None \<Rightarrow> (Inl oauth_state_invalid, w)
           | Some (expected_hash, expires_at) \<Rightarrow>
               if expires_at \<le> now then
                 let row = (set_provider_config_payload (clear_provider_oauth_state payload) row)
                       \<lparr>pc_connection_status := ''error'',
                        pc_last_error_code := Some ''OAUTH_STATE_EXPIRED'',
                        pc_last_error_message := Some ''OAuth state has expired. Restart provider connect.'',
                        pc_updated_at := now\<rparr>
                 in commit_with
                      (provider_event e n now tid ''provider.oauth.callback.failed'' actor request_id row
                         [(''reason'', JStr ''state_expired'')] (put_provider row d))
                      (Inl (ProviderConfigError ''PROVIDER_OAUTH_STATE_EXPIRED'' ''oauth state has expired''))
                      (draw 1 w)
               else if \<not> is_ascii expected_hash then
                 (Inl (TypeError ''comparing strings with non-ASCII characters is not supported''), w)
               else if expected_hash \<noteq> state_hash e normalized_state then
                 commit_with
                   (provider_event e n now tid ''provider.oauth.callback.failed'' actor request_id row
                      [(''reason'', JStr ''state_invalid'')] d)
                   (Inl oauth_state_invalid) (draw 1 w)
               else
                 let row = with_fresh_tokens e n now
                       (set_provider_config_payload (clear_provider_oauth_state payload) row)
                 in commit_with
                      (provider_event e (n + 2) now tid ''provider.oauth.callback.succeeded'' actor request_id
                         row [] (put_provider row d))
                      (Inr row) (draw 3 w)))"

definition refresh_provider_oauth ::
  "env \<Rightarrow> time \<Rightarrow> pystr \<Rightarrow> pystr \<Rightarrow> pystr option \<Rightarrow> pystr option
    \<Rightarrow> 's world \<Rightarrow> provider_config res \<times> 's world" where
  "refresh_provider_oauth e now tid pid actor request_id w =
     (let n = w_ctr w; d = w_db w in
      case provider_row_or_error tid pid d of
        Inl err \<Rightarrow> (Inl err, w)
      | Inr row \<Rightarrow>
          if \<not> truthy_str (pc_oauth_refresh_token_enc row) then
            commit_with
              (provider_event e n now tid ''provider.oauth.refresh.failed'' actor request_id row
                 [(''reason'', JStr ''not_connected'')] d)
              (Inl (ProviderConfigError ''PROVIDER_OAUTH_NOT_CONNECTED'' ''provider is not connected''))
              (draw 1 w)
          else
            let row = with_fresh_tokens e n now row
            in commit_with
                 (provider_event e (n + 2) now tid ''provider.oauth.refresh.succeeded'' actor request_id
                    row [] (put_provider row d))
                 (Inr row) (draw 3 w))"

definition revoke_provider_oauth ::
  "env \<Rightarrow> time \<Rightarrow> pystr \<Rightarrow> pystr \<Rightarrow> pystr option \<Rightarrow> pystr option
    \<Rightarrow> 's world \<Rightarrow> provider_config res \<times> 's world" where
  "revoke_provider_oauth e now tid pid actor request_id w =
     (let n = w_ctr w; d = w_db w in
      case res_bind (provider_row_or_error tid pid d)
             (\<lambda>row. res_bind (provider_config_payload row) (\<lambda>payload. Inr (row, payload))) of
        Inl err \<Rightarrow> (Inl err, w)
      | Inr (row, payload) \<Rightarrow>
          let had_tokens = (truthy_str (pc_oauth_access_token_enc row) \<or> truthy_str (pc_oauth_refresh_token_enc row));
              row = (set_provider_config_payload (clear_provider_oauth_state payload) row)
                \<lparr>pc_oauth_access_token_enc := None, pc_oauth_refresh_token_enc := None,
                 pc_connection_status := ''disconnected'', pc_token_expires_at := None,
                 pc_last_error_code := None, pc_last_error_message := None, pc_updated_at := now\<rparr>
          in commit_with
               (provider_event e n now tid ''provider.oauth.revoke.succeeded'' actor request_id row
                  [(''had_tokens'', JBool had_tokens)] (put_provider row d))
               (Inr row) (draw 1 w))"

record connection_test_result =
  ct_provider :: provider_config
  ct_status :: pystr
  ct_message :: pystr
  ct_tested_at :: time

definition test_provider_connection ::
  "env \<Rightarrow> time \<Rightarrow> pystr \<Rightarrow> pystr \<Rightarrow> pystr option \<Rightarrow> pystr option
    \<Rightarrow> 's world \<Rightarrow> connection_test_result res \<times> 's world" where
  "test_provider_connection e now tid pid actor request_id w =
     (let n = w_ctr w; d = w_db w in
      case provider_row_or_error tid pid d of
        Inl err \<Rightarrow> (Inl err, w)
      | Inr row \<Rightarrow>
          let is_disconnected = (pc_connection_status row = ''disconnected'');
              is_missing_token = (\<not> truthy_str (pc_oauth_access_token_enc row));
              is_token_expired = (case pc_token_expires_at row of None \<Rightarrow> False | Some t \<Rightarrow> t \<le> now)
          in if is_disconnected \<or> is_missing_token \<or> is_token_expired then
               let (message, reason, status) =
                     (if is_disconnected
                      then (''provider is not connected'', ''not_connected'', pc_connection_status row)
                      else if is_token_expired
                      then (''provider access token has expired'', ''token_expired'', ''error'')
                      else (''provider credentials are missing; reconnect provider'',
                            ''missing_access_token'', ''error''));
                   row = row\<lparr>pc_connection_status := status,
                     pc_last_error_code := Some ''PROVIDER_TEST_CONNECTION_FAILED'',
                     pc_last_error_message := Some message, pc_updated_at := now\<rparr>
               in commit_with
                    (provider_event e n now tid ''provider.test_connection.failed'' actor request_id row
                       [(''reason'', JStr reason), (''tested_at'', JStr (datetime_isoformat now))]
                       (put_provider row d))
                    (Inr \<lparr>ct_provider = row, ct_status = ''failure'', ct_message = message, ct_tested_at = now\<rparr>)
                    (draw 1 w)
             else
               let row = row\<lparr>pc_connection_status := ''connected'', pc_last_successful_sync_at := Some now,
                     pc_last_error_code := None, pc_last_error_message := None, pc_updated_at := now\<rparr>
               in commit_with
                    (provider_event e n now tid ''provider.test_connection.succeeded'' actor request_id row
                       [(''tested_at'', JStr (datetime_isoformat now))] (put_provider row d))
                    (Inr \<lparr>ct_provider = row, ct_status = ''success'',
                          ct_message = ''provider connection verified'', ct_tested_at = now\<rparr>)
                    (draw 1 w))"

subsection \<open>The payload inside a row\<close>

lemma wf_dict_set:
  assumes "json_wf (JObj p)" and "json_wf v"
  shows "json_wf (JObj (dict_set k v p))"
proof -
  have "list_all (\<lambda>kv. json_wf (snd kv)) p \<Longrightarrow> list_all (\<lambda>kv. json_wf (snd kv)) (dict_set k v p)"
    using assms(2) by (induction p) auto
  with assms(1) show ?thesis by simp
qed

lemma wf_dict_pop: "json_wf (JObj p) \<Longrightarrow> json_wf (JObj (dict_pop k p))"
  by (simp add: list_all_iff) (auto simp: dict_pop_def)

lemma wf_cleared: "json_wf (JObj p) \<Longrightarrow> json_wf (JObj (clear_provider_oauth_state p))"
  unfolding clear_provider_oauth_state_def by (intro wf_dict_pop)

lemma stored_payload:
  assumes "json_wf (JObj p)"
  obtains p' where "\<And>row. provider_config_payload (set_provider_config_payload p row) = Inr p'"
    "json_wf (JObj p')" "\<And>k. map_of p' k = map_option json_sort (map_of p k)"
proof -
  obtain p' where p': "json_sort (JObj p) = JObj p'" by simp
  have "json_wf (JObj p')" using json_wf_sort [OF assms] unfolding p' .
  moreover have "map_of p' k = map_option json_sort (map_of p k)" for k
    using assms map_of_json_sort [OF _ p', of k] by simp
  moreover have "provider_config_payload (set_provider_config_payload p row) = Inr p'" for row
    using json_loads_dumps_sorted [OF assms] p' by (simp add: provider_config_payload_def set_provider_config_payload_def)
  ultimately show thesis by (rule that [rotated])
qed

lemma payload_config: "pc_config_json r = pc_config_json r' \<Longrightarrow> provider_config_payload r = provider_config_payload r'"
  by (simp add: provider_config_payload_def)

lemma pending_cleared: "map_of p oauth_state_hash_key = None \<Longrightarrow> pending_oauth_state p = None"
  by (simp add: pending_oauth_state_def)

lemma oauth_keys_distinct [simp]:
  "oauth_state_hash_key \<noteq> oauth_state_expires_at_key" "oauth_state_hash_key \<noteq> oauth_redirect_uri_key"
  "oauth_state_expires_at_key \<noteq> oauth_redirect_uri_key" "oauth_redirect_uri_key \<noteq> oauth_state_expires_at_key"
  "oauth_state_expires_at_key \<noteq> oauth_state_hash_key" "oauth_redirect_uri_key \<noteq> oauth_state_hash_key"
  by (simp_all add: oauth_key_defs)

lemma provider_row_put:
  assumes "provider_row tid pid d = Some row" and "pc_tenant_id row' = tid" and "pc_id row' = pid"
  shows "provider_row tid pid (put_provider row' d) = Some row'"
proof -
  have "scalar_one_or_none (\<lambda>p. pc_tenant_id p = tid \<and> pc_id p = pid)
      (upd_where (\<lambda>p. pc_tenant_id p = tid \<and> pc_id p = pid) (\<lambda>_. row') (provider_configs d)) =
    map_option (\<lambda>r. if pc_tenant_id r = tid \<and> pc_id r = pid then row' else r) (provider_row tid pid d)"
    unfolding provider_row_def by (rule scalar_upd_where) (use assms(2,3) in simp)
  with assms show ?thesis
    by (auto simp: provider_row_def put_provider_def dest: scalar_SomeD)
qed

lemma provider_row_event [simp]: "provider_row tid pid (provider_event e n now t ty a rq row x d) = provider_row tid pid d"
  by (simp add: provider_row_def provider_event_def)

lemma provider_rowD: "provider_row tid pid d = Some row \<Longrightarrow> pc_tenant_id row = tid \<and> pc_id row = pid"
  by (auto simp: provider_row_def dest: scalar_SomeD)

lemma state_hash_ascii: "is_ascii (state_hash e s)"
proof -
  have "code c < 256" for c by simp
  then have "is_ascii [hex_digit (code c div 16), hex_digit (code c mod 16)]" for c
    using less_mult_imp_div_less [of "code c" 16 16]
    by (auto simp: hex_digit_def)
  then show ?thesis
    by (auto simp: state_hash_def sha256_hex_def hexdigest_def is_ascii_def list_all_iff)
qed

subsection \<open>What the OAuth life cycle promises\<close>

text \<open>A callback is answered from the pending state of the row; the cases of the answer.\<close>

lemma callback_cases:
  assumes "provider_row tid pid (w_db w) = Some row" and "provider_config_payload row = Inr payload"
    and "py_strip state \<noteq> []" and "py_strip oauth_code \<noteq> []"
  shows "complete_provider_oauth_callback e now tid pid state oauth_code actor rid w =
    (case pending_oauth_state payload of
       None \<Rightarrow> (Inl oauth_state_invalid, w)
     | Some (expected_hash, expires_at) \<Rightarrow>
         if expires_at \<le> now then
           let row = (set_provider_config_payload (clear_provider_oauth_state payload) row)
                 \<lparr>pc_connection_status := ''error'', pc_last_error_code := Some ''OAUTH_STATE_EXPIRED'',
                  pc_last_error_message := Some ''OAuth state has expired. Restart provider connect.'',
                  pc_updated_at := now\<rparr>
           in commit_with
                (provider_event e (w_ctr w) now tid ''provider.oauth.callback.failed'' actor rid row
                   [(''reason'', JStr ''state_expired'')] (put_provider row (w_db w)))
                (Inl (ProviderConfigError ''PROVIDER_OAUTH_STATE_EXPIRED'' ''oauth state has expired''))
                (draw 1 w)
         else if \<not> is_ascii expected_hash then
           (Inl (TypeError ''comparing strings with non-ASCII characters is not supported''), w)
         else if expected_hash \<noteq> state_hash e (py_strip state) then
           commit_with
             (provider_event e (w_ctr w) now tid ''provider.oauth.callback.failed'' actor rid row
                [(''reason'', JStr ''state_invalid'')] (w_db w))
             (Inl oauth_state_invalid) (draw 1 w)
         else
           let row = with_fresh_tokens e (w_ctr w) now
                 (set_provider_config_payload (clear_provider_oauth_state payload) row)
           in commit_with
                (provider_event e (w_ctr w + 2) now tid ''provider.oauth.callback.succeeded'' actor rid
                   row [] (put_provider row (w_db w)))
                (Inr row) (draw 3 w))"
  using assms by (simp add: complete_provider_oauth_callback_def provider_row_or_error_def Let_def)

lemma callback_no_state:
  assumes "provider_row tid pid (w_db w) = Some row" and "provider_config_payload row = Inr payload"
    and "pending_oauth_state payload = None"
  shows "\<exists>err. complete_provider_oauth_callback e now tid pid state oauth_code actor rid w = (Inl err, w)"
  using assms by (simp add: complete_provider_oauth_callback_def provider_row_or_error_def Let_def)

lemma Inr_bind_iff: "Inr y = res_bind r f \<longleftrightarrow> (\<exists>x. r = Inr x \<and> f x = Inr y)"
  using res_bind_Inr [of r f y] by metis

lemma callback_start:
  assumes "complete_provider_oauth_callback e now tid pid state oauth_code actor rid w = (res, w')"
    and "w' \<noteq> w \<or> (\<exists>r. res = Inr r)"
  obtains row payload where "provider_row tid pid (w_db w) = Some row" "provider_config_payload row = Inr payload"
    "py_strip state \<noteq> []" "py_strip oauth_code \<noteq> []"
proof -
  have ne: "py_strip state \<noteq> [] \<and> py_strip oauth_code \<noteq> []"
    using assms by (auto simp: complete_provider_oauth_callback_def Let_def split: if_splits)
  then obtain rp where "res_bind (provider_row_or_error tid pid (w_db w))
      (\<lambda>row. res_bind (provider_config_payload row) (\<lambda>payload. Inr (row, payload))) = Inr rp"
    using assms by (auto simp: complete_provider_oauth_callback_def Let_def split: sum.splits)
  with ne that show thesis by (auto simp: res_bind_Inr provider_row_or_error_def split: option.splits)
qed

lemma provider_configs_event [simp]: "provider_configs (provider_event e n now t ty a rq row x d) = provider_configs d"
  by (simp add: provider_event_def)

lemma map_put_provider:
  assumes "db_ok d" and "provider_row tid pid d = Some row" and "f row' = f row"
    and "pc_id row' = pid" and "pc_tenant_id row' = tid"
  shows "map f (provider_configs (put_provider row' d)) = map f (provider_configs d)"
proof -
  have row: "row \<in> set (provider_configs d)" "pc_id row = pid"
    using assms(2) by (auto simp: provider_row_def dest: scalar_SomeD)
  then have "x \<in> set (provider_configs d) \<Longrightarrow> pc_id x = pid \<Longrightarrow> x = row" for x
    using unique_inj [of pc_id "provider_configs d" x row] assms(1) by (simp add: db_ok_unfold)
  with assms(3-5) show ?thesis by (auto simp: put_provider_def upd_where_def)
qed

definition stored_tokens :: "db \<Rightarrow> (pystr \<times> pystr option \<times> pystr option) list" where
  "stored_tokens d =
     map (\<lambda>p. (pc_id p, pc_oauth_access_token_enc p, pc_oauth_refresh_token_enc p)) (provider_configs d)"

text \<open>
  C10: A callback that connects a provider presented the one pending state of that provider
  before its expiry: the row's payload held the hash of the presented state and an expiry
  that had not passed. A callback that fails leaves the stored tokens of every provider as
  they were.
\<close>

theorem oauth_callback_sound:
  assumes "db_ok (w_db w)" and "complete_provider_oauth_callback e now tid pid state oauth_code actor rid w = (res, w')"
  shows "case res of
     Inr row' \<Rightarrow>
       (\<exists>row payload expires_at. provider_row tid pid (w_db w) = Some row \<and>
          provider_config_payload row = Inr payload \<and>
          pending_oauth_state payload = Some (state_hash e (py_strip state), expires_at) \<and> now < expires_at \<and>
          pc_connection_status row' = ''connected'' \<and> provider_row tid pid (w_db w') = Some row')
   | Inl err \<Rightarrow> stored_tokens (w_db w') = stored_tokens (w_db w)"
proof (cases "w' = w \<and> isl res")
  case True
  then show ?thesis by (auto split: sum.splits)
next
  case False
  then have "w' \<noteq> w \<or> (\<exists>r. res = Inr r)" by (cases res) auto
  then obtain row payload where row: "provider_row tid pid (w_db w) = Some row" and pl: "provider_config_payload row = Inr payload"
    and ne: "py_strip state \<noteq> []" "py_strip oauth_code \<noteq> []"
    by (rule callback_start [OF assms(2)])
  note id = provider_rowD [OF row]
  note cases = assms(2) [unfolded callback_cases [OF row pl ne]]
  obtain expected expires_at where pend: "pending_oauth_state payload = Some (expected, expires_at)"
    using cases False by (cases "pending_oauth_state payload") auto
  show ?thesis
  proof (cases res)
    case (Inl err)
    have "stored_tokens (put_provider r (w_db w)) = stored_tokens (w_db w)"
      if "pc_id r = pid" "pc_tenant_id r = tid" "pc_oauth_access_token_enc r = pc_oauth_access_token_enc row"
        "pc_oauth_refresh_token_enc r = pc_oauth_refresh_token_enc row" for r
      unfolding stored_tokens_def by (rule map_put_provider [OF assms(1) row]) (use that id in auto)
    then show ?thesis
      using cases pend id Inl
      by (auto simp: Let_def stored_tokens_def set_provider_config_payload_def split: if_splits dest!: commit_cases)
  next
    case (Inr row')
    have "pc_id row' = pid \<and> pc_tenant_id row' = tid \<and> pc_connection_status row' = ''connected'' \<and> now < expires_at \<and>
        expected = state_hash e (py_strip state) \<and> provider_row tid pid (w_db w') = Some row'"
      using cases pend id Inr provider_row_put [OF row]
      by (auto simp: Let_def with_fresh_tokens_def set_provider_config_payload_def split: if_splits dest!: commit_cases)
    with row pl pend Inr show ?thesis by auto
  qed
qed

text \<open>
  C9: The OAuth state is single use: after a start, a callback with the state it handed out,
  before the expiry, connects the provider with fresh tokens (unless a constraint stops the
  commit), and from then on every callback, with any state and code at any time, is refused
  and changes nothing.
\<close>

theorem oauth_state_single_use:
  assumes row: "provider_row tid pid (w_db w) = Some row" "provider_config_payload row = Inr payload" "json_wf (JObj payload)"
    and start: "start_provider_oauth e cfg now tid pid uri actor rid w = (Inr r, w1)"
    and expiry: "valid_date (date_of_time (now + seconds oauth_state_ttl_seconds))"
      "now1 < now + seconds oauth_state_ttl_seconds"
    and state: "py_strip (os_state r) = os_state r" "os_state r \<noteq> []" "py_strip oauth_code \<noteq> []"
    and callback: "complete_provider_oauth_callback e now1 tid pid (os_state r) oauth_code actor1 rid1 w1 = (res, w2)"
      "\<And>c. res \<noteq> Inl (IntegrityError c)"
  shows "(\<exists>row2. res = Inr row2 \<and> provider_row tid pid (w_db w2) = Some row2 \<and>
      pc_connection_status row2 = ''connected'' \<and> truthy_str (pc_oauth_access_token_enc row2) \<and>
      truthy_str (pc_oauth_refresh_token_enc row2) \<and>
      pc_token_expires_at row2 = Some (now1 + seconds provider_access_token_ttl_seconds)) \<and>
    (\<forall>now3 state3 code3 actor3 rid3. \<exists>err.
      complete_provider_oauth_callback e now3 tid pid state3 code3 actor3 rid3 w2 = (Inl err, w2))"
proof -
  let ?exp = "now + seconds oauth_state_ttl_seconds"
  note id = provider_rowD [OF row(1)]
  obtain u where uri: "validate_oauth_redirect_uri e cfg uri = Inr u"
    using start by (auto simp: start_provider_oauth_def Let_def split: sum.splits)
  let ?p1 = "dict_set oauth_redirect_uri_key (JStr u) (dict_set oauth_state_expires_at_key (JStr (datetime_isoformat ?exp))
      (dict_set oauth_state_hash_key (JStr (state_hash e (os_state r))) payload))"
  let ?row1 = "(set_provider_config_payload ?p1 row)\<lparr>pc_updated_at := now\<rparr>"
  have w1: "\<exists>n ty x. w_db w1 = provider_event e n now tid ty actor rid ?row1 x (put_provider ?row1 (w_db w))"
    using start row(1,2)
    by (auto simp: start_provider_oauth_def Let_def uri provider_row_or_error_def Inr_bind_iff
        split: if_splits dest!: commit_cases) (intro exI, rule refl)
  then have row1: "provider_row tid pid (w_db w1) = Some ?row1"
    using provider_row_put [OF row(1), of ?row1] id by (auto simp: set_provider_config_payload_def)
  have wf1: "json_wf (JObj ?p1)" by (intro wf_dict_set row(3)) simp_all
  obtain q1 where q1: "provider_config_payload (set_provider_config_payload ?p1 row) = Inr q1" "json_wf (JObj q1)"
    "\<And>k. map_of q1 k = map_option json_sort (map_of ?p1 k)"
    by (rule stored_payload [OF wf1]) blast
  have pl1: "provider_config_payload ?row1 = Inr q1"
    using q1(1) payload_config [of ?row1 "set_provider_config_payload ?p1 row"] by simp
  have pend: "pending_oauth_state q1 = Some (state_hash e (os_state r), ?exp)"
    by (simp add: pending_oauth_state_def q1(3) fromisoformat_isoformat [OF expiry(1)])
  let ?row2 = "with_fresh_tokens e (w_ctr w1) now1
      (set_provider_config_payload (clear_provider_oauth_state q1) ?row1)"
  have "complete_provider_oauth_callback e now1 tid pid (os_state r) oauth_code actor1 rid1 w1 =
      commit_with (provider_event e (w_ctr w1 + 2) now1 tid ''provider.oauth.callback.succeeded'' actor1 rid1
        ?row2 [] (put_provider ?row2 (w_db w1))) (Inr ?row2) (draw 3 w1)"
    using callback_cases [OF row1 pl1] state expiry(2) by (simp add: pend state_hash_ascii Let_def)
  note committed = commit_cases [OF trans [OF this [symmetric] callback(1)]]
  have res: "res = Inr ?row2"
    and w2: "w_db w2 = provider_event e (w_ctr w1 + 2) now1 tid ''provider.oauth.callback.succeeded'' actor1 rid1
        ?row2 [] (put_provider ?row2 (w_db w1))"
    using committed callback(2) by auto
  have row2: "provider_row tid pid (w_db w2) = Some ?row2"
    unfolding w2 using provider_row_put [OF row1, of ?row2] id by (simp add: with_fresh_tokens_def set_provider_config_payload_def)
  obtain q2 where q2: "\<And>row. provider_config_payload (set_provider_config_payload (clear_provider_oauth_state q1) row) = Inr q2"
    "\<And>k. map_of q2 k = map_option json_sort (map_of (clear_provider_oauth_state q1) k)"
    using stored_payload [OF wf_cleared [OF q1(2)]] by metis
  have pl2: "provider_config_payload ?row2 = Inr q2"
    using q2(1) [of ?row1] payload_config [of ?row2 "set_provider_config_payload (clear_provider_oauth_state q1) ?row1"]
    by (simp add: with_fresh_tokens_def)
  have "pending_oauth_state q2 = None"
    by (rule pending_cleared) (simp add: q2(2) clear_provider_oauth_state_def)
  from callback_no_state [OF row2 pl2 this] res row2 show ?thesis
    by (auto simp: with_fresh_tokens_def truthy_str_def seal_provider_token_def)
qed

text \<open>
  A connection test reports success exactly when the row is not disconnected, holds an
  access token and that token has not expired; its verdict is recorded in the row, and a
  success leaves no error behind.
\<close>

theorem connection_test_verdict:
  assumes "test_provider_connection e now tid pid actor rid w = (Inr v, w')"
  shows "\<exists>row. provider_row tid pid (w_db w) = Some row \<and> provider_row tid pid (w_db w') = Some (ct_provider v) \<and>
    (ct_status v = ''success'' \<longleftrightarrow> pc_connection_status row \<noteq> ''disconnected'' \<and>
       truthy_str (pc_oauth_access_token_enc row) \<and>
       (case pc_token_expires_at row of None \<Rightarrow> True | Some t \<Rightarrow> now < t)) \<and>
    (ct_status v = ''success'' \<longrightarrow> pc_connection_status (ct_provider v) = ''connected'' \<and>
       pc_last_error_code (ct_provider v) = None \<and> pc_last_successful_sync_at (ct_provider v) = Some now) \<and>
    (ct_status v \<noteq> ''success'' \<longrightarrow> pc_connection_status (ct_provider v) \<noteq> ''connected'' \<and>
       pc_last_error_code (ct_provider v) = Some ''PROVIDER_TEST_CONNECTION_FAILED'')"
proof -
  obtain row where row: "provider_row tid pid (w_db w) = Some row"
    using assms by (auto simp: test_provider_connection_def Let_def provider_row_or_error_def split: option.splits)
  note id = provider_rowD [OF row]
  have put: "pc_tenant_id r = tid \<Longrightarrow> pc_id r = pid \<Longrightarrow> provider_row tid pid (put_provider r (w_db w)) = Some r" for r
    by (rule provider_row_put [OF row])
  show ?thesis
    using assms row id put
    by (auto simp: test_provider_connection_def Let_def provider_row_or_error_def
        split: if_splits option.splits dest!: commit_cases)
qed

text \<open>
  Two requests that create the same provider for a tenant cannot both succeed: when
  another transaction inserts the pair between the check and the flush, the request gets
  \<open>PROVIDER_CONFLICT\<close> and the database keeps what the other transaction made of it.
\<close>

theorem create_provider_race_conflict:
  assumes "normalize_provider_type ptype = Inr t" and "normalize_provider_status status = Inr st"
    and "config_to_json (case config of None \<Rightarrow> PJson (JObj []) | Some c \<Rightarrow> c) False = Inr cj"
    and "str_or_none display_name ''display_name'' = Inr dn"
    and "ensure_unique_provider_type (w_db w) tid t None = Inr ()"
    and "db_ok (race (w_db w))" and "other \<in> set (provider_configs (race (w_db w)))"
    and "pc_tenant_id other = tid" "pc_provider_type other = t"
    and "uuid4 e (w_ctr w) \<notin> pc_id ` set (provider_configs (race (w_db w)))"
  shows "create_provider_config e now tid ptype display_name status config actor race w =
    (Inl provider_conflict, draw 1 (w\<lparr>w_db := race (w_db w)\<rparr>))"
proof -
  let ?row = "\<lparr>pc_id = uuid4 e (w_ctr w), pc_tenant_id = tid, pc_provider_type = t, pc_display_name = dn,
      pc_connection_status = st, pc_config_json = cj, pc_token_expires_at = None,
      pc_last_successful_sync_at = None, pc_last_error_code = None,
      pc_last_error_message = None, pc_oauth_access_token_enc = None,
      pc_oauth_refresh_token_enc = None, pc_created_at = now, pc_updated_at = now\<rparr>"
  let ?d = "race (w_db w)"
  let ?d1 = "?d\<lparr>provider_configs := provider_configs ?d @ [?row]\<rparr>"
  have "\<not> unique pc_type_key (provider_configs ?d @ [?row])"
    using assms(7-9) by (auto simp: unique_snoc pc_type_key_def)
  moreover have "unique pc_id (provider_configs ?d @ [?row])"
    using assms(6,10) by (fastforce simp: unique_snoc db_ok_unfold image_iff)
  ultimately have "db_violation ?d1 = Some uq_provider"
    using assms(6) unfolding db_violation_def db_constraints_def db_ok_unfold by simp
  moreover have "provider_integrity (IntegrityError uq_provider) = provider_conflict"
    by (simp add: provider_integrity_def) code_simp
  ultimately show ?thesis
    using assms(1-5) by (simp add: create_provider_config_def Let_def)
qed

subsection \<open>A concrete connection\<close>

definition demo_provider :: provider_config where
  "demo_provider =
     \<lparr>pc_id = ''p'', pc_tenant_id = ''t'', pc_provider_type = ''gmail'', pc_display_name = None,
      pc_connection_status = ''disconnected'', pc_config_json = ''{}'', pc_token_expires_at = None,
      pc_last_successful_sync_at = None, pc_last_error_code = None, pc_last_error_message = None,
      pc_oauth_access_token_enc = None, pc_oauth_refresh_token_enc = None, pc_created_at = 0, pc_updated_at = 0\<rparr>"

definition demo_provider_world :: "unit world" where
  "demo_provider_world =
     \<lparr>w_db = empty_db\<lparr>provider_configs := [demo_provider]\<rparr>, w_queue = [], w_store = (), w_ctr = 0\<rparr>"

definition demo_uri :: pyobj where "demo_uri = PJson (JStr ''https://app.example.test/cb'')"

definition demo_start :: "oauth_start_result res \<times> unit world" where
  "demo_start = start_provider_oauth toy_env default_config 0 ''t'' ''p'' demo_uri None None demo_provider_world"

definition demo_callback :: "provider_config res \<times> unit world" where
  "demo_callback = complete_provider_oauth_callback toy_env 5000000 ''t'' ''p'' ''tok-0'' ''c'' None None (snd demo_start)"

definition demo_test :: "connection_test_result res \<times> unit world" where
  "demo_test = test_provider_connection toy_env 6000000 ''t'' ''p'' None None (snd demo_callback)"

lemma demo_start_eq: "demo_start = (Inr (projr (fst demo_start)), snd demo_start)"
proof -
  have "\<not> isl (fst demo_start)" by code_simp
  then show ?thesis by (metis prod.collapse sum.collapse(2))
qed

lemma demo_callback_eq: "demo_callback = (Inr (projr (fst demo_callback)), snd demo_callback)"
proof -
  have "\<not> isl (fst demo_callback)" by code_simp
  then show ?thesis by (metis prod.collapse sum.collapse(2))
qed

lemma demo_provider_found: "provider_row ''t'' ''p'' (w_db demo_provider_world) = Some demo_provider"
  by (simp add: provider_row_def demo_provider_world_def scalar_Cons demo_provider_def)

lemma oauth_state_single_use_witness:
  "\<exists>err. complete_provider_oauth_callback toy_env 9000000 ''t'' ''p'' ''tok-0'' ''c'' None None (snd demo_callback) =
     (Inl err, snd demo_callback)"
proof -
  have pl: "provider_config_payload demo_provider = Inr []" by code_simp
  have st: "os_state (projr (fst demo_start)) = ''tok-0''" by code_simp
  have date: "valid_date (date_of_time (0 + seconds oauth_state_ttl_seconds))" by code_simp
  have cb: "complete_provider_oauth_callback toy_env 5000000 ''t'' ''p'' (os_state (projr (fst demo_start))) ''c'' None None (snd demo_start) =
      (Inr (projr (fst demo_callback)), snd demo_callback)"
    unfolding st by (rule trans [OF demo_callback_def [symmetric] demo_callback_eq])
  have s: "py_strip (os_state (projr (fst demo_start))) = os_state (projr (fst demo_start))"
    "os_state (projr (fst demo_start)) \<noteq> []" "py_strip ''c'' \<noteq> []"
    unfolding st by code_simp+
  show ?thesis
    using oauth_state_single_use [OF demo_provider_found pl _ trans [OF demo_start_def [symmetric] demo_start_eq] date _ s cb]
    by (simp add: oauth_state_ttl_seconds_def)
qed

lemma oauth_callback_sound_witness:
  "\<exists>row. provider_row ''t'' ''p'' (w_db (snd demo_callback)) = Some row \<and> pc_connection_status row = ''connected''"
proof -
  have "db_ok (w_db demo_provider_world)"
    by (simp add: demo_provider_world_def db_ok_unfold empty_db_def unique_def unique_nullable_def)
  then have "db_ok (w_db (snd demo_start))"
    unfolding demo_start_def start_provider_oauth_def Let_def
    by (auto intro!: commit_db_ok split: sum.splits)
  from oauth_callback_sound [OF this trans [OF demo_callback_def [symmetric] demo_callback_eq]] show ?thesis by auto
qed

lemma connection_test_verdict_witness:
  "\<exists>row. provider_row ''t'' ''p'' (w_db (snd demo_test)) = Some row \<and> pc_connection_status row = ''connected''"
proof -
  have "\<not> isl (fst demo_test)" by code_simp
  then have t: "demo_test = (Inr (projr (fst demo_test)), snd demo_test)" by (metis prod.collapse sum.collapse(2))
  have "ct_status (projr (fst demo_test)) = ''success''" by code_simp
  with connection_test_verdict [OF trans [OF demo_test_def [symmetric] t]] show ?thesis by auto
qed

lemma create_provider_race_conflict_witness:
  "fst (create_provider_config toy_env 5 ''t'' (PJson (JStr ''Gmail'')) (PJson JNull) (PJson (JStr ''connected'')) None None
      (\<lambda>d. d\<lparr>provider_configs := [demo_provider]\<rparr>) (demo_provider_world\<lparr>w_db := empty_db\<rparr>)) = Inl provider_conflict"
proof -
  let ?race = "\<lambda>d. d\<lparr>provider_configs := [demo_provider]\<rparr>"
  have "normalize_provider_type (PJson (JStr ''Gmail'')) = Inr ''gmail''"
    "normalize_provider_status (PJson (JStr ''connected'')) = Inr ''connected''" by code_simp+
  moreover have "config_to_json (case None of None \<Rightarrow> PJson (JObj []) | Some c \<Rightarrow> c) False = Inr (json_dumps_sorted (JObj []))"
    by (simp add: config_to_json_def)
  moreover have "str_or_none (PJson JNull) ''display_name'' = Inr None" by (simp add: str_or_none_def)
  moreover have "ensure_unique_provider_type (w_db (demo_provider_world\<lparr>w_db := empty_db\<rparr>)) ''t'' ''gmail'' None = Inr ()"
    by (simp add: ensure_unique_provider_type_def empty_db_def)
  moreover have "db_ok (?race (w_db (demo_provider_world\<lparr>w_db := empty_db\<rparr>)))"
    by (simp add: db_ok_unfold empty_db_def unique_def unique_nullable_def)
  ultimately show ?thesis
    by (subst create_provider_race_conflict [where other = demo_provider])
      (simp_all add: demo_provider_def toy_env_def demo_provider_world_def)
qed

end
