(* ===== verification/Metrics.thy ===== *)
theory Metrics
  imports Saas_World
begin

text \<open>
  The HTTP metrics of \<open>saas/metrics.py\<close>: counters per method, route and status, sums of
  durations per method and route, and their Prometheus rendering. The registry's lock makes
  each operation atomic; durations are doubles, added as doubles.
\<close>

record metrics_registry =
  request_counts :: "((pystr \<times> pystr \<times> int) \<times> int) list"
  request_duration_ms_sum :: "((pystr \<times> pystr) \<times> rat) list"

definition upper_char :: "char \<Rightarrow> char" where
  "upper_char c = (let n = code c in if 97 \<le> n \<and> n \<le> 122 then byte_of (n - 32) else c)"

definition empty_registry :: metrics_registry where
  "empty_registry = \<lparr>request_counts = [], request_duration_ms_sum = []\<rparr>"

definition get_or :: "'v \<Rightarrow> 'k \<Rightarrow> ('k \<times> 'v) list \<Rightarrow> 'v" where
  "get_or dflt k kvs = (case map_of kvs k of None \<Rightarrow> dflt | Some v \<Rightarrow> v)"

definition observe_http ::
  "pystr \<Rightarrow> pystr \<Rightarrow> int \<Rightarrow> rat \<Rightarrow> metrics_registry \<Rightarrow> metrics_registry" where
  "observe_http meth route status_code duration_ms reg =
     (let m = map upper_char meth; key = (m, route, status_code); dkey = (m, route)
      in \<lparr>request_counts = dict_set key (get_or 0 key (request_counts reg) + 1) (request_counts reg),
          request_duration_ms_sum =
            dict_set dkey (py_float_add (get_or 0 dkey (request_duration_ms_sum reg)) duration_ms)
              (request_duration_ms_sum reg)\<rparr>)"

text \<open>\<open>%.3f\<close>\<close>

definition py_fixed3 :: "rat \<Rightarrow> pystr" where
  "py_fixed3 x =
     (let c = nat (round_half_even (\<bar>x\<bar> * 1000))
      in (if x < 0 then ''-'' else '''') @ py_str_nat (c div 1000) @ ''.''
         @ pad_zeros 3 (py_str_nat (c mod 1000)))"

definition quoted :: "pystr \<Rightarrow> pystr" where
  "quoted s = [quote_c] @ s @ [quote_c]"

definition count_line :: "(pystr \<times> pystr \<times> int) \<times> int \<Rightarrow> pystr" where
  "count_line kv =
     (case kv of ((m, route, st), n) \<Rightarrow>
        ''invplatform_http_requests_total{method='' @ quoted m @ '',route='' @ quoted route
        @ '',status='' @ quoted (py_str_int st) @ ''} '' @ py_str_int n)"

definition duration_line :: "(pystr \<times> pystr) \<times> rat \<Rightarrow> pystr" where
  "duration_line kv =
     (case kv of ((m, route), ms) \<Rightarrow>
        ''invplatform_http_request_duration_ms_sum{method='' @ quoted m @ '',route='' @ quoted route
        @ ''} '' @ py_fixed3 ms)"

definition newline :: pystr where "newline = [CHR 0x0A]"

definition render_prometheus :: "metrics_registry \<Rightarrow> pystr" where
  "render_prometheus reg =
     py_join newline
       ([''# HELP invplatform_http_requests_total Total HTTP requests.'',
         ''# TYPE invplatform_http_requests_total counter'']
        @ map count_line (sort_key fst (request_counts reg))
        @ [''# HELP invplatform_http_request_duration_ms_sum Sum of request duration in ms.'',
           ''# TYPE invplatform_http_request_duration_ms_sum counter'']
        @ map duration_line (sort_key fst (request_duration_ms_sum reg))) @ newline"

text \<open>A run of the server: the requests it observed, in order.\<close>

definition observe_all :: "(pystr \<times> pystr \<times> int \<times> rat) list \<Rightarrow> metrics_registry" where
  "observe_all reqs = fold (\<lambda>(m, r, s, d). observe_http m r s d) reqs empty_registry"

lemma get_or_dict_set: "get_or z k (dict_set k' v kvs) = (if k = k' then v else get_or z k kvs)"
  by (simp add: get_or_def)

lemma observe_http_counts:
  "get_or 0 k (request_counts (observe_http m r s d reg)) =
     get_or 0 k (request_counts reg) + (if k = (map upper_char m, r, s) then 1 else 0)"
  by (simp add: observe_http_def Let_def get_or_dict_set)

lemma observe_all_counts_from:
  "get_or 0 k (request_counts (fold (\<lambda>(m, r, s, d). observe_http m r s d) reqs reg)) =
     get_or 0 k (request_counts reg)
     + int (length (filter (\<lambda>(m, r, s, d). k = (map upper_char m, r, s)) reqs))"
  by (induction reqs arbitrary: reg) (auto simp: observe_http_counts)

lemma observe_http_distinct:
  "distinct (map fst (request_counts reg)) \<Longrightarrow> distinct (map fst (request_counts (observe_http m r s d reg)))"
  by (simp add: observe_http_def Let_def)

lemma observe_all_distinct:
  "distinct (map fst (request_counts reg)) \<Longrightarrow>
   distinct (map fst (request_counts (fold (\<lambda>(m, r, s, d). observe_http m r s d) reqs reg)))"
  by (induction reqs arbitrary: reg) (auto simp: observe_http_distinct)

lemma observe_all_total_from:
  assumes "distinct (map fst (request_counts reg))"
  shows "sum_list (map snd (request_counts (fold (\<lambda>(m, r, s, d). observe_http m r s d) reqs reg))) =
    sum_list (map snd (request_counts reg)) + int (length reqs)"
  using assms
proof (induction reqs arbitrary: reg)
  case (Cons q reqs)
  obtain m r s d where q: "q = (m, r, s, d)" by (metis surj_pair)
  have "sum_list (map snd (dict_set k (get_or 0 k kvs + 1) kvs)) = sum_list (map snd kvs) + 1"
    if "distinct (map fst kvs)" for k and kvs :: "('k \<times> int) list"
    using that by (induction kvs) (auto simp: get_or_def)
  then have "sum_list (map snd (request_counts (observe_http m r s d reg))) = sum_list (map snd (request_counts reg)) + 1"
    using Cons.prems by (simp add: observe_http_def Let_def)
  with Cons.IH [OF observe_http_distinct [OF Cons.prems, of m r s d]] q show ?case by simp
qed simp

text \<open>
  After any sequence of requests each counter is the number of requests observed with its
  upper-cased method, route and status, no counter has two lines, and the counters add up to
  the number of requests.
\<close>

theorem metrics_count_exact:
  "get_or 0 (map upper_char m, route, st) (request_counts (observe_all reqs)) =
     int (length (filter (\<lambda>(m', r', s', _). map upper_char m' = map upper_char m \<and> r' = route \<and> s' = st) reqs)) \<and>
   distinct (map fst (request_counts (observe_all reqs))) \<and>
   sum_list (map snd (request_counts (observe_all reqs))) = int (length reqs)"
proof -
  have "filter (\<lambda>(m', r', s', d). (map upper_char m, route, st) = (map upper_char m', r', s')) reqs =
      filter (\<lambda>(m', r', s', _). map upper_char m' = map upper_char m \<and> r' = route \<and> s' = st) reqs"
    by (rule filter_cong) auto
  then show ?thesis
    using observe_all_counts_from [of "(map upper_char m, route, st)" reqs empty_registry]
      observe_all_distinct [of empty_registry reqs] observe_all_total_from [of empty_registry reqs]
    by (simp add: observe_all_def empty_registry_def get_or_def)
qed

end
