(* ===== verification/Service_Jobs.thy ===== *)
theory Service_Jobs
  imports Service_Base "HOL-Library.Code_Target_Nat"
begin

text \<open>
  Files, parse jobs, collection jobs, invoices and reports in \<open>saas/service.py\<close>. The three
  create operations insert a row, queue its job and commit; because concurrent requests with
  one idempotency key are what they are written for, their definitions take what other
  transactions commit meanwhile: \<open>race1\<close> between the lookups and the flush, \<open>race2\<close> between
  the flush and the commit (the identity when nothing does). The queue is outside the
  transaction, so an entry stays queued when the commit fails.
\<close>

text \<open>The \<open>try: commit ... except IntegrityError\<close> block the three create operations share.\<close>

definition commit_or_resolve ::
  "(db \<Rightarrow> 'a option) \<Rightarrow> pystr option \<Rightarrow> db \<Rightarrow> db \<Rightarrow> 'a \<Rightarrow> 's world \<Rightarrow> 'a res \<times> 's world" where
  "commit_or_resolve resolve key committed d row w =
     (case db_violation d of
        None \<Rightarrow> (Inr row, w\<lparr>w_db := d\<rparr>)
      | Some c \<Rightarrow>
          let w = w\<lparr>w_db := committed\<rparr> in
          (case key of
             None \<Rightarrow> (Inl (IntegrityError c), w)
           | Some _ \<Rightarrow>
               (case resolve committed of
                  None \<Rightarrow> (Inl (IntegrityError c), w)
                | Some existing \<Rightarrow> (Inr existing, w))))"

definition add_idempotency_if ::
  "env \<Rightarrow> nat \<Rightarrow> time \<Rightarrow> pystr \<Rightarrow> pystr \<Rightarrow> pystr option \<Rightarrow> pystr \<Rightarrow> pystr \<Rightarrow> db \<Rightarrow> db" where
  "add_idempotency_if e n now tid scope key resource_type resource_id d =
     (case key of
        None \<Rightarrow> d
      | Some k \<Rightarrow> add_idempotency e n now tid scope k resource_type resource_id d)"

definition missing_ids :: "pystr list \<Rightarrow> pystr list \<Rightarrow> pystr list" where
  "missing_ids wanted found = sort (remdups (filter (\<lambda>i. i \<notin> set found) wanted))"

lemma missing_ids_Nil: "missing_ids wanted found = [] \<longleftrightarrow> set wanted \<subseteq> set found"
proof -
  have "missing_ids wanted found = [] \<longleftrightarrow> set (missing_ids wanted found) = {}" by simp
  then show ?thesis by (auto simp: missing_ids_def)
qed


subsection \<open>Files\<close>

definition register_file ::
  "env \<Rightarrow> time \<Rightarrow> pystr \<Rightarrow> pystr \<Rightarrow> pystr \<Rightarrow> pystr \<Rightarrow> pystr option \<Rightarrow> int option
    \<Rightarrow> 's world \<Rightarrow> invoice_file res \<times> 's world" where
  "register_file e now tid filename storage_path mime_type content_sha256 bytes_size w =
     (let n = w_ctr w; d = w_db w;
          row = \<lparr>fl_id = uuid4 e n, fl_tenant_id = tid, fl_filename = filename,
                 fl_storage_path = storage_path, fl_mime_type = mime_type,
                 fl_content_sha256 = content_sha256, fl_bytes = bytes_size, fl_status = UPLOADED,
                 fl_created_at = now\<rparr>
      in commit_with
           (add_audit e (n + 1) now tid ''file.register'' None (JObj [(''filename'', JStr filename)])
              (d\<lparr>invoice_files := invoice_files d @ [row]\<rparr>))
           (Inr row) (draw 2 w))"


subsection \<open>Parse jobs\<close>

definition new_parse_job :: "pystr \<Rightarrow> pystr \<Rightarrow> bool \<Rightarrow> pystr option \<Rightarrow> time \<Rightarrow> parse_job" where
  "new_parse_job job_id tid debug key now =
     \<lparr>pj_id = job_id, pj_tenant_id = tid, pj_status = QUEUED, pj_idempotency_key = key,
      pj_queue_job_id = None, pj_debug = debug, pj_records_count = 0, pj_failed_count = 0,
      pj_error_message = None, pj_created_at = now, pj_started_at = None, pj_finished_at = None\<rparr>"

definition add_parse_job :: "parse_job \<Rightarrow> db \<Rightarrow> db" where
  "add_parse_job j d = d\<lparr>parse_jobs := parse_jobs d @ [j]\<rparr>"

definition add_parse_links :: "pystr \<Rightarrow> pystr list \<Rightarrow> time \<Rightarrow> db \<Rightarrow> db" where
  "add_parse_links job_id file_ids now d =
     d\<lparr>parse_job_files := parse_job_files d @
        map (\<lambda>f. \<lparr>pf_parse_job_id = job_id, pf_file_id = f, pf_created_at = now\<rparr>) file_ids\<rparr>"

definition parse_job_event :: "parse_job \<Rightarrow> pystr list \<Rightarrow> json" where
  "parse_job_event j file_ids =
     JObj [(''parse_job_id'', JStr (pj_id j)), (''queue_job_id'', json_opt_str (pj_queue_job_id j)),
           (''file_ids'', json_strs file_ids), (''idempotency_key'', json_opt_str (pj_idempotency_key j))]"

text \<open>The unit of work a successful create commits.\<close>

definition parse_job_unit :: "env \<Rightarrow> nat \<Rightarrow> time \<Rightarrow> parse_job \<Rightarrow> pystr list \<Rightarrow> db \<Rightarrow> db" where
  "parse_job_unit e n now j file_ids d =
     add_audit e (n + 1) now (pj_tenant_id j) ''parse_job.create'' None (parse_job_event j file_ids)
       (add_idempotency_if e n now (pj_tenant_id j) ''parse_jobs.create'' (pj_idempotency_key j)
          ''parse_job'' (pj_id j)
          (add_parse_links (pj_id j) file_ids now (add_parse_job j d)))"

definition create_parse_job ::
  "env \<Rightarrow> service_config \<Rightarrow> time \<Rightarrow> pystr \<Rightarrow> pystr list \<Rightarrow> bool \<Rightarrow> pystr option
    \<Rightarrow> (db \<Rightarrow> db) \<Rightarrow> (db \<Rightarrow> db) \<Rightarrow> 's world \<Rightarrow> parse_job res \<times> 's world" where
  "create_parse_job e cfg now tid file_ids debug idempotency_key race1 race2 w =
     (let n = w_ctr w; d = w_db w; key = strip_or_none idempotency_key in
      if file_ids = [] then (Inl (ValueError ''file_ids cannot be empty''), w)
      else case Option.bind key (\<lambda>k. resolve_idempotent_parse_job tid k d) of
        Some existing_job \<Rightarrow> (Inr existing_job, w)
      | None \<Rightarrow>
          let found = map fl_id (filter (\<lambda>f. fl_tenant_id f = tid \<and> fl_id f \<in> set file_ids) (invoice_files d));
              missing = missing_ids file_ids found
          in if missing \<noteq> []
             then (Inl (ValueError (''unknown file ids for tenant: '' @ py_join '', '' missing)), w)
             else
               let d1 = race1 d; job = new_parse_job (uuid4 e n) tid debug key now in
               (case db_violation (add_parse_job job d1) of
                  Some c \<Rightarrow> (Inl (IntegrityError c), draw 1 (w\<lparr>w_db := d1\<rparr>))
                | None \<Rightarrow>
                    let (queue_job_id, w) = enqueue e (parse_job_task_name cfg)
                          [(''parse_job_id'', pj_id job)] (draw 1 (w\<lparr>w_db := d1\<rparr>));
                        job = job\<lparr>pj_queue_job_id := Some queue_job_id\<rparr>;
                        d2 = race2 d1
                    in commit_or_resolve (\<lambda>d. Option.bind key (\<lambda>k. resolve_idempotent_parse_job tid k d))
                         key d2 (parse_job_unit e (n + 2) now job file_ids d2) job (draw 2 w)))"

definition get_parse_job :: "pystr \<Rightarrow> pystr \<Rightarrow> 's world \<Rightarrow> parse_job option" where
  "get_parse_job tid job_id w = repo_one_or_none pj_tenant_id tid (\<lambda>j. pj_id j = job_id) (parse_jobs (w_db w))"


subsection \<open>Collection jobs\<close>

definition new_collection_job ::
  "pystr \<Rightarrow> pystr \<Rightarrow> pystr option \<Rightarrow> pystr list \<Rightarrow> pystr \<Rightarrow> time \<Rightarrow> collection_job" where
  "new_collection_job job_id tid key providers month_scope now =
     \<lparr>cj_id = job_id, cj_tenant_id = tid, cj_status = QUEUED, cj_idempotency_key = key,
      cj_providers_json = json_dumps (json_strs providers), cj_month_scope = month_scope,
      cj_queue_job_id = None, cj_files_discovered = 0, cj_files_downloaded = 0,
      cj_parse_job_ids_json = ''[]'', cj_error_message = None, cj_created_at = now,
      cj_updated_at = now, cj_started_at = None, cj_finished_at = None\<rparr>"

definition add_collection_job :: "collection_job \<Rightarrow> db \<Rightarrow> db" where
  "add_collection_job j d = d\<lparr>collection_jobs := collection_jobs d @ [j]\<rparr>"

definition collection_job_unit ::
  "env \<Rightarrow> nat \<Rightarrow> time \<Rightarrow> pystr option \<Rightarrow> collection_job \<Rightarrow> pystr list \<Rightarrow> db \<Rightarrow> db" where
  "collection_job_unit e n now actor j providers d =
     add_audit e (n + 1) now (cj_tenant_id j) ''collection_job.create'' actor
       (JObj [(''collection_job_id'', JStr (cj_id j)), (''providers'', json_strs providers),
              (''month_scope'', JStr (cj_month_scope j)), (''status'', JStr (job_status_value (cj_status j))),
              (''idempotency_key'', json_opt_str (cj_idempotency_key j)),
              (''queue_job_id'', json_opt_str (cj_queue_job_id j))])
       (add_idempotency_if e n now (cj_tenant_id j) ''collection_jobs.create'' (cj_idempotency_key j)
          ''collection_job'' (cj_id j) (add_collection_job j d))"

definition create_collection_job ::
  "env \<Rightarrow> service_config \<Rightarrow> time \<Rightarrow> pystr \<Rightarrow> pyobj \<Rightarrow> pyobj \<Rightarrow> pystr option \<Rightarrow> pystr option
    \<Rightarrow> (db \<Rightarrow> db) \<Rightarrow> (db \<Rightarrow> db) \<Rightarrow> 's world \<Rightarrow> collection_job res \<times> 's world" where
  "create_collection_job e cfg now tid providers month_scope idempotency_key actor race1 race2 w =
     (let n = w_ctr w; d = w_db w; key = strip_or_none idempotency_key in
      case res_bind (normalize_collection_providers providers)
             (\<lambda>ps. res_bind (normalize_collection_month_scope month_scope) (\<lambda>ms. Inr (ps, ms))) of
        Inl err \<Rightarrow> (Inl err, w)
      | Inr (ps, ms) \<Rightarrow>
          (case Option.bind key (\<lambda>k. resolve_idempotent_collection_job tid k d) of
             Some existing \<Rightarrow> (Inr existing, w)
           | None \<Rightarrow>
               let d1 = race1 d; row = new_collection_job (uuid4 e n) tid key ps ms now in
               (case db_violation (add_collection_job row d1) of
                  Some c \<Rightarrow> (Inl (IntegrityError c), draw 1 (w\<lparr>w_db := d1\<rparr>))
                | None \<Rightarrow>
                    let (queue_job_id, w) = enqueue e (collection_job_task_name cfg)
                          [(''collection_job_id'', cj_id row)] (draw 1 (w\<lparr>w_db := d1\<rparr>));
                        row = row\<lparr>cj_queue_job_id := Some queue_job_id\<rparr>;
                        d2 = race2 d1
                    in commit_or_resolve (\<lambda>d. Option.bind key (\<lambda>k. resolve_idempotent_collection_job tid k d))
                         key d2 (collection_job_unit e (n + 2) now actor row ps d2) row (draw 2 w))))"

definition list_collection_jobs ::
  "pystr \<Rightarrow> pyobj \<Rightarrow> int \<Rightarrow> int \<Rightarrow> 's world \<Rightarrow> (collection_job list \<times> int) res" where
  "list_collection_jobs tid status n k w =
     (if n < 1 then Inl (collection_validation ''limit must be >= 1'')
      else if k < 0 then Inl (collection_validation ''offset must be >= 0'')
      else res_bind (if status = PJson JNull \<or> status = PJson (JStr []) then Inr None
                     else res_bind (normalize_collection_status status) (\<lambda>st. Inr (Some st)))
        (\<lambda>st. let P = (\<lambda>j. st = None \<or> Some (cj_status j) = st) in
              Inr (repo_list cj_tenant_id tid P (order_desc cj_created_at cj_id) (Some n) (Some k)
                     (collection_jobs (w_db w)),
                   repo_count cj_tenant_id tid P (collection_jobs (w_db w)))))"

definition get_collection_job :: "pystr \<Rightarrow> pystr \<Rightarrow> 's world \<Rightarrow> collection_job option" where
  "get_collection_job tid job_id w =
     repo_one_or_none cj_tenant_id tid (\<lambda>j. cj_id j = job_id) (collection_jobs (w_db w))"



subsection \<open>Idempotent creation\<close>

lemma add_parse_job_tables [simp]:
  "idempotency_records (add_parse_job j d) = idempotency_records d"
  "parse_jobs (add_parse_job j d) = parse_jobs d @ [j]"
  "parse_jobs (add_parse_links i fs now d) = parse_jobs d"
  "idempotency_records (add_parse_links i fs now d) = idempotency_records d"
  by (simp_all add: add_parse_job_def add_parse_links_def)

lemma add_collection_job_tables [simp]:
  "idempotency_records (add_collection_job j d) = idempotency_records d"
  "collection_jobs (add_collection_job j d) = collection_jobs d @ [j]"
  by (simp_all add: add_collection_job_def)

lemma add_idempotency_if_tables [simp]:
  "parse_jobs (add_idempotency_if e n now tid sc k rt rid d) = parse_jobs d"
  "collection_jobs (add_idempotency_if e n now tid sc k rt rid d) = collection_jobs d"
  "reports (add_idempotency_if e n now tid sc k rt rid d) = reports d"
  by (simp_all add: add_idempotency_if_def split: option.splits)

text \<open>
  What \<open>commit_or_resolve\<close> returns is what the lookup of its key finds in the database it
  leaves, when the unit of work, once committed, is found under the key.
\<close>

lemma commit_or_resolve_found:
  assumes "commit_or_resolve resolve key committed d row w = (Inr x, w')" and "key \<noteq> None"
    and "db_ok d \<Longrightarrow> resolve d = Some row"
  shows "resolve (w_db w') = Some x"
  using assms by (auto simp: commit_or_resolve_def Let_def split: option.splits if_splits)

lemma parse_job_unit_resolves:
  assumes "db_ok (parse_job_unit e n now j fs d)" and "pj_idempotency_key j = Some k"
  shows "resolve_idempotent_parse_job (pj_tenant_id j) k (parse_job_unit e n now j fs d) = Some j"
proof -
  let ?d = "parse_job_unit e n now j fs d"
  have "\<exists>r. resolve_record ''parse_jobs.create'' (pj_tenant_id j) k ?d = Some r \<and> ik_resource_id r = pj_id j"
    by (rule resolve_record_appended [OF assms(1)])
      (simp add: parse_job_unit_def add_idempotency_if_def idempotency_add_idempotency assms(2))
  moreover have "scalar_one_or_none (\<lambda>i. pj_tenant_id i = pj_tenant_id j \<and> pj_id i = pj_id j) (parse_jobs ?d) = Some j"
    by (rule scalar_unique [of pj_id]) (use assms in \<open>auto simp: db_ok_unfold\<close>, simp add: parse_job_unit_def)
  ultimately show ?thesis by (auto simp: resolve_idempotent_parse_job_def)
qed

lemma collection_job_unit_resolves:
  assumes "db_ok (collection_job_unit e n now a j ps d)" and "cj_idempotency_key j = Some k"
  shows "resolve_idempotent_collection_job (cj_tenant_id j) k (collection_job_unit e n now a j ps d) = Some j"
proof -
  let ?d = "collection_job_unit e n now a j ps d"
  have "\<exists>r. resolve_record ''collection_jobs.create'' (cj_tenant_id j) k ?d = Some r \<and> ik_resource_id r = cj_id j"
    by (rule resolve_record_appended [OF assms(1)])
      (simp add: collection_job_unit_def add_idempotency_if_def idempotency_add_idempotency assms(2))
  moreover have "scalar_one_or_none (\<lambda>i. cj_tenant_id i = cj_tenant_id j \<and> cj_id i = cj_id j) (collection_jobs ?d) = Some j"
    by (rule scalar_unique [of cj_id]) (use assms in \<open>auto simp: db_ok_unfold\<close>, simp add: collection_job_unit_def)
  ultimately show ?thesis by (auto simp: resolve_idempotent_collection_job_def)
qed

lemma new_parse_job_fields [simp]:
  "pj_tenant_id (new_parse_job i tid dbg k now) = tid" "pj_id (new_parse_job i tid dbg k now) = i"
  "pj_idempotency_key (new_parse_job i tid dbg k now) = k" "pj_status (new_parse_job i tid dbg k now) = QUEUED"
  by (simp_all add: new_parse_job_def)

lemma new_collection_job_fields [simp]:
  "cj_tenant_id (new_collection_job i tid k ps ms now) = tid" "cj_id (new_collection_job i tid k ps ms now) = i"
  "cj_idempotency_key (new_collection_job i tid k ps ms now) = k"
  "cj_status (new_collection_job i tid k ps ms now) = QUEUED"
  by (simp_all add: new_collection_job_def)

text \<open>A successful create leaves a database in which its key resolves to its result.\<close>

lemma create_parse_job_resolves:
  assumes "create_parse_job e cfg now tid fs dbg ikey race1 race2 w = (Inr j, w')"
    and "strip_or_none ikey = Some k"
  shows "resolve_idempotent_parse_job tid k (w_db w') = Some j"
proof (cases "resolve_idempotent_parse_job tid k (w_db w)")
  case (Some x)
  with assms show ?thesis by (auto simp: create_parse_job_def Let_def split: if_splits)
next
  case None
  let ?n = "w_ctr w"
  let ?j = "(new_parse_job (uuid4 e ?n) tid dbg (Some k) now)\<lparr>pj_queue_job_id := Some (uuid4 e (?n + 1))\<rparr>"
  let ?d2 = "race2 (race1 (w_db w))"
  obtain w1 where "commit_or_resolve (\<lambda>d. Option.bind (Some k) (\<lambda>k. resolve_idempotent_parse_job tid k d))
      (Some k) ?d2 (parse_job_unit e (?n + 2) now ?j fs ?d2) ?j w1 = (Inr j, w')"
    using assms None
    by (auto simp: create_parse_job_def Let_def enqueue_def split: if_splits option.splits)
  from commit_or_resolve_found [OF this] show ?thesis
    using parse_job_unit_resolves [of e "?n + 2" now ?j fs ?d2 k] by simp
qed

lemma create_collection_job_resolves:
  assumes "create_collection_job e cfg now tid ps ms ikey a race1 race2 w = (Inr j, w')"
    and "strip_or_none ikey = Some k"
  shows "resolve_idempotent_collection_job tid k (w_db w') = Some j"
proof -
  obtain ps' ms' where norm: "res_bind (normalize_collection_providers ps)
      (\<lambda>ps. res_bind (normalize_collection_month_scope ms) (\<lambda>ms. Inr (ps, ms))) = Inr (ps', ms')"
    using assms(1) by (auto simp: create_collection_job_def Let_def split: sum.splits)
  show ?thesis
  proof (cases "resolve_idempotent_collection_job tid k (w_db w)")
    case (Some x)
    with assms norm show ?thesis by (auto simp: create_collection_job_def Let_def)
  next
    case None
    let ?n = "w_ctr w"
    let ?j = "(new_collection_job (uuid4 e ?n) tid (Some k) ps' ms' now)\<lparr>cj_queue_job_id := Some (uuid4 e (?n + 1))\<rparr>"
    let ?d2 = "race2 (race1 (w_db w))"
    obtain w1 where "commit_or_resolve (\<lambda>d. Option.bind (Some k) (\<lambda>k. resolve_idempotent_collection_job tid k d))
        (Some k) ?d2 (collection_job_unit e (?n + 2) now a ?j ps' ?d2) ?j w1 = (Inr j, w')"
      using assms None norm
      by (auto simp: create_collection_job_def Let_def enqueue_def split: option.splits)
    from commit_or_resolve_found [OF this] show ?thesis
      using collection_job_unit_resolves [of e "?n + 2" now a ?j ps' ?d2 k] by simp
  qed
qed



subsection \<open>Properties of the create operations\<close>

text \<open>
  C18: A parse job created under an idempotency key is what every later request with that key
  gets, whatever its other arguments, and the repeated request changes nothing: no row, no
  queue entry, no random draw.
\<close>

theorem create_parse_job_idempotent:
  assumes "create_parse_job e cfg now tid fs dbg ikey race1 race2 w = (Inr j, w')"
    and "strip_or_none ikey = Some k" and "strip_or_none ikey' = Some k" and "fs' \<noteq> []"
  shows "create_parse_job e' cfg' now' tid fs' dbg' ikey' race1' race2' w' = (Inr j, w')"
  using create_parse_job_resolves [OF assms(1,2)] assms(3,4) by (simp add: create_parse_job_def Let_def)

text \<open>
  The same for collection jobs: a repeated key returns the first job and leaves the state
  as it is, provided the repeated request is itself well formed.
\<close>

theorem create_collection_job_idempotent:
  assumes "create_collection_job e cfg now tid ps ms ikey a race1 race2 w = (Inr j, w')"
    and "strip_or_none ikey = Some k" and "strip_or_none ikey' = Some k"
    and "normalize_collection_providers ps' = Inr x" and "normalize_collection_month_scope ms' = Inr y"
  shows "create_collection_job e' cfg' now' tid ps' ms' ikey' a' race1' race2' w' = (Inr j, w')"
  using create_collection_job_resolves [OF assms(1,2)] assms(3-5)
  by (simp add: create_collection_job_def Let_def)

lemma not_unique_nullable:
  "r \<in> set rows \<Longrightarrow> key r = key r' \<Longrightarrow> key r \<noteq> None \<Longrightarrow> \<not> unique_nullable key (rows @ [r'])"
  by (auto simp: unique_nullable_snoc)

text \<open>
  When a concurrent request commits a job with the same key between the lookup and the
  flush, the request raises the database's integrity error: the flush is outside the block
  that was written to return the other request's job.
\<close>

theorem create_parse_job_race_raises:
  assumes "fs \<noteq> []" and "strip_or_none ikey = Some k"
    and "resolve_idempotent_parse_job tid k (w_db w) = None"
    and "missing_ids fs (map fl_id (filter (\<lambda>f. fl_tenant_id f = tid \<and> fl_id f \<in> set fs) (invoice_files (w_db w)))) = []"
    and "j' \<in> set (parse_jobs (race1 (w_db w)))" "pj_tenant_id j' = tid" "pj_idempotency_key j' = Some k"
  shows "\<exists>c. create_parse_job e cfg now tid fs dbg ikey race1 race2 w =
    (Inl (IntegrityError c), draw 1 (w\<lparr>w_db := race1 (w_db w)\<rparr>))"
proof -
  let ?d1 = "add_parse_job (new_parse_job (uuid4 e (w_ctr w)) tid dbg (Some k) now) (race1 (w_db w))"
  have "\<not> unique_nullable pj_idem_key (parse_jobs ?d1)"
    unfolding add_parse_job_tables by (rule not_unique_nullable [OF assms(5)]) (simp_all add: pj_idem_key_def assms)
  then have "\<not> db_ok ?d1" by (simp add: db_ok_unfold)
  then obtain c where "db_violation ?d1 = Some c" by (auto simp flip: db_violation_None)
  then show ?thesis using assms by (auto simp: create_parse_job_def Let_def)
qed

text \<open>
  A successful create of a new parse job, with nobody else committing meanwhile, adds one
  queued job of the tenant, links it to the requested files, all of which the tenant owns and
  none of which is repeated, and queues exactly one parse task for it.
\<close>

theorem create_parse_job_effect:
  assumes "create_parse_job e cfg now tid fs dbg ikey (\<lambda>d. d) (\<lambda>d. d) w = (Inr j, w')"
    and "Option.bind (strip_or_none ikey) (\<lambda>k. resolve_idempotent_parse_job tid k (w_db w)) = None"
  shows "parse_jobs (w_db w') = parse_jobs (w_db w) @ [j] \<and> pj_status j = QUEUED \<and> pj_tenant_id j = tid \<and>
    parse_job_files (w_db w') = parse_job_files (w_db w)
      @ map (\<lambda>f. \<lparr>pf_parse_job_id = pj_id j, pf_file_id = f, pf_created_at = now\<rparr>) fs \<and>
    fs \<noteq> [] \<and> distinct fs \<and> (\<forall>f\<in>set fs. \<exists>r\<in>set (invoice_files (w_db w)). fl_id r = f \<and> fl_tenant_id r = tid) \<and>
    w_queue w' = w_queue w
      @ [(parse_job_task_name cfg, [(''parse_job_id'', pj_id j)], the (pj_queue_job_id j))] \<and>
    db_ok (w_db w')"
proof -
  let ?n = "w_ctr w"
  let ?k = "strip_or_none ikey"
  let ?j = "(new_parse_job (uuid4 e ?n) tid dbg ?k now)\<lparr>pj_queue_job_id := Some (uuid4 e (?n + 1))\<rparr>"
  let ?d = "parse_job_unit e (?n + 2) now ?j fs (w_db w)"
  let ?w = "draw 2 (snd (enqueue e (parse_job_task_name cfg) [(''parse_job_id'', uuid4 e ?n)] (draw 1 w)))"
  have miss: "missing_ids fs (map fl_id (filter (\<lambda>f. fl_tenant_id f = tid \<and> fl_id f \<in> set fs) (invoice_files (w_db w)))) = []"
    and ne: "fs \<noteq> []"
    and c: "commit_or_resolve (\<lambda>d. Option.bind ?k (\<lambda>k. resolve_idempotent_parse_job tid k d)) ?k (w_db w) ?d ?j ?w = (Inr j, w')"
    using assms by (auto simp: create_parse_job_def Let_def enqueue_def draw_def split: if_splits option.splits)
  then have ok: "db_ok ?d" and j: "j = ?j" and w': "w' = ?w\<lparr>w_db := ?d\<rparr>"
    using assms(2) by (auto simp: commit_or_resolve_def Let_def split: option.splits)
  have links: "parse_job_files ?d = parse_job_files (w_db w)
      @ map (\<lambda>f. \<lparr>pf_parse_job_id = pj_id j, pf_file_id = f, pf_created_at = now\<rparr>) fs"
    by (simp add: parse_job_unit_def add_parse_links_def add_parse_job_def j add_idempotency_if_def split: option.splits)
  have "unique pf_key (parse_job_files ?d)" using ok by (simp add: db_ok_unfold)
  then have "distinct fs" unfolding links by (simp add: unique_def pf_key_def comp_def distinct_map)
  moreover have "f \<in> fl_id ` set (filter (\<lambda>f. fl_tenant_id f = tid \<and> fl_id f \<in> set fs) (invoice_files (w_db w)))"
    if "f \<in> set fs" for f
  proof -
    have "set (missing_ids fs (map fl_id (filter (\<lambda>f. fl_tenant_id f = tid \<and> fl_id f \<in> set fs) (invoice_files (w_db w))))) = {}"
      unfolding miss by simp
    with that show ?thesis by (auto simp: missing_ids_def)
  qed
  moreover have "parse_jobs ?d = parse_jobs (w_db w) @ [j]" by (simp add: parse_job_unit_def j)
  ultimately show ?thesis
    using ok ne links by (auto simp: w' j)
qed


text \<open>
  A request that names a file twice passes every check, queues its task, and only then
  fails at commit with a raw integrity error: the database is as before, but the queue keeps
  an entry for a parse job that does not exist.
\<close>

theorem create_parse_job_duplicate_files:
  assumes "fs \<noteq> []" and "\<not> distinct fs" and "strip_or_none ikey = None"
    and "missing_ids fs (map fl_id (filter (\<lambda>f. fl_tenant_id f = tid \<and> fl_id f \<in> set fs) (invoice_files (w_db w)))) = []"
    and "db_ok (add_parse_job (new_parse_job (uuid4 e (w_ctr w)) tid dbg None now) (w_db w))"
  shows "\<exists>c w'. create_parse_job e cfg now tid fs dbg ikey (\<lambda>d. d) (\<lambda>d. d) w = (Inl (IntegrityError c), w') \<and>
    w_db w' = w_db w \<and>
    w_queue w' = w_queue w @ [(parse_job_task_name cfg, [(''parse_job_id'', uuid4 e (w_ctr w))], uuid4 e (w_ctr w + 1))] \<and>
    uuid4 e (w_ctr w) \<notin> pj_id ` set (parse_jobs (w_db w'))"
proof -
  let ?n = "w_ctr w"
  let ?fresh = "new_parse_job (uuid4 e ?n) tid dbg None now"
  let ?j = "?fresh\<lparr>pj_queue_job_id := Some (uuid4 e (?n + 1))\<rparr>"
  let ?d = "parse_job_unit e (?n + 2) now ?j fs (w_db w)"
  have "\<not> unique pf_key (parse_job_files ?d)"
    using assms(2) by (simp add: parse_job_unit_def add_parse_links_def add_parse_job_def add_idempotency_if_def
        unique_def pf_key_def comp_def distinct_map split: option.splits)
  then obtain c where c: "db_violation ?d = Some c"
    by (metis db_ok_unfold db_violation_None option.exhaust)
  have fresh: "uuid4 e ?n \<notin> pj_id ` set (parse_jobs (w_db w))"
    using assms(5) by (auto simp: db_ok_unfold unique_snoc)
  have v: "db_violation (add_parse_job ?fresh (w_db w)) = None" using assms(5) by simp
  show ?thesis
    using assms(1,3,4) c v fresh
    by (auto simp: create_parse_job_def Let_def enqueue_def draw_def commit_or_resolve_def
        dest: db_violation_Some split: option.splits)
qed


subsection \<open>Witnesses\<close>

definition demo_file :: "pystr \<Rightarrow> invoice_file" where
  "demo_file i =
     \<lparr>fl_id = i, fl_tenant_id = ''t'', fl_filename = ''a.pdf'', fl_storage_path = ''uploads/'' @ i,
      fl_mime_type = ''application/pdf'', fl_content_sha256 = None, fl_bytes = None,
      fl_status = UPLOADED, fl_created_at = 0\<rparr>"

definition demo_world :: "unit world" where
  "demo_world =
     \<lparr>w_db = empty_db\<lparr>invoice_files := [demo_file ''f'', demo_file ''g'']\<rparr>, w_queue = [], w_store = (),
      w_ctr = 0\<rparr>"

definition demo_create :: "pystr option \<Rightarrow> parse_job res \<times> unit world" where
  "demo_create key =
     create_parse_job toy_env default_config 5 ''t'' [''f''] False key (\<lambda>d. d) (\<lambda>d. d) demo_world"

definition demo_collect :: "collection_job res \<times> unit world" where
  "demo_collect =
     create_collection_job toy_env default_config 5 ''t'' (PJson (JList [JStr ''gmail'']))
       (PJson (JStr ''2024-05'')) (Some ''k'') None (\<lambda>d. d) (\<lambda>d. d) demo_world"

lemma demo_create_ok: "\<not> isl (fst (demo_create (Some ''k'')))"
  by code_simp

lemma demo_collect_ok: "\<not> isl (fst demo_collect)"
  by code_simp

lemma demo_key [simp]: "strip_or_none (Some ''k'') = Some ''k''" "strip_or_none (Some '' k '') = Some ''k''"
  by code_simp+

lemma create_parse_job_idempotent_witness:
  "\<exists>j w'. demo_create (Some ''k'') = (Inr j, w') \<and>
     create_parse_job toy_env default_config 9 ''t'' [''f'', ''g''] True (Some '' k '') (\<lambda>d. d) (\<lambda>d. d) w' = (Inr j, w')"
proof -
  obtain j w' where r: "demo_create (Some ''k'') = (Inr j, w')"
    using demo_create_ok by (metis prod.collapse sum.collapse(2))
  with create_parse_job_idempotent [OF r [unfolded demo_create_def], of "''k''" "Some '' k ''" "[''f'', ''g'']"]
  show ?thesis by auto
qed

lemma create_collection_job_idempotent_witness:
  "\<exists>j w'. demo_collect = (Inr j, w') \<and>
     create_collection_job toy_env default_config 9 ''t'' (PJson (JList [JStr '' Gmail '']))
       (PJson (JStr ''2024-06'')) (Some '' k '') None (\<lambda>d. d) (\<lambda>d. d) w' = (Inr j, w')"
proof -
  obtain j w' where r: "demo_collect = (Inr j, w')"
    using demo_collect_ok by (metis prod.collapse sum.collapse(2))
  have "normalize_collection_providers (PJson (JList [JStr '' Gmail ''])) = Inr [''gmail'']"
    "normalize_collection_month_scope (PJson (JStr ''2024-06'')) = Inr ''2024-06''" by code_simp+
  from create_collection_job_idempotent [OF r [unfolded demo_collect_def] demo_key this]
  have "create_collection_job toy_env default_config 9 ''t'' (PJson (JList [JStr '' Gmail '']))
       (PJson (JStr ''2024-06'')) (Some '' k '') None (\<lambda>d. d) (\<lambda>d. d) w' = (Inr j, w')" .
  with r show ?thesis by blast
qed

lemma create_parse_job_race_raises_witness:
  "\<exists>c. fst (create_parse_job toy_env default_config 9 ''t'' [''f''] False (Some ''k'')
     (add_parse_job (new_parse_job ''other'' ''t'' False (Some ''k'') 8)) (\<lambda>d. d) demo_world) = Inl (IntegrityError c)"
proof -
  have "resolve_idempotent_parse_job ''t'' ''k'' (w_db demo_world) = None"
    by (simp add: resolve_idempotent_parse_job_def resolve_record_def demo_world_def empty_db_def)
  moreover have "missing_ids [''f''] (map fl_id (filter (\<lambda>f. fl_tenant_id f = ''t'' \<and> fl_id f \<in> set [''f''])
      (invoice_files (w_db demo_world)))) = []"
    by (simp add: demo_world_def demo_file_def missing_ids_def)
  ultimately show ?thesis
    using create_parse_job_race_raises [of "[''f'']" "Some ''k''" "''k''" "''t''" demo_world
        "new_parse_job ''other'' ''t'' False (Some ''k'') 8" "add_parse_job (new_parse_job ''other'' ''t'' False (Some ''k'') 8)"
        toy_env default_config 9 False "\<lambda>d. d"]
    by auto
qed

lemma create_parse_job_effect_witness:
  "\<exists>j w'. demo_create (Some ''k'') = (Inr j, w') \<and> parse_jobs (w_db w') = [j] \<and> length (w_queue w') = 1"
proof -
  obtain j w' where r: "demo_create (Some ''k'') = (Inr j, w')"
    using demo_create_ok by (metis prod.collapse sum.collapse(2))
  have "resolve_idempotent_parse_job ''t'' ''k'' (w_db demo_world) = None"
    by (simp add: resolve_idempotent_parse_job_def resolve_record_def demo_world_def empty_db_def)
  with create_parse_job_effect [OF r [unfolded demo_create_def]]
  have "parse_jobs (w_db w') = parse_jobs (w_db demo_world) @ [j]" "length (w_queue w') = length (w_queue demo_world) + 1"
    by simp_all
  with r show ?thesis by (simp add: demo_world_def empty_db_def)
qed

lemma create_parse_job_duplicate_files_witness:
  "\<exists>c w'. create_parse_job toy_env default_config 5 ''t'' [''f'', ''f''] False None (\<lambda>d. d) (\<lambda>d. d) demo_world
      = (Inl (IntegrityError c), w') \<and> w_db w' = w_db demo_world \<and> length (w_queue w') = 1"
proof -
  have "missing_ids [''f'', ''f''] (map fl_id (filter (\<lambda>f. fl_tenant_id f = ''t'' \<and> fl_id f \<in> set [''f'', ''f''])
      (invoice_files (w_db demo_world)))) = []"
    by (simp add: demo_world_def demo_file_def missing_ids_def)
  moreover have "db_ok (add_parse_job (new_parse_job (uuid4 toy_env (w_ctr demo_world)) ''t'' False None 5) (w_db demo_world))"
    by (simp add: db_ok_unfold demo_world_def empty_db_def add_parse_job_def unique_def unique_nullable_def
        pj_idem_key_def demo_file_def)
  ultimately show ?thesis
    using create_parse_job_duplicate_files [of "[''f'', ''f'']" None "''t''" demo_world toy_env False 5 default_config]
    by (auto simp: demo_world_def)
qed

end
