(* ===== verification/Service_Reports.thy ===== *)
theory Service_Reports
  imports Service_Jobs
begin

text \<open>
  Invoices, reports, audit events and the dashboard of \<open>saas/service.py\<close>. Listings go
  through the tenant-scoped repository; the vendor filter is an SQL LIKE whose pattern is
  built from the user's text without escaping. \<open>sql_lower\<close> is the database's \<open>lower\<close>.
\<close>

subsection \<open>Invoices\<close>

text \<open>\<open>s LIKE pattern\<close> as SQLite evaluates it on lower-case text: \<open>%\<close> and \<open>_\<close>, no escape.\<close>

fun sql_like :: "pystr \<Rightarrow> pystr \<Rightarrow> bool" where
  "sql_like [] [] = True"
| "sql_like [] (c # s) = False"
| "sql_like (p # ps) [] = (p = CHR ''%'' \<and> sql_like ps [])"
| "sql_like (p # ps) (c # s) =
     (if p = CHR ''%'' then sql_like ps (c # s) \<or> sql_like (p # ps) s
      else (p = CHR ''_'' \<or> p = c) \<and> sql_like ps s)"

definition get_invoice :: "pystr \<Rightarrow> pystr \<Rightarrow> 's world \<Rightarrow> invoice_record option" where
  "get_invoice tid invoice_id w =
     repo_one_or_none ir_tenant_id tid (\<lambda>r. ir_id r = invoice_id) (invoice_records (w_db w))"

record invoice_filter =
  if_parse_job_id :: "pystr option"
  if_vendor :: "pystr option"
  if_from_date :: "py_date option"
  if_to_date :: "py_date option"

definition invoice_matches :: "(pystr \<Rightarrow> pystr) \<Rightarrow> invoice_filter \<Rightarrow> invoice_record \<Rightarrow> bool" where
  "invoice_matches sql_lower f r \<longleftrightarrow>
     (case if_parse_job_id f of None \<Rightarrow> True | Some j \<Rightarrow> j = [] \<or> ir_parse_job_id r = j) \<and>
     (case if_vendor f of None \<Rightarrow> True
      | Some v \<Rightarrow> v = [] \<or> sql_like (''%'' @ py_lower v @ ''%'') (sql_lower (ir_vendor r))) \<and>
     (case if_from_date f of None \<Rightarrow> True
      | Some t \<Rightarrow> (case ir_invoice_date r of None \<Rightarrow> False | Some d \<Rightarrow> t \<le> d)) \<and>
     (case if_to_date f of None \<Rightarrow> True
      | Some t \<Rightarrow> (case ir_invoice_date r of None \<Rightarrow> False | Some d \<Rightarrow> d \<le> t))"

definition list_invoices ::
  "(pystr \<Rightarrow> pystr) \<Rightarrow> pystr \<Rightarrow> invoice_filter \<Rightarrow> int \<Rightarrow> int \<Rightarrow> 's world
    \<Rightarrow> (invoice_record list \<times> int) res" where
  "list_invoices sql_lower tid f n k w =
     (if n < 1 then Inl (ValueError ''limit must be >= 1'')
      else if k < 0 then Inl (ValueError ''offset must be >= 0'')
      else Inr (repo_list ir_tenant_id tid (invoice_matches sql_lower f) (order_desc ir_created_at ir_id)
                  (Some n) (Some k) (invoice_records (w_db w)),
                repo_count ir_tenant_id tid (invoice_matches sql_lower f) (invoice_records (w_db w))))"


subsection \<open>Reports\<close>

definition default_report_formats :: "pystr list" where
  "default_report_formats = [''json'', ''csv'', ''summary_csv'']"

definition new_report ::
  "pystr \<Rightarrow> pystr \<Rightarrow> pystr option \<Rightarrow> pystr list \<Rightarrow> json \<Rightarrow> time \<Rightarrow> report" where
  "new_report report_id tid key formats filters now =
     \<lparr>rp_id = report_id, rp_tenant_id = tid, rp_status = QUEUED, rp_idempotency_key = key,
      rp_queue_job_id = None, rp_requested_formats_json = json_dumps (json_strs formats),
      rp_filters_json = json_dumps filters, rp_error_message = None, rp_created_at = now,
      rp_started_at = None, rp_finished_at = None\<rparr>"

definition add_report :: "report \<Rightarrow> db \<Rightarrow> db" where
  "add_report r d = d\<lparr>reports := reports d @ [r]\<rparr>"

definition add_report_links :: "pystr \<Rightarrow> pystr list \<Rightarrow> time \<Rightarrow> db \<Rightarrow> db" where
  "add_report_links report_id parse_job_ids now d =
     d\<lparr>report_parse_jobs := report_parse_jobs d @
        map (\<lambda>j. \<lparr>rj_report_id = report_id, rj_parse_job_id = j, rj_created_at = now\<rparr>) parse_job_ids\<rparr>"

definition report_unit ::
  "env \<Rightarrow> nat \<Rightarrow> time \<Rightarrow> report \<Rightarrow> pystr list \<Rightarrow> pystr list \<Rightarrow> db \<Rightarrow> db" where
  "report_unit e n now r parse_job_ids formats d =
     add_audit e (n + 1) now (rp_tenant_id r) ''report.create'' None
       (JObj [(''report_id'', JStr (rp_id r)), (''queue_job_id'', json_opt_str (rp_queue_job_id r)),
              (''parse_job_ids'', json_strs parse_job_ids), (''formats'', json_strs formats),
              (''idempotency_key'', json_opt_str (rp_idempotency_key r))])
       (add_idempotency_if e n now (rp_tenant_id r) ''reports.create'' (rp_idempotency_key r)
          ''report'' (rp_id r)
          (add_report_links (rp_id r) parse_job_ids now (add_report r d)))"

definition create_report_job ::
  "env \<Rightarrow> service_config \<Rightarrow> time \<Rightarrow> pystr \<Rightarrow> pystr list \<Rightarrow> pystr list \<Rightarrow> (pystr \<times> json) list
    \<Rightarrow> pystr option \<Rightarrow> (db \<Rightarrow> db) \<Rightarrow> (db \<Rightarrow> db) \<Rightarrow> 's world \<Rightarrow> report res \<times> 's world" where
  "create_report_job e cfg now tid parse_job_ids formats filters idempotency_key race1 race2 w =
     (let n = w_ctr w; d = w_db w; key = strip_or_none idempotency_key;
          requested_formats = (if formats = [] then default_report_formats else formats);
          invalid_formats = missing_ids requested_formats report_allowed_formats in
      if invalid_formats \<noteq> []
      then (Inl (ValueError (''unsupported report formats: '' @ py_join '', '' invalid_formats)), w)
      else case Option.bind key (\<lambda>k. resolve_idempotent_report tid k d) of
        Some existing_report \<Rightarrow> (Inr existing_report, w)
      | None \<Rightarrow>
          let found = map pj_id (filter (\<lambda>j. pj_tenant_id j = tid \<and> pj_id j \<in> set parse_job_ids) (parse_jobs d));
              missing = missing_ids parse_job_ids found
          in if missing \<noteq> []
             then (Inl (ValueError (''unknown parse_job ids for tenant: '' @ py_join '', '' missing)), w)
             else
               let d1 = race1 d;
                   report = new_report (uuid4 e n) tid key requested_formats (JObj filters) now in
               (case db_violation (add_report report d1) of
                  Some c \<Rightarrow> (Inl (IntegrityError c), draw 1 (w\<lparr>w_db := d1\<rparr>))
                | None \<Rightarrow>
                    let (queue_job_id, w) = enqueue e (report_job_task_name cfg)
                          [(''report_id'', rp_id report)] (draw 1 (w\<lparr>w_db := d1\<rparr>));
                        report = report\<lparr>rp_queue_job_id := Some queue_job_id\<rparr>;
                        d2 = race2 d1
                    in commit_or_resolve (\<lambda>d. Option.bind key (\<lambda>k. resolve_idempotent_report tid k d))
                         key d2 (report_unit e (n + 2) now report parse_job_ids requested_formats d2)
                         report (draw 2 w)))"

definition get_report :: "pystr \<Rightarrow> pystr \<Rightarrow> 's world \<Rightarrow> report option" where
  "get_report tid report_id w =
     repo_one_or_none rp_tenant_id tid (\<lambda>r. rp_id r = report_id) (reports (w_db w))"

definition list_report_artifacts :: "pystr \<Rightarrow> pystr \<Rightarrow> 's world \<Rightarrow> report_artifact list" where
  "list_report_artifacts tid report_id w =
     repo_list ra_tenant_id tid (\<lambda>a. ra_report_id a = report_id) (order_desc ra_created_at ra_id)
       None None (report_artifacts (w_db w))"

text \<open>The status filter is the user's text, compared with the stored value as it is.\<close>

definition list_reports ::
  "pystr \<Rightarrow> pystr option \<Rightarrow> int \<Rightarrow> int \<Rightarrow> 's world \<Rightarrow> (report list \<times> int) res" where
  "list_reports tid status n k w =
     (if n < 1 then Inl (ValueError ''limit must be >= 1'')
      else if k < 0 then Inl (ValueError ''offset must be >= 0'')
      else let P = (\<lambda>r. status = None \<or> status = Some [] \<or> Some (job_status_value (rp_status r)) = status) in
           Inr (repo_list rp_tenant_id tid P (order_desc rp_created_at rp_id) (Some n) (Some k)
                  (reports (w_db w)),
                repo_count rp_tenant_id tid P (reports (w_db w))))"

definition put_report :: "report \<Rightarrow> db \<Rightarrow> db" where
  "put_report r d = d\<lparr>reports := upd_where (\<lambda>x. rp_id x = rp_id r) (\<lambda>_. r) (reports d)\<rparr>"

definition retry_report_job ::
  "env \<Rightarrow> service_config \<Rightarrow> time \<Rightarrow> pystr \<Rightarrow> pystr \<Rightarrow> 's world \<Rightarrow> report res \<times> 's world" where
  "retry_report_job e cfg now tid report_id w =
     (case get_report tid report_id w of
        None \<Rightarrow> (Inl (ValueError ''report not found''), w)
      | Some r \<Rightarrow>
          let (queue_job_id, w) = enqueue e (report_job_task_name cfg) [(''report_id'', rp_id r)] w;
              r = r\<lparr>rp_queue_job_id := Some queue_job_id, rp_status := QUEUED, rp_error_message := None,
                    rp_started_at := None, rp_finished_at := None\<rparr>
          in commit_with
               (add_audit e (w_ctr w) now tid ''report.retry'' None
                  (JObj [(''report_id'', JStr (rp_id r)), (''queue_job_id'', JStr queue_job_id)])
                  (put_report r (w_db w)))
               (Inr r) (draw 1 w))"

definition enqueue_report_cleanup ::
  "env \<Rightarrow> service_config \<Rightarrow> int \<Rightarrow> 's world \<Rightarrow> pystr res \<times> 's world" where
  "enqueue_report_cleanup e cfg retention_days w =
     (if retention_days < 1 then (Inl (ValueError ''retention_days must be >= 1''), w)
      else let (job_id, w) = enqueue e (report_cleanup_task_name cfg)
                 [(''retention_days'', py_str_int retention_days)] w
           in (Inr job_id, w))"


subsection \<open>Audit and dashboard\<close>

definition record_audit_event ::
  "env \<Rightarrow> time \<Rightarrow> pystr \<Rightarrow> pystr \<Rightarrow> (pystr \<times> json) list \<Rightarrow> pystr option \<Rightarrow> 's world \<Rightarrow> unit res \<times> 's world" where
  "record_audit_event e now tid event_type payload actor w =
     commit_with (add_audit e (w_ctr w) now tid event_type actor (JObj payload) (w_db w)) (Inr ()) (draw 1 w)"

definition iso_or_null :: "time option \<Rightarrow> json" where
  "iso_or_null t = (case t of None \<Rightarrow> JNull | Some t \<Rightarrow> JStr (datetime_isoformat t))"

definition status_counts :: "('a \<Rightarrow> pystr) \<Rightarrow> ('a \<Rightarrow> job_status) \<Rightarrow> pystr \<Rightarrow> 'a list \<Rightarrow> json" where
  "status_counts tenant_of status_of tid rows =
     JObj (map (\<lambda>st. (job_status_value st, JInt (repo_count tenant_of tid (\<lambda>r. status_of r = st) rows)))
       all_job_statuses)"

definition dashboard_summary :: "pystr \<Rightarrow> 's world \<Rightarrow> json" where
  "dashboard_summary tid w =
     (let d = w_db w;
          recent_parse_jobs = repo_list pj_tenant_id tid (\<lambda>_. True) (order_desc pj_created_at pj_id)
            (Some 10) (Some 0) (parse_jobs d);
          recent_reports = repo_list rp_tenant_id tid (\<lambda>_. True) (order_desc rp_created_at rp_id)
            (Some 10) (Some 0) (reports d)
      in JObj
        [(''totals'', JObj
            [(''files'', JInt (repo_count fl_tenant_id tid (\<lambda>_. True) (invoice_files d))),
             (''parse_jobs'', JInt (repo_count pj_tenant_id tid (\<lambda>_. True) (parse_jobs d))),
             (''invoices'', JInt (repo_count ir_tenant_id tid (\<lambda>_. True) (invoice_records d))),
             (''reports'', JInt (repo_count rp_tenant_id tid (\<lambda>_. True) (reports d)))]),
         (''parse_jobs_by_status'', status_counts pj_tenant_id pj_status tid (parse_jobs d)),
         (''reports_by_status'', status_counts rp_tenant_id rp_status tid (reports d)),
         (''recent_parse_jobs'', JList (map (\<lambda>j. JObj
            [(''id'', JStr (pj_id j)), (''status'', JStr (job_status_value (pj_status j))),
             (''records_count'', JInt (pj_records_count j)), (''failed_count'', JInt (pj_failed_count j)),
             (''created_at'', iso_or_null (Some (pj_created_at j))),
             (''finished_at'', iso_or_null (pj_finished_at j))]) recent_parse_jobs)),
         (''recent_reports'', JList (map (\<lambda>r. JObj
            [(''id'', JStr (rp_id r)), (''status'', JStr (job_status_value (rp_status r))),
             (''created_at'', iso_or_null (Some (rp_created_at r))),
             (''finished_at'', iso_or_null (rp_finished_at r))]) recent_reports))])"



subsection \<open>Idempotent creation of reports\<close>

lemma add_report_tables [simp]:
  "reports (add_report r d) = reports d @ [r]" "reports (add_report_links i js now d) = reports d"
  "idempotency_records (add_report r d) = idempotency_records d"
  "idempotency_records (add_report_links i js now d) = idempotency_records d"
  by (simp_all add: add_report_def add_report_links_def)

lemma new_report_fields [simp]:
  "rp_tenant_id (new_report i tid k fs flt now) = tid" "rp_id (new_report i tid k fs flt now) = i"
  "rp_idempotency_key (new_report i tid k fs flt now) = k" "rp_status (new_report i tid k fs flt now) = QUEUED"
  by (simp_all add: new_report_def)

lemma report_unit_resolves:
  assumes "db_ok (report_unit e n now r js fs d)" and "rp_idempotency_key r = Some k"
  shows "resolve_idempotent_report (rp_tenant_id r) k (report_unit e n now r js fs d) = Some r"
proof -
  let ?d = "report_unit e n now r js fs d"
  have "\<exists>x. resolve_record ''reports.create'' (rp_tenant_id r) k ?d = Some x \<and> ik_resource_id x = rp_id r"
    by (rule resolve_record_appended [OF assms(1)])
      (simp add: report_unit_def add_idempotency_if_def idempotency_add_idempotency assms(2))
  moreover have "scalar_one_or_none (\<lambda>i. rp_tenant_id i = rp_tenant_id r \<and> rp_id i = rp_id r) (reports ?d) = Some r"
    by (rule scalar_unique [of rp_id]) (use assms in \<open>auto simp: db_ok_unfold\<close>, simp add: report_unit_def)
  ultimately show ?thesis by (auto simp: resolve_idempotent_report_def)
qed

lemma create_report_job_resolves:
  assumes "create_report_job e cfg now tid js fs flt ikey race1 race2 w = (Inr r, w')"
    and "strip_or_none ikey = Some k"
  shows "resolve_idempotent_report tid k (w_db w') = Some r"
proof (cases "resolve_idempotent_report tid k (w_db w)")
  case (Some x)
  with assms show ?thesis by (auto simp: create_report_job_def Let_def split: if_splits)
next
  case None
  let ?n = "w_ctr w"
  let ?fs = "if fs = [] then default_report_formats else fs"
  let ?r = "(new_report (uuid4 e ?n) tid (Some k) ?fs (JObj flt) now)\<lparr>rp_queue_job_id := Some (uuid4 e (?n + 1))\<rparr>"
  let ?d2 = "race2 (race1 (w_db w))"
  obtain w1 where "commit_or_resolve (\<lambda>d. Option.bind (Some k) (\<lambda>k. resolve_idempotent_report tid k d))
      (Some k) ?d2 (report_unit e (?n + 2) now ?r js ?fs ?d2) ?r w1 = (Inr r, w')"
    using assms None
    by (auto simp: create_report_job_def Let_def enqueue_def split: if_splits option.splits)
  from commit_or_resolve_found [OF this] show ?thesis
    using report_unit_resolves [of e "?n + 2" now ?r js ?fs ?d2 k] by simp
qed

text \<open>
  A report created under an idempotency key is what every later request with that key
  gets, and the repeated request changes nothing, provided it asks for known formats.
\<close>

theorem create_report_job_idempotent:
  assumes "create_report_job e cfg now tid js fs flt ikey race1 race2 w = (Inr r, w')"
    and "strip_or_none ikey = Some k" and "strip_or_none ikey' = Some k"
    and "set fs' \<subseteq> set report_allowed_formats"
  shows "create_report_job e' cfg' now' tid js' fs' flt' ikey' race1' race2' w' = (Inr r, w')"
proof -
  have "missing_ids (if fs' = [] then default_report_formats else fs') report_allowed_formats = []"
    using assms(4) by (auto simp: missing_ids_Nil default_report_formats_def report_allowed_formats_def)
  then show ?thesis
    using create_report_job_resolves [OF assms(1,2)] assms(3) by (simp add: create_report_job_def Let_def)
qed

definition demo_report :: "report res \<times> unit world" where
  "demo_report =
     create_report_job toy_env default_config 5 ''t'' [] [''json''] [] (Some ''k'') (\<lambda>d. d) (\<lambda>d. d) demo_world"

lemma demo_report_ok: "\<not> isl (fst demo_report)"
  by code_simp

lemma create_report_job_idempotent_witness:
  "\<exists>r w'. demo_report = (Inr r, w') \<and>
     create_report_job toy_env default_config 7 ''t'' [''nope''] [''csv''] [] (Some '' k '') (\<lambda>d. d) (\<lambda>d. d) w' = (Inr r, w')"
proof -
  obtain r w' where r: "demo_report = (Inr r, w')"
    using demo_report_ok by (metis prod.collapse sum.collapse(2))
  have "set [''csv''] \<subseteq> set report_allowed_formats" by (simp add: report_allowed_formats_def)
  from create_report_job_idempotent [OF r [unfolded demo_report_def] demo_key this]
  have "create_report_job toy_env default_config 7 ''t'' [''nope''] [''csv''] [] (Some '' k '') (\<lambda>d. d) (\<lambda>d. d) w' = (Inr r, w')" .
  with r show ?thesis by blast
qed


subsection \<open>The vendor filter\<close>

lemma sql_like_percent_end: "sql_like [CHR ''%''] s"
  by (induction s) auto

lemma sql_like_prefix:
  "CHR ''%'' \<notin> set v \<Longrightarrow> CHR ''_'' \<notin> set v \<Longrightarrow>
   sql_like (v @ [CHR ''%'']) s \<longleftrightarrow> take (length v) s = v"
proof (induction v arbitrary: s)
  case Nil
  then show ?case by (simp add: sql_like_percent_end)
next
  case (Cons p v)
  then show ?case by (cases s) auto
qed

lemma sql_like_contains:
  assumes "CHR ''%'' \<notin> set v" and "CHR ''_'' \<notin> set v"
  shows "sql_like (CHR ''%'' # v @ [CHR ''%'']) s \<longleftrightarrow> py_contains v s"
proof (induction s)
  case Nil
  then show ?case using assms by (cases v) auto
next
  case (Cons c s)
  have "sql_like (CHR ''%'' # v @ [CHR ''%'']) (c # s) \<longleftrightarrow>
      sql_like (v @ [CHR ''%'']) (c # s) \<or> sql_like (CHR ''%'' # v @ [CHR ''%'']) s"
    by simp
  then show ?case using Cons sql_like_prefix [OF assms] by simp
qed

text \<open>
  Without wildcard characters the vendor filter is substring search on the lower-cased
  names; but the user's text is put into the LIKE pattern unescaped, so a single underscore
  asks for any invoice with a vendor at all.
\<close>

theorem vendor_filter_meaning:
  "(CHR ''%'' \<notin> set (py_lower v) \<and> CHR ''_'' \<notin> set (py_lower v) \<longrightarrow>
     invoice_matches lo \<lparr>if_parse_job_id = None, if_vendor = Some v, if_from_date = None, if_to_date = None\<rparr> r
       = (v = [] \<or> py_contains (py_lower v) (lo (ir_vendor r)))) \<and>
   (invoice_matches lo \<lparr>if_parse_job_id = None, if_vendor = Some ''_'', if_from_date = None, if_to_date = None\<rparr> r
     \<longleftrightarrow> lo (ir_vendor r) \<noteq> [])"
proof
  show "CHR ''%'' \<notin> set (py_lower v) \<and> CHR ''_'' \<notin> set (py_lower v) \<longrightarrow>
     invoice_matches lo \<lparr>if_parse_job_id = None, if_vendor = Some v, if_from_date = None, if_to_date = None\<rparr> r
       = (v = [] \<or> py_contains (py_lower v) (lo (ir_vendor r)))"
    by (auto simp: invoice_matches_def sql_like_contains)
  have "py_lower ''_'' = ''_''" by code_simp
  moreover have "sql_like ''%_%'' s \<longleftrightarrow> s \<noteq> []" for s
    by (induction s) (simp_all add: sql_like_percent_end)
  ultimately show "invoice_matches lo \<lparr>if_parse_job_id = None, if_vendor = Some ''_'', if_from_date = None, if_to_date = None\<rparr> r
     \<longleftrightarrow> lo (ir_vendor r) \<noteq> []"
    by (simp add: invoice_matches_def)
qed

definition demo_invoice :: "pystr \<Rightarrow> pystr \<Rightarrow> invoice_record" where
  "demo_invoice i vendor =
     \<lparr>ir_id = i, ir_tenant_id = ''t'', ir_parse_job_id = ''p'', ir_vendor = vendor, ir_file_name = ''a.pdf'',
      ir_invoice_number = None, ir_invoice_date = None, ir_invoice_total = Some 10, ir_invoice_vat = None,
      ir_currency = ''ILS'', ir_purpose = None, ir_raw_json = ''{}'', ir_created_at = 0\<rparr>"

lemma vendor_filter_meaning_witness:
  "invoice_matches (\<lambda>s. s) \<lparr>if_parse_job_id = None, if_vendor = Some ''ac'', if_from_date = None, if_to_date = None\<rparr>
     (demo_invoice ''i'' ''acme'')"
proof -
  have "py_lower ''ac'' = ''ac''" by code_simp
  then show ?thesis
    using vendor_filter_meaning [of "''ac''" "\<lambda>s. s" "demo_invoice ''i'' ''acme''"] by (simp add: demo_invoice_def)
qed


subsection \<open>Listings\<close>

text \<open>
  Walking through the pages of the invoice listing gives each matching invoice of the
  tenant exactly as often as it is stored, newest first, and the total that accompanies every
  page is their number; rows of other tenants never appear.
\<close>

theorem list_invoices_pages:
  assumes "1 \<le> n"
  shows "concat (map (\<lambda>k. fst (projr (list_invoices lo tid f (int n) (int (k * n)) w))) [0..<m]) =
      take (m * n) (order_desc ir_created_at ir_id
        (filter (\<lambda>r. ir_tenant_id r = tid \<and> invoice_matches lo f r) (invoice_records (w_db w)))) \<and>
    (\<forall>k. snd (projr (list_invoices lo tid f (int n) (int (k * n)) w)) =
      int (length (filter (\<lambda>r. ir_tenant_id r = tid \<and> invoice_matches lo f r) (invoice_records (w_db w)))))"
proof -
  let ?all = "order_desc ir_created_at ir_id
        (filter (\<lambda>r. ir_tenant_id r = tid \<and> invoice_matches lo f r) (invoice_records (w_db w)))"
  have page: "list_invoices lo tid f (int n) (int (k * n)) w =
      Inr (limit_offset (int n) (int (k * n)) ?all,
           repo_count ir_tenant_id tid (invoice_matches lo f) (invoice_records (w_db w)))" for k
  proof -
    have "repo_list ir_tenant_id tid (invoice_matches lo f) (order_desc ir_created_at ir_id) None None
        (invoice_records (w_db w)) = ?all"
      by (simp add: repo_list_def)
    then show ?thesis
      using assms zero_le_mult_iff [of "int k" "int n"] invoice_table.list_page [of "int n" "int (k * n)" tid "invoice_matches lo f"
          "order_desc ir_created_at ir_id" "invoice_records (w_db w)"]
      by (simp add: list_invoices_def not_less)
  qed
  have "concat (map (\<lambda>k. limit_offset (int n) (int (k * n)) ?all) [0..<m]) = take (m * n) ?all"
    using assms by (intro limit_offset_pages) simp
  then show ?thesis unfolding page by (simp add: repo_count_def)
qed

lemma list_invoices_pages_witness:
  "concat (map (\<lambda>k. fst (projr (list_invoices (\<lambda>s. s) ''t''
      \<lparr>if_parse_job_id = None, if_vendor = None, if_from_date = None, if_to_date = None\<rparr> (int 2) (int (k * 2))
      (demo_world\<lparr>w_db := empty_db\<lparr>invoice_records := [demo_invoice ''i'' ''a'', demo_invoice ''j'' ''b'']\<rparr>\<rparr>)))) [0..<3]) =
    [demo_invoice ''j'' ''b'', demo_invoice ''i'' ''a'']"
proof -
  have lt: "sort_key (\<lambda>r. (ir_created_at r, ir_id r)) [demo_invoice ''i'' ''a'', demo_invoice ''j'' ''b''] =
      [demo_invoice ''i'' ''a'', demo_invoice ''j'' ''b'']"
    by code_simp
  show ?thesis
    using list_invoices_pages [of 2 "\<lambda>s. s" "''t''"
        "\<lparr>if_parse_job_id = None, if_vendor = None, if_from_date = None, if_to_date = None\<rparr>"
        "demo_world\<lparr>w_db := empty_db\<lparr>invoice_records := [demo_invoice ''i'' ''a'', demo_invoice ''j'' ''b'']\<rparr>\<rparr>" 3]
    by (simp add: invoice_matches_def order_desc_def lt) (simp add: demo_invoice_def)
qed

end
