(* ===== verification/Worker_Reports.thy ===== *)
theory Worker_Reports
  imports Service_Reports
begin

text \<open>
  The report worker of \<open>saas/worker.py\<close>: the export formats (indented JSON, CSV, a summary
  per vendor, a placeholder PDF), \<open>run_report_job\<close> and \<open>run_report_retention_cleanup\<close>.
  The worker reads and writes files through a storage backend given as its operations;
  \<open>pypdf\<close> is what the PDF library writes for a blank page, None where it is not installed.
\<close>

subsection \<open>Export formats\<close>

definition opt_float :: "rat option \<Rightarrow> json" where
  "opt_float v = (case v of None \<Rightarrow> JNull | Some r \<Rightarrow> JFloat r)"

definition opt_date :: "py_date option \<Rightarrow> json" where
  "opt_date v = (case v of None \<Rightarrow> JNull | Some d \<Rightarrow> JStr (date_isoformat d))"

definition invoice_to_export_row :: "invoice_record \<Rightarrow> (pystr \<times> json) list" where
  "invoice_to_export_row r =
     [(''id'', JStr (ir_id r)), (''parse_job_id'', JStr (ir_parse_job_id r)),
      (''vendor'', JStr (ir_vendor r)), (''file_name'', JStr (ir_file_name r)),
      (''invoice_number'', json_opt_str (ir_invoice_number r)),
      (''invoice_date'', opt_date (ir_invoice_date r)),
      (''invoice_total'', opt_float (ir_invoice_total r)), (''invoice_vat'', opt_float (ir_invoice_vat r)),
      (''currency'', JStr (ir_currency r)), (''purpose'', json_opt_str (ir_purpose r))]"

definition nl :: pystr where "nl = [CHR 0x0A]"
definition crlf :: pystr where "crlf = [CHR 0x0D, CHR 0x0A]"

text \<open>\<open>json.dumps(.., ensure_ascii=False, indent=2)\<close>\<close>

definition indent_of :: "nat \<Rightarrow> pystr" where
  "indent_of k = nl @ replicate (2 * k) (CHR '' '')"

fun json_pretty :: "nat \<Rightarrow> json \<Rightarrow> pystr" where
  "json_pretty k (JList js) =
     (if js = [] then ''[]''
      else ''['' @ indent_of (k + 1) @ py_join ('','' @ indent_of (k + 1)) (map (json_pretty (k + 1)) js)
           @ indent_of k @ '']'')"
| "json_pretty k (JObj kvs) =
     (if kvs = [] then ''{}''
      else ''{'' @ indent_of (k + 1)
           @ py_join ('','' @ indent_of (k + 1))
               (map (\<lambda>(key, v). json_quote False key @ '': '' @ json_pretty (k + 1) v) kvs)
           @ indent_of k @ ''}'')"
| "json_pretty k j = json_str False [] [] j"

definition json_report_bytes :: "invoice_record list \<Rightarrow> bytes" where
  "json_report_bytes records = utf8 (json_pretty 0 (JList (map (\<lambda>r. JObj (invoice_to_export_row r)) records)))"

text \<open>The default dialect of \<open>csv.writer\<close>: quotes only where a field needs them.\<close>

definition csv_special :: "char \<Rightarrow> bool" where
  "csv_special c = (c = CHR '','' \<or> c = quote_c \<or> c = CHR 0x0D \<or> c = CHR 0x0A)"

definition csv_field :: "pystr \<Rightarrow> pystr" where
  "csv_field s =
     (if list_ex csv_special s
      then [quote_c] @ concat (map (\<lambda>c. if c = quote_c then [quote_c, quote_c] else [c]) s) @ [quote_c]
      else s)"

definition csv_row :: "pystr list \<Rightarrow> pystr" where
  "csv_row cells =
     (if cells = [[]] then [quote_c, quote_c] else py_join '','' (map csv_field cells)) @ crlf"

text \<open>A cell: None is empty, a float its repr.\<close>

fun csv_cell :: "json \<Rightarrow> pystr" where
  "csv_cell JNull = []"
| "csv_cell v = py_str v"

definition export_columns :: "pystr list" where
  "export_columns =
     [''id'', ''parse_job_id'', ''vendor'', ''file_name'', ''invoice_number'', ''invoice_date'',
      ''invoice_total'', ''invoice_vat'', ''currency'', ''purpose'']"

definition csv_report_bytes :: "invoice_record list \<Rightarrow> bytes" where
  "csv_report_bytes records =
     utf8 (csv_row export_columns
       @ concat (map (\<lambda>r. csv_row (map (\<lambda>c. case map_of (invoice_to_export_row r) c of
            None \<Rightarrow> [] | Some v \<Rightarrow> csv_cell v) export_columns)) records))"

text \<open>The totals of the summary: a dictionary by vendor, floats added as floats.\<close>

definition get_total :: "pystr \<Rightarrow> (pystr \<times> rat) list \<Rightarrow> rat" where
  "get_total v totals = (case map_of totals v of None \<Rightarrow> 0 | Some x \<Rightarrow> x)"

definition add_vendor_total :: "invoice_record \<Rightarrow> (pystr \<times> rat) list \<Rightarrow> (pystr \<times> rat) list" where
  "add_vendor_total r totals =
     dict_set (ir_vendor r)
       (py_float_add (get_total (ir_vendor r) totals)
          (case ir_invoice_total r of None \<Rightarrow> 0 | Some x \<Rightarrow> x)) totals"

definition vendor_totals :: "invoice_record list \<Rightarrow> (pystr \<times> rat) list" where
  "vendor_totals records = fold add_vendor_total records []"

definition summary_csv_report_bytes :: "invoice_record list \<Rightarrow> bytes" where
  "summary_csv_report_bytes records =
     (let totals = vendor_totals records
      in utf8 (csv_row [''vendor'', ''invoice_total'']
           @ concat (map (\<lambda>v. csv_row [v, py_fixed2 (get_total v totals)]) (sort (map fst totals)))))"

definition minimal_pdf :: bytes where
  "minimal_pdf =
     ''%PDF-1.1'' @ nl
     @ ''1 0 obj<</Type/Catalog/Pages 2 0 R>>endobj'' @ nl
     @ ''2 0 obj<</Type/Pages/Count 1/Kids[3 0 R]>>endobj'' @ nl
     @ ''3 0 obj<</Type/Page/Parent 2 0 R/MediaBox[0 0 595 842]>>endobj'' @ nl
     @ ''xref'' @ nl @ ''0 4'' @ nl @ ''0000000000 65535 f '' @ nl @ ''0000000010 00000 n '' @ nl
     @ ''0000000053 00000 n '' @ nl @ ''0000000110 00000 n '' @ nl
     @ ''trailer<</Size 4/Root 1 0 R>>'' @ nl @ ''startxref'' @ nl @ ''170'' @ nl @ ''%%EOF'' @ nl"

definition pdf_report_bytes :: "bytes option \<Rightarrow> bytes" where
  "pdf_report_bytes pypdf = (case pypdf of None \<Rightarrow> minimal_pdf | Some b \<Rightarrow> b)"


subsection \<open>\<open>run_report_job\<close>\<close>

definition report_by_id :: "pystr \<Rightarrow> db \<Rightarrow> report option" where
  "report_by_id report_id d = scalar_one_or_none (\<lambda>r. rp_id r = report_id) (reports d)"

text \<open>\<open>list(json.loads(text))\<close>: a list's items, an object's keys, a string's characters.\<close>

definition loads_list :: "pystr \<Rightarrow> (json list) res" where
  "loads_list raw =
     (case json_loads raw of
        None \<Rightarrow> Inl JSONDecodeError
      | Some (JList js) \<Rightarrow> Inr js
      | Some (JObj kvs) \<Rightarrow> Inr (map (\<lambda>kv. JStr (fst kv)) kvs)
      | Some (JStr s) \<Rightarrow> Inr (map (\<lambda>c. JStr [c]) s)
      | Some _ \<Rightarrow> Inl (TypeError ''object is not iterable''))"

definition report_formats :: "report \<Rightarrow> (json list) res" where
  "report_formats r =
     res_bind (loads_list (rp_requested_formats_json r))
       (\<lambda>fs. Inr (if fs = [] then map JStr default_report_formats else fs))"

definition report_invoices :: "report \<Rightarrow> db \<Rightarrow> invoice_record list" where
  "report_invoices r d =
     (let parse_job_ids = map rj_parse_job_id (filter (\<lambda>l. rj_report_id l = rp_id r) (report_parse_jobs d))
      in filter (\<lambda>i. ir_tenant_id i = rp_tenant_id r \<and>
                     (parse_job_ids = [] \<or> ir_parse_job_id i \<in> set parse_job_ids)) (invoice_records d))"

definition artifact_key :: "report \<Rightarrow> pystr \<Rightarrow> pystr" where
  "artifact_key r file_name = ''artifacts/'' @ rp_tenant_id r @ ''/'' @ rp_id r @ ''/'' @ file_name"

text \<open>The file name and the bytes of one requested format.\<close>

definition render_format :: "bytes option \<Rightarrow> invoice_record list \<Rightarrow> json \<Rightarrow> (pystr \<times> bytes) res" where
  "render_format pypdf invoices f =
     (if f = JStr ''json'' then Inr (''report.json'', json_report_bytes invoices)
      else if f = JStr ''csv'' then Inr (''report.csv'', csv_report_bytes invoices)
      else if f = JStr ''summary_csv'' then Inr (''report.summary.csv'', summary_csv_report_bytes invoices)
      else if f = JStr ''pdf'' then Inr (''report.pdf'', pdf_report_bytes pypdf)
      else Inl (ValueError (''unsupported report format: '' @ py_str f)))"

text \<open>The loop over the formats: what is saved stays saved when a later format fails.\<close>

fun save_artifacts ::
  "'s storage_ops \<Rightarrow> bytes option \<Rightarrow> report \<Rightarrow> invoice_record list \<Rightarrow> json list \<Rightarrow> 's
    \<Rightarrow> ((pystr \<times> pystr \<times> int) list) res \<times> 's" where
  "save_artifacts ops pypdf r invoices [] s = (Inr [], s)"
| "save_artifacts ops pypdf r invoices (f # fs) s =
     (case render_format pypdf invoices f of
        Inl err \<Rightarrow> (Inl err, s)
      | Inr (file_name, data) \<Rightarrow>
          (case st_save ops (artifact_key r file_name) data s of
             (Inl err, s') \<Rightarrow> (Inl err, s')
           | (Inr obj, s') \<Rightarrow>
               (case save_artifacts ops pypdf r invoices fs s' of
                  (Inl err, s'') \<Rightarrow> (Inl err, s'')
                | (Inr rest, s'') \<Rightarrow> (Inr ((py_str f, so_key obj, so_size obj) # rest), s''))))"

fun artifact_rows ::
  "env \<Rightarrow> nat \<Rightarrow> time \<Rightarrow> report \<Rightarrow> (pystr \<times> pystr \<times> int) list \<Rightarrow> report_artifact list" where
  "artifact_rows e n now r [] = []"
| "artifact_rows e n now r ((fmt, key, sz) # rest) =
     \<lparr>ra_id = uuid4 e n, ra_tenant_id = rp_tenant_id r, ra_report_id = rp_id r, ra_format = fmt,
      ra_storage_path = key, ra_bytes = Some sz, ra_created_at = now\<rparr> # artifact_rows e (n + 1) now r rest"

definition mark_report :: "(report \<Rightarrow> report) \<Rightarrow> pystr \<Rightarrow> db \<Rightarrow> db" where
  "mark_report f report_id d = d\<lparr>reports := upd_where (\<lambda>r. rp_id r = report_id) f (reports d)\<rparr>"

definition start_report_job :: "time \<Rightarrow> pystr \<Rightarrow> 's world \<Rightarrow> unit res \<times> 's world" where
  "start_report_job now report_id w =
     (case report_by_id report_id (w_db w) of
        None \<Rightarrow> (Inl (ValueError (''report not found: '' @ report_id)), w)
      | Some _ \<Rightarrow>
          commit_with (mark_report (\<lambda>r. r\<lparr>rp_status := RUNNING, rp_started_at := Some now\<rparr>) report_id (w_db w))
            (Inr ()) w)"

definition execute_report_job ::
  "env \<Rightarrow> 's storage_ops \<Rightarrow> bytes option \<Rightarrow> time \<Rightarrow> pystr \<Rightarrow> 's world \<Rightarrow> unit res \<times> 's world" where
  "execute_report_job e ops pypdf now report_id w =
     (let d = w_db w in
      case report_by_id report_id d of
        None \<Rightarrow> (Inl (OtherError ''No row was found when one was required''), w)
      | Some r \<Rightarrow>
          (case report_formats r of
             Inl err \<Rightarrow> (Inl err, w)
           | Inr formats \<Rightarrow>
               (case save_artifacts ops pypdf r (report_invoices r d) formats (w_store w) of
                  (Inl err, s) \<Rightarrow> (Inl err, w\<lparr>w_store := s\<rparr>)
                | (Inr artifacts, s) \<Rightarrow>
                    let d = d\<lparr>report_artifacts :=
                              del_where (\<lambda>a. ra_report_id a = rp_id r) (report_artifacts d)
                              @ artifact_rows e (w_ctr w) now r artifacts\<rparr>;
                        d = mark_report (\<lambda>r. r\<lparr>rp_error_message := None, rp_status := SUCCEEDED,
                              rp_finished_at := Some now\<rparr>) report_id d
                    in commit_with d (Inr ()) (draw (length artifacts) (w\<lparr>w_store := s\<rparr>)))))"

definition fail_report_job :: "time \<Rightarrow> pystr \<Rightarrow> exn \<Rightarrow> 's world \<Rightarrow> job_status res \<times> 's world" where
  "fail_report_job now report_id err w =
     commit_with (mark_report (\<lambda>r. r\<lparr>rp_status := FAILED, rp_error_message := Some (exn_text err),
         rp_finished_at := Some now\<rparr>) report_id (w_db w))
       (Inr FAILED) w"

definition run_report_job ::
  "env \<Rightarrow> 's storage_ops \<Rightarrow> bytes option \<Rightarrow> time \<Rightarrow> time \<Rightarrow> pystr \<Rightarrow> 's world \<Rightarrow> job_status res \<times> 's world" where
  "run_report_job e ops pypdf started finished report_id w =
     (case start_report_job started report_id w of
        (Inl err, w) \<Rightarrow> (Inl err, w)
      | (Inr _, w) \<Rightarrow>
          (case execute_report_job e ops pypdf finished report_id w of
             (Inr _, w) \<Rightarrow> (Inr SUCCEEDED, w)
           | (Inl err, w) \<Rightarrow> fail_report_job finished report_id err w))"


subsection \<open>\<open>run_report_retention_cleanup\<close>\<close>

fun delete_objects :: "'s storage_ops \<Rightarrow> pystr list \<Rightarrow> 's \<Rightarrow> unit res \<times> 's" where
  "delete_objects ops [] s = (Inr (), s)"
| "delete_objects ops (k # ks) s =
     (case st_delete ops k s of
        (Inl err, s') \<Rightarrow> (Inl err, s')
      | (Inr _, s') \<Rightarrow> delete_objects ops ks s')"

definition purge_report_rows :: "report \<Rightarrow> db \<Rightarrow> db" where
  "purge_report_rows r d =
     d\<lparr>report_artifacts := del_where (\<lambda>a. ra_report_id a = rp_id r) (report_artifacts d),
       report_parse_jobs := del_where (\<lambda>l. rj_report_id l = rp_id r) (report_parse_jobs d),
       idempotency_records :=
         del_where (\<lambda>i. ik_resource_type i = ''report'' \<and> ik_resource_id i = rp_id r) (idempotency_records d),
       reports := del_where (\<lambda>x. rp_id x = rp_id r) (reports d)\<rparr>"

fun purge_reports :: "'s storage_ops \<Rightarrow> report list \<Rightarrow> db \<Rightarrow> 's \<Rightarrow> db res \<times> 's" where
  "purge_reports ops [] d s = (Inr d, s)"
| "purge_reports ops (r # rs) d s =
     (case delete_objects ops
             (map ra_storage_path (filter (\<lambda>a. ra_report_id a = rp_id r) (report_artifacts d))) s of
        (Inl err, s') \<Rightarrow> (Inl err, s')
      | (Inr _, s') \<Rightarrow> purge_reports ops rs (purge_report_rows r d) s')"

definition stale_reports :: "time \<Rightarrow> db \<Rightarrow> report list" where
  "stale_reports cutoff d =
     filter (\<lambda>r. case rp_finished_at r of None \<Rightarrow> False | Some t \<Rightarrow> t < cutoff) (reports d)"

definition run_report_retention_cleanup ::
  "'s storage_ops \<Rightarrow> time \<Rightarrow> int \<Rightarrow> 's world \<Rightarrow> int res \<times> 's world" where
  "run_report_retention_cleanup ops now retention_days w =
     (if retention_days < 1 then (Inl (ValueError ''retention_days must be >= 1''), w)
      else
        let stale = stale_reports (now - days retention_days) (w_db w) in
        (case purge_reports ops stale (w_db w) (w_store w) of
           (Inl err, s) \<Rightarrow> (Inl err, w\<lparr>w_store := s\<rparr>)
         | (Inr d, s) \<Rightarrow> commit_with d (Inr (int (length stale))) (w\<lparr>w_store := s\<rparr>)))"



subsection \<open>What a run of the report worker changes\<close>

lemma mark_report_tables [simp]:
  "tenants (mark_report f i d) = tenants d" "users (mark_report f i d) = users d"
  "memberships (mark_report f i d) = memberships d" "auth_sessions (mark_report f i d) = auth_sessions d"
  "provider_configs (mark_report f i d) = provider_configs d" "api_keys (mark_report f i d) = api_keys d"
  "invoice_files (mark_report f i d) = invoice_files d" "parse_jobs (mark_report f i d) = parse_jobs d"
  "collection_jobs (mark_report f i d) = collection_jobs d" "parse_job_files (mark_report f i d) = parse_job_files d"
  "report_parse_jobs (mark_report f i d) = report_parse_jobs d"
  "invoice_records (mark_report f i d) = invoice_records d"
  "reports (mark_report f i d) = upd_where (\<lambda>r. rp_id r = i) f (reports d)"
  "report_artifacts (mark_report f i d) = report_artifacts d" "audit_events (mark_report f i d) = audit_events d"
  "idempotency_records (mark_report f i d) = idempotency_records d"
  by (simp_all add: mark_report_def)

lemma find_map_same: "(\<And>x. P (f x) = P x) \<Longrightarrow> find P (map f xs) = map_option f (find P xs)"
  by (induction xs) auto

lemma scalar_upd_where_same:
  assumes "\<And>x. P x \<Longrightarrow> P (f x)"
  shows "scalar_one_or_none P (upd_where P f xs) = map_option f (scalar_one_or_none P xs)"
  unfolding scalar_one_or_none_def upd_where_def
  by (induction xs) (auto simp: assms)

lemma report_by_id_mark:
  "(\<And>r. rp_id (f r) = rp_id r) \<Longrightarrow>
     report_by_id i (mark_report f i d) = map_option f (report_by_id i d)"
  by (simp add: report_by_id_def scalar_upd_where_same)

lemma report_by_idD: "report_by_id i d = Some r \<Longrightarrow> rp_id r = i \<and> r \<in> set (reports d)"
  by (auto simp: report_by_id_def dest: scalar_SomeD)

text \<open>Marking a report keeps the constraints when the mark keeps its identity and its key.\<close>

lemma db_ok_mark_report:
  assumes "db_ok d" and "\<And>r. rp_id (f r) = rp_id r" and "\<And>r. rp_idem_key (f r) = rp_idem_key r"
  shows "db_ok (mark_report f i d)"
  using assms by (simp add: db_ok_unfold unique_upd_where unique_nullable_upd_where)

lemma start_report_cases:
  assumes "db_ok (w_db w)"
  shows "start_report_job now i w =
     (case report_by_id i (w_db w) of
        None \<Rightarrow> (Inl (ValueError (''report not found: '' @ i)), w)
      | Some _ \<Rightarrow> (Inr (), w\<lparr>w_db := mark_report (\<lambda>r. r\<lparr>rp_status := RUNNING, rp_started_at := Some now\<rparr>) i (w_db w)\<rparr>))"
  using db_ok_mark_report [OF assms, of "\<lambda>r. r\<lparr>rp_status := RUNNING, rp_started_at := Some now\<rparr>" i]
  by (auto simp: start_report_job_def commit_ok rp_idem_key_def split: option.splits)

lemma save_artifacts_keys:
  "artifact_key r = artifact_key r' \<Longrightarrow> save_artifacts ops pypdf r invs fs s = save_artifacts ops pypdf r' invs fs s"
  by (induction ops pypdf r invs fs s rule: save_artifacts.induct) (auto split: sum.splits prod.splits)

lemma save_artifacts_formats:
  "save_artifacts ops pypdf r invs fs s = (Inr arts, s') \<Longrightarrow> map fst arts = map py_str fs"
  by (induction ops pypdf r invs fs s arbitrary: arts s' rule: save_artifacts.induct)
    (fastforce split: sum.splits prod.splits)+

lemma artifact_rows_map:
  "map ra_format (artifact_rows e n now r arts) = map fst arts"
  "map ra_storage_path (artifact_rows e n now r arts) = map (\<lambda>a. fst (snd a)) arts"
  by (induction e n now r arts rule: artifact_rows.induct) auto

lemma artifact_rows_own:
  "a \<in> set (artifact_rows e n now r arts) \<Longrightarrow> ra_report_id a = rp_id r \<and> ra_tenant_id a = rp_tenant_id r"
  by (induction e n now r arts rule: artifact_rows.induct) auto

lemma execute_store:
  "w_store (snd (execute_report_job e ops pypdf now i w)) =
     (case report_by_id i (w_db w) of
        None \<Rightarrow> w_store w
      | Some r \<Rightarrow>
          (case report_formats r of
             Inl _ \<Rightarrow> w_store w
           | Inr fs \<Rightarrow> snd (save_artifacts ops pypdf r (report_invoices r (w_db w)) fs (w_store w))))"
  by (auto simp: execute_report_job_def Let_def split: option.splits sum.splits prod.splits)

lemma fail_store [simp]: "w_store (snd (fail_report_job now i err w)) = w_store w"
  by (simp add: fail_report_job_def)

lemma run_report_store:
  assumes "db_ok (w_db w)"
  shows "w_store (snd (run_report_job e ops pypdf t1 t2 i w)) =
     (case report_by_id i (w_db w) of
        None \<Rightarrow> w_store w
      | Some r \<Rightarrow>
          (case report_formats r of
             Inl _ \<Rightarrow> w_store w
           | Inr fs \<Rightarrow> snd (save_artifacts ops pypdf r (report_invoices r (w_db w)) fs (w_store w))))"
proof (cases "report_by_id i (w_db w)")
  case None
  then show ?thesis by (simp add: run_report_job_def start_report_cases [OF assms])
next
  case (Some r)
  let ?f = "\<lambda>r. r\<lparr>rp_status := RUNNING, rp_started_at := Some t1\<rparr>"
  let ?w = "w\<lparr>w_db := mark_report ?f i (w_db w)\<rparr>"
  have by_id: "report_by_id i (w_db ?w) = Some (?f r)"
    using report_by_id_mark [of ?f i "w_db w"] Some by simp
  have inv: "report_invoices (?f r) (w_db ?w) = report_invoices r (w_db w)"
    by (simp add: report_invoices_def)
  have "report_formats (?f r) = report_formats r" by (simp add: report_formats_def)
  moreover have "save_artifacts ops pypdf (?f r) = save_artifacts ops pypdf r"
    by (intro ext save_artifacts_keys) (simp add: artifact_key_def fun_eq_iff)
  moreover have "w_store (snd (run_report_job e ops pypdf t1 t2 i w)) = w_store (snd (execute_report_job e ops pypdf t2 i ?w))"
    by (auto simp: run_report_job_def start_report_cases [OF assms] Some split: prod.splits sum.splits)
  ultimately show ?thesis using Some by_id inv by (simp add: execute_store split: sum.splits)
qed

text \<open>
  The files a report writes do not depend on the filters the report was requested with:
  whatever is stored in \<open>filters_json\<close>, the worker writes the same bytes.
\<close>

theorem report_filters_ignored:
  assumes "db_ok (w_db w)"
  shows "w_store (snd (run_report_job e ops pypdf t1 t2 i
      (w\<lparr>w_db := mark_report (\<lambda>r. r\<lparr>rp_filters_json := x\<rparr>) i (w_db w)\<rparr>))) =
    w_store (snd (run_report_job e ops pypdf t1 t2 i w))"
proof -
  let ?f = "\<lambda>r. r\<lparr>rp_filters_json := x\<rparr>"
  have ok: "db_ok (w_db (w\<lparr>w_db := mark_report ?f i (w_db w)\<rparr>))"
    using db_ok_mark_report [OF assms, of ?f i] by (simp add: rp_idem_key_def)
  have by_id: "report_by_id i (mark_report ?f i (w_db w)) = map_option ?f (report_by_id i (w_db w))"
    by (rule report_by_id_mark) simp
  have inv: "report_invoices (?f r) (mark_report ?f i (w_db w)) = report_invoices r (w_db w)" for r
    by (simp add: report_invoices_def)
  have fmt: "report_formats (?f r) = report_formats r" for r by (simp add: report_formats_def)
  have save: "save_artifacts ops pypdf (?f r) = save_artifacts ops pypdf r" for r
    by (intro ext save_artifacts_keys) (simp add: artifact_key_def fun_eq_iff)
  show ?thesis
    unfolding run_report_store [OF ok] run_report_store [OF assms]
    by (auto simp: by_id inv fmt save split: option.splits sum.splits)
qed

text \<open>
  C15: A report never shows another tenant's invoices: replacing the invoices of all other
  tenants by anything leaves every byte the worker writes as it was.
\<close>

theorem report_tenant_noninterference:
  assumes "db_ok (w_db w)" and "db_ok ((w_db w)\<lparr>invoice_records := recs\<rparr>)"
    and "report_by_id i (w_db w) = Some r"
    and "filter (\<lambda>x. ir_tenant_id x = rp_tenant_id r) recs =
         filter (\<lambda>x. ir_tenant_id x = rp_tenant_id r) (invoice_records (w_db w))"
  shows "w_store (snd (run_report_job e ops pypdf t1 t2 i (w\<lparr>w_db := (w_db w)\<lparr>invoice_records := recs\<rparr>\<rparr>))) =
    w_store (snd (run_report_job e ops pypdf t1 t2 i w))"
proof -
  let ?d = "(w_db w)\<lparr>invoice_records := recs\<rparr>"
  have by_tenant: "report_invoices r d = filter (\<lambda>x. map rj_parse_job_id (filter (\<lambda>l. rj_report_id l = rp_id r)
      (report_parse_jobs d)) = [] \<or> ir_parse_job_id x \<in> set (map rj_parse_job_id (filter (\<lambda>l. rj_report_id l = rp_id r)
      (report_parse_jobs d)))) (filter (\<lambda>x. ir_tenant_id x = rp_tenant_id r) (invoice_records d))" for d
    unfolding report_invoices_def Let_def filter_filter by (rule filter_cong) auto
  have "report_invoices r ?d = report_invoices r (w_db w)"
    unfolding by_tenant by (simp add: assms(4))
  moreover have "report_by_id i ?d = Some r" using assms(3) by (simp add: report_by_id_def)
  ultimately show ?thesis
    using run_report_store [of "w\<lparr>w_db := ?d\<rparr>" e ops pypdf t1 t2 i] run_report_store [OF assms(1), of e ops pypdf t1 t2 i]
      assms(2,3) by (simp split: sum.splits)
qed


lemma filter_deleted: "filter P (del_where P xs) = []"
  by (auto simp: del_where_def filter_empty_conv)

lemma filter_not_deleted: "filter (\<lambda>x. \<not> P x) (del_where P xs) = filter (\<lambda>x. \<not> P x) xs"
  by (simp add: del_where_def)

lemma execute_failed: "execute_report_job e ops pypdf now i w = (Inl err, w') \<Longrightarrow> w_db w' = w_db w"
  by (auto simp: execute_report_job_def Let_def split: option.splits sum.splits prod.splits
      dest!: commit_cases)

lemma execute_succeeded:
  assumes "execute_report_job e ops pypdf now i w = (Inr u, w')"
  shows "\<exists>r fs. report_by_id i (w_db w) = Some r \<and> report_formats r = Inr fs \<and>
    map ra_format (filter (\<lambda>a. ra_report_id a = i) (report_artifacts (w_db w'))) = map py_str fs \<and>
    filter (\<lambda>a. ra_report_id a \<noteq> i) (report_artifacts (w_db w')) =
      filter (\<lambda>a. ra_report_id a \<noteq> i) (report_artifacts (w_db w)) \<and>
    report_by_id i (w_db w') =
      Some (r\<lparr>rp_error_message := None, rp_status := SUCCEEDED, rp_finished_at := Some now\<rparr>) \<and>
    db_ok (w_db w')"
proof -
  let ?f = "\<lambda>r. r\<lparr>rp_error_message := None, rp_status := SUCCEEDED, rp_finished_at := Some now\<rparr>"
  obtain r fs arts s where r: "report_by_id i (w_db w) = Some r" and fs: "report_formats r = Inr fs"
    and arts: "save_artifacts ops pypdf r (report_invoices r (w_db w)) fs (w_store w) = (Inr arts, s)"
    and c: "commit_with (mark_report ?f i ((w_db w)\<lparr>report_artifacts :=
        del_where (\<lambda>a. ra_report_id a = rp_id r) (report_artifacts (w_db w)) @ artifact_rows e (w_ctr w) now r arts\<rparr>))
        (Inr ()) (draw (length arts) (w\<lparr>w_store := s\<rparr>)) = (Inr u, w')"
    using assms by (auto simp: execute_report_job_def Let_def split: option.splits sum.splits prod.splits)
  let ?rows = "artifact_rows e (w_ctr w) now r arts"
  from commit_cases [OF c] have ok: "db_ok (w_db w')"
    and w': "w_db w' = mark_report ?f i ((w_db w)\<lparr>report_artifacts :=
        del_where (\<lambda>a. ra_report_id a = rp_id r) (report_artifacts (w_db w)) @ ?rows\<rparr>)"
    by auto
  have id: "rp_id r = i" using report_by_idD [OF r] by simp
  have own: "\<forall>a\<in>set ?rows. ra_report_id a = i" using artifact_rows_own id by blast
  have "filter (\<lambda>a. ra_report_id a = i) ?rows = ?rows" "filter (\<lambda>a. ra_report_id a \<noteq> i) ?rows = []"
    using own by (auto simp: filter_id_conv filter_empty_conv)
  moreover have "map fst arts = map py_str fs" by (rule save_artifacts_formats [OF arts])
  moreover have "report_by_id i (w_db w') = Some (?f r)"
  proof -
    have "report_by_id i ((w_db w)\<lparr>report_artifacts := x\<rparr>) = Some r" for x using r by (simp add: report_by_id_def)
    then show ?thesis unfolding w' using report_by_id_mark [of ?f i] by simp
  qed
  ultimately show ?thesis
    using r fs ok by (intro exI [of _ r] exI [of _ fs])
      (simp add: w' id artifact_rows_map filter_deleted filter_not_deleted)
qed

text \<open>
  C14: A run of the report worker that returns leaves the report either succeeded, with one
  artifact per requested format in the order requested and no leftovers of earlier runs, or
  failed, with its artifacts as they were; artifacts of other reports are never touched.
\<close>

theorem run_report_job_outcome:
  assumes "db_ok (w_db w)" and "run_report_job e ops pypdf t1 t2 i w = (Inr st, w')"
  shows "\<exists>r r'. report_by_id i (w_db w) = Some r \<and> report_by_id i (w_db w') = Some r' \<and>
    rp_status r' = st \<and> rp_finished_at r' = Some t2 \<and> rp_started_at r' = Some t1 \<and>
    filter (\<lambda>a. ra_report_id a \<noteq> i) (report_artifacts (w_db w')) =
      filter (\<lambda>a. ra_report_id a \<noteq> i) (report_artifacts (w_db w)) \<and>
    ((st = SUCCEEDED \<and> rp_error_message r' = None \<and>
      (\<exists>fs. report_formats r = Inr fs \<and>
        map ra_format (filter (\<lambda>a. ra_report_id a = i) (report_artifacts (w_db w'))) = map py_str fs)) \<or>
     (st = FAILED \<and> rp_error_message r' \<noteq> None \<and>
      report_artifacts (w_db w') = report_artifacts (w_db w))) \<and>
    db_ok (w_db w')"
proof -
  let ?f = "\<lambda>r. r\<lparr>rp_status := RUNNING, rp_started_at := Some t1\<rparr>"
  let ?w = "w\<lparr>w_db := mark_report ?f i (w_db w)\<rparr>"
  obtain r where r: "report_by_id i (w_db w) = Some r"
    using assms(2) by (auto simp: run_report_job_def start_report_cases [OF assms(1)] split: option.splits)
  have by_id: "report_by_id i (w_db ?w) = Some (?f r)"
    using report_by_id_mark [of ?f i "w_db w"] r by simp
  have ok: "db_ok (w_db ?w)"
    using db_ok_mark_report [OF assms(1), of ?f i] by (simp add: rp_idem_key_def)
  have run: "run_report_job e ops pypdf t1 t2 i w =
      (case execute_report_job e ops pypdf t2 i ?w of
         (Inr _, w) \<Rightarrow> (Inr SUCCEEDED, w) | (Inl err, w) \<Rightarrow> fail_report_job t2 i err w)"
    by (simp add: run_report_job_def start_report_cases [OF assms(1)] r)
  obtain x w2 where x: "execute_report_job e ops pypdf t2 i ?w = (x, w2)" by force
  show ?thesis
  proof (cases x)
    case (Inr u)
    with x run assms(2) have st: "st = SUCCEEDED" "w' = w2" by simp_all
    from execute_succeeded [OF x [unfolded Inr]] by_id
    show ?thesis using r st by (auto simp: report_formats_def)
  next
    case (Inl err)
    have db2: "w_db w2 = w_db ?w" by (rule execute_failed [OF x [unfolded Inl]])
    let ?g = "\<lambda>r. r\<lparr>rp_status := FAILED, rp_error_message := Some (exn_text err), rp_finished_at := Some t2\<rparr>"
    have ok2: "db_ok (mark_report ?g i (w_db w2))"
      unfolding db2 by (rule db_ok_mark_report [OF ok]) (simp_all add: rp_idem_key_def)
    have "fail_report_job t2 i err w2 = (Inr FAILED, w2\<lparr>w_db := mark_report ?g i (w_db w2)\<rparr>)"
      by (simp add: fail_report_job_def commit_ok [OF ok2])
    with x run Inl assms(2) have st: "st = FAILED" "w' = w2\<lparr>w_db := mark_report ?g i (w_db w2)\<rparr>" by simp_all
    have "report_by_id i (w_db w') = Some (?g (?f r))"
      using report_by_id_mark [of ?g i "w_db w2"] by_id db2 st(2) by simp
    then show ?thesis using r st ok2 db2 by auto
  qed
qed

subsection \<open>What the retention cleanup removes\<close>

text \<open>The database without the reports of the given identifiers and everything that belongs to them.\<close>

definition without_reports :: "pystr set \<Rightarrow> db \<Rightarrow> db" where
  "without_reports ids d =
     d\<lparr>report_artifacts := filter (\<lambda>a. ra_report_id a \<notin> ids) (report_artifacts d),
       report_parse_jobs := filter (\<lambda>l. rj_report_id l \<notin> ids) (report_parse_jobs d),
       idempotency_records :=
         filter (\<lambda>i. \<not> (ik_resource_type i = ''report'' \<and> ik_resource_id i \<in> ids)) (idempotency_records d),
       reports := filter (\<lambda>r. rp_id r \<notin> ids) (reports d)\<rparr>"

lemma without_reports_empty [simp]: "without_reports {} d = d"
  by (simp add: without_reports_def)

lemma without_reports_purge:
  "without_reports ids (purge_report_rows r d) = without_reports (insert (rp_id r) ids) d"
  by (auto simp: without_reports_def purge_report_rows_def del_where_def intro!: filter_cong db.equality)

lemma purge_reports_result:
  "purge_reports ops rs d s = (Inr d', s') \<Longrightarrow> d' = without_reports (rp_id ` set rs) d"
proof (induction ops rs d s rule: purge_reports.induct)
  case (2 ops r rs d s)
  obtain s1 where "purge_reports ops rs (purge_report_rows r d) s1 = (Inr d', s')"
    and "delete_objects ops (map ra_storage_path (filter (\<lambda>a. ra_report_id a = rp_id r) (report_artifacts d))) s = (Inr (), s1)"
    using 2(2) by (auto split: prod.splits sum.splits)
  with 2(1) show ?case by (fastforce simp: without_reports_purge)
qed simp

text \<open>What the deletions of a purge remove from the store: the slots of every artifact.\<close>

context blob_store begin

lemma delete_objects_content:
  "delete_objects ops ks s = (Inr u, s') \<Longrightarrow> st_delete ops = del \<Longrightarrow> \<forall>k\<in>set ks. valid_key k \<Longrightarrow>
     content rd s' key = (if slot key \<in> slot ` set ks then None else content rd s key)"
proof (induction ops ks s rule: delete_objects.induct)
  case (2 ops k ks s)
  obtain s1 where s1: "del k s = (Inr (), s1)" "delete_objects ops ks s1 = (Inr u, s')"
    using 2(2,3) by (auto split: prod.splits sum.splits)
  with 2 have "content rd s' key = (if slot key \<in> slot ` set ks then None else content rd s1 key)"
    by auto
  with delete_content [OF s1(1)] 2(4) show ?case by auto
qed simp

lemma purge_reports_content:
  "purge_reports ops rs d s = (Inr d', s') \<Longrightarrow> st_delete ops = del \<Longrightarrow>
     \<forall>a\<in>set (report_artifacts d). valid_key (ra_storage_path a) \<Longrightarrow>
     content rd s' key =
       (if slot key \<in> (slot \<circ> ra_storage_path) ` {a \<in> set (report_artifacts d). ra_report_id a \<in> rp_id ` set rs}
        then None else content rd s key)"
proof (induction ops rs d s rule: purge_reports.induct)
  case (2 ops r rs d s)
  let ?own = "filter (\<lambda>a. ra_report_id a = rp_id r) (report_artifacts d)"
  obtain s1 where s1: "delete_objects ops (map ra_storage_path ?own) s = (Inr (), s1)"
    "purge_reports ops rs (purge_report_rows r d) s1 = (Inr d', s')"
    using 2(2) by (auto split: prod.splits sum.splits)
  have arts: "set (report_artifacts (purge_report_rows r d)) = {a \<in> set (report_artifacts d). ra_report_id a \<noteq> rp_id r}"
    by (auto simp: purge_report_rows_def del_where_def)
  from delete_objects_content [OF s1(1) 2(3)] 2(4)
  have "content rd s1 key = (if slot key \<in> slot ` set (map ra_storage_path ?own) then None else content rd s key)"
    by auto
  moreover have "content rd s' key =
      (if slot key \<in> (slot \<circ> ra_storage_path) ` {a \<in> set (report_artifacts (purge_report_rows r d)). ra_report_id a \<in> rp_id ` set rs}
       then None else content rd s1 key)"
    using 2(1) [of _ s1] s1 2(3,4) arts by auto
  ultimately show ?case unfolding arts by auto
qed simp

end

lemma stale_ids:
  assumes "unique rp_id (reports d)"
  shows "filter (\<lambda>r. rp_id r \<notin> rp_id ` set (stale_reports c d)) (reports d) =
    filter (\<lambda>r. case rp_finished_at r of None \<Rightarrow> True | Some t \<Rightarrow> c \<le> t) (reports d)"
proof (rule filter_cong [OF refl])
  fix r assume r: "r \<in> set (reports d)"
  show "(rp_id r \<notin> rp_id ` set (stale_reports c d)) = (case rp_finished_at r of None \<Rightarrow> True | Some t \<Rightarrow> c \<le> t)"
    using unique_inj [OF assms r] r
    by (auto simp: stale_reports_def image_iff split: option.splits) force+
qed

text \<open>
  C16: A retention cleanup that returns has removed exactly the reports that finished before
  the cutoff, with their artifacts, links and idempotency records, and nothing else of the
  database; the number it returns is the number of reports removed.
\<close>

theorem retention_cleanup_exact:
  assumes "db_ok (w_db w)" and "run_report_retention_cleanup ops now retention_days w = (Inr n, w')"
  shows "retention_days \<ge> 1 \<and>
    reports (w_db w') = filter (\<lambda>r. case rp_finished_at r of None \<Rightarrow> True
        | Some t \<Rightarrow> now - days retention_days \<le> t) (reports (w_db w)) \<and>
    w_db w' = without_reports (rp_id ` set (stale_reports (now - days retention_days) (w_db w))) (w_db w) \<and>
    n = int (length (reports (w_db w))) - int (length (reports (w_db w')))"
proof -
  let ?c = "now - days retention_days"
  let ?stale = "stale_reports ?c (w_db w)"
  obtain d s where d: "purge_reports ops ?stale (w_db w) (w_store w) = (Inr d, s)"
    and c: "commit_with d (Inr (int (length ?stale))) (w\<lparr>w_store := s\<rparr>) = (Inr n, w')"
    and k: "retention_days \<ge> 1"
    using assms(2) by (auto simp: run_report_retention_cleanup_def Let_def split: if_splits prod.splits sum.splits)
  from commit_cases [OF c] have w': "w_db w' = d" and n: "n = int (length ?stale)" by auto
  have d_eq: "d = without_reports (rp_id ` set ?stale) (w_db w)" by (rule purge_reports_result [OF d])
  have "unique rp_id (reports (w_db w))" using assms(1) by (simp add: db_ok_unfold)
  from stale_ids [OF this, of ?c]
  have rep: "reports (w_db w') = filter (\<lambda>r. case rp_finished_at r of None \<Rightarrow> True | Some t \<Rightarrow> ?c \<le> t) (reports (w_db w))"
    unfolding w' d_eq by (simp add: without_reports_def)
  have not: "(case x of None \<Rightarrow> True | Some t \<Rightarrow> ?c \<le> t) = (\<not> (case x of None \<Rightarrow> False | Some t \<Rightarrow> t < ?c))" for x
    by (auto split: option.splits)
  have "length (reports (w_db w')) + length ?stale = length (reports (w_db w))"
    unfolding rep stale_reports_def not by (simp add: sum_length_filter_compl add.commute)
  with k rep w' d_eq n show ?thesis by simp
qed

text \<open>
  After a retention cleanup over the local store no artifact of a removed report can be
  read back, and every key that is not a removed artifact's reads as before.
\<close>

theorem retention_cleanup_blobs:
  assumes "run_report_retention_cleanup (local_storage e base) now retention_days w = (Inr n, w')"
    and "\<forall>a\<in>set (report_artifacts (w_db w)). CHR 0x00 \<notin> set (ra_storage_path a)"
  shows "content (local_read base) (w_store w') key =
    (if \<exists>a\<in>set (report_artifacts (w_db w)). \<exists>r\<in>set (stale_reports (now - days retention_days) (w_db w)).
          ra_report_id a = rp_id r \<and> local_abs base (ra_storage_path a) = local_abs base key
     then None else content (local_read base) (w_store w) key)"
proof -
  let ?stale = "stale_reports (now - days retention_days) (w_db w)"
  obtain d s where d: "purge_reports (local_storage e base) ?stale (w_db w) (w_store w) = (Inr d, s)"
    and c: "commit_with d (Inr (int (length ?stale))) (w\<lparr>w_store := s\<rparr>) = (Inr n, w')"
    using assms(1) by (auto simp: run_report_retention_cleanup_def Let_def split: if_splits prod.splits sum.splits)
  from commit_cases [OF c] have "w_store w' = s" by auto
  then show ?thesis
    using local_blobs.purge_reports_content [OF d _ assms(2), where key = key]
    by (simp add: local_storage_def image_iff Bex_def) (auto simp: eq_commute)
qed

subsection \<open>Concrete runs\<close>

definition demo_stored_report :: report where
  "demo_stored_report =
     \<lparr>rp_id = ''r'', rp_tenant_id = ''t'', rp_status = QUEUED, rp_idempotency_key = None,
      rp_queue_job_id = None, rp_requested_formats_json = ''[\"json\", \"csv\"]'', rp_filters_json = ''{}'',
      rp_error_message = None, rp_created_at = 0, rp_started_at = None, rp_finished_at = Some 7\<rparr>"

definition demo_artifact :: report_artifact where
  "demo_artifact =
     \<lparr>ra_id = ''a'', ra_tenant_id = ''t'', ra_report_id = ''r'', ra_format = ''json'',
      ra_storage_path = ''old.json'', ra_bytes = Some 2, ra_created_at = 0\<rparr>"

definition demo_report_world :: "local_fs world" where
  "demo_report_world =
     \<lparr>w_db = empty_db\<lparr>invoice_records := [demo_invoice ''i'' ''a''], reports := [demo_stored_report],
        report_artifacts := [demo_artifact]\<rparr>,
      w_queue = [], w_store = \<lparr>fs_files = [([''d'', ''old.json''], ''{}'')], fs_dirs = [[], [''d'']]\<rparr>, w_ctr = 0\<rparr>"

definition demo_store :: "local_fs storage_ops" where
  "demo_store = local_storage toy_env [''d'']"

lemma demo_report_world_ok: "db_ok (w_db demo_report_world)"
  by (simp add: demo_report_world_def db_ok_unfold empty_db_def unique_def unique_nullable_def rp_idem_key_def
      demo_stored_report_def)

lemma demo_report_found: "report_by_id ''r'' (w_db demo_report_world) = Some demo_stored_report"
  by (simp add: report_by_id_def demo_report_world_def scalar_Cons demo_stored_report_def)

lemma report_filters_ignored_witness:
  "w_store (snd (run_report_job toy_env demo_store None 5 6 ''r'' (demo_report_world\<lparr>w_db :=
      mark_report (\<lambda>r. r\<lparr>rp_filters_json := ''{\"vendor\": \"b\"}''\<rparr>) ''r'' (w_db demo_report_world)\<rparr>))) =
   w_store (snd (run_report_job toy_env demo_store None 5 6 ''r'' demo_report_world))"
  by (rule report_filters_ignored [OF demo_report_world_ok])

lemma report_tenant_noninterference_witness:
  "w_store (snd (run_report_job toy_env demo_store None 5 6 ''r'' (demo_report_world\<lparr>w_db :=
      (w_db demo_report_world)\<lparr>invoice_records :=
        [(demo_invoice ''x'' ''b'')\<lparr>ir_tenant_id := ''u''\<rparr>, demo_invoice ''i'' ''a'']\<rparr>\<rparr>))) =
   w_store (snd (run_report_job toy_env demo_store None 5 6 ''r'' demo_report_world))"
proof (rule report_tenant_noninterference [OF demo_report_world_ok _ demo_report_found])
  show "db_ok ((w_db demo_report_world)\<lparr>invoice_records :=
      [(demo_invoice ''x'' ''b'')\<lparr>ir_tenant_id := ''u''\<rparr>, demo_invoice ''i'' ''a'']\<rparr>)"
    using demo_report_world_ok by (simp add: db_ok_unfold unique_def demo_invoice_def)
qed (simp add: demo_invoice_def demo_stored_report_def demo_report_world_def)

definition demo_run :: "job_status res \<times> local_fs world" where
  "demo_run = run_report_job toy_env demo_store None 5 6 ''r'' demo_report_world"

lemma demo_run_ok: "fst demo_run = Inr SUCCEEDED"
  by code_simp

lemma run_report_job_outcome_witness:
  "\<exists>r'. report_by_id ''r'' (w_db (snd demo_run)) = Some r' \<and> rp_status r' = SUCCEEDED \<and> rp_finished_at r' = Some 6"
proof -
  have "demo_run = (Inr SUCCEEDED, snd demo_run)" using demo_run_ok by (metis prod.collapse)
  from run_report_job_outcome [OF demo_report_world_ok this [unfolded demo_run_def]]
  show ?thesis unfolding demo_run_def by blast
qed

definition demo_cleanup :: "int res \<times> local_fs world" where
  "demo_cleanup = run_report_retention_cleanup demo_store 90000000000 1 demo_report_world"

lemma demo_cleanup_ok: "demo_cleanup = (Inr 1, snd demo_cleanup)"
proof -
  have "fst demo_cleanup = Inr 1" by code_simp
  then show ?thesis by (metis prod.collapse)
qed

lemma retention_cleanup_exact_witness: "reports (w_db (snd demo_cleanup)) = []"
proof -
  have "reports (w_db (snd demo_cleanup)) = filter (\<lambda>r. case rp_finished_at r of None \<Rightarrow> True
      | Some t \<Rightarrow> 90000000000 - days 1 \<le> t) (reports (w_db demo_report_world))"
    using retention_cleanup_exact [OF demo_report_world_ok demo_cleanup_ok [unfolded demo_cleanup_def]]
    unfolding demo_cleanup_def by blast
  then show ?thesis by (simp add: demo_report_world_def demo_stored_report_def)
qed

lemma retention_cleanup_blobs_witness:
  "content (local_read [''d'']) (w_store (snd demo_cleanup)) ''old.json'' = None"
proof -
  have "\<forall>a\<in>set (report_artifacts (w_db demo_report_world)). CHR 0x00 \<notin> set (ra_storage_path a)"
    by (simp add: demo_report_world_def demo_artifact_def)
  from retention_cleanup_blobs [OF demo_cleanup_ok [unfolded demo_cleanup_def demo_store_def] this, of "''old.json''"]
  show ?thesis unfolding demo_cleanup_def demo_store_def
    by (simp add: demo_report_world_def demo_artifact_def stale_reports_def demo_stored_report_def)
qed

end
