(* ===== verification/Worker_Parse.thy ===== *)
theory Worker_Parse
  imports Service_Jobs
begin

text \<open>
  The parse worker of \<open>saas/worker.py\<close>, \<open>run_parse_job\<close>, with the pipeline of
  \<open>usecases/report_pipeline.py\<close> it runs by default. The PDF parser itself is a parameter: a
  function from the paths with their contents to the parsed invoices or an exception. A
  parsed attribute is what \<open>getattr\<close> may find: nothing, a date, a number or something else.
\<close>

datatype attr = ANone | ADate py_date | AInt int | AFloat rat | AOther

record parsed_invoice =
  pi_vendor :: "pystr option"
  pi_file_name :: "pystr option"
  pi_invoice_number :: "pystr option"
  pi_invoice_date :: attr
  pi_invoice_total :: attr
  pi_invoice_vat :: attr
  pi_purpose :: "pystr option"

type_synonym parse_input = "(path \<times> bytes option) list"

text \<open>\<open>parse_path\<close> and \<open>parse_paths\<close> of the pipeline.\<close>

definition parse_path ::
  "('p \<Rightarrow> bool \<Rightarrow> 'r res) \<Rightarrow> ('p \<Rightarrow> 'r \<Rightarrow> bool \<Rightarrow> ('r list) res) \<Rightarrow> bool \<Rightarrow> 'p \<Rightarrow> ('r list) res" where
  "parse_path parse_invoice split_municipal debug p =
     res_bind (parse_invoice p debug) (\<lambda>r. split_municipal p r debug)"

fun parse_paths ::
  "('p \<Rightarrow> bool \<Rightarrow> 'r res) \<Rightarrow> ('p \<Rightarrow> 'r \<Rightarrow> bool \<Rightarrow> ('r list) res) \<Rightarrow> bool \<Rightarrow> 'p list \<Rightarrow> ('r list) res" where
  "parse_paths parse_invoice split_municipal debug [] = Inr []"
| "parse_paths parse_invoice split_municipal debug (p # ps) =
     res_bind (parse_path parse_invoice split_municipal debug p) (\<lambda>rs.
     res_bind (parse_paths parse_invoice split_municipal debug ps) (\<lambda>rest. Inr (rs @ rest)))"

definition to_date :: "attr \<Rightarrow> py_date option" where
  "to_date v = (case v of ADate d \<Rightarrow> Some d | _ \<Rightarrow> None)"

text \<open>\<open>_safe_float\<close>: \<open>float(i)\<close> of a huge integer is an \<open>OverflowError\<close>.\<close>

definition safe_float :: "attr \<Rightarrow> (rat option) res" where
  "safe_float v =
     (case v of
        AInt i \<Rightarrow> (case py_float (of_int i) of
                    None \<Rightarrow> Inl (OverflowError ''int too large to convert to float'')
                  | Some x \<Rightarrow> Inr (Some x))
      | AFloat r \<Rightarrow> Inr (Some r)
      | _ \<Rightarrow> Inr None)"

definition text_or_empty :: "pystr option \<Rightarrow> pystr" where
  "text_or_empty v = (case v of None \<Rightarrow> [] | Some s \<Rightarrow> s)"

definition raw_record_json ::
  "parsed_invoice \<Rightarrow> rat option \<Rightarrow> rat option \<Rightarrow> pystr" where
  "raw_record_json r total_amount vat_amount =
     json_dumps (JObj
       [(''vendor'', JStr (text_or_empty (pi_vendor r))), (''file_name'', JStr (text_or_empty (pi_file_name r))),
        (''invoice_number'', json_opt_str (pi_invoice_number r)),
        (''invoice_date'', (case to_date (pi_invoice_date r) of None \<Rightarrow> JNull | Some d \<Rightarrow> JStr (date_isoformat d))),
        (''invoice_total'', (case total_amount of None \<Rightarrow> JNull | Some x \<Rightarrow> JFloat x)),
        (''invoice_vat'', (case vat_amount of None \<Rightarrow> JNull | Some x \<Rightarrow> JFloat x)),
        (''purpose'', json_opt_str (pi_purpose r))])"

definition record_of_parsed ::
  "env \<Rightarrow> nat \<Rightarrow> time \<Rightarrow> parse_job \<Rightarrow> parsed_invoice \<Rightarrow> invoice_record res" where
  "record_of_parsed e n now j r =
     res_bind (safe_float (pi_invoice_total r)) (\<lambda>total_amount.
     res_bind (safe_float (pi_invoice_vat r)) (\<lambda>vat_amount.
       Inr \<lparr>ir_id = uuid4 e n, ir_tenant_id = pj_tenant_id j, ir_parse_job_id = pj_id j,
            ir_vendor = text_or_empty (pi_vendor r), ir_file_name = text_or_empty (pi_file_name r),
            ir_invoice_number = pi_invoice_number r, ir_invoice_date = to_date (pi_invoice_date r),
            ir_invoice_total = total_amount, ir_invoice_vat = vat_amount, ir_currency = ''ILS'',
            ir_purpose = pi_purpose r, ir_raw_json = raw_record_json r total_amount vat_amount,
            ir_created_at = now\<rparr>))"

fun records_of_parsed ::
  "env \<Rightarrow> nat \<Rightarrow> time \<Rightarrow> parse_job \<Rightarrow> parsed_invoice list \<Rightarrow> (invoice_record list) res" where
  "records_of_parsed e n now j [] = Inr []"
| "records_of_parsed e n now j (r # rs) =
     res_bind (record_of_parsed e n now j r) (\<lambda>x.
     res_bind (records_of_parsed e (n + 1) now j rs) (\<lambda>xs. Inr (x # xs)))"


subsection \<open>\<open>run_parse_job\<close>\<close>

definition parse_job_by_id :: "pystr \<Rightarrow> db \<Rightarrow> parse_job option" where
  "parse_job_by_id job_id d = scalar_one_or_none (\<lambda>j. pj_id j = job_id) (parse_jobs d)"

definition mark_parse_job :: "(parse_job \<Rightarrow> parse_job) \<Rightarrow> pystr \<Rightarrow> db \<Rightarrow> db" where
  "mark_parse_job f job_id d = d\<lparr>parse_jobs := upd_where (\<lambda>j. pj_id j = job_id) f (parse_jobs d)\<rparr>"

text \<open>The join of the job's links with the files they name.\<close>

definition files_of_job :: "pystr \<Rightarrow> db \<Rightarrow> invoice_file list" where
  "files_of_job job_id d =
     concat (map (\<lambda>l. filter (\<lambda>f. fl_id f = pf_file_id l) (invoice_files d))
       (filter (\<lambda>l. pf_parse_job_id l = job_id) (parse_job_files d)))"

text \<open>Every file's local path; the parser then opens the paths.\<close>

fun resolve_paths :: "'s storage_ops \<Rightarrow> invoice_file list \<Rightarrow> 's \<Rightarrow> (path list) res \<times> 's" where
  "resolve_paths ops [] s = (Inr [], s)"
| "resolve_paths ops (f # fs) s =
     (case st_resolve ops (fl_storage_path f) s of
        (Inl err, s') \<Rightarrow> (Inl err, s')
      | (Inr p, s') \<Rightarrow>
          (case resolve_paths ops fs s' of
             (Inl err, s'') \<Rightarrow> (Inl err, s'')
           | (Inr ps, s'') \<Rightarrow> (Inr (p # ps), s'')))"

definition start_parse_job :: "time \<Rightarrow> pystr \<Rightarrow> 's world \<Rightarrow> unit res \<times> 's world" where
  "start_parse_job now job_id w =
     (case parse_job_by_id job_id (w_db w) of
        None \<Rightarrow> (Inl (ValueError (''parse job not found: '' @ job_id)), w)
      | Some _ \<Rightarrow>
          commit_with (mark_parse_job (\<lambda>j. j\<lparr>pj_status := RUNNING, pj_started_at := Some now\<rparr>) job_id (w_db w))
            (Inr ()) w)"

definition execute_parse_job ::
  "env \<Rightarrow> 's storage_ops \<Rightarrow> (parse_input \<Rightarrow> bool \<Rightarrow> (parsed_invoice list) res) \<Rightarrow> time \<Rightarrow> pystr
    \<Rightarrow> 's world \<Rightarrow> unit res \<times> 's world" where
  "execute_parse_job e ops parser now job_id w =
     (let d = w_db w in
      case parse_job_by_id job_id d of
        None \<Rightarrow> (Inl (OtherError ''No row was found when one was required''), w)
      | Some j \<Rightarrow>
          let files = files_of_job job_id d in
          if files = [] then (Inl (ValueError (''parse job has no files: '' @ job_id)), w)
          else (case resolve_paths ops files (w_store w) of
            (Inl err, s) \<Rightarrow> (Inl err, w\<lparr>w_store := s\<rparr>)
          | (Inr paths, s) \<Rightarrow>
              (case res_bind (parser (map (\<lambda>p. (p, st_file ops p s)) paths) (pj_debug j))
                      (records_of_parsed e (w_ctr w) now j) of
                 Inl err \<Rightarrow> (Inl err, w\<lparr>w_store := s\<rparr>)
               | Inr records \<Rightarrow>
                   let d = d\<lparr>invoice_records := invoice_records d @ records,
                             invoice_files := upd_where (\<lambda>f. fl_id f \<in> set (map fl_id files))
                               (\<lambda>f. f\<lparr>fl_status := PARSED\<rparr>) (invoice_files d)\<rparr>;
                       d = mark_parse_job (\<lambda>j. j\<lparr>pj_records_count := int (length records),
                             pj_failed_count := 0, pj_error_message := None, pj_status := SUCCEEDED,
                             pj_finished_at := Some now\<rparr>) job_id d
                   in commit_with d (Inr ()) (draw (length records) (w\<lparr>w_store := s\<rparr>)))))"

definition fail_parse_job :: "time \<Rightarrow> pystr \<Rightarrow> exn \<Rightarrow> 's world \<Rightarrow> job_status res \<times> 's world" where
  "fail_parse_job now job_id err w =
     commit_with (mark_parse_job (\<lambda>j. j\<lparr>pj_status := FAILED, pj_failed_count := 1,
         pj_error_message := Some (exn_text err), pj_finished_at := Some now\<rparr>) job_id (w_db w))
       (Inr FAILED) w"

definition run_parse_job ::
  "env \<Rightarrow> 's storage_ops \<Rightarrow> (parse_input \<Rightarrow> bool \<Rightarrow> (parsed_invoice list) res) \<Rightarrow> time \<Rightarrow> time
    \<Rightarrow> pystr \<Rightarrow> 's world \<Rightarrow> job_status res \<times> 's world" where
  "run_parse_job e ops parser started finished job_id w =
     (case start_parse_job started job_id w of
        (Inl err, w) \<Rightarrow> (Inl err, w)
      | (Inr _, w) \<Rightarrow>
          (case execute_parse_job e ops parser finished job_id w of
             (Inr _, w) \<Rightarrow> (Inr SUCCEEDED, w)
           | (Inl err, w) \<Rightarrow> fail_parse_job finished job_id err w))"

subsection \<open>What a run of the parse worker changes\<close>

lemma mark_parse_job_tables [simp]:
  "invoice_records (mark_parse_job f i d) = invoice_records d" "invoice_files (mark_parse_job f i d) = invoice_files d"
  "parse_job_files (mark_parse_job f i d) = parse_job_files d"
  "parse_jobs (mark_parse_job f i d) = upd_where (\<lambda>j. pj_id j = i) f (parse_jobs d)"
  by (simp_all add: mark_parse_job_def)

lemma scalar_upd_same:
  assumes "\<And>x. P x \<Longrightarrow> P (f x)"
  shows "scalar_one_or_none P (upd_where P f xs) = map_option f (scalar_one_or_none P xs)"
  by (induction xs) (auto simp: upd_where_def scalar_Cons assms)

lemma parse_job_by_id_mark:
  "(\<And>j. pj_id (f j) = pj_id j) \<Longrightarrow> parse_job_by_id i (mark_parse_job f i d) = map_option f (parse_job_by_id i d)"
  by (simp add: parse_job_by_id_def scalar_upd_same)

lemma parse_job_by_idD: "parse_job_by_id i d = Some j \<Longrightarrow> pj_id j = i"
  by (auto simp: parse_job_by_id_def dest: scalar_SomeD)

lemma records_of_parsed_own:
  "records_of_parsed e n now j rs = Inr xs \<Longrightarrow>
     length xs = length rs \<and> list_all (\<lambda>x. ir_tenant_id x = pj_tenant_id j \<and> ir_parse_job_id x = pj_id j) xs"
proof (induction e n now j rs arbitrary: xs rule: records_of_parsed.induct)
  case (2 e n now j r rs)
  then obtain x ys where "record_of_parsed e n now j r = Inr x" "records_of_parsed e (n + 1) now j rs = Inr ys" "xs = x # ys"
    by (auto simp: res_bind_Inr)
  with 2 show ?case by (auto simp: record_of_parsed_def res_bind_Inr)
qed simp

lemma execute_parse_succeeds:
  assumes "execute_parse_job e ops parser now i w = (Inr u, w')"
  obtains j records where "parse_job_by_id i (w_db w) = Some j" "files_of_job i (w_db w) \<noteq> []"
    "list_all (\<lambda>x. ir_tenant_id x = pj_tenant_id j \<and> ir_parse_job_id x = i) records"
    "invoice_records (w_db w') = invoice_records (w_db w) @ records"
    "invoice_files (w_db w') = upd_where (\<lambda>f. fl_id f \<in> set (map fl_id (files_of_job i (w_db w))))
       (\<lambda>f. f\<lparr>fl_status := PARSED\<rparr>) (invoice_files (w_db w))"
    "parse_job_by_id i (w_db w') = Some (j\<lparr>pj_records_count := int (length records), pj_failed_count := 0,
       pj_error_message := None, pj_status := SUCCEEDED, pj_finished_at := Some now\<rparr>)"
    "db_ok (w_db w')"
proof -
  let ?d = "w_db w"
  obtain j where j: "parse_job_by_id i ?d = Some j" and files: "files_of_job i ?d \<noteq> []"
    using assms by (auto simp: execute_parse_job_def Let_def split: option.splits if_splits)
  obtain paths s where paths: "resolve_paths ops (files_of_job i ?d) (w_store w) = (Inr paths, s)"
    using assms j files by (auto simp: execute_parse_job_def Let_def split: prod.splits sum.splits)
  obtain rs records where rs: "parser (map (\<lambda>p. (p, st_file ops p s)) paths) (pj_debug j) = Inr rs"
    and recs: "records_of_parsed e (w_ctr w) now j rs = Inr records"
    using assms j files paths by (auto simp: execute_parse_job_def Let_def res_bind_Inr split: sum.splits)
  let ?f = "\<lambda>j. j\<lparr>pj_records_count := int (length records), pj_failed_count := 0, pj_error_message := None,
      pj_status := SUCCEEDED, pj_finished_at := Some now\<rparr>"
  let ?d1 = "?d\<lparr>invoice_records := invoice_records ?d @ records,
      invoice_files := upd_where (\<lambda>f. fl_id f \<in> set (map fl_id (files_of_job i ?d)))
        (\<lambda>f. f\<lparr>fl_status := PARSED\<rparr>) (invoice_files ?d)\<rparr>"
  have c: "commit_with (mark_parse_job ?f i ?d1) (Inr ()) (draw (length records) (w\<lparr>w_store := s\<rparr>)) = (Inr u, w')"
    using assms j files paths rs recs by (simp add: execute_parse_job_def Let_def)
  from commit_cases [OF c] have ok: "db_ok (w_db w')" and w': "w_db w' = mark_parse_job ?f i ?d1" by auto
  have "parse_job_by_id i ?d1 = Some j" using j by (simp add: parse_job_by_id_def)
  then have found: "parse_job_by_id i (w_db w') = Some (?f j)"
    unfolding w' using parse_job_by_id_mark [of ?f i ?d1] by simp
  have own: "list_all (\<lambda>x. ir_tenant_id x = pj_tenant_id j \<and> ir_parse_job_id x = i) records"
    using records_of_parsed_own [OF recs] parse_job_by_idD [OF j] by simp
  show thesis by (rule that [OF j files own _ _ found ok]) (simp_all add: w')
qed

lemma execute_parse_fails: "execute_parse_job e ops parser now i w = (Inl err, w') \<Longrightarrow> w_db w' = w_db w"
  by (auto simp: execute_parse_job_def Let_def split: option.splits if_splits sum.splits prod.splits
      dest!: commit_cases)

lemma run_parse_cases:
  assumes "run_parse_job e ops parser t1 t2 i w = (Inr st, w')"
  obtains j w1 u w2 where "parse_job_by_id i (w_db w) = Some j"
    "w_db w1 = mark_parse_job (\<lambda>j. j\<lparr>pj_status := RUNNING, pj_started_at := Some t1\<rparr>) i (w_db w)"
    "parse_job_by_id i (w_db w1) = Some (j\<lparr>pj_status := RUNNING, pj_started_at := Some t1\<rparr>)"
    "(st = SUCCEEDED \<and> execute_parse_job e ops parser t2 i w1 = (Inr u, w')) \<or>
     (\<exists>err. execute_parse_job e ops parser t2 i w1 = (Inl err, w2) \<and> fail_parse_job t2 i err w2 = (Inr st, w'))"
proof -
  let ?f = "\<lambda>j. j\<lparr>pj_status := RUNNING, pj_started_at := Some t1\<rparr>"
  obtain u0 w1 where s: "start_parse_job t1 i w = (Inr u0, w1)"
    using assms by (auto simp: run_parse_job_def split: prod.splits sum.splits)
  then obtain j where j: "parse_job_by_id i (w_db w) = Some j" and w1: "w_db w1 = mark_parse_job ?f i (w_db w)"
    by (auto simp: start_parse_job_def split: option.splits dest!: commit_cases)
  have "parse_job_by_id i (w_db w1) = Some (?f j)"
    unfolding w1 using parse_job_by_id_mark [of ?f i "w_db w"] j by simp
  moreover obtain x w2 where "execute_parse_job e ops parser t2 i w1 = (x, w2)" by force
  ultimately show thesis
    using that [OF j w1] assms s by (cases x) (auto simp: run_parse_job_def)
qed


text \<open>
  A second delivery of a parse job is not recognised: when two runs of the same job
  succeed, the invoices of both are in the database, while the job counts those of the last
  run only.
\<close>

theorem parse_redelivery_duplicates:
  assumes "run_parse_job e ops parser t1 t2 i w = (Inr SUCCEEDED, w1)"
    and "run_parse_job e ops parser t3 t4 i w1 = (Inr SUCCEEDED, w2)"
  shows "\<exists>j1 j2. parse_job_by_id i (w_db w1) = Some j1 \<and> parse_job_by_id i (w_db w2) = Some j2 \<and>
    int (length (filter (\<lambda>x. ir_parse_job_id x = i) (invoice_records (w_db w2)))) =
      int (length (filter (\<lambda>x. ir_parse_job_id x = i) (invoice_records (w_db w))))
      + pj_records_count j1 + pj_records_count j2"
proof -
  have run: "\<exists>j'. parse_job_by_id i (w_db w'') = Some j' \<and>
      int (length (filter (\<lambda>x. ir_parse_job_id x = i) (invoice_records (w_db w'')))) =
      int (length (filter (\<lambda>x. ir_parse_job_id x = i) (invoice_records (w_db w')))) + pj_records_count j'"
    if r: "run_parse_job e ops parser s1 s2 i w' = (Inr SUCCEEDED, w'')" for s1 s2 w' w''
  proof -
    let ?f = "\<lambda>j. j\<lparr>pj_status := RUNNING, pj_started_at := Some s1\<rparr>"
    obtain wr u wx where wr: "w_db wr = mark_parse_job ?f i (w_db w')"
      and x: "(SUCCEEDED = SUCCEEDED \<and> execute_parse_job e ops parser s2 i wr = (Inr u, w'')) \<or>
       (\<exists>err. execute_parse_job e ops parser s2 i wr = (Inl err, wx) \<and> fail_parse_job s2 i err wx = (Inr SUCCEEDED, w''))"
      by (rule run_parse_cases [OF r])
    then have "execute_parse_job e ops parser s2 i wr = (Inr u, w'')"
      by (auto simp: fail_parse_job_def dest!: commit_cases)
    then show ?thesis
      using wr by (auto elim!: execute_parse_succeeds simp: list_all_iff filter_id_conv [THEN iffD2])
  qed
  from run [OF assms(1)] run [OF assms(2)] show ?thesis by fastforce
qed

subsection \<open>A concrete job\<close>

definition demo_parse_world :: "local_fs world" where
  "demo_parse_world =
     \<lparr>w_db = empty_db\<lparr>invoice_files := [demo_file ''f''], parse_jobs := [new_parse_job ''p'' ''t'' False None 0],
        parse_job_files := [\<lparr>pf_parse_job_id = ''p'', pf_file_id = ''f'', pf_created_at = 0\<rparr>]\<rparr>,
      w_queue = [], w_store = \<lparr>fs_files = [], fs_dirs = [[]]\<rparr>, w_ctr = 0\<rparr>"

definition demo_parser :: "parse_input \<Rightarrow> bool \<Rightarrow> (parsed_invoice list) res" where
  "demo_parser inp debug =
     Inr (map (\<lambda>_. \<lparr>pi_vendor = Some ''acme'', pi_file_name = None, pi_invoice_number = None,
       pi_invoice_date = ANone, pi_invoice_total = ANone, pi_invoice_vat = ANone, pi_purpose = None\<rparr>) inp)"

definition demo_parse :: "local_fs world \<Rightarrow> job_status res \<times> local_fs world" where
  "demo_parse w = run_parse_job toy_env (local_storage toy_env [''d'']) demo_parser 5 6 ''p'' w"

lemma demo_parse_once: "demo_parse demo_parse_world = (Inr SUCCEEDED, snd (demo_parse demo_parse_world))"
proof -
  have "fst (demo_parse demo_parse_world) = Inr SUCCEEDED" by code_simp
  then show ?thesis by (metis prod.collapse)
qed

lemma demo_parse_twice:
  "demo_parse (snd (demo_parse demo_parse_world)) = (Inr SUCCEEDED, snd (demo_parse (snd (demo_parse demo_parse_world))))"
proof -
  have "fst (demo_parse (snd (demo_parse demo_parse_world))) = Inr SUCCEEDED" by code_simp
  then show ?thesis by (metis prod.collapse)
qed


lemma demo_no_records: "invoice_records (w_db demo_parse_world) = []"
  by (simp add: demo_parse_world_def empty_db_def)

lemma parse_redelivery_duplicates_witness:
  "\<exists>j1 j2. parse_job_by_id ''p'' (w_db (snd (demo_parse demo_parse_world))) = Some j1 \<and>
     parse_job_by_id ''p'' (w_db (snd (demo_parse (snd (demo_parse demo_parse_world))))) = Some j2 \<and>
     int (length (filter (\<lambda>x. ir_parse_job_id x = ''p'')
       (invoice_records (w_db (snd (demo_parse (snd (demo_parse demo_parse_world)))))))) =
     pj_records_count j1 + pj_records_count j2"
  using parse_redelivery_duplicates [OF trans [OF demo_parse_def [symmetric] demo_parse_once]
      trans [OF demo_parse_def [symmetric] demo_parse_twice]]
  by (auto simp: demo_no_records)

end
