(* ===== verification/Worker_Collection.thy ===== *)
theory Worker_Collection
  imports Service_Jobs
begin

text \<open>
  The collection worker of \<open>saas/worker.py\<close>, \<open>run_collection_job\<close>: it claims a queued job,
  asks each provider's executor for files, stores them, creates one parse job per provider
  that delivered, and records the outcome. The executor is a parameter (the repository's
  default writes a placeholder PDF). Everything between the claim and the final commit is
  one session: \<open>cs_db\<close> is its unit of work, which a failure discards, while files already
  stored and jobs already queued stay.
\<close>

record collected_file =
  cf_filename :: pystr
  cf_content :: bytes
  cf_mime_type :: pystr

type_synonym executor = "provider_config \<Rightarrow> pystr \<Rightarrow> pystr \<Rightarrow> (collected_file list) res"

record failure =
  fa_provider :: pystr
  fa_code :: pystr
  fa_message :: pystr

text \<open>\<open>_decode_collection_list\<close>\<close>

definition decode_collection_list :: "pystr \<Rightarrow> pystr list" where
  "decode_collection_list raw_json =
     (case json_loads raw_json of
        Some (JList js) \<Rightarrow> filter (\<lambda>s. s \<noteq> []) (map (\<lambda>v. py_lower (py_strip (py_str v))) js)
      | _ \<Rightarrow> [])"

definition default_provider_executor :: "bytes \<Rightarrow> executor" where
  "default_provider_executor pdf provider month_scope job_id =
     Inr [\<lparr>cf_filename = pc_provider_type provider @ ''_invoice_'' @ filter (\<lambda>c. c \<noteq> CHR ''-'') month_scope
             @ ''_'' @ take 8 job_id @ ''.pdf'',
           cf_content = pdf, cf_mime_type = ''application/pdf''\<rparr>]"

definition failure_json :: "failure \<Rightarrow> json" where
  "failure_json f =
     JObj [(''provider'', JStr (fa_provider f)), (''code'', JStr (fa_code f)), (''message'', JStr (fa_message f))]"

definition collection_failures_payload :: "failure list \<Rightarrow> pystr" where
  "collection_failures_payload failures =
     json_dumps_sorted (JObj [(''provider_failures'', JList (map failure_json failures))])"

text \<open>The local variables of the session: its unit of work and the accumulators.\<close>

record collect_state =
  cs_db :: db
  cs_failures :: "failure list"
  cs_files :: "(pystr \<times> pystr list) list"
  cs_discovered :: int
  cs_downloaded :: int

definition add_failure :: "pystr \<Rightarrow> pystr \<Rightarrow> pystr \<Rightarrow> collect_state \<Rightarrow> collect_state" where
  "add_failure provider fcode message c =
     c\<lparr>cs_failures := cs_failures c @ [\<lparr>fa_provider = provider, fa_code = fcode, fa_message = message\<rparr>]\<rparr>"

text \<open>\<open>files_by_provider.setdefault(provider, []).append(file_id)\<close>\<close>

definition append_file :: "pystr \<Rightarrow> pystr \<Rightarrow> (pystr \<times> pystr list) list \<Rightarrow> (pystr \<times> pystr list) list" where
  "append_file provider file_id m =
     dict_set provider ((case map_of m provider of None \<Rightarrow> [] | Some fs \<Rightarrow> fs) @ [file_id]) m"

text \<open>\<open>uuid4().hex\<close> drops the dashes of the printed form.\<close>

definition uuid_hex :: "env \<Rightarrow> nat \<Rightarrow> pystr" where
  "uuid_hex e n = filter (\<lambda>c. c \<noteq> CHR ''-'') (uuid4 e n)"

definition collected_name :: "pystr \<Rightarrow> nat \<Rightarrow> pystr \<Rightarrow> pystr" where
  "collected_name provider idx raw =
     (if path_name raw = [] then provider @ ''-'' @ py_str_nat idx @ ''.pdf'' else path_name raw)"

definition upload_key :: "collection_job \<Rightarrow> pystr \<Rightarrow> pystr \<Rightarrow> pystr \<Rightarrow> pystr" where
  "upload_key j provider token filename =
     ''uploads/'' @ cj_tenant_id j @ ''/collection_'' @ cj_id j @ ''/'' @ provider @ ''/'' @ token
     @ ''_'' @ filename"

text \<open>One delivered file: an empty payload is a failure, else it is stored and its row flushed.\<close>

definition store_collected ::
  "env \<Rightarrow> 's storage_ops \<Rightarrow> time \<Rightarrow> collection_job \<Rightarrow> pystr \<Rightarrow> nat \<Rightarrow> collected_file
    \<Rightarrow> collect_state \<Rightarrow> 's world \<Rightarrow> collect_state res \<times> 's world" where
  "store_collected e ops now j provider idx cf c w =
     (if cf_content cf = []
      then (Inr (add_failure provider ''PROVIDER_FILE_EMPTY''
              (''provider returned empty file payload at index '' @ py_str_nat idx) c), w)
      else
        let n = w_ctr w; filename = collected_name provider idx (cf_filename cf);
            key = upload_key j provider (uuid_hex e n) filename in
        (case st_save ops key (cf_content cf) (w_store w) of
           (Inl err, s) \<Rightarrow> (Inl err, draw 1 (w\<lparr>w_store := s\<rparr>))
         | (Inr obj, s) \<Rightarrow>
             let row = \<lparr>fl_id = uuid4 e (n + 1), fl_tenant_id = cj_tenant_id j, fl_filename = filename,
                        fl_storage_path = so_key obj, fl_mime_type = cf_mime_type cf,
                        fl_content_sha256 = Some (so_sha256 obj), fl_bytes = Some (so_size obj),
                        fl_status = UPLOADED, fl_created_at = now\<rparr>;
                 d = (cs_db c)\<lparr>invoice_files := invoice_files (cs_db c) @ [row]\<rparr>;
                 w = draw 2 (w\<lparr>w_store := s\<rparr>)
             in (case db_violation d of
                   Some v \<Rightarrow> (Inl (IntegrityError v), w)
                 | None \<Rightarrow>
                     (Inr (c\<lparr>cs_db := d, cs_downloaded := cs_downloaded c + 1,
                             cs_files := append_file provider (fl_id row) (cs_files c)\<rparr>), w))))"

fun store_all ::
  "env \<Rightarrow> 's storage_ops \<Rightarrow> time \<Rightarrow> collection_job \<Rightarrow> pystr \<Rightarrow> nat \<Rightarrow> collected_file list
    \<Rightarrow> collect_state \<Rightarrow> 's world \<Rightarrow> collect_state res \<times> 's world" where
  "store_all e ops now j provider idx [] c w = (Inr c, w)"
| "store_all e ops now j provider idx (cf # cfs) c w =
     (case store_collected e ops now j provider idx cf c w of
        (Inl err, w) \<Rightarrow> (Inl err, w)
      | (Inr c, w) \<Rightarrow> store_all e ops now j provider (idx + 1) cfs c w)"

text \<open>One provider of the job.\<close>

definition collect_provider ::
  "env \<Rightarrow> 's storage_ops \<Rightarrow> executor \<Rightarrow> time \<Rightarrow> collection_job \<Rightarrow> (pystr \<Rightarrow> provider_config option) \<Rightarrow> pystr
    \<Rightarrow> collect_state \<Rightarrow> 's world \<Rightarrow> collect_state res \<times> 's world" where
  "collect_provider e ops exec now j provider_by_type provider_name c w =
     (case provider_by_type provider_name of
        None \<Rightarrow> (Inr (add_failure provider_name ''PROVIDER_NOT_FOUND'' ''provider config not found'' c), w)
      | Some p \<Rightarrow>
          if pc_connection_status p \<noteq> ''connected'' \<or>
             pc_oauth_access_token_enc p = None \<or> pc_oauth_access_token_enc p = Some []
          then (Inr (add_failure provider_name ''PROVIDER_NOT_CONNECTED'' ''provider is not connected'' c), w)
          else (case exec p (cj_month_scope j) (cj_id j) of
            Inl err \<Rightarrow> (Inr (add_failure provider_name ''PROVIDER_EXECUTOR_ERROR'' (exn_text err) c), w)
          | Inr collected \<Rightarrow>
              store_all e ops now j provider_name 1 collected
                (c\<lparr>cs_discovered := cs_discovered c + int (length collected)\<rparr>) w))"

fun collect_all ::
  "env \<Rightarrow> 's storage_ops \<Rightarrow> executor \<Rightarrow> time \<Rightarrow> collection_job \<Rightarrow> (pystr \<Rightarrow> provider_config option)
    \<Rightarrow> pystr list \<Rightarrow> collect_state \<Rightarrow> 's world \<Rightarrow> collect_state res \<times> 's world" where
  "collect_all e ops exec now j by_type [] c w = (Inr c, w)"
| "collect_all e ops exec now j by_type (p # ps) c w =
     (case collect_provider e ops exec now j by_type p c w of
        (Inl err, w) \<Rightarrow> (Inl err, w)
      | (Inr c, w) \<Rightarrow> collect_all e ops exec now j by_type ps c w)"



subsection \<open>Parse jobs and the outcome\<close>

definition parse_task_name :: pystr where
  "parse_task_name = ''invplatform.saas.tasks.run_parse_job_task''"

definition collection_parse_key :: "collection_job \<Rightarrow> pystr \<Rightarrow> pystr" where
  "collection_parse_key j provider = ''collection:'' @ cj_id j @ '':'' @ provider"

text \<open>The parse job of one provider: flushed, queued, linked and recorded.\<close>

definition create_collection_parse_job ::
  "env \<Rightarrow> time \<Rightarrow> collection_job \<Rightarrow> pystr \<Rightarrow> pystr list \<Rightarrow> db \<Rightarrow> 's world
    \<Rightarrow> (pystr \<times> db) res \<times> 's world" where
  "create_collection_parse_job e now j provider file_ids d w =
     (let n = w_ctr w; key = collection_parse_key j provider;
          pj = new_parse_job (uuid4 e n) (cj_tenant_id j) False (Some key) now in
      case db_violation (add_parse_job pj d) of
        Some v \<Rightarrow> (Inl (IntegrityError v), draw 1 w)
      | None \<Rightarrow>
          let (queue_job_id, w) = enqueue e parse_task_name [(''parse_job_id'', pj_id pj)] (draw 1 w);
              pj = pj\<lparr>pj_queue_job_id := Some queue_job_id\<rparr>;
              d = add_parse_links (pj_id pj) file_ids now (add_parse_job pj d);
              d = add_idempotency e (n + 2) now (cj_tenant_id j) ''parse_jobs.create'' key ''parse_job''
                    (pj_id pj) d;
              d = add_audit e (n + 3) now (cj_tenant_id j) ''parse_job.create'' None
                    (JObj [(''parse_job_id'', JStr (pj_id pj)), (''queue_job_id'', JStr queue_job_id),
                           (''file_ids'', json_strs file_ids), (''idempotency_key'', JStr key),
                           (''collection_job_id'', JStr (cj_id j)), (''provider'', JStr provider)]) d
          in (Inr (pj_id pj, d), draw 2 w))"

fun create_collection_parse_jobs ::
  "env \<Rightarrow> time \<Rightarrow> collection_job \<Rightarrow> (pystr \<times> pystr list) list \<Rightarrow> db \<Rightarrow> 's world
    \<Rightarrow> (pystr list \<times> db) res \<times> 's world" where
  "create_collection_parse_jobs e now j [] d w = (Inr ([], d), w)"
| "create_collection_parse_jobs e now j ((provider, file_ids) # rest) d w =
     (if file_ids = [] then create_collection_parse_jobs e now j rest d w
      else case create_collection_parse_job e now j provider file_ids d w of
        (Inl err, w) \<Rightarrow> (Inl err, w)
      | (Inr (i, d), w) \<Rightarrow>
          (case create_collection_parse_jobs e now j rest d w of
             (Inl err, w) \<Rightarrow> (Inl err, w)
           | (Inr (ids, d), w) \<Rightarrow> (Inr (i # ids, d), w)))"

definition collection_job_by_id :: "pystr \<Rightarrow> db \<Rightarrow> collection_job option" where
  "collection_job_by_id job_id d = scalar_one_or_none (\<lambda>j. cj_id j = job_id) (collection_jobs d)"

definition mark_collection_job :: "(collection_job \<Rightarrow> collection_job) \<Rightarrow> pystr \<Rightarrow> db \<Rightarrow> db" where
  "mark_collection_job f job_id d =
     d\<lparr>collection_jobs := upd_where (\<lambda>j. cj_id j = job_id) f (collection_jobs d)\<rparr>"

text \<open>
  The claim: a conditional UPDATE that only a queued job passes, so that of two deliveries
  one runs the job and the other returns the status it finds.
\<close>

definition claim_collection_job ::
  "env \<Rightarrow> time \<Rightarrow> pystr \<Rightarrow> 's world \<Rightarrow> (job_status option) res \<times> 's world" where
  "claim_collection_job e now job_id w =
     (let d = w_db w;
          claimable = (\<lambda>j. cj_id j = job_id \<and> cj_status j = QUEUED) in
      if length (filter claimable (collection_jobs d)) \<noteq> 1 then
        (case collection_job_by_id job_id d of
           None \<Rightarrow> (Inl (ValueError (''collection job not found: '' @ job_id)), w)
         | Some j \<Rightarrow> (Inr (Some (cj_status j)), w))
      else
        let d = d\<lparr>collection_jobs := upd_where claimable
                    (\<lambda>j. j\<lparr>cj_status := RUNNING, cj_started_at := Some now, cj_updated_at := now,
                           cj_error_message := None\<rparr>) (collection_jobs d)\<rparr> in
        (case collection_job_by_id job_id d of
           None \<Rightarrow> (Inl (OtherError ''No row was found when one was required''), w)
         | Some j \<Rightarrow>
             commit_with
               (add_audit e (w_ctr w) now (cj_tenant_id j) ''collection_job.run.started'' None
                  (JObj [(''collection_job_id'', JStr (cj_id j))]) d)
               (Inr None) (draw 1 w)))"

definition provider_map :: "collection_job \<Rightarrow> pystr list \<Rightarrow> db \<Rightarrow> pystr \<Rightarrow> provider_config option" where
  "provider_map j providers d name =
     scalar_one_or_none (\<lambda>p. pc_provider_type p = name)
       (rev (filter (\<lambda>p. pc_tenant_id p = cj_tenant_id j \<and> pc_provider_type p \<in> set providers)
              (provider_configs d)))"

definition final_failures :: "collect_state \<Rightarrow> failure list" where
  "final_failures c =
     (if cs_downloaded c = 0 \<and> cs_failures c = []
      then [\<lparr>fa_provider = ''all'', fa_code = ''NO_FILES_DOWNLOADED'',
             fa_message = ''collection completed without downloadable files''\<rparr>]
      else cs_failures c)"

definition finish_collection_job ::
  "env \<Rightarrow> time \<Rightarrow> collection_job \<Rightarrow> collect_state \<Rightarrow> pystr list \<Rightarrow> db \<Rightarrow> 's world
    \<Rightarrow> job_status res \<times> 's world" where
  "finish_collection_job e now j c parse_job_ids d w =
     (let failures = final_failures c;
          status = (if failures = [] then SUCCEEDED else FAILED);
          d = mark_collection_job (\<lambda>j. j\<lparr>cj_status := status, cj_files_discovered := cs_discovered c,
                cj_files_downloaded := cs_downloaded c,
                cj_parse_job_ids_json := json_dumps_sorted (json_strs parse_job_ids),
                cj_error_message := (if status = SUCCEEDED then None
                                     else Some (collection_failures_payload failures)),
                cj_finished_at := Some now, cj_updated_at := now\<rparr>) (cj_id j) d
      in commit_with
           (add_audit e (w_ctr w) now (cj_tenant_id j) (''collection_job.run.'' @ job_status_value status) None
              (JObj [(''collection_job_id'', JStr (cj_id j)), (''files_discovered'', JInt (cs_discovered c)),
                     (''files_downloaded'', JInt (cs_downloaded c)),
                     (''parse_job_ids'', json_strs parse_job_ids),
                     (''failure_count'', JInt (int (length failures)))]) d)
           (Inr status) (draw 1 w))"

definition execute_collection_job ::
  "env \<Rightarrow> 's storage_ops \<Rightarrow> executor \<Rightarrow> time \<Rightarrow> pystr \<Rightarrow> 's world \<Rightarrow> job_status res \<times> 's world" where
  "execute_collection_job e ops exec now job_id w =
     (let d = w_db w in
      case collection_job_by_id job_id d of
        None \<Rightarrow> (Inl (OtherError ''No row was found when one was required''), w)
      | Some j \<Rightarrow>
          let providers = decode_collection_list (cj_providers_json j) in
          if providers = [] then (Inl (ValueError ''collection job has no providers''), w)
          else (case collect_all e ops exec now j (provider_map j providers d) providers
                  \<lparr>cs_db = d, cs_failures = [], cs_files = [], cs_discovered = 0, cs_downloaded = 0\<rparr> w of
            (Inl err, w) \<Rightarrow> (Inl err, w)
          | (Inr c, w) \<Rightarrow>
              (case create_collection_parse_jobs e now j (cs_files c) (cs_db c) w of
                 (Inl err, w) \<Rightarrow> (Inl err, w)
               | (Inr (ids, d), w) \<Rightarrow> finish_collection_job e now j c ids d w)))"

definition fail_collection_job :: "env \<Rightarrow> time \<Rightarrow> pystr \<Rightarrow> exn \<Rightarrow> 's world \<Rightarrow> job_status res \<times> 's world" where
  "fail_collection_job e now job_id err w =
     (case collection_job_by_id job_id (w_db w) of
        None \<Rightarrow> (Inl (ValueError (''collection job not found: '' @ job_id)), w)
      | Some j \<Rightarrow>
          let failures = [\<lparr>fa_provider = ''all'', fa_code = ''COLLECTION_JOB_EXECUTION_ERROR'',
                           fa_message = exn_text err\<rparr>];
              d = mark_collection_job (\<lambda>j. j\<lparr>cj_status := FAILED,
                    cj_error_message := Some (collection_failures_payload failures),
                    cj_finished_at := Some now, cj_updated_at := now\<rparr>) job_id (w_db w)
          in commit_with
               (add_audit e (w_ctr w) now (cj_tenant_id j) ''collection_job.run.failed'' None
                  (JObj [(''collection_job_id'', JStr (cj_id j)), (''failure_count'', JInt 1),
                         (''provider_failures'', JList (map failure_json failures))]) d)
               (Inr FAILED) (draw 1 w))"

definition run_collection_job ::
  "env \<Rightarrow> 's storage_ops \<Rightarrow> executor \<Rightarrow> time \<Rightarrow> time \<Rightarrow> pystr \<Rightarrow> 's world \<Rightarrow> job_status res \<times> 's world" where
  "run_collection_job e ops exec started finished job_id w =
     (case claim_collection_job e started job_id w of
        (Inl err, w) \<Rightarrow> (Inl err, w)
      | (Inr (Some status), w) \<Rightarrow> (Inr status, w)
      | (Inr None, w) \<Rightarrow>
          (case execute_collection_job e ops exec finished job_id w of
             (Inr status, w) \<Rightarrow> (Inr status, w)
           | (Inl err, w) \<Rightarrow> fail_collection_job e finished job_id err w))"

subsection \<open>A job runs once\<close>

lemma mark_collection_job_tables [simp]:
  "invoice_files (mark_collection_job f i d) = invoice_files d" "parse_jobs (mark_collection_job f i d) = parse_jobs d"
  "collection_jobs (mark_collection_job f i d) = upd_where (\<lambda>j. cj_id j = i) f (collection_jobs d)"
  by (simp_all add: mark_collection_job_def)

lemma collection_scalar_upd:
  assumes "\<And>x. P x \<Longrightarrow> P (f x)"
  shows "scalar_one_or_none P (upd_where P f xs) = map_option f (scalar_one_or_none P xs)"
  by (induction xs) (auto simp: upd_where_def scalar_Cons assms)

lemma collection_job_by_id_mark:
  "(\<And>j. cj_id (f j) = cj_id j) \<Longrightarrow>
     collection_job_by_id i (mark_collection_job f i d) = map_option f (collection_job_by_id i d)"
  by (simp add: collection_job_by_id_def collection_scalar_upd)

lemma collection_job_same:
  "collection_jobs d = collection_jobs d' \<Longrightarrow> collection_job_by_id i d = collection_job_by_id i d'"
  by (simp add: collection_job_by_id_def)

lemma collection_job_by_idD: "collection_job_by_id i d = Some j \<Longrightarrow> cj_id j = i"
  by (auto simp: collection_job_by_id_def dest: scalar_SomeD)

text \<open>No row with the identifier is queued: the claim finds nothing to update.\<close>

lemma claim_refused:
  assumes "collection_job_by_id i (w_db w) = Some j"
    and "list_all (\<lambda>x. cj_id x = i \<longrightarrow> cj_status x \<noteq> QUEUED) (collection_jobs (w_db w))"
  shows "run_collection_job e ops exec t1 t2 i w = (Inr (cj_status j), w)"
proof -
  have "filter (\<lambda>j. cj_id j = i \<and> cj_status j = QUEUED) (collection_jobs (w_db w)) = []"
    using assms(2) by (auto simp: filter_empty_conv list_all_iff)
  then show ?thesis using assms(1) by (simp add: run_collection_job_def claim_collection_job_def)
qed

lemma claim_cases:
  assumes "claim_collection_job e now i w = (Inr r, w')"
  shows "(\<exists>j. r = Some (cj_status j) \<and> w' = w \<and> collection_job_by_id i (w_db w) = Some j \<and>
      length (filter (\<lambda>j. cj_id j = i \<and> cj_status j = QUEUED) (collection_jobs (w_db w))) \<noteq> 1) \<or>
    (r = None \<and> w_queue w' = w_queue w \<and> w_store w' = w_store w \<and> db_ok (w_db w') \<and>
      length (filter (\<lambda>j. cj_id j = i \<and> cj_status j = QUEUED) (collection_jobs (w_db w))) = 1 \<and>
      collection_jobs (w_db w') = upd_where (\<lambda>j. cj_id j = i \<and> cj_status j = QUEUED)
        (\<lambda>j. j\<lparr>cj_status := RUNNING, cj_started_at := Some now, cj_updated_at := now, cj_error_message := None\<rparr>)
        (collection_jobs (w_db w)) \<and>
      invoice_files (w_db w') = invoice_files (w_db w) \<and> parse_jobs (w_db w') = parse_jobs (w_db w))"
  using assms unfolding claim_collection_job_def Let_def
  by (auto split: if_splits option.splits dest!: commit_cases)


subsection \<open>What is collected\<close>

text \<open>
  The state of the loops over a job's files: what the unit of work has gained, and how the
  counters relate to it while \<open>k\<close> delivered files are still to be stored.
\<close>

definition collected :: "pystr \<Rightarrow> db \<Rightarrow> nat \<Rightarrow> collect_state \<Rightarrow> bool" where
  "collected tid d k c \<longleftrightarrow>
     (\<exists>new. cs_db c = d\<lparr>invoice_files := invoice_files d @ new\<rparr> \<and> cs_downloaded c = int (length new) \<and>
        list_all (\<lambda>f. fl_tenant_id f = tid \<and> fl_status f = UPLOADED) new) \<and>
     cs_downloaded c + int k \<le> cs_discovered c \<and>
     (cs_failures c = [] \<longrightarrow> cs_downloaded c + int k = cs_discovered c)"

lemma collected_failure: "collected tid d k c \<Longrightarrow> collected tid d k (add_failure p f m c)"
  by (auto simp: collected_def add_failure_def)

lemma store_collected_step:
  assumes "store_collected e ops now j p idx cf c w = (Inr c', w')" and "collected (cj_tenant_id j) d (Suc k) c"
  shows "collected (cj_tenant_id j) d k c' \<and> w_queue w' = w_queue w"
proof (cases "cf_content cf = []")
  case True
  with assms show ?thesis by (auto simp: store_collected_def collected_def add_failure_def)
next
  case False
  with assms show ?thesis
    unfolding collected_def store_collected_def Let_def
    by (fastforce split: sum.splits prod.splits option.splits)
qed

lemma store_all_step:
  "store_all e ops now j p idx cfs c w = (Inr c', w') \<Longrightarrow> collected (cj_tenant_id j) d (length cfs + k) c \<Longrightarrow>
     collected (cj_tenant_id j) d k c' \<and> w_queue w' = w_queue w"
proof (induction e ops now j p idx cfs c w rule: store_all.induct)
  case (2 e ops now j p idx cf cfs c w)
  obtain c1 w1 where s: "store_collected e ops now j p idx cf c w = (Inr c1, w1)"
    "store_all e ops now j p (idx + 1) cfs c1 w1 = (Inr c', w')"
    using 2(2) by (auto split: prod.splits sum.splits)
  from store_collected_step [OF s(1), of d "length cfs + k"] 2(3)
  have "collected (cj_tenant_id j) d (length cfs + k) c1 \<and> w_queue w1 = w_queue w" by simp
  with 2(1) [OF s(1) [symmetric] refl s(2)] show ?case by simp
qed simp

lemma collect_provider_step:
  assumes "collect_provider e ops exec now j by_type p c w = (Inr c', w')" and "collected (cj_tenant_id j) d 0 c"
  shows "collected (cj_tenant_id j) d 0 c' \<and> w_queue w' = w_queue w"
proof -
  have "collected (cj_tenant_id j) d (length fs + 0) (c\<lparr>cs_discovered := cs_discovered c + int (length fs)\<rparr>)" for fs :: "collected_file list"
    using assms(2) by (auto simp: collected_def)
  with assms show ?thesis
    by (auto simp: collect_provider_def collected_failure split: option.splits if_splits sum.splits dest!: store_all_step)
qed

lemma collect_all_step:
  "collect_all e ops exec now j by_type ps c w = (Inr c', w') \<Longrightarrow> collected (cj_tenant_id j) d 0 c \<Longrightarrow>
     collected (cj_tenant_id j) d 0 c' \<and> w_queue w' = w_queue w"
proof (induction e ops exec now j by_type ps c w rule: collect_all.induct)
  case (2 e ops exec now j by_type p ps c w)
  obtain c1 w1 where s: "collect_provider e ops exec now j by_type p c w = (Inr c1, w1)"
    "collect_all e ops exec now j by_type ps c1 w1 = (Inr c', w')"
    using 2(2) by (auto split: prod.splits sum.splits)
  from collect_provider_step [OF s(1) 2(3)] 2(1) [OF s(1) [symmetric] refl s(2)] show ?case by simp
qed simp

text \<open>The parse jobs of a collection: one per provider with files, each queued once.\<close>

lemma create_collection_parse_jobs_effect:
  "create_collection_parse_jobs e now j fs d w = (Inr (ids, d'), w') \<Longrightarrow>
   \<exists>pjs. parse_jobs d' = parse_jobs d @ pjs \<and> map pj_id pjs = ids \<and>
     list_all (\<lambda>p. pj_tenant_id p = cj_tenant_id j \<and> pj_status p = QUEUED) pjs \<and>
     invoice_files d' = invoice_files d \<and> collection_jobs d' = collection_jobs d \<and>
     map (\<lambda>q. (fst q, fst (snd q))) (w_queue w') =
       map (\<lambda>q. (fst q, fst (snd q))) (w_queue w) @ map (\<lambda>i. (parse_task_name, [(''parse_job_id'', i)])) ids"
proof (induction e now j fs d w arbitrary: ids d' w' rule: create_collection_parse_jobs.induct)
  case (2 e now j p file_ids rest d w)
  show ?case
  proof (cases "file_ids = []")
    case True
    with 2(1,3) show ?thesis by simp
  next
    case False
    obtain i d1 w1 ids1 where s: "create_collection_parse_job e now j p file_ids d w = (Inr (i, d1), w1)"
      "create_collection_parse_jobs e now j rest d1 w1 = (Inr (ids1, d'), w')" "ids = i # ids1"
      using 2(3) False by (auto split: prod.splits sum.splits)
    have first: "\<exists>pj. parse_jobs d1 = parse_jobs d @ [pj] \<and> pj_id pj = i \<and> pj_tenant_id pj = cj_tenant_id j \<and>
        pj_status pj = QUEUED \<and> invoice_files d1 = invoice_files d \<and> collection_jobs d1 = collection_jobs d \<and>
        map (\<lambda>q. (fst q, fst (snd q))) (w_queue w1) =
          map (\<lambda>q. (fst q, fst (snd q))) (w_queue w) @ [(parse_task_name, [(''parse_job_id'', i)])]"
      using s(1) by (auto simp: create_collection_parse_job_def Let_def enqueue_def add_parse_job_def
          add_parse_links_def new_parse_job_def draw_def split: option.splits)
    from 2(2) [OF False s(1) [symmetric] refl refl s(2)] first s(3) show ?thesis by fastforce
  qed
qed simp

lemma scalar_Some_filter: "scalar_one_or_none P xs = Some x \<Longrightarrow> length (filter P xs) \<ge> 1"
  by (induction xs) (auto simp: scalar_Cons split: if_splits)

lemma execute_collection_effect:
  assumes "execute_collection_job e ops exec now i w = (Inr st, w')"
  obtains j c new pjs where "collection_job_by_id i (w_db w) = Some j" "st = (if final_failures c = [] then SUCCEEDED else FAILED)"
    "invoice_files (w_db w') = invoice_files (w_db w) @ new" "cs_downloaded c = int (length new)"
    "list_all (\<lambda>f. fl_tenant_id f = cj_tenant_id j \<and> fl_status f = UPLOADED) new"
    "cs_downloaded c \<le> cs_discovered c" "cs_failures c = [] \<longrightarrow> cs_downloaded c = cs_discovered c"
    "parse_jobs (w_db w') = parse_jobs (w_db w) @ pjs"
    "list_all (\<lambda>p. pj_tenant_id p = cj_tenant_id j \<and> pj_status p = QUEUED) pjs"
    "map (\<lambda>q. (fst q, fst (snd q))) (w_queue w') = map (\<lambda>q. (fst q, fst (snd q))) (w_queue w) @
       map (\<lambda>p. (parse_task_name, [(''parse_job_id'', pj_id p)])) pjs"
    "collection_jobs (w_db w') = upd_where (\<lambda>j. cj_id j = i)
       (\<lambda>j. j\<lparr>cj_status := st, cj_files_discovered := cs_discovered c, cj_files_downloaded := cs_downloaded c,
          cj_parse_job_ids_json := json_dumps_sorted (json_strs (map pj_id pjs)),
          cj_error_message := (if st = SUCCEEDED then None else Some (collection_failures_payload (final_failures c))),
          cj_finished_at := Some now, cj_updated_at := now\<rparr>) (collection_jobs (w_db w))"
proof -
  let ?d = "w_db w"
  let ?start = "\<lparr>cs_db = ?d, cs_failures = [], cs_files = [], cs_discovered = 0, cs_downloaded = 0\<rparr>"
  obtain j where j: "collection_job_by_id i ?d = Some j"
    using assms by (auto simp: execute_collection_job_def Let_def split: option.splits)
  let ?ps = "decode_collection_list (cj_providers_json j)"
  obtain c w1 where c: "collect_all e ops exec now j (provider_map j ?ps ?d) ?ps ?start w = (Inr c, w1)"
    using assms j by (auto simp: execute_collection_job_def Let_def split: if_splits prod.splits sum.splits)
  obtain ids d2 w2 where p: "create_collection_parse_jobs e now j (cs_files c) (cs_db c) w1 = (Inr (ids, d2), w2)"
    using assms j c by (auto simp: execute_collection_job_def Let_def split: if_splits prod.splits sum.splits)
  have fin: "finish_collection_job e now j c ids d2 w2 = (Inr st, w')"
    using assms j c p by (auto simp: execute_collection_job_def Let_def split: if_splits)
  have "collected (cj_tenant_id j) ?d 0 ?start" by (simp add: collected_def)
  from collect_all_step [OF c this] obtain new where new: "cs_db c = ?d\<lparr>invoice_files := invoice_files ?d @ new\<rparr>"
    "cs_downloaded c = int (length new)" "list_all (\<lambda>f. fl_tenant_id f = cj_tenant_id j \<and> fl_status f = UPLOADED) new"
    "cs_downloaded c \<le> cs_discovered c" "cs_failures c = [] \<longrightarrow> cs_downloaded c = cs_discovered c"
    "w_queue w1 = w_queue w" by (auto simp: collected_def)
  from create_collection_parse_jobs_effect [OF p] new obtain pjs where pjs: "parse_jobs d2 = parse_jobs ?d @ pjs" "map pj_id pjs = ids"
    "list_all (\<lambda>p. pj_tenant_id p = cj_tenant_id j \<and> pj_status p = QUEUED) pjs"
    "invoice_files d2 = invoice_files ?d @ new" "collection_jobs d2 = collection_jobs ?d"
    "map (\<lambda>q. (fst q, fst (snd q))) (w_queue w2) = map (\<lambda>q. (fst q, fst (snd q))) (w_queue w) @
       map (\<lambda>i. (parse_task_name, [(''parse_job_id'', i)])) ids" by auto
  have id: "cj_id j = i" by (rule collection_job_by_idD [OF j])
  have fin': "st = (if final_failures c = [] then SUCCEEDED else FAILED) \<and> w_queue w' = w_queue w2 \<and>
      invoice_files (w_db w') = invoice_files d2 \<and> parse_jobs (w_db w') = parse_jobs d2 \<and>
      collection_jobs (w_db w') = upd_where (\<lambda>j. cj_id j = i)
       (\<lambda>j. j\<lparr>cj_status := st, cj_files_discovered := cs_discovered c, cj_files_downloaded := cs_downloaded c,
          cj_parse_job_ids_json := json_dumps_sorted (json_strs ids),
          cj_error_message := (if st = SUCCEEDED then None else Some (collection_failures_payload (final_failures c))),
          cj_finished_at := Some now, cj_updated_at := now\<rparr>) (collection_jobs d2)"
    using fin id by (auto simp: finish_collection_job_def Let_def split: if_splits dest!: commit_cases)
  have q: "map (\<lambda>i. (parse_task_name, [(''parse_job_id'', i)])) ids =
      map (\<lambda>p. (parse_task_name, [(''parse_job_id'', pj_id p)])) pjs"
    by (simp add: pjs(2) [symmetric])
  show thesis
    by (rule that [OF j, of c new pjs]) (use new pjs fin' q in simp_all)
qed

text \<open>The loops work on the unit of work: they never touch the committed database.\<close>

lemma store_collected_db [simp]: "w_db (snd (store_collected e ops now j p idx cf c w)) = w_db w"
  by (simp add: store_collected_def Let_def split: sum.splits prod.splits option.splits)

lemma store_all_db [simp]: "w_db (snd (store_all e ops now j p idx cfs c w)) = w_db w"
proof (induction e ops now j p idx cfs c w rule: store_all.induct)
  case (2 e ops now j p idx cf cfs c w)
  then show ?case
    using store_collected_db [of e ops now j p idx cf c w]
    by (cases "store_collected e ops now j p idx cf c w") (auto split: sum.splits)
qed simp

lemma collect_provider_db [simp]: "w_db (snd (collect_provider e ops exec now j by_type p c w)) = w_db w"
  by (simp add: collect_provider_def split: option.splits sum.splits)

lemma collect_all_db [simp]: "w_db (snd (collect_all e ops exec now j by_type ps c w)) = w_db w"
proof (induction e ops exec now j by_type ps c w rule: collect_all.induct)
  case (2 e ops exec now j by_type p ps c w)
  then show ?case
    using collect_provider_db [of e ops exec now j by_type p c w]
    by (cases "collect_provider e ops exec now j by_type p c w") (auto split: sum.splits)
qed simp

lemma create_collection_parse_job_db [simp]: "w_db (snd (create_collection_parse_job e now j p fs d w)) = w_db w"
  by (simp add: create_collection_parse_job_def Let_def enqueue_def split: option.splits)

lemma create_collection_parse_jobs_db [simp]: "w_db (snd (create_collection_parse_jobs e now j fs d w)) = w_db w"
proof (induction e now j fs d w rule: create_collection_parse_jobs.induct)
  case (2 e now j p file_ids rest d w)
  then show ?case
    using create_collection_parse_job_db [of e now j p file_ids d w]
    by (cases "create_collection_parse_job e now j p file_ids d w") (auto split: sum.splits prod.splits)
qed simp

lemma execute_collection_fails:
  assumes "execute_collection_job e ops exec now i w = (Inl err, w')"
  shows "w_db w' = w_db w"
proof (cases "collection_job_by_id i (w_db w)")
  case None
  with assms show ?thesis by (simp add: execute_collection_job_def Let_def)
next
  case (Some j)
  let ?ps = "decode_collection_list (cj_providers_json j)"
  let ?start = "\<lparr>cs_db = w_db w, cs_failures = [], cs_files = [], cs_discovered = 0, cs_downloaded = 0\<rparr>"
  obtain x w1 where c: "collect_all e ops exec now j (provider_map j ?ps (w_db w)) ?ps ?start w = (x, w1)" by force
  have w1: "w_db w1 = w_db w"
    using collect_all_db [of e ops exec now j "provider_map j ?ps (w_db w)" ?ps ?start w] c by simp
  show ?thesis
  proof (cases x)
    case (Inl err)
    with assms Some c w1 show ?thesis by (auto simp: execute_collection_job_def Let_def split: if_splits)
  next
    case (Inr st)
    obtain y w2 where p: "create_collection_parse_jobs e now j (cs_files st) (cs_db st) w1 = (y, w2)" by force
    have "w_db w2 = w_db w"
      using create_collection_parse_jobs_db [of e now j "cs_files st" "cs_db st" w1] p w1 by simp
    with assms Some c Inr p show ?thesis
      by (cases y) (auto simp: execute_collection_job_def Let_def finish_collection_job_def
          split: if_splits dest!: commit_cases)
  qed
qed

lemma upd_not_queued:
  "(\<And>x. cj_status (f x) \<noteq> QUEUED) \<Longrightarrow>
     list_all (\<lambda>x. cj_id x = i \<longrightarrow> cj_status x \<noteq> QUEUED) (upd_where (\<lambda>j. cj_id j = i) f xs)"
  by (auto simp: list_all_iff in_set_upd_where split: if_splits) metis

text \<open>A run either finds the job taken, or claims it and then records its outcome.\<close>

lemma run_collection_cases:
  assumes "run_collection_job e ops exec t1 t2 i w = (Inr st, w')"
  shows "(\<exists>j. collection_job_by_id i (w_db w) = Some j \<and> st = cj_status j \<and> w' = w \<and>
        length (filter (\<lambda>j. cj_id j = i \<and> cj_status j = QUEUED) (collection_jobs (w_db w))) \<noteq> 1) \<or>
    (\<exists>w1. claim_collection_job e t1 i w = (Inr None, w1) \<and>
      (execute_collection_job e ops exec t2 i w1 = (Inr st, w') \<or>
       (\<exists>err w2. execute_collection_job e ops exec t2 i w1 = (Inl err, w2) \<and>
          fail_collection_job e t2 i err w2 = (Inr st, w'))))"
proof -
  obtain r w1 where c: "claim_collection_job e t1 i w = (Inr r, w1)"
    using assms by (auto simp: run_collection_job_def split: prod.splits sum.splits)
  show ?thesis
  proof (cases r)
    case None
    then show ?thesis using assms c by (auto simp: run_collection_job_def split: prod.splits sum.splits)
  next
    case (Some s)
    with claim_cases [OF c] assms c show ?thesis by (auto simp: run_collection_job_def)
  qed
qed

lemma collection_job_by_id_upd:
  assumes "collection_jobs d = upd_where (\<lambda>j. cj_id j = i) f (collection_jobs d1)" and "\<And>x. cj_id (f x) = cj_id x"
    and "collection_job_by_id i d1 = Some j"
  shows "collection_job_by_id i d = Some (f j)"
proof -
  have "scalar_one_or_none (\<lambda>j. cj_id j = i) (upd_where (\<lambda>j. cj_id j = i) f (collection_jobs d1)) =
      map_option f (scalar_one_or_none (\<lambda>j. cj_id j = i) (collection_jobs d1))"
    by (rule collection_scalar_upd) (simp add: assms(2))
  with assms(3) show ?thesis by (simp add: collection_job_by_id_def assms(1))
qed

lemma fail_collection_effect:
  assumes "fail_collection_job e now i err w = (Inr st, w')"
  shows "st = FAILED \<and> invoice_files (w_db w') = invoice_files (w_db w) \<and> parse_jobs (w_db w') = parse_jobs (w_db w) \<and>
    (\<exists>m. collection_jobs (w_db w') = upd_where (\<lambda>j. cj_id j = i)
       (\<lambda>j. j\<lparr>cj_status := FAILED, cj_error_message := Some m, cj_finished_at := Some now, cj_updated_at := now\<rparr>)
       (collection_jobs (w_db w)))"
  using assms unfolding fail_collection_job_def Let_def
  by (auto split: option.splits dest!: commit_cases)

text \<open>
  C11: A collection job runs at most once however often it is delivered: after a run that
  returned, another delivery returns the same status and changes nothing at all.
\<close>

theorem collection_job_runs_once:
  assumes "run_collection_job e ops exec t1 t2 i w = (Inr st, w')"
  shows "run_collection_job e' ops' exec' t3 t4 i w' = (Inr st, w')"
  using run_collection_cases [OF assms]
proof
  assume "\<exists>j. collection_job_by_id i (w_db w) = Some j \<and> st = cj_status j \<and> w' = w \<and>
      length (filter (\<lambda>j. cj_id j = i \<and> cj_status j = QUEUED) (collection_jobs (w_db w))) \<noteq> 1"
  then show ?thesis by (auto simp: run_collection_job_def claim_collection_job_def Let_def)
next
  assume "\<exists>w1. claim_collection_job e t1 i w = (Inr None, w1) \<and>
      (execute_collection_job e ops exec t2 i w1 = (Inr st, w') \<or>
       (\<exists>err w2. execute_collection_job e ops exec t2 i w1 = (Inl err, w2) \<and>
          fail_collection_job e t2 i err w2 = (Inr st, w')))"
  then obtain w1 where c: "claim_collection_job e t1 i w = (Inr None, w1)"
    and x: "execute_collection_job e ops exec t2 i w1 = (Inr st, w') \<or>
       (\<exists>err w2. execute_collection_job e ops exec t2 i w1 = (Inl err, w2) \<and>
          fail_collection_job e t2 i err w2 = (Inr st, w'))" by blast
  have "\<exists>f j. collection_jobs (w_db w') = upd_where (\<lambda>j. cj_id j = i) f (collection_jobs (w_db w1)) \<and>
      (\<forall>x. cj_id (f x) = cj_id x \<and> cj_status (f x) = st) \<and> st \<noteq> QUEUED \<and> collection_job_by_id i (w_db w1) = Some j"
    using x
  proof
    assume "execute_collection_job e ops exec t2 i w1 = (Inr st, w')"
    then show ?thesis by (rule execute_collection_effect) force
  next
    assume "\<exists>err w2. execute_collection_job e ops exec t2 i w1 = (Inl err, w2) \<and>
          fail_collection_job e t2 i err w2 = (Inr st, w')"
    then obtain err w2 where f: "w_db w2 = w_db w1" "fail_collection_job e t2 i err w2 = (Inr st, w')"
      using execute_collection_fails by blast
    moreover obtain j where "collection_job_by_id i (w_db w2) = Some j"
      using f(2) by (auto simp: fail_collection_job_def split: option.splits)
    moreover obtain m where "st = FAILED" "collection_jobs (w_db w') = upd_where (\<lambda>j. cj_id j = i)
       (\<lambda>j. j\<lparr>cj_status := FAILED, cj_error_message := Some m, cj_finished_at := Some t2, cj_updated_at := t2\<rparr>)
       (collection_jobs (w_db w2))"
      using fail_collection_effect [OF f(2)] by blast
    ultimately show ?thesis by (intro exI [of _ "\<lambda>j. j\<lparr>cj_status := FAILED, cj_error_message := Some m,
        cj_finished_at := Some t2, cj_updated_at := t2\<rparr>"] exI [of _ j]) simp
  qed
  then obtain f j where w': "collection_jobs (w_db w') = upd_where (\<lambda>j. cj_id j = i) f (collection_jobs (w_db w1))"
    and f: "\<And>x. cj_id (f x) = cj_id x" "\<And>x. cj_status (f x) = st" and st: "st \<noteq> QUEUED"
    and j: "collection_job_by_id i (w_db w1) = Some j" by (elim exE conjE) (erule that, auto)
  have found: "collection_job_by_id i (w_db w') = Some (f j)"
    by (rule collection_job_by_id_upd [OF w' f(1) j])
  have "list_all (\<lambda>x. cj_id x = i \<longrightarrow> cj_status x \<noteq> QUEUED) (collection_jobs (w_db w'))"
    unfolding w' by (rule upd_not_queued) (simp add: f(2) st)
  from claim_refused [OF found this] show ?thesis by (simp add: f(2))
qed


subsection \<open>A concrete collection\<close>

definition demo_collection_job :: collection_job where
  "demo_collection_job =
     \<lparr>cj_id = ''c'', cj_tenant_id = ''t'', cj_status = QUEUED, cj_idempotency_key = None,
      cj_providers_json = ''[\"gmail\"]'', cj_month_scope = ''2024-05'', cj_queue_job_id = None,
      cj_files_discovered = 0, cj_files_downloaded = 0, cj_parse_job_ids_json = ''[]'', cj_error_message = None,
      cj_created_at = 0, cj_updated_at = 0, cj_started_at = None, cj_finished_at = None\<rparr>"

definition demo_connected_provider :: provider_config where
  "demo_connected_provider =
     \<lparr>pc_id = ''p'', pc_tenant_id = ''t'', pc_provider_type = ''gmail'', pc_display_name = None,
      pc_connection_status = ''connected'', pc_config_json = ''{}'', pc_token_expires_at = None,
      pc_last_successful_sync_at = None, pc_last_error_code = None, pc_last_error_message = None,
      pc_oauth_access_token_enc = Some ''sealed'', pc_oauth_refresh_token_enc = None, pc_created_at = 0,
      pc_updated_at = 0\<rparr>"

definition demo_collection_world :: "local_fs world" where
  "demo_collection_world =
     \<lparr>w_db = empty_db\<lparr>collection_jobs := [demo_collection_job], provider_configs := [demo_connected_provider]\<rparr>,
      w_queue = [], w_store = \<lparr>fs_files = [], fs_dirs = [[]]\<rparr>, w_ctr = 0\<rparr>"

definition demo_collection_run :: "job_status res \<times> local_fs world" where
  "demo_collection_run =
     run_collection_job toy_env (local_storage toy_env [''d'']) (default_provider_executor ''%PDF'') 5 6 ''c'' demo_collection_world"

lemma demo_collection_run_eq: "demo_collection_run = (Inr SUCCEEDED, snd demo_collection_run)"
proof -
  have "fst demo_collection_run = Inr SUCCEEDED" by code_simp
  then show ?thesis by (metis prod.collapse)
qed

lemma collection_job_runs_once_witness:
  "run_collection_job toy_env (local_storage toy_env [''d'']) (default_provider_executor ''other'') 7 8 ''c'' (snd demo_collection_run) =
     (Inr SUCCEEDED, snd demo_collection_run)"
  by (rule collection_job_runs_once [OF trans [OF demo_collection_run_def [symmetric] demo_collection_run_eq]])


end
