(* ===== verification/Worker_Tasks.thy ===== *)
theory Worker_Tasks
  imports Worker_Reports Worker_Parse Worker_Collection
begin

text \<open>
  The task functions of \<open>saas/tasks.py\<close> and the handlers a drain of the in-memory queue runs:
  the task names the service queues are the names of these functions. A worker context holds
  what the tasks get from their environment.
\<close>

record 's worker_context =
  wc_storage :: "'s storage_ops"
  wc_parser :: "parse_input \<Rightarrow> bool \<Rightarrow> (parsed_invoice list) res"
  wc_executor :: executor
  wc_pypdf :: "bytes option"

text \<open>\<open>payload["name"]\<close>\<close>

definition payload_get :: "payload \<Rightarrow> pystr \<Rightarrow> pystr res" where
  "payload_get p k = (case map_of p k of None \<Rightarrow> Inl (KeyError k) | Some v \<Rightarrow> Inr v)"

definition status_result :: "job_status res \<times> 's world \<Rightarrow> pystr res \<times> 's world" where
  "status_result rw = (case rw of (r, w) \<Rightarrow> (res_bind r (\<lambda>st. Inr (job_status_value st)), w))"

definition run_parse_job_task ::
  "env \<Rightarrow> 's worker_context \<Rightarrow> time \<Rightarrow> payload \<Rightarrow> 's world \<Rightarrow> pystr res \<times> 's world" where
  "run_parse_job_task e wc now p w =
     (case payload_get p ''parse_job_id'' of
        Inl err \<Rightarrow> (Inl err, w)
      | Inr i \<Rightarrow> status_result (run_parse_job e (wc_storage wc) (wc_parser wc) now now i w))"

definition run_collection_job_task ::
  "env \<Rightarrow> 's worker_context \<Rightarrow> time \<Rightarrow> payload \<Rightarrow> 's world \<Rightarrow> pystr res \<times> 's world" where
  "run_collection_job_task e wc now p w =
     (case payload_get p ''collection_job_id'' of
        Inl err \<Rightarrow> (Inl err, w)
      | Inr i \<Rightarrow> status_result (run_collection_job e (wc_storage wc) (wc_executor wc) now now i w))"

definition run_report_job_task ::
  "env \<Rightarrow> 's worker_context \<Rightarrow> time \<Rightarrow> payload \<Rightarrow> 's world \<Rightarrow> pystr res \<times> 's world" where
  "run_report_job_task e wc now p w =
     (case payload_get p ''report_id'' of
        Inl err \<Rightarrow> (Inl err, w)
      | Inr i \<Rightarrow> status_result (run_report_job e (wc_storage wc) (wc_pypdf wc) now now i w))"

definition run_report_retention_cleanup_task ::
  "env \<Rightarrow> 's worker_context \<Rightarrow> time \<Rightarrow> payload \<Rightarrow> 's world \<Rightarrow> int res \<times> 's world" where
  "run_report_retention_cleanup_task e wc now p w =
     (case py_int (case map_of p ''retention_days'' of None \<Rightarrow> ''30'' | Some v \<Rightarrow> v) of
        None \<Rightarrow> (Inl (ValueError ''invalid literal for int()''), w)
      | Some n \<Rightarrow> run_report_retention_cleanup (wc_storage wc) now n w)"

definition discard :: "'a res \<times> 's world \<Rightarrow> unit res \<times> 's world" where
  "discard rw = (case rw of (r, w) \<Rightarrow> (res_bind r (\<lambda>_. Inr ()), w))"

text \<open>The handlers by task name.\<close>

definition task_handlers ::
  "env \<Rightarrow> 's worker_context \<Rightarrow> time \<Rightarrow> pystr \<Rightarrow> (payload \<Rightarrow> 's world \<Rightarrow> unit res \<times> 's world) option" where
  "task_handlers e wc now task =
     (if task = ''invplatform.saas.tasks.run_parse_job_task''
      then Some (\<lambda>p w. discard (run_parse_job_task e wc now p w))
      else if task = ''invplatform.saas.tasks.run_collection_job_task''
      then Some (\<lambda>p w. discard (run_collection_job_task e wc now p w))
      else if task = ''invplatform.saas.tasks.run_report_job_task''
      then Some (\<lambda>p w. discard (run_report_job_task e wc now p w))
      else if task = ''invplatform.saas.tasks.run_report_retention_cleanup_task''
      then Some (\<lambda>p w. discard (run_report_retention_cleanup_task e wc now p w))
      else None)"

end
