(* ===== verification/Api_Core.thy ===== *)
theory Api_Core
  imports Service_Auth Service_Providers Metrics Worker_Tasks
begin

text \<open>
  The parts of \<open>saas/api.py\<close> that are not web framework: how a request is tied to a tenant
  (API key, bearer token or both), the control-plane check, the mapping of service errors to
  HTTP errors, the audit event the middleware writes, and the dictionaries responses are
  made of. Routing, validation by pydantic and the HTML pages are not modelled.
\<close>

text \<open>
  How a handler ends without a response of its own: an \<open>HTTPException\<close>, which the framework
  turns into a response, or another exception, which reaches the middleware.
\<close>

datatype http_error = HTTPError int pystr | Unhandled exn

type_synonym 'a http = "http_error + 'a"

fun http_bind :: "'a http \<Rightarrow> ('a \<Rightarrow> 'b http) \<Rightarrow> 'b http" where
  "http_bind (Inl err) f = Inl err"
| "http_bind (Inr x) f = f x"

definition starts_with :: "pystr \<Rightarrow> pystr \<Rightarrow> bool" where
  "starts_with pre s \<longleftrightarrow> take (length pre) s = pre"

definition strip_char :: "char \<Rightarrow> pystr \<Rightarrow> pystr" where
  "strip_char c s = rstrip_char c (lstrip_char c s)"

text \<open>\<open>_normalize_action\<close>\<close>

definition normalize_action :: "pystr \<Rightarrow> pystr \<Rightarrow> pystr" where
  "normalize_action meth route_path =
     (let normalized = filter (\<lambda>c. c \<notin> set ''{}'')
            (map (\<lambda>c. if c = CHR ''/'' then CHR ''.'' else c) (strip_char (CHR ''/'') route_path))
      in py_lower meth @ ''.'' @ (if normalized = [] then ''root'' else normalized))"

subsection \<open>Who is calling\<close>

text \<open>\<open>_extract_bearer_token\<close>\<close>

definition extract_bearer_token :: "pystr option \<Rightarrow> (pystr option) http" where
  "extract_bearer_token raw_authorization =
     (case raw_authorization of
        None \<Rightarrow> Inr None
      | Some raw \<Rightarrow>
          let scheme = before_char (CHR '' '') raw; token = py_strip (after_char (CHR '' '') raw) in
          if CHR '' '' \<notin> set raw \<or> py_lower scheme \<noteq> ''bearer''
          then Inl (HTTPError 401 ''invalid bearer token'')
          else if token = [] then Inl (HTTPError 401 ''missing bearer token'')
          else Inr (Some token))"

text \<open>The tenant of an API key header; an empty header counts as absent.\<close>

definition api_key_tenant :: "env \<Rightarrow> pystr option \<Rightarrow> db \<Rightarrow> (pystr option) http" where
  "api_key_tenant e x_api_key d =
     (case x_api_key of
        None \<Rightarrow> Inr None
      | Some k \<Rightarrow>
          if k = [] then Inr None
          else (case get_tenant_by_api_key e k d of
            None \<Rightarrow> Inl (HTTPError 401 ''invalid API key'')
          | Some t \<Rightarrow> Inr (Some (tn_id t))))"

definition bearer_tenant ::
  "env \<Rightarrow> service_config \<Rightarrow> time \<Rightarrow> pystr option \<Rightarrow> db \<Rightarrow> (pystr option) http" where
  "bearer_tenant e cfg now authorization d =
     http_bind (extract_bearer_token authorization) (\<lambda>token.
       case token of
         None \<Rightarrow> Inr None
       | Some access_token \<Rightarrow>
           (case get_current_user e cfg now access_token d of
              Inr me \<Rightarrow> Inr (Some (tn_id (me_tenant me)))
            | Inl (AuthError _ message status) \<Rightarrow> Inl (HTTPError status message)
            | Inl err \<Rightarrow> Inl (Unhandled err)))"

definition resolve_runtime_tenant_id ::
  "env \<Rightarrow> service_config \<Rightarrow> time \<Rightarrow> pystr option \<Rightarrow> pystr option \<Rightarrow> db \<Rightarrow> (pystr option) http" where
  "resolve_runtime_tenant_id e cfg now x_api_key authorization d =
     http_bind (api_key_tenant e x_api_key d) (\<lambda>from_key.
     http_bind (bearer_tenant e cfg now authorization d) (\<lambda>from_bearer.
       case (from_key, from_bearer) of
         (Some a, Some b) \<Rightarrow>
           if a \<noteq> b then Inl (HTTPError 403 ''tenant mismatch between API key and bearer token'')
           else Inr (Some b)
       | (_, Some b) \<Rightarrow> Inr (if b = [] then from_key else Some b)
       | (_, None) \<Rightarrow> Inr from_key))"

text \<open>\<open>get_tenant_id\<close>: the middleware's cached answer, or a fresh one; no tenant is 401.\<close>

definition get_tenant_id ::
  "env \<Rightarrow> service_config \<Rightarrow> time \<Rightarrow> pystr option \<Rightarrow> pystr option \<Rightarrow> pystr option \<Rightarrow> db \<Rightarrow> pystr http" where
  "get_tenant_id e cfg now cached x_api_key authorization d =
     (if truthy_str cached then Inr (the cached)
      else http_bind (resolve_runtime_tenant_id e cfg now x_api_key authorization d) (\<lambda>r.
        case r of
          None \<Rightarrow> Inl (HTTPError 401 ''missing API key or bearer token'')
        | Some t \<Rightarrow> Inr t))"

text \<open>The tenant the middleware caches before the handler runs: an \<open>HTTPException\<close> counts as no tenant.\<close>

definition middleware_tenant ::
  "env \<Rightarrow> service_config \<Rightarrow> time \<Rightarrow> pystr \<Rightarrow> pystr option \<Rightarrow> pystr option \<Rightarrow> db \<Rightarrow> (pystr option) http" where
  "middleware_tenant e cfg now req_path x_api_key authorization d =
     (if starts_with ''/v1'' req_path
      then (case resolve_runtime_tenant_id e cfg now x_api_key authorization d of
              Inl (HTTPError _ _) \<Rightarrow> Inr None | r \<Rightarrow> r)
      else Inr None)"

definition require_control_plane_access :: "pystr option \<Rightarrow> pystr option \<Rightarrow> unit http" where
  "require_control_plane_access configured_key x_control_plane_key =
     (case strip_or_none configured_key of
        None \<Rightarrow> Inl (HTTPError 503 ''control plane is disabled'')
      | Some k \<Rightarrow>
          if x_control_plane_key \<noteq> Some k then Inl (HTTPError 401 ''invalid control plane key'')
          else Inr ())"


subsection \<open>Errors\<close>

definition provider_status_by_code :: "(pystr \<times> int) list" where
  "provider_status_by_code =
     [(''PROVIDER_NOT_FOUND'', 404), (''PROVIDER_CONFLICT'', 409), (''PROVIDER_VALIDATION_ERROR'', 400),
      (''PROVIDER_OAUTH_NOT_CONNECTED'', 409), (''PROVIDER_OAUTH_STATE_INVALID'', 400),
      (''PROVIDER_OAUTH_STATE_EXPIRED'', 400), (''PROVIDER_OAUTH_CONFIG_ERROR'', 503),
      (''PROVIDER_CONFIG_ERROR'', 500)]"

definition status_for :: "(pystr \<times> int) list \<Rightarrow> pystr \<Rightarrow> int" where
  "status_for by_code c = (case map_of by_code c of None \<Rightarrow> 400 | Some s \<Rightarrow> s)"

definition provider_http_exception :: "pystr \<Rightarrow> pystr \<Rightarrow> http_error" where
  "provider_http_exception c message = HTTPError (status_for provider_status_by_code c) message"

definition collection_status_by_code :: "(pystr \<times> int) list" where
  "collection_status_by_code =
     [(''COLLECTION_NOT_FOUND'', 404), (''COLLECTION_CONFLICT'', 409), (''COLLECTION_VALIDATION_ERROR'', 400)]"

definition collection_http_exception :: "pystr \<Rightarrow> pystr \<Rightarrow> http_error" where
  "collection_http_exception c message = HTTPError (status_for collection_status_by_code c) message"

text \<open>The three \<open>except\<close> clauses the handlers use, on the exception a service call raised.\<close>

fun catch_provider_error :: "exn \<Rightarrow> http_error" where
  "catch_provider_error (ProviderConfigError c m) = provider_http_exception c m"
| "catch_provider_error err = Unhandled err"

fun catch_collection_error :: "exn \<Rightarrow> http_error" where
  "catch_collection_error (CollectionJobError c m) = collection_http_exception c m"
| "catch_collection_error err = Unhandled err"

text \<open>\<open>except ValueError\<close> also catches its subclasses.\<close>

fun catch_value_error :: "int \<Rightarrow> exn \<Rightarrow> http_error" where
  "catch_value_error status (ValueError m) = HTTPError status m"
| "catch_value_error status UnicodeEncodeError = HTTPError status (exn_text UnicodeEncodeError)"
| "catch_value_error status JSONDecodeError = HTTPError status (exn_text JSONDecodeError)"
| "catch_value_error status err = Unhandled err"


subsection \<open>Responses\<close>

definition opt_iso :: "time option \<Rightarrow> json" where
  "opt_iso v = (case v of None \<Rightarrow> JNull | Some t \<Rightarrow> JStr (datetime_isoformat t))"

definition api_key_to_dict :: "api_key \<Rightarrow> json" where
  "api_key_to_dict k =
     JObj [(''id'', JStr (ak_id k)), (''tenant_id'', JStr (ak_tenant_id k)),
           (''key_prefix'', JStr (ak_key_prefix k)), (''revoked'', JBool (ak_revoked k)),
           (''created_at'', opt_iso (Some (ak_created_at k))), (''revoked_at'', opt_iso (ak_revoked_at k))]"

definition invoice_to_dict :: "invoice_record \<Rightarrow> json" where
  "invoice_to_dict r =
     JObj [(''id'', JStr (ir_id r)), (''parse_job_id'', JStr (ir_parse_job_id r)), (''vendor'', JStr (ir_vendor r)),
           (''file_name'', JStr (ir_file_name r)), (''invoice_number'', json_opt_str (ir_invoice_number r)),
           (''invoice_date'', opt_date (ir_invoice_date r)), (''invoice_total'', opt_float (ir_invoice_total r)),
           (''invoice_vat'', opt_float (ir_invoice_vat r)), (''currency'', JStr (ir_currency r)),
           (''purpose'', json_opt_str (ir_purpose r))]"

definition tenant_to_dict :: "tenant \<Rightarrow> json" where
  "tenant_to_dict t =
     JObj [(''id'', JStr (tn_id t)), (''slug'', JStr (tn_slug t)), (''name'', JStr (tn_name t)),
           (''created_at'', opt_iso (Some (tn_created_at t)))]"

definition user_to_dict :: "user \<Rightarrow> json" where
  "user_to_dict u =
     JObj [(''id'', JStr (us_id u)), (''email'', JStr (us_email u)), (''full_name'', json_opt_str (us_full_name u)),
           (''is_active'', JBool (us_is_active u)), (''created_at'', opt_iso (Some (us_created_at u))),
           (''updated_at'', opt_iso (Some (us_updated_at u)))]"

definition membership_to_dict :: "tenant_membership \<Rightarrow> json" where
  "membership_to_dict m =
     JObj [(''id'', JStr (tm_id m)), (''tenant_id'', JStr (tm_tenant_id m)), (''user_id'', JStr (tm_user_id m)),
           (''role'', JStr (tm_role m)), (''status'', JStr (tm_status m)),
           (''created_at'', opt_iso (Some (tm_created_at m))), (''updated_at'', opt_iso (Some (tm_updated_at m)))]"

definition job_to_dict :: "parse_job \<Rightarrow> json" where
  "job_to_dict j =
     JObj [(''id'', JStr (pj_id j)), (''tenant_id'', JStr (pj_tenant_id j)),
           (''status'', JStr (job_status_value (pj_status j))),
           (''idempotency_key'', json_opt_str (pj_idempotency_key j)),
           (''queue_job_id'', json_opt_str (pj_queue_job_id j)), (''debug'', JBool (pj_debug j)),
           (''records_count'', JInt (pj_records_count j)), (''failed_count'', JInt (pj_failed_count j)),
           (''error_message'', json_opt_str (pj_error_message j)),
           (''created_at'', opt_iso (Some (pj_created_at j))), (''started_at'', opt_iso (pj_started_at j)),
           (''finished_at'', opt_iso (pj_finished_at j))]"

text \<open>A stored list read back; anything that is not a list is the empty list.\<close>

definition decoded_strings :: "pystr \<Rightarrow> json" where
  "decoded_strings raw =
     (case json_loads raw of Some (JList js) \<Rightarrow> JList (map (\<lambda>v. JStr (py_str v)) js) | _ \<Rightarrow> JList [])"

definition collection_job_to_dict :: "collection_job \<Rightarrow> json" where
  "collection_job_to_dict j =
     JObj [(''id'', JStr (cj_id j)), (''tenant_id'', JStr (cj_tenant_id j)),
           (''status'', JStr (job_status_value (cj_status j))),
           (''idempotency_key'', json_opt_str (cj_idempotency_key j)),
           (''providers'', decoded_strings (cj_providers_json j)), (''month_scope'', JStr (cj_month_scope j)),
           (''queue_job_id'', json_opt_str (cj_queue_job_id j)), (''started_at'', opt_iso (cj_started_at j)),
           (''finished_at'', opt_iso (cj_finished_at j)), (''files_discovered'', JInt (cj_files_discovered j)),
           (''files_downloaded'', JInt (cj_files_downloaded j)),
           (''parse_job_ids'', decoded_strings (cj_parse_job_ids_json j)),
           (''error_message'', json_opt_str (cj_error_message j)),
           (''created_at'', opt_iso (Some (cj_created_at j))), (''updated_at'', opt_iso (Some (cj_updated_at j)))]"

text \<open>\<open>_report_to_dict\<close>: undecodable columns become an empty list and an empty object.\<close>

definition report_to_dict :: "report \<Rightarrow> report_artifact list \<Rightarrow> json" where
  "report_to_dict r artifacts =
     JObj [(''id'', JStr (rp_id r)), (''tenant_id'', JStr (rp_tenant_id r)),
           (''status'', JStr (job_status_value (rp_status r))),
           (''idempotency_key'', json_opt_str (rp_idempotency_key r)),
           (''queue_job_id'', json_opt_str (rp_queue_job_id r)),
           (''error_message'', json_opt_str (rp_error_message r)),
           (''requested_formats'',
             (case json_loads (rp_requested_formats_json r) of
                Some (JList js) \<Rightarrow> JList js
              | Some (JObj kvs) \<Rightarrow> JList (map (\<lambda>kv. JStr (fst kv)) kvs)
              | Some (JStr s) \<Rightarrow> JList (map (\<lambda>c. JStr [c]) s)
              | _ \<Rightarrow> JList [])),
           (''filters'', (case json_loads (rp_filters_json r) of None \<Rightarrow> JObj [] | Some v \<Rightarrow> v)),
           (''created_at'', opt_iso (Some (rp_created_at r))), (''started_at'', opt_iso (rp_started_at r)),
           (''finished_at'', opt_iso (rp_finished_at r)),
           (''artifacts'', JList (map (\<lambda>a. JObj
              [(''id'', JStr (ra_id a)), (''format'', JStr (ra_format a)),
               (''storage_path'', JStr (ra_storage_path a)),
               (''bytes'', (case ra_bytes a of None \<Rightarrow> JNull | Some n \<Rightarrow> JInt n))]) artifacts))]"

text \<open>The pending OAuth state never leaves the server: members \<open>_oauth_...\<close> are dropped.\<close>

definition visible_config :: "pystr \<Rightarrow> (pystr \<times> json) list" where
  "visible_config config_json =
     (case json_loads config_json of
        Some (JObj kvs) \<Rightarrow> filter (\<lambda>(k, v). \<not> starts_with ''_oauth_'' k) kvs
      | _ \<Rightarrow> [])"

definition provider_to_dict :: "provider_config \<Rightarrow> json" where
  "provider_to_dict p =
     JObj [(''id'', JStr (pc_id p)), (''tenant_id'', JStr (pc_tenant_id p)),
           (''provider_type'', JStr (pc_provider_type p)), (''display_name'', json_opt_str (pc_display_name p)),
           (''connection_status'', JStr (pc_connection_status p)),
           (''config'', JObj (visible_config (pc_config_json p))),
           (''token_expires_at'', opt_iso (pc_token_expires_at p)),
           (''last_successful_sync_at'', opt_iso (pc_last_successful_sync_at p)),
           (''last_error_code'', json_opt_str (pc_last_error_code p)),
           (''last_error_message'', json_opt_str (pc_last_error_message p)),
           (''created_at'', opt_iso (Some (pc_created_at p))), (''updated_at'', opt_iso (Some (pc_updated_at p)))]"

end
