(* ===== verification/Api_Routes.thy ===== *)
theory Api_Routes
  imports Api_Core
begin

text \<open>
  The route handlers of \<open>create_app\<close> in \<open>saas/api.py\<close>, one definition per handler, and the
  requests as datatypes whose constructors are the routes. A request holds the parameters
  after the framework's validation (types, and the bounds declared by \<open>Query\<close>); a handler
  gives a response or the error it ends with, and the next state. Requests are served one
  after the other, so the create operations run without interference.
\<close>

record 's app =
  ap_env :: env
  ap_cfg :: service_config
  ap_storage :: "'s storage_ops"
  ap_sql_lower :: "pystr \<Rightarrow> pystr"
  ap_control_key :: "pystr option"
  ap_cookie_secure :: bool

text \<open>What a handler knows of its caller: tenant, \<open>X-Actor\<close>, request identifier, time.\<close>

record caller =
  ca_tenant :: pystr
  ca_actor :: "pystr option"
  ca_request_id :: "pystr option"
  ca_now :: time

datatype body = NoBody | JsonBody json | TextBody pystr | FileBody path pystr

datatype cookie_change = KeepCookie | SetRefresh pystr int bool | ClearRefresh bool

record response =
  rs_status :: int
  rs_body :: body
  rs_cookie :: cookie_change

definition json_response :: "int \<Rightarrow> json \<Rightarrow> response" where
  "json_response status v = \<lparr>rs_status = status, rs_body = JsonBody v, rs_cookie = KeepCookie\<rparr>"

definition empty_response :: "int \<Rightarrow> response" where
  "empty_response status = \<lparr>rs_status = status, rs_body = NoBody, rs_cookie = KeepCookie\<rparr>"

text \<open>A service call, its exception as the handler's \<open>except\<close> clause maps it, its value rendered.\<close>

definition answer ::
  "(exn \<Rightarrow> http_error) \<Rightarrow> ('a \<Rightarrow> response) \<Rightarrow> 'a res \<times> 's world \<Rightarrow> response http \<times> 's world" where
  "answer catch render rw =
     (case rw of (Inl err, w) \<Rightarrow> (Inl (catch err), w) | (Inr x, w) \<Rightarrow> (Inr (render x), w))"

definition page_dict :: "('a \<Rightarrow> json) \<Rightarrow> int \<Rightarrow> int \<Rightarrow> 'a list \<times> int \<Rightarrow> response" where
  "page_dict render n k page =
     json_response 200 (JObj [(''items'', JList (map render (fst page))), (''total'', JInt (snd page)),
       (''limit'', JInt n), (''offset'', JInt k)])"


subsection \<open>Providers\<close>

definition api_list_providers ::
  "'s app \<Rightarrow> caller \<Rightarrow> int \<Rightarrow> int \<Rightarrow> 's world \<Rightarrow> response http \<times> 's world" where
  "api_list_providers ap ca n k w =
     answer Unhandled (page_dict provider_to_dict n k) (list_provider_configs (ca_tenant ca) n k w, w)"

text \<open>A JSON null and an absent \<open>config\<close> are both \<open>None\<close>.\<close>

definition api_create_provider ::
  "'s app \<Rightarrow> caller \<Rightarrow> pystr \<Rightarrow> pystr option \<Rightarrow> pystr \<Rightarrow> json \<Rightarrow> 's world \<Rightarrow> response http \<times> 's world" where
  "api_create_provider ap ca provider_type display_name connection_status config w =
     answer catch_provider_error (\<lambda>p. json_response 201 (provider_to_dict p))
       (create_provider_config (ap_env ap) (ca_now ca) (ca_tenant ca) (PJson (JStr provider_type))
          (PJson (json_opt_str display_name)) (PJson (JStr connection_status))
          (if config = JNull then None else Some (PJson config)) (ca_actor ca) (\<lambda>d. d) w)"

definition api_update_provider ::
  "'s app \<Rightarrow> caller \<Rightarrow> pystr \<Rightarrow> updates \<Rightarrow> 's world \<Rightarrow> response http \<times> 's world" where
  "api_update_provider ap ca provider_id ups w =
     answer catch_provider_error (\<lambda>p. json_response 200 (provider_to_dict p))
       (update_provider_config (ap_env ap) (ca_now ca) (ca_tenant ca) provider_id ups (ca_actor ca) w)"

definition api_delete_provider ::
  "'s app \<Rightarrow> caller \<Rightarrow> pystr \<Rightarrow> 's world \<Rightarrow> response http \<times> 's world" where
  "api_delete_provider ap ca provider_id w =
     answer catch_provider_error (\<lambda>_. empty_response 204)
       (delete_provider_config (ap_env ap) (ca_now ca) (ca_tenant ca) provider_id (ca_actor ca) w)"

definition api_start_provider_oauth ::
  "'s app \<Rightarrow> caller \<Rightarrow> pystr \<Rightarrow> pystr \<Rightarrow> 's world \<Rightarrow> response http \<times> 's world" where
  "api_start_provider_oauth ap ca provider_id redirect_uri w =
     answer catch_provider_error
       (\<lambda>r. json_response 200 (JObj [(''provider'', provider_to_dict (os_provider r)),
          (''authorization_url'', JStr (os_authorization_url r)), (''state'', JStr (os_state r)),
          (''state_expires_at'', opt_iso (Some (os_state_expires_at r)))]))
       (start_provider_oauth (ap_env ap) (ap_cfg ap) (ca_now ca) (ca_tenant ca) provider_id
          (PJson (JStr redirect_uri)) (ca_actor ca) (ca_request_id ca) w)"

definition api_oauth_callback ::
  "'s app \<Rightarrow> caller \<Rightarrow> pystr \<Rightarrow> pystr \<Rightarrow> pystr \<Rightarrow> 's world \<Rightarrow> response http \<times> 's world" where
  "api_oauth_callback ap ca provider_id state oauth_code w =
     answer catch_provider_error (\<lambda>p. json_response 200 (provider_to_dict p))
       (complete_provider_oauth_callback (ap_env ap) (ca_now ca) (ca_tenant ca) provider_id state oauth_code
          (ca_actor ca) (ca_request_id ca) w)"

definition api_refresh_provider_oauth ::
  "'s app \<Rightarrow> caller \<Rightarrow> pystr \<Rightarrow> 's world \<Rightarrow> response http \<times> 's world" where
  "api_refresh_provider_oauth ap ca provider_id w =
     answer catch_provider_error (\<lambda>p. json_response 200 (provider_to_dict p))
       (refresh_provider_oauth (ap_env ap) (ca_now ca) (ca_tenant ca) provider_id (ca_actor ca) (ca_request_id ca) w)"

definition api_revoke_provider_oauth ::
  "'s app \<Rightarrow> caller \<Rightarrow> pystr \<Rightarrow> 's world \<Rightarrow> response http \<times> 's world" where
  "api_revoke_provider_oauth ap ca provider_id w =
     answer catch_provider_error (\<lambda>p. json_response 200 (provider_to_dict p))
       (revoke_provider_oauth (ap_env ap) (ca_now ca) (ca_tenant ca) provider_id (ca_actor ca) (ca_request_id ca) w)"

definition api_test_provider_connection ::
  "'s app \<Rightarrow> caller \<Rightarrow> pystr \<Rightarrow> 's world \<Rightarrow> response http \<times> 's world" where
  "api_test_provider_connection ap ca provider_id w =
     answer catch_provider_error
       (\<lambda>r. json_response 200 (JObj [(''provider'', provider_to_dict (ct_provider r)), (''status'', JStr (ct_status r)),
          (''message'', JStr (ct_message r)), (''tested_at'', opt_iso (Some (ct_tested_at r))),
          (''request_id'', json_opt_str (ca_request_id ca))]))
       (test_provider_connection (ap_env ap) (ca_now ca) (ca_tenant ca) provider_id (ca_actor ca) (ca_request_id ca) w)"


subsection \<open>Collection jobs, files and parse jobs\<close>

text \<open>A lookup: a missing row is 404.\<close>

definition found_or_404 :: "pystr \<Rightarrow> ('a \<Rightarrow> response) \<Rightarrow> 'a option \<Rightarrow> 's world \<Rightarrow> response http \<times> 's world" where
  "found_or_404 detail render row w =
     (case row of None \<Rightarrow> (Inl (HTTPError 404 detail), w) | Some r \<Rightarrow> (Inr (render r), w))"

definition api_create_collection_job ::
  "'s app \<Rightarrow> caller \<Rightarrow> pystr list \<Rightarrow> pystr \<Rightarrow> pystr option \<Rightarrow> 's world \<Rightarrow> response http \<times> 's world" where
  "api_create_collection_job ap ca providers month_scope idempotency_key w =
     answer catch_collection_error (\<lambda>j. json_response 201 (collection_job_to_dict j))
       (create_collection_job (ap_env ap) (ap_cfg ap) (ca_now ca) (ca_tenant ca) (PJson (json_strs providers))
          (PJson (JStr month_scope)) idempotency_key (ca_actor ca) (\<lambda>d. d) (\<lambda>d. d) w)"

definition api_list_collection_jobs ::
  "'s app \<Rightarrow> caller \<Rightarrow> pystr option \<Rightarrow> int \<Rightarrow> int \<Rightarrow> 's world \<Rightarrow> response http \<times> 's world" where
  "api_list_collection_jobs ap ca status n k w =
     answer catch_collection_error (page_dict collection_job_to_dict n k)
       (list_collection_jobs (ca_tenant ca) (PJson (json_opt_str status)) n k w, w)"

definition api_get_collection_job ::
  "'s app \<Rightarrow> caller \<Rightarrow> pystr \<Rightarrow> 's world \<Rightarrow> response http \<times> 's world" where
  "api_get_collection_job ap ca collection_job_id w =
     found_or_404 ''collection job not found'' (\<lambda>j. json_response 200 (collection_job_to_dict j))
       (get_collection_job (ca_tenant ca) collection_job_id w) w"

definition ends_with :: "pystr \<Rightarrow> pystr \<Rightarrow> bool" where
  "ends_with suf s \<longleftrightarrow> take (length suf) (rev s) = rev suf"

definition file_to_dict :: "invoice_file \<Rightarrow> json" where
  "file_to_dict f =
     JObj [(''id'', JStr (fl_id f)), (''tenant_id'', JStr (fl_tenant_id f)), (''filename'', JStr (fl_filename f)),
           (''mime_type'', JStr (fl_mime_type f)),
           (''bytes'', (case fl_bytes f of None \<Rightarrow> JNull | Some n \<Rightarrow> JInt n)),
           (''content_sha256'', json_opt_str (fl_content_sha256 f)), (''storage_path'', JStr (fl_storage_path f)),
           (''status'', JStr (file_status_value (fl_status f)))]"

definition api_register_file ::
  "'s app \<Rightarrow> caller \<Rightarrow> pystr option \<Rightarrow> pystr option \<Rightarrow> bytes \<Rightarrow> 's world \<Rightarrow> response http \<times> 's world" where
  "api_register_file ap ca upload_name content_type data w =
     (let e = ap_env ap;
          filename = path_name (case upload_name of None \<Rightarrow> [] | Some f \<Rightarrow> f);
          mime_type = (if truthy_str content_type then the content_type else ''application/pdf'') in
      if filename = [] then (Inl (HTTPError 400 ''filename is required''), w)
      else if \<not> py_contains ''pdf'' (py_lower mime_type) \<and> \<not> ends_with ''.pdf'' (py_lower filename)
      then (Inl (HTTPError 400 ''only PDF uploads are supported''), w)
      else if data = [] then (Inl (HTTPError 400 ''uploaded file is empty''), w)
      else let storage_key = ''uploads/'' @ ca_tenant ca @ ''/'' @ uuid_hex e (w_ctr w) @ ''_'' @ filename in
        (case st_save (ap_storage ap) storage_key data (w_store w) of
           (Inl err, s) \<Rightarrow> (Inl (Unhandled err), draw 1 (w\<lparr>w_store := s\<rparr>))
         | (Inr obj, s) \<Rightarrow>
             answer Unhandled (\<lambda>f. json_response 201 (file_to_dict f))
               (register_file e (ca_now ca) (ca_tenant ca) filename (so_key obj) mime_type
                  (Some (so_sha256 obj)) (Some (so_size obj)) (draw 1 (w\<lparr>w_store := s\<rparr>)))))"

definition api_create_parse_job ::
  "'s app \<Rightarrow> caller \<Rightarrow> pystr list \<Rightarrow> bool \<Rightarrow> pystr option \<Rightarrow> 's world \<Rightarrow> response http \<times> 's world" where
  "api_create_parse_job ap ca file_ids debug idempotency_key w =
     answer (catch_value_error 400) (\<lambda>j. json_response 202 (job_to_dict j))
       (create_parse_job (ap_env ap) (ap_cfg ap) (ca_now ca) (ca_tenant ca) file_ids debug idempotency_key
          (\<lambda>d. d) (\<lambda>d. d) w)"

definition api_get_parse_job ::
  "'s app \<Rightarrow> caller \<Rightarrow> pystr \<Rightarrow> 's world \<Rightarrow> response http \<times> 's world" where
  "api_get_parse_job ap ca parse_job_id w =
     found_or_404 ''parse job not found'' (\<lambda>j. json_response 200 (job_to_dict j))
       (get_parse_job (ca_tenant ca) parse_job_id w) w"


subsection \<open>Invoices and reports\<close>

definition api_list_invoices ::
  "'s app \<Rightarrow> caller \<Rightarrow> invoice_filter \<Rightarrow> int \<Rightarrow> int \<Rightarrow> 's world \<Rightarrow> response http \<times> 's world" where
  "api_list_invoices ap ca f n k w =
     answer Unhandled (page_dict invoice_to_dict n k)
       (list_invoices (ap_sql_lower ap) (ca_tenant ca) f n k w, w)"

definition api_get_invoice ::
  "'s app \<Rightarrow> caller \<Rightarrow> pystr \<Rightarrow> 's world \<Rightarrow> response http \<times> 's world" where
  "api_get_invoice ap ca invoice_id w =
     found_or_404 ''invoice not found'' (\<lambda>r. json_response 200 (invoice_to_dict r))
       (get_invoice (ca_tenant ca) invoice_id w) w"

definition api_dashboard_summary ::
  "'s app \<Rightarrow> caller \<Rightarrow> 's world \<Rightarrow> response http \<times> 's world" where
  "api_dashboard_summary ap ca w = (Inr (json_response 200 (dashboard_summary (ca_tenant ca) w)), w)"

text \<open>A report with its artifacts, read in the state after the call.\<close>

definition report_response :: "int \<Rightarrow> caller \<Rightarrow> 's world \<Rightarrow> report \<Rightarrow> response" where
  "report_response status ca w r =
     json_response status (report_to_dict r (list_report_artifacts (ca_tenant ca) (rp_id r) w))"

definition api_create_report ::
  "'s app \<Rightarrow> caller \<Rightarrow> (pystr list) option \<Rightarrow> (pystr list) option \<Rightarrow> ((pystr \<times> json) list) option \<Rightarrow> pystr option
    \<Rightarrow> 's world \<Rightarrow> response http \<times> 's world" where
  "api_create_report ap ca parse_job_ids formats filters idempotency_key w =
     (let rw = create_report_job (ap_env ap) (ap_cfg ap) (ca_now ca) (ca_tenant ca)
           (case parse_job_ids of None \<Rightarrow> [] | Some x \<Rightarrow> x) (case formats of None \<Rightarrow> [] | Some x \<Rightarrow> x)
           (case filters of None \<Rightarrow> [] | Some x \<Rightarrow> x) idempotency_key (\<lambda>d. d) (\<lambda>d. d) w
      in answer (catch_value_error 400) (report_response 202 ca (snd rw)) rw)"

definition api_list_reports ::
  "'s app \<Rightarrow> caller \<Rightarrow> pystr option \<Rightarrow> int \<Rightarrow> int \<Rightarrow> 's world \<Rightarrow> response http \<times> 's world" where
  "api_list_reports ap ca status n k w =
     answer Unhandled
       (page_dict (\<lambda>r. report_to_dict r (list_report_artifacts (ca_tenant ca) (rp_id r) w)) n k)
       (list_reports (ca_tenant ca) status n k w, w)"

definition api_get_report ::
  "'s app \<Rightarrow> caller \<Rightarrow> pystr \<Rightarrow> 's world \<Rightarrow> response http \<times> 's world" where
  "api_get_report ap ca report_id w =
     found_or_404 ''report not found'' (report_response 200 ca w) (get_report (ca_tenant ca) report_id w) w"

text \<open>\<open>download_report\<close>: the file of the first artifact with the format, served from the local path.\<close>

definition api_download_report ::
  "'s app \<Rightarrow> caller \<Rightarrow> pystr \<Rightarrow> pystr \<Rightarrow> 's world \<Rightarrow> response http \<times> 's world" where
  "api_download_report ap ca report_id format w =
     (case get_report (ca_tenant ca) report_id w of
        None \<Rightarrow> (Inl (HTTPError 404 ''report not found''), w)
      | Some r \<Rightarrow>
          (case find (\<lambda>a. ra_format a = format) (list_report_artifacts (ca_tenant ca) (rp_id r) w) of
             None \<Rightarrow> (Inl (HTTPError 404 ''artifact not found''), w)
           | Some a \<Rightarrow>
               (case st_resolve (ap_storage ap) (ra_storage_path a) (w_store w) of
                  (Inl err, s) \<Rightarrow> (Inl (Unhandled err), w\<lparr>w_store := s\<rparr>)
                | (Inr p, s) \<Rightarrow>
                    (Inr \<lparr>rs_status = 200, rs_body = FileBody p (if p = [] then [] else last p),
                          rs_cookie = KeepCookie\<rparr>, w\<lparr>w_store := s\<rparr>))))"

definition api_retry_report ::
  "'s app \<Rightarrow> caller \<Rightarrow> pystr \<Rightarrow> 's world \<Rightarrow> response http \<times> 's world" where
  "api_retry_report ap ca report_id w =
     (let rw = retry_report_job (ap_env ap) (ap_cfg ap) (ca_now ca) (ca_tenant ca) report_id w
      in answer (catch_value_error 404) (report_response 202 ca (snd rw)) rw)"


subsection \<open>API keys\<close>

definition api_list_api_keys :: "'s app \<Rightarrow> caller \<Rightarrow> 's world \<Rightarrow> response http \<times> 's world" where
  "api_list_api_keys ap ca w =
     (let items = list_api_keys (ca_tenant ca) w
      in (Inr (json_response 200 (JObj [(''items'', JList (map api_key_to_dict items)),
                                        (''total'', JInt (int (length items)))])), w))"

definition api_key_with_text :: "int \<Rightarrow> api_key \<times> pystr \<Rightarrow> response" where
  "api_key_with_text status kt =
     json_response status (JObj [(''api_key'', api_key_to_dict (fst kt)), (''plain_text'', JStr (snd kt))])"

definition api_create_api_key :: "'s app \<Rightarrow> caller \<Rightarrow> 's world \<Rightarrow> response http \<times> 's world" where
  "api_create_api_key ap ca w =
     answer Unhandled (api_key_with_text 201)
       (create_api_key (ap_env ap) (ca_now ca) (ca_tenant ca) (ca_actor ca) w)"

definition api_rotate_api_key :: "'s app \<Rightarrow> caller \<Rightarrow> pystr \<Rightarrow> 's world \<Rightarrow> response http \<times> 's world" where
  "api_rotate_api_key ap ca api_key_id w =
     answer (catch_value_error 404) (api_key_with_text 200)
       (rotate_api_key (ap_env ap) (ca_now ca) (ca_tenant ca) api_key_id (ca_actor ca) w)"

definition api_revoke_api_key :: "'s app \<Rightarrow> caller \<Rightarrow> pystr \<Rightarrow> 's world \<Rightarrow> response http \<times> 's world" where
  "api_revoke_api_key ap ca api_key_id w =
     answer (catch_value_error 404) (\<lambda>k. json_response 200 (JObj [(''api_key'', api_key_to_dict k)]))
       (revoke_api_key (ap_env ap) (ca_now ca) (ca_tenant ca) api_key_id (ca_actor ca) w)"


subsection \<open>The routes of a tenant\<close>

datatype tenant_request =
    ListProviders int int
  | CreateProvider pystr "pystr option" pystr json
  | UpdateProvider pystr updates
  | DeleteProvider pystr
  | StartOAuth pystr pystr
  | OAuthCallback pystr pystr pystr
  | RefreshOAuth pystr
  | RevokeOAuth pystr
  | TestConnection pystr
  | CreateCollectionJob "pystr list" pystr "pystr option"
  | ListCollectionJobs "pystr option" int int
  | GetCollectionJob pystr
  | RegisterFile "pystr option" "pystr option" bytes
  | CreateParseJob "pystr list" bool "pystr option"
  | GetParseJob pystr
  | ListInvoices invoice_filter int int
  | GetInvoice pystr
  | DashboardSummary
  | CreateReport "(pystr list) option" "(pystr list) option" "((pystr \<times> json) list) option" "pystr option"
  | ListReports "pystr option" int int
  | GetReport pystr
  | DownloadReport pystr pystr
  | RetryReport pystr
  | ListApiKeys
  | CreateApiKey
  | RotateApiKey pystr
  | RevokeApiKey pystr

fun handle_tenant :: "'s app \<Rightarrow> caller \<Rightarrow> tenant_request \<Rightarrow> 's world \<Rightarrow> response http \<times> 's world" where
  "handle_tenant ap ca (ListProviders n k) = api_list_providers ap ca n k"
| "handle_tenant ap ca (CreateProvider pt dn st c) = api_create_provider ap ca pt dn st c"
| "handle_tenant ap ca (UpdateProvider i ups) = api_update_provider ap ca i ups"
| "handle_tenant ap ca (DeleteProvider i) = api_delete_provider ap ca i"
| "handle_tenant ap ca (StartOAuth i uri) = api_start_provider_oauth ap ca i uri"
| "handle_tenant ap ca (OAuthCallback i st c) = api_oauth_callback ap ca i st c"
| "handle_tenant ap ca (RefreshOAuth i) = api_refresh_provider_oauth ap ca i"
| "handle_tenant ap ca (RevokeOAuth i) = api_revoke_provider_oauth ap ca i"
| "handle_tenant ap ca (TestConnection i) = api_test_provider_connection ap ca i"
| "handle_tenant ap ca (CreateCollectionJob ps ms key) = api_create_collection_job ap ca ps ms key"
| "handle_tenant ap ca (ListCollectionJobs st n k) = api_list_collection_jobs ap ca st n k"
| "handle_tenant ap ca (GetCollectionJob i) = api_get_collection_job ap ca i"
| "handle_tenant ap ca (RegisterFile fn ct data) = api_register_file ap ca fn ct data"
| "handle_tenant ap ca (CreateParseJob fs dbg key) = api_create_parse_job ap ca fs dbg key"
| "handle_tenant ap ca (GetParseJob i) = api_get_parse_job ap ca i"
| "handle_tenant ap ca (ListInvoices f n k) = api_list_invoices ap ca f n k"
| "handle_tenant ap ca (GetInvoice i) = api_get_invoice ap ca i"
| "handle_tenant ap ca DashboardSummary = api_dashboard_summary ap ca"
| "handle_tenant ap ca (CreateReport js fs flt key) = api_create_report ap ca js fs flt key"
| "handle_tenant ap ca (ListReports st n k) = api_list_reports ap ca st n k"
| "handle_tenant ap ca (GetReport i) = api_get_report ap ca i"
| "handle_tenant ap ca (DownloadReport i fmt) = api_download_report ap ca i fmt"
| "handle_tenant ap ca (RetryReport i) = api_retry_report ap ca i"
| "handle_tenant ap ca ListApiKeys = api_list_api_keys ap ca"
| "handle_tenant ap ca CreateApiKey = api_create_api_key ap ca"
| "handle_tenant ap ca (RotateApiKey i) = api_rotate_api_key ap ca i"
| "handle_tenant ap ca (RevokeApiKey i) = api_revoke_api_key ap ca i"


subsection \<open>Sessions\<close>

definition auth_error_response :: "pystr option \<Rightarrow> int \<Rightarrow> pystr \<Rightarrow> pystr \<Rightarrow> response" where
  "auth_error_response request_id status c message =
     json_response status (JObj [(''error'', JObj [(''code'', JStr c), (''message'', JStr message),
       (''request_id'', json_opt_str request_id), (''details'', JObj [])])])"

text \<open>An \<open>AuthError\<close> becomes a response of its own, any other exception is not caught.\<close>

definition answer_auth ::
  "pystr option \<Rightarrow> ('a \<Rightarrow> response) \<Rightarrow> 'a res \<times> 's world \<Rightarrow> response http \<times> 's world" where
  "answer_auth request_id render rw =
     (case rw of
        (Inr x, w) \<Rightarrow> (Inr (render x), w)
      | (Inl (AuthError c m status), w) \<Rightarrow> (Inr (auth_error_response request_id status c m), w)
      | (Inl err, w) \<Rightarrow> (Inl (Unhandled err), w))"

definition session_dict :: "auth_session \<Rightarrow> json" where
  "session_dict s =
     JObj [(''session_id'', JStr (as_id s)), (''access_expires_at'', opt_iso (Some (as_access_expires_at s))),
           (''refresh_expires_at'', opt_iso (Some (as_refresh_expires_at s)))]"

definition session_user_dict :: "user \<Rightarrow> tenant_membership \<Rightarrow> json" where
  "session_user_dict u m =
     JObj [(''id'', JStr (us_id u)), (''email'', JStr (us_email u)), (''full_name'', json_opt_str (us_full_name u)),
           (''role'', JStr (tm_role m)), (''status'', JStr (if us_is_active u then ''active'' else ''disabled''))]"

definition set_refresh_cookie :: "'s app \<Rightarrow> pystr \<Rightarrow> response \<Rightarrow> response" where
  "set_refresh_cookie ap token r =
     r\<lparr>rs_cookie := SetRefresh token (auth_refresh_token_ttl_seconds (ap_cfg ap)) (ap_cookie_secure ap)\<rparr>"

definition auth_login ::
  "'s app \<Rightarrow> time \<Rightarrow> pystr option \<Rightarrow> pystr option \<Rightarrow> pystr option \<Rightarrow> pystr \<Rightarrow> pystr \<Rightarrow> pystr
    \<Rightarrow> 's world \<Rightarrow> response http \<times> 's world" where
  "auth_login ap now request_id remote_ip user_agent email password tenant_slug w =
     answer_auth request_id
       (\<lambda>r. set_refresh_cookie ap (ar_refresh_token r) (json_response 200 (JObj
          [(''access_token'', JStr (ar_access_token r)), (''token_type'', JStr ''Bearer''),
           (''expires_in'', JInt (ar_expires_in r)),
           (''user'', session_user_dict (ar_user r) (ar_membership r)),
           (''tenant'', tenant_to_dict (ar_tenant r)), (''session'', session_dict (ar_session r))])))
       (authenticate_user (ap_env ap) (ap_cfg ap) now tenant_slug email password request_id remote_ip user_agent w)"

definition auth_refresh ::
  "'s app \<Rightarrow> time \<Rightarrow> pystr option \<Rightarrow> pystr option \<Rightarrow> 's world \<Rightarrow> response http \<times> 's world" where
  "auth_refresh ap now request_id refresh_token w =
     answer_auth request_id
       (\<lambda>r. set_refresh_cookie ap (ar_refresh_token r) (json_response 200 (JObj
          [(''access_token'', JStr (ar_access_token r)), (''token_type'', JStr ''Bearer''),
           (''expires_in'', JInt (ar_expires_in r)), (''session'', session_dict (ar_session r))])))
       (refresh_session (ap_env ap) (ap_cfg ap) now (case refresh_token of None \<Rightarrow> [] | Some t \<Rightarrow> t) request_id w)"

definition auth_logout ::
  "'s app \<Rightarrow> time \<Rightarrow> pystr option \<Rightarrow> pystr option \<Rightarrow> 's world \<Rightarrow> response http \<times> 's world" where
  "auth_logout ap now request_id refresh_token w =
     answer Unhandled (\<lambda>_. (empty_response 204)\<lparr>rs_cookie := ClearRefresh (ap_cookie_secure ap)\<rparr>)
       (revoke_session (ap_env ap) now refresh_token request_id w)"

text \<open>\<open>get_me\<close>; the credentials are what the framework's bearer scheme extracted.\<close>

definition get_me ::
  "'s app \<Rightarrow> time \<Rightarrow> pystr option \<Rightarrow> pystr option \<Rightarrow> 's world \<Rightarrow> response http \<times> 's world" where
  "get_me ap now request_id credentials w =
     answer_auth request_id
       (\<lambda>r. json_response 200 (JObj
          [(''user'', session_user_dict (me_user r) (me_membership r)),
           (''tenant'', tenant_to_dict (me_tenant r)), (''session'', session_dict (me_session r))]))
       (get_current_user (ap_env ap) (ap_cfg ap) now (case credentials of None \<Rightarrow> [] | Some t \<Rightarrow> t) (w_db w), w)"

datatype auth_request =
    Login pystr pystr pystr
  | Refresh "pystr option"
  | Logout "pystr option"
  | Me "pystr option"

fun handle_auth ::
  "'s app \<Rightarrow> time \<Rightarrow> pystr option \<Rightarrow> pystr option \<Rightarrow> pystr option \<Rightarrow> auth_request
    \<Rightarrow> 's world \<Rightarrow> response http \<times> 's world" where
  "handle_auth ap now rid ip ua (Login email password slug) = auth_login ap now rid ip ua email password slug"
| "handle_auth ap now rid ip ua (Refresh cookie) = auth_refresh ap now rid cookie"
| "handle_auth ap now rid ip ua (Logout cookie) = auth_logout ap now rid cookie"
| "handle_auth ap now rid ip ua (Me credentials) = get_me ap now rid credentials"


subsection \<open>The control plane\<close>

definition api_list_tenants :: "'s app \<Rightarrow> int \<Rightarrow> int \<Rightarrow> 's world \<Rightarrow> response http \<times> 's world" where
  "api_list_tenants ap n k w =
     answer Unhandled (page_dict tenant_to_dict n k) (list_tenants n k w, w)"

definition api_create_tenant ::
  "'s app \<Rightarrow> time \<Rightarrow> pystr option \<Rightarrow> pystr \<Rightarrow> 's world \<Rightarrow> (response http \<times> 's world) option" where
  "api_create_tenant ap now actor name w =
     (if py_strip name = [] then Some (Inl (HTTPError 400 ''tenant name is required''), w)
      else map_option
        (answer Unhandled (\<lambda>(t, raw). json_response 201 (JObj [(''tenant'', tenant_to_dict t),
           (''api_key'', JObj [(''plain_text'', JStr raw)])])))
        (bootstrap_tenant (ap_env ap) now (py_strip name) actor w))"

definition bootstrap_user_status :: "pystr \<Rightarrow> int" where
  "bootstrap_user_status message =
     (if message = ''tenant not found'' then 404
      else if message = ''tenant already has users'' then 409
      else if message = ''password does not match existing user'' then 409 else 400)"

definition api_bootstrap_user ::
  "'s app \<Rightarrow> time \<Rightarrow> pystr option \<Rightarrow> pystr \<Rightarrow> pystr \<Rightarrow> pystr \<Rightarrow> pystr option \<Rightarrow> 's world \<Rightarrow> response http \<times> 's world" where
  "api_bootstrap_user ap now actor tenant_id email password full_name w =
     (if py_strip email = [] then (Inl (HTTPError 400 ''email is required''), w)
      else if password = [] then (Inl (HTTPError 400 ''password is required''), w)
      else answer (\<lambda>err. catch_value_error (bootstrap_user_status (exn_text err)) err)
        (\<lambda>(u, m). json_response 201 (JObj [(''tenant_id'', JStr tenant_id), (''user'', user_to_dict u),
           (''membership'', membership_to_dict m)]))
        (bootstrap_tenant_admin_user (ap_env ap) now tenant_id (py_strip email) password full_name actor w))"

datatype control_request =
    ListTenants int int
  | CreateTenant pystr
  | BootstrapUser pystr pystr pystr "pystr option"

text \<open>A control-plane route runs only behind its key; None is a slug loop that does not return.\<close>

fun handle_control ::
  "'s app \<Rightarrow> time \<Rightarrow> pystr option \<Rightarrow> pystr option \<Rightarrow> control_request \<Rightarrow> 's world \<Rightarrow> (response http \<times> 's world) option" where
  "handle_control ap now actor key req w =
     (case require_control_plane_access (ap_control_key ap) key of
        Inl err \<Rightarrow> Some (Inl err, w)
      | Inr _ \<Rightarrow>
          (case req of
             ListTenants n k \<Rightarrow> Some (api_list_tenants ap n k w)
           | CreateTenant name \<Rightarrow> api_create_tenant ap now actor name w
           | BootstrapUser tid email password full_name \<Rightarrow>
               Some (api_bootstrap_user ap now actor tid email password full_name w)))"

end
