(* ===== verification/Tenant_Updates.thy ===== *)
theory Tenant_Updates
  imports Service_Auth Service_Providers Service_Reports
begin

text \<open>
  The contract between the service's tenant operations and whoever wants to know what they do
  to the database. Every operation is built from few elementary updates on rows of its own
  tenant; the locale takes a relation that each of these updates satisfies and gives the
  relation between the database before and after every operation, errors and rolled back
  commits included, together with the schema's constraints.
\<close>

text \<open>A step keeps a relation when it keeps the constraints and only appends to the queue.\<close>

definition kept :: "(db \<Rightarrow> db \<Rightarrow> bool) \<Rightarrow> 's world \<Rightarrow> 's world \<Rightarrow> bool" where
  "kept R w w' \<longleftrightarrow>
     (\<exists>new. w_queue w' = w_queue w @ new) \<and>
     (db_ok (w_db w) \<longrightarrow> db_ok (w_db w') \<and> R (w_db w) (w_db w'))"

lemma kept_draw [simp]: "kept R w (draw k w') = kept R w w'" "kept R (draw k w) w' = kept R w w'"
  by (simp_all add: kept_def)

lemma kept_store [simp]:
  "kept R w (w'\<lparr>w_store := s\<rparr>) = kept R w w'" "kept R (w\<lparr>w_store := s\<rparr>) w' = kept R w w'"
  by (simp_all add: kept_def)

text \<open>The same for a commit whose error is renamed.\<close>

lemma kept_case:
  assumes "kept R w (snd rw)"
  shows "kept R w (snd (case rw of (Inl err, w') \<Rightarrow> (f err, w') | (Inr x, w') \<Rightarrow> (g x, w')))"
  using assms by (auto split: prod.splits sum.splits)

lemma parse_job_unit_jobs: "parse_jobs (parse_job_unit e n now j fs d) = parse_jobs d @ [j]"
  by (simp add: parse_job_unit_def)

lemma report_unit_reports: "reports (report_unit e n now r js fs d) = reports d @ [r]"
  by (simp add: report_unit_def)

text \<open>Providers.\<close>

lemma provider_row_own: "provider_row tid pid d = Some row \<Longrightarrow> pc_tenant_id row = tid"
  by (auto simp: provider_row_def dest: scalar_SomeD)

lemma provider_row_or_error_own: "provider_row_or_error tid pid d = Inr row \<Longrightarrow> pc_tenant_id row = tid"
  by (auto simp: provider_row_or_error_def dest: provider_row_own split: option.splits)

lemma provider_and_payload_own:
  "res_bind (provider_row_or_error tid pid d) (\<lambda>row. res_bind (provider_config_payload row) (\<lambda>p. Inr (row, p))) =
     Inr (row', p') \<Longrightarrow> pc_tenant_id row' = tid"
  by (cases "provider_row_or_error tid pid d"; cases "provider_config_payload (projr (provider_row_or_error tid pid d))")
    (auto dest: provider_row_or_error_own)

lemma set_payload_tenant [simp]: "pc_tenant_id (set_provider_config_payload p row) = pc_tenant_id row"
  by (simp add: set_provider_config_payload_def)

lemma with_fresh_tokens_tenant [simp]: "pc_tenant_id (with_fresh_tokens e n now row) = pc_tenant_id row"
  by (simp add: with_fresh_tokens_def)

lemma when_given_tenant:
  "when_given ups f g row = Inr row' \<Longrightarrow> (\<And>v row'. g v row = Inr row' \<Longrightarrow> pc_tenant_id row' = pc_tenant_id row) \<Longrightarrow>
     pc_tenant_id row' = pc_tenant_id row"
  by (auto simp: when_given_def split: option.splits)

lemma Inr_bindE: "res_bind x f = Inr y \<Longrightarrow> (\<And>z. x = Inr z \<Longrightarrow> f z = Inr y \<Longrightarrow> R) \<Longrightarrow> R"
  by (cases x) auto

lemma apply_updates_tenant:
  "apply_provider_updates d tid pid ups row = Inr row' \<Longrightarrow> pc_tenant_id row' = pc_tenant_id row"
  unfolding apply_provider_updates_def set_provider_type_def
  by (erule Inr_bindE | drule when_given_tenant | force)+

lemma api_key_row_own: "api_key_row tid i d = Some k \<Longrightarrow> ak_tenant_id k = tid"
  by (auto simp: api_key_row_def dest: scalar_SomeD)

text \<open>The owner of the rows a create operation checks: all named files, all named jobs.\<close>

definition owned :: "('a \<Rightarrow> pystr) \<Rightarrow> ('a \<Rightarrow> pystr) \<Rightarrow> pystr \<Rightarrow> pystr list \<Rightarrow> 'a list \<Rightarrow> bool" where
  "owned ident tenant_of tid ids rows \<longleftrightarrow> list_all (\<lambda>i. list_ex (\<lambda>r. ident r = i \<and> tenant_of r = tid) rows) ids"

lemma owned_missing:
  "missing_ids ids (map ident (filter (\<lambda>r. tenant_of r = tid \<and> ident r \<in> set ids) rows)) = [] \<Longrightarrow>
     owned ident tenant_of tid ids rows"
  by (auto simp: missing_ids_Nil owned_def list_all_iff list_ex_iff)

locale tenant_updates =
  fixes R :: "pystr \<Rightarrow> db \<Rightarrow> db \<Rightarrow> bool"
  assumes R_refl: "R tid d d"
    and R_audit: "R tid d d' \<Longrightarrow> R tid d (add_audit e n now tid ty a p d')"
    and R_idempotency: "R tid d d' \<Longrightarrow> R tid d (add_idempotency e n now tid sc k rt i d')"
    and R_put_provider: "pc_tenant_id row = tid \<Longrightarrow> R tid d (put_provider row d)"
    and R_add_provider: "pc_tenant_id row = tid \<Longrightarrow> R tid d (d\<lparr>provider_configs := provider_configs d @ [row]\<rparr>)"
    and R_del_provider:
      "R tid d (d\<lparr>provider_configs := del_where (\<lambda>p. pc_tenant_id p = tid \<and> pc_id p = pid) (provider_configs d)\<rparr>)"
    and R_put_api_key: "ak_tenant_id key = tid \<Longrightarrow> R tid d (put_api_key key d)"
    and R_add_api_key: "ak_tenant_id key = tid \<Longrightarrow> R tid d (d\<lparr>api_keys := api_keys d @ [key]\<rparr>)"
    and R_add_file: "fl_tenant_id f = tid \<Longrightarrow> R tid d (d\<lparr>invoice_files := invoice_files d @ [f]\<rparr>)"
    and R_add_collection_job: "cj_tenant_id cj = tid \<Longrightarrow> R tid d (add_collection_job cj d)"
    and R_add_parse_job:
      "pj_tenant_id j = tid \<Longrightarrow> unique pj_id (parse_jobs d @ [j]) \<Longrightarrow>
         owned fl_id fl_tenant_id tid fs (invoice_files d) \<Longrightarrow>
         R tid d (add_parse_links (pj_id j) fs now (add_parse_job j d))"
    and R_add_report:
      "rp_tenant_id r = tid \<Longrightarrow> unique rp_id (reports d @ [r]) \<Longrightarrow>
         owned pj_id pj_tenant_id tid js (parse_jobs d) \<Longrightarrow>
         R tid d (add_report_links (rp_id r) js now (add_report r d))"
    and R_put_report:
      "db_ok d \<Longrightarrow> r0 \<in> set (reports d) \<Longrightarrow> rp_tenant_id r0 = tid \<Longrightarrow> rp_id r = rp_id r0 \<Longrightarrow>
         rp_tenant_id r = tid \<Longrightarrow> R tid d (put_report r d)"
begin

lemma R_idempotency_if: "R tid d d' \<Longrightarrow> R tid d (add_idempotency_if e n now tid sc k rt i d')"
  by (auto simp: add_idempotency_if_def R_idempotency split: option.splits)

lemma kept_refl: "kept (R tid) w w"
  by (simp add: kept_def R_refl)

lemma kept_commit:
  assumes "db_ok (w_db w) \<Longrightarrow> db_ok d \<Longrightarrow> R tid (w_db w) d"
    and "w_db w' = w_db w" and "\<exists>new. w_queue w' = w_queue w @ new"
  shows "kept (R tid) w (snd (commit_with d r w'))"
  using assms commit_ok [of d r w'] commit_not_ok [of d r w']
  by (cases "db_ok d") (auto simp: kept_def R_refl)

lemma kept_commit_or_resolve:
  assumes "db_ok (w_db w) \<Longrightarrow> db_ok d \<Longrightarrow> R tid (w_db w) d"
    and "\<exists>new. w_queue w' = w_queue w @ new"
  shows "kept (R tid) w (snd (commit_or_resolve resolve key (w_db w) d row w'))"
  using assms by (auto simp: kept_def R_refl commit_or_resolve_def Let_def split: option.splits)

lemma kept_register_file: "kept (R tid) w (snd (register_file e now tid fn sp mt sha sz w))"
  unfolding register_file_def Let_def by (rule kept_commit) (auto intro!: R_audit R_add_file)

lemma kept_record_audit_event: "kept (R tid) w (snd (record_audit_event e now tid ty p a w))"
  unfolding record_audit_event_def by (rule kept_commit) (auto intro: R_audit R_refl)

lemma R_parse_job_unit:
  assumes "db_ok (parse_job_unit e n now j fs d)" and "pj_tenant_id j = tid"
    and "owned fl_id fl_tenant_id tid fs (invoice_files d)"
  shows "R tid d (parse_job_unit e n now j fs d)"
proof -
  have "unique pj_id (parse_jobs d @ [j])"
    using assms by (simp add: db_ok_unfold parse_job_unit_jobs)
  then show ?thesis
    unfolding parse_job_unit_def assms(2) by (intro R_audit R_idempotency_if R_add_parse_job assms)
qed

lemma kept_create_parse_job: "kept (R tid) w (snd (create_parse_job e cfg now tid fs dbg ikey (\<lambda>d. d) (\<lambda>d. d) w))"
proof -
  have "kept (R tid) w (snd (commit_or_resolve resolve key (w_db w)
      (parse_job_unit e n now (j\<lparr>pj_queue_job_id := q\<rparr>) fs (w_db w)) row (draw 2 (snd (enqueue e task p (draw 1 (w\<lparr>w_db := w_db w\<rparr>)))))))"
    if "pj_tenant_id j = tid" "owned fl_id fl_tenant_id tid fs (invoice_files (w_db w))"
    for resolve :: "db \<Rightarrow> parse_job option" and row :: parse_job and key and n and j and q and task and p
    using R_parse_job_unit [of e n now "j\<lparr>pj_queue_job_id := q\<rparr>" fs "w_db w"] that
    by (intro kept_commit_or_resolve) auto
  then show ?thesis
    by (auto simp: create_parse_job_def Let_def split_beta kept_refl dest: owned_missing split: option.splits)
qed

lemma R_collection_job_unit:
  assumes "cj_tenant_id j = tid"
  shows "R tid d (collection_job_unit e n now a j ps d)"
  unfolding collection_job_unit_def assms by (intro R_audit R_idempotency_if R_add_collection_job assms)

lemma kept_create_collection_job:
  "kept (R tid) w (snd (create_collection_job e cfg now tid ps ms ikey a (\<lambda>d. d) (\<lambda>d. d) w))"
proof -
  have "kept (R tid) w (snd (commit_or_resolve resolve key (w_db w)
      (collection_job_unit e n now a (j\<lparr>cj_queue_job_id := q\<rparr>) ps' (w_db w)) row (draw 2 (snd (enqueue e task p (draw 1 (w\<lparr>w_db := w_db w\<rparr>)))))))"
    if "cj_tenant_id j = tid"
    for resolve :: "db \<Rightarrow> collection_job option" and row :: collection_job and key and n and j and q and task and p and ps'
    using R_collection_job_unit [of "j\<lparr>cj_queue_job_id := q\<rparr>"] that
    by (intro kept_commit_or_resolve) auto
  then show ?thesis
    by (auto simp: create_collection_job_def Let_def split_beta kept_refl split: option.splits sum.splits)
qed

lemma R_report_unit:
  assumes "db_ok (report_unit e n now r js fs d)" and "rp_tenant_id r = tid"
    and "owned pj_id pj_tenant_id tid js (parse_jobs d)"
  shows "R tid d (report_unit e n now r js fs d)"
proof -
  have "unique rp_id (reports d @ [r])"
    using assms by (simp add: db_ok_unfold report_unit_reports)
  then show ?thesis
    unfolding report_unit_def assms(2) by (intro R_audit R_idempotency_if R_add_report assms)
qed

lemma kept_create_report_job:
  "kept (R tid) w (snd (create_report_job e cfg now tid js fs flt ikey (\<lambda>d. d) (\<lambda>d. d) w))"
proof -
  have "kept (R tid) w (snd (commit_or_resolve resolve key (w_db w)
      (report_unit e n now (j\<lparr>rp_queue_job_id := q\<rparr>) js fs' (w_db w)) row (draw 2 (snd (enqueue e task p (draw 1 (w\<lparr>w_db := w_db w\<rparr>)))))))"
    if "rp_tenant_id j = tid" "owned pj_id pj_tenant_id tid js (parse_jobs (w_db w))"
    for resolve :: "db \<Rightarrow> report option" and row :: report and key and n and j and q and task and p and fs'
    using R_report_unit [of e n now "j\<lparr>rp_queue_job_id := q\<rparr>" js fs' "w_db w"] that
    by (intro kept_commit_or_resolve) auto
  then show ?thesis
    by (auto simp: create_report_job_def Let_def split_beta kept_refl dest: owned_missing split: option.splits)
qed

lemma kept_retry_report_job: "kept (R tid) w (snd (retry_report_job e cfg now tid i w))"
proof (cases "get_report tid i w")
  case (Some r)
  then have r: "r \<in> set (reports (w_db w))" "rp_tenant_id r = tid"
    by (auto simp: get_report_def dest: report_table.one_or_none_own)
  show ?thesis
    unfolding retry_report_job_def Some Let_def split_beta option.case
    by (rule kept_commit) (use r in \<open>auto intro!: R_audit R_put_report\<close>)
qed (simp add: retry_report_job_def kept_refl)

lemma R_event: "R tid d d' \<Longrightarrow> R tid d (provider_event e n now tid ty a rid row x d')"
  by (simp add: provider_event_def R_audit)

lemma kept_provider_event:
  assumes "pc_tenant_id row = tid"
  shows "kept (R tid) w (snd (commit_with (provider_event e n now tid ty a rid row' x (put_provider row (w_db w))) r (draw k w)))"
    "kept (R tid) w (snd (commit_with (provider_event e n now tid ty a rid row' x (w_db w)) r' (draw k w)))"
  using assms by (auto intro!: kept_commit R_event R_put_provider R_refl)

lemma kept_oauth:
  "kept (R tid) w (snd (start_provider_oauth e cfg now tid pid uri a rid w))"
  "kept (R tid) w (snd (complete_provider_oauth_callback e now tid pid st oc a rid w))"
  "kept (R tid) w (snd (refresh_provider_oauth e now tid pid a rid w))"
  "kept (R tid) w (snd (revoke_provider_oauth e now tid pid a rid w))"
  "kept (R tid) w (snd (test_provider_connection e now tid pid a rid w))"
  unfolding start_provider_oauth_def complete_provider_oauth_callback_def refresh_provider_oauth_def
    revoke_provider_oauth_def test_provider_connection_def
  by (auto simp: Let_def dest!: provider_and_payload_own provider_row_or_error_own
      intro!: kept_provider_event kept_refl split: sum.splits option.splits)

lemma kept_providers:
  "kept (R tid) w (snd (delete_provider_config e now tid pid a w))"
  "kept (R tid) w (snd (create_provider_config e now tid pt dn st c a (\<lambda>d. d) w))"
  "kept (R tid) w (snd (update_provider_config e now tid pid ups a w))"
  unfolding delete_provider_config_def create_provider_config_def update_provider_config_def
  by (auto simp: Let_def dest!: apply_updates_tenant provider_row_own
      intro!: kept_case kept_commit kept_refl R_audit R_del_provider R_add_provider R_put_provider
      split: option.splits sum.split)

lemma kept_api_keys:
  "kept (R tid) w (snd (create_api_key e now tid a w))" "kept (R tid) w (snd (rotate_api_key e now tid i a w))"
  "kept (R tid) w (snd (revoke_api_key e now tid i a w))"
  unfolding create_api_key_def rotate_api_key_def revoke_api_key_def
  by (auto simp: Let_def dest!: api_key_row_own intro!: kept_commit kept_refl R_audit R_put_api_key R_add_api_key
      split: option.splits)

lemmas kept_ops = kept_register_file kept_record_audit_event kept_create_parse_job kept_create_collection_job
  kept_create_report_job kept_retry_report_job kept_oauth kept_providers kept_api_keys

end

end
