(* ===== verification/Api_Updates.thy ===== *)
theory Api_Updates
  imports Api_Routes Tenant_Updates
begin

text \<open>
  The routes of a tenant under the contract of \<open>Tenant_Updates\<close>: whatever relation the
  elementary updates satisfy, every request of the tenant satisfies.
\<close>

lemma kept_answer: "kept R w (snd rw) \<Longrightarrow> kept R w (snd (answer catch render rw))"
  by (auto simp: answer_def split: prod.splits sum.splits)

lemma snd_found_or_404 [simp]: "snd (found_or_404 m f r w) = w"
  by (simp add: found_or_404_def split: option.splits)

lemma snd_answer_read [simp]: "snd (answer catch render (r, w)) = w"
  by (simp add: answer_def split: sum.splits)

lemmas api_defs = api_list_providers_def api_create_provider_def api_update_provider_def api_delete_provider_def
  api_start_provider_oauth_def api_oauth_callback_def api_refresh_provider_oauth_def api_revoke_provider_oauth_def
  api_test_provider_connection_def api_create_collection_job_def api_list_collection_jobs_def
  api_get_collection_job_def api_create_parse_job_def api_get_parse_job_def api_list_invoices_def api_get_invoice_def
  api_dashboard_summary_def api_create_report_def api_list_reports_def api_get_report_def api_retry_report_def
  api_list_api_keys_def api_create_api_key_def api_rotate_api_key_def api_revoke_api_key_def

context tenant_updates begin

lemma kept_api_register_file: "kept (R (ca_tenant ca)) w (snd (api_register_file ap ca fn ct data w))"
proof -
  have "kept (R tid) w (snd (register_file e now tid fn sp mt sha sz (draw k (w\<lparr>w_store := s\<rparr>))))"
    for e now tid fn sp mt sha sz k s
    using kept_register_file [of tid "draw k (w\<lparr>w_store := s\<rparr>)"] by simp
  then show ?thesis
    unfolding api_register_file_def
    by (auto simp: Let_def kept_refl intro!: kept_answer split: prod.splits sum.splits)
qed

lemma kept_api_download: "kept (R (ca_tenant ca)) w (snd (api_download_report ap ca i fmt w))"
  unfolding api_download_report_def by (auto simp: kept_refl split: option.splits prod.splits sum.splits)

lemma kept_handle_tenant: "kept (R (ca_tenant ca)) w (snd (handle_tenant ap ca req w))"
  by (cases req)
    (simp_all add: kept_api_register_file kept_api_download,
     simp_all add: api_defs Let_def kept_answer kept_ops kept_refl)

end

end
