(* ===== verification/Tenant_Frame.thy ===== *)
theory Tenant_Frame
  imports Api_Updates
begin

text \<open>
  What the operations a tenant can ask for leave alone. \<open>rows_of P\<close> is the part of a database
  that belongs to the tenants in \<open>P\<close>; an update is a tenant's own when it changes no row of
  any other tenant, no user and no tenant. The elementary updates are, so every operation is.
  Then what an operation that fails leaves behind.
\<close>

definition link_of :: "(pystr \<Rightarrow> bool) \<Rightarrow> ('a \<Rightarrow> pystr) \<Rightarrow> ('a \<Rightarrow> pystr) \<Rightarrow> 'a list \<Rightarrow> pystr \<Rightarrow> bool" where
  "link_of P ident tenant_of rows i = list_ex (\<lambda>r. ident r = i \<and> P (tenant_of r)) rows"

definition rows_of :: "(pystr \<Rightarrow> bool) \<Rightarrow> db \<Rightarrow> db" where
  "rows_of P d =
     \<lparr>tenants = filter (\<lambda>r. P (tn_id r)) (tenants d), users = [],
      memberships = filter (\<lambda>r. P (tm_tenant_id r)) (memberships d),
      auth_sessions = filter (\<lambda>r. P (as_tenant_id r)) (auth_sessions d),
      provider_configs = filter (\<lambda>r. P (pc_tenant_id r)) (provider_configs d),
      api_keys = filter (\<lambda>r. P (ak_tenant_id r)) (api_keys d),
      invoice_files = filter (\<lambda>r. P (fl_tenant_id r)) (invoice_files d),
      parse_jobs = filter (\<lambda>r. P (pj_tenant_id r)) (parse_jobs d),
      collection_jobs = filter (\<lambda>r. P (cj_tenant_id r)) (collection_jobs d),
      parse_job_files =
        filter (\<lambda>l. link_of P pj_id pj_tenant_id (parse_jobs d) (pf_parse_job_id l)) (parse_job_files d),
      report_parse_jobs =
        filter (\<lambda>l. link_of P rp_id rp_tenant_id (reports d) (rj_report_id l)) (report_parse_jobs d),
      invoice_records = filter (\<lambda>r. P (ir_tenant_id r)) (invoice_records d),
      reports = filter (\<lambda>r. P (rp_tenant_id r)) (reports d),
      report_artifacts = filter (\<lambda>r. P (ra_tenant_id r)) (report_artifacts d),
      audit_events = filter (\<lambda>r. P (ae_tenant_id r)) (audit_events d),
      idempotency_records = filter (\<lambda>r. P (ik_tenant_id r)) (idempotency_records d)\<rparr>"

text \<open>A unit of work that only touches the tenant's rows.\<close>

definition own_unit :: "pystr \<Rightarrow> db \<Rightarrow> db \<Rightarrow> bool" where
  "own_unit tid d d' \<longleftrightarrow>
     rows_of (\<lambda>t. t \<noteq> tid) d' = rows_of (\<lambda>t. t \<noteq> tid) d \<and> users d' = users d \<and> tenants d' = tenants d"

lemma own_unit_refl [simp]: "own_unit tid d d"
  by (simp add: own_unit_def)

lemma own_unit_audit [simp]: "own_unit tid d (add_audit e n now tid ty a p d') = own_unit tid d d'"
  by (simp add: own_unit_def rows_of_def add_audit_def)

lemma own_unit_idempotency [simp]:
  "own_unit tid d (add_idempotency e n now tid sc k rt rid d') = own_unit tid d d'"
  by (simp add: own_unit_def rows_of_def add_idempotency_def)

lemma filter_upd_where_outside [table_simps]:
  assumes "\<And>r. P r \<Longrightarrow> \<not> Q r" and "\<And>r. P r \<Longrightarrow> \<not> Q (f r)"
  shows "filter Q (upd_where P f rows) = filter Q rows"
  by (induction rows) (auto simp: upd_where_def assms)

lemma own_unit_provider: "pc_tenant_id row = tid \<Longrightarrow> own_unit tid d (put_provider row d)"
  by (auto simp: own_unit_def rows_of_def put_provider_def intro!: filter_upd_where_outside)

lemma own_unit_api_key: "ak_tenant_id k = tid \<Longrightarrow> own_unit tid d (put_api_key k d)"
  by (auto simp: own_unit_def rows_of_def put_api_key_def intro!: filter_upd_where_outside)

text \<open>Appended rows: their own tenant's, and links of a job whose identifier is new.\<close>

lemma own_unit_append:
  "fl_tenant_id f = tid \<Longrightarrow> own_unit tid d (d\<lparr>invoice_files := invoice_files d @ [f]\<rparr>)"
  "cj_tenant_id j = tid \<Longrightarrow> own_unit tid d (add_collection_job j d)"
  "ak_tenant_id k = tid \<Longrightarrow> own_unit tid d (d\<lparr>api_keys := api_keys d @ [k]\<rparr>)"
  "pc_tenant_id p = tid \<Longrightarrow> own_unit tid d (d\<lparr>provider_configs := provider_configs d @ [p]\<rparr>)"
  "own_unit tid d (d\<lparr>provider_configs := del_where (\<lambda>p. pc_tenant_id p = tid \<and> Q p) (provider_configs d)\<rparr>)"
  by (auto simp: own_unit_def rows_of_def add_collection_job_def intro!: filter_del_where_other)

lemma link_of_snoc:
  "\<not> P (tenant_of r) \<Longrightarrow> link_of P ident tenant_of (rows @ [r]) = link_of P ident tenant_of rows"
  by (auto simp: link_of_def fun_eq_iff)

lemma link_of_fresh:
  "unique ident (rows @ [r]) \<Longrightarrow> \<not> link_of P ident tenant_of rows (ident r)"
  by (auto simp: link_of_def unique_snoc list_ex_iff)

lemma own_unit_parse_job:
  assumes "pj_tenant_id j = tid" and "unique pj_id (parse_jobs d @ [j])"
  shows "own_unit tid d (add_parse_links (pj_id j) fs now (add_parse_job j d))"
  using assms link_of_fresh [OF assms(2), of "\<lambda>t. t \<noteq> tid" pj_tenant_id]
  by (simp add: own_unit_def rows_of_def add_parse_links_def add_parse_job_def link_of_snoc filter_map o_def)

lemma own_unit_report:
  assumes "rp_tenant_id r = tid" and "unique rp_id (reports d @ [r])"
  shows "own_unit tid d (add_report_links (rp_id r) js now (add_report r d))"
  using assms link_of_fresh [OF assms(2), of "\<lambda>t. t \<noteq> tid" rp_tenant_id]
  by (simp add: own_unit_def rows_of_def add_report_links_def add_report_def link_of_snoc filter_map o_def)

lemma link_of_upd:
  assumes "\<And>x. Q x \<Longrightarrow> \<not> P (tenant_of x)" and "\<And>x. Q x \<Longrightarrow> \<not> P (tenant_of (f x))"
  shows "link_of P ident tenant_of (upd_where Q f rows) = link_of P ident tenant_of rows"
  using assms by (auto simp: link_of_def list_ex_iff upd_where_def fun_eq_iff)

lemma own_unit_put_report:
  assumes "db_ok d" and "r0 \<in> set (reports d)" and "rp_tenant_id r0 = tid" and "rp_id r = rp_id r0" and "rp_tenant_id r = tid"
  shows "own_unit tid d (put_report r d)"
proof -
  have "x \<in> set (reports d) \<Longrightarrow> rp_id x = rp_id r \<Longrightarrow> rp_tenant_id x = tid" for x
    using unique_inj [of rp_id "reports d" x r0] assms by (auto simp: db_ok_unfold)
  then have eq: "upd_where (\<lambda>x. rp_id x = rp_id r) (\<lambda>_. r) (reports d) =
    upd_where (\<lambda>x. rp_id x = rp_id r \<and> rp_tenant_id x = tid) (\<lambda>_. r) (reports d)"
    by (auto simp: upd_where_def)
  have "filter (\<lambda>x. rp_tenant_id x \<noteq> tid) (reports (put_report r d)) = filter (\<lambda>x. rp_tenant_id x \<noteq> tid) (reports d)"
    unfolding put_report_def using assms(5) by (auto simp: eq intro!: filter_upd_where_outside)
  moreover have "link_of (\<lambda>t. t \<noteq> tid) rp_id rp_tenant_id (reports (put_report r d)) =
      link_of (\<lambda>t. t \<noteq> tid) rp_id rp_tenant_id (reports d)"
    unfolding put_report_def using assms(5) by (auto simp: eq intro!: link_of_upd)
  ultimately show ?thesis
    by (simp add: own_unit_def rows_of_def put_report_def)
qed


interpretation own: tenant_updates own_unit
  by unfold_locales
    (simp_all add: own_unit_provider own_unit_api_key own_unit_append own_unit_parse_job own_unit_report
      own_unit_put_report)


subsection \<open>What a failed operation leaves behind\<close>

text \<open>
  Two databases that agree in every table except the audit events and the providers; an
  operation is undone when, if it raises, the databases before and after agree so.
\<close>

definition agree_but_providers :: "db \<Rightarrow> db \<Rightarrow> bool" where
  "agree_but_providers d d' \<longleftrightarrow>
     d'\<lparr>audit_events := audit_events d, provider_configs := provider_configs d\<rparr> = d"

definition undone :: "'s world \<Rightarrow> 'a res \<times> 's world \<Rightarrow> bool" where
  "undone w rw \<longleftrightarrow> (isl (fst rw) \<longrightarrow> agree_but_providers (w_db w) (w_db (snd rw)))"

named_theorems undone_ops

lemma agree_refl [simp]: "agree_but_providers d d"
  by (simp add: agree_but_providers_def)

lemma undone_Inr [simp]: "undone w (Inr x, w')"
  by (simp add: undone_def)

lemma undone_same: "w_db w' = w_db w \<Longrightarrow> undone w (r, w')"
  by (simp add: undone_def)

lemma undone_commit: "w_db w' = w_db w \<Longrightarrow> undone w (commit_with d (Inr x) w')"
  by (auto simp: undone_def commit_with_def split: option.splits)

lemma undone_commit_event:
  "w_db w' = w_db w \<Longrightarrow> undone w (commit_with (provider_event e n now tid ty a rid row x (put_provider row' (w_db w))) r w')"
  "w_db w' = w_db w \<Longrightarrow> undone w (commit_with (provider_event e n now tid ty a rid row x (w_db w)) r w')"
  by (auto simp: undone_def commit_with_def agree_but_providers_def provider_event_def add_audit_def put_provider_def
      split: option.splits)

lemma undone_commit_or_resolve: "undone w (commit_or_resolve res key (w_db w) d row w')"
  by (auto simp: undone_def commit_or_resolve_def Let_def split: option.splits)

lemma undone_case:
  "undone w rw \<Longrightarrow> undone w (case rw of (Inl err, w') \<Rightarrow> (Inl (f err), w') | (Inr x, w') \<Rightarrow> (Inr (g x), w'))"
  by (auto simp: undone_def split: prod.splits sum.splits)

lemma undone_register_file [undone_ops]: "undone w (register_file e now tid fn sp mt sha sz w)"
  by (simp add: register_file_def Let_def undone_commit)

lemma undone_create_jobs [undone_ops]:
  "undone w (create_parse_job e cfg now tid fs dbg ikey (\<lambda>d. d) (\<lambda>d. d) w)"
  "undone w (create_collection_job e cfg now tid ps ms ikey a (\<lambda>d. d) (\<lambda>d. d) w)"
  "undone w (create_report_job e cfg now tid js fmts flt ikey (\<lambda>d. d) (\<lambda>d. d) w)"
  unfolding create_parse_job_def create_collection_job_def create_report_job_def
  by (auto simp: Let_def split_beta undone_same undone_commit_or_resolve split: option.splits sum.splits)

lemma undone_retry [undone_ops]: "undone w (retry_report_job e cfg now tid i w)"
  unfolding retry_report_job_def Let_def split_beta
  by (auto simp: undone_same intro: undone_commit split: option.splits)

lemma undone_oauth [undone_ops]:
  "undone w (start_provider_oauth e cfg now tid pid uri a rid w)"
  "undone w (complete_provider_oauth_callback e now tid pid st oc a rid w)"
  "undone w (refresh_provider_oauth e now tid pid a rid w)"
  "undone w (revoke_provider_oauth e now tid pid a rid w)"
  "undone w (test_provider_connection e now tid pid a rid w)"
  unfolding start_provider_oauth_def complete_provider_oauth_callback_def refresh_provider_oauth_def
    revoke_provider_oauth_def test_provider_connection_def
  by (auto simp: Let_def undone_same undone_commit_event split: option.splits sum.splits)

lemma undone_providers [undone_ops]:
  "undone w (delete_provider_config e now tid pid a w)"
  "undone w (create_provider_config e now tid pt dn st c a (\<lambda>d. d) w)"
  "undone w (update_provider_config e now tid pid ups a w)"
  unfolding delete_provider_config_def create_provider_config_def update_provider_config_def
  by (auto simp: Let_def undone_same intro!: undone_commit undone_case split: option.splits sum.split)

lemma undone_api_keys [undone_ops]:
  "undone w (create_api_key e now tid a w)" "undone w (rotate_api_key e now tid i a w)"
  "undone w (revoke_api_key e now tid i a w)"
  unfolding create_api_key_def rotate_api_key_def revoke_api_key_def
  by (auto simp: Let_def undone_same undone_commit split: option.splits)

end
