(* ===== verification/Api_Serve.thy ===== *)
theory Api_Serve
  imports Tenant_Frame
begin

text \<open>
  One HTTP request from the audit middleware of \<open>saas/api.py\<close> to its response: the tenant is
  resolved from the headers, the route runs, the request is counted in the metrics and, for a
  tenant's \<open>/v1\<close> request, recorded as an audit event. Then what the API promises its tenants:
  their requests touch and read their own rows only, and nobody acts for a tenant without its
  key or a session of it.
\<close>

text \<open>What the middleware reads of a request; \<open>hr_duration_ms\<close> is the measured duration.\<close>

record http_request =
  hr_method :: pystr
  hr_path :: pystr
  hr_route :: pystr
  hr_query :: pystr
  hr_request_id :: "pystr option"
  hr_actor :: "pystr option"
  hr_api_key :: "pystr option"
  hr_authorization :: "pystr option"
  hr_control_key :: "pystr option"
  hr_user_agent :: "pystr option"
  hr_client_host :: "pystr option"
  hr_duration_ms :: rat

datatype route = TenantRoute tenant_request | AuthRoute auth_request | ControlRoute control_request

record 's server =
  sv_world :: "'s world"
  sv_metrics :: metrics_registry

definition serve_route ::
  "'s app \<Rightarrow> time \<Rightarrow> http_request \<Rightarrow> pystr \<Rightarrow> pystr option \<Rightarrow> route \<Rightarrow> 's world \<Rightarrow> (response http \<times> 's world) option" where
  "serve_route ap now hr request_id cached rt w =
     (case rt of
        TenantRoute req \<Rightarrow>
          (case get_tenant_id (ap_env ap) (ap_cfg ap) now cached (hr_api_key hr) (hr_authorization hr) (w_db w) of
             Inl err \<Rightarrow> Some (Inl err, w)
           | Inr tid \<Rightarrow>
               Some (handle_tenant ap \<lparr>ca_tenant = tid, ca_actor = hr_actor hr, ca_request_id = Some request_id,
                                       ca_now = now\<rparr> req w))
      | AuthRoute req \<Rightarrow>
          Some (handle_auth ap now (Some request_id) (hr_client_host hr) (hr_user_agent hr) req w)
      | ControlRoute req \<Rightarrow> handle_control ap now (hr_actor hr) (hr_control_key hr) req w)"

text \<open>\<open>exc.__class__.__name__\<close>; the class of a client library's exception is not known here.\<close>

fun exn_class :: "exn \<Rightarrow> pystr" where
  "exn_class (ValueError _) = ''ValueError''"
| "exn_class (RuntimeError _) = ''RuntimeError''"
| "exn_class (KeyError _) = ''KeyError''"
| "exn_class (TypeError _) = ''TypeError''"
| "exn_class (OverflowError _) = ''OverflowError''"
| "exn_class (OSError _) = ''OSError''"
| "exn_class UnicodeEncodeError = ''UnicodeEncodeError''"
| "exn_class JSONDecodeError = ''JSONDecodeError''"
| "exn_class (IntegrityError _) = ''IntegrityError''"
| "exn_class MultipleResultsFound = ''MultipleResultsFound''"
| "exn_class TenantGuardError = ''TenantGuardError''"
| "exn_class (AuthError _ _ _) = ''AuthError''"
| "exn_class (ProviderConfigError _ _) = ''ProviderConfigError''"
| "exn_class (CollectionJobError _ _) = ''CollectionJobError''"
| "exn_class (OtherError _) = ''Exception''"

text \<open>The status the middleware sees, and what it adds to the event of an uncaught exception.\<close>

fun outcome_status :: "response http \<Rightarrow> int" where
  "outcome_status (Inr r) = rs_status r"
| "outcome_status (Inl (HTTPError status _)) = status"
| "outcome_status (Inl (Unhandled _)) = 500"

fun outcome_error :: "response http \<Rightarrow> (pystr \<times> json) list" where
  "outcome_error (Inl (Unhandled err)) = [(''error'', JStr (exn_class err))]"
| "outcome_error _ = []"

definition request_event :: "http_request \<Rightarrow> pystr \<Rightarrow> response http \<Rightarrow> (pystr \<times> json) list" where
  "request_event hr request_id r =
     [(''request_id'', JStr request_id), (''method'', JStr (hr_method hr)), (''path'', JStr (hr_path hr)),
      (''route'', JStr (hr_route hr)), (''query'', JStr (hr_query hr)),
      (''status_code'', JInt (outcome_status r)), (''duration_ms'', JFloat (hr_duration_ms hr))] @ outcome_error r"

definition request_id_of :: "env \<Rightarrow> http_request \<Rightarrow> 's world \<Rightarrow> pystr \<times> 's world" where
  "request_id_of e hr w =
     (if truthy_str (hr_request_id hr) then (the (hr_request_id hr), w) else (uuid4 e (w_ctr w), draw 1 w))"

text \<open>
  \<open>request_audit_middleware\<close> around the route. An \<open>HTTPException\<close> has become a response by the
  time the middleware sees it; a failure to write the event is swallowed.
\<close>

definition serve ::
  "'s app \<Rightarrow> time \<Rightarrow> http_request \<Rightarrow> route \<Rightarrow> 's server \<Rightarrow> (response http \<times> 's server) option" where
  "serve ap now hr rt sv =
     (let e = ap_env ap; (request_id, w) = request_id_of e hr (sv_world sv) in
      case middleware_tenant e (ap_cfg ap) now (hr_path hr) (hr_api_key hr) (hr_authorization hr) (w_db w) of
        Inl err \<Rightarrow> Some (Inl err, sv\<lparr>sv_world := w\<rparr>)
      | Inr tenant \<Rightarrow>
          map_option (\<lambda>(r, w).
            (r, \<lparr>sv_world =
                   (case tenant of
                      None \<Rightarrow> w
                    | Some tid \<Rightarrow>
                        snd (record_audit_event e now tid (''api.'' @ normalize_action (hr_method hr) (hr_route hr))
                               (request_event hr request_id r) (hr_actor hr) w)),
                 sv_metrics = observe_http (hr_method hr) (hr_route hr) (outcome_status r) (hr_duration_ms hr)
                                (sv_metrics sv)\<rparr>))
            (serve_route ap now hr request_id tenant rt w))"


subsection \<open>A tenant's request stays with the tenant\<close>

text \<open>
  C1: Whatever a tenant asks for, through any of the API's routes and with any parameters, no
  row of any other tenant, no user and no tenant is changed, added or removed; the
  constraints of the schema are kept; and jobs already queued stay queued in their order.
\<close>

theorem tenant_requests_isolated:
  assumes "db_ok (w_db w)" and "handle_tenant ap ca req w = (r, w')"
  shows "db_ok (w_db w') \<and> rows_of (\<lambda>t. t \<noteq> ca_tenant ca) (w_db w') = rows_of (\<lambda>t. t \<noteq> ca_tenant ca) (w_db w) \<and>
    users (w_db w') = users (w_db w) \<and> tenants (w_db w') = tenants (w_db w) \<and>
    (\<exists>new. w_queue w' = w_queue w @ new)"
  using own.kept_handle_tenant [of ca w ap req] assms by (simp add: kept_def own_unit_def)

subsection \<open>A tenant's reads show the tenant's rows\<close>

fun is_read :: "tenant_request \<Rightarrow> bool" where
  "is_read (ListProviders _ _) = True"
| "is_read (ListCollectionJobs _ _ _) = True"
| "is_read (GetCollectionJob _) = True"
| "is_read (GetParseJob _) = True"
| "is_read (ListInvoices _ _ _) = True"
| "is_read (GetInvoice _) = True"
| "is_read DashboardSummary = True"
| "is_read (ListReports _ _ _) = True"
| "is_read (GetReport _) = True"
| "is_read (DownloadReport _ _) = True"
| "is_read ListApiKeys = True"
| "is_read _ = False"

lemma same_rows:
  assumes "rows_of (\<lambda>t. t = tid) d = rows_of (\<lambda>t. t = tid) d'"
  shows "tenant_rows pc_tenant_id tid (provider_configs d) = tenant_rows pc_tenant_id tid (provider_configs d')"
    "tenant_rows cj_tenant_id tid (collection_jobs d) = tenant_rows cj_tenant_id tid (collection_jobs d')"
    "tenant_rows pj_tenant_id tid (parse_jobs d) = tenant_rows pj_tenant_id tid (parse_jobs d')"
    "tenant_rows ir_tenant_id tid (invoice_records d) = tenant_rows ir_tenant_id tid (invoice_records d')"
    "tenant_rows rp_tenant_id tid (reports d) = tenant_rows rp_tenant_id tid (reports d')"
    "tenant_rows ra_tenant_id tid (report_artifacts d) = tenant_rows ra_tenant_id tid (report_artifacts d')"
    "tenant_rows fl_tenant_id tid (invoice_files d) = tenant_rows fl_tenant_id tid (invoice_files d')"
    "tenant_rows ak_tenant_id tid (api_keys d) = tenant_rows ak_tenant_id tid (api_keys d')"
  using assms by (simp_all add: rows_of_def tenant_rows_def)

lemma service_reads_same:
  assumes "rows_of (\<lambda>t. t = tid) (w_db w) = rows_of (\<lambda>t. t = tid) (w_db w')"
  shows "list_provider_configs tid n k w = list_provider_configs tid n k w'"
    "list_collection_jobs tid cst n k w = list_collection_jobs tid cst n k w'"
    "get_collection_job tid i w = get_collection_job tid i w'"
    "get_parse_job tid i w = get_parse_job tid i w'"
    "list_invoices lo tid f n k w = list_invoices lo tid f n k w'"
    "get_invoice tid i w = get_invoice tid i w'"
    "get_report tid i w = get_report tid i w'"
    "list_reports tid st n k w = list_reports tid st n k w'"
    "list_report_artifacts tid i w = list_report_artifacts tid i w'"
    "list_api_keys tid w = list_api_keys tid w'"
    "dashboard_summary tid w = dashboard_summary tid w'"
proof -
  note rows = same_rows [OF assms]
  note reads = provider_table.reads_same [OF rows(1)] collection_job_table.reads_same [OF rows(2)]
    parse_job_table.reads_same [OF rows(3)] invoice_table.reads_same [OF rows(4)]
    report_table.reads_same [OF rows(5)] artifact_table.reads_same [OF rows(6)] file_table.reads_same [OF rows(7)]
  show "list_provider_configs tid n k w = list_provider_configs tid n k w'"
    unfolding list_provider_configs_def reads(2) reads(3) ..
  show "list_collection_jobs tid cst n k w = list_collection_jobs tid cst n k w'"
    unfolding list_collection_jobs_def Let_def by (simp only: reads)
  show "get_collection_job tid i w = get_collection_job tid i w'"
    unfolding get_collection_job_def by (simp only: reads)
  show "get_parse_job tid i w = get_parse_job tid i w'"
    unfolding get_parse_job_def by (simp only: reads)
  show "list_invoices lo tid f n k w = list_invoices lo tid f n k w'"
    unfolding list_invoices_def by (simp only: reads)
  show "get_invoice tid i w = get_invoice tid i w'"
    unfolding get_invoice_def by (simp only: reads)
  show "get_report tid i w = get_report tid i w'"
    unfolding get_report_def by (simp only: reads)
  show "list_reports tid st n k w = list_reports tid st n k w'"
    unfolding list_reports_def Let_def by (simp only: reads)
  show "list_report_artifacts tid i w = list_report_artifacts tid i w'"
    unfolding list_report_artifacts_def by (simp only: reads)
  show "list_api_keys tid w = list_api_keys tid w'"
    using rows(8) by (simp add: list_api_keys_def tenant_rows_def)
  show "dashboard_summary tid w = dashboard_summary tid w'"
    unfolding dashboard_summary_def status_counts_def Let_def by (simp only: reads)
qed

text \<open>
  C4: What a tenant can read is its own: the response to a read request is determined by the
  rows of the tenant (and the stored files), whatever the rows of other tenants are, and a
  read changes nothing in the database.
\<close>

theorem tenant_reads_own_rows:
  assumes "is_read req" and "rows_of (\<lambda>t. t = ca_tenant ca) d = rows_of (\<lambda>t. t = ca_tenant ca) d'"
  shows "fst (handle_tenant ap ca req (w\<lparr>w_db := d\<rparr>)) = fst (handle_tenant ap ca req (w\<lparr>w_db := d'\<rparr>)) \<and>
    w_db (snd (handle_tenant ap ca req (w\<lparr>w_db := d\<rparr>))) = d"
proof -
  have same: "rows_of (\<lambda>t. t = ca_tenant ca) (w_db (w\<lparr>w_db := d\<rparr>)) = rows_of (\<lambda>t. t = ca_tenant ca) (w_db (w\<lparr>w_db := d'\<rparr>))"
    using assms(2) by simp
  note reads = service_reads_same [OF same]
  show ?thesis
    using assms(1)
    by (cases req)
      (simp_all add: api_defs reads Let_def answer_def found_or_404_def report_response_def api_download_report_def
        split: sum.splits option.splits prod.splits)
qed

subsection \<open>Who may act for a tenant\<close>

definition holds_key :: "env \<Rightarrow> db \<Rightarrow> pystr \<Rightarrow> pystr \<Rightarrow> bool" where
  "holds_key e d raw tid \<longleftrightarrow>
     list_ex (\<lambda>k. ak_key_hash k = hash_api_key e raw \<and> \<not> ak_revoked k \<and> ak_tenant_id k = tid) (api_keys d) \<and>
     list_ex (\<lambda>t. tn_id t = tid) (tenants d)"

definition holds_session :: "env \<Rightarrow> service_config \<Rightarrow> time \<Rightarrow> db \<Rightarrow> pystr \<Rightarrow> pystr \<Rightarrow> bool" where
  "holds_session e cfg now d authorization tid \<longleftrightarrow>
     (case extract_bearer_token (Some authorization) of
        Inr (Some token) \<Rightarrow>
          (case get_current_user e cfg now token d of
             Inr me \<Rightarrow> as_tenant_id (me_session me) = tid \<and> as_revoked_at (me_session me) = None \<and>
               us_id (me_user me) = as_user_id (me_session me) \<and> us_is_active (me_user me) \<and>
               tm_status (me_membership me) = ''active'' \<and> me_session me \<in> set (auth_sessions d)
           | Inl _ \<Rightarrow> False)
      | _ \<Rightarrow> False)"

lemma http_bind_Inr: "http_bind x f = Inr y \<longleftrightarrow> (\<exists>z. x = Inr z \<and> f z = Inr y)"
  by (cases x) auto

lemma current_user_holds:
  assumes "get_current_user e cfg now token d = Inr me"
  shows "as_tenant_id (me_session me) = tn_id (me_tenant me) \<and> as_revoked_at (me_session me) = None \<and>
    us_id (me_user me) = as_user_id (me_session me) \<and> us_is_active (me_user me) \<and>
    tm_status (me_membership me) = ''active'' \<and> me_session me \<in> set (auth_sessions d)"
  using assms unfolding get_current_user_def
  by (auto split: option.splits if_splits prod.splits dest!: scalar_SomeD active_principalsD)

lemma api_key_tenant_holds:
  "api_key_tenant e key d = Inr t \<Longrightarrow>
     (case t of None \<Rightarrow> \<not> truthy_str key | Some tid \<Rightarrow> truthy_str key \<and> holds_key e d (the key) tid)"
  unfolding api_key_tenant_def get_tenant_by_api_key_def resolve_tenant_id_from_api_key_def tenant_by_id_def
  by (auto simp: truthy_str_def holds_key_def list_ex_iff split: option.splits if_splits dest!: scalar_SomeD)

lemma bearer_tenant_token:
  assumes "bearer_tenant e cfg now auth d = Inr t"
  shows "(extract_bearer_token auth = Inr None \<and> t = None) \<or>
    (\<exists>token me. extract_bearer_token auth = Inr (Some token) \<and> get_current_user e cfg now token d = Inr me \<and>
       t = Some (tn_id (me_tenant me)))"
proof -
  obtain tok where tok: "extract_bearer_token auth = Inr tok"
    using assms unfolding bearer_tenant_def http_bind_Inr by blast
  show ?thesis
  proof (cases tok)
    case None
    with assms tok show ?thesis by (simp add: bearer_tenant_def)
  next
    case (Some token)
    with assms tok show ?thesis
      by (cases "get_current_user e cfg now token d"; cases "projl (get_current_user e cfg now token d)")
        (simp_all add: bearer_tenant_def)
  qed
qed

lemma extract_bearer_token_None: "extract_bearer_token auth = Inr None \<longleftrightarrow> auth = None"
  by (auto simp: extract_bearer_token_def Let_def split: option.splits)

lemma bearer_tenant_holds:
  assumes "bearer_tenant e cfg now auth d = Inr t"
  shows "case t of None \<Rightarrow> auth = None | Some tid \<Rightarrow> auth \<noteq> None \<and> holds_session e cfg now d (the auth) tid"
  using bearer_tenant_token [OF assms]
proof
  assume "\<exists>token me. extract_bearer_token auth = Inr (Some token) \<and> get_current_user e cfg now token d = Inr me \<and>
       t = Some (tn_id (me_tenant me))"
  then obtain token me where me: "extract_bearer_token auth = Inr (Some token)"
    "get_current_user e cfg now token d = Inr me" "t = Some (tn_id (me_tenant me))" by blast
  have "auth \<noteq> None" using me(1) extract_bearer_token_None [of auth] by fastforce
  then have "extract_bearer_token (Some (the auth)) = Inr (Some token)" using me(1) by simp
  with \<open>auth \<noteq> None\<close> me(2,3) current_user_holds [OF me(2)] show ?thesis
    by (simp add: holds_session_def)
qed (auto simp: extract_bearer_token_None)

definition authorised ::
  "env \<Rightarrow> service_config \<Rightarrow> time \<Rightarrow> db \<Rightarrow> pystr option \<Rightarrow> pystr option \<Rightarrow> pystr \<Rightarrow> bool" where
  "authorised e cfg now d key auth tid \<longleftrightarrow>
     (truthy_str key \<or> auth \<noteq> None) \<and>
     (truthy_str key \<longrightarrow> holds_key e d (the key) tid) \<and>
     (auth \<noteq> None \<longrightarrow> holds_session e cfg now d (the auth) tid)"

lemma resolve_runtime_authorised:
  assumes "resolve_runtime_tenant_id e cfg now key auth d = Inr (Some tid)"
  shows "authorised e cfg now d key auth tid"
proof -
  obtain a b where a: "api_key_tenant e key d = Inr a" and b: "bearer_tenant e cfg now auth d = Inr b"
    and ab: "(case (a, b) of
         (Some a, Some b) \<Rightarrow>
           if a \<noteq> b then Inl (HTTPError 403 ''tenant mismatch between API key and bearer token'')
           else Inr (Some b)
       | (_, Some b) \<Rightarrow> Inr (if b = [] then a else Some b)
       | (_, None) \<Rightarrow> Inr a) = (Inr (Some tid) :: (pystr option) http)"
    using assms unfolding resolve_runtime_tenant_id_def http_bind_Inr by blast
  show ?thesis
    using api_key_tenant_holds [OF a] bearer_tenant_holds [OF b] ab
    by (cases a; cases b) (auto simp: authorised_def split: if_splits)
qed

lemma middleware_cached:
  "middleware_tenant e cfg now p key auth d = Inr (Some t) \<Longrightarrow> resolve_runtime_tenant_id e cfg now key auth d = Inr (Some t)"
  by (auto simp: middleware_tenant_def split: if_splits sum.splits http_error.splits)

lemma get_tenant_id_authorised:
  assumes "middleware_tenant e cfg now p key auth d = Inr cached"
    and "get_tenant_id e cfg now cached key auth d = Inr tid"
  shows "authorised e cfg now d key auth tid"
proof (cases "truthy_str cached")
  case True
  with assms have "resolve_runtime_tenant_id e cfg now key auth d = Inr (Some tid)"
    by (auto simp: get_tenant_id_def truthy_str_def intro: middleware_cached)
  then show ?thesis by (rule resolve_runtime_authorised)
next
  case False
  with assms(2) have "resolve_runtime_tenant_id e cfg now key auth d = Inr (Some tid)"
    by (auto simp: get_tenant_id_def http_bind_Inr split: option.splits)
  then show ?thesis by (rule resolve_runtime_authorised)
qed

lemma request_id_of_db [simp]: "request_id_of e hr w = (rid, w') \<Longrightarrow> w_db w' = w_db w"
  by (auto simp: request_id_of_def split: if_splits)

text \<open>
  C3: Nobody acts for a tenant without its credentials. A request to a tenant's route is
  either refused, with the database as it was, or it is handled for a tenant for which it
  presented a live API key, a bearer token of a live session of an active member, or both; if
  it presents both, they are of the same tenant.
\<close>

theorem tenant_route_authorised:
  assumes "serve ap now hr (TenantRoute req) sv = Some (r, sv')"
  shows "(\<exists>err. r = Inl err \<and> w_db (sv_world sv') = w_db (sv_world sv)) \<or>
    (\<exists>tid ca w0. ca_tenant ca = tid \<and> w_db w0 = w_db (sv_world sv) \<and> fst (handle_tenant ap ca req w0) = r \<and>
      authorised (ap_env ap) (ap_cfg ap) now (w_db (sv_world sv)) (hr_api_key hr) (hr_authorization hr) tid)"
proof -
  obtain rid w where w: "request_id_of (ap_env ap) hr (sv_world sv) = (rid, w)" by force
  let ?d = "w_db (sv_world sv)"
  show ?thesis
  proof (cases "middleware_tenant (ap_env ap) (ap_cfg ap) now (hr_path hr) (hr_api_key hr) (hr_authorization hr) ?d")
    case (Inl err)
    then show ?thesis using assms w by (auto simp: serve_def)
  next
    case (Inr cached)
    show ?thesis
    proof (cases "get_tenant_id (ap_env ap) (ap_cfg ap) now cached (hr_api_key hr) (hr_authorization hr) ?d")
      case tid: (Inr tid)
      let ?ca = "\<lparr>ca_tenant = tid, ca_actor = hr_actor hr, ca_request_id = Some rid, ca_now = now\<rparr>"
      have "r = fst (handle_tenant ap ?ca req w)"
        using assms w Inr tid by (auto simp: serve_def serve_route_def Let_def split_beta)
      moreover have "ca_tenant ?ca = tid" "w_db w = w_db (sv_world sv)" using w by simp_all
      ultimately show ?thesis using get_tenant_id_authorised [OF Inr tid] by metis
    next
      case err: (Inl err)
      have "cached = None"
        using err middleware_cached [of "ap_env ap" "ap_cfg ap" now "hr_path hr" "hr_api_key hr" "hr_authorization hr" ?d] Inr
        by (cases cached) (auto simp: get_tenant_id_def split: if_splits)
      then show ?thesis
        using assms w Inr err by (auto simp: serve_def serve_route_def)
    qed
  qed
qed

subsection \<open>A request that fails\<close>

definition failed_http :: "'s world \<Rightarrow> response http \<times> 's world \<Rightarrow> bool" where
  "failed_http w rw \<longleftrightarrow> (isl (fst rw) \<longrightarrow> agree_but_providers (w_db w) (w_db (snd rw)))"

lemma failed_answer: "undone w rw \<Longrightarrow> failed_http w (answer catch render rw)"
  by (auto simp: failed_http_def undone_def answer_def split: prod.splits sum.splits)

lemma failed_same: "w_db w' = w_db w \<Longrightarrow> failed_http w (r, w')"
  by (simp add: failed_http_def)

lemma failed_found_or_404: "failed_http w (found_or_404 m f r w)"
  by (simp add: failed_http_def)

lemma failed_answer_read: "failed_http w (answer catch render (r, w))"
  by (simp add: failed_http_def)

lemma undone_frame: "undone (draw k (w\<lparr>w_store := s\<rparr>)) rw = undone w rw"
  by (simp add: undone_def)

lemma failed_api_register_file: "failed_http w (api_register_file ap ca fn ct data w)"
proof -
  have "undone w (register_file e now tid fn sp mt sha sz (draw k (w\<lparr>w_store := s\<rparr>)))" for e now tid fn sp mt sha sz k s
    using undone_register_file [of "draw k (w\<lparr>w_store := s\<rparr>)"] by (simp add: undone_frame)
  then show ?thesis
    unfolding api_register_file_def by (auto simp: Let_def intro!: failed_same failed_answer split: prod.splits sum.splits)
qed

lemma failed_api_download: "failed_http w (api_download_report ap ca i fmt w)"
  unfolding api_download_report_def by (auto intro!: failed_same split: option.splits prod.splits sum.splits)



subsection \<open>A tenant at work\<close>

definition demo_app :: "unit app" where
  "demo_app =
     \<lparr>ap_env = toy_env, ap_cfg = demo_auth_config,
      ap_storage = \<lparr>st_save = (\<lambda>k b s. (Inr (stored toy_env k b), s)), st_read = (\<lambda>k s. (Inr [], s)),
                    st_resolve = (\<lambda>k s. (Inr [k], s)), st_delete = (\<lambda>k s. (Inr (), s)), st_file = (\<lambda>p s. None)\<rparr>,
      ap_sql_lower = py_lower, ap_control_key = Some ''key'', ap_cookie_secure = True\<rparr>"

definition demo_caller :: caller where
  "demo_caller = \<lparr>ca_tenant = ''t'', ca_actor = None, ca_request_id = Some ''r'', ca_now = 5\<rparr>"

definition demo_key_request :: "response http \<times> unit world" where
  "demo_key_request = handle_tenant demo_app demo_caller CreateApiKey demo_auth_world"

lemma tenant_requests_isolated_witness:
  "length (api_keys (w_db (snd demo_key_request))) = 2 \<and>
   rows_of (\<lambda>t. t \<noteq> ''t'') (w_db (snd demo_key_request)) = rows_of (\<lambda>t. t \<noteq> ''t'') (w_db demo_auth_world)"
proof -
  have len: "length (api_keys (w_db (snd demo_key_request))) = 2" by code_simp
  have req: "handle_tenant demo_app demo_caller CreateApiKey demo_auth_world = (fst demo_key_request, snd demo_key_request)"
    by (simp only: demo_key_request_def prod.collapse)
  have "ca_tenant demo_caller = ''t''" by (simp add: demo_caller_def)
  with tenant_requests_isolated [OF demo_auth_world_ok req] len show ?thesis by metis
qed

definition foreign_key :: api_key where
  "foreign_key = \<lparr>ak_id = ''z'', ak_tenant_id = ''other'', ak_key_prefix = ''p'', ak_key_hash = ''h'', ak_revoked = False,
     ak_created_at = 1, ak_revoked_at = None\<rparr>"

lemma tenant_reads_own_rows_witness:
  "fst (handle_tenant demo_app demo_caller ListApiKeys (demo_auth_world\<lparr>w_db := (w_db demo_auth_world)\<lparr>api_keys := api_keys (w_db demo_auth_world) @ [foreign_key]\<rparr>\<rparr>)) =
   fst (handle_tenant demo_app demo_caller ListApiKeys (demo_auth_world\<lparr>w_db := w_db demo_auth_world\<rparr>))"
proof -
  let ?d = "w_db demo_auth_world"
  have "rows_of (\<lambda>t. t = ca_tenant demo_caller) (?d\<lparr>api_keys := api_keys ?d @ [foreign_key]\<rparr>) =
      rows_of (\<lambda>t. t = ca_tenant demo_caller) ?d"
    by (simp add: rows_of_def demo_caller_def foreign_key_def)
  from tenant_reads_own_rows [OF _ this, of ListApiKeys] show ?thesis by (rule conjunct1) simp
qed

definition demo_http :: http_request where
  "demo_http =
     \<lparr>hr_method = ''GET'', hr_path = ''/v1/admin/api-keys'', hr_route = ''/v1/admin/api-keys'', hr_query = [],
      hr_request_id = None, hr_actor = None, hr_api_key = Some ''old'', hr_authorization = None,
      hr_control_key = None, hr_user_agent = None, hr_client_host = None, hr_duration_ms = 1\<rparr>"

definition demo_served :: "(response http \<times> unit server) option" where
  "demo_served = serve demo_app 5 demo_http (TenantRoute ListApiKeys) \<lparr>sv_world = demo_auth_world, sv_metrics = empty_registry\<rparr>"

lemma tenant_route_authorised_witness:
  "\<exists>tid. authorised toy_env demo_auth_config 5 (w_db demo_auth_world) (Some ''old'') None tid"
proof -
  have "(case demo_served of None \<Rightarrow> False | Some (r, _) \<Rightarrow> \<not> isl r)" by code_simp
  then obtain resp sv' where "demo_served = Some (Inr resp, sv')"
    by (auto split: option.splits prod.splits) (metis sum.collapse(2))
  from tenant_route_authorised [OF trans [OF demo_served_def [symmetric] this]] show ?thesis
    by (auto simp: demo_app_def demo_http_def)
qed


end
