(* ===== verification/Tenant_Links.thy ===== *)
theory Tenant_Links
  imports Api_Updates
begin

text \<open>
  The references between tables, which the database does not enforce: every link, invoice and
  artifact names existing rows, and the rows it connects are of one tenant. The elementary
  updates of the service keep that, and so does every run of a worker, whether it succeeds or
  fails. \<open>steady\<close> is the shape of all these facts: constraints and references before give
  constraints and references after.
\<close>

definition has_row :: "('a \<Rightarrow> pystr) \<Rightarrow> ('a \<Rightarrow> pystr) \<Rightarrow> 'a list \<Rightarrow> pystr \<Rightarrow> pystr \<Rightarrow> bool" where
  "has_row ident tenant_of rows i t = list_ex (\<lambda>r. ident r = i \<and> tenant_of r = t) rows"

abbreviation "has_job d \<equiv> has_row pj_id pj_tenant_id (parse_jobs d)"
abbreviation "has_file d \<equiv> has_row fl_id fl_tenant_id (invoice_files d)"
abbreviation "has_report d \<equiv> has_row rp_id rp_tenant_id (reports d)"

definition links_ok :: "db \<Rightarrow> bool" where
  "links_ok d \<longleftrightarrow>
     list_all (\<lambda>l. list_ex (\<lambda>j. pj_id j = pf_parse_job_id l \<and> has_file d (pf_file_id l) (pj_tenant_id j))
       (parse_jobs d)) (parse_job_files d) \<and>
     list_all (\<lambda>l. list_ex (\<lambda>r. rp_id r = rj_report_id l \<and> has_job d (rj_parse_job_id l) (rp_tenant_id r))
       (reports d)) (report_parse_jobs d) \<and>
     list_all (\<lambda>x. has_job d (ir_parse_job_id x) (ir_tenant_id x)) (invoice_records d) \<and>
     list_all (\<lambda>a. has_report d (ra_report_id a) (ra_tenant_id a)) (report_artifacts d)"

lemma links_ok_iff:
  "links_ok d \<longleftrightarrow>
     (\<forall>l\<in>set (parse_job_files d). \<exists>t. has_job d (pf_parse_job_id l) t \<and> has_file d (pf_file_id l) t) \<and>
     (\<forall>l\<in>set (report_parse_jobs d). \<exists>t. has_report d (rj_report_id l) t \<and> has_job d (rj_parse_job_id l) t) \<and>
     (\<forall>x\<in>set (invoice_records d). has_job d (ir_parse_job_id x) (ir_tenant_id x)) \<and>
     (\<forall>a\<in>set (report_artifacts d). has_report d (ra_report_id a) (ra_tenant_id a))"
proof -
  have 1: "list_ex (\<lambda>j. pj_id j = pf_parse_job_id l \<and> has_file d (pf_file_id l) (pj_tenant_id j)) (parse_jobs d) \<longleftrightarrow>
      (\<exists>t. has_job d (pf_parse_job_id l) t \<and> has_file d (pf_file_id l) t)" for l
    by (auto simp: has_row_def list_ex_iff)
  have 2: "list_ex (\<lambda>r. rp_id r = rj_report_id l \<and> has_job d (rj_parse_job_id l) (rp_tenant_id r)) (reports d) \<longleftrightarrow>
      (\<exists>t. has_report d (rj_report_id l) t \<and> has_job d (rj_parse_job_id l) t)" for l
    by (auto simp: has_row_def list_ex_iff)
  show ?thesis
    unfolding links_ok_def list_all_iff 1 2 ..
qed

text \<open>Rows may be added and changed freely as long as identifiers and tenants stay.\<close>

lemma links_ok_grow:
  assumes "links_ok d"
    and "\<And>i t. has_job d i t \<Longrightarrow> has_job d' i t" and "\<And>i t. has_file d i t \<Longrightarrow> has_file d' i t"
    and "\<And>i t. has_report d i t \<Longrightarrow> has_report d' i t"
    and "set (parse_job_files d') \<subseteq> set (parse_job_files d)" and "set (report_parse_jobs d') \<subseteq> set (report_parse_jobs d)"
    and "set (invoice_records d') \<subseteq> set (invoice_records d)" and "set (report_artifacts d') \<subseteq> set (report_artifacts d)"
  shows "links_ok d'"
  unfolding links_ok_iff
proof (intro conjI ballI)
  note old = assms(1) [unfolded links_ok_iff]
  show "\<exists>t. has_job d' (pf_parse_job_id l) t \<and> has_file d' (pf_file_id l) t" if "l \<in> set (parse_job_files d')" for l
    using old subsetD [OF assms(5) that] assms(2,3) by blast
  show "\<exists>t. has_report d' (rj_report_id l) t \<and> has_job d' (rj_parse_job_id l) t" if "l \<in> set (report_parse_jobs d')" for l
    using old subsetD [OF assms(6) that] assms(2,4) by blast
  show "has_job d' (ir_parse_job_id x) (ir_tenant_id x)" if "x \<in> set (invoice_records d')" for x
    using old subsetD [OF assms(7) that] assms(2) by blast
  show "has_report d' (ra_report_id a) (ra_tenant_id a)" if "a \<in> set (report_artifacts d')" for a
    using old subsetD [OF assms(8) that] assms(4) by blast
qed

lemma has_row_append [simp]: "has_row ident tenant_of (xs @ ys) i t \<longleftrightarrow> has_row ident tenant_of xs i t \<or> has_row ident tenant_of ys i t"
  by (simp add: has_row_def)

lemma has_row_single [simp]: "has_row ident tenant_of [r] i t \<longleftrightarrow> ident r = i \<and> tenant_of r = t"
  by (auto simp: has_row_def)

lemma has_row_upd [simp]:
  "(\<And>r. ident (f r) = ident r) \<Longrightarrow> (\<And>r. tenant_of (f r) = tenant_of r) \<Longrightarrow>
     has_row ident tenant_of (upd_where P f rows) i t = has_row ident tenant_of rows i t"
  unfolding has_row_def upd_where_def by (induction rows) auto

text \<open>Tables without references.\<close>

lemma links_ok_other [simp]:
  "links_ok (add_audit e n now tid ty a p d) = links_ok d"
  "links_ok (add_idempotency e n now tid sc k rt i d) = links_ok d"
  "links_ok (put_provider row d) = links_ok d"
  "links_ok (d\<lparr>provider_configs := x1\<rparr>) = links_ok d"
  "links_ok (put_api_key k' d) = links_ok d"
  "links_ok (d\<lparr>api_keys := x2\<rparr>) = links_ok d"
  "links_ok (add_collection_job cj d) = links_ok d"
  "links_ok (d\<lparr>collection_jobs := x3\<rparr>) = links_ok d"
  "links_ok (d\<lparr>auth_sessions := x4\<rparr>) = links_ok d"
  "links_ok (d\<lparr>users := x5\<rparr>) = links_ok d"
  "links_ok (d\<lparr>memberships := x6\<rparr>) = links_ok d"
  "links_ok (d\<lparr>tenants := x7\<rparr>) = links_ok d"
  "links_ok (put_session s d) = links_ok d"
  "links_ok (mark_collection_job f i d) = links_ok d"
  "links_ok (emit_auth_event e n now tid ty rid u sid sc' rc d) = links_ok d"
  by (simp_all add: links_ok_def add_audit_def add_idempotency_def put_provider_def put_api_key_def
      add_collection_job_def put_session_def mark_collection_job_def emit_auth_event_def)

lemma links_ok_add_file: "links_ok d \<Longrightarrow> links_ok (d\<lparr>invoice_files := invoice_files d @ fs\<rparr>)"
  by (erule links_ok_grow) auto

lemma owned_has_row: "owned ident tenant_of tid ids rows \<longleftrightarrow> (\<forall>i\<in>set ids. has_row ident tenant_of rows i tid)"
  by (simp add: owned_def list_all_iff has_row_def)

lemma links_ok_add_parse_job:
  assumes "links_ok d" and "pj_tenant_id j = tid" and "owned fl_id fl_tenant_id tid fs (invoice_files d)"
    and "pj_id j = i"
  shows "links_ok (add_parse_links i fs now (add_parse_job j d))"
  using assms unfolding links_ok_iff owned_has_row by (fastforce simp: add_parse_links_def add_parse_job_def)

lemma links_ok_add_report:
  assumes "links_ok d" and "rp_tenant_id r = tid" and "owned pj_id pj_tenant_id tid js (parse_jobs d)"
  shows "links_ok (add_report_links (rp_id r) js now (add_report r d))"
  using assms unfolding links_ok_iff owned_has_row by (fastforce simp: add_report_links_def add_report_def)

lemma links_ok_put_report:
  assumes "links_ok d" and "db_ok d" and "r0 \<in> set (reports d)" and "rp_id r = rp_id r0" and "rp_tenant_id r = rp_tenant_id r0"
  shows "links_ok (put_report r d)"
proof -
  have "has_report (put_report r d) i t" if row: "has_report d i t" for i t
  proof -
    obtain x where x: "x \<in> set (reports d)" "rp_id x = i" "rp_tenant_id x = t"
      using row unfolding has_row_def list_ex_iff by blast
    show ?thesis
    proof (cases "rp_id x = rp_id r")
      case True
      then have "x = r0" using unique_inj [of rp_id "reports d" x r0] assms x by (auto simp: db_ok_unfold)
      with x True assms show ?thesis
        by (auto simp: has_row_def list_ex_iff put_report_def upd_where_def)
    next
      case False
      with x show ?thesis by (force simp: has_row_def list_ex_iff put_report_def upd_where_def)
    qed
  qed
  from links_ok_grow [OF assms(1) _ _ this] show ?thesis by (simp add: put_report_def)
qed

interpretation links: tenant_updates "\<lambda>tid d d'. links_ok d \<longrightarrow> links_ok d'"
  by unfold_locales
    (simp_all add: links_ok_add_file links_ok_add_parse_job links_ok_add_report links_ok_put_report)


subsection \<open>Runs of the workers\<close>

definition sound_db :: "db \<Rightarrow> bool" where
  "sound_db d \<longleftrightarrow> db_ok d \<and> links_ok d"

definition steady :: "'s world \<Rightarrow> 's world \<Rightarrow> bool" where
  "steady w w' \<longleftrightarrow> (sound_db (w_db w) \<longrightarrow> sound_db (w_db w'))"

lemma steady_refl [simp]: "steady w w"
  by (simp add: steady_def)

lemma steady_trans: "steady w w1 \<Longrightarrow> steady w1 w2 \<Longrightarrow> steady w w2"
  by (simp add: steady_def)

lemma steady_frame [simp]:
  "steady w (draw k w') = steady w w'" "steady w (w'\<lparr>w_store := s\<rparr>) = steady w w'"
  by (simp_all add: steady_def)

lemma steady_db: "w_db w' = w_db w \<Longrightarrow> steady w w'"
  by (simp add: steady_def)

lemma steady_commit:
  assumes "sound_db (w_db w) \<Longrightarrow> links_ok d" and "w_db w' = w_db w"
  shows "steady w (snd (commit_with d r w'))"
  using assms commit_ok [of d r w'] commit_not_ok [of d r w']
  by (cases "db_ok d") (auto simp: steady_def sound_db_def)

lemma kept_steady: "kept (\<lambda>d d'. links_ok d \<longrightarrow> links_ok d') w w' \<Longrightarrow> steady w w'"
  by (auto simp: kept_def steady_def sound_db_def)

lemma sound_links: "sound_db d \<Longrightarrow> links_ok d"
  by (simp add: sound_db_def)

text \<open>Parse jobs.\<close>

lemma links_ok_mark_parse_job:
  assumes "links_ok d" and "\<And>j. pj_id (f j) = pj_id j" and "\<And>j. pj_tenant_id (f j) = pj_tenant_id j"
  shows "links_ok (mark_parse_job f i d)"
  by (rule links_ok_grow [OF assms(1)]) (simp_all add: assms mark_parse_job_def)

lemma links_ok_parsed:
  assumes "links_ok d" and "has_job d i t" and "list_all (\<lambda>x. ir_tenant_id x = t \<and> ir_parse_job_id x = i) xs"
  shows "links_ok (d\<lparr>invoice_records := invoice_records d @ xs,
    invoice_files := upd_where P (\<lambda>f. f\<lparr>fl_status := PARSED\<rparr>) (invoice_files d)\<rparr>)"
  using assms unfolding links_ok_iff by (auto simp: list_all_iff)

lemma parse_job_by_id_row: "parse_job_by_id i d = Some j \<Longrightarrow> has_job d i (pj_tenant_id j)"
  by (auto simp: parse_job_by_id_def has_row_def list_ex_iff dest!: scalar_SomeD)

lemma sound_mark_parse_job:
  "sound_db d \<Longrightarrow> (\<And>j. pj_id (f j) = pj_id j) \<Longrightarrow> (\<And>j. pj_tenant_id (f j) = pj_tenant_id j) \<Longrightarrow>
     links_ok (mark_parse_job f i d)"
  by (rule links_ok_mark_parse_job [OF sound_links])

lemma sound_parsed:
  assumes "sound_db d" and "parse_job_by_id i d = Some j" and "records_of_parsed e n now j rs = Inr xs"
    and "\<And>j. pj_id (f j) = pj_id j" and "\<And>j. pj_tenant_id (f j) = pj_tenant_id j"
  shows "links_ok (mark_parse_job f i (d\<lparr>invoice_records := invoice_records d @ xs,
    invoice_files := upd_where P (\<lambda>f. f\<lparr>fl_status := PARSED\<rparr>) (invoice_files d)\<rparr>))"
  using links_ok_parsed [OF sound_links [OF assms(1)] parse_job_by_id_row [OF assms(2)], of xs P]
    records_of_parsed_own [OF assms(3)] parse_job_by_idD [OF assms(2)] assms(4,5)
  by (intro links_ok_mark_parse_job) auto

lemma steady_execute_parse: "steady w (snd (execute_parse_job e ops parser now i w))"
  unfolding execute_parse_job_def Let_def
  by (auto simp: res_bind_Inr intro!: steady_commit intro: steady_db sound_parsed split: option.splits sum.splits prod.splits)

lemma steady_start_parse: "steady w (snd (start_parse_job now i w))"
  unfolding start_parse_job_def by (auto intro!: steady_commit sound_mark_parse_job split: option.splits)

lemma steady_fail_parse: "steady w (snd (fail_parse_job now i err w))"
  unfolding fail_parse_job_def by (auto intro!: steady_commit sound_mark_parse_job)

lemma steady_run_parse_job: "steady w (snd (run_parse_job e ops parser t1 t2 i w))"
proof -
  obtain r1 w1 where s: "start_parse_job t1 i w = (r1, w1)" by force
  obtain r2 w2 where x: "execute_parse_job e ops parser t2 i w1 = (r2, w2)" by force
  note steps = steady_start_parse [of w t1 i, unfolded s] steady_execute_parse [of w1 e ops parser t2 i, unfolded x]
    steady_fail_parse [of w2 t2 i]
  show ?thesis
    using steps by (auto simp: run_parse_job_def s x intro: steady_trans split: sum.splits)
qed

text \<open>Reports.\<close>

lemma links_ok_mark_report:
  "sound_db d \<Longrightarrow> (\<And>r. rp_id (f r) = rp_id r) \<Longrightarrow> (\<And>r. rp_tenant_id (f r) = rp_tenant_id r) \<Longrightarrow>
     links_ok (mark_report f i d)"
  by (rule links_ok_grow [OF sound_links]) auto

lemma artifact_rows_report:
  "a \<in> set (artifact_rows e n now r xs) \<Longrightarrow> ra_tenant_id a = rp_tenant_id r \<and> ra_report_id a = rp_id r"
  by (induction e n now r xs rule: artifact_rows.induct) auto

lemma links_ok_artifacts:
  assumes "sound_db d" and "report_by_id i d = Some r"
    and "\<And>r. rp_id (f r) = rp_id r" and "\<And>r. rp_tenant_id (f r) = rp_tenant_id r"
  shows "links_ok (mark_report f i (d\<lparr>report_artifacts := del_where P (report_artifacts d) @ artifact_rows e n now r xs\<rparr>))"
proof -
  have "has_report d (rp_id r) (rp_tenant_id r)"
    using report_by_idD [OF assms(2)] by (auto simp: has_row_def list_ex_iff)
  with sound_links [OF assms(1)] show ?thesis
    unfolding links_ok_iff by (auto simp: assms(3,4) set_del_where dest: artifact_rows_report)
qed

lemma steady_execute_report: "steady w (snd (execute_report_job e ops pypdf now i w))"
  unfolding execute_report_job_def Let_def
  by (auto intro!: steady_commit intro: steady_db links_ok_artifacts split: option.splits sum.splits prod.splits)

lemma steady_start_report: "steady w (snd (start_report_job now i w))"
  unfolding start_report_job_def by (auto intro!: steady_commit links_ok_mark_report split: option.splits)

lemma steady_fail_report: "steady w (snd (fail_report_job now i err w))"
  unfolding fail_report_job_def by (auto intro!: steady_commit links_ok_mark_report)

lemma steady_run_report_job: "steady w (snd (run_report_job e ops pypdf t1 t2 i w))"
proof -
  obtain r1 w1 where s: "start_report_job t1 i w = (r1, w1)" by force
  obtain r2 w2 where x: "execute_report_job e ops pypdf t2 i w1 = (r2, w2)" by force
  note steps = steady_start_report [of w t1 i, unfolded s] steady_execute_report [of w1 e ops pypdf t2 i, unfolded x]
    steady_fail_report [of w2 t2 i]
  show ?thesis
    using steps by (auto simp: run_report_job_def s x intro: steady_trans split: sum.splits)
qed

lemma has_row_filter:
  "has_row ident tenant_of rows i t \<Longrightarrow> P i \<Longrightarrow> has_row ident tenant_of (filter (\<lambda>r. P (ident r)) rows) i t"
  unfolding has_row_def list_ex_iff by auto

lemma links_ok_without_reports:
  assumes "sound_db d"
  shows "links_ok (without_reports ids d)"
proof -
  let ?d = "without_reports ids d"
  have report: "has_report ?d i t" if "has_report d i t" "i \<notin> ids" for i t
    using has_row_filter [OF that(1), of "\<lambda>i. i \<notin> ids"] that(2) by (simp add: without_reports_def)
  have same: "invoice_files ?d = invoice_files d" "parse_jobs ?d = parse_jobs d"
    "parse_job_files ?d = parse_job_files d" "invoice_records ?d = invoice_records d"
    by (simp_all add: without_reports_def)
  have "\<exists>t. has_report ?d (rj_report_id l) t \<and> has_job d (rj_parse_job_id l) t" if "l \<in> set (report_parse_jobs ?d)" for l
  proof -
    have l: "l \<in> set (report_parse_jobs d)" "rj_report_id l \<notin> ids" using that by (auto simp: without_reports_def)
    then obtain t where "has_report d (rj_report_id l) t" "has_job d (rj_parse_job_id l) t"
      using sound_links [OF assms] unfolding links_ok_iff by blast
    with report l(2) show ?thesis by blast
  qed
  moreover have "has_report ?d (ra_report_id a) (ra_tenant_id a)" if "a \<in> set (report_artifacts ?d)" for a
  proof -
    have a: "a \<in> set (report_artifacts d)" "ra_report_id a \<notin> ids" using that by (auto simp: without_reports_def)
    then have "has_report d (ra_report_id a) (ra_tenant_id a)"
      using sound_links [OF assms] unfolding links_ok_iff by blast
    with report a(2) show ?thesis by blast
  qed
  ultimately show ?thesis
    using sound_links [OF assms] unfolding links_ok_iff same by blast
qed

lemma steady_cleanup: "steady w (snd (run_report_retention_cleanup ops now k w))"
  unfolding run_report_retention_cleanup_def Let_def
  by (auto dest!: purge_reports_result intro!: steady_commit links_ok_without_reports
      intro: steady_db split: sum.splits prod.splits)

text \<open>Collection jobs: the files gathered so far are rows of the job's tenant.\<close>

definition gathered :: "pystr \<Rightarrow> collect_state \<Rightarrow> bool" where
  "gathered tid c \<longleftrightarrow>
     links_ok (cs_db c) \<and>
     (\<forall>(p, fs)\<in>set (cs_files c). owned fl_id fl_tenant_id tid fs (invoice_files (cs_db c)))"

lemma gathered_failure [simp]: "gathered tid (add_failure p f m c) = gathered tid c"
  by (simp add: gathered_def add_failure_def)

lemma gathered_discovered [simp]: "gathered tid (c\<lparr>cs_discovered := n\<rparr>) = gathered tid c"
  by (simp add: gathered_def)

lemma set_dict_set: "(k, v) \<in> set (dict_set k' v' m) \<Longrightarrow> (k, v) \<in> set m \<or> (k = k' \<and> v = v')"
  by (induction m) (auto split: if_splits)

lemma owned_append: "owned ident tenant_of tid ids rows \<Longrightarrow> owned ident tenant_of tid ids (rows @ rows')"
  by (auto simp: owned_has_row)

lemma gathered_file:
  assumes "gathered tid c" and "fl_tenant_id row = tid" and "fl_id row = i"
  shows "gathered tid (c\<lparr>cs_db := (cs_db c)\<lparr>invoice_files := invoice_files (cs_db c) @ [row]\<rparr>,
    cs_downloaded := n, cs_files := append_file p i (cs_files c)\<rparr>)"
proof -
  have old: "owned fl_id fl_tenant_id tid fs (invoice_files (cs_db c))" if "(q, fs) \<in> set (cs_files c)" for q fs
    using assms(1) that by (auto simp: gathered_def)
  have "owned fl_id fl_tenant_id tid fs (invoice_files (cs_db c) @ [row])"
    if "(q, fs) \<in> set (append_file p i (cs_files c))" for q fs
    using set_dict_set [OF that [unfolded append_file_def]]
  proof
    assume "q = p \<and> fs = (case map_of (cs_files c) p of None \<Rightarrow> [] | Some fs \<Rightarrow> fs) @ [i]"
    moreover have "owned fl_id fl_tenant_id tid (case map_of (cs_files c) p of None \<Rightarrow> [] | Some fs \<Rightarrow> fs) (invoice_files (cs_db c))"
      by (cases "map_of (cs_files c) p") (auto simp: owned_has_row dest: map_of_SomeD old [unfolded owned_has_row])
    ultimately show ?thesis using assms(2,3) by (auto simp: owned_has_row)
  qed (use old owned_append in blast)
  then show ?thesis using assms(1) by (auto simp: gathered_def links_ok_add_file)
qed

lemma gathered_store_collected:
  assumes "store_collected e ops now j p idx cf c w = (Inr c', w')" and "gathered (cj_tenant_id j) c"
  shows "gathered (cj_tenant_id j) c'"
  using assms unfolding store_collected_def Let_def
  by (auto intro: gathered_file split: if_splits sum.splits prod.splits option.splits)

lemma gathered_store_all:
  "store_all e ops now j p idx cfs c w = (Inr c', w') \<Longrightarrow> gathered (cj_tenant_id j) c \<Longrightarrow> gathered (cj_tenant_id j) c'"
proof (induction e ops now j p idx cfs c w rule: store_all.induct)
  case (2 e ops now j p idx cf cfs c w)
  obtain c1 w1 where s: "store_collected e ops now j p idx cf c w = (Inr c1, w1)"
    "store_all e ops now j p (idx + 1) cfs c1 w1 = (Inr c', w')"
    using 2(2) by (auto split: prod.splits sum.splits)
  from 2(1) [OF s(1) [symmetric] refl s(2) gathered_store_collected [OF s(1) 2(3)]] show ?case .
qed simp

lemma gathered_collect_provider:
  assumes "collect_provider e ops exec now j by_type p c w = (Inr c', w')" and "gathered (cj_tenant_id j) c"
  shows "gathered (cj_tenant_id j) c'"
  using assms by (auto simp: collect_provider_def split: option.splits if_splits sum.splits dest!: gathered_store_all)

lemma gathered_collect_all:
  "collect_all e ops exec now j by_type ps c w = (Inr c', w') \<Longrightarrow> gathered (cj_tenant_id j) c \<Longrightarrow> gathered (cj_tenant_id j) c'"
proof (induction e ops exec now j by_type ps c w rule: collect_all.induct)
  case (2 e ops exec now j by_type p ps c w)
  obtain c1 w1 where s: "collect_provider e ops exec now j by_type p c w = (Inr c1, w1)"
    "collect_all e ops exec now j by_type ps c1 w1 = (Inr c', w')"
    using 2(2) by (auto split: prod.splits sum.splits)
  from 2(1) [OF s(1) [symmetric] refl s(2) gathered_collect_provider [OF s(1) 2(3)]] show ?case .
qed simp

lemma add_parse_files: "invoice_files (add_parse_links i fs now (add_parse_job j d)) = invoice_files d"
  by (simp add: add_parse_links_def add_parse_job_def)

lemma links_ok_collection_parse_job:
  assumes "create_collection_parse_job e now j p fs d w = (Inr (i, d'), w')" and "links_ok d"
    and "owned fl_id fl_tenant_id (cj_tenant_id j) fs (invoice_files d)"
  shows "links_ok d' \<and> invoice_files d' = invoice_files d"
  using assms
  by (auto simp: create_collection_parse_job_def Let_def split_beta add_parse_files
      intro!: links_ok_add_parse_job split: option.splits)

lemma links_ok_collection_parse_jobs:
  "create_collection_parse_jobs e now j fs d w = (Inr (ids, d'), w') \<Longrightarrow> links_ok d \<Longrightarrow>
   \<forall>(p, ids)\<in>set fs. owned fl_id fl_tenant_id (cj_tenant_id j) ids (invoice_files d) \<Longrightarrow> links_ok d'"
proof (induction e now j fs d w arbitrary: ids d' w' rule: create_collection_parse_jobs.induct)
  case (2 e now j p file_ids rest d w)
  show ?case
  proof (cases "file_ids = []")
    case True
    with 2 show ?thesis by simp
  next
    case False
    obtain i d1 w1 ids1 where s: "create_collection_parse_job e now j p file_ids d w = (Inr (i, d1), w1)"
      "create_collection_parse_jobs e now j rest d1 w1 = (Inr (ids1, d'), w')"
      using 2(3) False by (auto split: prod.splits sum.splits)
    with links_ok_collection_parse_job [OF s(1) 2(4)] 2(2) [OF False s(1) [symmetric] refl refl s(2)] 2(5)
    show ?thesis by auto
  qed
qed simp

lemma steady_execute_collection: "steady w (snd (execute_collection_job e ops exec now i w))"
proof (cases "execute_collection_job e ops exec now i w")
  case (Pair r w')
  show ?thesis
  proof (cases r)
    case (Inl err)
    with Pair execute_collection_fails show ?thesis by (metis snd_conv steady_db)
  next
    case (Inr st)
    obtain j c w1 ids d w2 where run: "collect_all e ops exec now j (provider_map j (decode_collection_list (cj_providers_json j)) (w_db w))
          (decode_collection_list (cj_providers_json j))
          \<lparr>cs_db = w_db w, cs_failures = [], cs_files = [], cs_discovered = 0, cs_downloaded = 0\<rparr> w = (Inr c, w1)"
      and jobs: "create_collection_parse_jobs e now j (cs_files c) (cs_db c) w1 = (Inr (ids, d), w2)"
      and fin: "finish_collection_job e now j c ids d w2 = (Inr st, w')"
      using Pair Inr unfolding execute_collection_job_def Let_def
      by (auto split: option.splits if_splits sum.splits prod.splits)
    have "links_ok d \<and> sound_db (w_db w')" if "sound_db (w_db w)"
    proof -
      have "gathered (cj_tenant_id j) c"
        by (rule gathered_collect_all [OF run]) (simp add: gathered_def sound_links [OF that])
      then have "links_ok d"
        using links_ok_collection_parse_jobs [OF jobs] by (simp add: gathered_def)
      moreover from fin have "db_ok (w_db w')" "links_ok (w_db w') = links_ok d"
        by (auto simp: finish_collection_job_def Let_def dest!: commit_cases)
      ultimately show ?thesis by (simp add: sound_db_def)
    qed
    then show ?thesis by (simp add: Pair steady_def)
  qed
qed

lemma steady_claim: "steady w (snd (claim_collection_job e now i w))"
  unfolding claim_collection_job_def Let_def
  by (auto intro!: steady_commit simp: sound_links split: option.splits)

lemma steady_fail_collection: "steady w (snd (fail_collection_job e now i err w))"
  unfolding fail_collection_job_def Let_def
  by (auto intro!: steady_commit simp: sound_links split: option.splits)

lemma steady_run_collection_job: "steady w (snd (run_collection_job e ops exec t1 t2 i w))"
proof -
  obtain r1 w1 where s: "claim_collection_job e t1 i w = (r1, w1)" by force
  obtain r2 w2 where x: "execute_collection_job e ops exec t2 i w1 = (r2, w2)" by force
  note steps = steady_claim [of w e t1 i, unfolded s] steady_execute_collection [of w1 e ops exec t2 i, unfolded x]
    steady_fail_collection [of w2 e t2 i]
  show ?thesis
    using steps by (auto simp: run_collection_job_def s x intro: steady_trans split: sum.splits option.splits)
qed

text \<open>Whatever task is delivered, with whatever payload.\<close>

lemma steady_status_result: "steady w (snd rw) \<Longrightarrow> steady w (snd (status_result rw))"
  by (auto simp: status_result_def split: prod.splits)

lemma steady_discard: "steady w (snd rw) \<Longrightarrow> steady w (snd (discard rw))"
  by (auto simp: discard_def split: prod.splits)

lemma steady_task:
  assumes "task_handlers e wc now task = Some h"
  shows "steady w (snd (h p w))"
  using assms unfolding task_handlers_def
  by (auto simp: run_parse_job_task_def run_collection_job_task_def run_report_job_task_def
      run_report_retention_cleanup_task_def steady_run_parse_job steady_run_collection_job steady_run_report_job
      steady_cleanup intro!: steady_status_result steady_discard split: if_splits sum.splits option.splits)

end
