(* ===== verification/System.thy ===== *)
theory System
  imports Api_Serve Tenant_Links
begin

text \<open>
  The running system: HTTP requests and background tasks, one after the other in any order. A
  step is a served request, the delivery of a task (with any payload, as often as the queue
  likes), the removal of a queue entry or the scheduling of a cleanup. What holds in every
  reachable state, and that draining the in-memory queue with the real task handlers ends.
\<close>

inductive system_step :: "'s app \<Rightarrow> 's worker_context \<Rightarrow> 's world \<Rightarrow> 's world \<Rightarrow> bool" for ap wc where
  serve_request:
    "serve ap now hr rt \<lparr>sv_world = w, sv_metrics = m\<rparr> = Some (r, sv') \<Longrightarrow> system_step ap wc w (sv_world sv')"
| deliver_task:
    "task_handlers (ap_env ap) wc now task = Some h \<Longrightarrow> h payload w = (r, w') \<Longrightarrow> system_step ap wc w w'"
| drop_job: "pop_job w = Some (job, w') \<Longrightarrow> system_step ap wc w w'"
| schedule_cleanup:
    "enqueue_report_cleanup (ap_env ap) (ap_cfg ap) k w = (r, w') \<Longrightarrow> system_step ap wc w w'"

inductive_cases system_step_cases: "system_step ap wc w w'"

inductive reachable :: "'s app \<Rightarrow> 's worker_context \<Rightarrow> 's world \<Rightarrow> bool" for ap wc where
  start: "w_db w = empty_db \<Longrightarrow> reachable ap wc w"
| step: "reachable ap wc w \<Longrightarrow> system_step ap wc w w' \<Longrightarrow> reachable ap wc w'"


subsection \<open>Sessions and the control plane\<close>

lemma steady_auth_fail:
  "(sound_db (w_db w) \<Longrightarrow> links_ok d) \<Longrightarrow> steady w (snd (auth_fail e now t ty c m st rid u s rc d w))"
  unfolding auth_fail_def by (rule steady_commit) auto

lemma steady_authenticate: "steady w (snd (authenticate_user e cfg now slug email password rid ip ua w))"
  unfolding authenticate_user_def Let_def
  by (auto simp: sound_links intro!: steady_auth_fail steady_commit split: sum.splits option.splits)

lemma steady_refresh: "steady w (snd (refresh_session e cfg now tok rid w))"
  unfolding refresh_session_def Let_def
  by (auto simp: sound_links intro!: steady_auth_fail steady_commit split: option.splits)

lemma steady_revoke: "steady w (snd (revoke_session e now tok rid w))"
  unfolding revoke_session_def Let_def
  by (auto simp: sound_links intro!: steady_commit split: option.splits)

lemma steady_answer: "steady w (snd rw) \<Longrightarrow> steady w (snd (answer catch render rw))"
  by (auto simp: answer_def split: prod.splits sum.splits)

lemma steady_answer_auth: "steady w (snd rw) \<Longrightarrow> steady w (snd (answer_auth rid render rw))"
  by (auto simp: answer_auth_def split: prod.splits sum.splits exn.splits)

lemma steady_handle_auth: "steady w (snd (handle_auth ap now rid ip ua req w))"
  by (cases req)
    (simp_all add: auth_login_def auth_refresh_def auth_logout_def get_me_def steady_answer steady_answer_auth
      steady_authenticate steady_refresh steady_revoke)

lemma commit_steady:
  "commit_with d r w1 = (r', w') \<Longrightarrow> w_db w1 = w_db w \<Longrightarrow> (sound_db (w_db w) \<Longrightarrow> links_ok d) \<Longrightarrow> steady w w'"
  using steady_commit [of w d w1 r] by simp

lemma steady_bootstrap_tenant: "bootstrap_tenant e now name actor w = Some rw \<Longrightarrow> steady w (snd rw)"
  by (auto simp: bootstrap_tenant_def Let_def sound_links intro!: steady_commit)

lemma user_for_login_links: "user_for_login e n now email pw fn d = Inr (u, d') \<Longrightarrow> links_ok d' = links_ok d"
  by (auto simp: user_for_login_def res_bind_Inr Let_def split: option.splits if_splits)

lemma steady_bootstrap_user: "steady w (snd (bootstrap_tenant_admin_user e now tid email pw fn a w))"
  unfolding bootstrap_tenant_admin_user_def Let_def
  by (auto simp: sound_links dest: user_for_login_links intro!: steady_commit split: sum.splits)

lemma steady_api_create_tenant: "api_create_tenant ap now a name w = Some rw \<Longrightarrow> steady w (snd rw)"
  by (auto simp: api_create_tenant_def intro!: steady_answer steady_bootstrap_tenant split: if_splits)

lemma steady_api_bootstrap_user: "steady w (snd (api_bootstrap_user ap now a tid email pw fn w))"
  by (auto simp: api_bootstrap_user_def intro!: steady_answer steady_bootstrap_user)

lemma steady_handle_control: "handle_control ap now actor key req w = Some rw \<Longrightarrow> steady w (snd rw)"
  by (cases req)
    (auto simp: api_list_tenants_def intro: steady_api_create_tenant steady_api_bootstrap_user split: sum.splits)


subsection \<open>Every step\<close>

lemma steady_record_audit: "steady w (snd (record_audit_event e now tid ty p a w))"
  by (rule kept_steady [OF links.kept_record_audit_event])

lemma steady_serve_route:
  assumes "serve_route ap now hr rid cached rt w = Some rw"
  shows "steady w (snd rw)"
proof (cases rt)
  case (TenantRoute req)
  with assms show ?thesis
    by (auto simp: serve_route_def intro: kept_steady [OF links.kept_handle_tenant] split: sum.splits)
qed (use assms in \<open>auto simp: serve_route_def steady_handle_auth steady_handle_control\<close>)

lemma steady_serve:
  assumes "serve ap now hr rt sv = Some (r, sv')"
  shows "steady (sv_world sv) (sv_world sv')"
proof -
  obtain rid w where w: "request_id_of (ap_env ap) hr (sv_world sv) = (rid, w)" by force
  have start: "steady (sv_world sv) w" using w by (auto intro: steady_db)
  show ?thesis
  proof (cases "middleware_tenant (ap_env ap) (ap_cfg ap) now (hr_path hr) (hr_api_key hr) (hr_authorization hr) (w_db w)")
    case (Inl err)
    with assms w start show ?thesis by (auto simp: serve_def)
  next
    case (Inr tenant)
    then obtain w1 where rt: "serve_route ap now hr rid tenant rt w = Some (r, w1)"
      and sv': "sv_world sv' = (case tenant of None \<Rightarrow> w1
        | Some tid \<Rightarrow> snd (record_audit_event (ap_env ap) now tid (''api.'' @ normalize_action (hr_method hr) (hr_route hr))
            (request_event hr rid r) (hr_actor hr) w1))"
      using assms w by (auto simp: serve_def Let_def)
    have "steady w w1" using steady_serve_route [OF rt] by simp
    moreover have "steady w1 (sv_world sv')" unfolding sv' by (cases tenant) (simp_all add: steady_record_audit)
    ultimately show ?thesis using start steady_trans by blast
  qed
qed

lemma steady_step: "system_step ap wc w w' \<Longrightarrow> steady w w'"
proof (induction rule: system_step.induct)
  case (serve_request now hr rt w m r sv')
  then show ?case using steady_serve by fastforce
next
  case (deliver_task now task h payload w r w')
  then show ?case using steady_task [of "ap_env ap" wc now task h w payload] by simp
next
  case (drop_job w job w')
  then show ?case by (auto simp: pop_job_def intro!: steady_db split: list.splits)
next
  case (schedule_cleanup k w r w')
  then show ?case by (auto simp: enqueue_report_cleanup_def enqueue_def Let_def intro!: steady_db split: if_splits)
qed

lemma sound_empty: "sound_db empty_db"
  by (simp add: sound_db_def links_ok_def empty_db_def db_ok_empty [unfolded empty_db_def])

text \<open>
  C2: In every state the system can reach, through any requests and any deliveries of tasks in
  any order, the schema's constraints hold and so do the references it does not enforce: every
  link between a job and a file, a report and a job, every invoice and every artifact names
  existing rows, and the rows it connects belong to one tenant.
\<close>

theorem reachable_sound:
  assumes "reachable ap wc w"
  shows "db_ok (w_db w) \<and> links_ok (w_db w)"
proof -
  have "sound_db (w_db w)"
    using assms
  proof (induction rule: reachable.induct)
    case (start w)
    then show ?case by (simp add: sound_empty)
  next
    case (step w w')
    then show ?case using steady_step by (auto simp: steady_def)
  qed
  then show ?thesis by (simp add: sound_db_def)
qed


subsection \<open>Draining ends\<close>

text \<open>A step that adds nothing to the queue but parse tasks, which add nothing themselves.\<close>

definition queues_parse :: "'s world \<Rightarrow> 's world \<Rightarrow> bool" where
  "queues_parse w w' \<longleftrightarrow> (\<exists>new. w_queue w' = w_queue w @ new \<and> list_all (\<lambda>q. fst q = parse_task_name) new)"

lemma queues_parse_same: "w_queue w' = w_queue w \<Longrightarrow> queues_parse w w'"
  by (simp add: queues_parse_def)

lemma queues_parse_trans: "queues_parse w w1 \<Longrightarrow> queues_parse w1 w2 \<Longrightarrow> queues_parse w w2"
  by (auto simp: queues_parse_def)

lemma queues_parse_end: "queues_parse w w1 \<Longrightarrow> w_queue w2 = w_queue w1 \<Longrightarrow> queues_parse w w2"
  by (simp add: queues_parse_def)

lemma run_parts_queue [simp]:
  "w_queue (snd (start_parse_job t i w)) = w_queue w" "w_queue (snd (fail_parse_job t i err w)) = w_queue w"
  "w_queue (snd (start_report_job t i w)) = w_queue w" "w_queue (snd (fail_report_job t i err w)) = w_queue w"
  "w_queue (snd (finish_collection_job e t j c ids d w)) = w_queue w"
  "w_queue (snd (fail_collection_job e t i err w)) = w_queue w"
  by (simp_all add: start_parse_job_def fail_parse_job_def start_report_job_def fail_report_job_def
      finish_collection_job_def fail_collection_job_def Let_def split: option.splits)

lemma execute_parse_queue [simp]: "w_queue (snd (execute_parse_job e ops parser t i w)) = w_queue w"
  unfolding execute_parse_job_def Let_def by (auto split: option.splits sum.splits prod.splits)

lemma execute_report_queue [simp]: "w_queue (snd (execute_report_job e ops pypdf t i w)) = w_queue w"
  unfolding execute_report_job_def Let_def by (auto split: option.splits sum.splits prod.splits)

lemma run_parse_queue: "w_queue (snd (run_parse_job e ops parser t1 t2 i w)) = w_queue w"
proof -
  obtain r1 w1 where 1: "start_parse_job t1 i w = (r1, w1)" by force
  obtain r2 w2 where 2: "execute_parse_job e ops parser t2 i w1 = (r2, w2)" by force
  show ?thesis
    using run_parts_queue(1) [of t1 i w] execute_parse_queue [of e ops parser t2 i w1]
    by (simp add: run_parse_job_def 1 2 split: sum.splits)
qed

lemma run_report_queue: "w_queue (snd (run_report_job e ops pypdf t1 t2 i w)) = w_queue w"
proof -
  obtain r1 w1 where 1: "start_report_job t1 i w = (r1, w1)" by force
  obtain r2 w2 where 2: "execute_report_job e ops pypdf t2 i w1 = (r2, w2)" by force
  show ?thesis
    using run_parts_queue(3) [of t1 i w] execute_report_queue [of e ops pypdf t2 i w1]
    by (simp add: run_report_job_def 1 2 split: sum.splits)
qed

lemma cleanup_queue: "w_queue (snd (run_report_retention_cleanup ops now k w)) = w_queue w"
  unfolding run_report_retention_cleanup_def Let_def by (auto split: sum.splits prod.splits)

lemma store_collected_queue: "w_queue (snd (store_collected e ops now j p idx cf c w)) = w_queue w"
  unfolding store_collected_def Let_def by (auto split: sum.splits prod.splits option.splits)

lemma store_all_queue: "w_queue (snd (store_all e ops now j p idx cfs c w)) = w_queue w"
proof (induction e ops now j p idx cfs c w rule: store_all.induct)
  case (2 e ops now j p idx cf cfs c w)
  then show ?case
    using store_collected_queue [of e ops now j p idx cf c w] by (auto split: prod.splits sum.splits)
qed simp

lemma collect_all_queue: "w_queue (snd (collect_all e ops exec now j by_type ps c w)) = w_queue w"
proof (induction e ops exec now j by_type ps c w rule: collect_all.induct)
  case (2 e ops exec now j by_type p ps c w)
  have "w_queue (snd (collect_provider e ops exec now j by_type p c w)) = w_queue w"
    by (auto simp: collect_provider_def store_all_queue split: option.splits sum.splits)
  with 2 show ?case by (auto split: prod.splits sum.splits)
qed simp

lemma collection_parse_job_queue: "queues_parse w (snd (create_collection_parse_job e now j p fs d w))"
  by (auto simp: create_collection_parse_job_def Let_def split_beta queues_parse_def split: option.splits)

lemma collection_parse_jobs_queue: "queues_parse w (snd (create_collection_parse_jobs e now j fs d w))"
proof (induction e now j fs d w rule: create_collection_parse_jobs.induct)
  case (2 e now j p file_ids rest d w)
  show ?case
    using 2 collection_parse_job_queue [of w e now j p file_ids d]
    by (auto intro: queues_parse_trans split: prod.splits sum.splits)
qed (simp add: queues_parse_same)

lemma execute_collection_queue: "queues_parse w (snd (execute_collection_job e ops exec now i w))"
proof -
  have all: "queues_parse w w1" if "collect_all e ops exec now j b ps c w = (r, w1)" for j b ps c r w1
    using collect_all_queue [of e ops exec now j b ps c w] that by (simp add: queues_parse_same)
  have jobs: "queues_parse w w2" if "queues_parse w w1" "create_collection_parse_jobs e now j fs d w1 = (r, w2)" for w1 j fs d r w2
    using collection_parse_jobs_queue [of w1 e now j fs d] that by (auto intro: queues_parse_trans)
  have fin: "queues_parse w w2 \<Longrightarrow> queues_parse w (snd (finish_collection_job e now j c ids d w2))" for j c ids d w2
    by (erule queues_parse_end) simp
  show ?thesis
    unfolding execute_collection_job_def Let_def
    by (auto simp: queues_parse_same intro: all jobs fin
        split: option.splits sum.splits prod.splits)
qed

lemma claim_queue: "w_queue (snd (claim_collection_job e t i w)) = w_queue w"
  unfolding claim_collection_job_def Let_def by (auto split: option.splits)

lemma run_collection_queue: "queues_parse w (snd (run_collection_job e ops exec t1 t2 i w))"
proof -
  obtain r1 w1 where 1: "claim_collection_job e t1 i w = (r1, w1)" by force
  obtain r2 w2 where 2: "execute_collection_job e ops exec t2 i w1 = (r2, w2)" by force
  have q1: "queues_parse w w1" using claim_queue [of e t1 i w] 1 by (simp add: queues_parse_same)
  then have q2: "queues_parse w w2"
    using execute_collection_queue [of w1 e ops exec t2 i] 2 by (auto intro: queues_parse_trans)
  have "queues_parse w (snd (fail_collection_job e t2 i err w2))" for err
    by (rule queues_parse_end [OF q2]) simp
  with q1 q2 show ?thesis by (simp add: run_collection_job_def 1 2 split: sum.splits option.splits)
qed

text \<open>What a handler that returns adds to the queue: nothing, unless it is the collection task.\<close>

definition collection_task :: pystr where
  "collection_task = ''invplatform.saas.tasks.run_collection_job_task''"

lemma discard_queue: "w_queue (snd (discard rw)) = w_queue (snd rw)" "w_queue (snd (status_result rw2)) = w_queue (snd rw2)"
  by (simp_all add: discard_def status_result_def split: prod.splits)

lemma task_queue:
  assumes "task_handlers e wc now task = Some h"
  shows "if task = collection_task then queues_parse w (snd (h p w)) else w_queue (snd (h p w)) = w_queue w"
proof -
  have "queues_parse w (snd (discard (run_collection_job_task e wc now p w)))"
    using run_collection_queue [of w e "wc_storage wc" "wc_executor wc" now now]
    by (simp add: queues_parse_def discard_queue run_collection_job_task_def split: sum.splits)
  moreover have "w_queue (snd (discard (run_parse_job_task e wc now p w))) = w_queue w"
    "w_queue (snd (discard (run_report_job_task e wc now p w))) = w_queue w"
    "w_queue (snd (discard (run_report_retention_cleanup_task e wc now p w))) = w_queue w"
    by (simp_all add: discard_queue run_parse_job_task_def run_report_job_task_def run_parse_queue run_report_queue
        run_report_retention_cleanup_task_def cleanup_queue split: sum.splits option.splits)
  ultimately show ?thesis
    using assms unfolding task_handlers_def collection_task_def by (auto split: if_splits)
qed

definition drain_measure :: "'s world \<Rightarrow> nat \<times> nat" where
  "drain_measure w = (length (filter (\<lambda>q. fst q = collection_task) (w_queue w)), length (w_queue w))"

lemma parse_not_collection: "parse_task_name \<noteq> collection_task"
  by (simp add: parse_task_name_def collection_task_def)

lemma queues_parse_collections:
  "queues_parse w w' \<Longrightarrow> filter (\<lambda>q. fst q = collection_task) (w_queue w') = filter (\<lambda>q. fst q = collection_task) (w_queue w)"
  using parse_not_collection by (auto simp: queues_parse_def list_all_iff filter_empty_conv)



declare slug_loop.simps [code]

text \<open>A first request: the control plane creates a tenant.\<close>

definition demo_context :: "unit worker_context" where
  "demo_context = \<lparr>wc_storage = ap_storage demo_app, wc_parser = (\<lambda>files dbg. Inr []),
     wc_executor = (\<lambda>p ms i. Inr []), wc_pypdf = None\<rparr>"

definition demo_start :: "unit world" where
  "demo_start = \<lparr>w_db = empty_db, w_queue = [], w_store = (), w_ctr = 0\<rparr>"

text \<open>A control-plane request has no tenant: nothing is audited around the route.\<close>

lemma serve_control_route:
  assumes "request_id_of (ap_env ap) hr (sv_world sv) = (rid, w0)"
    and "middleware_tenant (ap_env ap) (ap_cfg ap) now (hr_path hr) (hr_api_key hr) (hr_authorization hr) (w_db w0) = Inr None"
    and "handle_control ap now (hr_actor hr) (hr_control_key hr) req w0 = Some (r, w)"
  shows "\<exists>sv'. serve ap now hr (ControlRoute req) sv = Some (r, sv') \<and> sv_world sv' = w"
  unfolding serve_def serve_route_def using assms by (simp del: handle_control.simps)

lemma no_credentials_no_tenant: "middleware_tenant e cfg now p None None d = Inr None"
  by (simp add: middleware_tenant_def resolve_runtime_tenant_id_def api_key_tenant_def bearer_tenant_def
      extract_bearer_token_def truthy_str_def)

definition demo_control_http :: http_request where
  "demo_control_http = demo_http\<lparr>hr_api_key := None, hr_control_key := Some ''key''\<rparr>"

lemma demo_control_fields:
  "hr_api_key demo_control_http = None" "hr_authorization demo_control_http = None"
  "hr_control_key demo_control_http = Some ''key''" "hr_actor demo_control_http = None"
  "hr_request_id demo_control_http = None"
  by (simp_all add: demo_control_http_def demo_http_def)

lemma demo_app_fields: "ap_env demo_app = toy_env" "ap_control_key demo_app = Some ''key''"
  by (simp_all add: demo_app_def)

lemma reachable_sound_witness:
  "\<exists>w :: unit world. length (api_keys (w_db w)) = 1 \<and> db_ok (w_db w) \<and> links_ok (w_db w)"
proof -
  let ?sv = "\<lparr>sv_world = demo_start, sv_metrics = empty_registry\<rparr>"
  have "(case bootstrap_tenant toy_env 5 ''Acme'' None (draw 1 demo_start) of
      None \<Rightarrow> False | Some (x, w) \<Rightarrow> length (api_keys (w_db w)) = 1)" by code_simp
  then obtain x w where boot: "bootstrap_tenant toy_env 5 ''Acme'' None (draw 1 demo_start) = Some (x, w)"
    and one: "length (api_keys (w_db w)) = 1"
    by (auto split: option.splits)
  have name: "py_strip ''Acme'' = ''Acme''" by code_simp
  have key: "require_control_plane_access (Some ''key'') (Some ''key'') = Inr ()" by code_simp
  have rid: "request_id_of (ap_env demo_app) demo_control_http (sv_world ?sv) = (uuid4 toy_env (w_ctr demo_start), draw 1 demo_start)"
    by (simp only: request_id_of_def demo_app_fields demo_control_fields truthy_str_def server.simps simp_thms if_False)
  have "\<exists>r. handle_control demo_app 5 (hr_actor demo_control_http) (hr_control_key demo_control_http)
      (CreateTenant ''Acme'') (draw 1 demo_start) = Some (r, w)"
    unfolding handle_control.simps demo_app_fields demo_control_fields key api_create_tenant_def name boot answer_def
    by (cases x) (simp_all only: name boot answer_def sum.case control_request.case list.distinct if_False option.map prod.case split_beta
        fst_conv snd_conv prod.inject option.inject simp_thms ex_simps)
  then obtain r where ctl: "handle_control demo_app 5 (hr_actor demo_control_http) (hr_control_key demo_control_http)
      (CreateTenant ''Acme'') (draw 1 demo_start) = Some (r, w)" ..
  obtain sv' where sv': "serve demo_app 5 demo_control_http (ControlRoute (CreateTenant ''Acme'')) ?sv = Some (r, sv')"
    "sv_world sv' = w"
    using serve_control_route [OF rid _ ctl] no_credentials_no_tenant unfolding demo_control_fields by blast
  have "reachable demo_app demo_context demo_start"
    by (rule reachable.start) (simp add: demo_start_def)
  then have "reachable demo_app demo_context (sv_world sv')"
    by (rule reachable.step) (rule system_step.serve_request [OF sv'(1)])
  from reachable_sound [OF this] one sv'(2) show ?thesis by blast
qed

end
