(* ===== verification/Month_Files.thy ===== *)
theory Month_Files
  imports Storage
begin

text \<open>
  The files of a month: \<open>usecases/duplicate_policy.py\<close> and the file operations of
  \<open>cli/monthly_invoices.py\<close>, which finds the PDFs under a directory, moves duplicates aside
  in a provider's directory and copies the rest into the month's folder without overwriting
  anything. The file system is the one of the local storage backend; the order of its files
  stands for the order a directory is listed in. What may fail for reasons outside the model
  (permissions) is a record of predicates.
\<close>

subsection \<open>Paths and directories\<close>

definition skip_dirs :: "pystr list" where
  "skip_dirs = [''_tmp'', ''quarantine'', ''duplicates'']"

definition fs_exists :: "local_fs \<Rightarrow> path \<Rightarrow> bool" where
  "fs_exists fs p \<longleftrightarrow> is_file fs p \<or> is_dir fs p"

text \<open>\<open>d.mkdir(parents=True, exist_ok=True)\<close>\<close>

definition make_dir :: "path \<Rightarrow> local_fs \<Rightarrow> unit res \<times> local_fs" where
  "make_dir d fs =
     (if list_ex (is_file fs) (proper_prefixes (d @ [[]]))
      then (Inl (os_error ''[Errno 17] File exists'' d), fs)
      else (Inr (), mkdir_parents (d @ [[]]) fs))"

text \<open>\<open>Path(name).stem\<close>\<close>

definition path_stem :: "pystr \<Rightarrow> pystr" where
  "path_stem name = take (length name - length (path_suffix name)) name"

definition pdf_name :: "pystr \<Rightarrow> bool" where
  "pdf_name name \<longleftrightarrow> take 4 (rev name) = rev ''.pdf''"

text \<open>\<open>iter_invoice_pdfs\<close>: \<open>root.rglob("*.pdf")\<close> without what lies under a skipped directory.\<close>

definition iter_invoice_pdfs :: "path \<Rightarrow> local_fs \<Rightarrow> path list" where
  "iter_invoice_pdfs root_dir fs =
     (if fs_exists fs root_dir
      then filter (\<lambda>p. take (length root_dir) p = root_dir \<and> length root_dir < length p \<and> pdf_name (last p) \<and>
                       \<not> list_ex (\<lambda>part. part \<in> set skip_dirs) p \<and> is_file fs p)
             (map fst (fs_files fs))
      else [])"

record os_access =
  readable :: "path \<Rightarrow> bool"
  movable :: "path \<Rightarrow> bool"

text \<open>\<open>hash_file\<close> reads the file in chunks and hashes them one after the other.\<close>

fun read_chunks :: "nat \<Rightarrow> bytes \<Rightarrow> bytes list" where
  "read_chunks n data = (if data = [] \<or> n = 0 then [] else take n data # read_chunks n (drop n data))"

declare read_chunks.simps [simp del]

definition hash_file :: "env \<Rightarrow> os_access \<Rightarrow> nat \<Rightarrow> path \<Rightarrow> local_fs \<Rightarrow> pystr option" where
  "hash_file e os chunk_size p fs =
     (if readable os p
      then map_option (\<lambda>data. hexdigest (sha256 e (concat (read_chunks chunk_size data)))) (map_of (fs_files fs) p)
      else None)"

definition default_chunk_size :: nat where "default_chunk_size = 2 ^ 20"

definition file_hash :: "env \<Rightarrow> os_access \<Rightarrow> path \<Rightarrow> local_fs \<Rightarrow> pystr option" where
  "file_hash e os p fs = hash_file e os default_chunk_size p fs"

text \<open>\<open>stem_key\<close>: the stem without the number \<open>ensure_unique\<close> may have added.\<close>

definition newline_c :: char where "newline_c = CHR 0x0A"

definition stem_key :: "pystr \<Rightarrow> pystr" where
  "stem_key name =
     (let stem = path_stem name;
          t = (if stem \<noteq> [] \<and> last stem = newline_c then butlast stem else stem);
          digits = takeWhile is_digit (rev t);
          before = take (length t - length digits) t;
          k = length before - 2
      in if digits \<noteq> [] \<and> 2 \<le> length before \<and> drop k before = ''__'' \<and> newline_c \<notin> set (take k before)
         then take k before else stem)"


subsection \<open>Free names\<close>

definition numbered :: "path \<Rightarrow> pystr \<Rightarrow> pystr \<Rightarrow> nat \<Rightarrow> path" where
  "numbered dest stem suffix k = dest @ [stem @ ''__'' @ py_str_nat k @ suffix]"

lemma numbered_inj: "numbered dest stem suffix j = numbered dest stem suffix k \<Longrightarrow> j = k"
  by (auto simp: numbered_def dest: py_str_nat_inj)

lemma finite_exists: "finite {p. fs_exists fs p}"
proof -
  have "{p. fs_exists fs p} \<subseteq> fst ` set (fs_files fs) \<union> set (fs_dirs fs)"
    by (auto simp: fs_exists_def is_file_def is_dir_def) (metis fst_conv imageI map_of_SomeD)
  then show ?thesis by (rule finite_subset) simp
qed

lemma finite_taken: "finite {k. n \<le> k \<and> fs_exists fs (numbered dest stem suffix k)}"
proof -
  have "inj_on (numbered dest stem suffix) {k. n \<le> k \<and> fs_exists fs (numbered dest stem suffix k)}"
    by (auto intro: inj_onI dest: numbered_inj)
  moreover have "numbered dest stem suffix ` {k. n \<le> k \<and> fs_exists fs (numbered dest stem suffix k)} \<subseteq> {p. fs_exists fs p}"
    by auto
  ultimately show ?thesis using finite_exists by (meson finite_imageD finite_subset)
qed

text \<open>The counting loop of \<open>ensure_unique\<close>; it ends because only finitely many names are taken.\<close>

function free_from :: "local_fs \<Rightarrow> path \<Rightarrow> pystr \<Rightarrow> pystr \<Rightarrow> nat \<Rightarrow> path" where
  "free_from fs dest stem suffix counter =
     (let candidate = numbered dest stem suffix counter in
      if fs_exists fs candidate then free_from fs dest stem suffix (counter + 1) else candidate)"
  by pat_completeness auto

termination
proof (relation "measure (\<lambda>(fs, dest, stem, suffix, n). card {k. n \<le> k \<and> fs_exists fs (numbered dest stem suffix k)})")
  fix fs :: local_fs and dest stem suffix counter x
  assume x: "x = numbered dest stem suffix counter" and taken: "fs_exists fs x"
  let ?S = "\<lambda>n. {k. n \<le> k \<and> fs_exists fs (numbered dest stem suffix k)}"
  have "counter \<in> ?S counter - ?S (counter + 1)" using x taken by simp
  then have "?S (counter + 1) \<subset> ?S counter" by fastforce
  then have "card (?S (counter + 1)) < card (?S counter)"
    by (rule psubset_card_mono [OF finite_taken])
  then show "((fs, dest, stem, suffix, counter + 1), (fs, dest, stem, suffix, counter)) \<in>
      measure (\<lambda>(fs, dest, stem, suffix, n). card {k. n \<le> k \<and> fs_exists fs (numbered dest stem suffix k)})"
    by simp
qed simp

declare free_from.simps [simp del]

lemma free_from_free: "\<not> fs_exists fs (free_from fs dest stem suffix k) \<and>
    (\<exists>j. free_from fs dest stem suffix k = numbered dest stem suffix j)"
proof (induction fs dest stem suffix k rule: free_from.induct)
  case (1 fs dest stem suffix k)
  show ?case
  proof (cases "fs_exists fs (numbered dest stem suffix k)")
    case True
    with 1 [OF refl True] show ?thesis by (simp add: free_from.simps [of fs dest stem suffix k])
  next
    case False
    then show ?thesis by (auto simp: free_from.simps [of fs dest stem suffix k])
  qed
qed

text \<open>The name a PDF gets is never that of the summary: it ends in \<open>f\<close> or a digit.\<close>

definition copy_name :: "pystr \<Rightarrow> bool" where
  "copy_name c \<longleftrightarrow> c \<noteq> [] \<and> (last c = CHR ''f'' \<or> is_digit (last c))"

lemma last_py_split: "last (py_split c s) = after_last c s \<and> (c \<notin> set s \<longrightarrow> py_split c s = [s]) \<and> (c \<in> set s \<longrightarrow> 1 < length (py_split c s))"
proof (induction s)
  case (Cons x s)
  have ne: "py_split c s \<noteq> []" by (cases s) (auto split: list.splits)
  have after: "after_last c (x # s) = (if c \<in> set s then after_last c s else if x = c then s else x # s)"
    by (auto simp: after_last_def takeWhile_append)
  show ?case
  proof (cases "c \<in> set s")
    case True
    with Cons ne after show ?thesis by (auto split: list.splits)
  next
    case False
    then have "takeWhile (\<lambda>x. x \<noteq> c) (rev s) = rev s" by (auto simp: takeWhile_eq_all_conv)
    then have "after_last c s = s" by (simp only: after_last_def rev_rev_ident)
    with Cons False after show ?thesis by auto
  qed
qed (simp add: after_last_def)

lemma pdf_name_suffix:
  assumes "pdf_name name"
  shows "path_suffix name = [] \<or> path_suffix name = ''.pdf''"
proof -
  obtain u where u: "name = u @ ''.pdf''"
    using assms unfolding pdf_name_def
    by (metis append_take_drop_id rev_append rev_rev_ident)
  have parts: "last (py_split (CHR ''/'') name) = after_last (CHR ''/'') u @ ''.pdf''"
    using last_py_split [of "CHR ''/''" name] by (simp add: u after_last_def takeWhile_append)
  have ne: "py_split (CHR ''/'') name \<noteq> []" by (cases name) (auto split: list.splits)
  then obtain ps where "py_split (CHR ''/'') name = ps @ [after_last (CHR ''/'') u @ ''.pdf'']"
    using parts by (metis append_butlast_last_id)
  then have "path_parts name = filter (\<lambda>p. p \<noteq> [] \<and> p \<noteq> ''.'') ps @ [after_last (CHR ''/'') u @ ''.pdf'']"
    by (auto simp: path_parts_def append_eq_Cons_conv)
  then have "path_name name = after_last (CHR ''/'') u @ ''.pdf''" by (simp add: path_name_def Let_def)
  moreover have "after_last (CHR ''.'') (w @ ''.pdf'') = ''pdf''" for w by (simp add: after_last_def)
  ultimately show ?thesis by (simp add: path_suffix_def Let_def)
qed

lemma numbered_copy_name: "pdf_name name \<Longrightarrow> copy_name (path_stem name @ ''__'' @ py_str_nat k @ path_suffix name)"
proof (cases "path_suffix name = []")
  case True
  have "is_digit (last (py_str_nat k))" using py_str_nat_digits [of k] by simp
  with True show ?thesis by (simp add: copy_name_def)
next
  case False
  moreover assume "pdf_name name"
  ultimately show ?thesis using pdf_name_suffix [of name] by (auto simp: copy_name_def)
qed

lemma pdf_copy_name: "pdf_name name \<Longrightarrow> copy_name name"
  by (cases name rule: rev_cases) (auto simp: pdf_name_def copy_name_def)

definition ensure_unique :: "path \<Rightarrow> pystr \<Rightarrow> local_fs \<Rightarrow> path res \<times> local_fs" where
  "ensure_unique dest name fs =
     (case make_dir dest fs of
        (Inl err, fs) \<Rightarrow> (Inl err, fs)
      | (Inr _, fs) \<Rightarrow>
          (Inr (if fs_exists fs (dest @ [name])
                then free_from fs dest (path_stem name) (path_suffix name) 2 else dest @ [name]), fs))"

text \<open>\<open>shutil.copy2\<close> and \<open>shutil.move\<close> to a free path.\<close>

definition write_file :: "path \<Rightarrow> bytes \<Rightarrow> local_fs \<Rightarrow> local_fs" where
  "write_file p data fs = fs\<lparr>fs_files := dict_set p data (fs_files fs)\<rparr>"

definition move_file :: "path \<Rightarrow> path \<Rightarrow> bytes \<Rightarrow> local_fs \<Rightarrow> local_fs" where
  "move_file src dest data fs = fs\<lparr>fs_files := dict_set dest data (dict_pop src (fs_files fs))\<rparr>"


subsection \<open>Duplicates\<close>

definition duplicate_by_hash :: "pystr \<Rightarrow> pystr list \<Rightarrow> bool" where
  "duplicate_by_hash digest known_hashes \<longleftrightarrow> digest \<in> set known_hashes"

definition duplicate_of_hash :: "pystr \<Rightarrow> (pystr \<times> 'p) list \<Rightarrow> 'p option" where
  "duplicate_of_hash digest hash_to_path = map_of hash_to_path digest"

definition remember_hash ::
  "pystr \<Rightarrow> 'p \<Rightarrow> pystr list \<times> (pystr \<times> 'p) list \<Rightarrow> pystr list \<times> (pystr \<times> 'p) list" where
  "remember_hash digest p known =
     (case known of (hashes, paths) \<Rightarrow> (List.insert digest hashes, dict_set digest p paths))"

definition duplicate_by_text_fingerprint :: "pystr option \<Rightarrow> pystr list \<Rightarrow> bool" where
  "duplicate_by_text_fingerprint fingerprint seen \<longleftrightarrow>
     (case fingerprint of None \<Rightarrow> False | Some f \<Rightarrow> f \<noteq> [] \<and> f \<in> set seen)"

definition duplicate_of_text :: "pystr option \<Rightarrow> (pystr \<times> 'p) list \<Rightarrow> 'p option" where
  "duplicate_of_text fingerprint paths =
     (case fingerprint of None \<Rightarrow> None | Some f \<Rightarrow> if f = [] then None else map_of paths f)"

definition remember_text_fingerprint ::
  "pystr option \<Rightarrow> 'p \<Rightarrow> pystr list \<times> (pystr \<times> 'p) list \<Rightarrow> pystr list \<times> (pystr \<times> 'p) list" where
  "remember_text_fingerprint fingerprint p known =
     (case fingerprint of
        None \<Rightarrow> known
      | Some f \<Rightarrow>
          if f = [] then known
          else (case known of (seen, paths) \<Rightarrow> (List.insert f seen, dict_set f p paths)))"

definition duplicate_by_stem :: "'s \<Rightarrow> 's list \<Rightarrow> bool" where
  "duplicate_by_stem stem seen_stems \<longleftrightarrow> stem \<in> set seen_stems"

definition remember_stem :: "'s \<Rightarrow> 's list \<Rightarrow> 's list" where
  "remember_stem stem seen_stems = List.insert stem seen_stems"


subsection \<open>The month's folder\<close>

record consolidation =
  cs_copied :: int
  cs_duplicates :: int
  cs_sources :: int
  cs_existing :: int

record copy_state =
  cp_stats :: consolidation
  cp_seen :: "pystr list"
  cp_fs :: local_fs

definition preload_hashes :: "env \<Rightarrow> os_access \<Rightarrow> path \<Rightarrow> local_fs \<Rightarrow> (pystr \<times> path) list" where
  "preload_hashes e os dest fs =
     foldl (\<lambda>hashes p. case file_hash e os p fs of
                          None \<Rightarrow> hashes | Some digest \<Rightarrow> dict_set digest p hashes)
       [] (iter_invoice_pdfs dest fs)"

definition copy_pdf :: "env \<Rightarrow> os_access \<Rightarrow> path \<Rightarrow> path \<Rightarrow> copy_state \<Rightarrow> unit res \<times> copy_state" where
  "copy_pdf e os dest pdf st =
     (case (file_hash e os pdf (cp_fs st), map_of (fs_files (cp_fs st)) pdf) of
        (Some digest, Some data) \<Rightarrow>
          if duplicate_by_hash digest (cp_seen st)
          then (Inr (), st\<lparr>cp_stats := (cp_stats st)\<lparr>cs_duplicates := cs_duplicates (cp_stats st) + 1\<rparr>\<rparr>)
          else (case ensure_unique dest (last pdf) (cp_fs st) of
                  (Inl err, fs) \<Rightarrow> (Inl err, st\<lparr>cp_fs := fs\<rparr>)
                | (Inr p, fs) \<Rightarrow>
                    (Inr (), \<lparr>cp_stats = (cp_stats st)\<lparr>cs_copied := cs_copied (cp_stats st) + 1\<rparr>,
                              cp_seen = List.insert digest (cp_seen st), cp_fs = write_file p data fs\<rparr>))
      | _ \<Rightarrow> (Inr (), st))"

fun copy_pdfs :: "env \<Rightarrow> os_access \<Rightarrow> path \<Rightarrow> path list \<Rightarrow> copy_state \<Rightarrow> unit res \<times> copy_state" where
  "copy_pdfs e os dest [] st = (Inr (), st)"
| "copy_pdfs e os dest (pdf # pdfs) st =
     (case copy_pdf e os dest pdf st of
        (Inl err, st) \<Rightarrow> (Inl err, st)
      | (Inr _, st) \<Rightarrow> copy_pdfs e os dest pdfs st)"

fun copy_sources :: "env \<Rightarrow> os_access \<Rightarrow> path \<Rightarrow> path list \<Rightarrow> copy_state \<Rightarrow> unit res \<times> copy_state" where
  "copy_sources e os dest [] st = (Inr (), st)"
| "copy_sources e os dest (src # srcs) st =
     (if \<not> fs_exists (cp_fs st) src then copy_sources e os dest srcs st
      else (case copy_pdfs e os dest (iter_invoice_pdfs src (cp_fs st))
                   (st\<lparr>cp_stats := (cp_stats st)\<lparr>cs_sources := cs_sources (cp_stats st) + 1\<rparr>\<rparr>) of
              (Inl err, st) \<Rightarrow> (Inl err, st)
            | (Inr _, st) \<Rightarrow> copy_sources e os dest srcs st))"

definition consolidate_pdfs ::
  "env \<Rightarrow> os_access \<Rightarrow> path \<Rightarrow> path list \<Rightarrow> local_fs \<Rightarrow> consolidation res \<times> local_fs" where
  "consolidate_pdfs e os dest sources fs =
     (let stats = \<lparr>cs_copied = 0, cs_duplicates = 0, cs_sources = 0, cs_existing = 0\<rparr> in
      if sources = [] then (Inr stats, fs)
      else (case make_dir dest fs of
              (Inl err, fs) \<Rightarrow> (Inl err, fs)
            | (Inr _, fs) \<Rightarrow>
                let seen = map fst (preload_hashes e os dest fs) in
                (case copy_sources e os dest sources
                        \<lparr>cp_stats = stats\<lparr>cs_existing := int (length seen)\<rparr>, cp_seen = seen, cp_fs = fs\<rparr> of
                   (Inl err, st) \<Rightarrow> (Inl err, cp_fs st)
                 | (Inr _, st) \<Rightarrow> (Inr (cp_stats st), cp_fs st))))"


subsection \<open>Duplicates within a provider's directory\<close>

record dedupe_stats =
  dd_scanned :: int
  dd_kept :: int
  dd_removed :: int
  dd_moved :: int
  dd_errors :: int

record dedupe_state =
  de_stats :: dedupe_stats
  de_hashes :: "pystr list"
  de_stems :: "pystr list"
  de_texts :: "pystr list"
  de_fs :: local_fs

text \<open>One PDF; \<open>fingerprint\<close> is \<open>text_fingerprint\<close> of its bytes.\<close>

definition dedupe_pdf ::
  "env \<Rightarrow> os_access \<Rightarrow> (bytes \<Rightarrow> pystr option) \<Rightarrow> path \<Rightarrow> path \<Rightarrow> dedupe_state \<Rightarrow> unit res \<times> dedupe_state" where
  "dedupe_pdf e os fingerprint target pdf st =
     (let st = st\<lparr>de_stats := (de_stats st)\<lparr>dd_scanned := dd_scanned (de_stats st) + 1\<rparr>\<rparr>;
          duplicates_dir = target @ [''duplicates''] in
      case (file_hash e os pdf (de_fs st), map_of (fs_files (de_fs st)) pdf) of
        (Some digest, Some data) \<Rightarrow>
          let stem = stem_key (last pdf); tfp = fingerprint data in
          if \<not> (duplicate_by_hash digest (de_hashes st) \<or> duplicate_by_stem stem (de_stems st) \<or>
                duplicate_by_text_fingerprint tfp (de_texts st))
          then (Inr (), st\<lparr>de_stats := (de_stats st)\<lparr>dd_kept := dd_kept (de_stats st) + 1\<rparr>,
                         de_hashes := List.insert digest (de_hashes st),
                         de_stems := remember_stem stem (de_stems st),
                         de_texts := (case tfp of None \<Rightarrow> de_texts st
                                      | Some f \<Rightarrow> if f = [] then de_texts st else List.insert f (de_texts st))\<rparr>)
          else (case make_dir duplicates_dir (de_fs st) of
                  (Inl err, fs) \<Rightarrow> (Inl err, st\<lparr>de_fs := fs\<rparr>)
                | (Inr _, fs) \<Rightarrow>
                    (case ensure_unique duplicates_dir (last pdf) fs of
                       (Inl err, fs) \<Rightarrow> (Inl err, st\<lparr>de_fs := fs\<rparr>)
                     | (Inr dest, fs) \<Rightarrow>
                         if movable os pdf
                         then (Inr (), st\<lparr>de_stats := (de_stats st)\<lparr>dd_moved := dd_moved (de_stats st) + 1\<rparr>,
                                        de_fs := move_file pdf dest data fs\<rparr>)
                         else (Inr (), st\<lparr>de_stats := (de_stats st)\<lparr>dd_errors := dd_errors (de_stats st) + 1\<rparr>,
                                        de_fs := fs\<rparr>)))
      | _ \<Rightarrow> (Inr (), st\<lparr>de_stats := (de_stats st)\<lparr>dd_errors := dd_errors (de_stats st) + 1\<rparr>\<rparr>))"

fun dedupe_pdfs ::
  "env \<Rightarrow> os_access \<Rightarrow> (bytes \<Rightarrow> pystr option) \<Rightarrow> path \<Rightarrow> path list \<Rightarrow> dedupe_state \<Rightarrow> unit res \<times> dedupe_state" where
  "dedupe_pdfs e os fingerprint target [] st = (Inr (), st)"
| "dedupe_pdfs e os fingerprint target (pdf # pdfs) st =
     (case dedupe_pdf e os fingerprint target pdf st of
        (Inl err, st) \<Rightarrow> (Inl err, st)
      | (Inr _, st) \<Rightarrow> dedupe_pdfs e os fingerprint target pdfs st)"

definition dedupe_provider_dir ::
  "env \<Rightarrow> os_access \<Rightarrow> (bytes \<Rightarrow> pystr option) \<Rightarrow> path \<Rightarrow> local_fs \<Rightarrow> dedupe_stats res \<times> local_fs" where
  "dedupe_provider_dir e os fingerprint target fs =
     (let stats = \<lparr>dd_scanned = 0, dd_kept = 0, dd_removed = 0, dd_moved = 0, dd_errors = 0\<rparr> in
      if \<not> fs_exists fs target then (Inr stats, fs)
      else (case dedupe_pdfs e os fingerprint target (iter_invoice_pdfs target fs)
                   \<lparr>de_stats = stats, de_hashes = [], de_stems = [], de_texts = [], de_fs = fs\<rparr> of
              (Inl err, st) \<Rightarrow> (Inl err, de_fs st)
            | (Inr _, st) \<Rightarrow>
                (Inr ((de_stats st)\<lparr>dd_removed := dd_moved (de_stats st)\<rparr>), de_fs st)))"


subsection \<open>A file system's order\<close>

text \<open>Paths are unique, no path is a file and a directory, and parents are directories.\<close>

definition fs_ok :: "local_fs \<Rightarrow> bool" where
  "fs_ok fs \<longleftrightarrow> distinct (map fst (fs_files fs)) \<and> list_all (\<lambda>f. \<not> is_dir fs (fst f)) (fs_files fs) \<and>
     list_all (\<lambda>p. list_all (is_dir fs) (proper_prefixes p)) (map fst (fs_files fs) @ fs_dirs fs)"

lemma proper_prefix_iff: "q \<in> set (proper_prefixes p) \<longleftrightarrow> (\<exists>r. r \<noteq> [] \<and> p = q @ r)"
proof
  assume "q \<in> set (proper_prefixes p)"
  then obtain n where "n < length p" "q = take n p" by (auto simp: proper_prefixes_def)
  then show "\<exists>r. r \<noteq> [] \<and> p = q @ r" by (intro exI [of _ "drop n p"]) simp
next
  assume "\<exists>r. r \<noteq> [] \<and> p = q @ r"
  then obtain r where "r \<noteq> []" "p = q @ r" by blast
  then show "q \<in> set (proper_prefixes p)"
    by (auto simp: proper_prefixes_def image_iff intro!: bexI [of _ "length q"])
qed

lemma proper_prefixes_snoc: "set (proper_prefixes (d @ [c])) = insert d (set (proper_prefixes d))"
  by (simp add: proper_prefixes_def image_Un Un_commute)

lemma proper_prefixes_trans: "q \<in> set (proper_prefixes p) \<Longrightarrow> set (proper_prefixes q) \<subseteq> set (proper_prefixes p)"
  by (auto simp: proper_prefix_iff)

lemma read_chunks_concat: "0 < n \<Longrightarrow> concat (read_chunks n data) = data"
  by (induction n data rule: read_chunks.induct) (simp, subst read_chunks.simps, simp)

text \<open>
  Hashing a file chunk by chunk gives the hash of the whole file, for every chunk size.
\<close>

theorem hash_file_whole:
  assumes "0 < n" and "readable os p" and "map_of (fs_files fs) p = Some data"
  shows "hash_file e os n p fs = Some (hexdigest (sha256 e data))"
  using assms by (simp add: hash_file_def read_chunks_concat)

definition file_digest :: "env \<Rightarrow> bytes \<Rightarrow> pystr" where
  "file_digest e data = hexdigest (sha256 e data)"

lemma file_hash_eq [code]:
  "file_hash e os p fs =
     (if readable os p then map_option (file_digest e) (map_of (fs_files fs) p) else None)"
  by (simp add: file_hash_def hash_file_def read_chunks_concat default_chunk_size_def file_digest_def [abs_def])

lemma make_dir_ok:
  assumes "make_dir d fs = (Inr u, fs')" and "fs_ok fs"
  shows "fs_ok fs' \<and> fs_files fs' = fs_files fs \<and> is_dir fs' d \<and> set (fs_dirs fs) \<subseteq> set (fs_dirs fs')"
proof -
  let ?new = "proper_prefixes (d @ [[]])"
  have none: "\<not> list_ex (is_file fs) ?new" and fs': "fs' = mkdir_parents (d @ [[]]) fs"
    using assms(1) by (simp_all add: make_dir_def split: if_splits)
  have dirs: "is_dir fs' q \<longleftrightarrow> is_dir fs q \<or> q \<in> set ?new" for q
    by (auto simp: fs' mkdir_parents_def is_dir_def)
  have files: "fs_files fs' = fs_files fs" by (simp add: fs' mkdir_parents_def)
  have "p \<notin> set ?new" if "p \<in> fst ` set (fs_files fs)" for p
    using that none by (auto simp: list_ex_iff is_file_def map_of_eq_None_iff)
  moreover have "set (proper_prefixes q) \<subseteq> set ?new" if "q \<in> set ?new" for q
    using that by (rule proper_prefixes_trans)
  ultimately have "fs_ok fs'"
    using assms(2) dirs files
    by (auto simp: fs_ok_def list_all_iff fs' mkdir_parents_def is_dir_def)
  moreover have "is_dir fs' d" unfolding dirs proper_prefixes_snoc by simp
  ultimately show ?thesis using files by (simp add: fs' mkdir_parents_def)
qed

lemma ensure_unique_free:
  assumes "ensure_unique d name fs = (Inr p, fs')" and "fs_ok fs"
  shows "fs_ok fs' \<and> fs_files fs' = fs_files fs \<and> \<not> fs_exists fs' p \<and> (\<exists>c. p = d @ [c] \<and> (pdf_name name \<longrightarrow> copy_name c)) \<and>
    is_dir fs' d \<and> set (fs_dirs fs) \<subseteq> set (fs_dirs fs')"
proof -
  obtain u where mk: "make_dir d fs = (Inr u, fs')"
    using assms(1) by (auto simp: ensure_unique_def split: prod.splits sum.splits)
  with assms show ?thesis
    using make_dir_ok [OF mk assms(2)] free_from_free [of fs' d "path_stem name" "path_suffix name" 2]
    by (auto simp: ensure_unique_def numbered_def numbered_copy_name [simplified] pdf_copy_name split: if_splits)
qed

lemma write_free:
  assumes "fs_ok fs" and "\<not> fs_exists fs p" and "p = d @ [c]" and "is_dir fs d"
  shows "fs_ok (write_file p data fs)" "fs_files (write_file p data fs) = fs_files fs @ [(p, data)]"
    "fs_dirs (write_file p data fs) = fs_dirs fs"
proof -
  have new: "p \<notin> fst ` set (fs_files fs)" "\<not> is_dir fs p"
    using assms(2) by (auto simp: fs_exists_def is_file_def map_of_eq_None_iff)
  then show files: "fs_files (write_file p data fs) = fs_files fs @ [(p, data)]"
    by (simp add: write_file_def dict_set_snoc)
  show "fs_ok (write_file p data fs)"
    using assms(1,4) new dict_set_snoc [OF new(1), of data] unfolding assms(3)
    by (auto simp: fs_ok_def is_dir_def write_file_def list_all_iff proper_prefixes_snoc)
qed (simp add: write_file_def)


subsection \<open>Copying into the month's folder\<close>

text \<open>What one step and the whole loop do to the state.\<close>

definition copied :: "env \<Rightarrow> path \<Rightarrow> copy_state \<Rightarrow> copy_state \<Rightarrow> bool" where
  "copied e dest st st' \<longleftrightarrow>
     (fs_ok (cp_fs st) \<longrightarrow>
        fs_ok (cp_fs st') \<and> set (fs_dirs (cp_fs st)) \<subseteq> set (fs_dirs (cp_fs st')) \<and>
        (\<exists>new. fs_files (cp_fs st') = fs_files (cp_fs st) @ new \<and>
               list_all (\<lambda>f. \<exists>c. fst f = dest @ [c] \<and> copy_name c) new \<and>
               cs_copied (cp_stats st') = cs_copied (cp_stats st) + int (length new) \<and>
               distinct (map (file_digest e \<circ> snd) new) \<and>
               set (map (file_digest e \<circ> snd) new) \<inter> set (cp_seen st) = {} \<and>
               set (cp_seen st') = set (cp_seen st) \<union> set (map (file_digest e \<circ> snd) new)))"

lemma copied_refl: "cs_copied (cp_stats st') = cs_copied (cp_stats st) \<Longrightarrow> cp_fs st' = cp_fs st \<Longrightarrow>
    set (cp_seen st') = set (cp_seen st) \<Longrightarrow> copied e dest st st'"
  by (simp add: copied_def)

lemma copied_trans:
  assumes "copied e dest st1 st2" and "copied e dest st2 st3"
  shows "copied e dest st1 st3"
  unfolding copied_def
proof (intro impI conjI)
  assume ok1: "fs_ok (cp_fs st1)"
  with assms(1) obtain n1 where 1: "fs_ok (cp_fs st2)" "set (fs_dirs (cp_fs st1)) \<subseteq> set (fs_dirs (cp_fs st2))" "fs_files (cp_fs st2) = fs_files (cp_fs st1) @ n1"
      "list_all (\<lambda>f. \<exists>c. fst f = dest @ [c] \<and> copy_name c) n1"
      "cs_copied (cp_stats st2) = cs_copied (cp_stats st1) + int (length n1)"
      "distinct (map (file_digest e \<circ> snd) n1)" "set (map (file_digest e \<circ> snd) n1) \<inter> set (cp_seen st1) = {}"
      "set (cp_seen st2) = set (cp_seen st1) \<union> set (map (file_digest e \<circ> snd) n1)"
    by (auto simp: copied_def)
  with assms(2) obtain n2 where 2: "fs_ok (cp_fs st3)" "set (fs_dirs (cp_fs st2)) \<subseteq> set (fs_dirs (cp_fs st3))" "fs_files (cp_fs st3) = fs_files (cp_fs st2) @ n2"
      "list_all (\<lambda>f. \<exists>c. fst f = dest @ [c] \<and> copy_name c) n2"
      "cs_copied (cp_stats st3) = cs_copied (cp_stats st2) + int (length n2)"
      "distinct (map (file_digest e \<circ> snd) n2)" "set (map (file_digest e \<circ> snd) n2) \<inter> set (cp_seen st2) = {}"
      "set (cp_seen st3) = set (cp_seen st2) \<union> set (map (file_digest e \<circ> snd) n2)"
    by (auto simp: copied_def)
  show "fs_ok (cp_fs st3)" by (fact 2(1))
  show "set (fs_dirs (cp_fs st1)) \<subseteq> set (fs_dirs (cp_fs st3))" using 1(2) 2(2) by blast
  show "\<exists>new. fs_files (cp_fs st3) = fs_files (cp_fs st1) @ new \<and> list_all (\<lambda>f. \<exists>c. fst f = dest @ [c] \<and> copy_name c) new \<and>
      cs_copied (cp_stats st3) = cs_copied (cp_stats st1) + int (length new) \<and>
      distinct (map (file_digest e \<circ> snd) new) \<and> set (map (file_digest e \<circ> snd) new) \<inter> set (cp_seen st1) = {} \<and>
      set (cp_seen st3) = set (cp_seen st1) \<union> set (map (file_digest e \<circ> snd) new)"
    using 1(3-) 2(3-) by (intro exI [of _ "n1 @ n2"]) auto
qed

lemma copy_pdf_copied:
  assumes pdf: "pdf_name (last pdf)"
  shows "copied e dest st (snd (copy_pdf e os dest pdf st))"
proof (cases "file_hash e os pdf (cp_fs st)")
  case None
  then show ?thesis by (simp add: copy_pdf_def copied_refl)
next
  case (Some digest)
  then obtain data where data: "map_of (fs_files (cp_fs st)) pdf = Some data" "digest = file_digest e data"
    by (auto simp: file_hash_eq split: if_splits)
  show ?thesis
  proof (cases "duplicate_by_hash digest (cp_seen st)")
    case True
    with Some data show ?thesis by (simp add: copy_pdf_def copied_refl)
  next
    case new: False
    obtain r fs where eu: "ensure_unique dest (last pdf) (cp_fs st) = (r, fs)" by force
    show ?thesis
    proof (cases r)
      case (Inl err)
      obtain rm where mk: "make_dir dest (cp_fs st) = (rm, fs)"
        using eu Inl by (auto simp: ensure_unique_def split: prod.splits sum.splits)
      then have "fs = cp_fs st"
        using eu Inl by (auto simp: ensure_unique_def make_dir_def split: if_splits)
      with Some data new eu Inl show ?thesis by (simp add: copy_pdf_def copied_refl)
    next
      case (Inr p)
      show ?thesis
        unfolding copied_def
      proof (intro impI)
        assume ok: "fs_ok (cp_fs st)"
        note free = ensure_unique_free [OF eu [unfolded Inr] ok]
        obtain c where c: "p = dest @ [c]" "copy_name c" using free pdf by blast
        have written: "fs_ok (write_file p data fs)" "fs_files (write_file p data fs) = fs_files fs @ [(p, data)]"
          "fs_dirs (write_file p data fs) = fs_dirs fs"
          using write_free [of fs p dest c data] free c by auto
        have step: "snd (copy_pdf e os dest pdf st) =
            \<lparr>cp_stats = (cp_stats st)\<lparr>cs_copied := cs_copied (cp_stats st) + 1\<rparr>,
             cp_seen = List.insert digest (cp_seen st), cp_fs = write_file p data fs\<rparr>"
          using Some data new eu Inr by (simp add: copy_pdf_def)
        show "fs_ok (cp_fs (snd (copy_pdf e os dest pdf st))) \<and>
          set (fs_dirs (cp_fs st)) \<subseteq> set (fs_dirs (cp_fs (snd (copy_pdf e os dest pdf st)))) \<and>
          (\<exists>new. fs_files (cp_fs (snd (copy_pdf e os dest pdf st))) = fs_files (cp_fs st) @ new \<and>
            list_all (\<lambda>f. \<exists>c. fst f = dest @ [c] \<and> copy_name c) new \<and>
            cs_copied (cp_stats (snd (copy_pdf e os dest pdf st))) = cs_copied (cp_stats st) + int (length new) \<and>
            distinct (map (file_digest e \<circ> snd) new) \<and>
            set (map (file_digest e \<circ> snd) new) \<inter> set (cp_seen st) = {} \<and>
            set (cp_seen (snd (copy_pdf e os dest pdf st))) = set (cp_seen st) \<union> set (map (file_digest e \<circ> snd) new))"
          unfolding step using free written c new data(2)
          by (auto simp: duplicate_by_hash_def intro!: exI [of _ "[(p, data)]"])
      qed
    qed
  qed
qed

lemma copy_pdfs_copied: "list_all (\<lambda>p. pdf_name (last p)) pdfs \<Longrightarrow> copied e dest st (snd (copy_pdfs e os dest pdfs st))"
proof (induction pdfs arbitrary: st)
  case (Cons pdf pdfs)
  obtain r st1 where st1: "copy_pdf e os dest pdf st = (r, st1)" by force
  have step: "copied e dest st st1" using copy_pdf_copied [of pdf e dest st os] Cons.prems by (simp add: st1)
  show ?case
    using copied_trans [OF step Cons.IH] step Cons.prems by (cases r) (simp_all add: st1)
qed (simp add: copied_refl)

lemma iter_pdfs_named: "list_all (\<lambda>p. pdf_name (last p)) (iter_invoice_pdfs src fs)"
  by (simp add: iter_invoice_pdfs_def list_all_iff)

lemma copy_sources_copied: "copied e dest st (snd (copy_sources e os dest srcs st))"
proof (induction srcs arbitrary: st)
  case (Cons src srcs)
  show ?case
  proof (cases "fs_exists (cp_fs st) src")
    case True
    let ?st = "st\<lparr>cp_stats := (cp_stats st)\<lparr>cs_sources := cs_sources (cp_stats st) + 1\<rparr>\<rparr>"
    obtain r st1 where st1: "copy_pdfs e os dest (iter_invoice_pdfs src (cp_fs st)) ?st = (r, st1)" by force
    have "copied e dest st ?st" by (simp add: copied_refl)
    then have step: "copied e dest st st1"
      using copy_pdfs_copied [OF iter_pdfs_named, of e dest ?st os src "cp_fs st"] by (simp add: st1 copied_trans)
    show ?thesis
      using copied_trans [OF step Cons.IH] step True by (cases r) (simp_all add: st1)
  qed (simp add: Cons.IH)
qed (simp add: copied_refl)


lemma copiedD:
  assumes "copied e dest st st'" and "fs_ok (cp_fs st)"
  shows "fs_ok (cp_fs st')" "set (cp_seen st) \<subseteq> set (cp_seen st')"
    "\<And>p data. map_of (fs_files (cp_fs st)) p = Some data \<Longrightarrow> map_of (fs_files (cp_fs st')) p = Some data"
    "fs_exists (cp_fs st) q \<Longrightarrow> fs_exists (cp_fs st') q"
proof -
  obtain new where new: "fs_files (cp_fs st') = fs_files (cp_fs st) @ new"
    and dirs: "set (fs_dirs (cp_fs st)) \<subseteq> set (fs_dirs (cp_fs st'))"
    and ok: "fs_ok (cp_fs st')" and seen: "set (cp_seen st) \<subseteq> set (cp_seen st')"
    using assms by (auto simp: copied_def)
  show "fs_ok (cp_fs st')" "set (cp_seen st) \<subseteq> set (cp_seen st')" by (fact ok, fact seen)
  show map: "\<And>p data. map_of (fs_files (cp_fs st)) p = Some data \<Longrightarrow> map_of (fs_files (cp_fs st')) p = Some data"
    by (simp add: new map_add_def)
  show "fs_exists (cp_fs st) q \<Longrightarrow> fs_exists (cp_fs st') q"
    using dirs map by (auto simp: fs_exists_def is_file_def is_dir_def)
qed

lemma iter_pdfs_copied:
  assumes "copied e dest st st'" and "fs_ok (cp_fs st)"
  shows "set (iter_invoice_pdfs src (cp_fs st)) \<subseteq> set (iter_invoice_pdfs src (cp_fs st'))"
proof -
  obtain new where new: "fs_files (cp_fs st') = fs_files (cp_fs st) @ new"
    using assms by (auto simp: copied_def)
  note more = copiedD [OF assms]
  have still: "is_file (cp_fs st) p \<Longrightarrow> is_file (cp_fs st') p" for p
    using more(3) by (auto simp: is_file_def)
  show ?thesis
    using more(4) [of src] still by (auto simp: iter_invoice_pdfs_def new)
qed

lemma hash_file_copied:
  assumes "copied e dest st st'" and "fs_ok (cp_fs st)" and "file_hash e os p (cp_fs st) = Some d"
  shows "file_hash e os p (cp_fs st') = Some d"
  using assms(3) copiedD(3) [OF assms(1,2)] by (auto simp: file_hash_eq split: if_splits)

lemma copy_pdf_seen:
  assumes "copy_pdf e os dest pdf st = (Inr u, st')" and "file_hash e os pdf (cp_fs st) = Some d"
  shows "d \<in> set (cp_seen st')"
proof -
  obtain data where "map_of (fs_files (cp_fs st)) pdf = Some data"
    using assms(2) by (auto simp: file_hash_eq split: if_splits)
  with assms show ?thesis
    by (auto simp: copy_pdf_def duplicate_by_hash_def split: if_splits prod.splits sum.splits)
qed

lemma copy_pdfs_seen:
  assumes "copy_pdfs e os dest pdfs st = (Inr u, st')" and "fs_ok (cp_fs st)"
    and "list_all (\<lambda>p. pdf_name (last p)) pdfs" and "pdf \<in> set pdfs" and "file_hash e os pdf (cp_fs st) = Some d"
  shows "d \<in> set (cp_seen st')"
  using assms
proof (induction pdfs arbitrary: st)
  case (Cons a pdfs)
  obtain u1 st1 where st1: "copy_pdf e os dest a st = (Inr u1, st1)" and rest: "copy_pdfs e os dest pdfs st1 = (Inr u, st')"
    using Cons.prems(1) by (auto split: prod.splits sum.splits)
  have step: "copied e dest st st1" using copy_pdf_copied [of a e dest st os] Cons.prems(3) by (simp add: st1)
  note ok1 = copiedD(1) [OF step Cons.prems(2)]
  have last: "copied e dest st1 st'" using copy_pdfs_copied [of pdfs e dest st1 os] Cons.prems(3) by (simp add: rest)
  show ?case
  proof (cases "pdf = a")
    case True
    with Cons.prems(5) copy_pdf_seen [OF st1] have "d \<in> set (cp_seen st1)" by simp
    then show ?thesis using copiedD(2) [OF last ok1] by blast
  next
    case False
    with Cons.prems(4) have "pdf \<in> set pdfs" by simp
    from Cons.IH [OF rest ok1 _ this hash_file_copied [OF step Cons.prems(2,5)]] Cons.prems(3) show ?thesis by simp
  qed
qed simp

lemma copy_sources_seen:
  assumes "copy_sources e os dest srcs st = (Inr u, st')" and "fs_ok (cp_fs st)" and "src \<in> set srcs"
    and "pdf \<in> set (iter_invoice_pdfs src (cp_fs st))" and "file_hash e os pdf (cp_fs st) = Some d"
  shows "d \<in> set (cp_seen st')"
  using assms
proof (induction srcs arbitrary: st)
  case (Cons a srcs)
  show ?case
  proof (cases "fs_exists (cp_fs st) a")
    case False
    then have "src \<noteq> a" using Cons.prems(4) by (auto simp: iter_invoice_pdfs_def)
    with False Cons show ?thesis by simp
  next
    case True
    let ?st = "st\<lparr>cp_stats := (cp_stats st)\<lparr>cs_sources := cs_sources (cp_stats st) + 1\<rparr>\<rparr>"
    obtain u1 st1 where st1: "copy_pdfs e os dest (iter_invoice_pdfs a (cp_fs st)) ?st = (Inr u1, st1)"
      and rest: "copy_sources e os dest srcs st1 = (Inr u, st')"
      using Cons.prems(1) True by (auto split: prod.splits sum.splits)
    have step: "copied e dest ?st st1"
      using copy_pdfs_copied [OF iter_pdfs_named, of e dest ?st os a "cp_fs st"] by (simp add: st1)
    have ok: "fs_ok (cp_fs ?st)" using Cons.prems(2) by simp
    note ok1 = copiedD(1) [OF step ok]
    have last: "copied e dest st1 st'" using copy_sources_copied [of e dest st1 os srcs] by (simp add: rest)
    show ?thesis
    proof (cases "src = a")
      case True
      have "d \<in> set (cp_seen st1)"
        using copy_pdfs_seen [OF st1 ok iter_pdfs_named, of pdf d] Cons.prems(4,5) True by simp
      then show ?thesis using copiedD(2) [OF last ok1] by blast
    next
      case False
      with Cons.prems(3) have "src \<in> set srcs" by simp
      moreover have "pdf \<in> set (iter_invoice_pdfs src (cp_fs st1))"
        using iter_pdfs_copied [OF step ok, of src] Cons.prems(4) by auto
      moreover have "file_hash e os pdf (cp_fs st1) = Some d"
        using hash_file_copied [OF step ok] Cons.prems(5) by simp
      ultimately show ?thesis using Cons.IH [OF rest ok1] by blast
    qed
  qed
qed simp

lemma set_preload_hashes:
  "set (map fst (preload_hashes e os dest fs)) =
     {d. \<exists>p\<in>set (iter_invoice_pdfs dest fs). file_hash e os p fs = Some d}"
proof -
  let ?f = "\<lambda>hashes p. case file_hash e os p fs of None \<Rightarrow> hashes | Some d \<Rightarrow> dict_set d p hashes"
  have "fst ` set (foldl ?f acc ps) =
      fst ` set acc \<union> {d. \<exists>p\<in>set ps. file_hash e os p fs = Some d}" for acc ps
    by (induction ps arbitrary: acc) (auto simp: keys_dict_set split: option.splits)
  from this [of "[]"] show ?thesis by (simp add: preload_hashes_def)
qed

text \<open>The digests of the readable PDFs under a directory.\<close>

definition pdf_digests :: "env \<Rightarrow> os_access \<Rightarrow> path \<Rightarrow> local_fs \<Rightarrow> pystr list" where
  "pdf_digests e os d fs =
     List.map_filter (\<lambda>p. file_hash e os p fs) (iter_invoice_pdfs d fs)"

lemma set_pdf_digests:
  "set (pdf_digests e os d fs) = {x. \<exists>p\<in>set (iter_invoice_pdfs d fs). file_hash e os p fs = Some x}"
  by (force simp: pdf_digests_def map_filter_def)

lemma iter_pdfs_make_dir:
  assumes "make_dir d fs = (Inr u, fs')" and "fs_ok fs"
  shows "set (iter_invoice_pdfs src fs') = set (iter_invoice_pdfs src fs)"
proof -
  note mk = make_dir_ok [OF assms]
  have "is_dir fs src" if "p \<in> fst ` set (fs_files fs)" "take (length src) p = src" "length src < length p" for p
  proof -
    have "src \<in> set (proper_prefixes p)"
      using that by (auto simp: proper_prefix_iff intro!: exI [of _ "drop (length src) p"]) (metis append_take_drop_id)
    with that(1) assms(2) show ?thesis by (auto simp: fs_ok_def list_all_iff)
  qed
  then show ?thesis
    using mk by (auto simp: iter_invoice_pdfs_def fs_exists_def is_file_def is_dir_def)
qed

lemma pdf_digests_make_dir:
  assumes "make_dir d fs = (Inr u, fs')" and "fs_ok fs"
  shows "set (pdf_digests e os src fs') = set (pdf_digests e os src fs)"
  using make_dir_ok [OF assms] iter_pdfs_make_dir [OF assms] by (simp add: set_pdf_digests file_hash_eq)

lemma consolidate_new:
  assumes "consolidate_pdfs e os dest sources fs = (Inr stats, fs')" and "fs_ok fs"
  shows "\<exists>new. fs_ok fs' \<and> fs_files fs' = fs_files fs @ new \<and> list_all (\<lambda>f. \<exists>c. fst f = dest @ [c] \<and> copy_name c) new \<and>
    cs_copied stats = int (length new) \<and> distinct (map (file_digest e \<circ> snd) new) \<and>
    set (map (file_digest e \<circ> snd) new) \<inter> set (pdf_digests e os dest fs) = {} \<and>
    list_all (\<lambda>src. set (pdf_digests e os src fs) \<subseteq>
      set (map (file_digest e \<circ> snd) new) \<union> set (pdf_digests e os dest fs)) sources"
proof (cases "sources = []")
  case True
  with assms show ?thesis by (auto simp: consolidate_pdfs_def Let_def)
next
  case False
  obtain u fs1 where mk: "make_dir dest fs = (Inr u, fs1)"
    using assms(1) False by (auto simp: consolidate_pdfs_def Let_def split: prod.splits sum.splits)
  note ok1 = make_dir_ok [OF mk assms(2)]
  let ?st = "\<lparr>cp_stats = \<lparr>cs_copied = 0, cs_duplicates = 0, cs_sources = 0,
                 cs_existing = int (length (map fst (preload_hashes e os dest fs1)))\<rparr>,
               cp_seen = map fst (preload_hashes e os dest fs1), cp_fs = fs1\<rparr>"
  obtain v st where run: "copy_sources e os dest sources ?st = (Inr v, st)"
    and res: "stats = cp_stats st" "fs' = cp_fs st"
    using assms(1) False mk by (auto simp: consolidate_pdfs_def Let_def split: prod.splits sum.splits)
  have seen: "set (map fst (preload_hashes e os dest fs1)) = set (pdf_digests e os dest fs)"
    using pdf_digests_make_dir [OF mk assms(2)] by (simp only: set_preload_hashes set_pdf_digests)
  have ok: "fs_ok (cp_fs ?st)" using ok1 by simp
  have "copied e dest ?st st" using copy_sources_copied [of e dest ?st os sources] unfolding run by simp
  then have ok': "fs_ok (cp_fs st)" using ok by (simp add: copied_def)
  from \<open>copied e dest ?st st\<close> ok obtain new where new: "fs_files (cp_fs st) = fs_files fs1 @ new" "list_all (\<lambda>f. \<exists>c. fst f = dest @ [c] \<and> copy_name c) new"
      "cs_copied (cp_stats st) = int (length new)" "distinct (map (file_digest e \<circ> snd) new)"
      "set (map (file_digest e \<circ> snd) new) \<inter> set (cp_seen ?st) = {}"
      "set (cp_seen st) = set (cp_seen ?st) \<union> set (map (file_digest e \<circ> snd) new)"
    by (auto simp: copied_def)
  have "x \<in> set (cp_seen st)" if "src \<in> set sources" "x \<in> set (pdf_digests e os src fs)" for src x
  proof -
    from that(2) have "x \<in> set (pdf_digests e os src fs1)"
      by (simp only: pdf_digests_make_dir [OF mk assms(2)])
    then show ?thesis using copy_sources_seen [OF run ok that(1)] by (auto simp: set_pdf_digests)
  qed
  then show ?thesis
    using new seen ok1 res ok' by (intro exI [of _ new]) (auto simp: list_all_iff)
qed

lemma iter_pdfs_iff:
  assumes "fs_ok fs"
  shows "p \<in> set (iter_invoice_pdfs src fs) \<longleftrightarrow>
    take (length src) p = src \<and> length src < length p \<and> pdf_name (last p) \<and>
    \<not> list_ex (\<lambda>part. part \<in> set skip_dirs) p \<and> is_file fs p"
proof -
  have "fs_exists fs src" if "is_file fs p" "take (length src) p = src" "length src < length p"
  proof -
    have "p \<in> fst ` set (fs_files fs)"
      using that(1) by (metis is_file_def map_of_eq_None_iff)
    moreover have "src \<in> set (proper_prefixes p)"
      using that(2,3) by (auto simp: proper_prefix_iff intro!: exI [of _ "drop (length src) p"]) (metis append_take_drop_id)
    ultimately show ?thesis using assms by (auto simp: fs_ok_def list_all_iff fs_exists_def)
  qed
  moreover have "is_file fs p \<Longrightarrow> p \<in> fst ` set (fs_files fs)"
    by (metis is_file_def map_of_eq_None_iff)
  ultimately show ?thesis by (auto simp: iter_invoice_pdfs_def)
qed

text \<open>
  C22: Consolidating a month loses nothing and copies nothing twice. Every file that was there
  keeps its path and its bytes; what is added lies directly in the month's folder, is as many
  files as the statistics say, and has pairwise different digests that no readable PDF under
  the folder had before; and the digest of every readable PDF of every source is afterwards
  that of a file under the folder.
\<close>

theorem consolidate_exact:
  assumes "consolidate_pdfs e os dest sources fs = (Inr stats, fs')" and "fs_ok fs"
  shows "\<exists>new. fs_files fs' = fs_files fs @ new \<and> list_all (\<lambda>f. \<exists>c. fst f = dest @ [c]) new \<and>
    cs_copied stats = int (length new) \<and> distinct (map (file_digest e \<circ> snd) new) \<and>
    set (map (file_digest e \<circ> snd) new) \<inter> set (pdf_digests e os dest fs) = {} \<and>
    list_all (\<lambda>src. set (pdf_digests e os src fs) \<subseteq>
      set (map (file_digest e \<circ> snd) new) \<union> set (pdf_digests e os dest fs)) sources"
proof -
  from consolidate_new [OF assms] obtain new where new: "fs_files fs' = fs_files fs @ new"
      "list_all (\<lambda>f. \<exists>c. fst f = dest @ [c] \<and> copy_name c) new" and
    more: "cs_copied stats = int (length new) \<and> distinct (map (file_digest e \<circ> snd) new) \<and>
      set (map (file_digest e \<circ> snd) new) \<inter> set (pdf_digests e os dest fs) = {} \<and>
      list_all (\<lambda>src. set (pdf_digests e os src fs) \<subseteq>
        set (map (file_digest e \<circ> snd) new) \<union> set (pdf_digests e os dest fs)) sources"
    by (elim exE conjE) blast
  from new(2) have "list_all (\<lambda>f. \<exists>c. fst f = dest @ [c]) new" by (auto simp: list_all_iff)
  with new(1) more show ?thesis by blast
qed

end
