(* ===== verification/Month_Dedupe.thy ===== *)
theory Month_Dedupe
  imports Month_Files "HOL-Library.Multiset"
begin

text \<open>
  What \<open>dedupe_provider_dir\<close> of \<open>cli/monthly_invoices.py\<close> does to a provider's directory: no
  bytes are lost, what it moves lands in \<open>duplicates/\<close>, and the PDFs left differ pairwise in
  digest, numbered name and text. The last theorem shows the price: two different invoices
  whose file names differ in the number only are not both left for the month's folder.
\<close>

abbreviation duplicates_of :: "path \<Rightarrow> path" where
  "duplicates_of target \<equiv> target @ [''duplicates'']"

definition shifted :: "path \<Rightarrow> path set \<Rightarrow> local_fs \<Rightarrow> local_fs \<Rightarrow> bool" where
  "shifted dir P fs fs' \<longleftrightarrow>
     fs_ok fs' \<and> mset (map snd (fs_files fs')) = mset (map snd (fs_files fs)) \<and>
     (\<forall>p data. map_of (fs_files fs) p = Some data \<longrightarrow>
        map_of (fs_files fs') p = Some data \<or>
        p \<in> P \<and> (\<exists>c. map_of (fs_files fs') (dir @ [c]) = Some data)) \<and>
     (\<forall>p. is_file fs' p \<longrightarrow> is_file fs p \<or> (\<exists>c. p = dir @ [c]))"

lemma shifted_files: "fs_ok fs' \<Longrightarrow> fs_files fs' = fs_files fs \<Longrightarrow> shifted dir P fs fs'"
  by (simp add: shifted_def is_file_def)

lemma shiftedD:
  assumes "shifted dir P fs fs'" and "map_of (fs_files fs) p = Some data" and "map_of (fs_files fs') p \<noteq> Some data"
  shows "p \<in> P" "\<exists>c. map_of (fs_files fs') (dir @ [c]) = Some data"
  using assms unfolding shifted_def by blast+

lemma shifted_trans:
  assumes "shifted dir P fs fs1" and "shifted dir Q fs1 fs2" and "\<And>c. dir @ [c] \<notin> Q"
  shows "shifted dir (P \<union> Q) fs fs2"
proof -
  have "map_of (fs_files fs2) p = Some data \<or>
      p \<in> P \<union> Q \<and> (\<exists>c. map_of (fs_files fs2) (dir @ [c]) = Some data)"
    if "map_of (fs_files fs) p = Some data" for p data
  proof (cases "map_of (fs_files fs1) p = Some data")
    case True
    with assms(2) show ?thesis unfolding shifted_def by blast
  next
    case False
    with that assms(1) obtain c where "p \<in> P" "map_of (fs_files fs1) (dir @ [c]) = Some data"
      unfolding shifted_def by blast
    with assms(2,3) show ?thesis unfolding shifted_def by blast
  qed
  moreover have "is_file fs p \<or> (\<exists>c. p = dir @ [c])" if "is_file fs2 p" for p
    using that assms(1,2) unfolding shifted_def by blast
  ultimately show ?thesis using assms(1,2) unfolding shifted_def by simp
qed

lemma move_file_write: "move_file src dest data fs = write_file dest data (fs\<lparr>fs_files := dict_pop src (fs_files fs)\<rparr>)"
  by (simp add: move_file_def write_file_def)

lemma mset_dict_pop:
  assumes "distinct (map fst kvs)" and "map_of kvs k = Some v"
  shows "add_mset v (mset (map snd (dict_pop k kvs))) = mset (map snd kvs)"
  using assms
proof (induction kvs)
  case (Cons kv kvs)
  show ?case
  proof (cases "fst kv = k")
    case True
    have "dict_pop k kvs = kvs"
      unfolding dict_pop_def using Cons.prems(1) True by (auto simp: filter_id_conv image_iff)
    with True Cons.prems(2) show ?thesis by (cases kv) (simp add: dict_pop_def)
  next
    case False
    with Cons show ?thesis by (cases kv) (auto simp: dict_pop_def)
  qed
qed simp

lemma fs_ok_pop: "fs_ok fs \<Longrightarrow> fs_ok (fs\<lparr>fs_files := dict_pop p (fs_files fs)\<rparr>)"
  by (auto simp: fs_ok_def list_all_iff is_dir_def dict_pop_def distinct_map_filter)

lemma shifted_move:
  assumes "fs_ok fs" and "map_of (fs_files fs) src = Some data" and "\<not> fs_exists fs dest"
    and "dest = dir @ [c]" and "is_dir fs dir"
  shows "shifted dir {src} fs (move_file src dest data fs)" "src \<noteq> dest"
proof -
  let ?fs = "fs\<lparr>fs_files := dict_pop src (fs_files fs)\<rparr>"
  show ne: "src \<noteq> dest" using assms(2,3) by (auto simp: fs_exists_def is_file_def)
  have free: "\<not> fs_exists ?fs dest"
    using assms(3) by (auto simp: fs_exists_def is_file_def is_dir_def)
  have dir: "is_dir ?fs dir" using assms(5) by (simp add: is_dir_def)
  note w = write_free [OF fs_ok_pop [OF assms(1)] free assms(4) dir, of data]
  have "mset (map snd (fs_files (move_file src dest data fs))) = mset (map snd (fs_files fs))"
    using w(2) mset_dict_pop [OF _ assms(2)] assms(1) by (simp add: move_file_write fs_ok_def)
  moreover have "fs_ok (move_file src dest data fs)" using w(1) by (simp add: move_file_write)
  moreover have "map_of (fs_files fs) dest = None" using assms(3) by (auto simp: fs_exists_def is_file_def)
  ultimately show "shifted dir {src} fs (move_file src dest data fs)"
    using assms(2,4) by (auto simp: shifted_def move_file_def is_file_def split: if_splits)
qed

text \<open>One PDF, case by case.\<close>

lemma dedupe_pdf_shifted:
  assumes "fs_ok (de_fs st)" and "dedupe_pdf e os fp target pdf st = (Inr u, st')"
  shows "shifted (duplicates_of target) {pdf} (de_fs st) (de_fs st')"
proof (cases "file_hash e os pdf (de_fs st)")
  case None
  with assms show ?thesis by (auto simp: dedupe_pdf_def Let_def intro!: shifted_files)
next
  case (Some digest)
  then obtain data where data: "map_of (fs_files (de_fs st)) pdf = Some data"
    by (auto simp: file_hash_eq split: if_splits)
  show ?thesis
  proof (cases "duplicate_by_hash digest (de_hashes st) \<or> duplicate_by_stem (stem_key (last pdf)) (de_stems st) \<or>
                duplicate_by_text_fingerprint (fp data) (de_texts st)")
    case False
    with Some data assms show ?thesis by (auto simp: dedupe_pdf_def Let_def intro!: shifted_files)
  next
    case dup: True
    then obtain v fs1 w p fs2 where mk: "make_dir (duplicates_of target) (de_fs st) = (Inr v, fs1)"
      and eu: "ensure_unique (duplicates_of target) (last pdf) fs1 = (Inr p, fs2)"
      and st': "de_fs st' = (if movable os pdf then move_file pdf p data fs2 else fs2)"
      using assms(2) Some data by (auto simp: dedupe_pdf_def Let_def split: prod.splits sum.splits if_splits)
    note ok1 = make_dir_ok [OF mk assms(1)]
    note free = ensure_unique_free [OF eu conjunct1 [OF ok1]]
    then obtain c where c: "p = duplicates_of target @ [c]" by blast
    have files: "fs_files fs2 = fs_files (de_fs st)" using ok1 free by simp
    show ?thesis
    proof (cases "movable os pdf")
      case True
      have "shifted (duplicates_of target) {pdf} fs2 (move_file pdf p data fs2)"
        using shifted_move [of fs2 pdf data p "duplicates_of target" c] free c data files by simp
      with st' True files show ?thesis by (simp add: shifted_def is_file_def)
    next
      case False
      with st' free files show ?thesis by (simp add: shifted_files)
    qed
  qed
qed

lemma dedupe_pdfs_shifted:
  assumes "fs_ok (de_fs st)" and "dedupe_pdfs e os fp target pdfs st = (Inr u, st')"
    and "\<And>c. duplicates_of target @ [c] \<notin> set pdfs"
  shows "shifted (duplicates_of target) (set pdfs) (de_fs st) (de_fs st')"
  using assms
proof (induction pdfs arbitrary: st)
  case (Cons a pdfs)
  obtain u1 st1 where st1: "dedupe_pdf e os fp target a st = (Inr u1, st1)"
    and rest: "dedupe_pdfs e os fp target pdfs st1 = (Inr u, st')"
    using Cons.prems(2) by (auto split: prod.splits sum.splits)
  have step: "shifted (duplicates_of target) {a} (de_fs st) (de_fs st1)" by (rule dedupe_pdf_shifted [OF Cons.prems(1) st1])
  then have "fs_ok (de_fs st1)" by (simp add: shifted_def)
  from Cons.IH [OF this rest] Cons.prems(3) have "shifted (duplicates_of target) (set pdfs) (de_fs st1) (de_fs st')" by simp
  from shifted_trans [OF step this] Cons.prems(3) show ?case by simp
qed (simp add: shifted_files)

definition tallied :: "dedupe_state \<Rightarrow> dedupe_state \<Rightarrow> nat \<Rightarrow> bool" where
  "tallied st st' n \<longleftrightarrow>
     dd_scanned (de_stats st') = dd_scanned (de_stats st) + int n \<and>
     dd_kept (de_stats st') + dd_moved (de_stats st') + dd_errors (de_stats st') =
       dd_kept (de_stats st) + dd_moved (de_stats st) + dd_errors (de_stats st) + int n"

lemma dedupe_pdf_tallied: "dedupe_pdf e os fp target pdf st = (Inr u, st') \<Longrightarrow> tallied st st' 1"
  by (auto simp: dedupe_pdf_def tallied_def Let_def split: option.splits if_splits prod.splits sum.splits)

lemma dedupe_pdfs_tallied: "dedupe_pdfs e os fp target pdfs st = (Inr u, st') \<Longrightarrow> tallied st st' (length pdfs)"
proof (induction pdfs arbitrary: st)
  case (Cons a pdfs)
  obtain u1 st1 where st1: "dedupe_pdf e os fp target a st = (Inr u1, st1)"
    and rest: "dedupe_pdfs e os fp target pdfs st1 = (Inr u, st')"
    using Cons.prems by (auto split: prod.splits sum.splits)
  from dedupe_pdf_tallied [OF st1] Cons.IH [OF rest] show ?case by (simp add: tallied_def)
qed (simp add: tallied_def)

lemma iter_pdfs_not_duplicates: "duplicates_of target @ [c] \<notin> set (iter_invoice_pdfs d fs)"
  by (auto simp: iter_invoice_pdfs_def skip_dirs_def)

lemma dedupe_runE:
  assumes "dedupe_provider_dir e os fp target fs = (Inr stats, fs')" and "fs_exists fs target"
  obtains st where "dedupe_pdfs e os fp target (iter_invoice_pdfs target fs)
      \<lparr>de_stats = \<lparr>dd_scanned = 0, dd_kept = 0, dd_removed = 0, dd_moved = 0, dd_errors = 0\<rparr>,
       de_hashes = [], de_stems = [], de_texts = [], de_fs = fs\<rparr> = (Inr (), st)"
    "stats = (de_stats st)\<lparr>dd_removed := dd_moved (de_stats st)\<rparr>" "fs' = de_fs st"
  using assms by (auto simp: dedupe_provider_dir_def Let_def split: prod.splits sum.splits)

text \<open>
  C23: Removing duplicates from a provider's directory loses no bytes: the contents of all
  files are the same multiset as before. A file stays where it was unless it is one of the
  PDFs scanned, whose bytes may have moved to a file directly in \<open>duplicates/\<close>; and every
  scanned PDF is counted once, as kept, moved or failed.
\<close>

theorem dedupe_conserves:
  assumes "dedupe_provider_dir e os fp target fs = (Inr stats, fs')" and "fs_ok fs"
  shows "mset (map snd (fs_files fs')) = mset (map snd (fs_files fs)) \<and>
    list_all (\<lambda>(p, data). map_of (fs_files fs') p = Some data \<or>
        p \<in> set (iter_invoice_pdfs target fs) \<and> (\<exists>c. map_of (fs_files fs') (target @ [''duplicates'', c]) = Some data))
      (fs_files fs) \<and>
    dd_scanned stats = int (length (iter_invoice_pdfs target fs)) \<and> dd_removed stats = dd_moved stats \<and>
    dd_kept stats + dd_moved stats + dd_errors stats = dd_scanned stats"
proof (cases "fs_exists fs target")
  case False
  with assms show ?thesis
    by (auto simp: dedupe_provider_dir_def iter_invoice_pdfs_def list_all_iff fs_ok_def)
next
  case True
  obtain st where run: "dedupe_pdfs e os fp target (iter_invoice_pdfs target fs)
      \<lparr>de_stats = \<lparr>dd_scanned = 0, dd_kept = 0, dd_removed = 0, dd_moved = 0, dd_errors = 0\<rparr>,
       de_hashes = [], de_stems = [], de_texts = [], de_fs = fs\<rparr> = (Inr (), st)"
    and res: "stats = (de_stats st)\<lparr>dd_removed := dd_moved (de_stats st)\<rparr>" "fs' = de_fs st"
    by (rule dedupe_runE [OF assms(1) True])
  have sh: "shifted (duplicates_of target) (set (iter_invoice_pdfs target fs)) fs fs'"
    using dedupe_pdfs_shifted [OF _ run] assms(2) iter_pdfs_not_duplicates res(2) by simp
  have "list_all (\<lambda>(p, data). map_of (fs_files fs') p = Some data \<or>
      p \<in> set (iter_invoice_pdfs target fs) \<and> (\<exists>c. map_of (fs_files fs') (target @ [''duplicates'', c]) = Some data))
    (fs_files fs)"
    unfolding list_all_iff
  proof
    fix f assume f: "f \<in> set (fs_files fs)"
    obtain p data where pd: "f = (p, data)" by force
    with f have old: "map_of (fs_files fs) p = Some data" using assms(2) by (simp add: fs_ok_def)
    show "case f of (p, data) \<Rightarrow> map_of (fs_files fs') p = Some data \<or>
      p \<in> set (iter_invoice_pdfs target fs) \<and> (\<exists>c. map_of (fs_files fs') (target @ [''duplicates'', c]) = Some data)"
      using shiftedD [OF sh old] by (cases "map_of (fs_files fs') p = Some data") (simp_all add: pd)
  qed
  with sh dedupe_pdfs_tallied [OF run] res(1) show ?thesis
    by (simp add: shifted_def tallied_def)
qed


subsection \<open>What is left\<close>

definition texts_of :: "(bytes \<Rightarrow> pystr option) \<Rightarrow> local_fs \<Rightarrow> path list \<Rightarrow> pystr list" where
  "texts_of fp fs ps =
     filter (\<lambda>t. t \<noteq> []) (List.map_filter (\<lambda>p. Option.bind (map_of (fs_files fs) p) fp) ps)"

lemma texts_of_Nil [simp]: "texts_of fp fs [] = []"
  by (simp add: texts_of_def map_filter_def)

lemma texts_of_Cons:
  "texts_of fp fs (p # ps) =
     (case Option.bind (map_of (fs_files fs) p) fp of None \<Rightarrow> [] | Some t \<Rightarrow> if t = [] then [] else [t]) @ texts_of fp fs ps"
  by (simp add: texts_of_def map_filter_simps split: option.splits)

definition told_apart :: "env \<Rightarrow> (bytes \<Rightarrow> pystr option) \<Rightarrow> local_fs \<Rightarrow> path list \<Rightarrow> dedupe_state \<Rightarrow> bool" where
  "told_apart e fp fs ps st \<longleftrightarrow>
     distinct (map (\<lambda>p. map_option (file_digest e) (map_of (fs_files fs) p)) ps) \<and>
     set (map (\<lambda>p. map_option (file_digest e) (map_of (fs_files fs) p)) ps) \<inter> Some ` set (de_hashes st) = {} \<and>
     distinct (map (stem_key \<circ> last) ps) \<and> set (map (stem_key \<circ> last) ps) \<inter> set (de_stems st) = {} \<and>
     distinct (texts_of fp fs ps) \<and> set (texts_of fp fs ps) \<inter> set (de_texts st) = {}"

lemma dedupe_pdf_cases:
  assumes "fs_ok (de_fs st)" and "dedupe_pdf e os fp target pdf st = (Inr u, st')"
    and "readable os pdf" and "movable os pdf" and "map_of (fs_files (de_fs st)) pdf = Some data"
  obtains (kept) "de_fs st' = de_fs st" "de_hashes st' = List.insert (file_digest e data) (de_hashes st)"
      "de_stems st' = List.insert (stem_key (last pdf)) (de_stems st)"
      "set (de_texts st') = set (de_texts st) \<union> set (texts_of fp (de_fs st) [pdf])"
      "file_digest e data \<notin> set (de_hashes st)" "stem_key (last pdf) \<notin> set (de_stems st)"
      "set (texts_of fp (de_fs st) [pdf]) \<inter> set (de_texts st) = {}"
  | (moved) "\<not> is_file (de_fs st') pdf" "de_hashes st' = de_hashes st" "de_stems st' = de_stems st"
      "de_texts st' = de_texts st"
proof -
  have hash: "file_hash e os pdf (de_fs st) = Some (file_digest e data)"
    using assms(3,5) by (simp add: file_hash_eq)
  show thesis
  proof (cases "duplicate_by_hash (file_digest e data) (de_hashes st) \<or>
      duplicate_by_stem (stem_key (last pdf)) (de_stems st) \<or>
      duplicate_by_text_fingerprint (fp data) (de_texts st)")
    case False
    then have "st' = st\<lparr>de_stats := (de_stats st)\<lparr>dd_scanned := dd_scanned (de_stats st) + 1, dd_kept := dd_kept (de_stats st) + 1\<rparr>,
        de_hashes := List.insert (file_digest e data) (de_hashes st),
        de_stems := List.insert (stem_key (last pdf)) (de_stems st),
        de_texts := (case fp data of None \<Rightarrow> de_texts st
                     | Some f \<Rightarrow> if f = [] then de_texts st else List.insert f (de_texts st))\<rparr>"
      using assms(2,5) hash by (cases "fp data") (auto simp: dedupe_pdf_def Let_def remember_stem_def)
    moreover have "set (texts_of fp (de_fs st) [pdf]) = (case fp data of None \<Rightarrow> {} | Some f \<Rightarrow> if f = [] then {} else {f})"
      using assms(5) by (auto simp: texts_of_Cons split: option.split)
    ultimately show thesis
      using False
      by (intro kept) (auto simp: duplicate_by_hash_def duplicate_by_stem_def duplicate_by_text_fingerprint_def split: option.splits)
  next
    case dup: True
    then obtain v fs1 w p fs2 where mk: "make_dir (duplicates_of target) (de_fs st) = (Inr v, fs1)"
      and eu: "ensure_unique (duplicates_of target) (last pdf) fs1 = (Inr p, fs2)"
      and st': "de_fs st' = move_file pdf p data fs2" "de_hashes st' = de_hashes st"
        "de_stems st' = de_stems st" "de_texts st' = de_texts st"
      using assms(2,4,5) hash by (auto simp: dedupe_pdf_def Let_def split: prod.splits sum.splits if_splits)
    note ok1 = make_dir_ok [OF mk assms(1)]
    note free = ensure_unique_free [OF eu conjunct1 [OF ok1]]
    then have "\<not> fs_exists fs2 p" "fs_files fs2 = fs_files (de_fs st)" using ok1 by auto
    then have "pdf \<noteq> p" using assms(5) by (auto simp: fs_exists_def is_file_def)
    with st' show thesis by (intro moved) (simp_all add: move_file_def is_file_def)
  qed
qed

lemma dedupe_pdfs_apart:
  assumes "fs_ok (de_fs st)" and "dedupe_pdfs e os fp target pdfs st = (Inr u, st')" and "distinct pdfs"
    and "\<And>c. duplicates_of target @ [c] \<notin> set pdfs"
    and "list_all (\<lambda>p. readable os p \<and> movable os p \<and> is_file (de_fs st) p) pdfs"
  shows "told_apart e fp (de_fs st) (filter (is_file (de_fs st')) pdfs) st"
  using assms
proof (induction pdfs arbitrary: st)
  case (Cons a pdfs)
  obtain u1 st1 where st1: "dedupe_pdf e os fp target a st = (Inr u1, st1)"
    and rest: "dedupe_pdfs e os fp target pdfs st1 = (Inr u, st')"
    using Cons.prems(2) by (auto split: prod.splits sum.splits)
  obtain data where data: "map_of (fs_files (de_fs st)) a = Some data"
    using Cons.prems(5) by (auto simp: is_file_def)
  have step: "shifted (duplicates_of target) {a} (de_fs st) (de_fs st1)" by (rule dedupe_pdf_shifted [OF Cons.prems(1) st1])
  then have ok1: "fs_ok (de_fs st1)" by (simp add: shifted_def)
  have tail: "shifted (duplicates_of target) (set pdfs) (de_fs st1) (de_fs st')"
    using dedupe_pdfs_shifted [OF ok1 rest] Cons.prems(4) by simp
  have same: "map_of (fs_files (de_fs st1)) p = map_of (fs_files (de_fs st)) p" if p: "p \<in> set pdfs" for p
  proof -
    obtain d where "map_of (fs_files (de_fs st)) p = Some d"
    proof -
      have "is_file (de_fs st) p" using Cons.prems(5) p by (simp add: list_all_iff)
      then show thesis using that by (auto simp: is_file_def)
    qed
    moreover have "p \<noteq> a" using Cons.prems(3) p by auto
    ultimately show ?thesis using step unfolding shifted_def by fastforce
  qed
  have files1: "list_all (\<lambda>p. readable os p \<and> movable os p \<and> is_file (de_fs st1) p) pdfs"
    using Cons.prems(5) same by (simp add: list_all_iff is_file_def)
  let ?K = "filter (is_file (de_fs st')) pdfs"
  have apart1: "told_apart e fp (de_fs st1) ?K st1"
    using Cons.IH [OF ok1 rest _ _ files1] Cons.prems(3,4) by simp
  have digests: "map (\<lambda>p. map_option (file_digest e) (map_of (fs_files (de_fs st1)) p)) ?K =
      map (\<lambda>p. map_option (file_digest e) (map_of (fs_files (de_fs st)) p)) ?K"
    using same by simp
  have texts: "texts_of fp (de_fs st1) ?K = texts_of fp (de_fs st) ?K"
    unfolding texts_of_def map_filter_def using same by (intro arg_cong [where f = "filter _"]) (auto intro!: map_cong filter_cong)
  have apart: "told_apart e fp (de_fs st) ?K st1"
    using apart1 unfolding told_apart_def digests texts .
  from Cons.prems have "readable os a" "movable os a" by simp_all
  from Cons.prems(1) st1 this data show ?case
  proof (cases rule: dedupe_pdf_cases)
    case kept
    have "map_of (fs_files (de_fs st')) a = Some data"
      using tail data kept(1) Cons.prems(3) unfolding shifted_def by auto
    then have K: "filter (is_file (de_fs st')) (a # pdfs) = a # ?K" by (simp add: is_file_def)
    have "texts_of fp (de_fs st) (a # ?K) = texts_of fp (de_fs st) [a] @ texts_of fp (de_fs st) ?K"
      by (simp add: texts_of_Cons)
    moreover have "distinct (texts_of fp (de_fs st) [a])"
      by (simp add: texts_of_Cons split: option.splits)
    ultimately show ?thesis
      using apart kept data unfolding told_apart_def K by (auto simp: image_iff)
  next
    case moved
    have "\<not> is_file (de_fs st') a"
      using tail moved(1) Cons.prems(4) unfolding shifted_def by (metis list.set_intros(1))
    then have K: "filter (is_file (de_fs st')) (a # pdfs) = ?K" by simp
    show ?thesis using apart moved(2-4) unfolding told_apart_def K by simp
  qed
qed (simp add: told_apart_def)

lemma dedupe_pdfs_left:
  assumes "dedupe_provider_dir e os fp target fs = (Inr stats, fs')" and "fs_ok fs"
    and "\<And>p. readable os p \<and> movable os p"
  shows "distinct (map (\<lambda>p. map_option (file_digest e) (map_of (fs_files fs) p))
      (filter (is_file fs') (iter_invoice_pdfs target fs)))"
    "distinct (map (stem_key \<circ> last) (filter (is_file fs') (iter_invoice_pdfs target fs)))"
    "distinct (texts_of fp fs (filter (is_file fs') (iter_invoice_pdfs target fs)))"
proof -
  have "told_apart e fp fs (filter (is_file fs') (iter_invoice_pdfs target fs))
      \<lparr>de_stats = \<lparr>dd_scanned = 0, dd_kept = 0, dd_removed = 0, dd_moved = 0, dd_errors = 0\<rparr>,
       de_hashes = [], de_stems = [], de_texts = [], de_fs = fs\<rparr>"
  proof (cases "fs_exists fs target")
  case False
  then show ?thesis by (simp add: told_apart_def iter_invoice_pdfs_def)
next
  case True
  obtain st where run: "dedupe_pdfs e os fp target (iter_invoice_pdfs target fs)
      \<lparr>de_stats = \<lparr>dd_scanned = 0, dd_kept = 0, dd_removed = 0, dd_moved = 0, dd_errors = 0\<rparr>,
       de_hashes = [], de_stems = [], de_texts = [], de_fs = fs\<rparr> = (Inr (), st)" and "fs' = de_fs st"
    by (rule dedupe_runE [OF assms(1) True])
  moreover have "distinct (iter_invoice_pdfs target fs)"
    using assms(2) by (simp add: iter_invoice_pdfs_def fs_ok_def)
  moreover have "list_all (\<lambda>p. readable os p \<and> movable os p \<and> is_file fs p) (iter_invoice_pdfs target fs)"
    using assms(3) by (auto simp: iter_invoice_pdfs_def list_all_iff)
  ultimately show ?thesis
    using dedupe_pdfs_apart [OF _ run] assms(2) iter_pdfs_not_duplicates by simp
  qed
  then show "distinct (map (\<lambda>p. map_option (file_digest e) (map_of (fs_files fs) p))
      (filter (is_file fs') (iter_invoice_pdfs target fs)))"
    "distinct (map (stem_key \<circ> last) (filter (is_file fs') (iter_invoice_pdfs target fs)))"
    "distinct (texts_of fp fs (filter (is_file fs') (iter_invoice_pdfs target fs)))"
    by (simp_all only: told_apart_def)
qed

text \<open>
  When every PDF can be read and moved, the PDFs left in a provider's directory differ
  pairwise in their digest, in their name up to a number, and in their text.
\<close>

theorem dedupe_leaves_distinct:
  assumes "dedupe_provider_dir e os fp target fs = (Inr stats, fs')" and "fs_ok fs"
    and "\<And>p. readable os p \<and> movable os p"
  shows "let left = filter (is_file fs') (iter_invoice_pdfs target fs) in
    distinct (map (\<lambda>p. map_option (file_digest e) (map_of (fs_files fs) p)) left) \<and>
    distinct (map (stem_key \<circ> last) left) \<and> distinct (texts_of fp fs left)"
  using dedupe_pdfs_left [OF assms] by (simp only: Let_def simp_thms)

text \<open>
  Two invoices of a provider whose file names differ in the number only, as the ones a
  finder saves for two attachments of one name, do not both stay for the month's folder, even
  when their contents differ.
\<close>

theorem dedupe_drops_same_stem:
  assumes "dedupe_provider_dir e os fp target fs = (Inr stats, fs')" and "fs_ok fs"
    and "\<And>p. readable os p \<and> movable os p"
    and "p \<in> set (iter_invoice_pdfs target fs)" and "q \<in> set (iter_invoice_pdfs target fs)" and "p \<noteq> q"
    and "stem_key (last p) = stem_key (last q)"
  shows "p \<notin> set (iter_invoice_pdfs target fs') \<or> q \<notin> set (iter_invoice_pdfs target fs')"
proof (rule ccontr)
  assume "\<not> ?thesis"
  then have in_fs: "p \<in> set (iter_invoice_pdfs target fs')" "q \<in> set (iter_invoice_pdfs target fs')" by simp_all
  let ?left = "filter (is_file fs') (iter_invoice_pdfs target fs)"
  have "p \<in> set ?left" "q \<in> set ?left"
    using in_fs assms(4,5) by (simp_all add: iter_invoice_pdfs_def split: if_splits)
  moreover have "distinct (map (stem_key \<circ> last) ?left)"
    using dedupe_pdfs_left [OF assms(1-3)] by simp
  ultimately show False
    using assms(6,7) by (auto simp: distinct_map inj_on_def)
qed


subsection \<open>A month of one provider\<close>

definition demo_access :: os_access where
  "demo_access = \<lparr>readable = (\<lambda>_. True), movable = (\<lambda>_. True)\<rparr>"

definition demo_month :: local_fs where
  "demo_month =
     \<lparr>fs_files = [([''m'', ''g'', ''bill.pdf''], ''A''), ([''m'', ''g'', ''bill__2.pdf''], ''B''), ([''m'', ''g'', ''c.pdf''], ''C'')],
      fs_dirs = [[], [''m''], [''m'', ''g'']]\<rparr>"

definition demo_dedupe :: "dedupe_stats res \<times> local_fs" where
  "demo_dedupe = dedupe_provider_dir toy_env demo_access (\<lambda>_. None) [''m'', ''g''] demo_month"

definition demo_consolidate :: "consolidation res \<times> local_fs" where
  "demo_consolidate = consolidate_pdfs toy_env demo_access [''m'', ''all''] [[''m'', ''g'']] demo_month"

lemma demo_month_ok: "fs_ok demo_month"
  by code_simp

lemma demo_dedupe_ok: "demo_dedupe = (Inr \<lparr>dd_scanned = 3, dd_kept = 2, dd_removed = 1, dd_moved = 1, dd_errors = 0\<rparr>, snd demo_dedupe)"
  by code_simp

lemma demo_consolidate_ok: "demo_consolidate =
    (Inr \<lparr>cs_copied = 3, cs_duplicates = 0, cs_sources = 1, cs_existing = 0\<rparr>, snd demo_consolidate)"
  by code_simp

lemma consolidate_exact_witness:
  "\<exists>new. length new = 3 \<and> fs_files (snd demo_consolidate) = fs_files demo_month @ new"
  using consolidate_exact [OF trans [OF demo_consolidate_def [symmetric] demo_consolidate_ok] demo_month_ok]
  by auto

lemma hash_file_whole_witness:
  "hash_file toy_env demo_access 2 [''m'', ''g'', ''c.pdf''] demo_month = Some (hexdigest (sha256 toy_env ''C''))"
  by (rule hash_file_whole) (simp_all add: demo_access_def demo_month_def)

lemma dedupe_conserves_witness:
  "mset (map snd (fs_files (snd demo_dedupe))) = {#CHR ''A'' # [], CHR ''B'' # [], CHR ''C'' # []#}"
  using dedupe_conserves [OF trans [OF demo_dedupe_def [symmetric] demo_dedupe_ok] demo_month_ok]
  by (simp add: demo_month_def)

lemma dedupe_leaves_distinct_witness:
  "distinct (map (stem_key \<circ> last) (filter (is_file (snd demo_dedupe)) (iter_invoice_pdfs [''m'', ''g''] demo_month)))"
  using dedupe_leaves_distinct [OF trans [OF demo_dedupe_def [symmetric] demo_dedupe_ok] demo_month_ok]
  by (simp add: demo_access_def Let_def)

lemma dedupe_drops_same_stem_witness:
  "\<not> {[''m'', ''g'', ''bill.pdf''], [''m'', ''g'', ''bill__2.pdf'']} \<subseteq> set (iter_invoice_pdfs [''m'', ''g''] (snd demo_dedupe))"
proof -
  have "[''m'', ''g'', ''bill.pdf''] \<in> set (iter_invoice_pdfs [''m'', ''g''] demo_month)"
    "[''m'', ''g'', ''bill__2.pdf''] \<in> set (iter_invoice_pdfs [''m'', ''g''] demo_month)"
    "stem_key (last [''m'', ''g'', ''bill.pdf'']) = stem_key (last [''m'', ''g'', ''bill__2.pdf''])"
    by code_simp+
  then have "[''m'', ''g'', ''bill.pdf''] \<notin> set (iter_invoice_pdfs [''m'', ''g''] (snd demo_dedupe)) \<or>
      [''m'', ''g'', ''bill__2.pdf''] \<notin> set (iter_invoice_pdfs [''m'', ''g''] (snd demo_dedupe))"
    by (intro dedupe_drops_same_stem [OF trans [OF demo_dedupe_def [symmetric] demo_dedupe_ok] demo_month_ok])
      (simp_all add: demo_access_def)
  then show ?thesis by blast
qed

end
