(* ===== verification/Month_Plan.thy ===== *)
theory Month_Plan
  imports Py_Date Storage
begin

text \<open>
  What a monthly run of \<open>cli/monthly_invoices.py\<close> is asked to do: the window of the month, the
  providers to run, and the command each of them gets, with \<open>shlex.split\<close> for the extra
  arguments and the invocations of \<open>usecases/provider_runner.py\<close>.
\<close>

subsection \<open>The window of a month\<close>

text \<open>\<open>dt.date(y, m, d)\<close> and \<open>d + timedelta(days=n)\<close>\<close>

definition make_date :: "int \<Rightarrow> int \<Rightarrow> int \<Rightarrow> py_date res" where
  "make_date y m d =
     (if y < 1 \<or> 9999 < y then Inl (ValueError (''year '' @ py_str_int y @ '' is out of range''))
      else if m < 1 \<or> 12 < m then Inl (ValueError ''month must be in 1..12'')
      else if d < 1 \<or> days_in_month (is_leap y) (nat m) < d then Inl (ValueError ''day is out of range for month'')
      else Inr (Date y m d))"

definition max_ordinal :: int where "max_ordinal = 3652059"

definition date_plus :: "py_date \<Rightarrow> int \<Rightarrow> py_date res" where
  "date_plus d n =
     (let o' = date_toordinal d + n in
      if o' < 1 \<or> max_ordinal < o' then Inl (OverflowError ''date value out of range'')
      else Inr (date_fromordinal o'))"

text \<open>\<open>d.strftime("%Y-%m-%d")\<close> and \<open>d.strftime("%m_%Y")\<close>; the C library does not pad the year.\<close>

definition format_ymd :: "py_date \<Rightarrow> pystr" where
  "format_ymd d = py_str_int (year d) @ ''-'' @ pad_num 2 (month d) @ ''-'' @ pad_num 2 (day d)"

definition format_month_label :: "py_date \<Rightarrow> pystr" where
  "format_month_label d = pad_num 2 (month d) @ ''_'' @ py_str_int (year d)"

text \<open>\<open>x or default\<close> for an optional integer\<close>

definition int_or :: "int option \<Rightarrow> int \<Rightarrow> int" where
  "int_or x other = (case x of None \<Rightarrow> other | Some n \<Rightarrow> if n = 0 then other else n)"

definition month_bounds :: "py_date \<Rightarrow> int option \<Rightarrow> int option \<Rightarrow> (py_date \<times> py_date) res" where
  "month_bounds today y m =
     (let target_year = int_or y (year today); target_month = int_or m (month today) in
      if target_month < 1 \<or> 12 < target_month then Inl (ValueError ''month must be between 1 and 12'')
      else res_bind (make_date target_year target_month 1) (\<lambda>first.
           res_bind (make_date (year first) (month first) 28) (\<lambda>late.
           res_bind (date_plus late 4) (\<lambda>after.
           res_bind (make_date (year after) (month after) 1) (\<lambda>next_month. Inr (first, next_month))))))"

definition month_window :: "py_date \<Rightarrow> int option \<Rightarrow> int option \<Rightarrow> (pystr \<times> pystr \<times> pystr) res" where
  "month_window today y m =
     res_bind (month_bounds today y m) (\<lambda>(first, next_month).
       Inr (format_ymd first, format_ymd next_month, format_month_label first))"

definition fmt_duration :: "rat \<Rightarrow> pystr" where
  "fmt_duration secs =
     (let total = max 0 (trunc_rat secs)
      in pad_num 2 (total div 3600) @ ''h:'' @ pad_num 2 (total mod 3600 div 60) @ ''m:'' @ pad_num 2 (total mod 60) @ ''s'')"

text \<open>A valid date is the one of its ordinal.\<close>

lemma int_div_pred:
  fixes y k :: int
  assumes "1 < k"
  shows "y div k = (y - 1) div k + (if y mod k = 0 then 1 else 0)"
proof -
  define q r where "q = (y - 1) div k" and "r = (y - 1) mod k"
  have y: "y = q * k + (r + 1)" by (simp add: q_def r_def)
  have r: "0 \<le> r" "r < k" using assms by (simp_all add: r_def)
  show ?thesis
  proof (cases "r + 1 = k")
    case True
    then have "y = (q + 1) * k" by (simp add: y algebra_simps)
    then have "y div k = q + 1" "y mod k = 0" using assms by simp_all
    then show ?thesis by (simp add: q_def)
  next
    case False
    then have "y div k = q" "y mod k = r + 1"
      using r by (simp_all add: y div_pos_pos_trivial)
    then show ?thesis using r by (simp add: q_def)
  qed
qed

lemma days_before_year_Suc: "days_before_year (y + 1) = days_before_year y + 365 + (if is_leap y then 1 else 0)"
proof -
  note d = int_div_pred [of 4 y, simplified] int_div_pred [of 100 y, simplified] int_div_pred [of 400 y, simplified]
  have "(4 :: int) dvd 100" "(100 :: int) dvd 400" by simp_all
  then have m: "y mod 100 = 0 \<Longrightarrow> y mod 4 = 0" "y mod 400 = 0 \<Longrightarrow> y mod 100 = 0"
    by (meson dvd_eq_mod_eq_0 dvd_trans)+
  have "(if P then 1 else 0) - (if Q then 1 else 0) + (if R then 1 else 0) = (if P \<and> (\<not> Q \<or> R) then 1 else (0 :: int))"
    if "Q \<Longrightarrow> P" "R \<Longrightarrow> Q" for P Q R using that by auto
  from this [OF m] have leap: "(if y mod 4 = 0 then 1 else 0) - (if y mod 100 = 0 then 1 else 0) + (if y mod 400 = 0 then 1 else 0)
      = (if is_leap y then 1 else (0 :: int))"
    unfolding is_leap_def .
  have "days_before_year (y + 1) = y * 365 + y div 4 - y div 100 + y div 400" by (simp add: days_before_year_def)
  then have sum: "days_before_year (y + 1) = y * 365 + ((y - 1) div 4 + (if y mod 4 = 0 then 1 else 0)) -
      ((y - 1) div 100 + (if y mod 100 = 0 then 1 else 0)) + ((y - 1) div 400 + (if y mod 400 = 0 then 1 else 0))"
    unfolding d .
  have "b = (y - 1) * 365 + A - B + C + 365 + l"
    if "b = y * 365 + (A + p) - (B + q) + (C + r)" "p - q + r = l" for b A B C p q r l :: int
    using that by simp
  from this [OF sum leap] show ?thesis unfolding days_before_year_def [of y] .
qed

lemma days_before_year_mono: "y \<le> z \<Longrightarrow> days_before_year y \<le> days_before_year z"
proof (induction z rule: int_ge_induct)
  case (step z)
  then show ?case by (simp add: days_before_year_Suc)
qed simp

lemma days_before_month_mono:
  assumes "1 \<le> m" and "m < n" and "n \<le> 13"
  shows "days_before_month leap (m + 1) \<le> days_before_month leap n"
proof -
  have up: "[1..<13] = [1, 2, 3, 4, 5, 6, 7, 8, 9, 10, 11, 12 :: nat]" "[2..<14] = [2, 3, 4, 5, 6, 7, 8, 9, 10, 11, 12, 13 :: nat]"
    by (simp_all add: upt_rec)
  have "m \<in> set [1..<13]" "n \<in> set [2..<14]" using assms by (simp_all only: set_upt atLeastLessThan_iff) simp_all
  moreover have "list_all (\<lambda>m. list_all (\<lambda>n. m < n \<longrightarrow> days_before_month leap (m + 1) \<le> days_before_month leap n)
      [2..<14]) [1..<13]"
    unfolding up by (simp add: days_before_month_def)
  ultimately show ?thesis using assms(2) unfolding list_all_iff by blast
qed

lemma days_before_month_nonneg: "1 \<le> m \<Longrightarrow> m \<le> 12 \<Longrightarrow> 0 \<le> days_before_month leap m"
proof (cases "m = 1")
  case False
  assume "1 \<le> m" "m \<le> 12"
  moreover have "days_before_month leap (1 + 1) = 31" by (simp add: days_before_month_def)
  ultimately show ?thesis using False days_before_month_mono [of 1 m leap] by simp
qed simp

lemma valid_date_ordinal:
  assumes "valid_date d"
  shows "days_before_year (year d) < date_toordinal d" "date_toordinal d \<le> days_before_year (year d + 1)"
proof -
  let ?leap = "is_leap (year d)" and ?m = "nat (month d)"
  have d: "1 \<le> ?m" "?m \<le> 12" "1 \<le> day d" "day d \<le> days_before_month ?leap (?m + 1) - days_before_month ?leap ?m"
    using assms by (auto simp: valid_date_def days_in_month_def)
  have "0 \<le> days_before_month ?leap ?m" using days_before_month_nonneg d by simp
  moreover have "days_before_month ?leap (?m + 1) \<le> 365 + (if ?leap then 1 else 0)"
    using days_before_month_mono [of ?m 13 ?leap] d by (simp add: days_before_month_def)
  ultimately show "days_before_year (year d) < date_toordinal d" "date_toordinal d \<le> days_before_year (year d + 1)"
    using d by (simp_all add: date_toordinal_def days_before_year_Suc)
qed

lemma date_toordinal_inj:
  assumes "valid_date d" and "valid_date d'" and "date_toordinal d = date_toordinal d'"
  shows "d = d'"
proof -
  note o = valid_date_ordinal [OF assms(1)] valid_date_ordinal [OF assms(2)]
  have year: "year d = year d'"
  proof (rule linorder_cases [of "year d" "year d'"])
    assume "year d < year d'"
    then show ?thesis using days_before_year_mono [of "year d + 1" "year d'"] o assms(3) by simp
  next
    assume "year d' < year d"
    then show ?thesis using days_before_year_mono [of "year d' + 1" "year d"] o assms(3) by simp
  qed
  let ?f = "days_before_month (is_leap (year d))"
  have eq: "?f (nat (month d)) + day d = ?f (nat (month d')) + day d'"
    using assms(3) year by (simp add: date_toordinal_def)
  have v: "1 \<le> nat (month d)" "nat (month d) \<le> 12" "1 \<le> day d" "day d \<le> ?f (nat (month d) + 1) - ?f (nat (month d))"
    "1 \<le> nat (month d')" "nat (month d') \<le> 12" "1 \<le> day d'" "day d' \<le> ?f (nat (month d') + 1) - ?f (nat (month d'))"
    using assms(1,2) year by (auto simp: valid_date_def days_in_month_def)
  have "nat (month d) = nat (month d')"
  proof (rule linorder_cases [of "nat (month d)" "nat (month d')"])
    assume "nat (month d) < nat (month d')"
    then show ?thesis using days_before_month_mono [of "nat (month d)" "nat (month d')" "is_leap (year d)"] v eq by linarith
  next
    assume "nat (month d') < nat (month d)"
    then show ?thesis using days_before_month_mono [of "nat (month d')" "nat (month d)" "is_leap (year d)"] v eq by linarith
  qed
  then have "month d = month d'" using v by simp
  with eq year show ?thesis by (cases d; cases d') simp
qed

lemma date_ordinal:
  assumes "valid_date d"
  shows "date_fromordinal (date_toordinal d) = d"
proof -
  let ?n = "date_toordinal d" and ?d = "date_fromordinal (date_toordinal d)"
  have y: "year ?d = year_of_ordinal ?n" by (simp add: date_fromordinal_def Let_def)
  have "days_before_year (year ?d) < ?n" "?n \<le> days_before_year (year ?d + 1)"
    using year_of_ordinal_bounds [of ?n] by (simp_all add: y days_before_year_Suc)
  then have "year ?d = year d"
    using valid_date_ordinal [OF assms] days_before_year_mono [of "year ?d + 1" "year d"]
      days_before_year_mono [of "year d + 1" "year ?d"] by linarith
  then have "valid_date ?d" using assms by (intro valid_date_fromordinal) (simp_all add: valid_date_def)
  then show ?thesis by (rule date_toordinal_inj) (simp_all add: assms date_toordinal_fromordinal)
qed

text \<open>
  The calendar's two directions agree: the date of a valid date's ordinal is that date,
  and the ordinal of an ordinal's date is that ordinal.
\<close>

theorem date_ordinal_roundtrip:
  assumes "valid_date d"
  shows "date_fromordinal (date_toordinal d) = d \<and> date_toordinal (date_fromordinal n) = n"
  using date_ordinal [OF assms] date_toordinal_fromordinal by simp

lemma date_ordinal_roundtrip_witness: "date_fromordinal (date_toordinal (Date 2024 2 29)) = Date 2024 2 29"
  by (rule conjunct1 [OF date_ordinal_roundtrip]) code_simp

text \<open>The first of the next month.\<close>

definition next_month_first :: "py_date \<Rightarrow> py_date" where
  "next_month_first d = (if month d = 12 then Date (year d + 1) 1 1 else Date (year d) (month d + 1) 1)"

lemma next_month_ordinal:
  assumes "valid_date (Date y m 1)" and "k = days_in_month (is_leap y) (nat m)"
  shows "date_toordinal (next_month_first (Date y m 1)) = date_toordinal (Date y m 1) + k"
proof (cases "m = 12")
  case True
  have "days_before_month (is_leap (y + 1)) 1 = 0" "days_before_month (is_leap y) 12 + days_in_month (is_leap y) 12 = 365 + (if is_leap y then 1 else 0)"
    by (simp_all add: days_in_month_def days_before_month_def)
  with True assms(2) show ?thesis
    by (simp add: next_month_first_def date_toordinal_def days_before_year_Suc)
next
  case False
  have "nat (m + 1) = nat m + 1" using assms(1) by (auto simp: valid_date_def)
  with False assms(2) show ?thesis
    by (simp add: next_month_first_def date_toordinal_def days_in_month_def)
qed

lemma days_in_month_bounds: "1 \<le> m \<Longrightarrow> m \<le> 12 \<Longrightarrow> 28 \<le> days_in_month leap m"
proof -
  assume "1 \<le> m" "m \<le> 12"
  moreover have "list_all (\<lambda>m. 28 \<le> days_in_month leap m) [1..<13]"
    by (simp add: upt_rec days_in_month_def days_before_month_def)
  ultimately show ?thesis by (simp only: list_all_iff set_upt atLeastLessThan_iff) simp
qed

lemma days_in_month_31: "1 \<le> m \<Longrightarrow> m \<le> 12 \<Longrightarrow> days_in_month leap m \<le> 31"
  by (rule days_in_month_le)

lemma nat_month: "1 \<le> m \<Longrightarrow> 1 \<le> nat m"
  by linarith

lemma nat_month_12: "m \<le> 12 \<Longrightarrow> nat m \<le> 12"
  by simp

lemma valid_first: "1 \<le> y \<Longrightarrow> y \<le> 9999 \<Longrightarrow> 1 \<le> m \<Longrightarrow> m \<le> 12 \<Longrightarrow> 1 \<le> d \<Longrightarrow> d \<le> 28 \<Longrightarrow> valid_date (Date y m d)"
  using days_in_month_bounds [of "nat m" "is_leap y", OF nat_month nat_month_12] by (simp add: valid_date_def)

lemma make_date_valid: "valid_date (Date y m d) \<Longrightarrow> make_date y m d = Inr (Date y m d)"
  by (simp add: valid_date_def make_date_def)

lemma date_plus_valid:
  assumes "valid_date d'" and "date_toordinal d + n = date_toordinal d'"
  shows "date_plus d n = Inr d'"
proof -
  have "days_before_year 1 \<le> days_before_year (year d')" "days_before_year (year d' + 1) \<le> days_before_year 10000"
    using assms(1) by (auto intro: days_before_year_mono simp: valid_date_def)
  moreover have "days_before_year 1 = 0" "days_before_year 10000 = max_ordinal"
    by (simp_all add: days_before_year_def max_ordinal_def)
  ultimately show ?thesis
    using valid_date_ordinal [OF assms(1)] date_ordinal [OF assms(1)] assms(2) by (simp add: date_plus_def)
qed

lemma late_plus_4:
  assumes "1 \<le> y" "y \<le> 9999" "1 \<le> m" "m \<le> 12" "\<not> (y = 9999 \<and> m = 12)"
  defines "nm \<equiv> next_month_first (Date y m 1)"
  shows "date_plus (Date y m 28) 4 = Inr (Date (year nm) (month nm) (32 - days_in_month (is_leap y) (nat m)))" (is "_ = Inr ?d")
proof -
  let ?k = "days_in_month (is_leap y) (nat m)"
  have k: "28 \<le> ?k" "?k \<le> 31" using days_in_month_bounds [of "nat m"] days_in_month_31 [of "nat m"] assms by auto
  have nm: "1 \<le> year nm" "year nm \<le> 9999" "1 \<le> month nm" "month nm \<le> 12" "day nm = 1"
    using assms by (auto simp: nm_def next_month_first_def)
  have "date_toordinal nm = date_toordinal (Date y m 1) + ?k"
    unfolding nm_def by (rule next_month_ordinal) (use assms in \<open>simp_all add: valid_first\<close>)
  then have "date_toordinal (Date y m 28) + 4 = date_toordinal ?d"
    using nm(5) by (simp add: date_toordinal_def)
  moreover have "valid_date ?d" using nm k by (intro valid_first) simp_all
  ultimately show ?thesis by (intro date_plus_valid)
qed

text \<open>
  C24: The window of a month runs from its first day to the first day of the next month, as
  many days later as the month has, so that consecutive months meet without a gap or an
  overlap; a month or a year out of range and the last month of the calendar are errors.
\<close>

theorem month_bounds_exact:
  "let y' = int_or y (year today); m' = int_or m (month today); first = Date y' m' 1; next = next_month_first first in
   month_bounds today y m =
     (if m' < 1 \<or> 12 < m' then Inl (ValueError ''month must be between 1 and 12'')
      else if y' < 1 \<or> 9999 < y' then Inl (ValueError (''year '' @ py_str_int y' @ '' is out of range''))
      else if y' = 9999 \<and> m' = 12 then Inl (OverflowError ''date value out of range'')
      else Inr (first, next)) \<and>
   (1 \<le> y' \<and> y' \<le> 9999 \<and> 1 \<le> m' \<and> m' \<le> 12 \<longrightarrow>
      date_toordinal next = date_toordinal first + days_in_month (is_leap y') (nat m'))"
proof -
  define y' m' where "y' = int_or y (year today)" and "m' = int_or m (month today)"
  have step: "date_toordinal (next_month_first (Date y' m' 1)) =
      date_toordinal (Date y' m' 1) + days_in_month (is_leap y') (nat m')" if "1 \<le> y'" "y' \<le> 9999" "1 \<le> m'" "m' \<le> 12"
    using that by (intro next_month_ordinal) (simp_all add: valid_first)
  show ?thesis
  proof (cases "1 \<le> y' \<and> y' \<le> 9999 \<and> 1 \<le> m' \<and> m' \<le> 12")
    case False
    then show ?thesis
      by (auto simp: month_bounds_def Let_def y'_def [symmetric] m'_def [symmetric] make_date_def)
  next
    case True
    then have ok: "make_date y' m' 1 = Inr (Date y' m' 1)" "make_date y' m' 28 = Inr (Date y' m' 28)"
      by (simp_all add: make_date_valid valid_first)
    show ?thesis
    proof (cases "y' = 9999 \<and> m' = 12")
      case last: True
      have "date_plus (Date 9999 12 28) 4 = Inl (OverflowError ''date value out of range'')" by code_simp
      with last ok step True show ?thesis
        by (simp add: month_bounds_def Let_def y'_def [symmetric] m'_def [symmetric])
    next
      case False
      let ?nm = "next_month_first (Date y' m' 1)"
      have "1 \<le> year ?nm" "year ?nm \<le> 9999" "1 \<le> month ?nm" "month ?nm \<le> 12" "Date (year ?nm) (month ?nm) 1 = ?nm"
        using True False by (auto simp: next_month_first_def)
      then have "make_date (year ?nm) (month ?nm) 1 = Inr ?nm"
        using make_date_valid [OF valid_first, of "year ?nm" "month ?nm" 1] by simp
      with late_plus_4 [of y' m'] ok step True False show ?thesis
        by (simp add: month_bounds_def Let_def y'_def [symmetric] m'_def [symmetric])
    qed
  qed
qed


lemma month_bounds_exact_witness:
  "month_bounds (Date 2026 1 5) None (Some 12) = Inr (Date 2026 12 1, Date 2027 1 1) \<and>
   date_toordinal (Date 2027 1 1) = date_toordinal (Date 2026 12 1) + 31"
  using month_bounds_exact [of None "Date 2026 1 5" "Some 12"]
  by (simp add: int_or_def next_month_first_def Let_def days_in_month_def days_before_month_def)


subsection \<open>Providers\<close>

text \<open>\<open>normalize_providers\<close>: the loop over the entries, then the first occurrence of each.\<close>

fun provider_entries :: "pystr list \<Rightarrow> (pystr list) res" where
  "provider_entries [] = Inr []"
| "provider_entries (entry # entries) =
     (let p = py_lower (py_strip entry) in
      if p = [] then provider_entries entries
      else if p \<in> set [''graph'', ''msgraph'', ''outlook'', ''microsoft'']
      then res_bind (provider_entries entries) (\<lambda>ps. Inr (''outlook'' # ps))
      else if p = ''gmail'' then res_bind (provider_entries entries) (\<lambda>ps. Inr (''gmail'' # ps))
      else Inl (ValueError (''Unknown provider: '' @ entry)))"

definition dedupe_in_order :: "pystr list \<Rightarrow> pystr list" where
  "dedupe_in_order ps = foldl (\<lambda>seen p. if p \<in> set seen then seen else seen @ [p]) [] ps"

definition normalize_providers :: "pystr \<Rightarrow> (pystr list) res" where
  "normalize_providers raw =
     (if raw = [] then Inr [''gmail'', ''outlook'']
      else res_bind (provider_entries (py_split (CHR '','') raw)) (\<lambda>providers.
        let deduped = dedupe_in_order providers
        in Inr (if deduped = [] then [''gmail'', ''outlook''] else deduped)))"

definition merged_pythonpath :: "pystr \<Rightarrow> pystr option \<Rightarrow> pystr" where
  "merged_pythonpath extra current =
     py_join '':''
       (case current of
          None \<Rightarrow> [extra]
        | Some cur \<Rightarrow>
            if cur = [] then [extra]
            else foldl (\<lambda>parts chunk. if chunk \<noteq> [] \<and> chunk \<notin> set parts then parts @ [chunk] else parts)
                   [extra] (py_split (CHR '':'') cur))"

text \<open>\<open>shlex.split\<close> in POSIX mode: words, quotes and backslashes.\<close>

datatype shlex_state = Between | InWord | InQuote char | Escaped shlex_state

definition shlex_space :: "char \<Rightarrow> bool" where
  "shlex_space c \<longleftrightarrow> c \<in> set [CHR '' '', CHR 0x09, CHR 0x0D, CHR 0x0A]"

definition shlex_quote :: "char \<Rightarrow> bool" where
  "shlex_quote c \<longleftrightarrow> c = CHR 0x27 \<or> c = CHR 0x22"

definition shlex_backslash :: char where "shlex_backslash = CHR 0x5C"

text \<open>The word so far, and whether a quote was seen in it (an empty quoted word counts).\<close>

fun shlex_words :: "shlex_state \<Rightarrow> pystr \<Rightarrow> bool \<Rightarrow> pystr \<Rightarrow> (pystr list) res" where
  "shlex_words Between token quoted [] = Inr (if token \<noteq> [] \<or> quoted then [token] else [])"
| "shlex_words InWord token quoted [] = Inr (if token \<noteq> [] \<or> quoted then [token] else [])"
| "shlex_words (InQuote q) token quoted [] = Inl (ValueError ''No closing quotation'')"
| "shlex_words (Escaped st) token quoted [] = Inl (ValueError ''No escaped character'')"
| "shlex_words Between token quoted (c # s) =
     (if shlex_space c
      then (if token \<noteq> [] \<or> quoted
            then res_bind (shlex_words Between [] False s) (\<lambda>ws. Inr (token # ws))
            else shlex_words Between token quoted s)
      else if c = shlex_backslash then shlex_words (Escaped InWord) token quoted s
      else if shlex_quote c then shlex_words (InQuote c) token quoted s
      else shlex_words InWord [c] quoted s)"
| "shlex_words InWord token quoted (c # s) =
     (if shlex_space c
      then (if token \<noteq> [] \<or> quoted
            then res_bind (shlex_words Between [] False s) (\<lambda>ws. Inr (token # ws))
            else shlex_words Between token quoted s)
      else if shlex_quote c then shlex_words (InQuote c) token quoted s
      else if c = shlex_backslash then shlex_words (Escaped InWord) token quoted s
      else shlex_words InWord (token @ [c]) quoted s)"
| "shlex_words (InQuote q) token quoted (c # s) =
     (if c = q then shlex_words InWord token True s
      else if c = shlex_backslash \<and> q = CHR 0x22 then shlex_words (Escaped (InQuote q)) token True s
      else shlex_words (InQuote q) (token @ [c]) True s)"
| "shlex_words (Escaped st) token quoted (c # s) =
     (case st of
        InQuote q \<Rightarrow>
          shlex_words st (token @ (if c \<noteq> shlex_backslash \<and> c \<noteq> q then [shlex_backslash] else []) @ [c]) quoted s
      | _ \<Rightarrow> shlex_words st (token @ [c]) quoted s)"

definition shlex_split :: "pystr \<Rightarrow> (pystr list) res" where
  "shlex_split s = shlex_words Between [] False s"


subsection \<open>Invocations\<close>

record provider_invocation =
  pi_module :: pystr
  pi_argv :: "pystr list"
  pi_python_bin :: pystr

definition to_command :: "provider_invocation \<Rightarrow> pystr list" where
  "to_command ivn = [pi_python_bin ivn, ''-m'', pi_module ivn] @ pi_argv ivn"

definition provider_argv :: "pystr list \<Rightarrow> pystr list" where
  "provider_argv command =
     (if 3 \<le> length command \<and> command ! 1 = ''-m'' then drop 3 command else command)"

definition invocation_from_command :: "pystr list \<Rightarrow> provider_invocation" where
  "invocation_from_command command =
     (if 3 \<le> length command \<and> command ! 1 = ''-m''
      then \<lparr>pi_module = command ! 2, pi_argv = drop 3 command, pi_python_bin = command ! 0\<rparr>
      else \<lparr>pi_module = [], pi_argv = command, pi_python_bin = ''python''\<rparr>)"

record provider_run =
  pr_name :: pystr
  pr_invoices_dir :: path
  pr_command :: "pystr list"
  pr_invocation :: "provider_invocation option"

text \<open>\<open>str(path)\<close> of a path below the base directory is its parts joined by slashes.\<close>

definition finder_run :: "pystr \<Rightarrow> path \<Rightarrow> pystr \<Rightarrow> pystr \<Rightarrow> pystr list \<Rightarrow> provider_run" where
  "finder_run name dir finder python_bin argv =
     (let ivn = \<lparr>pi_module = finder, pi_argv = argv, pi_python_bin = python_bin\<rparr>
      in \<lparr>pr_name = name, pr_invoices_dir = dir, pr_command = to_command ivn, pr_invocation = Some ivn\<rparr>)"

definition common_argv :: "pystr \<Rightarrow> path \<Rightarrow> pystr \<Rightarrow> pystr \<Rightarrow> pystr list" where
  "common_argv name dir start_date end_date =
     [''--start-date'', start_date, ''--end-date'', end_date,
      ''--invoices-dir'', path_text dir,
      ''--download-report'', path_text (dir @ [''download_report_'' @ name @ ''.json'']),
      ''--save-json'', path_text (dir @ [''invoices_'' @ name @ ''.json'']),
      ''--save-csv'', path_text (dir @ [''invoices_'' @ name @ ''.csv''])]"

definition extra_args :: "pystr \<Rightarrow> (pystr list) res" where
  "extra_args raw = (if raw = [] then Inr [] else shlex_split raw)"

text \<open>\<open>build_runs\<close>; \<open>authority\<close> is the variable \<open>GRAPH_AUTHORITY\<close>, \<open>consumers\<close> if unset.\<close>

definition build_runs ::
  "pystr list \<Rightarrow> pystr \<Rightarrow> pystr \<Rightarrow> pystr \<Rightarrow> path \<Rightarrow> pystr \<Rightarrow> pystr option \<Rightarrow> pystr \<Rightarrow> pystr \<Rightarrow> pystr
    \<Rightarrow> (provider_run list) res" where
  "build_runs providers python_bin start_date end_date base_dir month_label graph_client_id gmail_extra graph_extra authority =
     res_bind
       (if ''gmail'' \<in> set providers
        then let dir = base_dir @ [''invoices_gmail_'' @ month_label]
             in res_bind (extra_args gmail_extra) (\<lambda>extra.
                  Inr [finder_run ''gmail'' dir ''invplatform.cli.gmail_invoice_finder'' python_bin
                         (common_argv ''gmail'' dir start_date end_date @ extra)])
        else Inr [])
       (\<lambda>gmail.
         if ''outlook'' \<in> set providers
         then (case graph_client_id of
                 None \<Rightarrow> Inl (OtherError ''GRAPH_CLIENT_ID is required for Outlook/Graph runs (pass via --graph-client-id or env var).'')
               | Some client \<Rightarrow>
                   if client = []
                   then Inl (OtherError ''GRAPH_CLIENT_ID is required for Outlook/Graph runs (pass via --graph-client-id or env var).'')
                   else let dir = base_dir @ [''invoices_outlook_'' @ month_label]
                        in res_bind (extra_args graph_extra) (\<lambda>extra.
                             Inr (gmail @ [finder_run ''outlook'' dir ''invplatform.cli.graph_invoice_finder'' python_bin
                               ([''--client-id'', client, ''--authority'', authority] @
                                common_argv ''outlook'' dir start_date end_date @ extra)])))
         else Inr gmail)"

lemma set_dedupe_in_order: "set (foldl (\<lambda>seen p. if p \<in> set seen then seen else seen @ [p]) acc ps) = set acc \<union> set ps"
  by (induction ps arbitrary: acc) auto

lemma distinct_dedupe_in_order:
  "distinct acc \<Longrightarrow> distinct (foldl (\<lambda>seen p. if p \<in> set seen then seen else seen @ [p]) acc ps)"
  by (induction ps arbitrary: acc) auto

lemma provider_entries_set: "provider_entries entries = Inr ps \<Longrightarrow> set ps \<subseteq> {''gmail'', ''outlook''}"
proof (induction entries arbitrary: ps)
  case (Cons entry entries)
  then show ?case
    by (cases "provider_entries entries") (auto simp: Let_def split: if_splits)
qed simp

lemma finder_run_simps [simp]:
  "pr_name (finder_run n d m b a) = n" "pr_invoices_dir (finder_run n d m b a) = d"
  "pr_invocation (finder_run n d m b a) = Some \<lparr>pi_module = m, pi_argv = a, pi_python_bin = b\<rparr>"
  "pr_command (finder_run n d m b a) = b # ''-m'' # m # a"
  by (simp_all add: finder_run_def to_command_def Let_def)

lemma command_roundtrip [simp]:
  "to_command \<lparr>pi_module = m, pi_argv = a, pi_python_bin = b\<rparr> = b # ''-m'' # m # a"
  "invocation_from_command (b # ''-m'' # m # a) = \<lparr>pi_module = m, pi_argv = a, pi_python_bin = b\<rparr>"
  by (simp_all add: to_command_def invocation_from_command_def)

text \<open>
  Whatever list of providers is asked for, the runs built for it are those of the two
  finders, each at most once, never none, each with its own directory; and the command line
  that is shown leads back to the invocation that is run.
\<close>

theorem build_runs_sound:
  assumes "normalize_providers raw = Inr providers"
    and "build_runs providers bin start_date end_date base label client ge oe auth = Inr runs"
  shows "providers \<noteq> [] \<and> distinct providers \<and> set providers = set (map pr_name runs) \<and>
    set (map pr_name runs) \<subseteq> {''gmail'', ''outlook''} \<and> distinct (map pr_name runs) \<and> distinct (map pr_invoices_dir runs) \<and>
    list_all (\<lambda>r. pr_invoices_dir r = base @ [''invoices_'' @ pr_name r @ ''_'' @ label] \<and>
      map_option to_command (pr_invocation r) = Some (pr_command r) \<and>
      pr_invocation r = Some (invocation_from_command (pr_command r))) runs"
proof -
  have some: "providers \<noteq> []" and dist: "distinct providers" and sub: "set providers \<subseteq> {''gmail'', ''outlook''}"
    using assms(1)
    by (auto simp: normalize_providers_def Let_def res_bind_Inr dedupe_in_order_def set_dedupe_in_order
        distinct_dedupe_in_order split: if_splits dest: provider_entries_set [THEN subsetD])
  obtain gx ox client' where runs: "runs =
      (if ''gmail'' \<in> set providers
       then [finder_run ''gmail'' (base @ [''invoices_gmail_'' @ label]) ''invplatform.cli.gmail_invoice_finder'' bin gx] else []) @
      (if ''outlook'' \<in> set providers
       then [finder_run ''outlook'' (base @ [''invoices_outlook_'' @ label]) ''invplatform.cli.graph_invoice_finder'' bin ox] else [])"
  proof (cases "''gmail'' \<in> set providers"; cases "''outlook'' \<in> set providers")
  qed (use assms(2) in \<open>auto simp: build_runs_def Let_def res_bind_Inr split: option.splits if_splits\<close>)
  consider "set providers = {''gmail'', ''outlook''}" | "set providers = {''gmail''}" | "set providers = {''outlook''}"
    using some sub by (cases "''gmail'' \<in> set providers"; cases "''outlook'' \<in> set providers") (blast+, simp add: subset_insert)
  then show ?thesis
  proof cases
    case 1
    then show ?thesis unfolding runs using some dist by simp
  next
    case 2
    then show ?thesis unfolding runs using some dist by simp
  next
    case 3
    then show ?thesis unfolding runs using some dist by simp
  qed
qed

lemma build_runs_sound_witness:
  "\<exists>runs. build_runs [''outlook'', ''gmail''] ''py'' ''2026-01-01'' ''2026-02-01'' [''inv''] ''01_2026'' (Some ''id'') [] ''--x \"a b\"'' ''consumers'' = Inr runs
     \<and> set (map pr_name runs) = {''gmail'', ''outlook''}"
proof -
  have providers: "normalize_providers '' Graph,gmail,,outlook'' = Inr [''outlook'', ''gmail'']" by code_simp
  have "\<not> isl (build_runs [''outlook'', ''gmail''] ''py'' ''2026-01-01'' ''2026-02-01'' [''inv''] ''01_2026'' (Some ''id'') []
      ''--x \"a b\"'' ''consumers'')" by code_simp
  then obtain runs where runs: "build_runs [''outlook'', ''gmail''] ''py'' ''2026-01-01'' ''2026-02-01'' [''inv''] ''01_2026'' (Some ''id'') []
      ''--x \"a b\"'' ''consumers'' = Inr runs" by (metis sum.collapse(2))
  from build_runs_sound [OF providers runs] have "set (map pr_name runs) = set [''outlook'', ''gmail'']" by metis
  then have "set (map pr_name runs) = {''gmail'', ''outlook''}" by (simp only: list.set insert_commute)
  with runs show ?thesis by blast
qed

end
