(* ===== verification/Month_Run.thy ===== *)
theory Month_Run
  imports Month_Dedupe Month_Plan Py_Float Worker_Reports
begin

text \<open>
  A monthly run: the finders' entry points behind \<open>usecases/provider_runner.py\<close>, and \<open>main\<close> of
  \<open>cli/monthly_invoices.py\<close>, which runs them, removes duplicates in the directory of each
  provider that succeeded, copies the rest into the month's folder and writes a summary.
  A finder is a function of its arguments on the file system. The threads of a parallel run
  are modelled as running one after the other, in the order their results are collected.
\<close>

subsection \<open>Running the finders\<close>

datatype runner_outcome = Returned int | Exited "int option" | Raised pystr

record finders =
  fd_gmail :: "pystr list \<Rightarrow> local_fs \<Rightarrow> runner_outcome \<times> local_fs"
  fd_outlook :: "pystr list \<Rightarrow> local_fs \<Rightarrow> runner_outcome \<times> local_fs"

record execution_result =
  er_returncode :: int
  er_error :: "pystr option"

definition resolve_runner ::
  "finders \<Rightarrow> pystr \<Rightarrow> (pystr list \<Rightarrow> local_fs \<Rightarrow> runner_outcome \<times> local_fs) res" where
  "resolve_runner fd name =
     (if name = ''gmail'' then Inr (fd_gmail fd)
      else if name = ''outlook'' then Inr (fd_outlook fd)
      else Inl (ValueError (''Unknown provider: '' @ name)))"

fun execution_of :: "runner_outcome \<Rightarrow> execution_result" where
  "execution_of (Returned n) = \<lparr>er_returncode = n, er_error = None\<rparr>"
| "execution_of (Exited c) = \<lparr>er_returncode = (case c of Some n \<Rightarrow> n | None \<Rightarrow> 1), er_error = None\<rparr>"
| "execution_of (Raised message) = \<lparr>er_returncode = 1, er_error = Some message\<rparr>"

text \<open>\<open>execute_provider(name, run.invocation or run.command)\<close>\<close>

definition execute_provider ::
  "finders \<Rightarrow> pystr \<Rightarrow> provider_invocation option \<Rightarrow> pystr list \<Rightarrow> local_fs \<Rightarrow> execution_result res \<times> local_fs" where
  "execute_provider fd name invocation command fs =
     (let argv = (case invocation of Some i \<Rightarrow> pi_argv i | None \<Rightarrow> provider_argv command) in
      case resolve_runner fd name of
        Inl err \<Rightarrow> (Inl err, fs)
      | Inr runner \<Rightarrow> (case runner argv fs of (outcome, fs) \<Rightarrow> (Inr (execution_of outcome), fs)))"

record provider_result =
  ps_name :: pystr
  ps_invoices_dir :: path
  ps_command :: "pystr list"
  ps_returncode :: int
  ps_duration :: rat

definition run_provider :: "finders \<Rightarrow> rat \<Rightarrow> provider_run \<Rightarrow> local_fs \<Rightarrow> provider_result res \<times> local_fs" where
  "run_provider fd duration run fs =
     (case make_dir (pr_invoices_dir run) fs of
        (Inl err, fs) \<Rightarrow> (Inl err, fs)
      | (Inr _, fs) \<Rightarrow>
          (case execute_provider fd (pr_name run) (pr_invocation run) (pr_command run) fs of
             (Inl err, fs) \<Rightarrow> (Inl err, fs)
           | (Inr execution, fs) \<Rightarrow>
               (Inr \<lparr>ps_name = pr_name run, ps_invoices_dir = pr_invoices_dir run, ps_command = pr_command run,
                     ps_returncode = er_returncode execution, ps_duration = duration\<rparr>, fs)))"

text \<open>\<open>run_all\<close>; \<open>durations\<close> are the measured times by provider.\<close>

fun run_all :: "finders \<Rightarrow> (pystr \<Rightarrow> rat) \<Rightarrow> provider_run list \<Rightarrow> local_fs \<Rightarrow> (provider_result list) res \<times> local_fs" where
  "run_all fd durations [] fs = (Inr [], fs)"
| "run_all fd durations (run # runs) fs =
     (case run_provider fd (durations (pr_name run)) run fs of
        (Inl err, fs) \<Rightarrow> (Inl err, fs)
      | (Inr result, fs) \<Rightarrow>
          (case run_all fd durations runs fs of
             (Inl err, fs) \<Rightarrow> (Inl err, fs)
           | (Inr results, fs) \<Rightarrow> (Inr (result # results), fs)))"


subsection \<open>The summary\<close>

text \<open>\<open>json.dumps(payload, indent=2)\<close>\<close>

fun json_indented :: "nat \<Rightarrow> json \<Rightarrow> pystr" where
  "json_indented k (JList js) =
     (if js = [] then ''[]''
      else ''['' @ indent_of (k + 1) @ py_join ('','' @ indent_of (k + 1)) (map (json_indented (k + 1)) js)
           @ indent_of k @ '']'')"
| "json_indented k (JObj kvs) =
     (if kvs = [] then ''{}''
      else ''{'' @ indent_of (k + 1)
           @ py_join ('','' @ indent_of (k + 1))
               (map (\<lambda>(key, v). json_quote True key @ '': '' @ json_indented (k + 1) v) kvs)
           @ indent_of k @ ''}'')"
| "json_indented k j = json_str True [] [] j"

definition consolidation_dict :: "consolidation \<Rightarrow> json" where
  "consolidation_dict c =
     JObj [(''copied'', JInt (cs_copied c)), (''duplicates'', JInt (cs_duplicates c)),
           (''sources'', JInt (cs_sources c)), (''existing'', JInt (cs_existing c))]"

definition dedupe_dict :: "dedupe_stats \<Rightarrow> json" where
  "dedupe_dict d =
     JObj [(''scanned'', JInt (dd_scanned d)), (''kept'', JInt (dd_kept d)), (''removed'', JInt (dd_removed d)),
           (''moved'', JInt (dd_moved d)), (''errors'', JInt (dd_errors d)), (''dedup_by'', JStr ''hash+stem+text'')]"

definition summary_dict ::
  "path \<Rightarrow> pystr \<Rightarrow> pystr \<Rightarrow> pystr \<Rightarrow> provider_result list \<Rightarrow> consolidation \<Rightarrow> (pystr \<times> dedupe_stats) list \<Rightarrow> json \<Rightarrow> json" where
  "summary_dict dest start_date end_date label results consolidation dedupe timings =
     JObj [(''start_date'', JStr start_date), (''end_date'', JStr end_date), (''label'', JStr label),
           (''consolidated_dir'', JStr (path_text dest)),
           (''providers'', JObj (map (\<lambda>r. (ps_name r,
              JObj [(''invoices_dir'', JStr (path_text (ps_invoices_dir r))), (''returncode'', JInt (ps_returncode r)),
                    (''command'', JStr (py_join '' '' (ps_command r))),
                    (''duration_seconds'', JFloat (py_round 3 (ps_duration r)))])) results)),
           (''consolidation'', consolidation_dict consolidation),
           (''deduplication'', JObj (map (\<lambda>(n, d). (n, dedupe_dict d)) dedupe)),
           (''timings'', timings)]"

definition write_summary :: "path \<Rightarrow> json \<Rightarrow> local_fs \<Rightarrow> unit res \<times> local_fs" where
  "write_summary dest summary fs =
     (case make_dir dest fs of
        (Inl err, fs) \<Rightarrow> (Inl err, fs)
      | (Inr _, fs) \<Rightarrow>
          let manifest = dest @ [''run_summary.json''] in
          if is_dir fs manifest then (Inl (os_error ''[Errno 21] Is a directory'' manifest), fs)
          else (Inr (), write_file manifest (utf8 (json_indented 0 summary)) fs))"


subsection \<open>The whole run\<close>

fun dedupe_results ::
  "env \<Rightarrow> os_access \<Rightarrow> (bytes \<Rightarrow> pystr option) \<Rightarrow> provider_result list \<Rightarrow> local_fs \<Rightarrow> ((pystr \<times> dedupe_stats) list) res \<times> local_fs" where
  "dedupe_results e os fp [] fs = (Inr [], fs)"
| "dedupe_results e os fp (r # rs) fs =
     (if ps_returncode r = 0
      then (case dedupe_provider_dir e os fp (ps_invoices_dir r) fs of
              (Inl err, fs) \<Rightarrow> (Inl err, fs)
            | (Inr stats, fs) \<Rightarrow>
                (case dedupe_results e os fp rs fs of
                   (Inl err, fs) \<Rightarrow> (Inl err, fs)
                 | (Inr rest, fs) \<Rightarrow> (Inr ((ps_name r, stats) # rest), fs)))
      else dedupe_results e os fp rs fs)"

text \<open>What \<open>main\<close> does once the finders have run.\<close>

definition gather_month ::
  "env \<Rightarrow> os_access \<Rightarrow> (bytes \<Rightarrow> pystr option) \<Rightarrow> path \<Rightarrow> pystr \<times> pystr \<times> pystr \<Rightarrow> json \<Rightarrow> provider_result list \<Rightarrow> local_fs
    \<Rightarrow> unit res \<times> local_fs" where
  "gather_month e os fp base_dir window timings results fs =
     (case window of (start_date, end_date, month_label) \<Rightarrow>
      case dedupe_results e os fp results fs of
        (Inl err, fs) \<Rightarrow> (Inl err, fs)
      | (Inr dedupe, fs) \<Rightarrow>
          let dest = base_dir @ [''invoices_'' @ month_label];
              successful = map ps_invoices_dir (filter (\<lambda>r. ps_returncode r = 0) results) in
          (case consolidate_pdfs e os dest successful fs of
             (Inl err, fs) \<Rightarrow> (Inl err, fs)
           | (Inr stats, fs) \<Rightarrow>
               write_summary dest (summary_dict dest start_date end_date month_label results stats dedupe timings) fs))"

record month_args =
  ma_year :: "int option"
  ma_month :: "int option"
  ma_base_dir :: path
  ma_providers :: pystr
  ma_python_bin :: pystr
  ma_gmail_extra :: pystr
  ma_graph_extra :: pystr
  ma_graph_client_id :: "pystr option"
  ma_authority :: pystr

definition month_main ::
  "env \<Rightarrow> os_access \<Rightarrow> (bytes \<Rightarrow> pystr option) \<Rightarrow> finders \<Rightarrow> (pystr \<Rightarrow> rat) \<Rightarrow> json \<Rightarrow> py_date \<Rightarrow> month_args \<Rightarrow> local_fs
    \<Rightarrow> unit res \<times> local_fs" where
  "month_main e os fp fd durations timings today args fs =
     (case month_window today (ma_year args) (ma_month args) of
        Inl err \<Rightarrow> (Inl err, fs)
      | Inr (start_date, end_date, month_label) \<Rightarrow>
     (case res_bind (normalize_providers (ma_providers args)) (\<lambda>providers.
             build_runs providers (ma_python_bin args) start_date end_date (ma_base_dir args) month_label
               (ma_graph_client_id args) (ma_gmail_extra args) (ma_graph_extra args) (ma_authority args)) of
        Inl err \<Rightarrow> (Inl err, fs)
      | Inr runs \<Rightarrow>
          if runs = [] then (Inr (), fs)
          else (case run_all fd durations runs fs of
                  (Inl err, fs) \<Rightarrow> (Inl err, fs)
                | (Inr results, fs) \<Rightarrow>
                    (case gather_month e os fp (ma_base_dir args) (start_date, end_date, month_label) timings results fs of
                       (Inl err, fs) \<Rightarrow> (Inl err, fs)
                     | (Inr _, fs) \<Rightarrow>
                         let failures = filter (\<lambda>r. ps_returncode r \<noteq> 0) results in
                         if failures \<noteq> []
                         then (Inl (OtherError (''Some providers failed: '' @ py_join '', '' (map ps_name failures))), fs)
                         else (Inr (), fs)))))"


subsection \<open>Nothing a finder saved is lost\<close>

definition keeps_bytes :: "path \<Rightarrow> local_fs \<Rightarrow> local_fs \<Rightarrow> bool" where
  "keeps_bytes m fs fs' \<longleftrightarrow>
     (\<forall>p data. map_of (fs_files fs) p = Some data \<and> p \<noteq> m \<longrightarrow> (\<exists>q. map_of (fs_files fs') q = Some data \<and> q \<noteq> m))"

lemma keeps_bytes_same: "fs_files fs' = fs_files fs \<Longrightarrow> keeps_bytes m fs fs'"
  by (auto simp: keeps_bytes_def)

lemma keeps_bytes_trans: "keeps_bytes m fs1 fs2 \<Longrightarrow> keeps_bytes m fs2 fs3 \<Longrightarrow> keeps_bytes m fs1 fs3"
  unfolding keeps_bytes_def by meson

lemma dedupe_provider_keeps:
  assumes "dedupe_provider_dir e os fp target fs = (Inr stats, fs')" and "fs_ok fs"
    and "\<And>c. duplicates_of target @ [c] \<noteq> m"
  shows "fs_ok fs' \<and> keeps_bytes m fs fs'"
proof -
  have "shifted (duplicates_of target) (set (iter_invoice_pdfs target fs)) fs fs'"
  proof (cases "fs_exists fs target")
    case False
    with assms show ?thesis by (auto simp: dedupe_provider_dir_def Let_def shifted_files)
  next
    case True
    obtain st where run: "dedupe_pdfs e os fp target (iter_invoice_pdfs target fs)
        \<lparr>de_stats = \<lparr>dd_scanned = 0, dd_kept = 0, dd_removed = 0, dd_moved = 0, dd_errors = 0\<rparr>,
         de_hashes = [], de_stems = [], de_texts = [], de_fs = fs\<rparr> = (Inr (), st)" and "fs' = de_fs st"
      by (rule dedupe_runE [OF assms(1) True])
    then show ?thesis
      using dedupe_pdfs_shifted [OF _ run] assms(2) iter_pdfs_not_duplicates by simp
  qed
  then show ?thesis using assms(3) unfolding shifted_def keeps_bytes_def by blast
qed

lemma dedupe_results_keeps:
  assumes "dedupe_results e os fp rs fs = (Inr ds, fs')" and "fs_ok fs"
    and "\<And>target c. duplicates_of target @ [c] \<noteq> m"
  shows "fs_ok fs' \<and> keeps_bytes m fs fs'"
  using assms(1,2)
proof (induction rs arbitrary: fs ds)
  case (Cons r rs)
  show ?case
  proof (cases "ps_returncode r = 0")
    case True
    then obtain stats fs1 rest where one: "dedupe_provider_dir e os fp (ps_invoices_dir r) fs = (Inr stats, fs1)"
      and more: "dedupe_results e os fp rs fs1 = (Inr rest, fs')"
      using Cons.prems(1) by (auto split: prod.splits sum.splits)
    have "fs_ok fs1 \<and> keeps_bytes m fs fs1"
      by (rule dedupe_provider_keeps [OF one Cons.prems(2) assms(3)])
    with Cons.IH [OF more] show ?thesis by (blast intro: keeps_bytes_trans)
  next
    case False
    with Cons show ?thesis by simp
  qed
qed (simp add: keeps_bytes_same)

lemma consolidate_keeps:
  assumes "consolidate_pdfs e os dest sources fs = (Inr stats, fs')" and "fs_ok fs"
  shows "fs_ok fs' \<and> keeps_bytes m fs fs'"
  using consolidate_new [OF assms] by (auto simp: keeps_bytes_def)

lemma write_summary_files:
  assumes "write_summary dest summary fs = (Inr u, fs')" and "fs_ok fs"
  shows "\<exists>data. fs_files fs' = dict_set (dest @ [''run_summary.json'']) data (fs_files fs)"
  using assms make_dir_ok [of dest fs]
  by (auto simp: write_summary_def write_file_def Let_def split: prod.splits sum.splits if_splits)

text \<open>
  What the finders saved survives the month's clean-up: after duplicates are moved aside,
  the rest is copied into the month's folder and the summary is written, the bytes of every
  file there was before are still the bytes of some file, the old summary's excepted.
\<close>

theorem gather_month_keeps_bytes:
  assumes "gather_month e os fp base (start_date, end_date, label) timings results fs = (Inr u, fs')" and "fs_ok fs"
    and "map_of (fs_files fs) p = Some data" and "p \<noteq> base @ [''invoices_'' @ label, ''run_summary.json'']"
  shows "\<exists>q. map_of (fs_files fs') q = Some data"
proof -
  let ?m = "base @ [''invoices_'' @ label, ''run_summary.json'']"
  obtain ds fs1 stats fs2 summary where dd: "dedupe_results e os fp results fs = (Inr ds, fs1)"
    and cs: "consolidate_pdfs e os (base @ [''invoices_'' @ label])
        (map ps_invoices_dir (filter (\<lambda>r. ps_returncode r = 0) results)) fs1 = (Inr stats, fs2)"
    and ws: "write_summary (base @ [''invoices_'' @ label]) summary fs2 = (Inr u, fs')"
    using assms(1) by (auto simp: gather_month_def Let_def split: prod.splits sum.splits)
  have "duplicates_of target @ [c] \<noteq> ?m" for target c by (simp add: append_eq_append_conv2 append_eq_Cons_conv)
  with dedupe_results_keeps [OF dd assms(2)] have 1: "fs_ok fs1" "keeps_bytes ?m fs fs1" by auto
  from consolidate_keeps [OF cs 1(1)] have 2: "fs_ok fs2" "keeps_bytes ?m fs1 fs2" by auto
  from keeps_bytes_trans [OF 1(2) 2(2)] assms(3,4) obtain q where "map_of (fs_files fs2) q = Some data" "q \<noteq> ?m"
    unfolding keeps_bytes_def by blast
  moreover from write_summary_files [OF ws 2(1)] obtain d where "fs_files fs' = dict_set ?m d (fs_files fs2)" by auto
  ultimately show ?thesis by auto
qed

text \<open>
  The month's folder is complete: once a month is gathered, every readable PDF in the
  directory of a provider that succeeded has the digest of a file in the month's folder.
\<close>

theorem gather_month_complete:
  assumes "gather_month e os fp base (start_date, end_date, label) timings results fs = (Inr u, fs')" and "fs_ok fs"
    and "r \<in> set results" and "ps_returncode r = 0"
    and "pdf \<in> set (iter_invoice_pdfs (ps_invoices_dir r) fs')" and "readable os pdf"
  shows "\<exists>q data d. map_of (fs_files fs') pdf = Some data \<and> map_of (fs_files fs') q = Some d \<and>
    take (length base + 1) q = base @ [''invoices_'' @ label] \<and> file_digest e d = file_digest e data"
proof -
  let ?dest = "base @ [''invoices_'' @ label]" and ?m = "base @ [''invoices_'' @ label, ''run_summary.json'']"
  let ?srcs = "map ps_invoices_dir (filter (\<lambda>r. ps_returncode r = 0) results)"
  obtain ds fs1 stats fs2 summary where dd: "dedupe_results e os fp results fs = (Inr ds, fs1)"
    and cs: "consolidate_pdfs e os ?dest ?srcs fs1 = (Inr stats, fs2)"
    and ws: "write_summary ?dest summary fs2 = (Inr u, fs')"
    using assms(1) by (auto simp: gather_month_def Let_def split: prod.splits sum.splits)
  have "duplicates_of target @ [c] \<noteq> ?m" for target c by (simp add: append_eq_append_conv2 append_eq_Cons_conv)
  with dedupe_results_keeps [OF dd assms(2)] have ok1: "fs_ok fs1" by auto
  from consolidate_new [OF cs ok1] obtain new where new: "fs_ok fs2" "fs_files fs2 = fs_files fs1 @ new"
      "list_all (\<lambda>f. \<exists>c. fst f = ?dest @ [c] \<and> copy_name c) new"
      "list_all (\<lambda>src. set (pdf_digests e os src fs1) \<subseteq> set (map (file_digest e \<circ> snd) new) \<union> set (pdf_digests e os ?dest fs1)) ?srcs"
    by auto
  from write_summary_files [OF ws new(1)] obtain d where files: "fs_files fs' = dict_set ?m d (fs_files fs2)" by auto
  have keep: "map_of (fs_files fs') q = Some x" if "map_of (fs_files fs2) q = Some x" "q \<noteq> ?m" for q x
    using that by (simp add: files)
  have old: "map_of (fs_files fs') q = Some x" if "map_of (fs_files fs1) q = Some x" "q \<noteq> ?m" for q x
    using that new(2) by (intro keep) simp_all
  have not_m: "pdf_name (last q) \<Longrightarrow> q \<noteq> ?m" for q by (auto simp: pdf_name_def)
  have pdf: "is_file fs' pdf" "pdf_name (last pdf)" "take (length (ps_invoices_dir r)) pdf = ps_invoices_dir r"
      "length (ps_invoices_dir r) < length pdf" "\<not> list_ex (\<lambda>part. part \<in> set skip_dirs) pdf"
    using assms(5) by (auto simp: iter_invoice_pdfs_def split: if_splits)
  then obtain data where data: "map_of (fs_files fs') pdf = Some data" by (auto simp: is_file_def)
  with not_m [OF pdf(2)] have in2: "map_of (fs_files fs2) pdf = Some data" by (simp add: files)
  show ?thesis
  proof (cases "map_of (fs_files fs1) pdf")
    case None
    with in2 new(2) have "(pdf, data) \<in> set new" by (auto simp: map_add_def dest: map_of_SomeD split: option.splits)
    with new(3) obtain c where "pdf = ?dest @ [c]" by (auto simp: list_all_iff)
    with data show ?thesis by (intro exI [of _ pdf] exI [of _ data]) simp
  next
    case (Some x)
    with in2 new(2) have "x = data" by simp
    then have "pdf \<in> set (iter_invoice_pdfs (ps_invoices_dir r) fs1)"
      using pdf Some by (simp add: iter_pdfs_iff [OF ok1] is_file_def)
    then have "file_digest e data \<in> set (pdf_digests e os (ps_invoices_dir r) fs1)"
      using Some \<open>x = data\<close> assms(6) by (auto simp: set_pdf_digests file_hash_eq)
    moreover have "ps_invoices_dir r \<in> set ?srcs" using assms(3,4) by simp
    ultimately have "file_digest e data \<in> set (map (file_digest e \<circ> snd) new) \<union> set (pdf_digests e os ?dest fs1)"
      using new(4) by (auto simp only: list_all_iff)
    then show ?thesis
    proof (rule UnE)
      assume "file_digest e data \<in> set (map (file_digest e \<circ> snd) new)"
      then obtain q y where q: "(q, y) \<in> set new" "file_digest e y = file_digest e data" by auto
      have "distinct (map fst (fs_files fs2))" "(q, y) \<in> set (fs_files fs2)"
        using new(1) q(1) by (simp add: fs_ok_def, simp add: new(2))
      then have "map_of (fs_files fs2) q = Some y" by (rule map_of_is_SomeI)
      moreover obtain c where c: "q = ?dest @ [c]" "copy_name c" using q(1) new(3) by (auto simp: list_all_iff)
      moreover from c have "q \<noteq> ?m" by (auto simp: copy_name_def is_digit_def)
      ultimately show ?thesis using q(2) data keep by (intro exI [of _ q] exI [of _ data] exI [of _ y]) simp
    next
      assume "file_digest e data \<in> set (pdf_digests e os ?dest fs1)"
      then obtain q y where "q \<in> set (iter_invoice_pdfs ?dest fs1)" "map_of (fs_files fs1) q = Some y" "file_digest e y = file_digest e data"
        by (auto simp: set_pdf_digests file_hash_eq split: if_splits)
      moreover from this(1) have "take (length base + 1) q = ?dest" "q \<noteq> ?m"
        using not_m [of q] by (auto simp: iter_invoice_pdfs_def split: if_splits)
      ultimately show ?thesis using data old by blast
    qed
  qed
qed

definition demo_result :: provider_result where
  "demo_result = \<lparr>ps_name = ''gmail'', ps_invoices_dir = [''m'', ''g''], ps_command = [''py''], ps_returncode = 0, ps_duration = 0\<rparr>"

definition demo_gather :: "unit res \<times> local_fs" where
  "demo_gather = gather_month toy_env demo_access (\<lambda>_. None) [''m''] (''2026-01-01'', ''2026-02-01'', ''01'') JNull [demo_result] demo_month"

lemma demo_gather_ok: "demo_gather = (Inr (), snd demo_gather)"
  by code_simp

lemma gather_month_keeps_bytes_witness: "\<exists>q. map_of (fs_files (snd demo_gather)) q = Some ''B''"
  by (rule gather_month_keeps_bytes [OF trans [OF demo_gather_def [symmetric] demo_gather_ok] demo_month_ok,
        of "[''m'', ''g'', ''bill__2.pdf'']"]) (simp_all add: demo_month_def)

lemma gather_month_complete_witness:
  "\<exists>q d. map_of (fs_files (snd demo_gather)) q = Some d \<and> take 2 q = [''m'', ''invoices_01'']"
proof -
  have "[''m'', ''g'', ''c.pdf''] \<in> set (iter_invoice_pdfs (ps_invoices_dir demo_result) (snd demo_gather))" by code_simp
  from gather_month_complete [OF trans [OF demo_gather_def [symmetric] demo_gather_ok] demo_month_ok _ _ this]
  obtain q data d where "map_of (fs_files (snd demo_gather)) q = Some d" "take (length [''m''] + 1) q = [''m''] @ [''invoices_'' @ ''01'']"
    by (auto simp: demo_result_def demo_access_def)
  then show ?thesis by (intro exI [of _ q] exI [of _ d]) (simp add: numeral_2_eq_2)
qed

end
