(* ===== verification/Py_Unicode.thy ===== *)
theory Py_Unicode
  imports Runtime
begin

text \<open>
  Text with all of Unicode, as the invoice rules read it: a string is the list of its code
  points. The character database is a record of the functions Python's \<open>str\<close> and \<open>re\<close> ask it;
  the rules never look a character up otherwise. The operations are those of \<open>str\<close> the rules
  use: stripping, splitting at white space, lower case, substring tests, replacing.
\<close>

type_synonym ustr = "int list"

record ucd =
  uc_space :: "int \<Rightarrow> bool"
  uc_word :: "int \<Rightarrow> bool"
  uc_decimal :: "int \<Rightarrow> int option"
  uc_isdigit :: "int \<Rightarrow> bool"
  uc_lower :: "int \<Rightarrow> ustr"
  uc_casefold :: "int \<Rightarrow> ustr"
  uc_variants :: "int \<Rightarrow> int list"

text \<open>ASCII literals\<close>

definition lit :: "pystr \<Rightarrow> ustr" where
  "lit s = map of_char s"

subsection \<open>Prefixes, suffixes, substrings\<close>

fun has_prefix :: "'a list \<Rightarrow> 'a list \<Rightarrow> bool" where
  "has_prefix [] s \<longleftrightarrow> True"
| "has_prefix (c # p) [] \<longleftrightarrow> False"
| "has_prefix (c # p) (d # s) \<longleftrightarrow> c = d \<and> has_prefix p s"

definition has_suffix :: "'a list \<Rightarrow> 'a list \<Rightarrow> bool" where
  "has_suffix p s \<longleftrightarrow> has_prefix (rev p) (rev s)"

fun contains :: "'a list \<Rightarrow> 'a list \<Rightarrow> bool" where
  "contains sub [] \<longleftrightarrow> sub = []"
| "contains sub (c # s) \<longleftrightarrow> has_prefix sub (c # s) \<or> contains sub s"

lemma has_prefix_iff: "has_prefix p s \<longleftrightarrow> (\<exists>v. s = p @ v)"
  by (induction p s rule: has_prefix.induct) auto

lemma has_suffix_iff: "has_suffix p s \<longleftrightarrow> (\<exists>u. s = u @ p)"
proof -
  have "has_suffix p s \<longleftrightarrow> has_prefix (rev p) (rev s)" by (simp only: has_suffix_def)
  also have "\<dots> \<longleftrightarrow> (\<exists>v. rev s = rev p @ v)" by (rule has_prefix_iff)
  also have "\<dots> \<longleftrightarrow> (\<exists>u. s = u @ p)" by (metis rev_append rev_rev_ident)
  finally show ?thesis .
qed

lemma contains_iff: "contains sub s \<longleftrightarrow> (\<exists>u v. s = u @ sub @ v)"
proof (induction s)
  case (Cons c s)
  have "(\<exists>u v. c # s = u @ sub @ v) \<longleftrightarrow> (\<exists>v. c # s = sub @ v) \<or> (\<exists>u v. s = u @ sub @ v)"
    by (metis append_Cons append_Nil list.exhaust list.inject)
  then show ?case using Cons by (simp add: has_prefix_iff)
qed auto

text \<open>\<open>s.replace(old, new)\<close> for a non-empty \<open>old\<close>\<close>

function replace_all :: "'a list \<Rightarrow> 'a list \<Rightarrow> 'a list \<Rightarrow> 'a list" where
  "replace_all old new s =
     (if s = [] \<or> old = [] then s
      else if has_prefix old s then new @ replace_all old new (drop (length old) s)
      else hd s # replace_all old new (tl s))"
  by pat_completeness auto
termination by (relation "measure (\<lambda>(old, new, s). length s)") auto

declare replace_all.simps [simp del]

lemma replace_all_absent: "\<not> contains old s \<Longrightarrow> replace_all old new s = s"
proof (induction old new s rule: replace_all.induct)
  case (1 old new s)
  show ?case
  proof (cases s)
    case (Cons c t)
    have absent: "\<not> has_prefix old s" "\<not> contains old t" using 1(3) Cons by simp_all
    show ?thesis
    proof (cases "old = []")
      case False
      with 1(2) absent Cons have "replace_all old new t = t" by simp
      then show ?thesis using absent Cons False by (subst replace_all.simps) simp
    qed (simp add: replace_all.simps)
  qed (simp add: replace_all.simps)
qed


subsection \<open>White space and case\<close>

definition u_strip :: "ucd \<Rightarrow> ustr \<Rightarrow> ustr" where
  "u_strip u s = rev (dropWhile (uc_space u) (rev (dropWhile (uc_space u) s)))"

definition u_lstrip :: "ucd \<Rightarrow> ustr \<Rightarrow> ustr" where
  "u_lstrip u s = dropWhile (uc_space u) s"

definition u_lower :: "ucd \<Rightarrow> ustr \<Rightarrow> ustr" where
  "u_lower u s = concat (map (uc_lower u) s)"

definition u_casefold :: "ucd \<Rightarrow> ustr \<Rightarrow> ustr" where
  "u_casefold u s = concat (map (uc_casefold u) s)"

definition u_is_digits :: "ucd \<Rightarrow> ustr \<Rightarrow> bool" where
  "u_is_digits u s \<longleftrightarrow> s \<noteq> [] \<and> list_all (uc_isdigit u) s"

lemma run_shorter:
  assumes "dropWhile Q s = c # t"
  shows "length (dropWhile P t) < length s"
proof -
  from assms have "length (c # t) \<le> length s" by (metis length_dropWhile_le)
  moreover have "length (dropWhile P t) \<le> length t" by (rule length_dropWhile_le)
  ultimately show ?thesis by simp
qed

text \<open>The maximal runs of characters with a property; \<open>s.split()\<close> gives those without white space.\<close>

function char_runs :: "('a \<Rightarrow> bool) \<Rightarrow> 'a list \<Rightarrow> 'a list list" where
  "char_runs P s =
     (case dropWhile (\<lambda>x. \<not> P x) s of
        [] \<Rightarrow> []
      | c # t \<Rightarrow> (c # takeWhile P t) # char_runs P (dropWhile P t))"
  by pat_completeness auto

termination
  by (relation "measure (\<lambda>(P, s). length s)") (auto dest: run_shorter)

declare char_runs.simps [simp del]

definition u_split :: "ucd \<Rightarrow> ustr \<Rightarrow> ustr list" where
  "u_split u s = char_runs (\<lambda>c. \<not> uc_space u c) s"

text \<open>Each run replaced by a text of its own\<close>

function sub_runs :: "('a \<Rightarrow> bool) \<Rightarrow> ('a list \<Rightarrow> 'a list) \<Rightarrow> 'a list \<Rightarrow> 'a list" where
  "sub_runs P f s =
     takeWhile (\<lambda>x. \<not> P x) s @
     (case dropWhile (\<lambda>x. \<not> P x) s of
        [] \<Rightarrow> []
      | c # t \<Rightarrow> f (c # takeWhile P t) @ sub_runs P f (dropWhile P t))"
  by pat_completeness auto

termination
  by (relation "measure (\<lambda>(P, f, s). length s)") (auto dest: run_shorter)

declare sub_runs.simps [simp del]

fun u_join :: "'a list \<Rightarrow> 'a list list \<Rightarrow> 'a list" where
  "u_join sep [] = []"
| "u_join sep [x] = x"
| "u_join sep (x # y # ys) = x @ sep @ u_join sep (y # ys)"

text \<open>\<open>s.split(sep)\<close> for a one-character separator\<close>

fun split_at :: "'a \<Rightarrow> 'a list \<Rightarrow> 'a list list" where
  "split_at sep [] = [[]]"
| "split_at sep (c # cs) =
     (if c = sep then [] # split_at sep cs
      else (case split_at sep cs of [] \<Rightarrow> [[c]] | p # ps \<Rightarrow> (c # p) # ps))"

text \<open>\<open>" ".join(s.split())\<close> has single spaces between words only.\<close>

definition squeeze :: "ucd \<Rightarrow> ustr \<Rightarrow> ustr" where
  "squeeze u s = u_join [32] (u_split u s)"

lemma char_runs_sound: "w \<in> set (char_runs P s) \<Longrightarrow> w \<noteq> [] \<and> list_all P w"
proof (induction P s rule: char_runs.induct)
  case (1 P s)
  show ?case
  proof (cases "dropWhile (\<lambda>x. \<not> P x) s")
    case (Cons c t)
    then have "P c" by (metis hd_dropWhile list.sel(1) list.simps(3))
    moreover have "list_all P (takeWhile P t)" by (auto simp: list_all_iff dest: set_takeWhileD)
    ultimately show ?thesis using 1 Cons by (auto simp: char_runs.simps [of P s])
  next
    case Nil
    then have "char_runs P s = []" by (subst char_runs.simps) (simp only: list.case)
    with 1(2) show ?thesis by simp
  qed
qed

lemma sub_runs_keeps: "c \<in> set (sub_runs P f s) \<Longrightarrow> (c \<in> set s \<and> \<not> P c) \<or> (\<exists>w\<in>set (char_runs P s). c \<in> set (f w))"
proof (induction P f s rule: sub_runs.induct)
  case (1 P f s)
  show ?case
  proof (cases "dropWhile (\<lambda>x. \<not> P x) s")
    case Nil
    then have "sub_runs P f s = takeWhile (\<lambda>x. \<not> P x) s" by (subst sub_runs.simps) (simp only: list.case append_Nil2)
    with 1(2) show ?thesis by (auto dest: set_takeWhileD)
  next
    case (Cons x t)
    have sub: "set (dropWhile P t) \<subseteq> set s"
      using Cons by (metis (no_types, lifting) insert_subset list.simps(15) set_dropWhileD subset_code(1))
    have "c \<in> set (takeWhile (\<lambda>x. \<not> P x) s) \<or> c \<in> set (f (x # takeWhile P t)) \<or> c \<in> set (sub_runs P f (dropWhile P t))"
      using 1(2) Cons by (simp add: sub_runs.simps [of P f s])
    moreover have "char_runs P s = (x # takeWhile P t) # char_runs P (dropWhile P t)"
      using Cons by (simp add: char_runs.simps [of P s])
    ultimately show ?thesis using 1(1) [OF Cons] sub by (auto dest: set_takeWhileD)
  qed
qed


subsection \<open>A character database for the examples\<close>

text \<open>ASCII, Latin-1 letters and the Hebrew letters.\<close>

definition toy_ucd :: ucd where
  "toy_ucd =
     \<lparr>uc_space = (\<lambda>c. (9 \<le> c \<and> c \<le> 13) \<or> (28 \<le> c \<and> c \<le> 32) \<or> c = 133 \<or> c = 160),
      uc_word = (\<lambda>c. (48 \<le> c \<and> c \<le> 57) \<or> (65 \<le> c \<and> c \<le> 90) \<or> c = 95 \<or> (97 \<le> c \<and> c \<le> 122) \<or> (1488 \<le> c \<and> c \<le> 1514)),
      uc_decimal = (\<lambda>c. if 48 \<le> c \<and> c \<le> 57 then Some (c - 48) else None),
      uc_isdigit = (\<lambda>c. 48 \<le> c \<and> c \<le> 57),
      uc_lower = (\<lambda>c. [if 65 \<le> c \<and> c \<le> 90 then c + 32 else c]),
      uc_casefold = (\<lambda>c. [if 65 \<le> c \<and> c \<le> 90 then c + 32 else c]),
      uc_variants = (\<lambda>c. if 65 \<le> c \<and> c \<le> 90 then [c, c + 32] else if 97 \<le> c \<and> c \<le> 122 then [c, c - 32] else [c])\<rparr>"

end
