(* ===== verification/Py_Regex.thy ===== *)
theory Py_Regex
  imports Py_Unicode
begin

text \<open>
  The regular expressions of Python's \<open>re\<close> as far as the invoice rules use them. A pattern is
  a tree; the matcher tries alternatives and repetitions in the order of \<open>re\<close>'s backtracking
  and returns every way to match at a position, most preferred first. \<open>search\<close>, \<open>match\<close>,
  \<open>fullmatch\<close>, \<open>finditer\<close> and \<open>sub\<close> are defined on it. A second, declarative meaning of
  patterns is an inductive relation; the matcher finds exactly its matches.
\<close>

datatype cclass = Lit int | Range int int | Digit | Space | Word

datatype regex =
    REps
  | RSet bool "cclass list"
  | RAny
  | RDot
  | RSeq regex regex
  | RAlt regex regex
  | RRep nat "nat option" bool regex
  | RGroup nat regex
  | RBol bool
  | REol bool
  | RWordB
  | RAhead bool regex
  | RBehind bool "cclass list"

fun rseq :: "regex list \<Rightarrow> regex" where
  "rseq [] = REps"
| "rseq [r] = r"
| "rseq (r # r' # rs) = RSeq r (rseq (r' # rs))"

definition rlit :: "int list \<Rightarrow> regex" where
  "rlit cs = rseq (map (\<lambda>c. RSet True [Lit c]) cs)"

text \<open>
  \<open>RSet True\<close> is a class, \<open>RSet False\<close> its complement; \<open>RAny\<close> is the dot under \<open>DOTALL\<close>;
  \<open>RRep lo hi greedy\<close> repeats; \<open>RBol m\<close> and \<open>REol m\<close> are \<open>^\<close> and \<open>$\<close>, with \<open>MULTILINE\<close> if \<open>m\<close>;
  \<open>RAhead b\<close> and \<open>RBehind b\<close> look ahead and one character behind, negated unless \<open>b\<close>.
\<close>

text \<open>Under \<open>IGNORECASE\<close> a letter stands for its case variants.\<close>

definition variants :: "ucd \<Rightarrow> bool \<Rightarrow> int \<Rightarrow> int list" where
  "variants u ci c = (if ci then uc_variants u c else [c])"

fun in_class :: "ucd \<Rightarrow> bool \<Rightarrow> int \<Rightarrow> cclass \<Rightarrow> bool" where
  "in_class u ci c (Lit d) \<longleftrightarrow> d \<in> set (variants u ci c)"
| "in_class u ci c (Range a b) \<longleftrightarrow> list_ex (\<lambda>d. a \<le> d \<and> d \<le> b) (variants u ci c)"
| "in_class u ci c Digit \<longleftrightarrow> uc_decimal u c \<noteq> None"
| "in_class u ci c Space \<longleftrightarrow> uc_space u c"
| "in_class u ci c Word \<longleftrightarrow> uc_word u c"

definition in_classes :: "ucd \<Rightarrow> bool \<Rightarrow> cclass list \<Rightarrow> int \<Rightarrow> bool" where
  "in_classes u ci cs c \<longleftrightarrow> list_ex (in_class u ci c) cs"

lemma in_classes_single [simp]: "in_classes u ci [k] c = in_class u ci c k"
  by (simp add: in_classes_def)

text \<open>A state: what lies before, nearest first; what lies after; the groups captured.\<close>

type_synonym rstate = "ustr \<times> ustr \<times> (nat \<times> ustr) list"

abbreviation rs_before :: "rstate \<Rightarrow> ustr" where "rs_before st \<equiv> fst st"
abbreviation rs_after :: "rstate \<Rightarrow> ustr" where "rs_after st \<equiv> fst (snd st)"
abbreviation rs_groups :: "rstate \<Rightarrow> (nat \<times> ustr) list" where "rs_groups st \<equiv> snd (snd st)"

definition step_char :: "(int \<Rightarrow> bool) \<Rightarrow> rstate \<Rightarrow> rstate list" where
  "step_char P st =
     (case st of (b, a, g) \<Rightarrow> (case a of [] \<Rightarrow> [] | c # cs \<Rightarrow> if P c then [(c # b, cs, g)] else []))"

definition at_word_boundary :: "ucd \<Rightarrow> rstate \<Rightarrow> bool" where
  "at_word_boundary u st \<longleftrightarrow>
     (rs_before st \<noteq> [] \<and> uc_word u (hd (rs_before st))) \<noteq> (rs_after st \<noteq> [] \<and> uc_word u (hd (rs_after st)))"

definition at_line_start :: "bool \<Rightarrow> rstate \<Rightarrow> bool" where
  "at_line_start multi st \<longleftrightarrow> rs_before st = [] \<or> (multi \<and> hd (rs_before st) = 10)"

definition at_line_end :: "bool \<Rightarrow> rstate \<Rightarrow> bool" where
  "at_line_end multi st \<longleftrightarrow>
     rs_after st = [] \<or> rs_after st = [10] \<or> (multi \<and> hd (rs_after st) = 10)"

definition behind_ok :: "ucd \<Rightarrow> bool \<Rightarrow> bool \<Rightarrow> cclass list \<Rightarrow> rstate \<Rightarrow> bool" where
  "behind_ok u ci positive cs st \<longleftrightarrow>
     (rs_before st \<noteq> [] \<and> in_classes u ci cs (hd (rs_before st))) = positive"

text \<open>The iterations of a repetition; one past the minimum must consume something.\<close>

fun rep_loop :: "(rstate \<Rightarrow> rstate list) \<Rightarrow> bool \<Rightarrow> nat \<Rightarrow> nat \<Rightarrow> nat option \<Rightarrow> rstate \<Rightarrow> rstate list" where
  "rep_loop f greedy 0 lo hi st = (if lo = 0 then [st] else [])"
| "rep_loop f greedy (Suc k) lo hi st =
     (let stop = (if lo = 0 then [st] else []);
          more = (if hi = Some 0 then []
                  else concat (map (\<lambda>st'. if 0 < lo \<or> length (rs_after st') < length (rs_after st)
                                         then rep_loop f greedy k (lo - 1) (map_option (\<lambda>n. n - 1) hi) st'
                                         else []) (f st)))
      in if greedy then more @ stop else stop @ more)"

definition captured :: "nat \<Rightarrow> rstate \<Rightarrow> rstate \<Rightarrow> rstate" where
  "captured n st st' =
     (rs_before st', rs_after st',
      (n, rev (take (length (rs_before st') - length (rs_before st)) (rs_before st'))) # rs_groups st')"

primrec rmatch :: "ucd \<Rightarrow> bool \<Rightarrow> regex \<Rightarrow> rstate \<Rightarrow> rstate list" where
  "rmatch u ci REps st = [st]"
| "rmatch u ci (RSet pos cs) st = step_char (\<lambda>c. in_classes u ci cs c = pos) st"
| "rmatch u ci RAny st = step_char (\<lambda>_. True) st"
| "rmatch u ci RDot st = step_char (\<lambda>c. c \<noteq> 10) st"
| "rmatch u ci (RSeq r1 r2) st = concat (map (rmatch u ci r2) (rmatch u ci r1 st))"
| "rmatch u ci (RAlt r1 r2) st = rmatch u ci r1 st @ rmatch u ci r2 st"
| "rmatch u ci (RRep lo hi greedy r) st = rep_loop (rmatch u ci r) greedy (lo + length (rs_after st)) lo hi st"
| "rmatch u ci (RGroup n r) st = map (captured n st) (rmatch u ci r st)"
| "rmatch u ci (RBol multi) st = (if at_line_start multi st then [st] else [])"
| "rmatch u ci (REol multi) st = (if at_line_end multi st then [st] else [])"
| "rmatch u ci RWordB st = (if at_word_boundary u st then [st] else [])"
| "rmatch u ci (RAhead positive r) st = (if (rmatch u ci r st \<noteq> []) = positive then [st] else [])"
| "rmatch u ci (RBehind positive cs) st = (if behind_ok u ci positive cs st then [st] else [])"


subsection \<open>A match moves forward in the text\<close>

definition advances :: "rstate \<Rightarrow> rstate \<Rightarrow> bool" where
  "advances st st' \<longleftrightarrow> (\<exists>w. rs_after st = w @ rs_after st' \<and> rs_before st' = rev w @ rs_before st)"

lemma advances_refl [simp]: "advances st st"
  by (simp add: advances_def)

lemma advances_trans: "advances a b \<Longrightarrow> advances b c \<Longrightarrow> advances a c"
  unfolding advances_def by (metis append_assoc rev_append)

lemma advances_length: "advances st st' \<Longrightarrow> length (rs_after st') \<le> length (rs_after st)"
  by (auto simp: advances_def)

lemma advances_captured [simp]: "advances st (captured n st0 st') = advances st st'"
  by (simp add: advances_def captured_def)

lemma step_char_advances: "st' \<in> set (step_char P st) \<Longrightarrow> advances st st'"
  by (auto simp: step_char_def advances_def split: prod.splits list.splits if_splits)

lemma rep_loop_advances:
  assumes "\<And>st st'. st' \<in> set (f st) \<Longrightarrow> advances st st'"
  shows "st' \<in> set (rep_loop f greedy k lo hi st) \<Longrightarrow> advances st st'"
proof (induction k arbitrary: lo hi st)
  case (Suc k)
  then consider "st' = st" | x where "x \<in> set (f st)" "st' \<in> set (rep_loop f greedy k (lo - 1) (map_option (\<lambda>n. n - 1) hi) x)"
    by (auto simp: Let_def split: if_splits)
  then show ?case
  proof cases
    case 2
    then show ?thesis using assms Suc.IH advances_trans by blast
  qed simp
qed (simp split: if_splits)

lemma rmatch_advances: "st' \<in> set (rmatch u ci r st) \<Longrightarrow> advances st st'"
proof (induction r arbitrary: st st')
  case (RSeq r1 r2)
  from RSeq.prems obtain x where "x \<in> set (rmatch u ci r1 st)" "st' \<in> set (rmatch u ci r2 x)"
    by (simp del: split_paired_Ex) blast
  with RSeq.IH show ?case by (blast intro: advances_trans)
next
  case (RRep lo hi greedy r)
  have "advances st st'"
    by (rule rep_loop_advances [of "rmatch u ci r"]) (use RRep in auto)
  then show ?case .
qed (auto simp: step_char_advances split: if_splits)


subsection \<open>What a pattern means\<close>

text \<open>
  The repetitions of a relation, and the pairs of states a pattern relates, without an order
  of preference. The matcher finds exactly these.
\<close>

definition one_less :: "nat option \<Rightarrow> nat option" where
  "one_less hi = map_option (\<lambda>n. n - 1) hi"

inductive iterates :: "(rstate \<Rightarrow> rstate \<Rightarrow> bool) \<Rightarrow> nat \<Rightarrow> nat option \<Rightarrow> rstate \<Rightarrow> rstate \<Rightarrow> bool"
  for R where
  it_stop: "iterates R 0 hi st st"
| it_need: "R st x \<Longrightarrow> hi \<noteq> Some 0 \<Longrightarrow> iterates R lo (one_less hi) x st' \<Longrightarrow> iterates R (Suc lo) hi st st'"
| it_more: "R st x \<Longrightarrow> hi \<noteq> Some 0 \<Longrightarrow> length (rs_after x) < length (rs_after st) \<Longrightarrow>
    iterates R 0 (one_less hi) x st' \<Longrightarrow> iterates R 0 hi st st'"

lemma iterates_Zero: "iterates R 0 hi st st' \<longleftrightarrow>
    st' = st \<or> hi \<noteq> Some 0 \<and> (\<exists>x. R st x \<and> length (rs_after x) < length (rs_after st) \<and> iterates R 0 (one_less hi) x st')"
  by (subst iterates.simps) (simp del: split_paired_Ex, blast)

lemma iterates_Suc: "iterates R (Suc lo) hi st st' \<longleftrightarrow>
    hi \<noteq> Some 0 \<and> (\<exists>x. R st x \<and> iterates R lo (one_less hi) x st')"
  by (subst iterates.simps) (simp del: split_paired_Ex, blast)

primrec matches :: "ucd \<Rightarrow> bool \<Rightarrow> regex \<Rightarrow> rstate \<Rightarrow> rstate \<Rightarrow> bool" where
  "matches u ci REps st st' \<longleftrightarrow> st' = st"
| "matches u ci (RSet pos cs) st st' \<longleftrightarrow>
     (\<exists>c a. rs_after st = c # a \<and> in_classes u ci cs c = pos \<and> st' = (c # rs_before st, a, rs_groups st))"
| "matches u ci RAny st st' \<longleftrightarrow> (\<exists>c a. rs_after st = c # a \<and> st' = (c # rs_before st, a, rs_groups st))"
| "matches u ci RDot st st' \<longleftrightarrow> (\<exists>c a. rs_after st = c # a \<and> c \<noteq> 10 \<and> st' = (c # rs_before st, a, rs_groups st))"
| "matches u ci (RSeq r1 r2) st st' \<longleftrightarrow> (\<exists>x. matches u ci r1 st x \<and> matches u ci r2 x st')"
| "matches u ci (RAlt r1 r2) st st' \<longleftrightarrow> matches u ci r1 st st' \<or> matches u ci r2 st st'"
| "matches u ci (RRep lo hi greedy r) st st' \<longleftrightarrow> iterates (matches u ci r) lo hi st st'"
| "matches u ci (RGroup n r) st st' \<longleftrightarrow> (\<exists>x. matches u ci r st x \<and> st' = captured n st x)"
| "matches u ci (RBol multi) st st' \<longleftrightarrow> at_line_start multi st \<and> st' = st"
| "matches u ci (REol multi) st st' \<longleftrightarrow> at_line_end multi st \<and> st' = st"
| "matches u ci RWordB st st' \<longleftrightarrow> at_word_boundary u st \<and> st' = st"
| "matches u ci (RAhead positive r) st st' \<longleftrightarrow> (\<exists>x. matches u ci r st x) = positive \<and> st' = st"
| "matches u ci (RBehind positive cs) st st' \<longleftrightarrow> behind_ok u ci positive cs st \<and> st' = st"

lemma set_step_char:
  "st' \<in> set (step_char P st) \<longleftrightarrow> (\<exists>c a. rs_after st = c # a \<and> P c \<and> st' = (c # rs_before st, a, rs_groups st))"
  by (cases st; cases "rs_after st") (auto simp: step_char_def)

lemma set_rep_loop:
  assumes "\<And>st st'. st' \<in> set (f st) \<Longrightarrow> advances st st'"
  shows "lo + length (rs_after st) \<le> k \<Longrightarrow>
    st' \<in> set (rep_loop f greedy k lo hi st) \<longleftrightarrow> iterates (\<lambda>s t. t \<in> set (f s)) lo hi st st'"
proof (induction k arbitrary: lo hi st)
  case 0
  then have zero: "lo = 0" "rs_after st = []" by simp_all
  show ?case unfolding zero(1) iterates_Zero [of _ hi st st'] by (simp add: zero(2))
next
  case (Suc k)
  have le: "length (rs_after x) \<le> length (rs_after st)" if "x \<in> set (f st)" for x
    using assms that advances_length by blast
  show ?case
  proof (cases lo)
    case 0
    have "st' \<in> set (rep_loop f greedy (Suc k) 0 hi st) \<longleftrightarrow>
        st' = st \<or> hi \<noteq> Some 0 \<and> (\<exists>x\<in>set (f st). length (rs_after x) < length (rs_after st) \<and>
          st' \<in> set (rep_loop f greedy k 0 (one_less hi) x))"
      by (auto simp: Let_def one_less_def split: if_splits)
    also have "\<dots> \<longleftrightarrow> st' = st \<or> hi \<noteq> Some 0 \<and> (\<exists>x\<in>set (f st). length (rs_after x) < length (rs_after st) \<and>
          iterates (\<lambda>s t. t \<in> set (f s)) 0 (one_less hi) x st')"
      using Suc.IH [of 0] Suc.prems 0 by auto
    also have "\<dots> \<longleftrightarrow> iterates (\<lambda>s t. t \<in> set (f s)) 0 hi st st'"
      unfolding iterates_Zero [of "\<lambda>s t. t \<in> set (f s)" hi st st'] by blast
    finally show ?thesis unfolding 0 .
  next
    case (Suc m)
    have "st' \<in> set (rep_loop f greedy (Suc k) (Suc m) hi st) \<longleftrightarrow>
        hi \<noteq> Some 0 \<and> (\<exists>x\<in>set (f st). st' \<in> set (rep_loop f greedy k m (one_less hi) x))"
      by (auto simp: Let_def one_less_def split: if_splits)
    also have "\<dots> \<longleftrightarrow> hi \<noteq> Some 0 \<and> (\<exists>x\<in>set (f st). iterates (\<lambda>s t. t \<in> set (f s)) m (one_less hi) x st')"
    proof -
      have "st' \<in> set (rep_loop f greedy k m (one_less hi) x) \<longleftrightarrow>
          iterates (\<lambda>s t. t \<in> set (f s)) m (one_less hi) x st'" if "x \<in> set (f st)" for x
        by (rule Suc.IH) (use le [OF that] Suc.prems Suc in simp)
      then show ?thesis by simp
    qed
    also have "\<dots> \<longleftrightarrow> iterates (\<lambda>s t. t \<in> set (f s)) (Suc m) hi st st'"
      unfolding iterates_Suc [of "\<lambda>s t. t \<in> set (f s)" m hi st st'] by blast
    finally show ?thesis unfolding Suc .
  qed
qed

lemma set_rmatch: "st' \<in> set (rmatch u ci r st) \<longleftrightarrow> matches u ci r st st'"
proof (induction r arbitrary: st st')
  case (RRep lo hi greedy r)
  have "st' \<in> set (rmatch u ci (RRep lo hi greedy r) st) \<longleftrightarrow>
      iterates (\<lambda>s t. t \<in> set (rmatch u ci r s)) lo hi st st'"
    unfolding rmatch.simps by (rule set_rep_loop) (simp_all add: rmatch_advances)
  then show ?case by (simp add: RRep.IH)
next
  case (RAhead positive r)
  have "(rmatch u ci r st \<noteq> []) = (\<exists>x. matches u ci r st x)"
    using RAhead.IH [of _ st] by (metis last_in_set length_greater_0_conv length_pos_if_in_set)
  then show ?case by auto
next
  case (RSeq r1 r2)
  have "st' \<in> set (rmatch u ci (RSeq r1 r2) st) \<longleftrightarrow> (\<exists>x\<in>set (rmatch u ci r1 st). st' \<in> set (rmatch u ci r2 x))"
    by (simp only: rmatch.simps set_concat set_map UN_iff image_image)
  then show ?case by (simp only: RSeq.IH Bex_def matches.simps)
next
  case (RGroup n r)
  show ?case by (simp only: rmatch.simps matches.simps set_map image_iff RGroup.IH [symmetric] Bex_def)
qed (auto simp: set_step_char split: if_splits)


lemma matches_rlit:
  "matches u ci (rlit t) st st' \<longleftrightarrow>
     (\<exists>w. rs_after st = w @ rs_after st' \<and> list_all2 (\<lambda>c d. in_classes u ci [Lit d] c) w t \<and>
       rs_before st' = rev w @ rs_before st \<and> rs_groups st' = rs_groups st)"
proof (induction t arbitrary: st)
  case Nil
  show ?case by (cases st; cases st') (auto simp: rlit_def)
next
  case (Cons d t)
  have "matches u ci (rlit (d # t)) st st' \<longleftrightarrow>
      (\<exists>c a. rs_after st = c # a \<and> in_classes u ci [Lit d] c \<and> matches u ci (rlit t) (c # rs_before st, a, rs_groups st) st')"
    by (cases t; cases st) (auto simp: rlit_def)
  also have "\<dots> \<longleftrightarrow> (\<exists>c w. rs_after st = c # w @ rs_after st' \<and> in_classes u ci [Lit d] c \<and>
      list_all2 (\<lambda>c d. in_classes u ci [Lit d] c) w t \<and> rs_before st' = rev w @ c # rs_before st \<and> rs_groups st' = rs_groups st)"
    unfolding Cons.IH by auto
  also have "\<dots> \<longleftrightarrow> (\<exists>w. rs_after st = w @ rs_after st' \<and> list_all2 (\<lambda>c d. in_classes u ci [Lit d] c) w (d # t) \<and>
       rs_before st' = rev w @ rs_before st \<and> rs_groups st' = rs_groups st)"
    by (auto simp: list_all2_Cons2)
  finally show ?case .
qed


subsection \<open>Searching\<close>

record match_object =
  mo_before :: ustr
  mo_text :: ustr
  mo_after :: ustr
  mo_groups :: "(nat \<times> ustr) list"

definition match_object_of :: "rstate \<Rightarrow> rstate \<Rightarrow> match_object" where
  "match_object_of st st' =
     \<lparr>mo_before = rev (rs_before st), mo_text = take (length (rs_after st) - length (rs_after st')) (rs_after st),
      mo_after = rs_after st', mo_groups = rs_groups st'\<rparr>"

text \<open>\<open>m.group(n)\<close>: the last capture of the group; None for a group that took no part.\<close>

definition group :: "match_object \<Rightarrow> nat \<Rightarrow> ustr option" where
  "group m n = (if n = 0 then Some (mo_text m) else map_of (mo_groups m) n)"

text \<open>The leftmost match from a position on; \<open>adv\<close> asks for a non-empty one at the position itself.\<close>

fun search_from :: "ucd \<Rightarrow> bool \<Rightarrow> regex \<Rightarrow> bool \<Rightarrow> ustr \<Rightarrow> ustr \<Rightarrow> match_object option" where
  "search_from u ci r adv passed after =
     (case filter (\<lambda>st'. adv \<longrightarrow> length (rs_after st') < length after) (rmatch u ci r (passed, after, [])) of
        st' # _ \<Rightarrow> Some (match_object_of (passed, after, []) st')
      | [] \<Rightarrow> (case after of [] \<Rightarrow> None | c # cs \<Rightarrow> search_from u ci r False (c # passed) cs))"

declare search_from.simps [simp del]

definition re_search :: "ucd \<Rightarrow> bool \<Rightarrow> regex \<Rightarrow> ustr \<Rightarrow> match_object option" where
  "re_search u ci r s = search_from u ci r False [] s"

definition re_match :: "ucd \<Rightarrow> bool \<Rightarrow> regex \<Rightarrow> ustr \<Rightarrow> match_object option" where
  "re_match u ci r s =
     (case rmatch u ci r ([], s, []) of [] \<Rightarrow> None | st' # _ \<Rightarrow> Some (match_object_of ([], s, []) st'))"

definition re_fullmatch :: "ucd \<Rightarrow> bool \<Rightarrow> regex \<Rightarrow> ustr \<Rightarrow> match_object option" where
  "re_fullmatch u ci r s =
     map_option (match_object_of ([], s, [])) (find (\<lambda>st'. rs_after st' = []) (rmatch u ci r ([], s, [])))"

lemma search_from_splits:
  "search_from u ci r adv passed after = Some m \<Longrightarrow>
     \<exists>gap. mo_before m = rev passed @ gap \<and> after = gap @ mo_text m @ mo_after m \<and>
       (mo_text m = [] \<and> gap = [] \<longrightarrow> \<not> adv)"
proof (induction u ci r adv passed after rule: search_from.induct)
  case (1 u ci r adv passed after)
  show ?case
  proof (cases "filter (\<lambda>st'. adv \<longrightarrow> length (rs_after st') < length after) (rmatch u ci r (passed, after, []))")
    case Nil
    with 1 obtain c cs where a: "after = c # cs" and more: "search_from u ci r False (c # passed) cs = Some m"
      by (auto simp: search_from.simps [of u ci r adv passed after] split: list.splits)
    from "1.IH" [OF Nil a more] obtain gap where "mo_before m = rev (c # passed) @ gap" "cs = gap @ mo_text m @ mo_after m"
      by blast
    with a show ?thesis by (intro exI [of _ "c # gap"]) simp
  next
    case (Cons st' rest)
    then have st': "st' \<in> set (rmatch u ci r (passed, after, []))" "adv \<longrightarrow> length (rs_after st') < length after"
      using list.set_intros(1) [of st' rest] unfolding Cons [symmetric] by auto
    from rmatch_advances [OF st'(1)] obtain w where "after = w @ rs_after st'" by (auto simp: advances_def)
    moreover have "m = match_object_of (passed, after, []) st'"
      using 1(2) Cons by (simp add: search_from.simps [of u ci r adv passed after])
    ultimately show ?thesis using st'(2) by (auto simp: match_object_of_def)
  qed
qed

lemma all_splits_Cons:
  "(\<forall>p a. c # cs = p @ a \<longrightarrow> P p a) \<longleftrightarrow> P [] (c # cs) \<and> (\<forall>p a. cs = p @ a \<longrightarrow> P (c # p) a)"
  by (auto simp: Cons_eq_append_conv)

lemma search_from_None:
  "search_from u ci r False passed after = None \<longleftrightarrow>
     (\<forall>p a. after = p @ a \<longrightarrow> (\<forall>st'. \<not> matches u ci r (rev p @ passed, a, []) st'))"
proof (induction after arbitrary: passed)
  case Nil
  show ?case
    by (auto simp: search_from.simps [of u ci r False passed "[]"] set_rmatch [symmetric] split: list.splits)
next
  case (Cons c cs)
  have "search_from u ci r False passed (c # cs) = None \<longleftrightarrow>
      (\<forall>st'. \<not> matches u ci r (passed, c # cs, []) st') \<and> search_from u ci r False (c # passed) cs = None"
    by (auto simp: search_from.simps [of u ci r False passed "c # cs"] set_rmatch [symmetric] split: list.splits)
  also have "\<dots> \<longleftrightarrow> (\<forall>p a. c # cs = p @ a \<longrightarrow> (\<forall>st'. \<not> matches u ci r (rev p @ passed, a, []) st'))"
    unfolding Cons.IH all_splits_Cons [of c cs "\<lambda>p a. \<forall>st'. \<not> matches u ci r (rev p @ passed, a, []) st'"] by simp
  finally show ?case .
qed

lemma re_search_iff:
  "re_search u ci r s \<noteq> None \<longleftrightarrow> (\<exists>p a st'. s = p @ a \<and> matches u ci r (rev p, a, []) st')"
  unfolding re_search_def using search_from_None [of u ci r "[]" s] by simp

lemma search_from_progress:
  assumes "search_from u ci r adv passed after = Some m"
  shows "2 * length (mo_after m) + (if mo_text m = [] then 0 else 1) < 2 * length after + (if adv then 0 else 1 :: nat)"
proof -
  from search_from_splits [OF assms] obtain gap where "after = gap @ mo_text m @ mo_after m"
      "mo_text m = [] \<and> gap = [] \<longrightarrow> \<not> adv" by blast
  then show ?thesis by (cases "mo_text m"; cases gap) auto
qed

text \<open>\<open>re.finditer\<close>: after a match the search goes on at its end.\<close>

function finditer_from :: "ucd \<Rightarrow> bool \<Rightarrow> regex \<Rightarrow> bool \<Rightarrow> ustr \<Rightarrow> ustr \<Rightarrow> match_object list" where
  "finditer_from u ci r adv passed after =
     (case search_from u ci r adv passed after of
        None \<Rightarrow> []
      | Some m \<Rightarrow> m # finditer_from u ci r (mo_text m = []) (rev (mo_text m) @ rev (mo_before m)) (mo_after m))"
  by pat_completeness auto
termination
  by (relation "measure (\<lambda>(u, ci, r, adv, passed, after). 2 * length after + (if adv then 0 else 1))")
    (auto dest: search_from_progress)

declare finditer_from.simps [simp del]

definition re_finditer :: "ucd \<Rightarrow> bool \<Rightarrow> regex \<Rightarrow> ustr \<Rightarrow> match_object list" where
  "re_finditer u ci r s = finditer_from u ci r False [] s"

text \<open>\<open>re.findall\<close> of a pattern without groups, or with one group\<close>

definition re_findall :: "ucd \<Rightarrow> bool \<Rightarrow> regex \<Rightarrow> nat \<Rightarrow> ustr \<Rightarrow> ustr list" where
  "re_findall u ci r n s =
     map (\<lambda>m. case group m n of None \<Rightarrow> [] | Some t \<Rightarrow> t) (re_finditer u ci r s)"

text \<open>\<open>re.sub\<close>, the replacement a function of the match\<close>

function sub_from :: "ucd \<Rightarrow> bool \<Rightarrow> regex \<Rightarrow> (match_object \<Rightarrow> ustr) \<Rightarrow> bool \<Rightarrow> ustr \<Rightarrow> ustr \<Rightarrow> ustr" where
  "sub_from u ci r f adv passed after =
     (case search_from u ci r adv passed after of
        None \<Rightarrow> after
      | Some m \<Rightarrow> drop (length passed) (mo_before m) @ f m @
          sub_from u ci r f (mo_text m = []) (rev (mo_text m) @ rev (mo_before m)) (mo_after m))"
  by pat_completeness auto
termination
  by (relation "measure (\<lambda>(u, ci, r, f, adv, passed, after). 2 * length after + (if adv then 0 else 1))")
    (auto dest: search_from_progress)

declare sub_from.simps [simp del]

definition re_sub :: "ucd \<Rightarrow> bool \<Rightarrow> regex \<Rightarrow> (match_object \<Rightarrow> ustr) \<Rightarrow> ustr \<Rightarrow> ustr" where
  "re_sub u ci r f s = sub_from u ci r f False [] s"


subsection \<open>Runs of a class\<close>

text \<open>The pattern \<open>[...]+\<close> finds the maximal runs of its class.\<close>

definition run_of :: "bool \<Rightarrow> cclass list \<Rightarrow> regex" where
  "run_of pos cs = RRep 1 None True (RSet pos cs)"

lemma step_char_simps [simp]:
  "step_char P (b, [], g) = []"
  "step_char P (b, c # a, g) = (if P c then [(c # b, a, g)] else [])"
  by (simp_all add: step_char_def)

lemma rep_loop_run:
  "length a \<le> k \<Longrightarrow> \<exists>rest. rep_loop (step_char P) True k 0 None (b, a, g) =
     (rev (takeWhile P a) @ b, dropWhile P a, g) # rest"
proof (induction k arbitrary: a b)
  case (Suc k)
  show ?case
  proof (cases a)
    case (Cons c t)
    with Suc obtain rest where "rep_loop (step_char P) True k 0 None (c # b, t, g) =
        (rev (takeWhile P t) @ c # b, dropWhile P t, g) # rest"
      by (auto simp del: rep_loop.simps)
    with Cons show ?thesis by auto
  qed simp
qed simp

lemma rmatch_RSet: "P = (\<lambda>c. in_classes u ci cs c = pos) \<Longrightarrow> rmatch u ci (RSet pos cs) = step_char P"
  by (rule ext) simp

lemma rep_loop_once:
  "P c \<Longrightarrow> rep_loop (step_char P) True (Suc k) 1 None (b, c # t, g) = rep_loop (step_char P) True k 0 None (c # b, t, g)"
  by simp

lemma rmatch_run:
  assumes "P = (\<lambda>c. in_classes u ci cs c = pos)"
  shows "\<exists>rest. rmatch u ci (run_of pos cs) (b, a, g) =
     (if a \<noteq> [] \<and> P (hd a) then (rev (takeWhile P a) @ b, dropWhile P a, g) # rest else [])"
proof (cases "a \<noteq> [] \<and> P (hd a)")
  case False
  then show ?thesis by (cases a) (simp_all add: run_of_def rmatch_RSet [OF assms])
next
  case True
  then obtain c t where a: "a = c # t" "P c" by (cases a) auto
  from rep_loop_run [of t "Suc (length t)" P "c # b" g] obtain rest where
    "rep_loop (step_char P) True (Suc (length t)) 0 None (c # b, t, g) = (rev (takeWhile P t) @ c # b, dropWhile P t, g) # rest"
    by auto
  moreover have "rmatch u ci (run_of pos cs) (b, a, g) = rep_loop (step_char P) True (Suc (length t)) 0 None (c # b, t, g)"
    using rep_loop_once [of P c "Suc (length t)" b t g, OF a(2)] by (simp only: run_of_def rmatch.simps rmatch_RSet [OF assms] a(1)) simp
  ultimately show ?thesis using a by auto
qed

lemma search_run:
  assumes P: "P = (\<lambda>c. in_classes u ci cs c = pos)"
  shows "search_from u ci (run_of pos cs) False passed after =
     (case dropWhile (\<lambda>c. \<not> P c) after of
        [] \<Rightarrow> None
      | c # t \<Rightarrow> Some \<lparr>mo_before = rev passed @ takeWhile (\<lambda>c. \<not> P c) after, mo_text = c # takeWhile P t,
                         mo_after = dropWhile P t, mo_groups = []\<rparr>)"
proof (induction after arbitrary: passed)
  case Nil
  have "rmatch u ci (run_of pos cs) (passed, [], []) = []" using rmatch_run [OF P, of passed "[]" "[]"] by auto
  then show ?case by (simp add: search_from.simps [of u ci "run_of pos cs"])
next
  case (Cons c t)
  obtain rest where r: "rmatch u ci (run_of pos cs) (passed, c # t, []) =
      (if P c then (rev (takeWhile P (c # t)) @ passed, dropWhile P (c # t), []) # rest else [])"
    using rmatch_run [OF P, of passed "c # t" "[]"] by auto
  show ?case
  proof (cases "P c")
    case True
    have "c # t = (c # takeWhile P t) @ dropWhile P t" by simp
    then have "take (length (c # t) - length (dropWhile P t)) (c # t) = c # takeWhile P t"
      by (metis append_eq_conv_conj diff_add_inverse2 length_append)
    with True r show ?thesis
      by (simp add: search_from.simps [of u ci "run_of pos cs" False passed "c # t"] match_object_of_def)
  next
    case False
    with r Cons show ?thesis
      by (cases "dropWhile (\<lambda>c. \<not> P c) t") (simp_all add: search_from.simps [of u ci "run_of pos cs" False passed "c # t"] del: dropWhile_eq_Nil_conv)
  qed
qed

lemma finditer_run:
  assumes P: "P = (\<lambda>c. in_classes u ci cs c = pos)"
  shows "map mo_text (finditer_from u ci (run_of pos cs) False passed after) = char_runs P after"
proof (induction "length after" arbitrary: passed after rule: less_induct)
  case less
  show ?case
  proof (cases "dropWhile (\<lambda>c. \<not> P c) after")
    case Nil
    show ?thesis
      unfolding finditer_from.simps [of u ci "run_of pos cs" False passed after] search_run [OF P]
        char_runs.simps [of P after] Nil by simp
  next
    case (Cons c t)
    from run_shorter [OF this] have "length (dropWhile P t) < length after" .
    note less [OF this]
    then show ?thesis
      unfolding finditer_from.simps [of u ci "run_of pos cs" False passed after] search_run [OF P]
        char_runs.simps [of P after] Cons by simp
  qed
qed

lemma findall_run: "re_findall u ci (run_of pos cs) 0 s = char_runs (\<lambda>c. in_classes u ci cs c = pos) s"
  using finditer_run [OF refl, of u ci pos cs "[]" s] by (simp add: re_findall_def re_finditer_def group_def)

lemma sub_from_run:
  assumes P: "P = (\<lambda>c. in_classes u ci cs c = pos)"
  shows "sub_from u ci (run_of pos cs) (\<lambda>m. f (mo_text m)) False passed after = sub_runs P f after"
proof (induction "length after" arbitrary: passed after rule: less_induct)
  case less
  show ?case
  proof (cases "dropWhile (\<lambda>c. \<not> P c) after")
    case Nil
    then have all: "takeWhile (\<lambda>c. \<not> P c) after = after" by (metis append_Nil2 takeWhile_dropWhile_id)
    show ?thesis
      unfolding sub_from.simps [of u ci "run_of pos cs" _ False passed after] search_run [OF P]
        sub_runs.simps [of P f after] Nil list.case option.case append_Nil2 by (rule all [symmetric])
  next
    case (Cons c t)
    from run_shorter [OF this] have "length (dropWhile P t) < length after" .
    note less [OF this]
    then show ?thesis
      unfolding sub_from.simps [of u ci "run_of pos cs" _ False passed after] search_run [OF P]
        sub_runs.simps [of P f after] Cons by simp
  qed
qed

lemma re_sub_run: "re_sub u ci (run_of pos cs) (\<lambda>m. f (mo_text m)) s = sub_runs (\<lambda>c. in_classes u ci cs c = pos) f s"
  by (simp add: re_sub_def sub_from_run)

end
