(* ===== verification/Mail_Rules.thy ===== *)
theory Mail_Rules
  imports Py_Regex Py_Codec Py_Float
begin

text \<open>
  Which mails and PDFs look like invoices: \<open>domain/constants.py\<close>, \<open>domain/relevance.py\<close>, the
  keyword statistics of \<open>domain/pdf.py\<close> and the verdicts of \<open>usecases/pdf_verification.py\<close> and
  \<open>cli/quarantine_invoices.py\<close>. Hebrew text is written as code points. The pages of a PDF are
  a parameter: what PyMuPDF gives for each, or that it raises. The compiled patterns the code
  caches are not kept: the cache never changes a result.
\<close>

subsection \<open>Keyword lists\<close>

text \<open>In the order of \<open>domain/constants.py\<close>.\<close>

definition heb_pos :: "ustr list" where
  "heb_pos =
     [[1495, 1513, 1489, 1493, 1504, 1497, 1514], [1495, 1513, 1489, 1493, 1504, 1497, 1514, 32, 1502,
     1505], [1495, 1513, 1489, 1493, 1504, 1497, 1514, 32, 1502, 1505, 32, 1511, 1489, 1500, 1492],
     [1511, 1489, 1500, 1492], [1488, 1512, 1504, 1493, 1504, 1492], [1513, 1493, 1489, 1512, 32, 1514,
     1513, 1500, 1493, 1501], [1491, 1512, 1497, 1513, 1514, 32, 1514, 1513, 1500, 1493, 1501], [1488,
     1490, 1512, 1514], [1492, 1497, 1496, 1500], [1502, 1505, 1508, 1512, 32, 1504, 1499, 1505]]"

definition en_pos :: "ustr list" where
  "en_pos =
     [lit ''invoice'', lit ''tax invoice'', lit ''receipt'', lit ''bill'']"

definition heb_neg :: "ustr list" where
  "heb_neg =
     [[1514, 1500, 1493, 1513, 32, 1513, 1499, 1512], [1514, 1500, 1493, 1513], [1502, 1513, 1499, 1493,
     1512, 1514], [1513, 1499, 1512], [1489, 1512, 1493, 1496, 1493], [1504, 1496, 1493], [1492, 1508,
     1512, 1513, 1493, 1514, 32, 1508, 1504, 1505, 1497, 1492], [1513, 1506, 1493, 1514, 32, 1504, 1493,
     1505, 1508, 1493, 1514], [1508, 1511, 1493, 1491, 1493, 1514, 32, 1497, 1493, 1502, 1503], [1491,
     1493, 1495, 32, 1505, 1497, 1499, 1493, 1501, 32, 1505, 1500, 1497, 1511, 1492], [1491, 1493, 1495,
     32, 1505, 1500, 1497, 1511, 1492, 32, 1502, 1508, 1493, 1512, 1496], [1514, 1500, 1493, 1513, 32,
     1513, 1499, 1512, 32, 1500, 1495, 1493, 1491, 1513], [1496, 1493, 1508, 1505, 32, 49, 54, 49],
     [1514, 1502, 1495, 1497, 1512, 32, 1495, 1493, 1491, 1513, 1497]]"

definition en_neg :: "ustr list" where
  "en_neg =
     [lit ''payslip'', lit ''pay slip'', lit ''salary'', lit ''payroll'', lit ''net pay'', lit
     ''gross pay'', lit ''employee'', lit ''employer'']"

definition heb_municipal :: "ustr list" where
  "heb_municipal =
     [[1488, 1512, 1504, 1493, 1504, 1492], [1506, 1497, 1512, 1497, 1497, 1514], [1506, 1497, 1512,
     1497, 1492], [1513, 1493, 1489, 1512, 32, 1514, 1513, 1500, 1493, 1501], [1512, 1513, 1493, 1514,
     32, 1502, 1511, 1493, 1502, 1497, 1514], [1514, 1488, 1490, 1497, 1491, 32, 1502, 1497, 1501],
     [1502, 1497, 1514, 1489]]"


subsection \<open>Relevance of a message\<close>

definition keyword_pattern :: "ustr \<Rightarrow> regex" where
  "keyword_pattern term =
     rseq [RBehind False [Word], rlit term, RAhead False (RSet True [Word])]"

definition keyword_in_text :: "ucd \<Rightarrow> ustr \<Rightarrow> ustr \<Rightarrow> bool \<Rightarrow> bool" where
  "keyword_in_text u txt term ignore_case \<longleftrightarrow>
     txt \<noteq> [] \<and> term \<noteq> [] \<and> re_search u ignore_case (keyword_pattern term) txt \<noteq> None"

definition any_in :: "ustr list \<Rightarrow> ustr \<Rightarrow> bool" where
  "any_in terms txt \<longleftrightarrow> list_ex (\<lambda>k. contains k txt) terms"

definition is_municipal_text :: "ustr \<Rightarrow> bool" where
  "is_municipal_text txt \<longleftrightarrow> any_in heb_municipal txt"

definition body_has_negative :: "ucd \<Rightarrow> ustr \<Rightarrow> bool" where
  "body_has_negative u txt \<longleftrightarrow> any_in heb_neg txt \<or> any_in en_neg (u_lower u txt)"

definition body_has_positive :: "ucd \<Rightarrow> ustr \<Rightarrow> bool" where
  "body_has_positive u txt \<longleftrightarrow> any_in heb_pos txt \<or> any_in en_pos (u_lower u txt)"

definition should_consider_message :: "ucd \<Rightarrow> ustr \<Rightarrow> ustr \<Rightarrow> bool" where
  "should_consider_message u subject preview \<longleftrightarrow>
     (let txt = subject @ [32] @ preview in
      \<not> body_has_negative u txt \<and> (body_has_positive u txt \<or> is_municipal_text txt))"

definition within_domain :: "env \<Rightarrow> pystr \<Rightarrow> pystr list \<Rightarrow> bool" where
  "within_domain e url domains =
     (case urlparse e url of
        Inl _ \<Rightarrow> False
      | Inr parsed \<Rightarrow> list_ex (\<lambda>d. has_suffix d (url_hostname parsed)) domains)"


subsection \<open>Hints in the text of a page\<close>

definition weak_pos :: "ustr list" where
  "weak_pos =
     [[1495, 1513, 1489, 1493, 1504, 1497, 1514], [1511, 1489, 1500, 1492]]"

definition currency_signs :: "ustr list" where
  "currency_signs =
     [[8362], lit ''$'', [8364], [1513, 34, 1495], [1513, 1495], lit ''ILS'', lit ''NIS'', lit ''USD'',
     lit ''EUR'']"

definition grouped_amount :: regex where
  "grouped_amount =
     rseq [RWordB, RRep 1 (Some 3) True (RSet True [Digit]), RRep 1 None True (rseq [RSet True [Lit 46,
     Lit 44], RRep 3 (Some 3) True (RSet True [Digit])]), RSet True [Lit 46, Lit 44], RRep 2 (Some 2)
     True (RSet True [Digit]), RWordB]"

definition plain_amount :: regex where
  "plain_amount =
     rseq [RWordB, RRep 1 None True (RSet True [Digit]), RSet True [Lit 46, Lit 44], RRep 2 (Some 2) True
     (RSet True [Digit]), RWordB]"

definition invoice_id_patterns :: "regex list" where
  "invoice_id_patterns =
     [rseq [rlit [1502, 1505], RRep 0 (Some 1) True (RDot), RSet True [Lit 1512], RRep 0 None True (RSet
        True [Space]), rlit [1495, 1513, 1489, 1493, 1504, 1497, 1514]],
      rseq [rlit [1495, 1513, 1489, 1493, 1504, 1497, 1514], RRep 0 None True (RSet True [Space]), rlit
        [1502, 1505], RRep 0 (Some 1) True (RDot), RSet True [Lit 1512]],
      rseq [rlit [1502, 1505], RRep 0 (Some 1) True (RDot), RSet True [Lit 1512], RRep 0 None True (RSet
        True [Space]), rlit [1511, 1489, 1500, 1492]],
      rseq [rlit [114, 101, 99, 101, 105, 112, 116], RRep 0 None True (RSet True [Space]), RGroup 1 (RAlt
        (rlit [110, 111]) (RSet True [Lit 35]))],
      rseq [rlit [105, 110, 118, 111, 105, 99, 101], RRep 0 None True (RSet True [Space]), RGroup 1 (RAlt
        (rlit [110, 111]) (RSet True [Lit 35]))]]"
definition strong_pos :: "ustr list" where
  "strong_pos = filter (\<lambda>t. t \<notin> set weak_pos) (en_pos @ heb_pos)"

definition text_has_amount_hint :: "ucd \<Rightarrow> ustr \<Rightarrow> bool" where
  "text_has_amount_hint u txt \<longleftrightarrow>
     txt \<noteq> [] \<and>
     (any_in currency_signs txt \<or>
      list_ex (\<lambda>pat. re_search u False pat txt \<noteq> None) [grouped_amount, plain_amount])"

definition text_has_invoice_id :: "ucd \<Rightarrow> ustr \<Rightarrow> bool" where
  "text_has_invoice_id u txt \<longleftrightarrow>
     txt \<noteq> [] \<and> list_ex (\<lambda>pat. re_search u True pat txt \<noteq> None) invoice_id_patterns"


subsection \<open>Keyword statistics of a PDF\<close>

record pdf_stats =
  pos_hits :: nat
  neg_hits :: nat
  pos_terms :: "ustr list"
  neg_terms :: "ustr list"
  strong_hits :: nat
  weak_hits :: nat
  amount_hint :: "bool option"
  invoice_id_hint :: "bool option"

definition no_stats :: pdf_stats where
  "no_stats =
     \<lparr>pos_hits = 0, neg_hits = 0, pos_terms = [], neg_terms = [], strong_hits = 0, weak_hits = 0,
      amount_hint = None, invoice_id_hint = None\<rparr>"

text \<open>
  A PDF: None if it cannot be opened; otherwise its pages, None a page whose text cannot be
  extracted.
\<close>

type_synonym pdf_pages = "ustr option list option"

definition count_pos :: "ucd \<Rightarrow> bool \<Rightarrow> ustr \<Rightarrow> ustr \<Rightarrow> pdf_stats \<Rightarrow> pdf_stats" where
  "count_pos u ignore_case txt term st =
     (if keyword_in_text u txt term ignore_case
      then let st = st\<lparr>pos_hits := pos_hits st + 1, pos_terms := pos_terms st @ [term]\<rparr> in
           if term \<in> set strong_pos then st\<lparr>strong_hits := strong_hits st + 1\<rparr>
           else if term \<in> set weak_pos then st\<lparr>weak_hits := weak_hits st + 1\<rparr>
           else st
      else st)"

definition count_neg :: "ucd \<Rightarrow> bool \<Rightarrow> ustr \<Rightarrow> ustr \<Rightarrow> pdf_stats \<Rightarrow> pdf_stats" where
  "count_neg u ignore_case txt term st =
     (if keyword_in_text u txt term ignore_case
      then st\<lparr>neg_hits := neg_hits st + 1, neg_terms := neg_terms st @ [term]\<rparr> else st)"

definition page_stats :: "ucd \<Rightarrow> ustr \<Rightarrow> pdf_stats \<Rightarrow> pdf_stats" where
  "page_stats u txt st =
     (let st = fold (count_pos u True txt) en_pos st;
          st = fold (count_pos u False txt) heb_pos st;
          st = fold (count_neg u True txt) en_neg st;
          st = fold (count_neg u False txt) heb_neg st;
          st = (if amount_hint st = None then st\<lparr>amount_hint := Some (text_has_amount_hint u txt)\<rparr> else st)
      in if invoice_id_hint st = None then st\<lparr>invoice_id_hint := Some (text_has_invoice_id u txt)\<rparr> else st)"

fun scan_pages :: "ucd \<Rightarrow> ustr option list \<Rightarrow> pdf_stats \<Rightarrow> pdf_stats" where
  "scan_pages u [] st = st"
| "scan_pages u (None # pages) st = st"
| "scan_pages u (Some txt # pages) st =
     (let st = page_stats u txt st in
      if 3 \<le> pos_hits st \<or> 1 \<le> neg_hits st then st else scan_pages u pages st)"

definition pdf_keyword_stats :: "ucd \<Rightarrow> bool \<Rightarrow> pdf_pages \<Rightarrow> pdf_stats" where
  "pdf_keyword_stats u have_pymupdf doc =
     (case doc of
        Some pages \<Rightarrow> if have_pymupdf then scan_pages u pages no_stats else no_stats
      | None \<Rightarrow> no_stats)"

text \<open>
  \<open>text_fingerprint\<close>: the hash of the words of the first pages, those that begin before
  \<open>max_chars\<close> characters of text. A surrogate cannot be encoded.
\<close>

definition utf8_code :: "int \<Rightarrow> int list" where
  "utf8_code c =
     (if c < 128 then [c]
      else if c < 2048 then [192 + c div 64, 128 + c mod 64]
      else if c < 65536 then [224 + c div 4096, 128 + c div 64 mod 64, 128 + c mod 64]
      else [240 + c div 262144, 128 + c div 4096 mod 64, 128 + c div 64 mod 64, 128 + c mod 64])"

definition u_encode :: "ustr \<Rightarrow> bytes option" where
  "u_encode s =
     (if list_ex (\<lambda>c. 55296 \<le> c \<and> c < 57344) s then None
      else Some (map char_of (concat (map utf8_code s))))"

fun text_chunks :: "nat \<Rightarrow> nat \<Rightarrow> ustr option list \<Rightarrow> ustr list option" where
  "text_chunks max_chars taken [] = Some []"
| "text_chunks max_chars taken (None # pages) = None"
| "text_chunks max_chars taken (Some txt # pages) =
     (if txt = [] then text_chunks max_chars taken pages
      else if max_chars \<le> taken + length txt then Some [txt]
      else map_option ((#) txt) (text_chunks max_chars (taken + length txt) pages))"

definition spaces_pattern :: regex where "spaces_pattern = run_of True [Space]"

definition normal_text :: "ucd \<Rightarrow> ustr list \<Rightarrow> ustr" where
  "normal_text u chunks = u_strip u (re_sub u False spaces_pattern (\<lambda>_. [32]) (u_join [32] chunks))"

definition text_fingerprint :: "env \<Rightarrow> ucd \<Rightarrow> bool \<Rightarrow> nat \<Rightarrow> pdf_pages \<Rightarrow> pystr option" where
  "text_fingerprint e u have_pymupdf max_chars doc =
     (if \<not> have_pymupdf then None
      else Option.bind doc (\<lambda>pages.
           Option.bind (text_chunks max_chars 0 pages) (\<lambda>chunks.
             if chunks = [] then None
             else let norm = normal_text u chunks in
                  if norm = [] then None
                  else map_option (\<lambda>b. hexdigest (sha256 e b)) (u_encode norm))))"

definition pdf_confidence :: "pdf_stats \<Rightarrow> rat" where
  "pdf_confidence st =
     (let total = pos_hits st + neg_hits st in
      if total = 0 then 0 else round_double (of_nat (pos_hits st) / of_nat total))"


subsection \<open>Verdicts\<close>

definition allowed_negative_terms :: "ustr list" where
  "allowed_negative_terms = [[1513, 1499, 1512]]"

definition decide_pdf_relevance_graph :: "pdf_stats \<Rightarrow> bool \<Rightarrow> ustr list \<Rightarrow> bool" where
  "decide_pdf_relevance_graph st trusted_hint allowed =
     (let filtered_neg = (if trusted_hint then filter (\<lambda>t. t \<notin> set allowed) (neg_terms st) else neg_terms st);
          neg_hits_effective = length filtered_neg;
          ok = (1 \<le> pos_hits st \<and> neg_hits_effective = 0)
      in if trusted_hint \<and> neg_hits_effective = 0 \<and> pos_hits st = 0 then True else ok)"

definition hinted :: "bool option \<Rightarrow> bool" where
  "hinted h \<longleftrightarrow> h = Some True"

definition decide_pdf_relevance_gmail :: "pdf_stats \<Rightarrow> bool \<Rightarrow> bool \<Rightarrow> bool" where
  "decide_pdf_relevance_gmail st have_pymupdf trusted_hint =
     (let weak_only = (0 < pos_hits st \<and> strong_hits st = 0);
          ok = (1 \<le> pos_hits st \<and> neg_hits st = 0);
          ok = (if ok \<and> weak_only
                then (if \<not> have_pymupdf then True else hinted (amount_hint st) \<or> hinted (invoice_id_hint st))
                else ok)
      in if trusted_hint \<and> pos_hits st = 0 \<and> neg_hits st = 0 then True else ok)"

definition assess_pdf :: "ucd \<Rightarrow> bool \<Rightarrow> pdf_pages \<Rightarrow> bool \<times> pdf_stats" where
  "assess_pdf u have_pymupdf doc =
     (let st = pdf_keyword_stats u have_pymupdf doc;
          weak_only = (0 < pos_hits st \<and> strong_hits st = 0);
          ok = (1 \<le> pos_hits st \<and> neg_hits st = 0);
          ok = (if ok \<and> weak_only \<and> have_pymupdf
                then hinted (amount_hint st) \<or> hinted (invoice_id_hint st) else ok)
      in (ok, st))"


subsection \<open>What a keyword hit is\<close>

definition same_word :: "ucd \<Rightarrow> bool \<Rightarrow> ustr \<Rightarrow> ustr \<Rightarrow> bool" where
  "same_word u ignore_case w term \<longleftrightarrow> list_all2 (\<lambda>c d. d \<in> set (variants u ignore_case c)) w term"

lemma matches_keyword:
  "matches u ci (keyword_pattern term) (rev a, s, []) st' \<longleftrightarrow>
     (\<exists>w b. s = w @ b \<and> same_word u ci w term \<and> (a = [] \<or> \<not> uc_word u (last a)) \<and>
       (b = [] \<or> \<not> uc_word u (hd b)) \<and> st' = (rev w @ rev a, b, []))"
proof -
  have behind: "behind_ok u ci False [Word] (rev a, s, []) \<longleftrightarrow> a = [] \<or> \<not> uc_word u (last a)"
    by (auto simp: behind_ok_def hd_rev)
  have ahead: "(\<exists>x. matches u ci (RSet True [Word]) st x) \<longleftrightarrow> rs_after st \<noteq> [] \<and> uc_word u (hd (rs_after st))" for st
    by (cases "rs_after st") auto
  show ?thesis
    unfolding keyword_pattern_def rseq.simps matches.simps(5,12,13) behind ahead matches_rlit same_word_def
    by (cases st') (auto simp: matches_rlit)
qed

text \<open>
  C28: A keyword is found in a text exactly where it stands as a word: some part of the text
  is the keyword, up to the case of letters when case is ignored, and the characters next to
  it, if any, are not word characters.
\<close>

theorem keyword_in_text_iff:
  "keyword_in_text u txt term ci \<longleftrightarrow> term \<noteq> [] \<and>
     (\<exists>a w b. txt = a @ w @ b \<and> same_word u ci w term \<and> (a = [] \<or> \<not> uc_word u (last a)) \<and>
       (b = [] \<or> \<not> uc_word u (hd b)))"
proof -
  have "same_word u ci w term \<Longrightarrow> term \<noteq> [] \<Longrightarrow> w \<noteq> []" for w by (auto simp: same_word_def)
  then show ?thesis unfolding keyword_in_text_def re_search_iff matches_keyword by blast
qed

lemma keyword_in_text_iff_witness: "keyword_in_text toy_ucd (lit ''my Bill.'') (lit ''bill'') True"
proof -
  have "lit ''my Bill.'' = lit ''my '' @ lit ''Bill'' @ lit ''.''" by (simp add: lit_def)
  moreover have "same_word toy_ucd True (lit ''Bill'') (lit ''bill'')" by code_simp
  moreover have "\<not> uc_word toy_ucd (last (lit ''my ''))" "\<not> uc_word toy_ucd (hd (lit ''.''))"
    "lit ''bill'' \<noteq> []" by code_simp+
  ultimately show ?thesis
    using keyword_in_text_iff [of toy_ucd "lit ''my Bill.''" "lit ''bill''" True] by metis
qed


subsection \<open>The statistics are those of the pages read\<close>

definition page_pos :: "ucd \<Rightarrow> ustr \<Rightarrow> ustr list" where
  "page_pos u txt = filter (\<lambda>t. keyword_in_text u txt t True) en_pos @ filter (\<lambda>t. keyword_in_text u txt t False) heb_pos"

definition page_neg :: "ucd \<Rightarrow> ustr \<Rightarrow> ustr list" where
  "page_neg u txt = filter (\<lambda>t. keyword_in_text u txt t True) en_neg @ filter (\<lambda>t. keyword_in_text u txt t False) heb_neg"

definition tally :: "ustr list \<Rightarrow> ustr list \<Rightarrow> pdf_stats \<Rightarrow> bool" where
  "tally pos neg st \<longleftrightarrow>
     pos_terms st = pos \<and> neg_terms st = neg \<and> pos_hits st = length pos \<and> neg_hits st = length neg \<and>
     strong_hits st = length (filter (\<lambda>t. t \<notin> set weak_pos) pos) \<and>
     weak_hits st = length (filter (\<lambda>t. t \<in> set weak_pos) pos)"

lemma strong_pos_iff: "t \<in> set (en_pos @ heb_pos) \<Longrightarrow> t \<in> set strong_pos \<longleftrightarrow> t \<notin> set weak_pos"
  by (auto simp: strong_pos_def)

lemma fold_count_pos:
  assumes "set terms \<subseteq> set (en_pos @ heb_pos)"
  shows "tally pos neg st \<Longrightarrow> tally (pos @ filter (\<lambda>t. keyword_in_text u txt t ci) terms) neg (fold (count_pos u ci txt) terms st)
    \<and> amount_hint (fold (count_pos u ci txt) terms st) = amount_hint st
    \<and> invoice_id_hint (fold (count_pos u ci txt) terms st) = invoice_id_hint st"
  using assms
proof (induction terms arbitrary: pos st)
  case (Cons t terms)
  let ?pos = "pos @ filter (\<lambda>t. keyword_in_text u txt t ci) [t]"
  have "tally ?pos neg (count_pos u ci txt t st)"
    using Cons.prems strong_pos_iff [of t] by (auto simp: tally_def count_pos_def Let_def)
  moreover have "amount_hint (count_pos u ci txt t st) = amount_hint st"
    "invoice_id_hint (count_pos u ci txt t st) = invoice_id_hint st"
    by (simp_all add: count_pos_def Let_def)
  moreover have "set terms \<subseteq> set (en_pos @ heb_pos)" using Cons.prems(2) by simp
  ultimately show ?case using Cons.IH [of ?pos "count_pos u ci txt t st"] by (simp split: if_splits)
qed (simp add: tally_def)

lemma fold_count_neg:
  "tally pos neg st \<Longrightarrow> tally pos (neg @ filter (\<lambda>t. keyword_in_text u txt t ci) terms) (fold (count_neg u ci txt) terms st)
    \<and> amount_hint (fold (count_neg u ci txt) terms st) = amount_hint st
    \<and> invoice_id_hint (fold (count_neg u ci txt) terms st) = invoice_id_hint st"
proof (induction terms arbitrary: neg st)
  case (Cons t terms)
  let ?neg = "neg @ filter (\<lambda>t. keyword_in_text u txt t ci) [t]"
  have "tally pos ?neg (count_neg u ci txt t st)" "amount_hint (count_neg u ci txt t st) = amount_hint st"
    "invoice_id_hint (count_neg u ci txt t st) = invoice_id_hint st"
    using Cons.prems by (auto simp: tally_def count_neg_def)
  then show ?case using Cons.IH [of ?neg "count_neg u ci txt t st"] by (simp split: if_splits)
qed simp

definition first_some :: "bool option \<Rightarrow> bool \<Rightarrow> bool option" where
  "first_some h b = (case h of None \<Rightarrow> Some b | Some x \<Rightarrow> Some x)"

lemma tally_page:
  assumes "tally pos neg st"
  shows "tally (pos @ page_pos u txt) (neg @ page_neg u txt) (page_stats u txt st) \<and>
    amount_hint (page_stats u txt st) = first_some (amount_hint st) (text_has_amount_hint u txt) \<and>
    invoice_id_hint (page_stats u txt st) = first_some (invoice_id_hint st) (text_has_invoice_id u txt)"
proof -
  note p1 = fold_count_pos [of en_pos, OF _ assms, of u "txt" True, simplified]
  note p2 = fold_count_pos [of heb_pos, OF _ conjunct1 [OF p1], of u "txt" False, simplified]
  note p3 = fold_count_neg [OF conjunct1 [OF p2], of u "txt" True en_neg]
  note p4 = fold_count_neg [OF conjunct1 [OF p3], of u "txt" False heb_neg]
  let ?st = "fold (count_neg u False txt) heb_neg (fold (count_neg u True txt) en_neg
    (fold (count_pos u False txt) heb_pos (fold (count_pos u True txt) en_pos st)))"
  have "tally (pos @ page_pos u txt) (neg @ page_neg u txt) ?st" "amount_hint ?st = amount_hint st"
    "invoice_id_hint ?st = invoice_id_hint st"
    using p1 p2 p3 p4 by (simp_all add: page_pos_def page_neg_def)
  then show ?thesis
    by (simp add: page_stats_def Let_def tally_def first_some_def split: option.split)
qed

lemma scan_pages_tally:
  assumes "tally pos neg st"
  shows "\<exists>texts rest. pages = map Some texts @ rest \<and>
    tally (pos @ concat (map (page_pos u) texts)) (neg @ concat (map (page_neg u) texts)) (scan_pages u pages st) \<and>
    (rest = [] \<or> hd rest = None \<or> 3 \<le> pos_hits (scan_pages u pages st) \<or> 1 \<le> neg_hits (scan_pages u pages st)) \<and>
    amount_hint (scan_pages u pages st) = fold (\<lambda>t h. first_some h (text_has_amount_hint u t)) texts (amount_hint st) \<and>
    invoice_id_hint (scan_pages u pages st) = fold (\<lambda>t h. first_some h (text_has_invoice_id u t)) texts (invoice_id_hint st)"
  using assms
proof (induction u pages st arbitrary: pos neg rule: scan_pages.induct)
  case (1 u st)
  then show ?case by (intro exI [of _ "[]"]) simp
next
  case (2 u pages st)
  then show ?case by (intro exI [of _ "[]"] exI [of _ "None # pages"]) simp
next
  case (3 u page pages st)
  note page = tally_page [OF 3(2), of u page]
  show ?case
  proof (cases "3 \<le> pos_hits (page_stats u page st) \<or> 1 \<le> neg_hits (page_stats u page st)")
    case True
    then have scan: "scan_pages u (Some page # pages) st = page_stats u page st" by (auto simp: Let_def)
    show ?thesis
      unfolding scan using page True by (intro exI [of _ "[page]"] exI [of _ pages]) simp
  next
    case False
    then have scan: "scan_pages u (Some page # pages) st = scan_pages u pages (page_stats u page st)" by (simp add: Let_def)
    from 3(1) [OF refl False conjunct1 [OF page]] obtain texts rest where
      "pages = map Some texts @ rest"
      "tally ((pos @ page_pos u page) @ concat (map (page_pos u) texts)) ((neg @ page_neg u page) @ concat (map (page_neg u) texts))
        (scan_pages u pages (page_stats u page st))"
      "rest = [] \<or> hd rest = None \<or> 3 \<le> pos_hits (scan_pages u pages (page_stats u page st)) \<or>
        1 \<le> neg_hits (scan_pages u pages (page_stats u page st))"
      "amount_hint (scan_pages u pages (page_stats u page st)) =
        fold (\<lambda>t h. first_some h (text_has_amount_hint u t)) texts (amount_hint (page_stats u page st))"
      "invoice_id_hint (scan_pages u pages (page_stats u page st)) =
        fold (\<lambda>t h. first_some h (text_has_invoice_id u t)) texts (invoice_id_hint (page_stats u page st))"
      by blast
    then show ?thesis
      unfolding scan using page by (intro exI [of _ "page # texts"] exI [of _ rest]) simp
  qed
qed

lemma fold_first_some: "fold (\<lambda>t h. first_some h (f t)) ts h = (case h of Some x \<Rightarrow> Some x | None \<Rightarrow> if ts = [] then None else Some (f (hd ts)))"
  by (induction ts arbitrary: h) (auto simp: first_some_def split: option.split)

lemma keyword_stats_of_pages:
  "\<exists>texts rest. pages = map Some texts @ rest \<and>
    tally (concat (map (page_pos u) texts)) (concat (map (page_neg u) texts)) (pdf_keyword_stats u True (Some pages)) \<and>
    (rest = [] \<or> hd rest = None \<or> 3 \<le> pos_hits (pdf_keyword_stats u True (Some pages)) \<or>
      1 \<le> neg_hits (pdf_keyword_stats u True (Some pages))) \<and>
    amount_hint (pdf_keyword_stats u True (Some pages)) =
      (if texts = [] then None else Some (text_has_amount_hint u (hd texts))) \<and>
    invoice_id_hint (pdf_keyword_stats u True (Some pages)) =
      (if texts = [] then None else Some (text_has_invoice_id u (hd texts)))"
proof -
  have "tally [] [] no_stats" by (simp add: tally_def no_stats_def)
  moreover have "amount_hint no_stats = None" "invoice_id_hint no_stats = None" by (simp_all add: no_stats_def)
  ultimately show ?thesis
    using scan_pages_tally [of "[]" "[]" no_stats pages u] by (simp add: pdf_keyword_stats_def fold_first_some)
qed

lemma stats_neg_terms: "neg_hits (pdf_keyword_stats u h doc) = length (neg_terms (pdf_keyword_stats u h doc))"
proof (cases "h \<and> doc \<noteq> None")
  case True
  then obtain pages where "doc = Some pages" "h" by auto
  with keyword_stats_of_pages [of pages u] show ?thesis by (auto simp: tally_def)
qed (auto simp: pdf_keyword_stats_def no_stats_def split: option.split)


text \<open>
  The verdicts agree. What quarantine keeps is what the Gmail finder accepts without
  trust, and whatever the Gmail finder accepts of a PDF the Outlook finder accepts too, with
  the same trust.
\<close>

theorem verdicts_agree:
  "let st = pdf_keyword_stats u h doc in
    assess_pdf u h doc = (decide_pdf_relevance_gmail st h False, st) \<and>
    \<not> (decide_pdf_relevance_gmail st h trusted \<and> \<not> decide_pdf_relevance_graph st trusted allowed)"
  using stats_neg_terms [of u h doc]
  by (auto simp: assess_pdf_def decide_pdf_relevance_gmail_def decide_pdf_relevance_graph_def Let_def split: if_splits)

end
