(* ===== verification/Quarantine.thy ===== *)
theory Quarantine
  imports Mail_Rules Month_Dedupe
begin

text \<open>
  \<open>cli/quarantine_invoices.py\<close>: the PDFs under a directory that do not look like invoices are
  moved into a quarantine directory under free names. What PyMuPDF makes of the bytes of a
  file is a parameter. The listing of the PDFs is taken before anything is moved, which is
  what the walk amounts to when the quarantine directory lies under a skipped name, as the
  default one does.
\<close>

definition iter_pdfs :: "path \<Rightarrow> local_fs \<Rightarrow> path list" where
  "iter_pdfs root_dir fs = iter_invoice_pdfs root_dir fs"

record quarantine_state =
  qs_scanned :: nat
  qs_moved :: nat
  qs_fs :: local_fs

definition pdf_ok :: "ucd \<Rightarrow> os_access \<Rightarrow> (bytes \<Rightarrow> pdf_pages) \<Rightarrow> path \<Rightarrow> local_fs \<Rightarrow> bool" where
  "pdf_ok u os doc pdf fs =
     fst (assess_pdf u True (if readable os pdf then Option.bind (map_of (fs_files fs) pdf) doc else None))"

definition quarantine_pdf ::
  "ucd \<Rightarrow> os_access \<Rightarrow> (bytes \<Rightarrow> pdf_pages) \<Rightarrow> bool \<Rightarrow> path \<Rightarrow> path \<Rightarrow> quarantine_state \<Rightarrow> unit res \<times> quarantine_state" where
  "quarantine_pdf u os doc dry_run quarantine_dir pdf st =
     (let st = st\<lparr>qs_scanned := qs_scanned st + 1\<rparr> in
      if pdf_ok u os doc pdf (qs_fs st) then (Inr (), st)
      else if dry_run then (Inr (), st\<lparr>qs_moved := qs_moved st + 1\<rparr>)
      else (case ensure_unique quarantine_dir (last pdf) (qs_fs st) of
              (Inl err, fs) \<Rightarrow> (Inl err, st\<lparr>qs_fs := fs\<rparr>)
            | (Inr dest, fs) \<Rightarrow>
                (case map_of (fs_files fs) pdf of
                   Some data \<Rightarrow>
                     if movable os pdf
                     then (Inr (), st\<lparr>qs_moved := qs_moved st + 1, qs_fs := move_file pdf dest data fs\<rparr>)
                     else (Inl (os_error ''[Errno 13] Permission denied'' pdf), st\<lparr>qs_fs := fs\<rparr>)
                 | None \<Rightarrow> (Inl (os_error ''[Errno 2] No such file or directory'' pdf), st\<lparr>qs_fs := fs\<rparr>))))"

fun quarantine_pdfs ::
  "ucd \<Rightarrow> os_access \<Rightarrow> (bytes \<Rightarrow> pdf_pages) \<Rightarrow> bool \<Rightarrow> path \<Rightarrow> path list \<Rightarrow> quarantine_state \<Rightarrow> unit res \<times> quarantine_state" where
  "quarantine_pdfs u os doc dry_run qdir [] st = (Inr (), st)"
| "quarantine_pdfs u os doc dry_run qdir (pdf # pdfs) st =
     (case quarantine_pdf u os doc dry_run qdir pdf st of
        (Inl err, st) \<Rightarrow> (Inl err, st)
      | (Inr _, st) \<Rightarrow> quarantine_pdfs u os doc dry_run qdir pdfs st)"

definition quarantine_main ::
  "ucd \<Rightarrow> os_access \<Rightarrow> (bytes \<Rightarrow> pdf_pages) \<Rightarrow> bool \<Rightarrow> bool \<Rightarrow> path \<Rightarrow> path option \<Rightarrow> local_fs \<Rightarrow> (nat \<times> nat) res \<times> local_fs" where
  "quarantine_main u os doc have_pymupdf dry_run input_dir quarantine_arg fs =
     (if \<not> have_pymupdf
      then (Inl (OtherError ''PyMuPDF is required to inspect PDFs (pip install pymupdf).''), fs)
      else let qdir = (case quarantine_arg of Some d \<Rightarrow> d | None \<Rightarrow> input_dir @ [''quarantine'']) in
           (case quarantine_pdfs u os doc dry_run qdir (iter_pdfs input_dir fs) \<lparr>qs_scanned = 0, qs_moved = 0, qs_fs = fs\<rparr> of
              (Inl err, st) \<Rightarrow> (Inl err, qs_fs st)
            | (Inr _, st) \<Rightarrow> (Inr (qs_scanned st, qs_moved st), qs_fs st)))"


subsection \<open>What quarantine does to the files\<close>

lemma quarantine_pdf_cases:
  assumes "fs_ok (qs_fs st)" and "quarantine_pdf u os doc dry qdir pdf st = (Inr v, st')" and "is_file (qs_fs st) pdf"
  obtains (kept) "pdf_ok u os doc pdf (qs_fs st)" "st' = st\<lparr>qs_scanned := qs_scanned st + 1\<rparr>"
    | (dry) "\<not> pdf_ok u os doc pdf (qs_fs st)" "dry" "st' = st\<lparr>qs_scanned := qs_scanned st + 1, qs_moved := qs_moved st + 1\<rparr>"
    | (moved) "\<not> pdf_ok u os doc pdf (qs_fs st)" "\<not> dry" "shifted qdir {pdf} (qs_fs st) (qs_fs st')"
        "\<not> is_file (qs_fs st') pdf" "qs_scanned st' = qs_scanned st + 1" "qs_moved st' = qs_moved st + 1"
proof (cases "pdf_ok u os doc pdf (qs_fs st) \<or> dry")
  case True
  with assms(2) that show thesis by (auto simp: quarantine_pdf_def Let_def split: if_splits)
next
  case False
  then obtain p fs data where eu: "ensure_unique qdir (last pdf) (qs_fs st) = (Inr p, fs)"
    and data: "map_of (fs_files fs) pdf = Some data"
    and st': "st' = st\<lparr>qs_scanned := qs_scanned st + 1, qs_moved := qs_moved st + 1, qs_fs := move_file pdf p data fs\<rparr>"
    using assms(2) by (auto simp: quarantine_pdf_def Let_def split: prod.splits sum.splits option.splits if_splits)
  from ensure_unique_free [OF eu assms(1)] obtain c where
    f: "fs_ok fs" "fs_files fs = fs_files (qs_fs st)" "\<not> fs_exists fs p" "p = qdir @ [c]" "is_dir fs qdir" by blast
  note sh = shifted_move [OF f(1) data f(3-5)]
  have "shifted qdir {pdf} (qs_fs st) (qs_fs st')"
    using sh(1) f(2) st' by (simp add: shifted_def is_file_def)
  moreover have "\<not> is_file (qs_fs st') pdf"
    using sh(2) st' by (simp add: move_file_def is_file_def)
  ultimately show thesis using False st' that(3) by simp
qed

lemma quarantine_pdfs_effect:
  assumes "fs_ok (qs_fs st)" and "quarantine_pdfs u os doc dry qdir pdfs st = (Inr v, st')"
    and "\<And>c. qdir @ [c] \<notin> set pdfs" and "distinct pdfs" and "list_all (is_file (qs_fs st)) pdfs"
  shows "shifted qdir (set pdfs) (qs_fs st) (qs_fs st') \<and> (dry \<longrightarrow> qs_fs st' = qs_fs st) \<and>
    (\<not> dry \<longrightarrow> filter (is_file (qs_fs st')) pdfs = filter (\<lambda>p. pdf_ok u os doc p (qs_fs st)) pdfs) \<and>
    (\<forall>p\<in>set pdfs. pdf_ok u os doc p (qs_fs st) \<longrightarrow> map_of (fs_files (qs_fs st')) p = map_of (fs_files (qs_fs st)) p) \<and>
    qs_scanned st' = qs_scanned st + length pdfs \<and>
    qs_moved st' = qs_moved st + length (filter (\<lambda>p. \<not> pdf_ok u os doc p (qs_fs st)) pdfs)"
  using assms
proof (induction pdfs arbitrary: st)
  case Nil
  then show ?case by (simp add: shifted_files)
next
  case (Cons a pdfs)
  obtain v1 st1 where one: "quarantine_pdf u os doc dry qdir a st = (Inr v1, st1)"
    and rest: "quarantine_pdfs u os doc dry qdir pdfs st1 = (Inr v, st')"
    using Cons.prems(2) by (auto split: prod.splits sum.splits)
  have present: "is_file (qs_fs st) a" using Cons.prems(5) by simp
  have step: "shifted qdir {a} (qs_fs st) (qs_fs st1)"
    using Cons.prems(1) one present
    by (cases rule: quarantine_pdf_cases) (simp_all add: shifted_files Cons.prems(1))
  have same: "map_of (fs_files (qs_fs st1)) p = map_of (fs_files (qs_fs st)) p" if "p \<in> set pdfs" for p
  proof -
    have "is_file (qs_fs st) p" "p \<noteq> a" using Cons.prems(4,5) that by (auto simp: list_all_iff)
    with step show ?thesis unfolding shifted_def is_file_def by fastforce
  qed
  then have ok_same: "pdf_ok u os doc p (qs_fs st1) = pdf_ok u os doc p (qs_fs st)" if "p \<in> set pdfs" for p
    using that by (simp add: pdf_ok_def)
  have "list_all (is_file (qs_fs st1)) pdfs"
    using Cons.prems(5) same by (simp add: list_all_iff is_file_def)
  with Cons.IH [OF _ rest] step Cons.prems(3,4) have IH:
    "shifted qdir (set pdfs) (qs_fs st1) (qs_fs st')" "dry \<longrightarrow> qs_fs st' = qs_fs st1"
    "\<not> dry \<longrightarrow> filter (is_file (qs_fs st')) pdfs = filter (\<lambda>p. pdf_ok u os doc p (qs_fs st1)) pdfs"
    "\<forall>p\<in>set pdfs. pdf_ok u os doc p (qs_fs st1) \<longrightarrow> map_of (fs_files (qs_fs st')) p = map_of (fs_files (qs_fs st1)) p"
    "qs_scanned st' = qs_scanned st1 + length pdfs"
    "qs_moved st' = qs_moved st1 + length (filter (\<lambda>p. \<not> pdf_ok u os doc p (qs_fs st1)) pdfs)"
    by (simp_all add: shifted_def)
  have filters: "filter (\<lambda>p. pdf_ok u os doc p (qs_fs st1)) pdfs = filter (\<lambda>p. pdf_ok u os doc p (qs_fs st)) pdfs"
    "filter (\<lambda>p. \<not> pdf_ok u os doc p (qs_fs st1)) pdfs = filter (\<lambda>p. \<not> pdf_ok u os doc p (qs_fs st)) pdfs"
    using ok_same by (auto intro: filter_cong)
  have kept_same: "\<forall>p\<in>set pdfs. pdf_ok u os doc p (qs_fs st) \<longrightarrow> map_of (fs_files (qs_fs st')) p = map_of (fs_files (qs_fs st)) p"
    using IH(4) same ok_same by simp
  have total: "shifted qdir (set (a # pdfs)) (qs_fs st) (qs_fs st')"
    using shifted_trans [OF step IH(1)] Cons.prems(3) by simp
  have not_q: "\<nexists>c. a = qdir @ [c]" "a \<notin> set pdfs" using Cons.prems(3,4) by auto
  from Cons.prems(1) one present show ?case
  proof (cases rule: quarantine_pdf_cases)
    case kept
    have "map_of (fs_files (qs_fs st')) a = map_of (fs_files (qs_fs st)) a"
      using IH(1) present kept not_q(2) unfolding shifted_def is_file_def by fastforce
    then have "is_file (qs_fs st') a" using present by (simp add: is_file_def)
    with kept IH filters total kept_same \<open>map_of (fs_files (qs_fs st')) a = map_of (fs_files (qs_fs st)) a\<close> show ?thesis by simp
  next
    case dry
    with IH filters total kept_same show ?thesis by simp
  next
    case moved
    have "\<not> is_file (qs_fs st') a" using IH(1) moved(4) not_q(1) unfolding shifted_def by blast
    with moved IH filters total kept_same show ?thesis by simp
  qed
qed



subsection \<open>A directory of two PDFs\<close>

definition demo_pages :: "bytes \<Rightarrow> pdf_pages" where
  "demo_pages data = (if data = ''A'' then Some [Some (lit ''Invoice 7'')] else Some [Some (lit ''salary'')])"

definition demo_mixed :: local_fs where
  "demo_mixed =
     \<lparr>fs_files = [([''m'', ''a.pdf''], ''A''), ([''m'', ''b.pdf''], ''B'')], fs_dirs = [[], [''m'']]\<rparr>"

definition demo_quarantine :: "(nat \<times> nat) res \<times> local_fs" where
  "demo_quarantine = quarantine_main toy_ucd demo_access demo_pages True False [''m''] None demo_mixed"

lemma demo_quarantine_ok: "demo_quarantine = (Inr (2, 1), snd demo_quarantine)"
  by code_simp

lemma demo_mixed_ok: "fs_ok demo_mixed"
  by code_simp

lemma demo_mixed_pdfs: "iter_pdfs [''m''] demo_mixed = [[''m'', ''a.pdf''], [''m'', ''b.pdf'']]"
  by code_simp

lemma demo_a_ok: "pdf_ok toy_ucd demo_access demo_pages [''m'', ''a.pdf''] demo_mixed"
  "\<not> pdf_ok toy_ucd demo_access demo_pages [''m'', ''b.pdf''] demo_mixed"
  by code_simp+


end
