(* ===== verification/Mail_Fetch.thy ===== *)
theory Mail_Fetch
  imports Mail_Rules Py_Date "HOL-Library.Multiset"
begin

text \<open>
  \<open>usecases/fetch_invoices.py\<close>: the messages of a mailbox that were received in a window, are
  not sent mail and carry a PDF or speak of an invoice, newest first and no more than asked
  for. The mailbox is the adapter of \<open>adapters/base.py\<close>, a parameter: the messages it yields,
  the exception it ends with if any, and the attachments of each message, None where listing
  them raises. Dates are those of Py_Date; the second parser, \<open>strptime\<close>, matches the patterns
  its two formats stand for.
\<close>

subsection \<open>Dates of messages\<close>

definition strptime_second_pattern :: regex where
  "strptime_second_pattern =
     rseq [RGroup 1 (rseq [RSet True [Digit], RSet True [Digit], RSet True [Digit], RSet True [Digit]]),
     RSet True [Lit 45], RGroup 2 (RAlt (rseq [RSet True [Lit 49], RSet True [Range 48 50]]) (RAlt (rseq
     [RSet True [Lit 48], RSet True [Range 49 57]]) (RSet True [Range 49 57]))), RSet True [Lit 45],
     RGroup 3 (RAlt (rseq [RSet True [Lit 51], RSet True [Range 48 49]]) (RAlt (rseq [RSet True [Range 49
     50], RSet True [Digit]]) (RAlt (rseq [RSet True [Lit 48], RSet True [Range 49 57]]) (RAlt (RSet True
     [Range 49 57]) (rseq [RSet True [Lit 32], RSet True [Range 49 57]]))))), RRep 1 None True (RSet True
     [Space]), RGroup 4 (RAlt (rseq [RSet True [Lit 50], RSet True [Range 48 51]]) (RAlt (rseq [RSet True
     [Range 48 49], RSet True [Digit]]) (RSet True [Digit]))), RSet True [Lit 58], RGroup 5 (RAlt (rseq
     [RSet True [Range 48 53], RSet True [Digit]]) (RSet True [Digit])), RSet True [Lit 58], RGroup 6
     (RAlt (rseq [RSet True [Lit 54], RSet True [Range 48 49]]) (RAlt (rseq [RSet True [Range 48 53],
     RSet True [Digit]]) (RSet True [Digit])))]"

definition strptime_day_pattern :: regex where
  "strptime_day_pattern =
     rseq [RGroup 1 (rseq [RSet True [Digit], RSet True [Digit], RSet True [Digit], RSet True [Digit]]),
     RSet True [Lit 45], RGroup 2 (RAlt (rseq [RSet True [Lit 49], RSet True [Range 48 50]]) (RAlt (rseq
     [RSet True [Lit 48], RSet True [Range 49 57]]) (RSet True [Range 49 57]))), RSet True [Lit 45],
     RGroup 3 (RAlt (rseq [RSet True [Lit 51], RSet True [Range 48 49]]) (RAlt (rseq [RSet True [Range 49
     50], RSet True [Digit]]) (RAlt (rseq [RSet True [Lit 48], RSet True [Range 49 57]]) (RAlt (RSet True
     [Range 49 57]) (rseq [RSet True [Lit 32], RSet True [Range 49 57]])))))]"

definition digits_int :: "ucd \<Rightarrow> ustr \<Rightarrow> int" where
  "digits_int u s = fold (\<lambda>c n. case uc_decimal u c of Some d \<Rightarrow> 10 * n + d | None \<Rightarrow> n) s 0"

definition group_int :: "ucd \<Rightarrow> match_object \<Rightarrow> nat \<Rightarrow> int" where
  "group_int u m n = (case group m n of Some s \<Rightarrow> digits_int u s | None \<Rightarrow> 0)"

definition midnight :: "py_date \<Rightarrow> time" where
  "midnight d = (date_toordinal d - epoch_ordinal) * micros_per_day"

text \<open>\<open>datetime.strptime\<close> with one of the two formats; a match must take the whole text.\<close>

definition strptime_with :: "ucd \<Rightarrow> regex \<Rightarrow> ustr \<Rightarrow> time option" where
  "strptime_with u pat s =
     (case re_match u True pat s of
        None \<Rightarrow> None
      | Some m \<Rightarrow>
          let d = Date (group_int u m 1) (group_int u m 2) (group_int u m 3);
              h = group_int u m 4; mi = group_int u m 5; sec = group_int u m 6
          in if mo_after m = [] \<and> valid_date d \<and> sec < 60
             then Some (midnight d + ((h * 60 + mi) * 60 + sec) * 1000000) else None)"

definition latin :: "ustr \<Rightarrow> pystr" where
  "latin s = map (\<lambda>c. if 0 \<le> c \<and> c < 256 then char_of c else char_of (255 :: int)) s"

text \<open>\<open>astimezone\<close> of a time outside the calendar is an \<open>OverflowError\<close>.\<close>

definition in_calendar :: "time \<Rightarrow> bool" where
  "in_calendar t \<longleftrightarrow> midnight (Date 1 1 1) \<le> t \<and> t < midnight (Date 9999 12 31) + micros_per_day"

definition parse_received :: "ucd \<Rightarrow> ustr \<Rightarrow> (time option) res" where
  "parse_received u value =
     (let candidate = u_strip u value;
          candidate = (if has_suffix (lit ''Z'') candidate then butlast candidate @ lit ''+00:00'' else candidate)
      in if value = [] \<or> u_strip u value = [] then Inr None
         else (case fromisoformat_utc (latin candidate) of
                 Some t \<Rightarrow> if in_calendar t then Inr (Some t) else Inl (OverflowError ''date value out of range'')
               | None \<Rightarrow>
                   (case strptime_with u strptime_second_pattern candidate of
                      Some t \<Rightarrow> Inr (Some t)
                    | None \<Rightarrow> Inr (strptime_with u strptime_day_pattern candidate))))"

definition parse_date_bound :: "pystr \<Rightarrow> time res" where
  "parse_date_bound value =
     (case parse_date value of
        Some (d, []) \<Rightarrow> Inr (midnight d)
      | _ \<Rightarrow> Inl (ValueError (''Invalid isoformat string: '' @ py_repr_str value)))"


subsection \<open>Mailboxes\<close>

record attachment_meta =
  at_id :: ustr
  at_name :: ustr
  at_content_type :: ustr
  at_size :: "int option"

record message_meta =
  mm_id :: ustr
  mm_subject :: ustr
  mm_sender :: ustr
  mm_received :: ustr
  mm_web_link :: "ustr option"
  mm_preview :: ustr
  mm_has_attachments :: bool
  mm_folder :: "ustr option"

record mail_adapter =
  ad_messages :: "message_meta list"
  ad_failure :: "exn option"
  ad_attachments :: "message_meta \<Rightarrow> attachment_meta option list"

record fetch_config =
  fc_start_date :: pystr
  fc_end_date :: pystr
  fc_exclude_sent :: bool
  fc_max_messages :: int

definition sent_folders :: "ustr list" where
  "sent_folders = [lit ''sent'', lit ''sentitems'', lit ''sent items'', lit ''sentitemsfolder'']"

definition is_sent_message :: "ucd \<Rightarrow> message_meta \<Rightarrow> bool" where
  "is_sent_message u m \<longleftrightarrow>
     u_lower u (u_strip u (case mm_folder m of None \<Rightarrow> [] | Some f \<Rightarrow> f)) \<in> set sent_folders"

fun has_pdf :: "ucd \<Rightarrow> attachment_meta option list \<Rightarrow> bool" where
  "has_pdf u [] \<longleftrightarrow> False"
| "has_pdf u (None # atts) \<longleftrightarrow> False"
| "has_pdf u (Some att # atts) \<longleftrightarrow>
     contains (lit ''pdf'') (u_lower u (at_content_type att)) \<or> has_suffix (lit ''.pdf'') (u_lower u (at_name att)) \<or>
     has_pdf u atts"

definition message_has_pdf_attachment :: "ucd \<Rightarrow> mail_adapter \<Rightarrow> message_meta \<Rightarrow> bool" where
  "message_has_pdf_attachment u ad m \<longleftrightarrow> has_pdf u (ad_attachments ad m)"


subsection \<open>Fetching\<close>

definition keeps_message :: "ucd \<Rightarrow> mail_adapter \<Rightarrow> fetch_config \<Rightarrow> time \<Rightarrow> time \<Rightarrow> message_meta \<Rightarrow> bool res" where
  "keeps_message u ad cfg start end_time m =
     (case parse_received u (mm_received m) of
        Inl err \<Rightarrow> Inl err
      | Inr None \<Rightarrow> Inr False
      | Inr (Some received_at) \<Rightarrow>
          Inr (if received_at < start \<or> end_time \<le> received_at then False
               else if fc_exclude_sent cfg \<and> is_sent_message u m then False
               else (mm_has_attachments m \<and> message_has_pdf_attachment u ad m) \<or>
                    should_consider_message u (mm_subject m) (mm_preview m)))"

fun matched_messages :: "ucd \<Rightarrow> mail_adapter \<Rightarrow> fetch_config \<Rightarrow> time \<Rightarrow> time \<Rightarrow> message_meta list \<Rightarrow> (message_meta list) res" where
  "matched_messages u ad cfg start end_time [] =
     (case ad_failure ad of None \<Rightarrow> Inr [] | Some err \<Rightarrow> Inl err)"
| "matched_messages u ad cfg start end_time (m # ms) =
     (case keeps_message u ad cfg start end_time m of
        Inl err \<Rightarrow> Inl err
      | Inr keep \<Rightarrow>
          (case matched_messages u ad cfg start end_time ms of
             Inl err \<Rightarrow> Inl err
           | Inr rest \<Rightarrow> Inr (if keep then m # rest else rest)))"

definition received_or :: "ucd \<Rightarrow> time \<Rightarrow> message_meta \<Rightarrow> time" where
  "received_or u start m = (case parse_received u (mm_received m) of Inr (Some t) \<Rightarrow> t | _ \<Rightarrow> start)"

text \<open>A stable sort, the largest key first\<close>

definition sort_desc :: "('a \<Rightarrow> int) \<Rightarrow> 'a list \<Rightarrow> 'a list" where
  "sort_desc f xs = sort_key (\<lambda>x. - f x) xs"

definition fetch_invoices :: "ucd \<Rightarrow> mail_adapter \<Rightarrow> fetch_config \<Rightarrow> (message_meta list) res" where
  "fetch_invoices u ad cfg =
     res_bind (parse_date_bound (fc_start_date cfg)) (\<lambda>start.
     res_bind (parse_date_bound (fc_end_date cfg)) (\<lambda>end_time.
     res_bind (matched_messages u ad cfg start end_time (ad_messages ad)) (\<lambda>matched.
       let matched = sort_desc (received_or u start) matched in
       Inr (if 0 < fc_max_messages cfg then take (nat (fc_max_messages cfg)) matched else matched))))"


subsection \<open>What is fetched\<close>

text \<open>The messages a fetch is after, without the order the code tests them in\<close>

definition wanted :: "ucd \<Rightarrow> mail_adapter \<Rightarrow> fetch_config \<Rightarrow> time \<Rightarrow> time \<Rightarrow> message_meta \<Rightarrow> bool" where
  "wanted u ad cfg start end_time m \<longleftrightarrow>
     (\<exists>t. parse_received u (mm_received m) = Inr (Some t) \<and> start \<le> t \<and> t < end_time) \<and>
     \<not> (fc_exclude_sent cfg \<and> is_sent_message u m) \<and>
     ((mm_has_attachments m \<and> message_has_pdf_attachment u ad m) \<or> should_consider_message u (mm_subject m) (mm_preview m))"

lemma matched_wanted:
  "matched_messages u ad cfg start end_time ms = Inr matched \<Longrightarrow>
     matched = filter (wanted u ad cfg start end_time) ms \<and> ad_failure ad = None"
proof (induction ms arbitrary: matched)
  case (Cons m ms)
  then obtain keep rest where k: "keeps_message u ad cfg start end_time m = Inr keep"
    and r: "matched_messages u ad cfg start end_time ms = Inr rest" "matched = (if keep then m # rest else rest)"
    by (auto split: sum.splits)
  from k have "keep \<longleftrightarrow> wanted u ad cfg start end_time m"
    by (auto simp: keeps_message_def wanted_def split: sum.splits option.splits if_splits)
  with Cons.IH [OF r(1)] r(2) show ?case by simp
qed (simp split: option.splits)



subsection \<open>A mailbox of three messages\<close>

definition demo_message :: "pystr \<Rightarrow> pystr \<Rightarrow> pystr \<Rightarrow> message_meta" where
  "demo_message i subject received =
     \<lparr>mm_id = lit i, mm_subject = lit subject, mm_sender = [], mm_received = lit received, mm_web_link = None,
      mm_preview = [], mm_has_attachments = False, mm_folder = None\<rparr>"

definition demo_mailbox :: mail_adapter where
  "demo_mailbox =
     \<lparr>ad_messages =
        [demo_message ''1'' ''Your Invoice'' ''2024-01-05T10:00:00Z'', demo_message ''2'' ''Hello'' ''2024-01-06T10:00:00Z'',
         demo_message ''3'' ''Receipt'' ''2024-01-07 08:00:00'', demo_message ''4'' ''Receipt'' ''2024-02-07 08:00:00''],
      ad_failure = None, ad_attachments = (\<lambda>_. [])\<rparr>"

definition demo_fetch :: fetch_config where
  "demo_fetch = \<lparr>fc_start_date = ''2024-01-01'', fc_end_date = ''2024-02-01'', fc_exclude_sent = True, fc_max_messages = 5\<rparr>"

definition demo_fetched :: "(message_meta list) res" where
  "demo_fetched = fetch_invoices toy_ucd demo_mailbox demo_fetch"

lemma demo_bounds: "parse_date_bound (fc_start_date demo_fetch) = Inr 1704067200000000"
  "parse_date_bound (fc_end_date demo_fetch) = Inr 1706745600000000"
  by code_simp+

lemma demo_limit: "fc_max_messages demo_fetch = 5"
  by (simp add: demo_fetch_def)

lemma demo_matched: "matched_messages toy_ucd demo_mailbox demo_fetch 1704067200000000 1706745600000000 (ad_messages demo_mailbox) =
    Inr [demo_message ''1'' ''Your Invoice'' ''2024-01-05T10:00:00Z'', demo_message ''3'' ''Receipt'' ''2024-01-07 08:00:00'']"
  by code_simp

lemma demo_sorted: "sort_desc (received_or toy_ucd 1704067200000000) [demo_message ''1'' ''Your Invoice'' ''2024-01-05T10:00:00Z'', demo_message ''3'' ''Receipt'' ''2024-01-07 08:00:00''] =
    [demo_message ''3'' ''Receipt'' ''2024-01-07 08:00:00'', demo_message ''1'' ''Your Invoice'' ''2024-01-05T10:00:00Z'']"
  by code_simp

lemma demo_fetched_ok: "demo_fetched = Inr [demo_message ''3'' ''Receipt'' ''2024-01-07 08:00:00'', demo_message ''1'' ''Your Invoice'' ''2024-01-05T10:00:00Z'']"
  unfolding demo_fetched_def fetch_invoices_def demo_bounds res_bind_Inr
  by (simp add: demo_matched demo_sorted demo_limit Let_def)


end
