(* ===== verification/File_Names.thy ===== *)
theory File_Names
  imports Py_Regex
begin

text \<open>
  \<open>domain/files.py\<close>: the names files are saved under. A name is cleaned of the characters a
  path cannot hold, tagged with the message and numbered until it is free. The directory is
  given by the names that exist in it.
\<close>

subsection \<open>Cleaning\<close>

definition forbidden :: "cclass list" where
  "forbidden = [Lit 92, Lit 47, Lit 58, Lit 42, Lit 63, Lit 34, Lit 60, Lit 62, Lit 124]"

definition sanitize_filename :: "ucd \<Rightarrow> ustr \<Rightarrow> ustr \<Rightarrow> ustr" where
  "sanitize_filename u name fallback =
     (let name = re_sub u False (run_of True forbidden) (\<lambda>_. [95]) (u_strip u name) in
      if name = [] then fallback else name)"

definition alnum_ascii :: "cclass list" where
  "alnum_ascii = [Range 65 90, Range 97 122, Range 48 57]"

definition short_msg_tag :: "ucd \<Rightarrow> ustr \<Rightarrow> nat \<Rightarrow> ustr" where
  "short_msg_tag u msg_id n =
     (let cleaned = re_sub u False (RSet False alnum_ascii) (\<lambda>_. []) msg_id;
          tag = (if n \<le> length cleaned \<and> 0 < n then drop (length cleaned - n) cleaned else cleaned)
      in if tag = [] then lit ''msg'' else tag)"

text \<open>\<open>os.path.splitext\<close> of a name without separators\<close>

definition split_ext :: "ustr \<Rightarrow> ustr \<times> ustr" where
  "split_ext p =
     (case dropWhile (\<lambda>c. c \<noteq> 46) (rev p) of
        [] \<Rightarrow> (p, [])
      | dot # passed \<Rightarrow>
          if list_ex (\<lambda>c. c \<noteq> 46) passed then (rev passed, dot # rev (takeWhile (\<lambda>c. c \<noteq> 46) (rev p)))
          else (p, []))"


subsection \<open>Free names\<close>

definition u_nat :: "nat \<Rightarrow> ustr" where
  "u_nat n = lit (py_str_nat n)"

definition tagged :: "ustr \<Rightarrow> ustr \<Rightarrow> ustr" where
  "tagged stem tag = stem @ [95, 95] @ tag"

lemma lit_inj: "lit s = lit t \<Longrightarrow> s = t"
proof (induction s arbitrary: t)
  case (Cons c s)
  then obtain d t' where t: "t = d # t'" by (cases t) (auto simp: lit_def)
  with Cons.prems have "(of_char c :: int) = of_char d" "lit s = lit t'" by (simp_all add: lit_def)
  with Cons.IH t show ?case by simp
qed (simp add: lit_def)

lemma tagged_inj: "tagged stem (u_nat j) @ ext = tagged stem (u_nat k) @ ext \<Longrightarrow> j = k"
  by (auto simp: tagged_def u_nat_def dest!: lit_inj py_str_nat_inj)

lemma finite_numbered: "finite {k. n \<le> k \<and> tagged stem (u_nat k) @ ext \<in> set taken}"
proof -
  have "inj_on (\<lambda>k. tagged stem (u_nat k) @ ext) {k. n \<le> k \<and> tagged stem (u_nat k) @ ext \<in> set taken}"
    by (intro inj_onI) (rule tagged_inj)
  moreover have "(\<lambda>k. tagged stem (u_nat k) @ ext) ` {k. n \<le> k \<and> tagged stem (u_nat k) @ ext \<in> set taken} \<subseteq> set taken"
    by auto
  ultimately show ?thesis by (meson List.finite_set finite_imageD finite_subset)
qed

text \<open>The counting loop of \<open>ensure_unique_path\<close>; it ends because a directory holds finitely many names.\<close>

function free_name :: "ustr list \<Rightarrow> ustr \<Rightarrow> ustr \<Rightarrow> nat \<Rightarrow> ustr \<Rightarrow> ustr" where
  "free_name taken stem ext i candidate =
     (if candidate \<in> set taken
      then if tagged stem (u_nat i) @ ext \<in> set taken
           then free_name taken stem ext (i + 1) (tagged stem (u_nat i) @ ext)
           else tagged stem (u_nat i) @ ext
      else candidate)"
  by pat_completeness auto

termination
proof (relation "measure (\<lambda>(taken, stem, ext, n, c). card {k. n \<le> k \<and> tagged stem (u_nat k) @ ext \<in> set taken})")
  fix taken stem ext i and candidate :: ustr
  assume taken: "tagged stem (u_nat i) @ ext \<in> set taken"
  let ?S = "\<lambda>n. {k. n \<le> k \<and> tagged stem (u_nat k) @ ext \<in> set taken}"
  have "i \<in> ?S i - ?S (i + 1)" using taken by simp
  then have "?S (i + 1) \<subset> ?S i" by fastforce
  then have "card (?S (i + 1)) < card (?S i)"
    by (rule psubset_card_mono [OF finite_numbered])
  then show "((taken, stem, ext, i + 1, tagged stem (u_nat i) @ ext), taken, stem, ext, i, candidate) \<in>
      measure (\<lambda>(taken, stem, ext, n, c). card {k. n \<le> k \<and> tagged stem (u_nat k) @ ext \<in> set taken})"
    by simp
qed simp

declare free_name.simps [simp del]

definition ensure_unique_path :: "ucd \<Rightarrow> ustr list \<Rightarrow> ustr \<Rightarrow> ustr option \<Rightarrow> ustr" where
  "ensure_unique_path u taken wanted_name tag =
     (let wanted = sanitize_filename u wanted_name (lit ''invoice.pdf'');
          (stem, ext) = split_ext wanted;
          ext = (if ext = [] then lit ''.pdf'' else ext);
          stem = (case tag of Some t \<Rightarrow> if t = [] then stem else tagged stem t | None \<Rightarrow> stem)
      in free_name taken stem ext 2 (stem @ ext))"


subsection \<open>What the names are\<close>

lemma in_forbidden: "in_classes u False forbidden c \<longleftrightarrow> c \<in> {92, 47, 58, 42, 63, 34, 60, 62, 124}"
  by (auto simp: in_classes_def forbidden_def variants_def)

lemma sanitize_clean:
  assumes "c \<in> set (sanitize_filename u name fallback)" and "fallback \<noteq> []"
  shows "\<not> in_classes u False forbidden c \<or> c \<in> set fallback"
proof (cases "c \<in> set fallback")
  case False
  with assms(1) have "c \<in> set (re_sub u False (run_of True forbidden) (\<lambda>_. [95]) (u_strip u name))"
    by (auto simp: sanitize_filename_def Let_def split: if_splits)
  then have "c \<in> set (sub_runs (\<lambda>c. in_classes u False forbidden c = True) (\<lambda>_. [95]) (u_strip u name))"
    using re_sub_run [of u False True forbidden "\<lambda>_. [95]"] by simp
  from sub_runs_keeps [OF this] show ?thesis by (auto simp: in_forbidden)
qed simp

lemma sanitize_nonempty: "fallback \<noteq> [] \<Longrightarrow> sanitize_filename u name fallback \<noteq> []"
  by (simp add: sanitize_filename_def Let_def)

lemma split_ext_parts:
  assumes "split_ext p = (stem, ext)"
  shows "stem @ ext = p \<and> (ext = [] \<or> list_ex (\<lambda>c. c \<noteq> 46) stem)"
proof (cases "dropWhile (\<lambda>c. c \<noteq> 46) (rev p)")
  case (Cons dot passed)
  have "rev p = takeWhile (\<lambda>c. c \<noteq> 46) (rev p) @ dot # passed"
    using takeWhile_dropWhile_id [of "\<lambda>c. c \<noteq> 46" "rev p"] unfolding Cons by simp
  then have "rev (rev p) = rev passed @ dot # rev (takeWhile (\<lambda>c. c \<noteq> 46) (rev p))"
    by (metis append.assoc append_Cons append_Nil rev.simps(2) rev_append)
  with assms Cons show ?thesis by (auto simp: split_ext_def list_ex_iff split: if_splits)
next
  case Nil
  then have "split_ext p = (p, [])" unfolding split_ext_def by (simp only: list.case)
  with assms show ?thesis by simp
qed

lemma free_name_free:
  "free_name taken stem ext i c \<notin> set taken \<and> (free_name taken stem ext i c = c \<or> (\<exists>k. free_name taken stem ext i c = tagged stem (u_nat k) @ ext))"
proof (induction taken stem ext i c rule: free_name.induct)
  case (1 taken stem ext i c)
  show ?case
  proof (cases "c \<in> set taken \<and> tagged stem (u_nat i) @ ext \<in> set taken")
    case True
    with 1 show ?thesis by (auto simp: free_name.simps [of taken stem ext i c])
  qed (auto simp: free_name.simps [of taken stem ext i c])
qed

lemma u_nat_plain: "c \<in> set (u_nat n) \<Longrightarrow> 48 \<le> c \<and> c \<le> 57"
proof -
  assume "c \<in> set (u_nat n)"
  then obtain x where x: "x \<in> set (py_str_nat n)" "c = of_char x" by (auto simp: u_nat_def lit_def)
  from py_str_nat_digits [of n] x(1) have "48 \<le> (of_char x :: nat) \<and> (of_char x :: nat) \<le> 57"
    by (auto simp: is_digit_def Let_def)
  moreover have "c = int (of_char x)" unfolding x(2) of_nat_of_char ..
  ultimately show ?thesis by simp
qed

text \<open>
  The name a download gets is free and stays inside its directory: whatever the sender
  called the file, the name is not taken, is not empty and has none of the characters that
  could lead out of the directory or that file systems refuse, provided the tag has none.
\<close>

theorem ensure_unique_path_safe:
  assumes "\<And>t. tag = Some t \<Longrightarrow> set t \<inter> {92, 47, 58, 42, 63, 34, 60, 62, 124} = {}"
  shows "ensure_unique_path u taken wanted tag \<notin> set taken \<and> ensure_unique_path u taken wanted tag \<noteq> [] \<and>
    set (ensure_unique_path u taken wanted tag) \<inter> {92, 47, 58, 42, 63, 34, 60, 62, 124} = {} \<and>
    ensure_unique_path u taken wanted tag \<notin> {lit ''.'', lit ''..''}"
proof -
  obtain stem ext where split: "split_ext (sanitize_filename u wanted (lit ''invoice.pdf'')) = (stem, ext)"
    by (cases "split_ext (sanitize_filename u wanted (lit ''invoice.pdf''))")
  let ?ext = "if ext = [] then lit ''.pdf'' else ext"
  let ?stem = "case tag of Some t \<Rightarrow> if t = [] then stem else tagged stem t | None \<Rightarrow> stem"
  have name: "ensure_unique_path u taken wanted tag = free_name taken ?stem ?ext 2 (?stem @ ?ext)"
    by (simp add: ensure_unique_path_def split Let_def)
  have clean: "x \<notin> {92, 47, 58, 42, 63, 34, 60, 62, 124}" if x: "x \<in> set ?stem \<union> set ?ext" for x
  proof -
    from x consider "x \<in> set stem \<union> set ext" | t where "tag = Some t" "x \<in> set t" | "x = 95" | "x \<in> set (lit ''.pdf'')"
      by (auto simp: tagged_def split: option.splits if_splits)
    then show ?thesis
    proof cases
      case 1
      then have "x \<in> set (sanitize_filename u wanted (lit ''invoice.pdf''))"
        using split_ext_parts [OF split] by (metis Un_iff set_append)
      from sanitize_clean [OF this] show ?thesis by (auto simp: in_forbidden lit_def)
    next
      case 2
      with assms [of t] show ?thesis by auto
    qed (auto simp: lit_def)
  qed
  have dotless: "\<exists>x\<in>set ?stem \<union> set ?ext. x \<noteq> 46"
  proof (cases "ext = []")
    case True
    then show ?thesis by (auto simp: lit_def)
  next
    case False
    with split_ext_parts [OF split] show ?thesis by (auto simp: list_ex_iff tagged_def split: option.split)
  qed
  define n where "n = ensure_unique_path u taken wanted tag"
  have free: "n \<notin> set taken" and form: "n = ?stem @ ?ext \<or> (\<exists>k. n = tagged ?stem (u_nat k) @ ?ext)"
    using free_name_free [of taken ?stem ?ext 2 "?stem @ ?ext"] unfolding n_def name by blast+
  from form have chars: "set ?stem \<union> set ?ext \<subseteq> set n" "set n \<subseteq> set ?stem \<union> set ?ext \<union> {95} \<union> {48..57}"
    by (auto simp: tagged_def dest!: u_nat_plain)
  have "set n \<inter> {92, 47, 58, 42, 63, 34, 60, 62, 124} = {}"
    using chars(2) clean by fastforce
  moreover have "n \<noteq> []" "n \<notin> {lit ''.'', lit ''..''}"
    using dotless chars(1) by (auto simp: lit_def)
  ultimately show ?thesis using free unfolding n_def by blast
qed

lemma ensure_unique_path_safe_witness:
  "ensure_unique_path toy_ucd [lit ''.._a_b.pdf''] (lit ''../a:b.pdf'') (Some (lit ''x9'')) \<notin> {lit ''.._a_b.pdf'', [], lit ''..''} \<and>
   ensure_unique_path toy_ucd [lit ''.._a_b.pdf''] (lit ''../a:b.pdf'') None = lit ''.._a_b__2.pdf''"
proof -
  have "ensure_unique_path toy_ucd [lit ''.._a_b.pdf''] (lit ''../a:b.pdf'') None = lit ''.._a_b__2.pdf''"
    by code_simp
  then show ?thesis
    using ensure_unique_path_safe [of "Some (lit ''x9'')" toy_ucd "[lit ''.._a_b.pdf'']" "lit ''../a:b.pdf''"]
    by (auto simp: lit_def)
qed

end
