(* ===== verification/Downloads.thy ===== *)
theory Downloads
  imports File_Names Py_Codec Py_Date Auth_Core
begin

text \<open>
  \<open>usecases/pdf_download.py\<close> and \<open>usecases/provider_shared.py\<close>: fetching a PDF behind a link,
  with a second try without a referer when the first is refused, and the helpers the finders
  share. The HTTP client is a parameter that answers the n-th request, or raises. A page's
  headers are a function of the header's name.
\<close>

subsection \<open>Names from headers\<close>

definition filename_pattern :: regex where
  "filename_pattern =
     rseq [rlit [102, 105, 108, 101, 110, 97, 109, 101], RRep 0 (Some 1) True (RSet True [Lit 42]), RSet
     True [Lit 61], RRep 0 (Some 1) True (rlit [85, 84, 70, 45, 56, 39, 39]), RRep 0 (Some 1) True (RSet
     True [Lit 34]), RGroup 1 (RRep 1 None True (RSet False [Lit 34, Lit 59])), RRep 0 (Some 1) True
     (RSet True [Lit 34])]"

definition extract_filename :: "ucd \<Rightarrow> ustr \<Rightarrow> ustr option" where
  "extract_filename u content_disposition =
     (if content_disposition = [] then None
      else (case re_search u True filename_pattern content_disposition of
              None \<Rightarrow> None | Some m \<Rightarrow> group m 1))"

definition link_invoice :: ustr where
  "link_invoice = lit ''link_invoice.pdf''"

definition default_sanitize_filename :: "ucd \<Rightarrow> ustr \<Rightarrow> ustr" where
  "default_sanitize_filename u name = sanitize_filename u name link_invoice"


subsection \<open>Requests\<close>

definition default_browser_ua :: pystr where
  "default_browser_ua =
     ''Mozilla/5.0 (Macintosh; Intel Mac OS X 14_5) AppleWebKit/537.36 (KHTML, like Gecko) Chrome/127.0.0.0 Safari/537.36''"

definition yes_domains :: "pystr list" where
  "yes_domains = [''yes.co.il'', ''www.yes.co.il'', ''svc.yes.co.il'']"

definition set_default :: "pystr \<Rightarrow> pystr \<Rightarrow> (pystr \<times> pystr) list \<Rightarrow> (pystr \<times> pystr) list" where
  "set_default k v d = (case map_of d k of Some _ \<Rightarrow> d | None \<Rightarrow> d @ [(k, v)])"

definition truthy :: "pystr option \<Rightarrow> bool" where
  "truthy s \<longleftrightarrow> (case s of None \<Rightarrow> False | Some t \<Rightarrow> t \<noteq> [])"

definition dquote :: pystr where "dquote = [CHR 0x22]"

definition headers_for_attempt ::
  "env \<Rightarrow> pystr \<Rightarrow> pystr \<Rightarrow> pystr option \<Rightarrow> bool \<Rightarrow> bool \<Rightarrow> ((pystr \<times> pystr) list) res" where
  "headers_for_attempt e url user_agent referer include_referer include_yes_headers =
     (let headers = [(''User-Agent'', user_agent),
            (''Accept'', ''application/pdf,application/octet-stream;q=0.9,*/*;q=0.8''),
            (''Accept-Language'', ''he-IL,he;q=0.9,en-US;q=0.8,en;q=0.7''), (''Cache-Control'', ''no-cache''),
            (''Pragma'', ''no-cache''), (''Connection'', ''close''), (''Upgrade-Insecure-Requests'', ''1'')];
          headers = (if include_referer \<and> truthy referer then dict_set ''Referer'' (the referer) headers else headers)
      in case urlparse e url of
           Inl err \<Rightarrow> Inl err
         | Inr parsed \<Rightarrow>
             Inr (if include_yes_headers \<and> py_lower (url_hostname parsed) \<in> set yes_domains
                  then fold (\<lambda>(k, v). set_default k v)
                    [(''Origin'', ''https://www.yes.co.il''), (''Sec-Fetch-Site'', ''cross-site''),
                     (''Sec-Fetch-Mode'', ''navigate''), (''Sec-Fetch-Dest'', ''document''), (''Sec-Fetch-User'', ''?1''),
                     (''sec-ch-ua'', dquote @ ''Not/A)Brand'' @ dquote @ '';v='' @ dquote @ ''8'' @ dquote @ '', '' @
                        dquote @ ''Chromium'' @ dquote @ '';v='' @ dquote @ ''127'' @ dquote @ '', '' @
                        dquote @ ''Google Chrome'' @ dquote @ '';v='' @ dquote @ ''127'' @ dquote),
                     (''sec-ch-ua-platform'', dquote @ ''macOS'' @ dquote), (''sec-ch-ua-mobile'', ''?0'')] headers
                  else headers))"

record http_reply =
  hr_status_code :: int
  hr_headers :: "pystr \<Rightarrow> ustr option"
  hr_content :: bytes

definition header_or_empty :: "http_reply \<Rightarrow> pystr \<Rightarrow> ustr" where
  "header_or_empty r name = (case hr_headers r name of None \<Rightarrow> [] | Some v \<Rightarrow> v)"

definition looks_like_pdf :: "ucd \<Rightarrow> pystr \<Rightarrow> http_reply \<Rightarrow> bool" where
  "looks_like_pdf u url r \<longleftrightarrow>
     contains (lit ''pdf'') (u_lower u (header_or_empty r ''Content-Type'')) \<or> has_suffix ''.pdf'' (py_lower url) \<or>
     take 4 (hr_content r) = ''%PDF''"

definition download_name :: "ucd \<Rightarrow> (ustr \<Rightarrow> ustr) \<Rightarrow> http_reply \<Rightarrow> ustr" where
  "download_name u sanitize r =
     (case extract_filename u (header_or_empty r ''Content-Disposition'') of
        None \<Rightarrow> link_invoice
      | Some extracted \<Rightarrow>
          if extracted = [] then link_invoice
          else let filename = sanitize extracted in
               if has_suffix (lit ''.pdf'') (u_lower u filename) then filename else filename @ lit ''.pdf'')"

record download_options =
  do_referer :: "pystr option"
  do_user_agent :: "pystr option"
  do_include_yes_headers :: bool
  do_fallback_on_403 :: bool

type_synonym request_get = "nat \<Rightarrow> pystr \<Rightarrow> (pystr \<times> pystr) list \<Rightarrow> http_reply option"

text \<open>One attempt after the other; the number of the request counts up.\<close>

fun download_attempts ::
  "env \<Rightarrow> ucd \<Rightarrow> request_get \<Rightarrow> (ustr \<Rightarrow> ustr) \<Rightarrow> pystr \<Rightarrow> download_options \<Rightarrow> nat \<Rightarrow> bool list \<Rightarrow> ((ustr \<times> bytes) option) res" where
  "download_attempts e u request sanitize url opts n [] = Inr None"
| "download_attempts e u request sanitize url opts n (include_referer # attempts) =
     (let ua = (if truthy (do_user_agent opts) then the (do_user_agent opts) else default_browser_ua) in
      case headers_for_attempt e url ua (do_referer opts) include_referer (do_include_yes_headers opts) of
        Inl err \<Rightarrow> Inl err
      | Inr headers \<Rightarrow>
          (let again = download_attempts e u request sanitize url opts (n + 1) attempts in
           case request n url headers of
             None \<Rightarrow> again
           | Some r \<Rightarrow>
               if hr_status_code r = 403 \<and> include_referer \<and> do_fallback_on_403 opts then again
               else if hr_status_code r \<noteq> 200 \<or> \<not> looks_like_pdf u url r then again
               else Inr (Some (download_name u sanitize r, hr_content r))))"

definition download_direct_pdf ::
  "env \<Rightarrow> ucd \<Rightarrow> request_get \<Rightarrow> (ustr \<Rightarrow> ustr) \<Rightarrow> pystr \<Rightarrow> download_options \<Rightarrow> ((ustr \<times> bytes) option) res" where
  "download_direct_pdf e u request sanitize url opts =
     download_attempts e u request sanitize url opts 0
       ((if truthy (do_referer opts) then [True] else [False]) @
        (if truthy (do_referer opts) \<and> do_fallback_on_403 opts then [False] else []))"


subsection \<open>Helpers of the finders\<close>

definition now_utc_iso :: "time \<Rightarrow> pystr" where
  "now_utc_iso now = datetime_isoformat now"

definition now_stamp :: "time \<Rightarrow> pystr" where
  "now_stamp now =
     (let d = date_of_time now; s = (now mod micros_per_day) div 1000000
      in pad_num 4 (year d) @ pad_num 2 (month d) @ pad_num 2 (day d) @ ''_'' @
         pad_num 2 (s div 3600) @ pad_num 2 (s div 60 mod 60) @ pad_num 2 (s mod 60))"

definition bezeq_slashes :: regex where
  "bezeq_slashes =
     rseq [RGroup 1 (rlit [58, 47, 47, 109, 121, 105, 110, 118, 111, 105, 99, 101, 46, 98, 101, 122, 101,
     113, 46, 99, 111, 46, 105, 108]), RRep 1 None True (RSet True [Lit 47]), RAhead True (RSet True [Lit
     63])]"

definition backslash :: ustr where "backslash = [92]"

definition normalize_myinvoice_url :: "ucd \<Rightarrow> ustr \<Rightarrow> ustr" where
  "normalize_myinvoice_url u url =
     (let s = u_strip u url;
          s = replace_all (backslash @ lit ''?'') (lit ''?'') s;
          s = replace_all (backslash @ lit ''&'') (lit ''&'') s;
          s = replace_all (backslash @ lit ''='') (lit ''='') s;
          s = replace_all (lit ''://myinvoice.bezeq.co.il//?'') (lit ''://myinvoice.bezeq.co.il/?'') s
      in re_sub u False bezeq_slashes (\<lambda>m. (case group m 1 of Some g \<Rightarrow> g | None \<Rightarrow> []) @ lit ''/'') s)"

definition is_retryable_reason :: "pystr \<Rightarrow> bool" where
  "is_retryable_reason reason \<longleftrightarrow>
     (let txt = py_lower reason in contains ''_fail'' txt \<or> contains ''timeout'' txt \<or> contains ''rate'' txt)"

text \<open>What \<open>for row in payload.get(key, []) or []\<close> runs through; None for a \<open>TypeError\<close>.\<close>

definition rows_under :: "json \<Rightarrow> pystr \<Rightarrow> (json list) option" where
  "rows_under payload key =
     (case json_get payload key of
        None \<Rightarrow> Some []
      | Some v \<Rightarrow>
          if \<not> json_truthy v then Some []
          else (case v of JList rows \<Rightarrow> Some rows | JObj kvs \<Rightarrow> Some (map (\<lambda>kv. JStr (fst kv)) kvs)
                | JStr s \<Rightarrow> Some (map (\<lambda>c. JStr [c]) s) | _ \<Rightarrow> None))"

definition text_id :: "json option \<Rightarrow> pystr option" where
  "text_id v = (case v of Some (JStr s) \<Rightarrow> if s = [] then None else Some s | _ \<Rightarrow> None)"

definition reason_text :: "json option \<Rightarrow> pystr" where
  "reason_text v = (case v of None \<Rightarrow> [] | Some j \<Rightarrow> if json_truthy j then py_str j else [])"

definition saved_id :: "json \<Rightarrow> pystr option" where
  "saved_id row = (case row of JObj _ \<Rightarrow> text_id (json_get row ''id'') | _ \<Rightarrow> None)"

definition unless_retryable :: "pystr option \<Rightarrow> pystr \<Rightarrow> pystr option" where
  "unless_retryable mid reason = (if is_retryable_reason reason then None else mid)"

definition rejected_id :: "json \<Rightarrow> pystr option" where
  "rejected_id row =
     (case row of
        JObj _ \<Rightarrow> unless_retryable (text_id (json_get row ''id'')) (reason_text (json_get row ''reason''))
      | _ \<Rightarrow> None)"

definition report_id :: "json \<Rightarrow> pystr option" where
  "report_id row =
     (case row of
        JObj _ \<Rightarrow>
          let mid = (case json_get row ''msg_id'' of Some v \<Rightarrow> if json_truthy v then Some v else json_get row ''id''
                     | None \<Rightarrow> json_get row ''id'')
          in unless_retryable (text_id mid) (reason_text (json_get row ''reject''))
      | _ \<Rightarrow> None)"

definition ids_of :: "(json \<Rightarrow> pystr option) \<Rightarrow> json list \<Rightarrow> pystr list" where
  "ids_of f rows = concat (map (\<lambda>row. case f row of None \<Rightarrow> [] | Some i \<Rightarrow> [i]) rows)"

text \<open>
  \<open>load_cached_processed_message_ids\<close>; \<open>read_json\<close> stands for reading and decoding the report
  file, None if that raises. The ids are given as a list; only membership counts.
\<close>

definition load_cached_processed_message_ids ::
  "(pystr \<Rightarrow> bool) \<Rightarrow> (pystr \<Rightarrow> json option) \<Rightarrow> pystr option \<Rightarrow> (pystr list) res" where
  "load_cached_processed_message_ids exists read_json report_path =
     (if \<not> truthy report_path then Inr []
      else if \<not> exists (the report_path) then Inr []
      else (case read_json (the report_path) of
              Some (JObj kvs) \<Rightarrow>
                (case (rows_under (JObj kvs) ''saved'', rows_under (JObj kvs) ''rejected'', rows_under (JObj kvs) ''report'') of
                   (Some saved, Some rejected, Some report) \<Rightarrow>
                     Inr (ids_of saved_id saved @ ids_of rejected_id rejected @ ids_of report_id report)
                 | _ \<Rightarrow> Inl (TypeError ''object is not iterable''))
            | _ \<Rightarrow> Inr []))"


subsection \<open>What a download returns\<close>

lemma download_attempts_sound:
  "download_attempts e u request sanitize url opts n attempts = Inr (Some (name, data)) \<Longrightarrow>
     \<exists>i headers r. n \<le> i \<and> i < n + length attempts \<and> request i url headers = Some r \<and> hr_status_code r = 200 \<and>
       looks_like_pdf u url r \<and> data = hr_content r \<and> name = download_name u sanitize r"
proof (induction attempts arbitrary: n)
  case (Cons a attempts)
  then consider "download_attempts e u request sanitize url opts (n + 1) attempts = Inr (Some (name, data))"
    | headers r where "request n url headers = Some r" "hr_status_code r = 200" "looks_like_pdf u url r"
        "data = hr_content r" "name = download_name u sanitize r"
    by (auto simp: Let_def split: sum.splits option.splits if_splits)
  then show ?case
  proof cases
    case 1
    from Cons.IH [OF this] show ?thesis by (metis Suc_eq_plus1 Suc_leD Suc_n_not_le_n add_Suc_right add_Suc_shift length_Cons nat_le_linear)
  next
    case 2
    then show ?thesis by (intro exI [of _ n] exI [of _ headers] exI [of _ r]) simp
  qed
qed simp

text \<open>
  C32: What a download returns came with status 200 from one of at most two requests and was a
  PDF by its type, its address or its first bytes; its name ends in .pdf and holds none of
  the characters a path could be built with, whatever name the server sent.
\<close>

theorem download_direct_pdf_sound:
  assumes "download_direct_pdf e u request (default_sanitize_filename u) url opts = Inr (Some (name, data))"
  shows "(\<exists>i headers r. i < 2 \<and> request i url headers = Some r \<and> hr_status_code r = 200 \<and>
      looks_like_pdf u url r \<and> data = hr_content r) \<and>
    (has_suffix (lit ''.pdf'') name \<or> has_suffix (lit ''.pdf'') (u_lower u name)) \<and>
    set name \<inter> {92, 47, 58, 42, 63, 34, 60, 62, 124} = {}"
proof -
  let ?attempts = "(if truthy (do_referer opts) then [True] else [False]) @
        (if truthy (do_referer opts) \<and> do_fallback_on_403 opts then [False] else [])"
  from download_attempts_sound [OF assms [unfolded download_direct_pdf_def]]
  obtain i headers r where i: "i < 0 + length ?attempts" and r: "request i url headers = Some r" "hr_status_code r = 200"
      "looks_like_pdf u url r" "data = hr_content r" and name: "name = download_name u (default_sanitize_filename u) r"
    by blast
  have "length ?attempts \<le> 2" by simp
  with i have "i < 2" by linarith
  have suffix: "has_suffix (lit ''.pdf'') name \<or> has_suffix (lit ''.pdf'') (u_lower u name)"
  proof -
    have "has_suffix (lit ''.pdf'') (x @ lit ''.pdf'')" for x by (auto simp: has_suffix_iff)
    moreover have "has_suffix (lit ''.pdf'') link_invoice"
      unfolding has_suffix_iff by (rule exI [of _ "lit ''link_invoice''"]) (simp add: link_invoice_def lit_def)
    ultimately show ?thesis by (auto simp: name download_name_def Let_def split: option.split)
  qed
  have "c \<notin> {92, 47, 58, 42, 63, 34, 60, 62, 124}" if c: "c \<in> set name" for c
  proof -
    have plain: "c \<in> set link_invoice \<union> set (lit ''.pdf'') \<Longrightarrow> ?thesis"
      by (auto simp: link_invoice_def lit_def)
    from c consider "c \<in> set link_invoice \<union> set (lit ''.pdf'')" | x where "c \<in> set (default_sanitize_filename u x)"
      by (auto simp: name download_name_def Let_def split: option.splits if_splits)
    then show ?thesis
    proof cases
      case 2
      have "link_invoice \<noteq> []" by (simp add: link_invoice_def lit_def)
      from sanitize_clean [OF 2 [unfolded default_sanitize_filename_def] this] plain
      show ?thesis by (auto simp: in_forbidden)
    qed (rule plain)
  qed
  with r \<open>i < 2\<close> suffix show ?thesis by blast
qed

text \<open>
  A message counts as processed exactly when the last report lists it as saved, or lists
  it as rejected for a reason that does not call for another try.
\<close>

theorem cached_ids_exact:
  assumes "load_cached_processed_message_ids exists read_json (Some p) = Inr ids"
    and "p \<noteq> []" and "exists p" and "read_json p = Some (JObj kvs)"
    and "rows_under (JObj kvs) ''saved'' = Some saved" and "rows_under (JObj kvs) ''rejected'' = Some rejected"
    and "rows_under (JObj kvs) ''report'' = Some report"
  shows "mid \<in> set ids \<longleftrightarrow>
    (\<exists>row\<in>set saved. saved_id row = Some mid) \<or> (\<exists>row\<in>set rejected. rejected_id row = Some mid) \<or>
    (\<exists>row\<in>set report. report_id row = Some mid)"
proof -
  have "mid \<in> set (ids_of f rows) \<longleftrightarrow> (\<exists>row\<in>set rows. f row = Some mid)" for f rows
    by (auto simp: ids_of_def split: option.splits) force
  then show ?thesis using assms by (auto simp: load_cached_processed_message_ids_def truthy_def)
qed


subsection \<open>A refused and a granted request\<close>

definition demo_request :: request_get where
  "demo_request n url headers =
     Some (if n = 0 then \<lparr>hr_status_code = 403, hr_headers = (\<lambda>_. None), hr_content = []\<rparr>
           else \<lparr>hr_status_code = 200,
                 hr_headers = (\<lambda>k. if k = ''Content-Disposition'' then Some (lit ''attachment; filename=a/b'') else None),
                 hr_content = ''%PDF-1.4''\<rparr>)"

definition demo_options :: download_options where
  "demo_options = \<lparr>do_referer = Some ''https://x'', do_user_agent = None, do_include_yes_headers = False, do_fallback_on_403 = True\<rparr>"

definition demo_download :: "((ustr \<times> bytes) option) res" where
  "demo_download =
     download_direct_pdf toy_env toy_ucd demo_request (default_sanitize_filename toy_ucd) ''https://x/y'' demo_options"

lemma demo_download_ok: "demo_download = Inr (Some (lit ''a_b.pdf'', ''%PDF-1.4''))"
  by code_simp

lemma download_direct_pdf_sound_witness: "set (lit ''a_b.pdf'') \<inter> {92, 47, 58, 42, 63, 34, 60, 62, 124} = {}"
  using download_direct_pdf_sound [OF trans [OF demo_download_def [symmetric] demo_download_ok]] by simp

definition demo_rows :: "(pystr \<times> json) list" where
  "demo_rows =
     [(''saved'', JList [JObj [(''id'', JStr ''m1'')]]),
      (''rejected'', JList [JObj [(''id'', JStr ''m2''), (''reason'', JStr ''download_failed'')],
                          JObj [(''id'', JStr ''m3''), (''reason'', JStr ''not an invoice'')]])]"

lemma demo_cached_ok:
  "load_cached_processed_message_ids (\<lambda>_. True) (\<lambda>_. Some (JObj demo_rows)) (Some ''r.json'') = Inr [''m1'', ''m3'']"
  "rows_under (JObj demo_rows) ''saved'' = Some [JObj [(''id'', JStr ''m1'')]]"
  "rows_under (JObj demo_rows) ''rejected'' = Some [JObj [(''id'', JStr ''m2''), (''reason'', JStr ''download_failed'')],
     JObj [(''id'', JStr ''m3''), (''reason'', JStr ''not an invoice'')]]"
  "rows_under (JObj demo_rows) ''report'' = Some []"
  by code_simp+

lemma cached_ids_exact_witness:
  "rejected_id (JObj [(''id'', JStr ''m2''), (''reason'', JStr ''download_failed'')]) \<noteq> Some ''m2''"
  using cached_ids_exact [OF demo_cached_ok(1) _ _ _ demo_cached_ok(2-4), of "''m2''"] by auto

end
