(* ===== verification/Report_Amounts.thy ===== *)
theory Report_Amounts
  imports Py_Regex Py_Float
begin

text \<open>
  Amounts in the text of an invoice: the first half of \<open>usecases/report_totals.py\<close>, whose number
  parser \<open>cli/invoices_report.py\<close> and \<open>usecases/report_vendor_strategies.py\<close> repeat. Amounts are
  doubles, as the rationals they stand for (Py_Float); a number beyond the largest double counts
  as no number. Markers are Hebrew words, as code points, in both directions of writing.
\<close>

subsection \<open>Arithmetic on doubles\<close>

definition f_add :: "rat \<Rightarrow> rat \<Rightarrow> rat" where "f_add x y = round_double (x + y)"
definition f_sub :: "rat \<Rightarrow> rat \<Rightarrow> rat" where "f_sub x y = round_double (x - y)"
definition f_mul :: "rat \<Rightarrow> rat \<Rightarrow> rat" where "f_mul x y = round_double (x * y)"
definition f_div :: "rat \<Rightarrow> rat \<Rightarrow> rat" where "f_div x y = round_double (x / y)"

definition list_max :: "rat list \<Rightarrow> rat" where "list_max xs = fold max (tl xs) (hd xs)"
definition list_min :: "rat list \<Rightarrow> rat" where "list_min xs = fold min (tl xs) (hd xs)"

definition f_sum :: "rat list \<Rightarrow> rat" where "f_sum xs = foldl f_add 0 xs"


subsection \<open>Number tokens\<close>

definition digits_value_u :: "ucd \<Rightarrow> ustr \<Rightarrow> int" where
  "digits_value_u u s = fold (\<lambda>c n. case uc_decimal u c of Some d \<Rightarrow> 10 * n + d | None \<Rightarrow> n) s 0"

definition all_decimal :: "ucd \<Rightarrow> ustr \<Rightarrow> bool" where
  "all_decimal u s \<longleftrightarrow> list_all (\<lambda>c. uc_decimal u c \<noteq> None) s"

text \<open>\<open>float(token)\<close> of a token of digits, dots and a sign; None stands for the \<open>ValueError\<close>.\<close>

definition unsigned_float :: "ucd \<Rightarrow> ustr \<Rightarrow> rat option" where
  "unsigned_float u s =
     (case split_at 46 s of
        [a] \<Rightarrow> if a \<noteq> [] \<and> all_decimal u a then py_float (of_int (digits_value_u u a)) else None
      | [a, b] \<Rightarrow>
          if a @ b \<noteq> [] \<and> all_decimal u (a @ b)
          then py_float (of_int (digits_value_u u (a @ b)) / 10 ^ length b) else None
      | _ \<Rightarrow> None)"

definition token_float :: "ucd \<Rightarrow> ustr \<Rightarrow> rat option" where
  "token_float u s =
     (case s of
        [] \<Rightarrow> None
      | c # r \<Rightarrow> if c = 45 then map_option uminus (unsigned_float u r) else unsigned_float u s)"

definition dotted_thousands :: regex where
  "dotted_thousands =
     rseq [RBol False, RRep 1 None True (RSet True [Digit]), RSet True [Lit 46], RRep 3 (Some 3) True
     (RSet True [Digit]), REol False]"

definition normalize_amount_token :: "ucd \<Rightarrow> ustr \<Rightarrow> ustr option" where
  "normalize_amount_token u raw =
     (let sign = (if has_prefix [45] (u_strip u raw) then [45] else []);
          token = filter (\<lambda>c. uc_isdigit u c \<or> c = 46 \<or> c = 44) raw;
          body = dropWhile (\<lambda>c. c = 45) token;
          token = (if re_match u False dotted_thousands body \<noteq> None
                   then (let head = takeWhile (\<lambda>c. c \<noteq> 46) body; rest = tl (dropWhile (\<lambda>c. c \<noteq> 46) body) in
                         (if has_prefix [45] token then [45] else []) @
                         (if length head \<le> 2 then rest @ [46] @ head else rev body))
                   else token);
          commas = length (filter (\<lambda>c. c = 44) token);
          token = (if 44 \<in> set token \<and> 46 \<in> set token then filter (\<lambda>c. c \<noteq> 44) token
                   else if 1 < commas then filter (\<lambda>c. c \<noteq> 44) token
                   else if commas = 1 \<and> 46 \<notin> set token then map (\<lambda>c. if c = 44 then 46 else c) token
                   else token)
      in if raw = [] \<or> filter (\<lambda>c. uc_isdigit u c \<or> c = 46 \<or> c = 44) raw = [] then None else Some (sign @ token))"

definition parse_number :: "ucd \<Rightarrow> ustr \<Rightarrow> rat option" where
  "parse_number u raw =
     (case normalize_amount_token u raw of
        None \<Rightarrow> None
      | Some token \<Rightarrow> if token = [] then None else token_float u token)"

definition parse_numbers :: "ucd \<Rightarrow> ustr list \<Rightarrow> rat list" where
  "parse_numbers u tokens = List.map_filter (parse_number u) tokens"

text \<open>The candidates \<open>select_amount\<close> chooses from: a bare year is none.\<close>

definition amount_candidates :: "ucd \<Rightarrow> ustr list \<Rightarrow> (rat \<times> ustr) list" where
  "amount_candidates u tokens =
     List.map_filter (\<lambda>token.
        case normalize_amount_token u token of
          None \<Rightarrow> None
        | Some normalized \<Rightarrow>
            if normalized = [] then None
            else if u_is_digits u normalized \<and> length normalized = 4 \<and> has_prefix (lit ''20'') normalized then None
            else map_option (\<lambda>amount. (amount, normalized)) (token_float u normalized)) tokens"

definition last_part :: "ustr \<Rightarrow> ustr" where
  "last_part s = rev (takeWhile (\<lambda>c. c \<noteq> 46) (rev s))"

definition select_amount :: "ucd \<Rightarrow> ustr list \<Rightarrow> rat option" where
  "select_amount u tokens =
     (let candidates = amount_candidates u tokens in
      case find (\<lambda>(amount, n). 46 \<in> set n \<and> length (last_part n) = 2) candidates of
        Some (amount, _) \<Rightarrow> Some amount
      | None \<Rightarrow>
     (case find (\<lambda>(amount, n). 46 \<in> set n) candidates of
        Some (amount, _) \<Rightarrow> Some amount
      | None \<Rightarrow>
     (case find (\<lambda>(amount, n). 10 \<le> amount) candidates of
        Some (amount, _) \<Rightarrow> Some amount
      | None \<Rightarrow> (case candidates of [] \<Rightarrow> None | (amount, _) # _ \<Rightarrow> Some amount))))"


subsection \<open>Numbers near markers\<close>

definition number_class :: "cclass list" where
  "number_class = [Digit, Lit 46, Lit 44]"

text \<open>\<open>re.findall(r"[\d.,]+", s)\<close>\<close>

definition number_tokens :: "ucd \<Rightarrow> ustr \<Rightarrow> ustr list" where
  "number_tokens u s = re_findall u False (run_of True number_class) 0 s"

definition last_chars :: "nat \<Rightarrow> 'a list \<Rightarrow> 'a list" where
  "last_chars n s = drop (length s - n) s"

definition positive_values :: "ucd \<Rightarrow> ustr list \<Rightarrow> (rat \<times> ustr) list" where
  "positive_values u tokens =
     List.map_filter (\<lambda>tok. case parse_number u tok of
        Some amount \<Rightarrow> if 0 < amount then Some (amount, tok) else None | None \<Rightarrow> None) tokens"

definition choose_value :: "bool \<Rightarrow> (rat \<times> ustr) list \<Rightarrow> rat option" where
  "choose_value prefer_min values =
     (let decimals = filter (\<lambda>(_, tok). 46 \<in> set tok \<or> 44 \<in> set tok) values;
          pool = (if decimals \<noteq> [] then decimals else values);
          amounts = map fst pool
      in if values = [] then None
         else Some (if prefer_min then list_min amounts else list_max amounts))"

definition amount_near :: "ucd \<Rightarrow> nat \<Rightarrow> bool \<Rightarrow> match_object \<Rightarrow> rat option" where
  "amount_near u window prefer_min m =
     choose_value prefer_min
       (positive_values u (number_tokens u (take window (mo_after m))) @
        positive_values u (number_tokens u (last_chars window (mo_before m))))"

text \<open>The first value a function gives on a list\<close>

fun first_some_of :: "('a \<Rightarrow> 'b option) \<Rightarrow> 'a list \<Rightarrow> 'b option" where
  "first_some_of f [] = None"
| "first_some_of f (x # xs) = (case f x of Some y \<Rightarrow> Some y | None \<Rightarrow> first_some_of f xs)"

definition amount_near_markers :: "ucd \<Rightarrow> ustr \<Rightarrow> regex list \<Rightarrow> nat \<Rightarrow> bool \<Rightarrow> rat option" where
  "amount_near_markers u txt patterns window prefer_min =
     first_some_of (\<lambda>pat. first_some_of (amount_near u window prefer_min) (re_finditer u False pat txt)) patterns"

definition numeric_candidates :: "ucd \<Rightarrow> ustr \<Rightarrow> (ustr \<times> bool) list" where
  "numeric_candidates u line =
     map (\<lambda>m. (mo_text m, 37 \<in> set (last_chars 2 (mo_before m)) \<or> 37 \<in> set (take 2 (mo_after m))))
       (re_finditer u False (run_of True number_class) line)"

definition plain_tokens :: "(ustr \<times> bool) list \<Rightarrow> ustr list" where
  "plain_tokens cs = map fst (filter (\<lambda>c. \<not> snd c) cs)"

definition line_values :: "ucd \<Rightarrow> ustr \<Rightarrow> rat list" where
  "line_values u line = parse_numbers u (plain_tokens (numeric_candidates u line))"

text \<open>Lines at distance 1, 2, ... of a line, the earlier one first; \<open>earlier\<close> is nearest first.\<close>

fun around :: "nat \<Rightarrow> 'a list \<Rightarrow> 'a list \<Rightarrow> 'a list" where
  "around 0 earlier after = []"
| "around (Suc n) earlier after = take 1 earlier @ take 1 after @ around n (drop 1 earlier) (drop 1 after)"

fun values_near_marker :: "ucd \<Rightarrow> ustr \<Rightarrow> nat \<Rightarrow> ustr list \<Rightarrow> ustr list \<Rightarrow> rat list" where
  "values_near_marker u marker window earlier [] = []"
| "values_near_marker u marker window earlier (line # after) =
     (if contains marker line
      then line_values u line @ concat (map (line_values u) (around window earlier after))
      else values_near_marker u marker window (line # earlier) after)"

definition numeric_values_near_marker :: "ucd \<Rightarrow> ustr list \<Rightarrow> ustr \<Rightarrow> nat \<Rightarrow> rat list" where
  "numeric_values_near_marker u lines marker window = values_near_marker u marker window [] lines"


subsection \<open>Lines with the total and the VAT\<close>

definition normalize_marker_text :: "ustr \<Rightarrow> ustr" where
  "normalize_marker_text line =
     replace_all [32] [] (replace_all [1523] [39] (replace_all [1524] [34] line))"

definition total_marker :: "ustr \<Rightarrow> bool" where
  "total_marker s \<longleftrightarrow> contains [1499, 34, 1505, 1492] s \<or> contains [1505, 1492, 34, 1499] s"

definition vat_marker :: "ustr \<Rightarrow> bool" where
  "vat_marker s \<longleftrightarrow> contains [1502, 34, 1502, 1506] s \<or> contains [1502, 1506, 34, 1502] s"

definition including_word :: ustr where "including_word = [1499, 1493, 1500, 1500]"

definition is_total_with_vat_line :: "ustr \<Rightarrow> bool" where
  "is_total_with_vat_line line \<longleftrightarrow>
     (let compact = normalize_marker_text line in
      total_marker compact \<and> vat_marker compact \<and> contains including_word compact)"

definition is_vat_percent_line :: "ustr \<Rightarrow> bool" where
  "is_vat_percent_line line \<longleftrightarrow> (let compact = normalize_marker_text line in vat_marker compact \<and> 37 \<in> set compact)"

definition amount_from_line_end :: "ucd \<Rightarrow> ustr \<Rightarrow> rat option" where
  "amount_from_line_end u line =
     (let tokens = plain_tokens (numeric_candidates u line) in
      if tokens = [] then None
      else (case first_some_of (\<lambda>t. if 46 \<in> set t \<or> 44 \<in> set t then parse_number u t else None) (rev tokens) of
              Some amount \<Rightarrow> Some amount
            | None \<Rightarrow> parse_number u (last tokens)))"

text \<open>The value repeated most often, of those the larger.\<close>

definition most_repeated :: "(nat \<times> rat) list \<Rightarrow> nat \<times> rat" where
  "most_repeated cs =
     fold (\<lambda>c best. if fst best < fst c \<or> (fst best = fst c \<and> snd best < snd c) then c else best) (tl cs) (hd cs)"

definition repeated_currency_total :: "ucd \<Rightarrow> ustr list \<Rightarrow> rat option" where
  "repeated_currency_total u tokens =
     (let amounts = map (py_round 2) (filter (\<lambda>x. 0 < x) (parse_numbers u tokens));
          counts = map (\<lambda>v. (length (filter (\<lambda>x. x = v) amounts), v)) (remdups amounts);
          repeated = filter (\<lambda>(count, value). 2 \<le> count \<and> 50 \<le> value) counts;
          large = filter (\<lambda>v. 50 \<le> v) amounts
      in if amounts = [] then None
         else if repeated \<noteq> [] then Some (snd (most_repeated repeated))
         else if large \<noteq> [] then Some (list_max large)
         else Some (list_max amounts))"

fun total_in_windows :: "ucd \<Rightarrow> ustr list \<Rightarrow> ustr list \<Rightarrow> rat option" where
  "total_in_windows u currency_tokens [] = None"
| "total_in_windows u currency_tokens (line # lines) =
     (let window = take 4 (line # lines) in
      if list_ex (\<lambda>l. total_marker (normalize_marker_text l)) window \<and>
         list_ex (\<lambda>l. vat_marker (normalize_marker_text l)) window \<and>
         list_ex (\<lambda>l. contains including_word l) window
      then let numeric_amounts = filter (\<lambda>v. 20 \<le> v) (List.map_filter (amount_from_line_end u) window) in
           if numeric_amounts \<noteq> [] then Some (list_max numeric_amounts)
           else repeated_currency_total u currency_tokens
      else total_in_windows u currency_tokens lines)"

definition extract_total_from_total_with_vat_lines :: "ucd \<Rightarrow> ustr list \<Rightarrow> ustr list \<Rightarrow> rat option" where
  "extract_total_from_total_with_vat_lines u lines currency_tokens =
     (case first_some_of (\<lambda>line. if is_total_with_vat_line line then amount_from_line_end u line else None) lines of
        Some amount \<Rightarrow> Some amount
      | None \<Rightarrow> total_in_windows u currency_tokens lines)"


subsection \<open>Rates\<close>

definition vat_rate_estimate :: "rat option \<Rightarrow> rat option \<Rightarrow> rat option" where
  "vat_rate_estimate invoice_total vat =
     (case (invoice_total, vat) of
        (Some t, Some v) \<Rightarrow>
          let base = f_sub t v in
          if t = 0 \<or> base \<le> 0 then None else Some (py_round 2 (f_mul (f_div v base) 100))
      | _ \<Rightarrow> None)"

definition rate_before_marker :: regex where
  "rate_before_marker =
     rseq [RGroup 1 (RRep 1 None True (RSet True [Digit, Lit 46, Lit 44])), RRep 0 None True (RSet True
     [Space]), RSet True [Lit 37], RRep 0 (Some 15) False (RSet False [Lit 10]), RSet True [Lit 1502],
     RRep 0 None True (RSet True [Space]), RRep 0 (Some 1) True (RSet True [Lit 34, Lit 1524, Lit 39]),
     RRep 0 None True (RSet True [Space]), RSet True [Lit 1506], RRep 0 None True (RSet True [Space]),
     RRep 0 (Some 1) True (RSet True [Lit 34, Lit 1524, Lit 39]), RRep 0 None True (RSet True [Space]),
     RSet True [Lit 1502]]"

definition rate_after_marker :: regex where
  "rate_after_marker =
     rseq [RSet True [Lit 1502], RRep 0 None True (RSet True [Space]), RRep 0 (Some 1) True (RSet True
     [Lit 34, Lit 1524, Lit 39]), RRep 0 None True (RSet True [Space]), RSet True [Lit 1506], RRep 0 None
     True (RSet True [Space]), RRep 0 (Some 1) True (RSet True [Lit 34, Lit 1524, Lit 39]), RRep 0 None
     True (RSet True [Space]), RSet True [Lit 1502], RRep 0 (Some 15) False (RSet False [Lit 37, Digit]),
     RGroup 1 (RRep 1 None True (RSet True [Digit, Lit 46, Lit 44])), RRep 0 None True (RSet True
     [Space]), RSet True [Lit 37]]"

definition rate_after_vat :: regex where
  "rate_after_vat =
     rseq [rlit [86, 65, 84], RRep 0 (Some 15) False (RSet False [Lit 37, Digit]), RGroup 1 (RRep 1 None
     True (RSet True [Digit, Lit 46, Lit 44])), RRep 0 None True (RSet True [Space]), RSet True [Lit 37]]"

definition group_number :: "ucd \<Rightarrow> match_object \<Rightarrow> rat option" where
  "group_number u m = (case group m 1 of Some s \<Rightarrow> parse_number u s | None \<Rightarrow> None)"

definition extract_vat_rate_from_text :: "ucd \<Rightarrow> ustr \<Rightarrow> rat option" where
  "extract_vat_rate_from_text u txt =
     (if txt = [] then None
      else map_option (py_round 2)
        (first_some_of (\<lambda>pat. case re_search u True pat txt of Some m \<Rightarrow> group_number u m | None \<Rightarrow> None)
          [rate_before_marker, rate_after_marker, rate_after_vat]))"

text \<open>The lines with a VAT percentage: an amount at once, or the rate they name.\<close>

definition percent_rate :: "ucd \<Rightarrow> ustr \<Rightarrow> rat option" where
  "percent_rate u line =
     first_some_of (\<lambda>(token, is_percent).
        if is_percent
        then (case parse_number u token of Some r \<Rightarrow> if 0 < r \<and> r \<le> 100 then Some r else None | None \<Rightarrow> None)
        else None) (numeric_candidates u line)"

fun vat_in_lines :: "ucd \<Rightarrow> rat option \<Rightarrow> ustr list \<Rightarrow> rat + rat option" where
  "vat_in_lines u target_rate [] = Inr target_rate"
| "vat_in_lines u target_rate (line # lines) =
     (if \<not> is_vat_percent_line line then vat_in_lines u target_rate lines
      else (case amount_from_line_end u line of
              Some amount \<Rightarrow> Inl amount
            | None \<Rightarrow>
                (case (case lines of [] \<Rightarrow> None | l # _ \<Rightarrow> amount_from_line_end u l) of
                   Some amount \<Rightarrow> Inl amount
                 | None \<Rightarrow>
                     vat_in_lines u (case target_rate of Some r \<Rightarrow> Some r | None \<Rightarrow> percent_rate u line) lines)))"

text \<open>The nearest of the (distance, amount) pairs, the smaller amount first\<close>

definition nearest :: "(rat \<times> rat) list \<Rightarrow> rat \<times> rat" where
  "nearest cs =
     fold (\<lambda>c best. if fst c < fst best \<or> (fst c = fst best \<and> snd c < snd best) then c else best) (tl cs) (hd cs)"

definition extract_vat_from_percent_lines ::
  "ucd \<Rightarrow> ustr list \<Rightarrow> ustr list \<Rightarrow> rat option \<Rightarrow> rat option \<Rightarrow> rat option" where
  "extract_vat_from_percent_lines u lines currency_tokens invoice_total explicit_vat_rate =
     (case vat_in_lines u explicit_vat_rate lines of
        Inl amount \<Rightarrow> Some amount
      | Inr target_rate \<Rightarrow>
          (case (invoice_total, target_rate) of
             (Some t, Some target) \<Rightarrow>
               let candidates = List.map_filter (\<lambda>amount.
                     if amount \<le> 0 \<or> t \<le> amount then None
                     else map_option (\<lambda>rate. (\<bar>f_sub rate target\<bar>, amount)) (vat_rate_estimate (Some t) (Some amount)))
                     (parse_numbers u currency_tokens)
               in if candidates = [] then None
                  else let best = nearest candidates in if 1 < fst best then None else Some (snd best)
           | _ \<Rightarrow> None))"


subsection \<open>Blocks of numbers and amounts before a marker\<close>

definition block_number :: regex where
  "block_number =
     rseq [RBol False, RRep 0 (Some 1) True (RSet True [Lit 45]), RSet True [Digit], RRep 0 None True
     (RSet True [Digit, Lit 44]), RRep 0 (Some 1) True (rseq [RSet True [Lit 46], RRep 1 None True (RSet
     True [Digit])]), REol False]"

fun block_values :: "ucd \<Rightarrow> ustr list \<Rightarrow> ustr list \<Rightarrow> bool \<Rightarrow> ustr list \<Rightarrow> rat list" where
  "block_values u start_markers end_markers collecting [] = []"
| "block_values u start_markers end_markers collecting (line # lines) =
     (if \<not> collecting \<and> list_ex (\<lambda>m. contains m line) start_markers
      then block_values u start_markers end_markers True lines
      else if \<not> collecting then block_values u start_markers end_markers False lines
      else if list_ex (\<lambda>m. contains m line) end_markers then []
      else let token = u_strip u line in
           (if re_match u False block_number token \<noteq> None
            then (case parse_number u token of Some v \<Rightarrow> [v] | None \<Rightarrow> []) else []) @
           block_values u start_markers end_markers True lines)"

definition sum_numeric_block :: "ucd \<Rightarrow> ustr list \<Rightarrow> ustr list \<Rightarrow> ustr list \<Rightarrow> rat option \<times> rat list" where
  "sum_numeric_block u lines start_markers end_markers =
     (let values = block_values u start_markers end_markers False lines
      in (if values = [] then None else Some (f_sum values), values))"

definition line_amount :: "ucd \<Rightarrow> (ustr \<times> bool) list \<Rightarrow> rat option" where
  "line_amount u candidates =
     (let preferred = plain_tokens candidates;
          tokens = (if preferred \<noteq> [] then preferred else map fst candidates)
      in if tokens = [] then None else select_amount u (rev tokens))"

fun amount_before :: "ucd \<Rightarrow> ustr \<Rightarrow> bool \<Rightarrow> ustr list \<Rightarrow> ustr list \<Rightarrow> rat option" where
  "amount_before u marker prefer_inline earlier [] = None"
| "amount_before u marker prefer_inline earlier (line # lines) =
     (if \<not> contains marker line then amount_before u marker prefer_inline (line # earlier) lines
      else (case (if 37 \<in> set line then None else line_amount u (numeric_candidates u line)) of
              Some amount \<Rightarrow> Some amount
            | None \<Rightarrow>
                if prefer_inline then amount_before u marker prefer_inline (line # earlier) lines
                else (case first_some_of (\<lambda>l. line_amount u (numeric_candidates u l))
                        (filter (\<lambda>l. 47 \<notin> set l \<or> 8362 \<in> set l) (take 3 earlier)) of
                        Some amount \<Rightarrow> Some amount
                      | None \<Rightarrow> first_some_of (\<lambda>l. line_amount u (numeric_candidates u l)) (take 3 lines))))"

definition find_amount_before_marker :: "ucd \<Rightarrow> ustr list \<Rightarrow> ustr \<Rightarrow> bool \<Rightarrow> rat option" where
  "find_amount_before_marker u lines marker prefer_inline = amount_before u marker prefer_inline [] lines"

end
