(* ===== verification/Amount_Text.thy ===== *)
theory Amount_Text
  imports Report_Amounts Py_Date
begin

text \<open>
  Amounts as the reports print them, \<open>f"{x:.2f}"\<close> in the CSV files and \<open>f"{x:,.2f}"\<close> in the
  PDF, against the number parser of the invoices: what is printed reads back as the rounded
  amount, whereas amounts in the shapes ``1,234'' and ``1.234'' are read as fractions.
\<close>

subsection \<open>Printing\<close>

text \<open>Digits in groups of three, from the right; the argument is reversed.\<close>

fun group3 :: "pystr \<Rightarrow> pystr" where
  "group3 (a # b # c # d # r) = a # b # c # CHR '','' # group3 (d # r)"
| "group3 s = s"

text \<open>\<open>f"{x:,.2f}"\<close>\<close>

definition amount_text :: "rat \<Rightarrow> pystr" where
  "amount_text x =
     (let c = nat (round_half_even (\<bar>x\<bar> * 100))
      in (if x < 0 then ''-'' else '''') @ rev (group3 (rev (py_str_nat (c div 100)))) @ ''.''
         @ pad_zeros 2 (py_str_nat (c mod 100)))"


subsection \<open>What the parser needs of the character database\<close>

definition ascii_ucd :: "ucd \<Rightarrow> bool" where
  "ascii_ucd u \<longleftrightarrow>
     (\<forall>c\<in>{33..<128}. uc_decimal u c = (if 48 \<le> c \<and> c \<le> 57 then Some (c - 48) else None) \<and>
       (uc_isdigit u c \<longleftrightarrow> 48 \<le> c \<and> c \<le> 57) \<and> \<not> uc_space u c)"

lemma ascii_toy: "ascii_ucd toy_ucd"
  by (simp add: ascii_ucd_def toy_ucd_def)

lemma ascii_at:
  assumes "ascii_ucd u" "33 \<le> c" "c < 128"
  shows "uc_decimal u c = (if 48 \<le> c \<and> c \<le> 57 then Some (c - 48) else None)"
    and "uc_isdigit u c \<longleftrightarrow> 48 \<le> c \<and> c \<le> 57"
    and "\<not> uc_space u c"
  using assms by (simp_all add: ascii_ucd_def)

text \<open>A text of ASCII digits\<close>

definition digit_text :: "ustr \<Rightarrow> bool" where
  "digit_text s \<longleftrightarrow> list_all (\<lambda>c. 48 \<le> c \<and> c \<le> 57) s"

lemma digit_text_append [simp]: "digit_text (s @ t) \<longleftrightarrow> digit_text s \<and> digit_text t"
  by (simp add: digit_text_def)

lemma digit_text_Cons [simp]: "digit_text (c # s) \<longleftrightarrow> 48 \<le> c \<and> c \<le> 57 \<and> digit_text s"
  by (simp add: digit_text_def)

lemma digit_text_Nil [simp]: "digit_text []"
  by (simp add: digit_text_def)

lemma digit_text_mem: "digit_text s \<Longrightarrow> c \<in> set s \<Longrightarrow> 48 \<le> c \<and> c \<le> 57"
  by (auto simp: digit_text_def list_all_iff)

lemma digit_text_decimal: "ascii_ucd u \<Longrightarrow> digit_text s \<Longrightarrow> all_decimal u s"
  by (auto simp: all_decimal_def list_all_iff ascii_at dest: digit_text_mem)

lemma lit_digit: "is_digit c \<Longrightarrow> 48 \<le> (of_char c :: int) \<and> (of_char c :: int) \<le> 57"
  using of_nat_of_char [where ?'a = int, of c] by (simp add: is_digit_def Let_def)

lemma digit_text_lit: "\<forall>c\<in>set ds. is_digit c \<Longrightarrow> digit_text (lit ds)"
  by (induction ds) (auto simp: lit_def dest: lit_digit)

lemma digits_value_snoc:
  "ascii_ucd u \<Longrightarrow> 48 \<le> c \<Longrightarrow> c \<le> 57 \<Longrightarrow> digits_value_u u (s @ [c]) = 10 * digits_value_u u s + (c - 48)"
  by (simp add: digits_value_u_def ascii_at)

lemma digits_value_lit:
  "ascii_ucd u \<Longrightarrow> \<forall>c\<in>set ds. is_digit c \<Longrightarrow> digits_value_u u (lit ds) = int (nat_of_digits ds)"
proof (induction ds rule: rev_induct)
  case (snoc c ds)
  have "(of_char c :: int) = int (of_char c)" by (rule of_nat_of_char [symmetric])
  with snoc lit_digit [of c] show ?case
    by (simp add: lit_def digits_value_snoc nat_of_digits_snoc digit_value_def is_digit_def Let_def)
qed (simp add: lit_def digits_value_u_def nat_of_digits_def)


subsection \<open>Padded numbers\<close>

lemma nat_of_digits_append: "nat_of_digits (a @ b) = nat_of_digits a * 10 ^ length b + nat_of_digits b"
proof (induction b rule: rev_induct)
  case (snoc c b)
  have "nat_of_digits (a @ b @ [c]) = 10 * nat_of_digits (a @ b) + digit_value c"
    using nat_of_digits_snoc [of "a @ b" c] by simp
  with snoc show ?case by (simp add: nat_of_digits_snoc algebra_simps)
qed (simp add: nat_of_digits_def)

lemma pad_zeros_digits: "\<forall>c\<in>set (pad_zeros k (py_str_nat n)). is_digit c"
  using py_str_nat_digits [of n] by (auto simp: pad_zeros_def is_digit_def)

lemma pad_zeros_value [simp]: "nat_of_digits (pad_zeros k (py_str_nat n)) = n"
  by (simp add: pad_zeros_def nat_of_digits_zeros)

lemma pad_zeros_length: "0 < k \<Longrightarrow> n < 10 ^ k \<Longrightarrow> length (pad_zeros k (py_str_nat n)) = k"
  using length_py_str_nat [of n k] by (simp add: pad_zeros_def)


subsection \<open>Reading\<close>

lemma split_at_absent: "sep \<notin> set s \<Longrightarrow> split_at sep s = [s]"
  by (induction s) auto

lemma split_at_once: "sep \<notin> set a \<Longrightarrow> split_at sep (a @ sep # b) = a # split_at sep b"
  by (induction a) auto

lemma unsigned_float_two:
  assumes "ascii_ucd u" "digit_text a" "digit_text b" "a \<noteq> []"
  shows "unsigned_float u (a @ 46 # b) = py_float (of_int (digits_value_u u (a @ b)) / 10 ^ length b)"
proof -
  have "46 \<notin> set a" "46 \<notin> set b" using assms(2,3) by (auto dest: digit_text_mem)
  then have "split_at 46 (a @ 46 # b) = [a, b]" by (simp add: split_at_once split_at_absent)
  with assms show ?thesis by (simp add: unsigned_float_def digit_text_decimal)
qed

text \<open>\<open>digits.ddd\<close> alone is read as if written from the right.\<close>

lemma iterates_class:
  assumes "iterates R lo hi st st'"
    and "\<And>s t. R s t \<Longrightarrow> \<exists>c. rs_after s = c # rs_after t \<and> P c"
  shows "\<exists>w. rs_after st = w @ rs_after st' \<and> list_all P w \<and> lo \<le> length w"
  using assms(1)
proof (induction rule: iterates.induct)
  case (it_need st x hi lo st')
  then obtain c w where "rs_after st = c # rs_after x" "P c" "rs_after x = w @ rs_after st'" "list_all P w" "lo \<le> length w"
    using assms(2) by blast
  then show ?case by (intro exI [of _ "c # w"]) simp
next
  case (it_more st x hi st')
  then obtain c w where "rs_after st = c # rs_after x" "P c" "rs_after x = w @ rs_after st'" "list_all P w"
    using assms(2) by blast
  then show ?case by (intro exI [of _ "c # w"]) simp
qed simp

lemma digit_step: "matches u ci (RSet True [Digit]) s t \<Longrightarrow> \<exists>c. rs_after s = c # rs_after t \<and> uc_decimal u c \<noteq> None"
  by auto

lemma dotted_thousands_sound:
  assumes "re_match u False dotted_thousands s \<noteq> None"
  obtains a b where "s = a @ 46 # b" "list_all (\<lambda>c. uc_decimal u c \<noteq> None) a" "3 \<le> length b"
proof -
  from assms obtain st' where "st' \<in> set (rmatch u False dotted_thousands ([], s, []))"
    by (auto simp: re_match_def split: list.splits)
  then have "matches u False dotted_thousands ([], s, []) st'" by (simp only: set_rmatch)
  then have "\<exists>x y z. iterates (matches u False (RSet True [Digit])) 1 None ([], s, []) x \<and>
      matches u False (RSet True [Lit 46]) x y \<and> iterates (matches u False (RSet True [Digit])) 3 (Some 3) y z"
    unfolding dotted_thousands_def rseq.simps matches.simps(5,7,9) by blast
  then obtain x y z where runs:
    "iterates (matches u False (RSet True [Digit])) 1 None ([], s, []) x"
    "matches u False (RSet True [Lit 46]) x y"
    "iterates (matches u False (RSet True [Digit])) 3 (Some 3) y z" by blast
  from runs(2) have "rs_after x = 46 # rs_after y" by (auto simp: variants_def)
  moreover obtain a where "s = a @ rs_after x" "list_all (\<lambda>c. uc_decimal u c \<noteq> None) a"
    using iterates_class [OF runs(1) digit_step] by auto
  moreover obtain b where "rs_after y = b @ rs_after z" "3 \<le> length b"
    using iterates_class [OF runs(3) digit_step] by auto
  ultimately obtain a b where "s = a @ 46 # b @ rs_after z" "list_all (\<lambda>c. uc_decimal u c \<noteq> None) a" "3 \<le> length b"
    by simp
  then show ?thesis using that [of a "b @ rs_after z"] by simp
qed

text \<open>A number with two decimals, its whole part possibly with separators\<close>

definition signed :: "bool \<Rightarrow> ustr \<Rightarrow> ustr" where
  "signed neg s = (if neg then 45 # s else s)"

lemma split_at_mark:
  "a @ x # b = c @ x # d \<Longrightarrow> x \<notin> set a \<Longrightarrow> x \<notin> set c \<Longrightarrow> a = c \<and> b = d"
proof (induction a arbitrary: c)
  case Nil
  then show ?case by (cases c) auto
next
  case (Cons y a)
  then show ?case by (cases c) auto
qed

lemma not_thousands:
  assumes "ascii_ucd u" "46 \<notin> set w" "length b = 2"
  shows "re_match u False dotted_thousands (w @ 46 # b) = None"
proof (rule ccontr)
  assume "re_match u False dotted_thousands (w @ 46 # b) \<noteq> None"
  then obtain a b' where ab: "w @ 46 # b = a @ 46 # b'" "list_all (\<lambda>c. uc_decimal u c \<noteq> None) a" "3 \<le> length b'"
    by (rule dotted_thousands_sound)
  moreover have "uc_decimal u 46 = None" using assms(1) by (simp add: ascii_at)
  with ab(2) have "46 \<notin> set a" unfolding list_all_iff by blast
  ultimately show False using split_at_mark [of w 46 b a b'] assms(2,3) by simp
qed

lemma strip_same: "s \<noteq> [] \<Longrightarrow> \<not> uc_space u (hd s) \<Longrightarrow> \<not> uc_space u (last s) \<Longrightarrow> u_strip u s = s"
proof -
  assume "s \<noteq> []" "\<not> uc_space u (hd s)" "\<not> uc_space u (last s)"
  then have "dropWhile (uc_space u) s = s" "dropWhile (uc_space u) (rev s) = rev s"
    by (simp_all add: dropWhile_eq_self_iff hd_rev)
  then show ?thesis by (simp add: u_strip_def)
qed

definition digits_commas :: "ustr \<Rightarrow> bool" where
  "digits_commas w \<longleftrightarrow> list_all (\<lambda>c. 48 \<le> c \<and> c \<le> 57 \<or> c = 44) w"

lemma sign_of:
  assumes "ascii_ucd u" "w \<noteq> []" "\<forall>c\<in>set w. 48 \<le> c \<and> c \<le> 57 \<or> c = 44 \<or> c = 46"
  shows "(if has_prefix [45] (u_strip u (signed neg w)) then [45] else []) = (if neg then [45] else [] :: ustr)"
proof -
  have ns: "\<not> uc_space u c" if "c \<in> set w" for c
    using assms(3) that by (auto simp: ascii_at [OF assms(1)])
  have "u_strip u (signed neg w) = signed neg w"
    by (rule strip_same) (use assms(2) ns in \<open>auto simp: signed_def ascii_at [OF assms(1)]\<close>)
  moreover have "hd w \<noteq> 45" using assms(2,3) by (cases w) auto
  ultimately show ?thesis using assms(2) by (cases w) (auto simp: signed_def)
qed

lemma kept_chars:
  assumes "ascii_ucd u" "\<forall>c\<in>set w. 48 \<le> c \<and> c \<le> 57 \<or> c = 44 \<or> c = 46"
  shows "filter (\<lambda>c. uc_isdigit u c \<or> c = 46 \<or> c = 44) (signed neg w) = w"
proof -
  have "filter (\<lambda>c. uc_isdigit u c \<or> c = 46 \<or> c = 44) w = w"
    by (rule filter_True) (use assms in \<open>auto simp: ascii_at\<close>)
  then show ?thesis using assms(1) by (simp add: signed_def ascii_at)
qed

lemma no_minus: "\<forall>c\<in>set (w :: ustr). 48 \<le> c \<and> c \<le> 57 \<or> c = 44 \<or> c = 46 \<Longrightarrow> dropWhile (\<lambda>c. c = 45) w = w"
  by (cases w) auto

lemma normalize_two_decimals:
  assumes "ascii_ucd u" "digits_commas w" "digit_text b" "length b = 2"
  shows "normalize_amount_token u (signed neg (w @ 46 # b)) =
    Some (signed neg (filter (\<lambda>c. c \<noteq> 44) w @ 46 # b))"
proof -
  have chars: "\<forall>c\<in>set (w @ 46 # b). 48 \<le> c \<and> c \<le> 57 \<or> c = 44 \<or> c = 46"
    using assms(2,3) by (auto simp: digits_commas_def list_all_iff dest: digit_text_mem)
  have dots: "46 \<notin> set w" and commas: "44 \<notin> set b"
    using assms(2,3) by (auto simp: digits_commas_def list_all_iff dest: digit_text_mem)
  have "filter (\<lambda>c. c \<noteq> 44) b = b" by (rule filter_True) (use commas in auto)
  moreover have "filter (\<lambda>c. c \<noteq> 44) w = w" if "44 \<notin> set w" by (rule filter_True) (use that in auto)
  moreover have "length (filter (\<lambda>c. c = 44) w) = 0" if "44 \<notin> set w" using that by (auto simp: filter_empty_conv)
  moreover have "length (filter (\<lambda>c. c = 44) b) = 0" using commas by (auto simp: filter_empty_conv)
  ultimately show ?thesis
    using sign_of [OF assms(1) _ chars, of neg] kept_chars [OF assms(1) chars, of neg]
      no_minus [OF chars] not_thousands [OF assms(1) dots assms(4)] dots
    by (auto simp: normalize_amount_token_def Let_def signed_def)
qed

lemma parse_two_decimals:
  assumes "ascii_ucd u" "digits_commas w" "digit_text b" "length b = 2" "filter (\<lambda>c. c \<noteq> 44) w \<noteq> []"
  shows "parse_number u (signed neg (w @ 46 # b)) =
    map_option (\<lambda>x. if neg then - x else x)
      (py_float (of_int (digits_value_u u (filter (\<lambda>c. c \<noteq> 44) w @ b)) / 100))"
proof -
  let ?a = "filter (\<lambda>c. c \<noteq> 44) w"
  have a: "digit_text ?a" using assms(2) by (auto simp: digits_commas_def digit_text_def list_all_iff)
  then have "hd ?a \<noteq> 45" using assms(5) by (cases ?a) auto
  then have "token_float u (signed neg (?a @ 46 # b)) =
      map_option (\<lambda>x. if neg then - x else x) (unsigned_float u (?a @ 46 # b))"
    using assms(5) by (cases ?a) (auto simp: token_float_def signed_def map_option.id [unfolded id_def])
  moreover have "signed neg (?a @ 46 # b) \<noteq> []" by (simp add: signed_def)
  ultimately show ?thesis
    by (simp add: parse_number_def normalize_two_decimals [OF assms(1-4)]
        unsigned_float_two [OF assms(1) a assms(3,5)] assms(4))
qed


subsection \<open>What is printed reads back\<close>

lemma group3_digits: "\<forall>c\<in>set s. is_digit c \<Longrightarrow> filter (\<lambda>c. c \<noteq> CHR '','') (group3 s) = s"
  by (induction s rule: group3.induct) (auto simp: is_digit_def)

lemma group3_chars: "\<forall>c\<in>set s. is_digit c \<Longrightarrow> \<forall>c\<in>set (group3 s). is_digit c \<or> c = CHR '',''"
  by (induction s rule: group3.induct) auto

lemma lit_append [simp]: "lit (a @ b) = lit a @ lit b"
  by (simp add: lit_def)

lemma lit_filter: "filter (\<lambda>c. c \<noteq> of_char d) (lit s) = lit (filter (\<lambda>c. c \<noteq> d) s)"
  by (induction s) (auto simp: lit_def)

text \<open>The two formats: a sign, a whole part that is digits up to commas, two decimals.\<close>

lemma parse_printed:
  assumes "ascii_ucd u" "\<forall>c\<in>set w. is_digit c \<or> c = CHR '',''" "filter (\<lambda>c. c \<noteq> CHR '','') w = py_str_nat (c div 100)"
  shows "parse_number u (lit ((if neg then ''-'' else '''') @ w @ ''.'' @ pad_zeros 2 (py_str_nat (c mod 100)))) =
    map_option (\<lambda>x. if neg then - x else x) (py_float (of_nat c / 100))"
proof -
  let ?p = "pad_zeros 2 (py_str_nat (c mod 100))"
  have comma: "(44 :: int) = of_char CHR '',''" by simp
  have w: "digits_commas (lit w)"
    using assms(2) lit_digit by (auto simp: digits_commas_def list_all_iff lit_def)
  have kept: "filter (\<lambda>c. c \<noteq> 44) (lit w) = lit (py_str_nat (c div 100))"
    unfolding comma lit_filter assms(3) ..
  have p: "\<forall>c\<in>set ?p. is_digit c" "length ?p = 2" "nat_of_digits ?p = c mod 100"
    using pad_zeros_digits [of 2 "c mod 100"] by (simp_all add: pad_zeros_length)
  have "digits_value_u u (lit (py_str_nat (c div 100)) @ lit ?p) = int c"
    using digits_value_lit [OF assms(1), of "py_str_nat (c div 100) @ ?p"] p py_str_nat_digits [of "c div 100"]
    by (auto simp: nat_of_digits_append)
  moreover have "lit ((if neg then ''-'' else '''') @ w @ ''.'' @ ?p) = signed neg (lit w @ 46 # lit ?p)"
    by (simp add: signed_def lit_def)
  ultimately show ?thesis
    using parse_two_decimals [OF assms(1) w digit_text_lit [OF p(1)], of neg] kept p(2)
    by (simp add: lit_def)
qed

lemma round_half_even_minus: "round_half_even (- x) = - round_half_even x"
proof -
  have f: "of_int \<lfloor>x\<rfloor> \<le> x" "x < of_int \<lfloor>x\<rfloor> + 1" using floor_correct [of x] by simp_all
  show ?thesis
  proof (cases "x = of_int \<lfloor>x\<rfloor>")
    case True
    then show ?thesis by (metis of_int_minus round_half_even_of_int)
  next
    case False
    then have "\<lfloor>- x\<rfloor> = - \<lfloor>x\<rfloor> - 1" using f by (intro floor_unique) (auto simp: less_le)
    then show ?thesis by (auto simp: round_half_even_def Let_def)
  qed
qed

lemma round_double_minus: "round_double (- x) = - round_double x"
  by (simp add: round_double_def Let_def)

lemma py_round_minus: "py_round n (- x) = - py_round n x"
  by (simp add: py_round_def round_half_even_minus round_double_minus)

lemma round_half_even_nonneg: "0 \<le> x \<Longrightarrow> 0 \<le> round_half_even x"
  using round_half_even_mono [of "of_int 0" x] round_half_even_of_int [of 0] by simp

lemma py_round_abs: "0 \<le> x \<Longrightarrow> of_nat (nat (round_half_even (x * 100))) / 100 = y \<Longrightarrow> round_double y = py_round 2 x"
  using round_half_even_nonneg [of "x * 100"] by (simp add: py_round_def)

lemma printed_value:
  assumes "\<bar>py_round 2 x\<bar> \<le> max_double"
  shows "map_option (\<lambda>y. if x < 0 then - y else y) (py_float (of_nat (nat (round_half_even (\<bar>x\<bar> * 100))) / 100))
    = Some (py_round 2 x)"
proof -
  have "round_double (of_nat (nat (round_half_even (\<bar>x\<bar> * 100))) / 100) = py_round 2 \<bar>x\<bar>"
    by (rule py_round_abs [OF _ refl]) simp
  then show ?thesis
    using assms by (cases "x < 0") (auto simp: py_float_def py_round_minus)
qed

text \<open>
  C33: an amount printed with two decimals, with or without thousands separators, is read by
  the invoice parser as the amount rounded to cents, whatever its sign.
\<close>

theorem printed_amounts_read_back:
  assumes "ascii_ucd u" "\<bar>py_round 2 x\<bar> \<le> max_double"
  shows "parse_number u (lit (py_fixed2 x)) = Some (py_round 2 x) \<and>
    parse_number u (lit (amount_text x)) = Some (py_round 2 x)"
proof -
  let ?d = "py_str_nat (nat (round_half_even (\<bar>x\<bar> * 100)) div 100)"
  have d: "\<forall>c\<in>set (rev ?d). is_digit c" using py_str_nat_digits [of "nat (round_half_even (\<bar>x\<bar> * 100)) div 100"] by simp
  have "filter (\<lambda>c. c \<noteq> CHR '','') (rev (group3 (rev ?d))) = ?d"
    using group3_digits [OF d] by (simp add: rev_filter [symmetric])
  moreover have "\<forall>c\<in>set (rev (group3 (rev ?d))). is_digit c \<or> c = CHR '',''" using group3_chars [OF d] by simp
  moreover have "filter (\<lambda>c. c \<noteq> CHR '','') ?d = ?d" "\<forall>c\<in>set ?d. is_digit c \<or> c = CHR '',''"
    using d by (auto simp: is_digit_def intro!: filter_True)
  ultimately show ?thesis
    using parse_printed [OF assms(1), of _ "nat (round_half_even (\<bar>x\<bar> * 100))" "x < 0"] printed_value [OF assms(2)]
    by (simp only: py_fixed2_def amount_text_def Let_def)
qed

lemma demo_log: "floor_log2 (4937 / 4) = 10"
proof -
  have "quotient_of (4937 / 4) = (4937, 4)" by code_simp
  then show ?thesis by (simp add: floor_log2_def ilog.simps pow2_def)
qed

lemma demo_rounded: "py_round 2 (- 4937 / 4) = - 4937 / 4"
  by (simp add: py_round_def round_double_def demo_log round_half_even_def pow2_def)

lemma printed_amounts_read_back_witness:
  "parse_number toy_ucd (lit (py_fixed2 (- 4937 / 4))) = Some (py_round 2 (- 4937 / 4)) \<and>
   parse_number toy_ucd (lit (amount_text (- 4937 / 4))) = Some (py_round 2 (- 4937 / 4))"
  by (rule printed_amounts_read_back [OF ascii_toy]) (unfold demo_rounded, simp add: max_double_def)


subsection \<open>One separator and three digits\<close>

lemma iterates_run:
  "list_all (in_classes u ci cs) w \<Longrightarrow> lo \<le> length w \<Longrightarrow>
     iterates (matches u ci (RSet True cs)) lo None (b, w @ a, g) (rev w @ b, a, g)"
proof (induction w arbitrary: lo b)
  case Nil
  then show ?case by (simp add: it_stop)
next
  case (Cons c w)
  have step: "matches u ci (RSet True cs) (b, (c # w) @ a, g) (c # b, w @ a, g)" using Cons.prems by simp
  have "iterates (matches u ci (RSet True cs)) (lo - 1) None (c # b, w @ a, g) (rev w @ c # b, a, g)"
    by (rule Cons.IH) (use Cons.prems in auto)
  then show ?case
    using it_need [of "matches u ci (RSet True cs)", OF step, of None "lo - 1"]
      it_more [of "matches u ci (RSet True cs)", OF step, of None] by (cases lo) (auto simp: one_less_def simp del: matches.simps)
qed

lemma dotted_thousands_complete:
  assumes "list_all (\<lambda>c. uc_decimal u c \<noteq> None) (a @ [x, y, z])" "a \<noteq> []"
  shows "re_match u False dotted_thousands (a @ 46 # [x, y, z]) \<noteq> None"
proof -
  let ?D = "RSet True [Digit]" and ?after = "(46 # rev a, [x, y, z], [])"
  have "iterates (matches u False ?D) 1 None ([], a @ 46 # [x, y, z], []) (rev a @ [], 46 # [x, y, z], [])"
    by (rule iterates_run) (use assms in \<open>auto simp: list_all_iff Suc_leI\<close>)
  moreover have "matches u False (RSet True [Lit 46]) (rev a @ [], 46 # [x, y, z], []) ?after"
    by (simp add: variants_def)
  moreover have "iterates (matches u False ?D) 3 (Some 3) ?after (z # y # x # 46 # rev a, [], [])"
    using assms(1) by (auto simp: numeral_3_eq_3 iterates_Suc one_less_def intro: it_stop)
  ultimately have "matches u False dotted_thousands ([], a @ 46 # [x, y, z], []) (z # y # x # 46 # rev a, [], [])"
    unfolding dotted_thousands_def rseq.simps matches.simps(5,7,9,10) at_line_start_def at_line_end_def
    by (auto simp del: split_paired_Ex)
  then have "rmatch u False dotted_thousands ([], a @ 46 # [x, y, z], []) \<noteq> []"
    by (auto simp: set_rmatch [symmetric])
  then show ?thesis by (auto simp: re_match_def split: list.splits)
qed


text \<open>What the token becomes: a comma turns into the point, a point moves before the last digits.\<close>

lemma normalize_comma:
  assumes "ascii_ucd u" "digit_text a" "digit_text b" "a \<noteq> []"
  shows "normalize_amount_token u (a @ 44 # b) = Some (a @ 46 # b)"
proof -
  have chars: "\<forall>c\<in>set (a @ 44 # b). 48 \<le> c \<and> c \<le> 57 \<or> c = 44 \<or> c = 46"
    using assms(2,3) by (auto dest: digit_text_mem)
  have none: "c \<notin> set a" "c \<notin> set b" if "c < 48" for c
    using assms(2,3) that by (auto dest: digit_text_mem)
  have "re_match u False dotted_thousands (a @ 44 # b) = None"
  proof (rule ccontr)
    assume "re_match u False dotted_thousands (a @ 44 # b) \<noteq> None"
    then obtain x y where "a @ 44 # b = x @ 46 # y" by (rule dotted_thousands_sound)
    then have "46 \<in> set (a @ 44 # b)" by simp
    then show False using none [of 46] by simp
  qed
  moreover have "filter (\<lambda>c. c = 44) a = []" "filter (\<lambda>c. c = 44) b = []"
    using none [of 44] by (auto simp: filter_empty_conv)
  moreover have "map (\<lambda>c. if c = 44 then 46 else c) a = a" "map (\<lambda>c. if c = 44 then 46 else c) b = b"
    using none [of 44] by (auto intro!: map_idI)
  ultimately show ?thesis
    using sign_of [OF assms(1) _ chars, of False] kept_chars [OF assms(1) chars, of False]
      no_minus [OF chars] none [of 46]
    by (simp add: normalize_amount_token_def Let_def signed_def)
qed

lemma normalize_point:
  assumes "ascii_ucd u" "digit_text a" "digit_text [x, y, z]" "a \<noteq> []" "length a \<le> 2"
  shows "normalize_amount_token u (a @ 46 # [x, y, z]) = Some ([x, y, z] @ 46 # a)"
proof -
  have chars: "\<forall>c\<in>set (a @ 46 # [x, y, z]). 48 \<le> c \<and> c \<le> 57 \<or> c = 44 \<or> c = 46"
    using assms(2,3) by (auto dest: digit_text_mem)
  have none: "c \<notin> set a" "c \<notin> set [x, y, z]" if "c < 48" for c
    using assms(2,3) that by (auto dest: digit_text_mem)
  have "re_match u False dotted_thousands (a @ 46 # [x, y, z]) \<noteq> None"
    using assms(1-4) by (intro dotted_thousands_complete) (auto simp: list_all_iff ascii_at dest: digit_text_mem)
  moreover have "takeWhile (\<lambda>c. c \<noteq> 46) (a @ 46 # [x, y, z]) = a"
    "dropWhile (\<lambda>c. c \<noteq> 46) (a @ 46 # [x, y, z]) = 46 # [x, y, z]"
    using none [of 46] by (auto simp: takeWhile_append dropWhile_append)
  moreover have "filter (\<lambda>c. c \<noteq> 44) a = a" using none [of 44] by (auto intro!: filter_True)
  moreover have "\<not> has_prefix [45] (a @ 46 # [x, y, z])" using none [of 45] assms(4) by (cases a) auto
  ultimately show ?thesis
    using sign_of [OF assms(1) _ chars, of False] kept_chars [OF assms(1) chars, of False]
      no_minus [OF chars] none [of 44] assms(5)
    by (simp add: normalize_amount_token_def Let_def signed_def del: takeWhile.simps dropWhile.simps)
qed

lemma parse_number_of:
  assumes "ascii_ucd u" "\<forall>c\<in>set p. is_digit c" "\<forall>c\<in>set q. is_digit c" "p \<noteq> []"
    and "normalize_amount_token u s = Some (lit p @ 46 # lit q)"
  shows "parse_number u s = py_float (of_nat (nat_of_digits (p @ q)) / 10 ^ length q)"
proof -
  have p: "digit_text (lit p)" and q: "digit_text (lit q)" using assms(2,3) by (auto intro: digit_text_lit)
  have ne: "lit p \<noteq> []" using assms(4) by (simp add: lit_def)
  then obtain c r where cr: "lit p = c # r" by (cases "lit p") auto
  with p have "c \<noteq> 45" by simp
  then have "token_float u (lit p @ 46 # lit q) = unsigned_float u (lit p @ 46 # lit q)"
    by (simp add: token_float_def cr)
  moreover have "digits_value_u u (lit p @ lit q) = int (nat_of_digits (p @ q))"
    using digits_value_lit [OF assms(1), of "p @ q"] assms(2,3) by auto
  ultimately show ?thesis
    using unsigned_float_two [OF assms(1) p q ne] assms(5) by (simp add: parse_number_def lit_def)
qed

text \<open>
  An amount with a single separator and three digits after it is not read as thousands. With
  a comma the separator counts as the decimal point, so \<open>1,250\<close> is read as 1.25; with a point
  after one or two digits the two parts change places, so \<open>1.250\<close> is read as 250.1.
\<close>

theorem single_separator_reading:
  assumes "ascii_ucd u" "m < 1000"
  shows "parse_number u (lit (py_str_nat n @ '','' @ pad_zeros 3 (py_str_nat m))) =
      py_float (of_nat (1000 * n + m) / 1000) \<and>
    (n < 100 \<longrightarrow> parse_number u (lit (py_str_nat n @ ''.'' @ pad_zeros 3 (py_str_nat m))) =
      py_float (of_nat (m * 10 ^ length (py_str_nat n) + n) / 10 ^ length (py_str_nat n)))"
proof (intro conjI impI)
  let ?p = "py_str_nat n" and ?q = "pad_zeros 3 (py_str_nat m)"
  have q: "\<forall>c\<in>set ?q. is_digit c" "length ?q = 3" "nat_of_digits ?q = m"
    using assms(2) pad_zeros_digits [of 3 m] by (simp_all add: pad_zeros_length)
  note p = py_str_nat_digits [of n]
  have dp: "digit_text (lit ?p)" and dq: "digit_text (lit ?q)" using p q(1) by (auto intro: digit_text_lit)
  have ne: "lit ?p \<noteq> []" by (simp add: lit_def)
  have "normalize_amount_token u (lit (?p @ '','' @ ?q)) = Some (lit ?p @ 46 # lit ?q)"
    using normalize_comma [OF assms(1) dp dq ne] by (simp add: lit_def)
  from parse_number_of [OF assms(1) p q(1) _ this]
  show "parse_number u (lit (?p @ '','' @ ?q)) = py_float (of_nat (1000 * n + m) / 1000)"
    using q(2,3) by (simp add: nat_of_digits_append algebra_simps)
  assume "n < 100"
  then have short: "length (lit ?p) \<le> 2" using length_py_str_nat [of n 2] by (simp add: lit_def)
  obtain x y z where xyz: "lit ?q = [x, y, z]"
    using q(2) by (auto simp: lit_def length_Suc_conv numeral_3_eq_3)
  have "normalize_amount_token u (lit (?p @ ''.'' @ ?q)) = Some (lit ?q @ 46 # lit ?p)"
  proof -
    have "lit (?p @ ''.'' @ ?q) = lit ?p @ 46 # lit ?q" by (simp add: lit_def)
    then show ?thesis using normalize_point [OF assms(1) dp _ ne short, of x y z] dq by (simp add: xyz)
  qed
  moreover have "?q \<noteq> []" using q(2) by auto
  ultimately show "parse_number u (lit (?p @ ''.'' @ ?q)) =
      py_float (of_nat (m * 10 ^ length ?p + n) / 10 ^ length ?p)"
    using parse_number_of [OF assms(1) q(1) p] q(3) by (simp add: nat_of_digits_append)
qed

lemma demo_digits: "py_str_nat 1 = ''1''" "pad_zeros 3 (py_str_nat 250) = ''250''"
  by code_simp+

lemma single_separator_reading_witness:
  "parse_number toy_ucd (lit ''1,250'') = py_float (5 / 4) \<and> parse_number toy_ucd (lit ''1.250'') = py_float (2501 / 10)"
  using single_separator_reading [OF ascii_toy, of 250 1, unfolded demo_digits] by (simp del: lit_append)

end
