(* ===== verification/Report_Vendors.thy ===== *)
theory Report_Vendors
  imports Report_Amounts
begin

text \<open>
  Who an invoice is from and what it is for: \<open>usecases/report_vendor_strategies.py\<close>. Hebrew
  text appears in both directions, as PDF extraction gives it. A text that may be missing is
  the empty text, which the code treats alike; a result that may be missing is an option.
\<close>

subsection \<open>String operations\<close>

definition strip_chars :: "ustr \<Rightarrow> ustr \<Rightarrow> ustr" where
  "strip_chars cs s = rev (dropWhile (\<lambda>c. c \<in> set cs) (rev (dropWhile (\<lambda>c. c \<in> set cs) s)))"

text \<open>\<open>s.find(sub)\<close>, None for \<open>-1\<close>; what follows the first occurrence; what precedes it\<close>

fun u_find :: "'a list \<Rightarrow> 'a list \<Rightarrow> nat option" where
  "u_find sub [] = (if sub = [] then Some 0 else None)"
| "u_find sub (c # s) = (if has_prefix sub (c # s) then Some 0 else map_option Suc (u_find sub s))"

definition after_first :: "'a list \<Rightarrow> 'a list \<Rightarrow> 'a list" where
  "after_first sub s = (case u_find sub s of None \<Rightarrow> s | Some n \<Rightarrow> drop (n + length sub) s)"

definition before_first :: "'a list \<Rightarrow> 'a list \<Rightarrow> 'a list" where
  "before_first sub s = (case u_find sub s of None \<Rightarrow> s | Some n \<Rightarrow> take n s)"

definition any_of :: "ustr list \<Rightarrow> ustr \<Rightarrow> bool" where
  "any_of markers s \<longleftrightarrow> list_ex (\<lambda>m. contains m s) markers"

definition all_of :: "ustr list \<Rightarrow> ustr \<Rightarrow> bool" where
  "all_of markers s \<longleftrightarrow> list_all (\<lambda>m. contains m s) markers"

definition or_else :: "'a option \<Rightarrow> 'a option \<Rightarrow> 'a option" where
  "or_else x y = (case x of None \<Rightarrow> y | Some v \<Rightarrow> Some v)"

definition nonempty :: "ustr option \<Rightarrow> ustr option" where
  "nonempty x = (case x of None \<Rightarrow> None | Some s \<Rightarrow> if s = [] then None else Some s)"

definition group_text :: "match_object \<Rightarrow> nat \<Rightarrow> ustr" where
  "group_text m n = (case group m n of Some s \<Rightarrow> s | None \<Rightarrow> [])"

text \<open>\<open>[A-Za-z]\<close> and the Hebrew letters\<close>

definition letters :: "cclass list" where
  "letters = [Range 65 90, Range 97 122, Range 1488 1514]"

definition has_letter :: "ustr \<Rightarrow> bool" where
  "has_letter s \<longleftrightarrow> list_ex (\<lambda>c. (65 \<le> c \<and> c \<le> 90) \<or> (97 \<le> c \<and> c \<le> 122) \<or> (1488 \<le> c \<and> c \<le> 1514)) s"


subsection \<open>Known vendors\<close>

definition partner_label :: ustr where "partner_label = [1495, 1489, 1512, 1514, 32, 1508, 1512, 1496, 1504, 1512, 32, 1514, 1511, 1513, 1493, 1512, 1514, 32, 1489, 1506, 34, 1502]"
definition ofek_label :: ustr where "ofek_label = [1488, 1493, 1508, 1511, 32, 1492, 1508, 1511, 1493, 1514]"
definition sting_label :: ustr where "sting_label = (lit ''STINGTV'')"
definition ministry_label :: ustr where "ministry_label = [1502, 1513, 1512, 1491, 32, 1492, 1514, 1495, 1489, 1493, 1512, 1492, 32, 1493, 1492, 1489, 1496, 1497, 1495, 1493, 1514, 32, 1489, 1491, 1512, 1499, 1497, 1501]"
definition dan_label :: ustr where "dan_label = [1491, 1503, 32, 1495, 1489, 1512, 1492, 32, 1500, 1514, 1495, 1489, 1493, 1512, 1492, 32, 1510, 1497, 1489, 1493, 1512, 1497, 1514, 32, 1489, 1506, 34, 1502]"

definition known_vendor_markers :: "(ustr \<times> ustr) list" where
  "known_vendor_markers =
     [([1497, 1493, 1500, 32, 1497, 1502, 1512], [1512, 1502, 1497, 32, 1500, 1493, 1497, 32, 1514, 1511, 1513, 1493, 1512, 1514]), ([1508, 1512, 1496, 1504, 1512], partner_label), ([1512, 1504, 1496, 1512, 1508], partner_label),
      ((lit ''partner communications''), partner_label),
      ([1489, 1494, 1511, 45, 1490, 39, 1503, 32, 1489, 1506, 34, 1502], [1489, 1494, 1511, 45, 1490, 39, 1503, 32, 1489, 1506, 34, 1502]), ([1489, 1494, 1511, 45, 1490, 1523, 1503, 32, 1489, 1506, 34, 1502], [1489, 1494, 1511, 45, 1490, 1523, 1503, 32, 1489, 1506, 34, 1502]),
      ([1502, 34, 1506, 1489, 32, 1503, 39, 1490, 45, 1511, 1494, 1489], [1489, 1494, 1511, 45, 1490, 1523, 1503, 32, 1489, 1506, 34, 1502]), ([1491, 1503, 32, 1495, 1489, 1512, 1492, 32, 1500, 1514, 1495, 1489, 1493, 1512, 1492, 32, 1510, 1497, 1489, 1493, 1512, 1497, 1514, 32, 1489, 1506, 34, 1502], dan_label),
      ([1502, 34, 1506, 1489, 32, 1514, 1497, 1512, 1493, 1489, 1497, 1510, 32, 1492, 1512, 1493, 1489, 1495, 1514, 1500, 32, 1492, 1512, 1489, 1495, 32, 1503, 1491], dan_label), ([1502, 1513, 1512, 1491, 32, 1492, 1514, 1495, 1489, 1493, 1512, 1492, 32, 1493, 1492, 1489, 1496, 1497, 1495, 1493, 1514, 32, 1489, 1491, 1512, 1499, 1497, 1501], ministry_label),
      ([1501, 1497, 1499, 1512, 1491, 1489, 32, 1514, 1493, 1495, 1497, 1496, 1489, 1492, 1493, 32, 1492, 1512, 1493, 1489, 1495, 1514, 1492, 32, 1491, 1512, 1513, 1502], ministry_label), ([1488, 1493, 1508, 1511, 32, 1492, 1508, 1511, 1493, 1514], ofek_label), ([1492, 1508, 1511, 1493, 1514, 32, 1488, 1493, 1508, 1511], ofek_label),
      ([1488, 1493, 1508, 1511], ofek_label), ((lit ''ofek productions''), ofek_label), ([1505, 1496, 1497, 1504, 1490], sting_label), ((lit ''stingtv''), sting_label),
      ([1505, 1497, 32, 1497, 1514, 1493, 1512, 1513], sting_label), ([1497, 1514, 1493, 1512, 1513, 32, 1505, 1497], sting_label), ((lit ''just simple ltd''), (lit ''JUST SIMPLE LTD''))]"

definition petah_tikva_keywords :: "ustr list" where
  "petah_tikva_keywords = [[1508, 1514, 1495, 32, 1514, 1511], [1492, 1493, 1493, 1511, 1514, 32, 1495, 1514, 1508]]"

definition petah_tikva_municipal_markers :: "ustr list" where
  "petah_tikva_municipal_markers =
     [[1506, 1497, 1512, 1497, 1497, 1514], [1506, 1512, 1497, 1497, 1514], [1506, 1497, 1512, 1497,
     1497, 1492], [1506, 1497, 1512, 1497, 1492], [1506, 1512, 1497, 1497, 1492], [1506, 1512, 1497,
     1492], [1506, 1497, 1512, 1497, 1514], [1506, 1512, 1497, 1514], [1492, 1506, 1497, 1512, 1497,
     1497, 1492], [1492, 1506, 1497, 1512, 1497, 1492], [1514, 1497, 1506, 1497, 1512], [1514, 1497,
     1506, 1497, 1512, 1514], [1512, 1513, 1493, 1514, 32, 1502, 1511, 1493, 1502, 1497, 1514]]"

definition public_transport_hebrew_markers :: "ustr list" where
  "public_transport_hebrew_markers =
     [[1514, 1497, 1512, 1493, 1489, 1497, 1510, 32, 1492, 1512, 1493, 1489, 1495, 1514], [1514, 1497,
     1512, 1493, 1489, 1497, 1510, 1492, 32, 1492, 1512, 1493, 1489, 1495, 1514], [1514, 1497, 1512,
     1493, 1489, 1497, 1510, 1492, 32, 1492, 1512, 1493, 1489, 1495, 1514, 1492], [1492, 1514, 1495,
     1489, 1493, 1512, 1492, 32, 1492, 1510, 1497, 1489, 1493, 1512, 1497, 1514], [1493, 1511, 45, 1489,
     1512], [1512, 1489, 45, 1511, 1493]]"

definition public_transport_latin_markers :: "ustr list" where
  "public_transport_latin_markers =
     [lit ''ravpass'', lit ''rav-kav'', lit ''ravkav'', lit ''rav kav'']"

definition public_transport_invoice_for :: ustr where
  "public_transport_invoice_for = [1512, 1489, 45, 1511, 1493, 32, 45, 32, 1496, 1506, 1497, 1504, 1492]"

definition arnona :: ustr where "arnona = [1488, 1512, 1504, 1493, 1504, 1492]"
definition arnona_business :: ustr where "arnona_business = [1488, 1512, 1504, 1493, 1504, 1492, 32, 1500, 1506, 1505, 1511, 1497, 1501]"

definition detect_known_vendor :: "ucd \<Rightarrow> ustr \<Rightarrow> ustr option" where
  "detect_known_vendor u txt =
     (if txt = [] then None
      else map_option snd (find (\<lambda>(marker, _). contains (u_casefold u marker) (u_casefold u txt)) known_vendor_markers))"

definition has_public_transport_marker :: "ucd \<Rightarrow> ustr \<Rightarrow> bool" where
  "has_public_transport_marker u txt \<longleftrightarrow>
     txt \<noteq> [] \<and>
     (any_of public_transport_hebrew_markers txt \<or> any_of public_transport_latin_markers (u_lower u txt))"

definition looks_like_petah_tikva_municipality :: "ustr \<Rightarrow> bool" where
  "looks_like_petah_tikva_municipality txt \<longleftrightarrow>
     txt \<noteq> [] \<and> any_of petah_tikva_keywords txt \<and> any_of petah_tikva_municipal_markers txt"


subsection \<open>Cleaning a description\<close>

definition leading_noise :: regex where
  "leading_noise =
     rseq [RBol False, RRep 1 None True (RSet True [Digit, Space, Lit 39, Lit 34, Lit 96, Lit 46, Lit 44,
     Lit 45])]"

definition numbered_period :: regex where
  "numbered_period =
     rseq [rlit [1502, 1505], RRep 0 (Some 1) True (RSet True [Lit 45]), RRep 0 None True (RSet True
     [Space]), RGroup 1 (RRep 4 (Some 4) True (RSet True [Digit])), RRep 1 None True (RSet True [Space]),
     RGroup 2 (RRep 2 None True (RSet True [Range 1488 1514, Range 65 90, Range 97 122, Space, Lit 34,
     Lit 39]))]"

definition spaced_dash :: regex where
  "spaced_dash =
     rseq [RRep 0 None True (RSet True [Space]), RSet True [Lit 45], RRep 0 None True (RSet True
     [Space])]"

definition ltd_reversed :: regex where
  "ltd_reversed =
     rseq [RSet True [Lit 1502], RSet True [Lit 34, Lit 1524], RRep 0 None True (RSet True [Space]), rlit
     [1489, 1506]]"

definition ltd_spaced :: regex where
  "ltd_spaced =
     rseq [rlit [1489, 1506], RSet True [Lit 34, Lit 1524], RRep 0 None True (RSet True [Space]), RSet
     True [Lit 1502]]"

definition two_spaces :: regex where
  "two_spaces =
     RRep 2 None True (RSet True [Space])"

definition ltd :: ustr where "ltd = [1489, 1506, 34, 1502]"

definition normalize_invoice_for_value :: "ucd \<Rightarrow> ustr \<Rightarrow> ustr option" where
  "normalize_invoice_for_value u raw =
     (let cleaned = u_strip u (strip_chars [58, 34, 39] (u_strip u raw));
          cleaned = u_strip u (re_sub u False leading_noise (\<lambda>_. []) cleaned)
      in if raw = [] \<or> cleaned = [] \<or> \<not> has_letter cleaned then None
         else
           let cleaned = (case re_search u False numbered_period cleaned of
                 None \<Rightarrow> cleaned
               | Some m \<Rightarrow>
                   let desc = u_strip u (group_text m 2) in
                   if desc \<noteq> [] then desc @ [32] @ group_text m 1 else cleaned)
           in if contains arnona_business cleaned then Some arnona_business
              else if contains arnona cleaned then Some arnona
              else
                let cleaned = re_sub u False spaced_dash (\<lambda>_. [32, 45, 32]) cleaned;
                    cleaned = re_sub u False ltd_reversed (\<lambda>_. ltd) cleaned;
                    cleaned = re_sub u False ltd_spaced (\<lambda>_. ltd) cleaned
                in nonempty (Some (u_strip u (re_sub u False two_spaces (\<lambda>_. [32]) cleaned))))"


subsection \<open>Who the invoice is from\<close>

definition company_words :: "ustr list" where
  "company_words =
     [[1502, 34, 1506, 1489], [1489, 1506, 34, 1502], lit ''Ltd'', [1495, 1489, 1512, 1492]]"

definition vendor_line :: "ucd \<Rightarrow> ustr list \<Rightarrow> ustr option" where
  "vendor_line u lines =
     or_else (find (any_of company_words) lines)
       (find (\<lambda>line. \<not> any_of [(lit ''www''), (lit ''@''), (lit ''cid:'')] line \<and> \<not> u_is_digits u line \<and> has_letter line) (take 15 lines))"

definition from_marker :: regex where
  "from_marker =
     rseq [rlit [1502, 1488, 1514], RRep 1 None True (RSet True [Space]), RGroup 1 (RRep 1 None True
     (RSet False [Lit 10]))]"

definition municipality :: regex where
  "municipality =
     rseq [RSet True [Lit 1506], RSet True [Lit 1497, Lit 1512], rlit [1497, 1497, 1514], RRep 1 None
     True (RSet True [Space]), RRep 2 (Some 40) True (RSet False [Lit 10])]"

definition cut_at :: "ucd \<Rightarrow> ustr \<Rightarrow> ustr \<Rightarrow> ustr" where
  "cut_at u stop s = (if contains stop s then u_strip u (before_first stop s) else s)"

definition infer_invoice_from :: "ucd \<Rightarrow> ustr list \<Rightarrow> ustr \<Rightarrow> ustr option" where
  "infer_invoice_from u lines txt =
     (case nonempty (detect_known_vendor u txt) of
        Some vendor \<Rightarrow> Some vendor
      | None \<Rightarrow>
          let candidate = vendor_line u lines in
          if txt = [] then candidate
          else if all_of [[1511, 1512, 1503], [1502, 1491, 1512, 1497, 1499, 1514], [1492, 1493, 1512, 1497, 1501], [1493, 1514, 1497, 1504, 1493, 1511, 1493, 1514]] (re_sub u False (run_of True [Space]) (\<lambda>_. [32]) txt)
          then Some [1511, 1512, 1503, 45, 1502, 1491, 1512, 1497, 1499, 1514, 32, 1492, 1493, 1512, 1497, 1501, 32, 1493, 1514, 1497, 1504, 1493, 1511, 1493, 1514]
          else
            let sender = (case re_search u False from_marker txt of
                  None \<Rightarrow> None
                | Some m \<Rightarrow>
                    Some (cut_at u [1513, 1501] (cut_at u [1500, 1499, 1489, 1493, 1491] (cut_at u [58] (u_strip u (group_text m 1))))));
                candidate = or_else sender candidate
            in case nonempty sender of
                 Some s \<Rightarrow> Some s
               | None \<Rightarrow>
                   (case re_search u False municipality txt of
                      Some m \<Rightarrow> Some (replace_all [1506, 1512, 1497, 1497, 1514] [1506, 1497, 1512, 1497, 1497, 1514] (u_strip u (mo_text m)))
                    | None \<Rightarrow>
                        if looks_like_petah_tikva_municipality txt then Some [1506, 1497, 1512, 1497, 1497, 1514, 32, 1508, 1514, 1495, 32, 1514, 1511, 1493, 1493, 1492] else candidate))"


subsection \<open>What the invoice is for\<close>

definition keren_details :: regex where
  "keren_details =
     rseq [rlit [1508, 1497, 1512, 1493, 1496], RRep 1 None True (RSet True [Space]), RGroup 1 (rseq
     [rlit [50, 48], RRep 2 (Some 2) True (RSet True [Digit])]), RRep 1 None True (RSet True [Space]),
     RGroup 2 (RRep 1 None True (RSet True [Range 1488 1514])), RRep 1 None True (RSet True [Space]),
     rlit [1514, 1504, 1493, 1506, 1492], RRep 1 None True (RSet True [Space]), rlit [1495, 1493, 1490]]"

definition extract_keren_invoice_for :: "ucd \<Rightarrow> ustr \<Rightarrow> ustr option" where
  "extract_keren_invoice_for u txt =
     (if txt = [] then None
      else map_option (\<lambda>m. [1495, 1493, 1490, 32, 1514, 1504, 1493, 1506, 1492, 32] @ group_text m 2 @ [32] @ group_text m 1)
             (re_search u False keren_details (squeeze u txt)))"

definition partner_default :: ustr where
  "partner_default = [1508, 1497, 1512, 1493, 1496, 32, 1495, 1497, 1493, 1489, 1497, 1501, 32, 1493, 1494, 1497, 1499, 1493, 1497, 1497, 1501, 32, 1500, 1514, 1511, 1493, 1508, 1514, 32, 1492, 1495, 1513, 1489, 1493, 1503]"

definition stop_markers :: "ustr list" where
  "stop_markers = [[1505, 1492, 34, 1499], [1505, 1492, 1499], [1499, 34, 1492, 1505]]"

text \<open>The lines after a heading, stripped, up to a stop marker; at most four details.\<close>

fun detail_lines :: "ucd \<Rightarrow> nat \<Rightarrow> ustr list \<Rightarrow> ustr list \<Rightarrow> ustr list" where
  "detail_lines u 0 lines details = details"
| "detail_lines u (Suc n) [] details = details"
| "detail_lines u (Suc n) (line # lines) details =
     (let candidate = u_strip u line in
      if candidate = [] then detail_lines u n lines details
      else if any_of stop_markers candidate then details
      else let details = (if has_letter candidate then details @ [candidate] else details) in
           if 4 \<le> length details then details else detail_lines u n lines details)"

fun partner_details :: "ucd \<Rightarrow> ustr list \<Rightarrow> ustr option" where
  "partner_details u [] = None"
| "partner_details u (line # lines) =
     (if all_of [[1508, 1497, 1512, 1493, 1496], [1495, 1497, 1493, 1489, 1497, 1501], [1494, 1497, 1499, 1493, 1497, 1497, 1501], [1492, 1495, 1513, 1489, 1493, 1503]] line
      then (let details = detail_lines u 7 lines [] in
            Some (if details \<noteq> [] then u_join (lit '' | '') details else partner_default))
      else partner_details u lines)"

definition partner_segment :: regex where
  "partner_segment =
     rseq [rlit [1508, 1497, 1512, 1493, 1496], RRep 1 None True (RSet True [Space]), rlit [1495, 1497,
     1493, 1489, 1497, 1501], RRep 1 None True (RSet True [Space]), rlit [1493, 1494, 1497, 1499, 1493,
     1497, 1497, 1501], RRep 1 None True (RSet True [Space]), rlit [1500, 1514, 1511, 1493, 1508, 1514],
     RRep 1 None True (RSet True [Space]), rlit [1492, 1495, 1513, 1489, 1493, 1503], RRep 1 None True
     (RSet True [Space]), RGroup 1 (RRep 0 None False (RAny)), RRep 1 None True (RSet True [Space]), rlit
     [1505, 1492], RRep 0 (Some 1) True (RSet True [Lit 34]), RSet True [Lit 1499], RRep 1 None True
     (RSet True [Space]), rlit [1495, 1497, 1493, 1489, 1497], RRep 1 None True (RSet True [Space]), rlit
     [1492, 1495, 1513, 1489, 1493, 1503]]"

definition mobile_count :: regex where
  "mobile_count =
     rseq [RGroup 1 (RRep 1 None True (RSet True [Digit])), rlit [1502, 1504, 1493, 1497, 1497], RRep 0
     None True (RSet True [Space]), rlit [1505, 1500, 1493, 1500, 1512]]"

definition transport_count :: regex where
  "transport_count =
     rseq [RGroup 1 (RRep 1 None True (RSet True [Digit])), rlit [1502, 1504, 1493, 1497], RRep 0 None
     True (RSet True [Space]), rlit [1514, 1502, 1505, 1493, 1512, 1514], RRep 0 None True (RSet True
     [Space]), RGroup 2 (RRep 1 None True (RSet True [Digit, Lit 45]))]"

definition general_moves :: regex where
  "general_moves =
     rseq [rlit [1514, 1504, 1493, 1506, 1493, 1514], RRep 1 None True (RSet True [Space]), rlit [1499,
     1500, 1500, 1497, 1493, 1514], RRep 1 None True (RSet True [Space]), rlit [1489, 1495, 1513, 1489,
     1493, 1503], RRep 1 None True (RSet True [Space]), rlit [1492, 1500, 1511, 1493, 1495]]"

definition partner_entries :: "ucd \<Rightarrow> ustr \<Rightarrow> ustr list" where
  "partner_entries u segment =
     (case re_search u False mobile_count segment of
        Some m \<Rightarrow> [group_text m 1 @ [32, 1502, 1504, 1493, 1497, 1497, 32, 1505, 1500, 1493, 1500, 1512]] | None \<Rightarrow> []) @
     (case re_search u False transport_count segment of
        Some m \<Rightarrow> [group_text m 1 @ [32, 1502, 1504, 1493, 1497, 32, 1514, 1502, 1505, 1493, 1512, 1514, 32] @ group_text m 2] | None \<Rightarrow> []) @
     (if re_search u False general_moves segment \<noteq> None then [[1514, 1504, 1493, 1506, 1493, 1514, 32, 1499, 1500, 1500, 1497, 1493, 1514, 32, 1489, 1495, 1513, 1489, 1493, 1503, 32, 1492, 1500, 1511, 1493, 1495]] else [])"

definition extract_partner_invoice_for :: "ucd \<Rightarrow> ustr list \<Rightarrow> ustr \<Rightarrow> ustr option" where
  "extract_partner_invoice_for u lines raw_text =
     (case partner_details u lines of
        Some s \<Rightarrow> Some s
      | None \<Rightarrow>
          if raw_text = [] then None
          else (case re_search u False partner_segment raw_text of
                  None \<Rightarrow> None
                | Some m \<Rightarrow>
                    let entries = partner_entries u (group_text m 1) in
                    Some (if entries \<noteq> [] then u_join (lit '' | '') entries else partner_default)))"

definition theatre_month :: regex where
  "theatre_month =
     rseq [rlit [1495, 1493, 1490], RRep 1 None True (RSet True [Space]), rlit [1514, 1497, 1488, 1496,
     1512, 1493, 1503], RRep 1 None True (RSet True [Space]), rlit [1495, 1493, 1491, 1513], RRep 1 None
     True (RSet True [Space]), RGroup 1 (RAlt (rlit [1488, 1493, 1490, 1493, 1505, 1496]) (RAlt (rlit
     [1505, 1508, 1496, 1502, 1489, 1512]) (RAlt (rlit [1488, 1493, 1511, 1496, 1493, 1489, 1512]) (RAlt
     (rlit [1504, 1493, 1489, 1502, 1489, 1512]) (RAlt (rlit [1491, 1510, 1502, 1489, 1512]) (RAlt (rlit
     [1497, 1504, 1493, 1488, 1512]) (RAlt (rlit [1508, 1489, 1512, 1493, 1488, 1512]) (RAlt (rlit [1502,
     1512, 1509]) (RAlt (rlit [1488, 1508, 1512, 1497, 1500]) (RAlt (rlit [1502, 1488, 1497]) (RAlt (rlit
     [1497, 1493, 1504, 1497]) (rlit [1497, 1493, 1500, 1497]))))))))))))]"

definition month_theatre :: regex where
  "month_theatre =
     rseq [RGroup 1 (RAlt (rlit [1488, 1493, 1490, 1493, 1505, 1496]) (RAlt (rlit [1505, 1508, 1496,
     1502, 1489, 1512]) (RAlt (rlit [1488, 1493, 1511, 1496, 1493, 1489, 1512]) (RAlt (rlit [1504, 1493,
     1489, 1502, 1489, 1512]) (RAlt (rlit [1491, 1510, 1502, 1489, 1512]) (RAlt (rlit [1497, 1504, 1493,
     1488, 1512]) (RAlt (rlit [1508, 1489, 1512, 1493, 1488, 1512]) (RAlt (rlit [1502, 1512, 1509]) (RAlt
     (rlit [1488, 1508, 1512, 1497, 1500]) (RAlt (rlit [1502, 1488, 1497]) (RAlt (rlit [1497, 1493, 1504,
     1497]) (rlit [1497, 1493, 1500, 1497])))))))))))), RRep 1 None True (RSet True [Space]), rlit [1495,
     1493, 1491, 1513], RRep 1 None True (RSet True [Space]), rlit [1514, 1497, 1488, 1496, 1512, 1493,
     1503], RRep 1 None True (RSet True [Space]), rlit [1495, 1493, 1490]]"

definition course_month :: regex where
  "course_month =
     rseq [rlit [1495, 1493, 1490], RRep 1 None True (RSet True [Space]), rlit [1495, 1493, 1491, 1513],
     RRep 1 None True (RSet True [Space]), RGroup 1 (RAlt (rlit [1488, 1493, 1490, 1493, 1505, 1496])
     (RAlt (rlit [1505, 1508, 1496, 1502, 1489, 1512]) (RAlt (rlit [1488, 1493, 1511, 1496, 1493, 1489,
     1512]) (RAlt (rlit [1504, 1493, 1489, 1502, 1489, 1512]) (RAlt (rlit [1491, 1510, 1502, 1489, 1512])
     (RAlt (rlit [1497, 1504, 1493, 1488, 1512]) (RAlt (rlit [1508, 1489, 1512, 1493, 1488, 1512]) (RAlt
     (rlit [1502, 1512, 1509]) (RAlt (rlit [1488, 1508, 1512, 1497, 1500]) (RAlt (rlit [1502, 1488,
     1497]) (RAlt (rlit [1497, 1493, 1504, 1497]) (rlit [1497, 1493, 1500, 1497]))))))))))))]"

definition month_course :: regex where
  "month_course =
     rseq [RGroup 1 (RAlt (rlit [1488, 1493, 1490, 1493, 1505, 1496]) (RAlt (rlit [1505, 1508, 1496,
     1502, 1489, 1512]) (RAlt (rlit [1488, 1493, 1511, 1496, 1493, 1489, 1512]) (RAlt (rlit [1504, 1493,
     1489, 1502, 1489, 1512]) (RAlt (rlit [1491, 1510, 1502, 1489, 1512]) (RAlt (rlit [1497, 1504, 1493,
     1488, 1512]) (RAlt (rlit [1508, 1489, 1512, 1493, 1488, 1512]) (RAlt (rlit [1502, 1512, 1509]) (RAlt
     (rlit [1488, 1508, 1512, 1497, 1500]) (RAlt (rlit [1502, 1488, 1497]) (RAlt (rlit [1497, 1493, 1504,
     1497]) (rlit [1497, 1493, 1500, 1497])))))))))))), RRep 1 None True (RSet True [Space]), rlit [1495,
     1493, 1491, 1513], RRep 1 None True (RSet True [Space]), rlit [1495, 1493, 1490]]"

definition ofek_variants :: "(regex \<times> ustr) list" where
  "ofek_variants =
     [(theatre_month, [1495, 1493, 1490, 32, 1514, 1497, 1488, 1496, 1512, 1493, 1503, 32, 1495, 1493, 1491, 1513, 32]), (month_theatre, [1495, 1493, 1490, 32, 1514, 1497, 1488, 1496, 1512, 1493, 1503, 32, 1495, 1493, 1491, 1513, 32]),
      (course_month, [1495, 1493, 1490, 32, 1495, 1493, 1491, 1513, 32]), (month_course, [1495, 1493, 1490, 32, 1495, 1493, 1491, 1513, 32])]"

definition add_new :: "'a \<Rightarrow> 'a list \<Rightarrow> 'a list" where
  "add_new x xs = (if x \<in> set xs then xs else xs @ [x])"

definition extract_ofek_invoice_for :: "ucd \<Rightarrow> ustr \<Rightarrow> ustr option" where
  "extract_ofek_invoice_for u txt =
     (let summaries = fold add_new
            (concat (map (\<lambda>(pat, prefix). map (\<lambda>month. prefix @ month) (re_findall u False pat 1 (squeeze u txt))) ofek_variants)) []
      in if txt = [] \<or> summaries = [] then None else Some (u_join (lit '' | '') summaries))"

definition sting_phrases :: "(ustr \<times> ustr list) list" where
  "sting_phrases =
     [([1513, 1497, 1512, 1493, 1514, 1497, 32, 1514, 1493, 1499, 1503, 32, 1489, 1497, 1504, 1500, 1488, 1493, 1502, 1497, 1497, 1501], [[1513, 1497, 1512, 1493, 1514, 1497, 32, 1514, 1493, 1499, 1503, 32, 1489, 1497, 1504, 1500, 1488, 1493, 1502, 1497, 1497, 1501], [1501, 1497, 1497, 1502, 1493, 1488, 1500, 1504, 1497, 1489, 32, 1503, 1499, 1493, 1514, 32, 1497, 1514, 1493, 1512, 1497, 1513]]),
      ([1505, 1508, 1512, 1497, 1493, 1514, 32, 1493, 1506, 1512, 1493, 1510, 1497, 32, 1508, 1512, 1497, 1502, 1497, 1493, 1501], [[1505, 1508, 1512, 1497, 1493, 1514, 32, 1493, 1506, 1512, 1493, 1510, 1497, 32, 1508, 1512, 1497, 1502, 1497, 1493, 1501], [1501, 1493, 1497, 1502, 1497, 1512, 1508, 32, 1497, 1510, 1493, 1512, 1506, 1493, 32, 1514, 1493, 1497, 1512, 1508, 1505]])]"

definition extract_stingtv_invoice_for :: "ucd \<Rightarrow> ustr \<Rightarrow> ustr option" where
  "extract_stingtv_invoice_for u txt =
     (let found = map fst (filter (\<lambda>(_, phrases). any_of phrases (squeeze u txt)) sting_phrases)
      in if txt = [] \<or> found = [] then None else Some (u_join (lit '' | '') found))"

definition signed_number :: regex where
  "signed_number =
     rseq [RRep 0 (Some 1) True (RSet True [Lit 45]), RSet True [Digit], RRep 0 None True (RSet True
     [Digit, Lit 46, Lit 44])]"

definition sting_section :: "ustr \<Rightarrow> ustr option" where
  "sting_section normalized =
     (case u_find [1503, 1493, 1489, 1513, 1495, 1492, 32, 1496, 1493, 1512, 1497, 1508] normalized of
        None \<Rightarrow> None
      | Some start \<Rightarrow>
          let rest = drop start normalized;
              ends = List.map_filter (\<lambda>marker. u_find marker rest) [[1506, 1510, 1489, 1502, 1489, 32, 1500, 1493, 1500, 1499], [1514, 1502, 1500, 1513, 1493, 1502, 1492], (lit ''Sample'')]
          in Some (take (fold min ends (length rest)) rest))"

definition extract_stingtv_breakdown :: "ucd \<Rightarrow> ustr \<Rightarrow> rat list" where
  "extract_stingtv_breakdown u txt =
     (if txt = [] then []
      else (case sting_section (squeeze u txt) of
              None \<Rightarrow> []
            | Some section \<Rightarrow> parse_numbers u (re_findall u False signed_number 0 section)))"

definition month_period :: regex where
  "month_period =
     rseq [RWordB, RAlt (rseq [RRep 0 (Some 1) True (RSet True [Lit 48]), RSet True [Range 49 57]]) (rseq
     [RSet True [Lit 49], RSet True [Range 48 50]]), RSet True [Lit 47], RRep 2 (Some 2) True (RSet True
     [Digit]), RWordB]"

definition pension_terms :: "ustr list" where
  "pension_terms = [[1514, 1508, 1506, 1493, 1500], [1508, 1504, 1505, 1497, 1493, 1504, 1497], [1513, 1493, 1496, 1507]]"

definition pension_label :: "ustr \<Rightarrow> ustr" where
  "pension_label period = [1514, 1508, 1506, 1493, 1500, 32, 1508, 1504, 1505, 1497, 1493, 1504, 1497, 45, 32, 1513, 1493, 1496, 1507, 32] @ period"

fun simple_lines :: "ucd \<Rightarrow> nat \<Rightarrow> ustr list \<Rightarrow> ustr list" where
  "simple_lines u 0 lines = []"
| "simple_lines u (Suc n) [] = []"
| "simple_lines u (Suc n) (line # lines) =
     (let candidate = u_strip u line in
      if candidate = [] then simple_lines u n lines
      else if any_of [[1499, 1502, 1493, 1514], [1505, 1492, 34, 1499], [1505, 1499, 1493, 1501], [1508, 1497, 1512, 1493, 1496], [1488, 1493, 1508, 1503]] candidate then []
      else candidate # simple_lines u n lines)"

fun simple_by_lines :: "ucd \<Rightarrow> ustr option \<Rightarrow> ustr list \<Rightarrow> ustr option" where
  "simple_by_lines u period [] = None"
| "simple_by_lines u period (line # lines) =
     (if \<not> any_of [[1514, 1488, 1493, 1512], [1514, 1497, 1488, 1493, 1512]] line then simple_by_lines u period lines
      else
        let segment = u_join [32] (simple_lines u 7 lines) in
        if \<not> all_of pension_terms segment then simple_by_lines u period lines
        else
          let period = or_else period (map_option mo_text (re_search u False month_period segment)) in
          case nonempty period of
            Some p \<Rightarrow> Some (pension_label p)
          | None \<Rightarrow> simple_by_lines u period lines)"

definition extract_just_simple_invoice_for :: "ucd \<Rightarrow> ustr list \<Rightarrow> ustr \<Rightarrow> ustr option" where
  "extract_just_simple_invoice_for u lines raw_text =
     (let source = (if raw_text \<noteq> [] then raw_text else u_join [32] lines);
          normalized = squeeze u source;
          period = map_option mo_text (re_search u False month_period normalized)
      in if source = [] \<or> \<not> contains (lit ''just simple ltd'') (u_casefold u normalized) then None
         else if all_of pension_terms normalized \<and> nonempty period \<noteq> None then Some (pension_label (the period))
         else simple_by_lines u period lines)"

definition details_heading :: ustr where "details_heading = [58, 1501, 1497, 1496, 1512, 1508]"

fun heading_lines :: "ustr list \<Rightarrow> ustr list" where
  "heading_lines [] = []"
| "heading_lines (line # lines) =
     (if any_of [[1496, 1511, 1502], [1499, 34, 1492, 1505], [1505, 1492, 34, 1499], [1499, 1505, 1492]] line then []
      else if 2 < length line then line # heading_lines lines else heading_lines lines)"

definition headed_details :: "ustr list \<Rightarrow> ustr option" where
  "headed_details lines =
     (if contains details_heading (u_join [32] lines) \<and> details_heading \<in> set lines
      then let collected = heading_lines (tl (dropWhile (\<lambda>l. l \<noteq> details_heading) lines)) in
           if collected \<noteq> [] then Some (u_join (lit '' | '') (take 5 collected)) else None
      else None)"

definition charge_heading :: ustr where "charge_heading = [1508, 1497, 1512, 1493, 1496, 32, 1492, 1495, 1497, 1493, 1489]"

definition charge_skip_markers :: "ustr list" where
  "charge_skip_markers =
     [[1505, 1492, 34, 1499], [1505, 1492, 1499], [1514, 1497, 1488, 1493, 1512], [1499, 1514, 1493,
     1489, 1514], [1502, 1505, 39, 32, 1494, 1497, 1492, 1493, 1497], [1502, 1505, 1508, 1512, 32, 1494,
     1497, 1492, 1493, 1497], [1502, 1505, 39]]"

definition charge_line :: "ucd \<Rightarrow> ustr \<Rightarrow> ustr option" where
  "charge_line u line =
     (let raw_line = u_strip u line in
      if any_of charge_skip_markers raw_line then None else normalize_invoice_for_value u raw_line)"

fun charge_details :: "ucd \<Rightarrow> ustr list \<Rightarrow> ustr option" where
  "charge_details u [] = None"
| "charge_details u (line # lines) =
     (if contains charge_heading line
      then (let tail = normalize_invoice_for_value u (after_first charge_heading line) in
            case tail of
              Some t \<Rightarrow>
                if \<not> contains [1504, 1499, 1505] t then Some t
                else or_else (first_some_of (charge_line u) (take 7 lines)) (charge_details u lines)
            | None \<Rightarrow> or_else (first_some_of (charge_line u) (take 7 lines)) (charge_details u lines))
      else charge_details u lines)"

definition time_range :: regex where
  "time_range =
     rseq [RRep 1 (Some 2) True (RSet True [Digit]), RSet True [Lit 58], RRep 2 (Some 2) True (RSet True
     [Digit]), RRep 0 None True (RSet True [Space]), RSet True [Lit 45], RRep 0 None True (RSet True
     [Space]), RRep 1 (Some 2) True (RSet True [Digit]), RSet True [Lit 58], RRep 2 (Some 2) True (RSet
     True [Digit])]"

definition dashed_line :: "ucd \<Rightarrow> ustr \<Rightarrow> ustr option" where
  "dashed_line u line =
     (if any_of [[32, 1506, 1489, 1493, 1512, 32], (lit '' - '')] line \<and> length line < 200 \<and> re_search u False time_range line = None
      then or_else (normalize_invoice_for_value u line) (Some line) else None)"

definition infer_invoice_for :: "ucd \<Rightarrow> ustr list \<Rightarrow> ustr \<Rightarrow> ustr option" where
  "infer_invoice_for u lines txt =
     (if has_public_transport_marker u txt then Some public_transport_invoice_for
      else or_else (nonempty (extract_keren_invoice_for u txt))
       (or_else (nonempty (extract_ofek_invoice_for u txt))
       (or_else (nonempty (extract_stingtv_invoice_for u txt))
       (or_else (nonempty (extract_just_simple_invoice_for u lines txt))
       (or_else (nonempty (extract_partner_invoice_for u lines txt))
       (or_else (headed_details lines)
       (or_else (charge_details u lines)
       (or_else (first_some_of (dashed_line u) lines)
         (if contains arnona_business txt then Some arnona_business
          else if contains arnona txt then Some arnona else None)))))))))"

end
