(* ===== verification/Report_Lines.thy ===== *)
theory Report_Lines
  imports Report_Vendors Amount_Text "HOL-Library.Multiset"
begin

text \<open>
  The lines of an invoice, its number and its date: \<open>extract_lines\<close>, \<open>needs_fallback_text\<close>,
  \<open>infer_invoice_id\<close> and \<open>infer_invoice_date\<close> of \<open>cli/invoices_report.py\<close>. PDF extraction tears
  numbers apart at the decimal point; the lines are merged back on the way.
\<close>

subsection \<open>Lines\<close>

text \<open>The characters \<open>str.splitlines\<close> breaks at; empty lines are dropped anyway.\<close>

definition line_break :: "int \<Rightarrow> bool" where
  "line_break c \<longleftrightarrow> (10 \<le> c \<and> c \<le> 13) \<or> (28 \<le> c \<and> c \<le> 30) \<or> c = 133 \<or> c = 8232 \<or> c = 8233"

definition raw_lines :: "ucd \<Rightarrow> ustr \<Rightarrow> ustr list" where
  "raw_lines u txt =
     filter (\<lambda>line. line \<noteq> [])
       (map (u_strip u) (char_runs (\<lambda>c. \<not> line_break c) (replace_all [13] [10] txt)))"

definition basic_number :: regex where
  "basic_number =
     rseq [RRep 0 (Some 1) True (RSet True [Lit 45]), RRep 1 None True (RSet True [Digit])]"

definition is_basic_number :: "ucd \<Rightarrow> ustr \<Rightarrow> bool" where
  "is_basic_number u token \<longleftrightarrow> re_fullmatch u False basic_number token \<noteq> None"

text \<open>A line that is a number but for a point at its end\<close>

definition number_point :: "ucd \<Rightarrow> ustr \<Rightarrow> bool" where
  "number_point u line \<longleftrightarrow>
     has_suffix [46] line \<and> line \<noteq> [46] \<and> length (filter (\<lambda>c. c = 46) line) = 1 \<and> is_basic_number u (butlast line)"

text \<open>The merging loop; \<open>merged\<close> holds the lines so far, the last one first.\<close>

fun merge_lines :: "ucd \<Rightarrow> ustr list \<Rightarrow> ustr list \<Rightarrow> ustr list" where
  "merge_lines u merged [] = rev merged"
| "merge_lines u merged (line # rest) =
     (if line = [46] \<and> merged \<noteq> [] \<and> rest \<noteq> [] \<and> is_basic_number u (hd merged) \<and> is_basic_number u (hd rest)
      then merge_lines u ((hd rest @ 46 # hd merged) # tl merged) (tl rest)
      else if number_point u line \<and> merged \<noteq> [] \<and> is_basic_number u (hd merged)
      then merge_lines u ((hd merged @ 46 # butlast line) # tl merged) rest
      else if number_point u line \<and> rest \<noteq> [] \<and> is_basic_number u (hd rest)
      then merge_lines u ((hd rest @ 46 # butlast line) # merged) (tl rest)
      else merge_lines u (line # merged) rest)"

definition extract_lines :: "ucd \<Rightarrow> ustr \<Rightarrow> ustr list" where
  "extract_lines u txt = filter (\<lambda>line. line \<noteq> []) (merge_lines u [] (raw_lines u txt))"

fun count_sub :: "ustr \<Rightarrow> nat \<Rightarrow> ustr \<Rightarrow> nat" where
  "count_sub sub skip [] = 0"
| "count_sub sub (Suc k) (c # s) = count_sub sub k s"
| "count_sub sub 0 (c # s) = (if has_prefix sub (c # s) then Suc (count_sub sub (length sub - 1) s) else count_sub sub 0 s)"

definition needs_fallback_text :: "ucd \<Rightarrow> ustr \<Rightarrow> bool" where
  "needs_fallback_text u txt \<longleftrightarrow>
     (let stripped = u_strip u txt in
      txt = [] \<or> length stripped < 200 \<or>
      length (re_findall u False (RSet True [Range 1488 1514]) 0 stripped) < 15 \<or>
      5 < count_sub (lit ''(cid:'') 0 stripped)"


subsection \<open>The date\<close>

definition search_patterns :: "ucd \<Rightarrow> regex list \<Rightarrow> ustr \<Rightarrow> ustr option" where
  "search_patterns u patterns txt =
     first_some_of (\<lambda>pat. map_option (\<lambda>m. u_strip u (group_text m 1)) (re_search u False pat txt)) patterns"

definition date_reversed :: regex where
  "date_reversed =
     rseq [RGroup 1 (rseq [RRep 2 (Some 2) True (RSet True [Digit]), RSet True [Lit 47], RRep 2 (Some 2)
     True (RSet True [Digit]), RSet True [Lit 47], RRep 4 (Some 4) True (RSet True [Digit])]), RRep 0
     None True (RSet True [Space]), rlit [58, 1498, 1497, 1512, 1488, 1514]]"

definition date_hebrew :: regex where
  "date_hebrew =
     rseq [rlit [1514, 1488, 1512, 1497, 1498], RRep 0 None True (RSet True [Space]), RRep 0 (Some 1)
     True (RSet True [Lit 58, Lit 45]), RRep 0 None True (RSet True [Space]), RGroup 1 (rseq [RRep 2
     (Some 2) True (RSet True [Digit]), RSet True [Lit 47], RRep 2 (Some 2) True (RSet True [Digit]),
     RSet True [Lit 47], RRep 4 (Some 4) True (RSet True [Digit])])]"

definition date_english :: regex where
  "date_english =
     rseq [rlit [68, 97, 116, 101], RRep 0 None True (RSet True [Space]), RRep 0 (Some 1) True (RSet True
     [Lit 58, Lit 45]), RRep 0 None True (RSet True [Space]), RGroup 1 (rseq [RRep 2 (Some 2) True (RSet
     True [Digit]), RSet True [Lit 47], RRep 2 (Some 2) True (RSet True [Digit]), RSet True [Lit 47],
     RRep 4 (Some 4) True (RSet True [Digit])])]"

definition date_printed :: regex where
  "date_printed =
     rseq [rlit [1514, 1488, 1512, 1497, 1498], RRep 0 None True (RSet True [Space]), rlit [1492, 1491,
     1508, 1505, 1492], RRep 0 None True (RSet True [Space]), RRep 0 (Some 1) True (RSet True [Lit 58,
     Lit 45]), RRep 0 None True (RSet True [Space]), RGroup 1 (rseq [RRep 2 (Some 2) True (RSet True
     [Digit]), RSet True [Lit 47], RRep 2 (Some 2) True (RSet True [Digit]), RSet True [Lit 47], RRep 4
     (Some 4) True (RSet True [Digit])])]"

definition any_date :: regex where
  "any_date =
     RGroup 1 (rseq [RRep 2 (Some 2) True (RSet True [Digit]), RSet True [Lit 47], RRep 2 (Some 2) True
     (RSet True [Digit]), RSet True [Lit 47], RRep 4 (Some 4) True (RSet True [Digit])])"

definition infer_invoice_date :: "ucd \<Rightarrow> ustr \<Rightarrow> ustr option" where
  "infer_invoice_date u txt =
     or_else (nonempty (search_patterns u [date_reversed, date_hebrew, date_english, date_printed] txt))
       (map_option (\<lambda>m. group_text m 1) (re_search u False any_date txt))"


subsection \<open>The number\<close>

definition only_digits :: "ucd \<Rightarrow> ustr \<Rightarrow> ustr" where
  "only_digits u s = re_sub u False (RSet False [Digit]) (\<lambda>_. []) s"

definition digits_of_group :: "ucd \<Rightarrow> regex \<Rightarrow> ustr \<Rightarrow> ustr option" where
  "digits_of_group u pat txt =
     (case re_search u False pat txt of
        Some m \<Rightarrow> nonempty (Some (only_digits u (group_text m 1)))
      | None \<Rightarrow> None)"

definition periodic_account :: regex where
  "periodic_account =
     rseq [rlit [1502, 1505], RRep 0 (Some 1) True (RDot), RRep 0 (Some 1) True (RSet True [Lit 39, Lit
     1523]), RRep 1 None True (RSet True [Space]), rlit [1495, 1513, 1489, 1493, 1503], RRep 1 None True
     (RSet True [Space]), rlit [1514, 1511, 1493, 1508, 1514, 1497], RRep 0 None True (RSet True [Lit 58,
     Space, Lit 45]), RGroup 1 (RRep 6 None True (RSet True [Digit, Lit 45]))]"

definition receipt_number :: regex where
  "receipt_number =
     rseq [RGroup 1 (RRep 3 None True (RSet True [Digit])), RRep 1 None True (RSet True [Space]), rlit
     [1511, 1489, 1500, 1492], RRep 1 None True (RSet True [Space]), rlit [1502, 1505], RRep 1 None True
     (RSet True [Space]), rlit [1495, 1513, 1489, 1493, 1504, 1497, 1514]]"

definition periodic_reversed :: regex where
  "periodic_reversed =
     rseq [RGroup 1 (RRep 6 None True (RSet True [Digit, Lit 45])), RRep 0 (Some 80) False (RAny), RRep 0
     (Some 1) True (RSet True [Lit 58]), rlit [1497, 1514, 1508, 1493, 1511, 1514]]"

definition id_tax_receipt :: regex where
  "id_tax_receipt =
     rseq [rlit [1495, 1513, 1489, 1493, 1504, 1497, 1514], RRep 1 None True (RSet True [Space]), rlit
     [1502, 1505], RRep 1 None True (RSet True [Space]), rlit [1511, 1489, 1500, 1492], RRep 0 None True
     (RSet True [Space]), RGroup 1 (RRep 1 None True (RSet True [Digit]))]"

definition id_number :: regex where
  "id_number =
     rseq [rlit [1495, 1513, 1489, 1493, 1504, 1497, 1514], RRep 0 (Some 1) True (rseq [RRep 1 None True
     (RSet True [Space]), rlit [1502, 1505]]), RRep 0 (Some 1) True (rseq [RRep 1 None True (RSet True
     [Space]), rlit [1511, 1489, 1500, 1492]]), RRep 0 None True (RSet True [Space]), RAlt (rlit [1502,
     1505, 1508, 1512]) (rseq [rlit [78, 111], RRep 0 (Some 1) True (RSet True [Lit 46])]), RRep 0 None
     True (RSet True [Space]), RRep 0 (Some 1) True (RSet True [Lit 58, Lit 45]), RRep 0 None True (RSet
     True [Space]), RGroup 1 (RRep 1 None True (RSet True [Digit]))]"

definition id_reversed :: regex where
  "id_reversed =
     rseq [RGroup 1 (RRep 4 None True (RSet True [Digit])), RRep 0 None True (RSet True [Space]), rlit
     [1512, 1508, 1505, 1502], RRep 0 None True (RSet True [Space]), rlit [1514, 1497, 1504, 1493, 1489,
     1513, 1495]]"

definition id_vat_file :: regex where
  "id_vat_file =
     rseq [RGroup 1 (RRep 4 None True (RSet True [Digit])), RRep 0 None True (RSet True [Space]), rlit
     [1512, 1508, 1505, 1502], RRep 0 None True (RSet True [Space]), rlit [1511, 1497, 1514, 1489], RRep
     0 None True (RSet True [Space]), rlit [1502, 34, 1506, 1502]]"

definition id_before_word :: regex where
  "id_before_word =
     rseq [RGroup 1 (RRep 4 None True (RSet True [Digit])), RRep 1 None True (RSet True [Space]), rlit
     [1512, 1508, 1505, 1502]]"

definition id_after_word :: regex where
  "id_after_word =
     rseq [rlit [1502, 1505, 1508, 1512], RRep 1 None True (RSet True [Space]), RGroup 1 (RRep 4 None
     True (RSet True [Digit]))]"

definition id_voucher :: regex where
  "id_voucher =
     rseq [rlit [1502, 1505], RRep 0 (Some 1) True (RDot), RRep 0 (Some 1) True (RSet True [Lit 39, Lit
     1523]), RRep 0 None True (RSet True [Space]), rlit [1502, 1505, 1500, 1511, 1492, 47, 1513, 1493,
     1489, 1512, 47, 1505, 1508, 1495], RRep 1 None True (RSet True [Lit 58, Space]), RGroup 1 (RRep 4
     None True (RSet True [Digit]))]"

definition id_voucher_bare :: regex where
  "id_voucher_bare =
     rseq [rlit [1502, 1505, 1500, 1511, 1492, 47, 1513, 1493, 1489, 1512, 47, 1505, 1508, 1495], RRep 1
     None True (RSet True [Lit 58, Space]), RGroup 1 (RRep 4 None True (RSet True [Digit]))]"

definition digits_slashes :: regex where
  "digits_slashes =
     rseq [RSet True [Digit], RRep 0 None True (RSet True [Digit, Lit 47, Lit 45])]"

definition long_number :: regex where
  "long_number =
     rseq [RWordB, RRep 8 (Some 12) True (RSet True [Digit]), RWordB]"

definition id_patterns :: "(regex \<times> nat) list" where
  "id_patterns =
     [(id_tax_receipt, 0), (id_number, 0), (id_reversed, 0), (id_vat_file, 1),
      (id_before_word, 2), (id_after_word, 2), (id_voucher, 0), (id_voucher_bare, 1)]"

text \<open>\<open>add_candidate\<close>: the digits of a value, or the value if it has none\<close>

definition id_candidates :: "ucd \<Rightarrow> nat \<Rightarrow> ustr list \<Rightarrow> (nat \<times> ustr) list" where
  "id_candidates u priority values =
     List.map_filter (\<lambda>value.
        let val = u_strip u value; cleaned = only_digits u val in
        if val = [] then None else Some (priority, if cleaned \<noteq> [] then cleaned else val)) values"

definition number_word :: ustr where "number_word = [1512, 1508, 1505, 1502]"

text \<open>The digits of the first line with the word, or of the line ahead of it\<close>

fun id_near_word :: "ucd \<Rightarrow> ustr option \<Rightarrow> ustr list \<Rightarrow> ustr list" where
  "id_near_word u prev [] = []"
| "id_near_word u prev (line # lines) =
     (let digits = re_findall u False digits_slashes 0 line in
      if contains number_word line \<and> digits \<noteq> [] then digits
      else if contains number_word line \<and> prev \<noteq> None then re_findall u False digits_slashes 0 (the prev)
      else id_near_word u (Some line) lines)"

text \<open>The order of the candidates: priority, then the longer one, then the text\<close>

fun text_less :: "ustr \<Rightarrow> ustr \<Rightarrow> bool" where
  "text_less s [] \<longleftrightarrow> False"
| "text_less [] (d # t) \<longleftrightarrow> True"
| "text_less (c # s) (d # t) \<longleftrightarrow> c < d \<or> (c = d \<and> text_less s t)"

definition better_id :: "nat \<times> ustr \<Rightarrow> nat \<times> ustr \<Rightarrow> bool" where
  "better_id a b \<longleftrightarrow>
     fst a < fst b \<or> (fst a = fst b \<and>
       (length (snd b) < length (snd a) \<or> (length (snd a) = length (snd b) \<and> text_less (snd a) (snd b))))"

definition best_id :: "(nat \<times> ustr) list \<Rightarrow> ustr" where
  "best_id cs = snd (fold (\<lambda>c best. if better_id c best then c else best) (tl cs) (hd cs))"

definition or_list :: "'a list \<Rightarrow> 'a list \<Rightarrow> 'a list" where
  "or_list xs ys = (if xs = [] then ys else xs)"

definition all_id_candidates :: "ucd \<Rightarrow> ustr list \<Rightarrow> ustr \<Rightarrow> (nat \<times> ustr) list" where
  "all_id_candidates u lines txt =
     or_list (concat (map (\<lambda>(pat, priority).
         id_candidates u priority (map (\<lambda>m. group_text m 1) (re_finditer u False pat txt))) id_patterns))
     (or_list (id_candidates u 3 (id_near_word u None lines))
     (or_list (id_candidates u 5 (concat (map (re_findall u False long_number 0) (take 60 lines))))
       (id_candidates u 6 (re_findall u False long_number 0 txt))))"

definition infer_invoice_id :: "ucd \<Rightarrow> ustr list \<Rightarrow> ustr \<Rightarrow> ustr option" where
  "infer_invoice_id u lines txt =
     or_else (digits_of_group u periodic_account txt)
     (or_else (digits_of_group u receipt_number (squeeze u txt))
     (or_else (digits_of_group u periodic_reversed txt)
       (let cs = all_id_candidates u lines txt in if cs = [] then None else Some (best_id cs))))"


subsection \<open>Merging loses nothing\<close>

text \<open>What the lines need of the character database: digits, the point and the minus are no white space.\<close>

definition plain_numbers :: "ucd \<Rightarrow> bool" where
  "plain_numbers u \<longleftrightarrow>
     \<not> uc_space u 45 \<and> \<not> uc_space u 46 \<and> (\<forall>c. uc_decimal u c \<noteq> None \<longrightarrow> \<not> uc_space u c \<and> \<not> line_break c)"

definition solid :: "ucd \<Rightarrow> ustr \<Rightarrow> bool" where
  "solid u s \<longleftrightarrow> s \<noteq> [] \<and> list_all (\<lambda>c. \<not> uc_space u c \<and> \<not> line_break c) s"

definition good_line :: "ucd \<Rightarrow> ustr \<Rightarrow> bool" where
  "good_line u s \<longleftrightarrow>
     s \<noteq> [] \<and> \<not> uc_space u (hd s) \<and> \<not> uc_space u (last s) \<and> list_all (\<lambda>c. \<not> line_break c) s"

lemma basic_number_solid:
  assumes "plain_numbers u" "is_basic_number u s"
  shows "solid u s"
proof -
  have "\<exists>st\<in>set (rmatch u False basic_number ([], s, [])). rs_after st = []"
    using assms(2) by (simp add: is_basic_number_def re_fullmatch_def find_None_iff Bex_def del: split_paired_Ex split_paired_All)
  then obtain st where "rs_after st = []" and "st \<in> set (rmatch u False basic_number ([], s, []))" by blast
  from this(2) have st: "matches u False basic_number ([], s, []) st" by (simp only: set_rmatch)
  from st obtain x where
    "iterates (matches u False (RSet True [Lit 45])) 0 (Some 1) ([], s, []) x"
    "iterates (matches u False (RSet True [Digit])) 1 None x st"
    unfolding basic_number_def rseq.simps matches.simps(5,7) by blast
  moreover have "\<exists>c. rs_after a = c # rs_after b \<and> c = 45" if "matches u False (RSet True [Lit 45]) a b" for a b
    using that by (auto simp: variants_def)
  ultimately obtain v w where "s = v @ w" "list_all (\<lambda>c. c = 45) v" "list_all (\<lambda>c. uc_decimal u c \<noteq> None) w" "1 \<le> length w"
    using iterates_class [of _ 0 _ "([], s, [])" x "\<lambda>c. c = 45"] iterates_class [of _ 1 _ x st "\<lambda>c. uc_decimal u c \<noteq> None"]
      digit_step \<open>rs_after st = []\<close> by (metis append_Nil2 fst_conv snd_conv)
  then show ?thesis using assms(1) by (auto simp: solid_def plain_numbers_def list_all_iff line_break_def)
qed

lemma solid_good: "solid u s \<Longrightarrow> good_line u s"
  by (cases s) (auto simp: solid_def good_line_def list_all_iff)

lemma solid_joined: "plain_numbers u \<Longrightarrow> solid u s \<Longrightarrow> solid u t \<Longrightarrow> solid u (s @ 46 # t)"
  by (auto simp: solid_def plain_numbers_def line_break_def)

lemma number_point_line: "number_point u line \<Longrightarrow> line = butlast line @ [46] \<and> is_basic_number u (butlast line)"
  by (auto simp: number_point_def has_suffix_iff)

lemma strip_ends:
  assumes "u_strip u s \<noteq> []"
  shows "\<not> uc_space u (hd (u_strip u s))" "\<not> uc_space u (last (u_strip u s))" "set (u_strip u s) \<subseteq> set s"
proof -
  let ?t = "dropWhile (uc_space u) s" and ?r = "dropWhile (uc_space u) (rev (dropWhile (uc_space u) s))"
  have strip: "u_strip u s = rev ?r" by (simp add: u_strip_def)
  then have ne: "?r \<noteq> []" using assms by auto
  then show "\<not> uc_space u (last (u_strip u s))" unfolding strip last_rev by (rule hd_dropWhile)
  have "rev ?t = takeWhile (uc_space u) (rev ?t) @ ?r" by simp
  then have t: "?t = rev ?r @ rev (takeWhile (uc_space u) (rev ?t))" by (metis rev_append rev_rev_ident)
  have "rev ?r \<noteq> []" using ne by simp
  then have "?t \<noteq> []" and "hd ?t = hd (rev ?r)" using t by (metis append_is_Nil_conv, metis hd_append2)
  then show "\<not> uc_space u (hd (u_strip u s))" using hd_dropWhile [of "uc_space u" s] unfolding strip by metis
  have "set ?r \<subseteq> set (rev ?t)" "set ?t \<subseteq> set s" by (auto dest: set_dropWhileD)
  then have "set ?r \<subseteq> set s" by auto
  then show "set (u_strip u s) \<subseteq> set s" by (simp add: strip)
qed

lemma raw_line_good: "line \<in> set (raw_lines u txt) \<Longrightarrow> good_line u line"
proof -
  assume "line \<in> set (raw_lines u txt)"
  then obtain s where s: "s \<in> set (char_runs (\<lambda>c. \<not> line_break c) (replace_all [13] [10] txt))" "line = u_strip u s" "line \<noteq> []"
    by (auto simp: raw_lines_def)
  with strip_ends [of u s] char_runs_sound [OF s(1)] show ?thesis by (auto simp: good_line_def list_all_iff)
qed

lemma merge_lines_good:
  "plain_numbers u \<Longrightarrow> list_all (good_line u) merged \<Longrightarrow> list_all (good_line u) rest \<Longrightarrow>
     list_all (good_line u) (merge_lines u merged rest)"
proof (induction u merged rest rule: merge_lines.induct)
  case (2 u merged line rest)
  have joined: "good_line u (s @ 46 # t)" if "is_basic_number u s" "is_basic_number u t" for s t
    using that basic_number_solid [OF "2.prems"(1)] solid_joined [OF "2.prems"(1)] solid_good by blast
  have cut: "is_basic_number u (butlast line)" if "number_point u line" using number_point_line [OF that] ..
  have tails: "list_all (good_line u) (tl merged)" "list_all (good_line u) (tl rest)"
    using "2.prems" by (cases merged; cases rest; simp)+
  show ?case using 2 joined cut tails by (simp split: if_splits)
qed (simp add: list_all_iff)

lemma merge_lines_mset:
  "mset (concat (merge_lines u merged rest)) = mset (concat merged) + mset (concat rest)"
proof (induction u merged rest rule: merge_lines.induct)
  case (2 u merged line rest)
  have cut: "mset line = {#46#} + mset (butlast line)" if "number_point u line"
    using number_point_line [OF that] by (metis add.commute mset.simps(1,2) mset_append add_mset_add_single union_commute)
  consider (both) "line = [46] \<and> merged \<noteq> [] \<and> rest \<noteq> [] \<and> is_basic_number u (hd merged) \<and> is_basic_number u (hd rest)"
    | (joins) "\<not> (line = [46] \<and> merged \<noteq> [] \<and> rest \<noteq> [] \<and> is_basic_number u (hd merged) \<and> is_basic_number u (hd rest))"
        "number_point u line \<and> merged \<noteq> [] \<and> is_basic_number u (hd merged)"
    | (takes) "\<not> (line = [46] \<and> merged \<noteq> [] \<and> rest \<noteq> [] \<and> is_basic_number u (hd merged) \<and> is_basic_number u (hd rest))"
        "\<not> (number_point u line \<and> merged \<noteq> [] \<and> is_basic_number u (hd merged))"
        "number_point u line \<and> rest \<noteq> [] \<and> is_basic_number u (hd rest)"
    | (keeps) "\<not> (line = [46] \<and> merged \<noteq> [] \<and> rest \<noteq> [] \<and> is_basic_number u (hd merged) \<and> is_basic_number u (hd rest))"
        "\<not> (number_point u line \<and> merged \<noteq> [] \<and> is_basic_number u (hd merged))"
        "\<not> (number_point u line \<and> rest \<noteq> [] \<and> is_basic_number u (hd rest))"
    by blast
  then show ?case
  proof cases
    case both
    then show ?thesis using "2.IH"(1) by (cases merged; cases rest) auto
  next
    case joins
    then show ?thesis using "2.IH"(2) cut by (cases merged) auto
  next
    case takes
    then show ?thesis using "2.IH"(3) cut by (cases rest) auto
  next
    case keeps
    then show ?thesis using "2.IH"(4) by (auto simp: merge_lines.simps)
  qed
qed (simp add: mset_concat rev_map [symmetric] sum_list.rev)

text \<open>
  The lines of an invoice are non-empty, have no white space at their ends and no line
  breaks inside, and putting torn numbers together loses and invents no character: the lines
  hold what the non-blank lines of the text hold, each character as often.
\<close>

theorem extract_lines_sound:
  assumes "plain_numbers u"
  shows "list_all (\<lambda>line. line \<noteq> [] \<and> u_strip u line = line \<and> list_all (\<lambda>c. \<not> line_break c) line) (extract_lines u txt) \<and>
    mset (concat (extract_lines u txt)) = mset (concat (raw_lines u txt))"
proof -
  let ?lines = "merge_lines u [] (raw_lines u txt)"
  have good: "list_all (good_line u) ?lines"
    by (rule merge_lines_good [OF assms]) (auto simp: list_all_iff raw_line_good)
  then have "filter (\<lambda>line. line \<noteq> []) ?lines = ?lines" by (auto simp: list_all_iff good_line_def intro: filter_True)
  then have "extract_lines u txt = ?lines" by (simp add: extract_lines_def)
  then show ?thesis using good strip_same merge_lines_mset [of u "[]" "raw_lines u txt"]
    by (auto simp: list_all_iff good_line_def)
qed

lemma plain_toy: "plain_numbers toy_ucd"
  by (simp add: plain_numbers_def toy_ucd_def line_break_def)

definition torn :: ustr where
  "torn = lit ''Total'' @ [10] @ lit ''50'' @ [10] @ lit ''.'' @ [13, 10] @ lit '' 118''"

lemma demo_torn: "extract_lines toy_ucd torn = [lit ''Total'', lit ''118.50'']" "raw_lines toy_ucd torn = [lit ''Total'', lit ''50'', lit ''.'', lit ''118'']"
  by code_simp+

lemma extract_lines_sound_witness:
  "mset (concat [lit ''Total'', lit ''118.50'']) = mset (concat [lit ''Total'', lit ''50'', lit ''.'', lit ''118''])"
  using extract_lines_sound [OF plain_toy, of torn] by (simp only: demo_torn)

end
