(* ===== verification/Report_Dates.thy ===== *)
theory Report_Dates
  imports Report_Lines Mail_Fetch Month_Plan
begin

text \<open>
  Dates, billing periods and references in the text of an invoice: \<open>normalize_date_token\<close>,
  \<open>extract_period_info\<close>, \<open>extract_due_date\<close> and \<open>extract_reference_numbers\<close> of
  \<open>cli/invoices_report.py\<close>. Some texts make the date functions raise, which nothing catches on
  the way to the report. \<open>strptime\<close> is the match of the pattern its format stands for, as
  in Mail_Fetch, with the month names of the C locale; \<open>strftime\<close> pads a year to four digits.
\<close>

subsection \<open>One date\<close>

text \<open>The formats in the order they are tried: \<open>%Y-%m-%d\<close>, \<open>%d-%m-%Y\<close>, \<open>%d-%m-%y\<close>, \<open>%m-%d-%Y\<close>,
  \<open>%d-%b-%Y\<close>, \<open>%d-%b-%y\<close>\<close>

definition year_4 :: regex where
  "year_4 =
     rseq [RSet True [Digit], RSet True [Digit], RSet True [Digit], RSet True [Digit]]"

definition year_2 :: regex where
  "year_2 =
     rseq [RSet True [Digit], RSet True [Digit]]"

definition month_num :: regex where
  "month_num =
     RAlt (rseq [RSet True [Lit 49], RSet True [Range 48 50]]) (RAlt (rseq [RSet True [Lit 48], RSet True
     [Range 49 57]]) (RSet True [Range 49 57]))"

definition day_num :: regex where
  "day_num =
     RAlt (rseq [RSet True [Lit 51], RSet True [Range 48 49]]) (RAlt (rseq [RSet True [Range 49 50], RSet
     True [Digit]]) (RAlt (rseq [RSet True [Lit 48], RSet True [Range 49 57]]) (RAlt (RSet True [Range 49
     57]) (rseq [RSet True [Lit 32], RSet True [Range 49 57]]))))"

definition month_abbr :: regex where
  "month_abbr =
     RAlt (rlit [106, 97, 110]) (RAlt (rlit [102, 101, 98]) (RAlt (rlit [109, 97, 114]) (RAlt (rlit [97,
     112, 114]) (RAlt (rlit [109, 97, 121]) (RAlt (rlit [106, 117, 110]) (RAlt (rlit [106, 117, 108])
     (RAlt (rlit [97, 117, 103]) (RAlt (rlit [115, 101, 112]) (RAlt (rlit [111, 99, 116]) (RAlt (rlit
     [110, 111, 118]) (rlit [100, 101, 99])))))))))))"

datatype date_field = FYear4 | FYear2 | FMonth | FDay | FAbbr

definition field_regex :: "date_field \<Rightarrow> regex" where
  "field_regex f =
     (case f of FYear4 \<Rightarrow> RGroup 1 year_4 | FYear2 \<Rightarrow> RGroup 1 year_2 | FMonth \<Rightarrow> RGroup 2 month_num
      | FAbbr \<Rightarrow> RGroup 2 month_abbr | FDay \<Rightarrow> RGroup 3 day_num)"

definition format_regex :: "int \<Rightarrow> date_field list \<Rightarrow> regex" where
  "format_regex sep fs = rseq (tl (concat (map (\<lambda>f. [RSet True [Lit sep], field_regex f]) fs)))"

definition month_abbrs :: "ustr list" where
  "month_abbrs = map lit [''jan'', ''feb'', ''mar'', ''apr'', ''may'', ''jun'', ''jul'', ''aug'', ''sep'', ''oct'', ''nov'', ''dec'']"

fun index_of :: "'a \<Rightarrow> 'a list \<Rightarrow> int option" where
  "index_of x [] = None"
| "index_of x (y # ys) = (if x = y then Some 0 else map_option (\<lambda>n. n + 1) (index_of x ys))"

definition field_month :: "ucd \<Rightarrow> date_field list \<Rightarrow> match_object \<Rightarrow> int" where
  "field_month u fs m =
     (if FAbbr \<in> set fs
      then (case index_of (u_lower u (group_text m 2)) month_abbrs of Some n \<Rightarrow> n + 1 | None \<Rightarrow> 0)
      else group_int u m 2)"

definition field_year :: "ucd \<Rightarrow> date_field list \<Rightarrow> match_object \<Rightarrow> int" where
  "field_year u fs m =
     (let y = group_int u m 1 in
      if FYear2 \<in> set fs then (if y \<le> 68 then y + 2000 else y + 1900) else y)"

definition strptime_date :: "ucd \<Rightarrow> int \<Rightarrow> date_field list \<Rightarrow> ustr \<Rightarrow> py_date option" where
  "strptime_date u sep fs s =
     (case re_match u True (format_regex sep fs) s of
        None \<Rightarrow> None
      | Some m \<Rightarrow>
          let d = Date (field_year u fs m) (field_month u fs m) (group_int u m 3)
          in if mo_after m = [] \<and> valid_date d then Some d else None)"

definition date_formats :: "date_field list list" where
  "date_formats =
     [[FYear4, FMonth, FDay], [FDay, FMonth, FYear4], [FDay, FMonth, FYear2], [FMonth, FDay, FYear4],
      [FDay, FAbbr, FYear4], [FDay, FAbbr, FYear2]]"

definition date_text :: "py_date \<Rightarrow> ustr" where
  "date_text d = lit (date_isoformat d)"

text \<open>A year below 100 is one of this century.\<close>

definition full_year :: "py_date \<Rightarrow> py_date option" where
  "full_year d =
     (let d' = (if year d < 100 then Date (2000 + year d) (month d) (day d) else d)
      in if valid_date d' then Some d' else None)"

definition month_names :: "(ustr \<times> int) list" where
  "month_names =
     [([1497, 1504, 1493, 1488, 1512], 1), ([1508, 1489, 1512, 1493, 1488, 1512], 2), ([1502, 1512, 1509], 3), ([1502, 1512, 1505], 3), ([1488, 1508, 1512, 1497, 1500], 4), ([1502, 1488, 1497], 5), ([1497, 1493, 1504, 1497], 6), ([1497, 1493, 1500, 1497], 7),
      ([1488, 1493, 1490, 1493, 1505, 1496], 8), ([1505, 1508, 1496, 1502, 1489, 1512], 9), ([1505, 1508, 1496, 1502, 1489, 1506, 1512], 9), ([1488, 1493, 1511, 1496, 1493, 1489, 1512], 10), ([1504, 1493, 1489, 1502, 1489, 1512], 11), ([1491, 1510, 1502, 1489, 1512], 12),
      ((lit ''january''), 1), ((lit ''jan''), 1), ((lit ''february''), 2), ((lit ''feb''), 2), ((lit ''march''), 3), ((lit ''mar''), 3), ((lit ''april''), 4),
      ((lit ''apr''), 4), ((lit ''may''), 5), ((lit ''june''), 6), ((lit ''jun''), 6), ((lit ''july''), 7), ((lit ''jul''), 7), ((lit ''august''), 8), ((lit ''aug''), 8),
      ((lit ''september''), 9), ((lit ''sept''), 9), ((lit ''sep''), 9), ((lit ''october''), 10), ((lit ''oct''), 10), ((lit ''november''), 11),
      ((lit ''nov''), 11), ((lit ''december''), 12), ((lit ''dec''), 12)]"

text \<open>\<open>calendar.monthrange(year, month)[1]\<close> and \<open>date(year, month, day)\<close>\<close>

definition month_length :: "int \<Rightarrow> int \<Rightarrow> int res" where
  "month_length y m =
     (if 1 \<le> m \<and> m \<le> 12 then Inr (days_in_month (is_leap y) (nat m))
      else Inl (ValueError (''bad month number '' @ py_str_int m @ ''; must be 1-12'')))"

definition py_date_of :: "int \<Rightarrow> int \<Rightarrow> int \<Rightarrow> py_date res" where
  "py_date_of y m d =
     (let t = Date y m d in
      if valid_date t then Inr t
      else if 1 \<le> y \<and> y \<le> 9999 then Inl (ValueError ''day is out of range for month'')
      else Inl (ValueError (''year '' @ py_str_int y @ '' is out of range'')))"

definition month_start :: "int option \<Rightarrow> int \<Rightarrow> int \<Rightarrow> (ustr option) res" where
  "month_start default_day y m =
     (let d = (case default_day of Some k \<Rightarrow> if k = 0 then 1 else k | None \<Rightarrow> 1) in
      res_bind (month_length y m) (\<lambda>n.
      res_bind (py_date_of y m (min d n)) (\<lambda>t. Inr (Some (date_text t)))))"

definition year_month :: regex where
  "year_month =
     rseq [RGroup 1 (RRep 4 (Some 4) True (RSet True [Digit])), RSet True [Lit 45], RGroup 2 (RRep 1
     (Some 2) True (RSet True [Digit])), REol False]"

definition month_year :: regex where
  "month_year =
     rseq [RGroup 1 (RRep 1 (Some 2) True (RSet True [Digit])), RSet True [Lit 45], RGroup 2 (RRep 4
     (Some 4) True (RSet True [Digit])), REol False]"

definition dashes :: "ustr \<Rightarrow> ustr" where
  "dashes s = map (\<lambda>c. if c \<in> {92, 47, 46, 44} then 45 else c) s"

text \<open>\<open>int(s)\<close> of a text of digits, some of which need not be decimal\<close>

definition int_of_digits :: "ucd \<Rightarrow> ustr \<Rightarrow> int res" where
  "int_of_digits u s =
     (if all_decimal u s then Inr (digits_int u s) else Inl (ValueError ''invalid literal for int() with base 10''))"

definition named_month :: "ucd \<Rightarrow> int option \<Rightarrow> ustr \<Rightarrow> (ustr option) res" where
  "named_month u default_day candidate =
     (case u_split u (u_lower u candidate) of
        [name, y] \<Rightarrow>
          (case map_of month_names name of
             Some m \<Rightarrow>
               if u_is_digits u y then res_bind (int_of_digits u y) (\<lambda>y. month_start default_day y m) else Inr None
           | None \<Rightarrow> Inr None)
      | _ \<Rightarrow> Inr None)"

definition normalize_date_token :: "ucd \<Rightarrow> int option \<Rightarrow> ustr \<Rightarrow> (ustr option) res" where
  "normalize_date_token u default_day token =
     (let candidate = dashes (u_strip u token) in
      if token = [] then Inr None
      else (case first_some_of (\<lambda>fs. Option.bind (strptime_date u 45 fs candidate) full_year) date_formats of
              Some d \<Rightarrow> Inr (Some (date_text d))
            | None \<Rightarrow>
                (case re_match u False year_month candidate of
                   Some m \<Rightarrow> month_start default_day (group_int u m 1) (group_int u m 2)
                 | None \<Rightarrow>
                (case re_match u False month_year candidate of
                   Some m \<Rightarrow> month_start default_day (group_int u m 2) (group_int u m 1)
                 | None \<Rightarrow> named_month u default_day candidate))))"


subsection \<open>The billing period\<close>

definition month_labels :: "ustr list" where
  "month_labels =
     [[1497, 1504, 1493, 1488, 1512], [1508, 1489, 1512, 1493, 1488, 1512], [1502, 1512, 1509], [1488, 1508, 1512, 1497, 1500], [1502, 1488, 1497], [1497, 1493, 1504, 1497], [1497, 1493, 1500, 1497], [1488, 1493, 1490, 1493, 1505, 1496], [1505, 1508, 1496, 1502, 1489, 1512], [1488, 1493, 1511, 1496, 1493, 1489, 1512], [1504, 1493, 1489, 1502, 1489, 1512], [1491, 1510, 1502, 1489, 1512]]"

definition month_label :: "int \<Rightarrow> ustr" where
  "month_label m = month_labels ! nat (m - 1)"

type_synonym period = "ustr option \<times> ustr option \<times> ustr option"

definition autopay :: regex where
  "autopay =
     rseq [RRep 2 None True (RGroup 1 (rseq [RRep 2 (Some 2) True (RSet True [Digit]), RSet True [Lit
     47], RRep 2 (Some 2) True (RSet True [Digit]), RSet True [Lit 47], RRep 4 (Some 4) True (RSet True
     [Digit]), RRep 0 (Some 40) False (RDot)])), rlit [1492, 1493, 1512, 1488, 1514, 32, 1492, 1511,
     1489, 1506]]"

definition slashed_date :: regex where
  "slashed_date =
     rseq [RRep 2 (Some 2) True (RSet True [Digit]), RSet True [Lit 47], RRep 2 (Some 2) True (RSet True
     [Digit]), RSet True [Lit 47], RRep 4 (Some 4) True (RSet True [Digit])]"

definition date_range :: regex where
  "date_range =
     rseq [RGroup 1 (rseq [RRep 1 (Some 2) True (RSet True [Digit]), RSet True [Lit 46, Lit 47, Lit 45],
     RRep 1 (Some 2) True (RSet True [Digit]), RSet True [Lit 46, Lit 47, Lit 45], RRep 2 (Some 4) True
     (RSet True [Digit])]), RRep 0 None True (RSet True [Space]), RSet True [Lit 45, Lit 8211], RRep 0
     None True (RSet True [Space]), RGroup 2 (rseq [RRep 1 (Some 2) True (RSet True [Digit]), RSet True
     [Lit 46, Lit 47, Lit 45], RRep 1 (Some 2) True (RSet True [Digit]), RSet True [Lit 46, Lit 47, Lit
     45], RRep 2 (Some 4) True (RSet True [Digit])])]"

definition bilingual :: regex where
  "bilingual =
     rseq [RGroup 1 (RRep 4 (Some 4) True (RSet True [Digit])), RRep 1 None True (RSet True [Space]),
     RGroup 2 (RRep 1 None True (RSet True [Range 1488 1514])), RRep 0 None True (RSet True [Space]),
     RSet True [Lit 45, Lit 8211], RRep 0 None True (RSet True [Space]), RGroup 3 (RRep 1 None True (RSet
     True [Range 1488 1514]))]"

definition named_period :: regex where
  "named_period =
     rseq [RAlt (rlit [1514, 1511, 1493, 1508, 1492]) (RAlt (rlit [98, 105, 108, 108, 105, 110, 103])
     (RAlt (rlit [115, 116, 97, 116, 101, 109, 101, 110, 116]) (RAlt (rlit [109, 111, 110, 116, 104])
     (rlit [1495, 1493, 1491, 1513])))), RRep 0 None True (RSet False [Digit]), RGroup 1 (RRep 1 None
     True (RSet True [Range 65 90, Range 97 122, Range 1488 1514])), RRep 1 None True (RSet True
     [Space]), RGroup 2 (RRep 4 (Some 4) True (RSet True [Digit]))]"

fun res_map :: "('a \<Rightarrow> 'b res) \<Rightarrow> 'a list \<Rightarrow> 'b list res" where
  "res_map f [] = Inr []"
| "res_map f (x # xs) = res_bind (f x) (\<lambda>y. res_bind (res_map f xs) (\<lambda>ys. Inr (y # ys)))"

definition given :: "'a option list \<Rightarrow> 'a list" where
  "given xs = List.map_filter id xs"

text \<open>The dates of a standing order: from the first of the first month to the day ahead of the last\<close>

definition autopay_period :: "py_date \<Rightarrow> py_date \<Rightarrow> period" where
  "autopay_period first_date last_date =
     (let s = Date (year first_date) (month first_date) 1;
          e = date_fromordinal (date_toordinal last_date - 1);
          e = (if date_toordinal e < date_toordinal s then last_date else e)
      in (Some (date_text s), Some (date_text e), Some (month_label (month s) @ lit '' - '' @ month_label (month e))))"

definition iso_date :: "ustr \<Rightarrow> py_date option" where
  "iso_date s = map_option fst (parse_date (latin s))"

definition autopay_info :: "ucd \<Rightarrow> ustr \<Rightarrow> (period option) res" where
  "autopay_info u txt =
     (case re_search u False autopay txt of
        None \<Rightarrow> Inr None
      | Some m \<Rightarrow>
          let tokens = re_findall u False slashed_date 0 (mo_text m) in
          if length tokens < 2 then Inr None
          else res_bind (res_map (normalize_date_token u None) tokens) (\<lambda>normalized.
            let ds = sort_key date_toordinal (List.map_filter iso_date (given normalized))
            in Inr (if 2 \<le> length ds then Some (autopay_period (hd ds) (last ds)) else None)))"

definition month_of :: "ucd \<Rightarrow> ustr \<Rightarrow> int option" where
  "month_of u name = map_of month_names (u_lower u name)"

definition range_info :: "ucd \<Rightarrow> match_object \<Rightarrow> period res" where
  "range_info u m =
     res_bind (normalize_date_token u None (group_text m 1)) (\<lambda>s.
     res_bind (normalize_date_token u None (group_text m 2)) (\<lambda>e.
       Inr (s, e, (case (s, e) of (Some a, Some b) \<Rightarrow> Some (a @ lit '' - '' @ b) | _ \<Rightarrow> None))))"

definition months_period :: "int \<Rightarrow> int \<Rightarrow> int \<Rightarrow> ustr \<Rightarrow> period res" where
  "months_period y a b label =
     res_bind (py_date_of y a 1) (\<lambda>s.
     res_bind (month_length y b) (\<lambda>n.
     res_bind (py_date_of y b n) (\<lambda>e.
       Inr (Some (date_text s), Some (date_text e), Some label))))"

definition named_info :: "ucd \<Rightarrow> ustr \<Rightarrow> period res" where
  "named_info u txt =
     (case re_search u True named_period txt of
        None \<Rightarrow> Inr (None, None, None)
      | Some m \<Rightarrow>
          let y = group_int u m 2 in
          (case month_of u (group_text m 1) of
             None \<Rightarrow> Inr (None, None, None)
           | Some a \<Rightarrow>
               months_period y a a
                 (take 7 (date_text (Date y a 1)) @ lit '' ('' @ group_text m 1 @ [32] @ lit (py_str_int y) @ lit '')'')))"

definition extract_period_info :: "ucd \<Rightarrow> ustr \<Rightarrow> period res" where
  "extract_period_info u txt =
     (if txt = [] then Inr (None, None, None)
      else res_bind (autopay_info u txt) (\<lambda>autopay.
        case autopay of
          Some period \<Rightarrow> Inr period
        | None \<Rightarrow>
            (case re_search u False date_range txt of
               Some m \<Rightarrow> range_info u m
             | None \<Rightarrow>
                 (case re_search u False bilingual txt of
                    None \<Rightarrow> named_info u txt
                  | Some m \<Rightarrow>
                      (case (month_of u (group_text m 2), month_of u (group_text m 3)) of
                         (Some a, Some b) \<Rightarrow>
                           months_period (group_int u m 1) a b (group_text m 3 @ lit '' - '' @ group_text m 2)
                       | _ \<Rightarrow> named_info u txt)))))"


subsection \<open>The due date and references\<close>

definition due_label :: regex where
  "due_label =
     rseq [RAlt (rlit [68, 117, 101, 32, 68, 97, 116, 101]) (RAlt (rlit [80, 97, 121, 109, 101, 110, 116,
     32, 68, 117, 101]) (RAlt (rlit [1500, 1514, 1513, 1500, 1493, 1501, 32, 1506, 1491]) (RAlt (rlit
     [1502, 1493, 1506, 1491, 32, 1514, 1513, 1500, 1493, 1501]) (rlit [1514, 1488, 1512, 1497, 1498, 32,
     1488, 1495, 1512, 1493, 1503, 32, 1500, 1514, 1513, 1500, 1493, 1501])))), RRep 0 (Some 15) True
     (RSet False [Digit]), RGroup 1 (RRep 6 (Some 10) True (RSet True [Range 48 57, Lit 46, Lit 47, Lit
     45]))]"

definition due_last :: regex where
  "due_last =
     rseq [rlit [1502, 1493, 1506, 1491, 32, 1488, 1495, 1512, 1493, 1503], RRep 1 None True (RSet True
     [Lit 58, Space]), RGroup 1 (RRep 6 (Some 10) True (RSet True [Range 48 57, Lit 46, Lit 47, Lit
     45]))]"

fun due_in :: "ucd \<Rightarrow> ustr \<Rightarrow> regex list \<Rightarrow> (ustr option) res" where
  "due_in u txt [] = Inr None"
| "due_in u txt (pat # pats) =
     (case re_search u True pat txt of
        None \<Rightarrow> due_in u txt pats
      | Some m \<Rightarrow>
          res_bind (normalize_date_token u None (group_text m 1)) (\<lambda>normalized.
            case nonempty normalized of Some d \<Rightarrow> Inr (Some d) | None \<Rightarrow> due_in u txt pats))"

definition extract_due_date :: "ucd \<Rightarrow> ustr \<Rightarrow> (ustr option) res" where
  "extract_due_date u txt = (if txt = [] then Inr None else due_in u txt [due_label, due_last])"

definition ref_order :: regex where
  "ref_order =
     rseq [RSet True [Lit 80], RAlt (RSet True [Lit 79]) (RAlt (rlit [46, 79, 46]) (rlit [117, 114, 99,
     104, 97, 115, 101, 32, 79, 114, 100, 101, 114])), RRep 0 None True (RSet True [Space, Lit 35, Lit
     58, Lit 61, Lit 45]), RGroup 1 (RRep 4 None True (RSet True [Range 65 90, Range 48 57, Lit 45]))]"

definition ref_number :: regex where
  "ref_number =
     rseq [rlit [1502, 1505, 1508, 1512], RRep 1 None True (RSet True [Space]), RAlt (rlit [1492, 1494,
     1502, 1504, 1492]) (RAlt (rlit [1500, 1511, 1493, 1495]) (RAlt (rlit [1495, 1493, 1494, 1492]) (rlit
     [1506, 1505, 1511, 1492]))), RRep 0 None True (RSet True [Space, Lit 35, Lit 58, Lit 61, Lit 45]),
     RGroup 1 (RRep 4 None True (RSet True [Range 48 57, Lit 45]))]"

definition ref_customer :: regex where
  "ref_customer =
     rseq [RAlt (rlit [67, 117, 115, 116, 111, 109, 101, 114, 32, 73, 68]) (rlit [65, 99, 99, 111, 117,
     110, 116, 32, 78, 117, 109, 98, 101, 114]), RRep 0 None True (RSet True [Space, Lit 35, Lit 58, Lit
     61, Lit 45]), RGroup 1 (RRep 4 None True (RSet True [Range 65 90, Range 48 57, Lit 45]))]"

text \<open>Each reference once, at most five\<close>

fun distinct_refs :: "ucd \<Rightarrow> ustr list \<Rightarrow> ustr list \<Rightarrow> ustr list" where
  "distinct_refs u ordered [] = ordered"
| "distinct_refs u ordered (ref # refs) =
     (let key = u_strip u ref in
      if key = [] \<or> key \<in> set ordered then distinct_refs u ordered refs
      else if 5 \<le> length (ordered @ [key]) then ordered @ [key]
      else distinct_refs u (ordered @ [key]) refs)"

definition extract_reference_numbers :: "ucd \<Rightarrow> ustr \<Rightarrow> ustr list" where
  "extract_reference_numbers u txt =
     (if txt = [] then []
      else distinct_refs u [] (concat (map (\<lambda>pat. re_findall u True pat 1 txt) [ref_order, ref_number, ref_customer])))"


subsection \<open>Every date is one\<close>

definition is_date_text :: "ustr \<Rightarrow> bool" where
  "is_date_text s \<longleftrightarrow> (\<exists>d. valid_date d \<and> s = date_text d)"

lemma date_text_valid [simp]: "valid_date d \<Longrightarrow> is_date_text (date_text d)"
  by (auto simp: is_date_text_def)

lemma first_some_of_Some: "first_some_of f xs = Some y \<Longrightarrow> \<exists>x\<in>set xs. f x = Some y"
  by (induction xs) (auto split: option.splits)

lemma py_date_of_Inr: "py_date_of y m d = Inr t \<longleftrightarrow> t = Date y m d \<and> valid_date t"
  by (auto simp: py_date_of_def Let_def)

lemma month_start_date: "month_start k y m = Inr (Some s) \<Longrightarrow> is_date_text s"
  by (auto simp: month_start_def Let_def res_bind_Inr py_date_of_Inr)

lemma named_month_date: "named_month u k s = Inr (Some t) \<Longrightarrow> is_date_text t"
  by (auto simp: named_month_def res_bind_Inr dest: month_start_date split: list.splits option.splits if_splits)

lemma normalize_date: "normalize_date_token u k token = Inr (Some s) \<Longrightarrow> is_date_text s"
  by (auto simp: normalize_date_token_def Let_def full_year_def
      dest!: first_some_of_Some named_month_date dest: month_start_date
      split: if_splits option.splits bind_splits)

lemma parse_date_valid: "parse_date s = Some (d, r) \<Longrightarrow> valid_date d"
  by (auto simp: parse_date_def bind_eq_Some_conv split: if_splits)

lemma day_ahead_valid:
  assumes "valid_date d" "1 \<le> n" "n \<le> date_toordinal d"
  shows "valid_date (date_fromordinal n)"
proof (rule valid_date_fromordinal)
  let ?y = "year_of_ordinal n"
  have y: "year (date_fromordinal n) = ?y" by (simp add: date_fromordinal_def Let_def)
  have b: "days_before_year ?y < n" "n \<le> days_before_year (?y + 1)"
    using year_of_ordinal_bounds [of n] by (simp_all add: days_before_year_Suc)
  have "days_before_year 1 = 0" by (simp add: days_before_year_def)
  then show "1 \<le> year (date_fromordinal n)"
    using days_before_year_mono [of "?y + 1" 1] b assms(2) unfolding y by linarith
  have "n \<le> days_before_year (year d + 1)" using valid_date_ordinal(2) [OF assms(1)] assms(3) by linarith
  then have "?y \<le> year d" using days_before_year_mono [of "year d + 1" ?y] b by linarith
  then show "year (date_fromordinal n) \<le> 9999" using assms(1) unfolding y by (simp add: valid_date_def)
qed

lemma autopay_dates:
  assumes "valid_date a" "valid_date b" "autopay_period a b = (s, e, l)" "s = Some x \<or> e = Some x"
  shows "is_date_text x"
proof -
  have start: "valid_date (Date (year a) (month a) 1)"
    using assms(1) by (auto simp: valid_date_def)
  then have "1 \<le> date_toordinal (Date (year a) (month a) 1)"
    using valid_date_ordinal(1) [OF start] days_before_year_mono [of 1 "year a"]
    by (simp add: days_before_year_def valid_date_def)
  then show ?thesis
    using assms start day_ahead_valid [OF assms(2), of "date_toordinal b - 1"]
    by (auto simp: autopay_period_def Let_def date_toordinal_fromordinal split: if_splits)
qed

definition dated :: "period \<Rightarrow> bool" where
  "dated p \<longleftrightarrow> (\<forall>x. fst p = Some x \<or> fst (snd p) = Some x \<longrightarrow> is_date_text x)"

lemma dated_None [simp]: "dated (None, None, l)"
  by (simp add: dated_def)

lemma months_period_dates: "months_period y a b label = Inr p \<Longrightarrow> dated p"
  by (auto simp: months_period_def res_bind_Inr py_date_of_Inr dated_def)

lemma range_dates: "range_info u m = Inr p \<Longrightarrow> dated p"
  by (auto simp: range_info_def res_bind_Inr dated_def dest: normalize_date)

lemma named_dates: "named_info u txt = Inr p \<Longrightarrow> dated p"
  by (auto simp: named_info_def Let_def dest: months_period_dates split: option.splits)

lemma autopay_info_dates:
  assumes "autopay_info u txt = Inr (Some p)"
  shows "dated p"
proof -
  from assms obtain ds normalized where ds: "ds = sort_key date_toordinal (List.map_filter iso_date normalized)"
    and "2 \<le> length ds" "autopay_period (hd ds) (last ds) = p"
    by (auto simp: autopay_info_def Let_def res_bind_Inr split: option.splits if_splits)
  moreover have "valid_date d" if "d \<in> set ds" for d
    using that parse_date_valid by (auto simp: ds map_filter_def iso_date_def)
  moreover have "ds \<noteq> []" using \<open>2 \<le> length ds\<close> by auto
  ultimately have "valid_date (hd ds)" "valid_date (last ds)" using hd_in_set last_in_set by blast+
  from autopay_dates [OF this] show ?thesis
    using \<open>autopay_period (hd ds) (last ds) = p\<close> by (cases p) (auto simp: dated_def)
qed

lemma period_dates: "extract_period_info u txt = Inr p \<Longrightarrow> dated p"
  unfolding extract_period_info_def
  by (auto simp: res_bind_Inr split: if_splits option.splits
      dest: autopay_info_dates range_dates named_dates months_period_dates)

lemma due_in_date: "due_in u txt pats = Inr (Some s) \<Longrightarrow> is_date_text s"
  by (induction pats)
    (auto simp: res_bind_Inr nonempty_def dest: normalize_date split: option.splits if_splits)


definition demo_bill :: ustr where
  "demo_bill = lit ''Due Date: 5/2/24, 01/01/2024 - 31.1.24''"

lemma demo_bill_ok:
  "extract_due_date toy_ucd demo_bill = Inr (Some (lit ''2024-02-05''))"
  "extract_period_info toy_ucd demo_bill =
     Inr (Some (lit ''2024-01-01''), Some (lit ''2024-01-31''), Some (lit ''2024-01-01 - 2024-01-31''))"
  by code_simp+


end
