(* ===== verification/Report_Totals.thy ===== *)
theory Report_Totals
  imports Report_Vendors
begin

text \<open>
  The totals of an invoice: \<open>infer_totals\<close> of \<open>usecases/report_totals.py\<close>, a cascade of guesses
  for the total, the amount before VAT and the VAT, each tried when the ones before found
  nothing or look wrong. The cascade is split where the code assigns one of the three; each
  definition names the amounts it reads. The debug prints are left out.
\<close>

subsection \<open>Blocks of numbers after a marker\<close>

fun collect_numbers :: "ucd \<Rightarrow> nat \<Rightarrow> ustr list \<Rightarrow> rat list \<Rightarrow> rat list" where
  "collect_numbers u 0 lines collected = collected"
| "collect_numbers u (Suc n) [] collected = collected"
| "collect_numbers u (Suc n) (token # lines) collected =
     (case (if 46 \<in> set token \<or> 44 \<in> set token \<or> 8362 \<in> set token then parse_number u token else None) of
        None \<Rightarrow> if collected \<noteq> [] then collected else collect_numbers u n lines collected
      | Some value \<Rightarrow> collect_numbers u n lines (collected @ [value]))"

fun number_blocks :: "ucd \<Rightarrow> ustr \<Rightarrow> nat \<Rightarrow> ustr list \<Rightarrow> rat list list" where
  "number_blocks u marker limit [] = []"
| "number_blocks u marker limit (line # lines) =
     (let collected = collect_numbers u limit lines [] in
      (if contains marker line \<and> collected \<noteq> [] then [collected] else []) @ number_blocks u marker limit lines)"

definition better_block :: "rat list \<Rightarrow> rat list \<Rightarrow> rat list" where
  "better_block best collected =
     (let size = length collected; best_len = length best in
      if best = [] \<or> (3 \<le> size \<and> best_len < 3) \<or>
         (3 \<le> size \<and> 3 \<le> best_len \<and> list_max best < list_max collected) \<or>
         (best_len < 3 \<and> size < 3 \<and> list_max best < list_max collected)
      then collected else best)"

definition numbers_after_marker :: "ucd \<Rightarrow> ustr list \<Rightarrow> ustr \<Rightarrow> nat \<Rightarrow> rat list \<times> rat list" where
  "numbers_after_marker u lines marker limit =
     (let blocks = number_blocks u marker limit lines in (foldl better_block [] blocks, concat blocks))"

definition total_block :: "ucd \<Rightarrow> ustr list \<Rightarrow> rat list" where
  "total_block u lines =
     (let block = fst (numbers_after_marker u lines [1499, 34, 1492, 1505] 16); alt = fst (numbers_after_marker u lines [1505, 1492, 34, 1499] 16) in
      if alt \<noteq> [] \<and> (block = [] \<or> list_max block < list_max alt) then alt else block)"

definition total_values :: "ucd \<Rightarrow> ustr list \<Rightarrow> rat list" where
  "total_values u lines =
     snd (numbers_after_marker u lines [1499, 34, 1492, 1505] 16) @ snd (numbers_after_marker u lines [1505, 1492, 34, 1499] 16)"


subsection \<open>The total\<close>

definition search_number :: "ucd \<Rightarrow> bool \<Rightarrow> ustr \<Rightarrow> regex \<Rightarrow> rat option" where
  "search_number u ignore_case txt pat =
     (case re_search u ignore_case pat txt of Some m \<Rightarrow> group_number u m | None \<Rightarrow> None)"

definition inline_totals :: "ucd \<Rightarrow> ustr list \<Rightarrow> rat option" where
  "inline_totals u lines =
     first_some_of (\<lambda>marker. find_amount_before_marker u lines marker True) [[1501, 1500, 1493, 1513, 32, 1499, 34, 1492, 1505], [1501, 1493, 1500, 1513, 1514, 1500, 32, 1499, 34, 1492, 1505], [1501, 1493, 1500, 1513, 1514, 1500]]"

definition marked_totals :: "ucd \<Rightarrow> ustr list \<Rightarrow> rat option" where
  "marked_totals u lines =
     first_some_of (\<lambda>marker. find_amount_before_marker u lines marker False)
       [[1505, 1492, 34, 1499], [1505, 1492, 1524, 1499], [1505, 1492, 1499], [1505, 1492, 34, 1499, 32, 1500, 1514, 1513, 1500, 1493, 1501], [1505, 1492, 34, 1499, 32, 1500, 1514, 1513, 1500, 1493, 1501, 32, 1489, 1513, 34, 1495]]"

definition total_inline :: regex where
  "total_inline =
     rseq [rlit [1505, 1492], RRep 0 (Some 1) True (RDot), RRep 0 (Some 1) True (RSet True [Lit 34]),
     RSet True [Lit 1499], RRep 0 (Some 1) True (RDot), RRep 0 (Some 1) True (RSet True [Lit 58, Lit
     45]), RRep 0 None True (RSet True [Space]), RGroup 1 (RRep 1 None True (RSet True [Digit, Lit 46,
     Lit 44]))]"

definition payable_after :: regex where
  "payable_after =
     rseq [rlit [1505, 1492], RRep 0 (Some 1) True (RAny), RRep 0 (Some 1) True (RSet True [Lit 34]),
     RSet True [Lit 1499], RRep 0 (Some 1) True (RAny), RRep 0 (Some 1) True (RSet True [Lit 32]), rlit
     [1500, 1514, 1513, 1500, 1493, 1501], RRep 0 None True (RSet False [Digit]), RGroup 1 (RRep 1 None
     True (RSet True [Digit, Lit 46, Lit 44]))]"

definition payable_before :: regex where
  "payable_before =
     rseq [RGroup 1 (RRep 1 None True (RSet True [Digit, Lit 46, Lit 44])), RRep 1 None True (RSet True
     [Space]), rlit [1505, 1492], RRep 0 (Some 1) True (RAny), RRep 0 (Some 1) True (RSet True [Lit 34]),
     RSet True [Lit 1499], RRep 0 (Some 1) True (RAny), RRep 0 (Some 1) True (RSet True [Lit 32]), rlit
     [1500, 1514, 1513, 1500, 1493, 1501]]"

definition payable_near :: regex where
  "payable_near =
     rseq [rlit [1505, 1492], RRep 0 (Some 1) True (RAny), RRep 0 (Some 1) True (RSet True [Lit 34]),
     RSet True [Lit 1499], RRep 0 (Some 1) True (RAny), RRep 0 (Some 1) True (RSet True [Lit 32]), rlit
     [1500, 1514, 1513, 1500, 1493, 1501], RRep 0 (Some 40) False (RAlt (RAny) (RSet True [Lit 10])),
     RGroup 1 (RRep 1 None True (RSet True [Digit, Lit 46, Lit 44]))]"

definition payable_reversed_after :: regex where
  "payable_reversed_after =
     rseq [RSet True [Lit 1499], RRep 0 (Some 1) True (RAny), RRep 0 (Some 1) True (RSet True [Lit 34]),
     rlit [1492, 1505], RRep 0 (Some 40) False (RSet False [Lit 10]), rlit [1501, 1493, 1500, 1513, 1514,
     1500], RRep 0 (Some 40) False (RSet False [Lit 10]), RSet True [Lit 1495], RRep 0 (Some 1) True
     (RAny), RRep 0 (Some 1) True (RSet True [Lit 34]), RSet True [Lit 1513], RRep 0 (Some 40) False
     (RSet False [Lit 10]), RSet True [Lit 1502], RRep 0 (Some 1) True (RSet True [Lit 34]), rlit [1506,
     1502], RRep 0 None True (RSet False [Digit]), RGroup 1 (RRep 1 None True (RSet True [Digit, Lit 46,
     Lit 44]))]"

definition payable_reversed_before :: regex where
  "payable_reversed_before =
     rseq [RGroup 1 (RRep 1 None True (RSet True [Digit, Lit 46, Lit 44])), RRep 1 None True (RSet True
     [Space]), RSet True [Lit 1502], RRep 0 (Some 1) True (RSet True [Lit 34]), rlit [1506, 1502], RRep 0
     (Some 40) False (RSet False [Lit 10]), RSet True [Lit 1495], RRep 0 (Some 1) True (RAny), RRep 0
     (Some 1) True (RSet True [Lit 34]), RSet True [Lit 1513], RRep 0 (Some 40) False (RSet False [Lit
     10]), rlit [1501, 1493, 1500, 1513, 1514, 1500], RRep 0 (Some 40) False (RSet False [Lit 10]), RSet
     True [Lit 1499], RRep 0 (Some 1) True (RAny), RRep 0 (Some 1) True (RSet True [Lit 34]), rlit [1492,
     1505]]"

definition near_payable :: regex where
  "near_payable =
     rseq [rlit [1505, 1492], RRep 0 (Some 1) True (RDot), RRep 0 (Some 1) True (RSet True [Lit 34]),
     RSet True [Lit 1499], RRep 0 (Some 1) True (RDot), RRep 0 (Some 1) True (RSet True [Lit 32]), rlit
     [1500, 1514, 1513, 1500, 1493, 1501]]"

definition near_payable_reversed :: regex where
  "near_payable_reversed =
     rseq [RSet True [Lit 1499], RRep 0 (Some 1) True (RDot), RRep 0 (Some 1) True (RSet True [Lit 34]),
     rlit [1492, 1505], RRep 0 (Some 40) False (RSet False [Lit 10]), rlit [1501, 1493, 1500, 1513, 1514,
     1500], RRep 0 (Some 40) False (RSet False [Lit 10]), RSet True [Lit 1502], RRep 0 (Some 1) True
     (RSet True [Lit 34]), rlit [1506, 1502]]"

definition near_payable_shekel :: regex where
  "near_payable_shekel =
     rseq [RSet True [Lit 1495], RRep 0 (Some 1) True (RDot), RRep 0 (Some 1) True (RSet True [Lit 34]),
     RSet True [Lit 1513], RRep 0 (Some 20) False (RSet False [Lit 10]), rlit [1501, 1493, 1500, 1513,
     1514, 1500]]"

definition debit_line :: regex where
  "debit_line =
     rseq [rlit [1505, 1492], RRep 0 (Some 1) True (RDot), RRep 0 (Some 1) True (RSet True [Lit 34]),
     RSet True [Lit 1499], RRep 0 (Some 1) True (RDot), RRep 0 (Some 1) True (RSet True [Lit 32]), rlit
     [1497, 1490, 1489, 1492], RRep 0 None True (RSet False [Lit 58]), RSet True [Lit 58], RRep 0 None
     True (RSet True [Space]), RGroup 1 (RRep 1 None False (RSet True [Range 48 57, Lit 44, Lit 46,
     Space])), RAlt (RSet True [Lit 10]) (REol False)]"

definition debit_block :: regex where
  "debit_block =
     rseq [rlit [1505, 1492], RRep 0 (Some 4) False (RDot), rlit [1497, 1490, 1489, 1492], RRep 0 None
     True (RSet False [Lit 58]), RSet True [Lit 58], RRep 0 None True (RSet True [Space]), RGroup 1 (RRep
     0 None False (RAlt (RDot) (RSet True [Lit 10]))), RSet True [Lit 10], RRep 0 None True (RSet True
     [Space]), RSet True [Lit 52]]"

definition debit_number :: regex where
  "debit_number =
     rseq [rlit [1505, 1492], RRep 0 (Some 1) True (RDot), RRep 0 (Some 1) True (RSet True [Lit 34]),
     RSet True [Lit 1499], RRep 0 (Some 1) True (RDot), RRep 0 (Some 1) True (RSet True [Lit 32]), rlit
     [1497, 1490, 1489, 1492], RRep 1 None True (RSet False [Range 48 57]), RGroup 1 (RRep 1 None True
     (RSet True [Digit, Lit 46, Lit 44]))]"

definition shekel_total :: regex where
  "shekel_total =
     rseq [RSet True [Lit 8362], RRep 0 None True (RSet True [Space]), RGroup 1 (RRep 1 None True (RSet
     True [Digit, Lit 46, Lit 44])), RRep 0 None True (RSet True [Space]), RRep 0 (Some 1) True (RSet
     True [Lit 58, Lit 45]), RRep 0 None True (RSet True [Space]), RSet True [Lit 1499], RRep 0 (Some 1)
     True (RSet True [Lit 34, Lit 1524, Lit 39]), rlit [1492, 1505]]"

definition shekel_number :: regex where
  "shekel_number =
     rseq [RSet True [Lit 8362], RRep 0 None True (RSet True [Space]), RGroup 1 (RRep 1 None True (RSet
     True [Digit, Lit 46, Lit 44]))]"

definition payable_patterns :: "regex list" where
  "payable_patterns =
     [payable_after, payable_before, payable_near, payable_reversed_after, payable_reversed_before]"

definition currency_tokens :: "ucd \<Rightarrow> ustr \<Rightarrow> ustr list" where
  "currency_tokens u txt = re_findall u False shekel_number 1 txt"

definition debit_line_total :: "ucd \<Rightarrow> ustr \<Rightarrow> rat option" where
  "debit_line_total u txt =
     (case re_search u True debit_line txt of
        Some m \<Rightarrow> parse_number u (re_sub u False (run_of True [Space]) (\<lambda>_. []) (group_text m 1))
      | None \<Rightarrow> None)"

text \<open>A block that ends in a line with a 4, its digits also read backwards\<close>

definition debit_block_total :: "ucd \<Rightarrow> ustr \<Rightarrow> rat option \<Rightarrow> rat option" where
  "debit_block_total u txt guess =
     (case re_search u True debit_block txt of
        None \<Rightarrow> guess
      | Some m \<Rightarrow>
          let block = group_text m 1;
              token = filter (\<lambda>c. (48 \<le> c \<and> c \<le> 57) \<or> c = 46 \<or> c = 44) block;
              parsed = parse_number u token
          in if (case parsed of None \<Rightarrow> True | Some t \<Rightarrow> t < 50 \<or> 10 \<in> set block) \<and> token \<noteq> []
             then (case parse_number u (rev token) of Some alt \<Rightarrow> Some alt | None \<Rightarrow> parsed)
             else parsed)"

definition total_from_text :: "ucd \<Rightarrow> ustr list \<Rightarrow> ustr \<Rightarrow> rat option" where
  "total_from_text u lines txt =
     (let t = or_else (inline_totals u lines)
              (or_else (marked_totals u lines)
              (or_else (search_number u False txt total_inline)
              (or_else (first_some_of (search_number u False txt) payable_patterns)
              (or_else (amount_near_markers u txt [near_payable, near_payable_reversed, near_payable_shekel] 120 False)
                (debit_line_total u txt)))));
          t = (if (case t of None \<Rightarrow> True | Some x \<Rightarrow> x \<le> 5) then debit_block_total u txt t else t)
      in or_else t (search_number u False txt debit_number))"

definition with_block_max :: "rat list \<Rightarrow> rat option \<Rightarrow> rat option" where
  "with_block_max block t =
     (if block = [] \<or> list_max block = 0 then t
      else case t of
             None \<Rightarrow> Some (list_max block)
           | Some x \<Rightarrow> if x < list_max block \<and> 50 < f_sub (list_max block) x then Some (list_max block) else t)"

definition shekel_totals :: "ucd \<Rightarrow> ustr \<Rightarrow> rat option" where
  "shekel_totals u txt =
     (let numeric = parse_numbers u (re_findall u False shekel_total 1 txt)
      in if numeric = [] then None else Some (list_max numeric))"

definition with_fallback :: "rat option \<Rightarrow> rat option \<Rightarrow> rat option" where
  "with_fallback fallback t =
     (case t of
        None \<Rightarrow> fallback
      | Some x \<Rightarrow>
          (case fallback of
             None \<Rightarrow> t
           | Some y \<Rightarrow>
               if y \<noteq> 0 \<and> y < x \<and> 50 < f_sub x y then Some y
               else if x \<le> 5 \<and> y \<noteq> 0 \<and> x < y then Some y else t))"

text \<open>A second opinion replaces a guess it differs from by more than one.\<close>

definition replaced_by :: "rat option \<Rightarrow> rat option \<Rightarrow> rat option" where
  "replaced_by opinion guess =
     (case opinion of
        None \<Rightarrow> guess
      | Some y \<Rightarrow> (case guess of None \<Rightarrow> Some y | Some x \<Rightarrow> if 1 < \<bar>f_sub y x\<bar> then Some y else guess))"

definition infer_total :: "ucd \<Rightarrow> ustr list \<Rightarrow> ustr \<Rightarrow> rat option" where
  "infer_total u lines txt =
     (let tokens = currency_tokens u txt;
          t = with_block_max (total_block u lines) (total_from_text u lines txt);
          t = or_else t (shekel_totals u txt);
          t = with_fallback (select_amount u (rev tokens)) t
      in replaced_by (extract_total_from_total_with_vat_lines u lines tokens) t)"


subsection \<open>The amount before VAT\<close>

definition before_vat_marker :: ustr where "before_vat_marker = [1502, 34, 1506, 1502, 32, 1497, 1504, 1508, 1500]"

definition base_of_candidates :: "rat list \<Rightarrow> rat option \<Rightarrow> rat option \<Rightarrow> rat option" where
  "base_of_candidates candidates t base =
     (if candidates = [] then base
      else let below = (case t of None \<Rightarrow> [] | Some x \<Rightarrow> filter (\<lambda>v. v < x) candidates)
           in Some (list_max (if below \<noteq> [] then below else candidates)))"

definition vat_factor :: rat where "vat_factor = round_double (118 / 100)"

definition base_near_factor :: "rat list \<Rightarrow> rat option \<Rightarrow> rat option \<Rightarrow> rat option" where
  "base_near_factor values t base =
     (case (base, t) of
        (None, Some x) \<Rightarrow>
          if 0 < x \<and> f_div x vat_factor \<noteq> 0
          then let candidates = filter (\<lambda>v. 0 < v \<and> v < x) values in
               if candidates \<noteq> [] then Some (arg_min_list (\<lambda>v. \<bar>f_sub v (f_div x vat_factor)\<bar>) candidates) else None
          else None
      | _ \<Rightarrow> base)"

definition infer_base :: "ucd \<Rightarrow> ustr list \<Rightarrow> rat option \<Rightarrow> rat option" where
  "infer_base u lines t =
     base_near_factor (total_values u lines) t
       (base_of_candidates (numeric_values_near_marker u lines before_vat_marker 4) t
         (find_amount_before_marker u lines before_vat_marker True))"


subsection \<open>The VAT\<close>

definition vat_on_marker :: ustr where "vat_on_marker = [1500, 1506, 32, 1502, 34, 1506, 1502]"

definition vat_after :: regex where
  "vat_after =
     rseq [rlit [1505, 1492], RRep 0 (Some 1) True (RAny), RRep 0 (Some 1) True (RSet True [Lit 34]),
     RSet True [Lit 1499], RRep 0 (Some 1) True (RAny), RRep 0 (Some 1) True (RSet True [Lit 32]), rlit
     [1502, 1506], RRep 0 (Some 1) True (RSet True [Lit 34]), RSet True [Lit 1502], RRep 0 None True
     (RSet False [Digit]), RGroup 1 (RRep 1 None True (RSet True [Digit, Lit 46, Lit 44]))]"

definition vat_before :: regex where
  "vat_before =
     rseq [RGroup 1 (RRep 1 None True (RSet True [Digit, Lit 46, Lit 44])), RRep 1 None True (RSet True
     [Space]), rlit [1505, 1492], RRep 0 (Some 1) True (RAny), RRep 0 (Some 1) True (RSet True [Lit 34]),
     RSet True [Lit 1499], RRep 0 (Some 1) True (RAny), RRep 0 (Some 1) True (RSet True [Lit 32]), rlit
     [1502, 1506], RRep 0 (Some 1) True (RSet True [Lit 34]), RSet True [Lit 1502]]"

definition vat_reversed_after :: regex where
  "vat_reversed_after =
     rseq [RSet True [Lit 1502], RRep 0 (Some 1) True (RSet True [Lit 34]), rlit [1506, 1502], RRep 0
     (Some 30) False (RSet False [Lit 10]), RSet True [Lit 1499], RRep 0 (Some 1) True (RAny), RRep 0
     (Some 1) True (RSet True [Lit 34]), rlit [1492, 1505], RRep 0 None True (RSet False [Digit]), RGroup
     1 (RRep 1 None True (RSet True [Digit, Lit 46, Lit 44]))]"

definition vat_reversed_before :: regex where
  "vat_reversed_before =
     rseq [RGroup 1 (RRep 1 None True (RSet True [Digit, Lit 46, Lit 44])), RRep 1 None True (RSet True
     [Space]), RSet True [Lit 1499], RRep 0 (Some 1) True (RAny), RRep 0 (Some 1) True (RSet True [Lit
     34]), rlit [1492, 1505], RRep 0 (Some 30) False (RSet False [Lit 10]), RSet True [Lit 1502], RRep 0
     (Some 1) True (RSet True [Lit 34]), rlit [1506, 1502]]"

definition near_vat :: regex where
  "near_vat =
     rseq [rlit [1505, 1492], RRep 0 (Some 1) True (RDot), RRep 0 (Some 1) True (RSet True [Lit 34]),
     RSet True [Lit 1499], RRep 0 (Some 1) True (RDot), RRep 0 (Some 1) True (RSet True [Lit 32]), rlit
     [1502, 1506], RRep 0 (Some 1) True (RSet True [Lit 34]), RSet True [Lit 1502]]"

definition near_vat_reversed :: regex where
  "near_vat_reversed =
     rseq [RSet True [Lit 1502], RRep 0 (Some 1) True (RSet True [Lit 34]), rlit [1506, 1502], RRep 0
     (Some 30) False (RSet False [Lit 10]), RSet True [Lit 1499], RRep 0 (Some 1) True (RDot), RRep 0
     (Some 1) True (RSet True [Lit 34]), rlit [1492, 1505]]"

definition vat_line_amount :: "ucd \<Rightarrow> ustr \<Rightarrow> rat option" where
  "vat_line_amount u line =
     (if contains [1502, 34, 1506, 1502] line \<and> \<not> (contains [1502, 34, 1506, 1502, 1500] line \<and> 8362 \<notin> set line \<and> 37 \<notin> set line)
      then select_amount u (rev (number_tokens u line)) else None)"

definition near_vat_amount :: "ucd \<Rightarrow> ustr \<Rightarrow> rat option" where
  "near_vat_amount u txt = amount_near_markers u txt [near_vat, near_vat_reversed] 120 True"

definition vat_from_text :: "ucd \<Rightarrow> ustr list \<Rightarrow> ustr \<Rightarrow> rat option \<Rightarrow> rat option" where
  "vat_from_text u lines txt vat =
     or_else vat
     (or_else (first_some_of (search_number u False txt) [vat_after, vat_before, vat_reversed_after, vat_reversed_before])
     (or_else (near_vat_amount u txt)
       (first_some_of (vat_line_amount u) lines)))"

definition vat_of_candidates :: "rat list \<Rightarrow> rat option \<Rightarrow> rat option \<Rightarrow> rat option" where
  "vat_of_candidates candidates t vat =
     (case t of
        None \<Rightarrow> vat
      | Some x \<Rightarrow>
          let filtered = sort (filter (\<lambda>v. 0 < v \<and> v < x) candidates);
              plausible = find (\<lambda>v. case vat_rate_estimate (Some x) (Some v) of
                                     None \<Rightarrow> True | Some r \<Rightarrow> \<bar>f_sub r 18\<bar> < 1) filtered
          in (case plausible of
                Some v \<Rightarrow> Some v
              | None \<Rightarrow> (case filtered of [] \<Rightarrow> vat | v # _ \<Rightarrow> Some v)))"

text \<open>The difference of the total and another amount, where it is not negative\<close>

definition difference :: "rat \<Rightarrow> rat \<Rightarrow> rat option" where
  "difference x y = (let d = py_round 2 (f_sub x y) in if 0 \<le> d then Some d else None)"

definition vat_from_base :: "bool \<Rightarrow> rat option \<Rightarrow> rat option \<Rightarrow> rat option \<Rightarrow> rat option" where
  "vat_from_base below t base vat =
     (case (vat, t, base) of
        (None, Some x, Some b) \<Rightarrow> if below \<and> x \<le> b then None else difference x b
      | _ \<Rightarrow> vat)"

definition vat_not_above :: "rat option \<Rightarrow> rat option \<Rightarrow> rat option" where
  "vat_not_above t vat =
     (case (t, vat) of (Some x, Some v) \<Rightarrow> if x < v then None else vat | _ \<Rightarrow> vat)"

definition vat_from_currency :: "rat list \<Rightarrow> rat option \<Rightarrow> rat option \<Rightarrow> rat option" where
  "vat_from_currency amounts t vat =
     (case t of
        None \<Rightarrow> vat
      | Some x \<Rightarrow>
          let smaller = filter (\<lambda>a. a < x) amounts in
          if smaller = [] then vat
          else (case vat of
                  None \<Rightarrow> difference x (list_max smaller)
                | Some v \<Rightarrow>
                    let d = py_round 2 (f_sub x (list_max smaller)) in if 0 < d \<and> d < v then Some d else vat))"

definition vat_by_rate :: "rat option \<Rightarrow> rat option \<Rightarrow> rat option \<Rightarrow> rat option" where
  "vat_by_rate t base vat =
     (case (vat_rate_estimate t vat, t, base) of
        (Some r, Some x, Some b) \<Rightarrow>
          if b < x \<and> 1 < \<bar>f_sub r 18\<bar> then or_else (difference x b) vat else vat
      | _ \<Rightarrow> vat)"

definition infer_vat :: "ucd \<Rightarrow> ustr list \<Rightarrow> ustr \<Rightarrow> rat option \<Rightarrow> rat option \<Rightarrow> rat option \<Rightarrow> rat option" where
  "infer_vat u lines txt explicit_rate t base =
     (let tokens = currency_tokens u txt;
          vat = or_else (find_amount_before_marker u lines vat_on_marker False)
                  (find_amount_before_marker u lines [1502, 34, 1506, 1502, 32] False);
          vat = replaced_by (extract_vat_from_percent_lines u lines tokens t explicit_rate) vat;
          vat = vat_from_text u lines txt vat;
          vat = vat_of_candidates (numeric_values_near_marker u lines vat_on_marker 4) t vat;
          vat = vat_from_base False t base vat;
          vat = vat_not_above t vat;
          vat = or_else vat (near_vat_amount u txt);
          vat = vat_from_base True t base vat;
          vat = vat_from_currency (parse_numbers u tokens) t vat
      in vat_by_rate t base vat)"

definition base_from_vat :: "rat option \<Rightarrow> rat option \<Rightarrow> rat option \<Rightarrow> rat option" where
  "base_from_vat t vat base =
     (case (t, vat) of
        (Some x, Some v) \<Rightarrow> replaced_by (difference x v) base
      | _ \<Rightarrow> base)"


subsection \<open>Municipal invoices and the result\<close>

definition municipal_markers :: "ustr list" where
  "municipal_markers =
     [[1488, 1512, 1504, 1493, 1504, 1492], [1506, 1497, 1512, 1497, 1497, 1514], [1512, 1513, 1493,
     1514, 32, 1502, 1511, 1493, 1502, 1497, 1514], [1514, 1488, 1490, 1497, 1491, 32, 1502, 1497, 1501],
     lit ''onecity'']"

definition is_municipal :: "ustr \<Rightarrow> bool" where
  "is_municipal txt \<longleftrightarrow>
     any_of municipal_markers txt \<or> (any_of [[1508, 1514, 1495, 32, 1514, 1511], [1492, 1493, 1493, 1511, 1514, 32, 1495, 1514, 1508]] txt \<and> contains [1495, 1493, 1489] txt)"

definition block_end_markers :: "ustr list" where
  "block_end_markers =
     [[1505, 1499, 1504, 1492], [1505, 1492], [1505, 1492, 34], [1505, 1492, 39, 39, 1499, 32, 1497,
     1490, 1489, 1492], [1505, 1492, 34, 1499, 32, 1497, 1490, 1489, 1492], [1505, 1492, 34, 1499, 32,
     1497, 1490, 1489, 1492], lit ''Sample text'', [1500, 1500, 1493, 1499, 32, 1489, 1493, 1497, 1495],
     [1503, 1493, 1489, 1513, 1495, 1492, 32, 1496, 1493, 1512, 1497, 1508], [1506, 1510, 1489, 1502,
     1489, 32, 1500, 1493, 1500, 1499]]"

record totals_result =
  tr_invoice_total :: "rat option"
  tr_invoice_vat :: "rat option"
  tr_vat_rate :: "rat option"
  tr_municipal :: bool
  tr_breakdown_sum :: "rat option"
  tr_breakdown_values :: "rat list"
  tr_base_before_vat :: "rat option"

definition breakdown :: "ucd \<Rightarrow> ustr list \<Rightarrow> ustr \<Rightarrow> rat option \<times> rat list" where
  "breakdown u block_source txt =
     (let sting = extract_stingtv_breakdown u txt in
      if sting \<noteq> [] then (Some (f_sum sting), sting)
      else sum_numeric_block u block_source [[1495, 34, 1513, 1489], [1495, 1513, 1489, 32, 1499]] block_end_markers)"

definition municipal_total :: "rat option \<Rightarrow> rat option \<Rightarrow> rat option" where
  "municipal_total block_sum t =
     (case block_sum of
        None \<Rightarrow> t
      | Some s \<Rightarrow> (case t of None \<Rightarrow> Some s | Some x \<Rightarrow> if x < 50 \<or> 1 < \<bar>f_sub x s\<bar> then Some s else t))"

definition infer_totals :: "ucd \<Rightarrow> ustr list \<Rightarrow> ustr \<Rightarrow> ustr list \<Rightarrow> totals_result" where
  "infer_totals u lines txt pdfminer_lines =
     (let explicit_rate = extract_vat_rate_from_text u txt;
          t = infer_total u lines txt;
          base = infer_base u lines t;
          vat = infer_vat u lines txt explicit_rate t base;
          base = base_from_vat t vat base;
          (block_sum, values) = breakdown u (if pdfminer_lines \<noteq> [] then pdfminer_lines else lines) txt;
          municipal = is_municipal txt;
          t = (if municipal then municipal_total block_sum t else t);
          vat = (if municipal then Some 0 else vat)
      in \<lparr>tr_invoice_total = t, tr_invoice_vat = vat,
          tr_vat_rate = or_else explicit_rate (vat_rate_estimate t vat),
          tr_municipal = municipal, tr_breakdown_sum = block_sum, tr_breakdown_values = values,
          tr_base_before_vat = base\<rparr>)"

subsection \<open>The amounts fit together\<close>

lemma replaced_by_near: "\<exists>x. replaced_by (Some y) guess = Some x \<and> \<bar>f_sub y x\<bar> \<le> 1"
  by (cases guess) (auto simp: replaced_by_def f_sub_def round_double_def)

lemma base_from_vat_near:
  assumes "difference x v = Some d"
  shows "\<exists>b. base_from_vat (Some x) (Some v) base = Some b \<and> \<bar>f_sub d b\<bar> \<le> 1"
  using replaced_by_near [of d base] assms by (simp add: base_from_vat_def)

lemma municipal_total_near:
  "\<exists>x. municipal_total (Some s) t = Some x \<and> (x = s \<or> 50 \<le> x \<and> \<bar>f_sub x s\<bar> \<le> 1)"
  by (auto simp: municipal_total_def split: option.splits)

text \<open>
  C34: The amounts inferred for an invoice fit together. Unless it is municipal, an amount before
  VAT is given whenever the total is not less than the VAT, and it differs from total minus VAT by
  at most one. A municipal invoice has no VAT, and where its lines add up to a sum its total is
  that sum or within one of it. The rate is the one stated, or the one of the two amounts.
\<close>

theorem infer_totals_consistent:
  assumes "r = infer_totals u lines txt pdfminer_lines"
  shows "(\<not> tr_municipal r \<longrightarrow> (\<forall>x v. tr_invoice_total r = Some x \<and> tr_invoice_vat r = Some v \<and>
        0 \<le> py_round 2 (f_sub x v) \<longrightarrow>
        (\<exists>b. tr_base_before_vat r = Some b \<and> \<bar>f_sub (py_round 2 (f_sub x v)) b\<bar> \<le> 1))) \<and>
    (tr_municipal r \<longrightarrow> tr_invoice_vat r = Some 0 \<and>
      (\<forall>s. tr_breakdown_sum r = Some s \<longrightarrow>
        (\<exists>x. tr_invoice_total r = Some x \<and> (x = s \<or> 50 \<le> x \<and> \<bar>f_sub x s\<bar> \<le> 1)))) \<and>
    tr_vat_rate r = (case extract_vat_rate_from_text u txt of
        Some rate \<Rightarrow> Some rate | None \<Rightarrow> vat_rate_estimate (tr_invoice_total r) (tr_invoice_vat r))"
proof -
  obtain s vs where b: "breakdown u (if pdfminer_lines \<noteq> [] then pdfminer_lines else lines) txt = (s, vs)"
    by (cases "breakdown u (if pdfminer_lines \<noteq> [] then pdfminer_lines else lines) txt")
  show ?thesis
    using base_from_vat_near municipal_total_near
    unfolding assms infer_totals_def Let_def b or_else_def difference_def
    by (auto split: option.splits)
qed

definition demo_lines :: "ustr list" where
  "demo_lines = [[8362, 49, 48, 8362, 49, 50]]"

lemma demo_totals:
  "infer_totals toy_ucd demo_lines (hd demo_lines) [] =
     \<lparr>tr_invoice_total = Some 12, tr_invoice_vat = Some 2, tr_vat_rate = Some 20, tr_municipal = False,
      tr_breakdown_sum = None, tr_breakdown_values = [], tr_base_before_vat = Some 10\<rparr>"
  by code_simp

lemma infer_totals_consistent_witness:
  "\<exists>b. tr_base_before_vat (infer_totals toy_ucd demo_lines (hd demo_lines) []) = Some b \<and> \<bar>f_sub 10 b\<bar> \<le> 1"
proof -
  have "py_round 2 (f_sub 12 2) = 10" by code_simp
  then show ?thesis
    using infer_totals_consistent [OF refl, of toy_ucd demo_lines "hd demo_lines" "[]"] by (simp add: demo_totals)
qed

end
