(* ===== verification/Report_Parser.thy ===== *)
theory Report_Parser
  imports Report_Dates Report_Totals
begin

text \<open>
  The record of one invoice: \<open>usecases/report_parser.py\<close> with the classification and confidence of
  \<open>cli/invoices_report.py\<close>, \<open>usecases/report_partner.py\<close>, \<open>usecases/report_municipal.py\<close> and
  \<open>usecases/report_splitter.py\<close>. What the PDF libraries say of a file is a parameter: the text of
  pdfminer, None if it raises, and the document of PyMuPDF, None if it does not open, with the
  text and the words of each page, None if reading them raises.
\<close>

subsection \<open>Records\<close>

record invoice_rec =
  iv_source_file :: ustr
  iv_invoice_id :: "ustr option"
  iv_invoice_date :: "ustr option"
  iv_invoice_from :: "ustr option"
  iv_invoice_for :: "ustr option"
  iv_base_before_vat :: "rat option"
  iv_invoice_vat :: "rat option"
  iv_invoice_total :: "rat option"
  iv_currency :: "ustr option"
  iv_notes :: "ustr option"
  iv_breakdown_sum :: "rat option"
  iv_breakdown_values :: "rat list option"
  iv_vat_rate :: "rat option"
  iv_period_start :: "ustr option"
  iv_period_end :: "ustr option"
  iv_period_label :: "ustr option"
  iv_due_date :: "ustr option"
  iv_category :: "ustr option"
  iv_category_confidence :: "rat option"
  iv_category_rule :: "ustr option"
  iv_reference_numbers :: "ustr list option"
  iv_data_source :: "ustr option"
  iv_parse_confidence :: "rat option"
  iv_municipal :: "bool option"
  iv_duplicate_hash :: "ustr option"

definition new_record :: "ustr \<Rightarrow> invoice_rec" where
  "new_record source_file =
     \<lparr>iv_source_file = source_file, iv_invoice_id = None, iv_invoice_date = None, iv_invoice_from = None,
      iv_invoice_for = None, iv_base_before_vat = None, iv_invoice_vat = None, iv_invoice_total = None,
      iv_currency = Some [8362], iv_notes = None, iv_breakdown_sum = None, iv_breakdown_values = None,
      iv_vat_rate = None, iv_period_start = None, iv_period_end = None, iv_period_label = None,
      iv_due_date = None, iv_category = None, iv_category_confidence = None, iv_category_rule = None,
      iv_reference_numbers = None, iv_data_source = None, iv_parse_confidence = None, iv_municipal = None,
      iv_duplicate_hash = None\<rparr>"


subsection \<open>Classification and confidence\<close>

definition transport_vendors :: "ustr list" where
  "transport_vendors =
     [[1491, 1503, 32, 1495, 1489, 1512, 1492, 32, 1500, 1514, 1495, 1489, 1493, 1512, 1492, 32, 1510,
     1497, 1489, 1493, 1512, 1497, 1514, 32, 1489, 1506, 34, 1502], [1502, 1513, 1512, 1491, 32, 1492,
     1514, 1495, 1489, 1493, 1512, 1492, 32, 1493, 1492, 1489, 1496, 1497, 1495, 1493, 1514, 32, 1489,
     1491, 1512, 1499, 1497, 1501], [1514, 1497, 1512, 1493, 1489, 1497, 1510, 32, 1492, 1512, 1493,
     1489, 1495, 1514], [1514, 1497, 1512, 1493, 1489, 1497, 1510, 1492, 32, 1492, 1512, 1493, 1489,
     1495, 1514], [1492, 1514, 1495, 1489, 1493, 1512, 1492, 32, 1492, 1510, 1497, 1489, 1493, 1512,
     1497, 1514], [1512, 1489, 45, 1511, 1493], [1493, 1511, 45, 1489, 1512], lit ''ravpass'', lit
     ''rav-kav'', lit ''ravkav'', lit ''rav kav'']"

definition transport_words :: "ustr list" where
  "transport_words =
     [[1514, 1495, 1489, 1493, 1512, 1492, 32, 1510, 1497, 1489, 1493, 1512, 1497, 1514], lit
     ''ravpass'', lit ''rav-kav'', lit ''bus'', lit ''train'', lit ''light rail'', lit ''travel card'']"

definition communication_vendors :: "ustr list" where
  "communication_vendors =
     [[1489, 1494, 1511], lit ''bezeq'', lit ''cellcom'', lit ''partner'', [1508, 1512, 1496, 1504,
     1512], lit ''hot'', lit ''yes'', [1505, 1496, 1497, 1504, 1490], lit ''stingtv'', [1512, 1502, 1497,
     32, 1500, 1493, 1497], [1512, 1502, 1497, 32, 1500, 1493, 1497, 32, 1514, 1511, 1513, 1493, 1512,
     1514], lit ''rami levy'', lit ''rami-levy'']"

definition communication_words :: "ustr list" where
  "communication_words =
     [[1514, 1511, 1513, 1493, 1512, 1514], [1488, 1497, 1504, 1496, 1512, 1504, 1496], lit ''internet'',
     lit ''fiber'', lit ''broadband'']"

definition utility_vendors :: "ustr list" where
  "utility_vendors =
     [[1495, 1513, 1502, 1500], [1495, 1489, 1512, 1514, 32, 1492, 1495, 1513, 1502, 1500], [1502, 1497,
     1501], [1514, 1488, 1490, 1497, 1491, 32, 1502, 1497, 1501], [1488, 1512, 1504, 1493, 1504, 1492],
     lit ''city'', lit ''municipality'']"

definition software_vendors :: "ustr list" where
  "software_vendors =
     [lit ''google'', lit ''microsoft'', lit ''aws'', lit ''stripe'', lit ''notion'', lit ''slack'']"

record category_rule =
  cr_category :: ustr
  cr_weight :: rat
  cr_vendors :: "ustr list"
  cr_words :: "ustr list"

definition float_of :: "rat \<Rightarrow> rat" where "float_of x = round_double x"

definition category_rules :: "category_rule list" where
  "category_rules =
     [\<lparr>cr_category = (lit ''transportation''), cr_weight = float_of (95 / 100), cr_vendors = transport_vendors, cr_words = transport_words\<rparr>,
      \<lparr>cr_category = (lit ''communication''), cr_weight = 1, cr_vendors = communication_vendors, cr_words = communication_words\<rparr>,
      \<lparr>cr_category = (lit ''utilities''), cr_weight = float_of (9 / 10), cr_vendors = utility_vendors, cr_words = [(lit ''bill''), (lit ''utility'')]\<rparr>,
      \<lparr>cr_category = (lit ''software_saas''), cr_weight = float_of (8 / 10), cr_vendors = software_vendors,
       cr_words = [(lit ''subscription''), (lit ''license'')]\<rparr>,
      \<lparr>cr_category = (lit ''finance''), cr_weight = float_of (7 / 10),
       cr_vendors = [(lit ''visa''), (lit ''mastercard''), (lit ''amex''), (lit ''isracard'')], cr_words = [[1499, 1512, 1496, 1497, 1505, 32, 1488, 1513, 1512, 1488, 1497]]\<rparr>,
      \<lparr>cr_category = (lit ''services''), cr_weight = float_of (6 / 10),
       cr_vendors = [[1511, 1512, 1503, 45, 1502, 1491, 1512, 1497, 1499, 1514, 32, 1492, 1493, 1512, 1497, 1501, 32, 1493, 1514, 1497, 1504, 1493, 1511, 1493, 1514], [1488, 1493, 1508, 1511, 32, 1492, 1508, 1511, 1493, 1514]], cr_words = [[1513, 1497, 1512, 1493, 1514], (lit ''service''), (lit ''support'')]\<rparr>]"

type_synonym classification = "ustr option \<times> rat option \<times> ustr option"

definition rule_hit :: "ucd \<Rightarrow> ustr \<Rightarrow> ustr \<Rightarrow> category_rule \<Rightarrow> classification option" where
  "rule_hit u text_lower supplier_lower r =
     (case find (\<lambda>k. contains (u_lower u k) supplier_lower) (cr_vendors r) of
        Some k \<Rightarrow> Some (Some (cr_category r), Some (cr_weight r), Some ((lit ''vendor:'') @ k))
      | None \<Rightarrow>
          map_option (\<lambda>k. (Some (cr_category r), Some (f_mul (cr_weight r) (float_of (85 / 100))), Some ((lit ''keyword:'') @ k)))
            (find (\<lambda>k. contains (u_lower u k) text_lower) (cr_words r)))"

definition classify_invoice :: "ucd \<Rightarrow> ustr \<Rightarrow> ustr option \<Rightarrow> bool \<Rightarrow> classification" where
  "classify_invoice u txt supplier municipal =
     (if municipal then (Some (lit ''municipal_tax''), Some 1, Some (lit ''municipal_flag''))
      else (case first_some_of
                  (rule_hit u (u_lower u txt) (u_lower u (case supplier of Some s \<Rightarrow> s | None \<Rightarrow> []))) category_rules of
              Some c \<Rightarrow> c
            | None \<Rightarrow> (None, None, None)))"

definition plus_if :: "bool \<Rightarrow> rat \<Rightarrow> rat \<Rightarrow> rat" where
  "plus_if b x c = (if b then f_add c (float_of x) else c)"

definition compute_parse_confidence :: "invoice_rec \<Rightarrow> rat" where
  "compute_parse_confidence r =
     (let c = float_of (4 / 10);
          c = plus_if (iv_invoice_total r \<noteq> None) (25 / 100) c;
          c = plus_if (iv_invoice_vat r \<noteq> None) (1 / 10) c;
          c = plus_if (case (iv_breakdown_sum r, iv_invoice_total r) of
                         (Some s, Some t) \<Rightarrow> s \<noteq> 0 \<and> t \<noteq> 0 \<and> \<bar>f_sub s t\<bar> \<le> 1 | _ \<Rightarrow> False) (15 / 100) c;
          c = plus_if (nonempty (iv_period_start r) \<noteq> None \<or> nonempty (iv_period_end r) \<noteq> None) (5 / 100) c;
          c = plus_if (case iv_reference_numbers r of Some refs \<Rightarrow> refs \<noteq> [] | None \<Rightarrow> False) (5 / 100) c;
          c = plus_if (nonempty (iv_category r) \<noteq> None) (5 / 100) c
      in min c (float_of (99 / 100)))"


subsection \<open>Documents\<close>

record pdf_word =
  wd_x0 :: rat
  wd_y0 :: rat
  wd_text :: ustr
  wd_block :: int
  wd_line :: int

record pdf_page =
  pg_text :: "ustr option"
  pg_words :: "pdf_word list option"

record pdf_file =
  pf_name :: ustr
  pf_miner :: "ustr option"
  pf_doc :: "pdf_page list option"
  pf_sha256 :: "ustr option"

definition extract_text_with_pymupdf :: "bool \<Rightarrow> pdf_file \<Rightarrow> ustr" where
  "extract_text_with_pymupdf have f =
     (if have then (case pf_doc f of Some pages \<Rightarrow> u_join [10] (List.map_filter pg_text pages) | None \<Rightarrow> []) else [])"


subsection \<open>Partner's periodic bills\<close>

definition partner_periodic_markers :: "ustr list" where
  "partner_periodic_markers = [[1495, 1513, 1489, 1493, 1503, 32, 1514, 1511, 1493, 1508, 1514, 1497], [1502, 1511, 1493, 1512, 45, 1514, 1511, 1493, 1508, 1514, 1497], [1495, 1513, 1489, 1493, 1503, 32, 1502, 1511, 1493, 1512, 45, 1514, 1511, 1493, 1508, 1514, 1497]]"

record partner_totals =
  pt_invoice_total :: "rat option"
  pt_base_before_vat :: "rat option"
  pt_invoice_vat :: "rat option"

definition split_amount :: regex where
  "split_amount =
     rseq [RGroup 1 (RRep 1 (Some 2) True (RSet True [Digit])), RRep 0 None True (RSet True [Space]),
     RSet True [Lit 46], RRep 0 None True (RSet True [Space]), RGroup 2 (RRep 3 None True (RSet True
     [Digit, Lit 44]))]"

definition point_amount :: regex where
  "point_amount =
     rseq [RRep 1 None True (RSet True [Digit, Lit 44]), RSet True [Lit 46], RRep 2 (Some 2) True (RSet
     True [Digit])]"

definition comma_amount :: regex where
  "comma_amount =
     RRep 1 None True (RSet True [Digit, Lit 44])"

definition parse_partner_amount_fragment :: "ucd \<Rightarrow> ustr \<Rightarrow> rat option" where
  "parse_partner_amount_fragment u fragment =
     (let cleaned = squeeze u (map (\<lambda>c. if c = 123 \<or> c = 125 then 32 else c) fragment)
      in or_else
           (case re_search u False split_amount cleaned of
              Some m \<Rightarrow> parse_number u (group_text m 2 @ 46 # group_text m 1)
            | None \<Rightarrow> None)
           (case re_findall u False point_amount 0 cleaned of
              t # _ \<Rightarrow> parse_number u t
            | [] \<Rightarrow> (case re_findall u False comma_amount 0 cleaned of t # _ \<Rightarrow> parse_number u t | [] \<Rightarrow> None)))"

definition partner_total_marker :: regex where
  "partner_total_marker =
     rseq [rlit [1505, 1492], RRep 0 (Some 1) True (RSet True [Lit 34, Lit 1524, Lit 39]), RSet True [Lit
     1499], RRep 1 None True (RSet True [Space]), rlit [1495, 1497, 1493, 1489, 1497, 1501], RRep 1 None
     True (RSet True [Space]), rlit [1493, 1494, 1497, 1499, 1493, 1497, 1497, 1501], RRep 1 None True
     (RSet True [Space]), rlit [1500, 1514, 1511, 1493, 1508, 1514], RRep 1 None True (RSet True
     [Space]), rlit [1492, 1495, 1513, 1489, 1493, 1503], RRep 1 None True (RSet True [Space]), rlit
     [1499, 1493, 1500, 1500], RRep 1 None True (RSet True [Space]), rlit [1502, 1506], RRep 0 (Some 1)
     True (RSet True [Lit 34]), RSet True [Lit 1502]]"

definition partner_payable_marker :: regex where
  "partner_payable_marker =
     rseq [rlit [1505, 1492], RRep 0 (Some 1) True (RSet True [Lit 34, Lit 1524, Lit 39]), RSet True [Lit
     1499], RRep 1 None True (RSet True [Space]), rlit [1500, 1514, 1513, 1500, 1493, 1501]]"

definition partner_base_marker :: regex where
  "partner_base_marker =
     rseq [rlit [1505, 1492], RRep 0 (Some 1) True (RSet True [Lit 34, Lit 1524, Lit 39]), RSet True [Lit
     1499], RRep 1 None True (RSet True [Space]), rlit [1495, 1497, 1493, 1489, 1497], RRep 1 None True
     (RSet True [Space]), rlit [1492, 1495, 1513, 1489, 1493, 1503], RRep 1 None True (RSet True
     [Space]), rlit [1500, 1488], RRep 1 None True (RSet True [Space]), rlit [1499, 1493, 1500, 1500],
     RRep 1 None True (RSet True [Space]), rlit [1502, 1506], RRep 0 (Some 1) True (RSet True [Lit 34]),
     RSet True [Lit 1502]]"

definition partner_vat_marker :: regex where
  "partner_vat_marker =
     rseq [rlit [1502, 1506], RRep 0 (Some 1) True (RSet True [Lit 34]), RSet True [Lit 1502], RRep 0
     (Some 1) True (RSet True [Lit 37]), RRep 0 None True (RSet True [Space]), rlit [49, 56]]"

definition extract_partner_amount :: "ucd \<Rightarrow> ustr \<Rightarrow> regex \<Rightarrow> rat option" where
  "extract_partner_amount u normalized marker =
     (case re_search u False (RSeq marker (RGroup 1 (RRep 0 (Some 80) True RAny))) normalized of
        None \<Rightarrow> None
      | Some m \<Rightarrow> parse_partner_amount_fragment u (group_text m 1))"

definition extract_partner_totals_from_text :: "ucd \<Rightarrow> ustr \<Rightarrow> partner_totals" where
  "extract_partner_totals_from_text u txt =
     (let normalized = squeeze u txt
      in \<lparr>pt_invoice_total = or_else (extract_partner_amount u normalized partner_total_marker)
            (extract_partner_amount u normalized partner_payable_marker),
          pt_base_before_vat = extract_partner_amount u normalized partner_base_marker,
          pt_invoice_vat = extract_partner_amount u normalized partner_vat_marker\<rparr>)"

definition page_error :: exn where "page_error = RuntimeError ''page not readable''"

fun partner_pages :: "ucd \<Rightarrow> pdf_page list \<Rightarrow> (partner_totals option) res" where
  "partner_pages u [] = Inr None"
| "partner_pages u (page # pages) =
     (case pg_text page of
        None \<Rightarrow> Inl page_error
      | Some txt \<Rightarrow>
          let normalized = squeeze u txt; totals = extract_partner_totals_from_text u txt in
          if txt \<noteq> [] \<and> all_of [[1495, 1513, 1489, 1493, 1503], [1514, 1511, 1493, 1508, 1514, 1497]] normalized \<and> any_of partner_periodic_markers normalized \<and>
             pt_invoice_total totals \<noteq> None
          then Inr (Some totals) else partner_pages u pages)"

definition extract_partner_totals_from_pdf :: "ucd \<Rightarrow> bool \<Rightarrow> pdf_file \<Rightarrow> (partner_totals option) res" where
  "extract_partner_totals_from_pdf u have f =
     (if have then (case pf_doc f of Some pages \<Rightarrow> partner_pages u pages | None \<Rightarrow> Inr None) else Inr None)"


subsection \<open>One invoice\<close>

definition breakdown_note :: ustr where
  "breakdown_note = (lit ''Total differs from breakdown sum'')"

definition add_note :: "invoice_rec \<Rightarrow> invoice_rec" where
  "add_note r =
     r\<lparr>iv_notes := Some ((case nonempty (iv_notes r) of Some n \<Rightarrow> n @ lit ''; '' | None \<Rightarrow> []) @ breakdown_note)\<rparr>"

definition shortened :: "ustr option \<Rightarrow> ustr option" where
  "shortened s = map_option (\<lambda>s. if 120 < length s then take 117 s @ lit ''...'' else s) s"

definition sender_of :: "ucd \<Rightarrow> ustr list \<Rightarrow> ustr \<Rightarrow> ustr \<Rightarrow> ustr option" where
  "sender_of u lines txt extra_text =
     (let first_try = infer_invoice_from u lines txt;
          extra_lines = (if extra_text = [] then [] else extract_lines u extra_text)
      in shortened
           (if (case nonempty first_try of None \<Rightarrow> True | Some s \<Rightarrow> has_prefix [58] s) \<and> extra_lines \<noteq> []
            then or_else (nonempty (infer_invoice_from u extra_lines extra_text)) first_try else first_try))"

definition description_of :: "ucd \<Rightarrow> ustr list \<Rightarrow> ustr \<Rightarrow> ustr \<Rightarrow> ustr option" where
  "description_of u lines txt extra_text =
     (let first_try = infer_invoice_for u lines txt;
          extra_lines = (if extra_text = [] then [] else extract_lines u extra_text)
      in if nonempty first_try = None \<and> extra_lines \<noteq> [] then infer_invoice_for u extra_lines extra_text else first_try)"

definition with_partner_totals :: "partner_totals option \<Rightarrow> totals_result \<Rightarrow> totals_result" where
  "with_partner_totals partner t =
     (case partner of
        None \<Rightarrow> t
      | Some p \<Rightarrow>
          t\<lparr>tr_invoice_total := or_else (pt_invoice_total p) (tr_invoice_total t),
            tr_invoice_vat := or_else (pt_invoice_vat p) (tr_invoice_vat t),
            tr_base_before_vat := or_else (pt_base_before_vat p) (tr_base_before_vat t)\<rparr>)"

definition partner_words :: "ustr list" where
  "partner_words = [[1508, 1512, 1496, 1504, 1512], (lit ''partner''), (lit ''Partner'')]"

definition with_totals :: "totals_result \<Rightarrow> invoice_rec \<Rightarrow> invoice_rec" where
  "with_totals t r =
     (let r = r\<lparr>iv_invoice_total := tr_invoice_total t, iv_invoice_vat := tr_invoice_vat t,
                iv_breakdown_sum := tr_breakdown_sum t,
                iv_breakdown_values := (if tr_breakdown_values t \<noteq> [] then Some (tr_breakdown_values t) else iv_breakdown_values r),
                iv_base_before_vat := tr_base_before_vat t, iv_vat_rate := tr_vat_rate t,
                iv_municipal := Some (tr_municipal t)\<rparr>
      in case (tr_breakdown_sum t, tr_invoice_total t) of
           (Some s, Some x) \<Rightarrow> if 1 < \<bar>f_sub s x\<bar> then add_note r else r
         | _ \<Rightarrow> r)"

definition petah_tikva :: ustr where "petah_tikva = [1506, 1497, 1512, 1497, 1497, 1514, 32, 1508, 1514, 1495, 32, 1514, 1511, 1493, 1493, 1492]"
definition local_authority :: ustr where "local_authority = [1512, 1513, 1493, 1514, 32, 1502, 1511, 1493, 1502, 1497, 1514]"

definition municipal_defaults :: "ustr \<Rightarrow> invoice_rec \<Rightarrow> invoice_rec" where
  "municipal_defaults txt r =
     (if iv_municipal r = Some True
      then r\<lparr>iv_invoice_from :=
               (if nonempty (iv_invoice_from r) \<noteq> None then iv_invoice_from r
                else Some (if any_of petah_tikva_keywords txt then petah_tikva else local_authority)),
             iv_invoice_vat := or_else (iv_invoice_vat r) (Some 0)\<rparr>
      else r)"

definition with_details :: "ucd \<Rightarrow> ustr \<Rightarrow> bool \<Rightarrow> ustr option \<Rightarrow> period \<Rightarrow> ustr option \<Rightarrow> invoice_rec \<Rightarrow> invoice_rec" where
  "with_details u txt used_fallback sha period due r =
     (let (s, e, label) = period;
          refs = extract_reference_numbers u txt;
          (category, confidence, rule) = classify_invoice u txt (iv_invoice_from r) (iv_municipal r = Some True);
          r = r\<lparr>iv_period_start := s, iv_period_end := e, iv_period_label := label, iv_due_date := due,
                iv_reference_numbers := (if refs \<noteq> [] then Some refs else iv_reference_numbers r),
                iv_category := category, iv_category_confidence := confidence, iv_category_rule := rule,
                iv_data_source := Some (if used_fallback then (lit ''pymupdf'') else (lit ''pdfminer'')),
                iv_duplicate_hash := sha\<rparr>
      in r\<lparr>iv_parse_confidence := Some (compute_parse_confidence r)\<rparr>)"

definition first_record :: "ucd \<Rightarrow> pdf_file \<Rightarrow> ustr list \<Rightarrow> ustr \<Rightarrow> ustr \<Rightarrow> invoice_rec" where
  "first_record u f lines txt mupdf =
     (new_record (pf_name f))
       \<lparr>iv_invoice_id := infer_invoice_id u lines txt, iv_invoice_date := infer_invoice_date u txt,
        iv_invoice_from := sender_of u lines txt mupdf, iv_invoice_for := description_of u lines txt mupdf\<rparr>"

definition parse_invoice :: "ucd \<Rightarrow> bool \<Rightarrow> pdf_file \<Rightarrow> invoice_rec res" where
  "parse_invoice u have f =
     (let miner = (case pf_miner f of Some t \<Rightarrow> t | None \<Rightarrow> []);
          mupdf = extract_text_with_pymupdf have f;
          used_fallback = (needs_fallback_text u miner \<and> mupdf \<noteq> []);
          txt = (if used_fallback then mupdf else miner);
          lines = extract_lines u txt;
          r = first_record u f lines txt mupdf;
          t = infer_totals u lines txt (extract_lines u miner)
      in if miner = [] then Inr ((new_record (pf_name f))\<lparr>iv_notes := Some (lit ''extract_text_failed'')\<rparr>)
         else
           res_bind (if any_of partner_words txt then extract_partner_totals_from_pdf u have f else Inr None) (\<lambda>partner.
           let r = municipal_defaults txt (with_totals (with_partner_totals partner t) r) in
           res_bind (extract_period_info u txt) (\<lambda>period.
           res_bind (extract_due_date u txt) (\<lambda>due.
             Inr (with_details u txt used_fallback (pf_sha256 f) period due r)))))"


subsection \<open>Classification\<close>

lemma rule_hit_category: "rule_hit u t s r = Some c \<Longrightarrow> fst c = Some (cr_category r)"
  by (auto simp: rule_hit_def split: option.splits)

text \<open>
  Any invoice with the letters \<open>bus\<close> anywhere in its text, such as a ``business account'', is
  classified as transportation, whoever it is from, unless it is municipal.
\<close>

theorem bus_means_transportation:
  assumes "contains (lit ''bus'') (u_lower u txt)" and "u_lower u (lit ''bus'') = lit ''bus''"
  shows "fst (classify_invoice u txt supplier False) = Some (lit ''transportation'')"
proof -
  let ?r = "hd category_rules" and ?s = "u_lower u (case supplier of Some s \<Rightarrow> s | None \<Rightarrow> [])"
  have bus: "lit ''bus'' \<in> set (cr_words ?r)" by (simp add: category_rules_def transport_words_def)
  have "find (\<lambda>k. contains (u_lower u k) (u_lower u txt)) (cr_words ?r) \<noteq> None"
    using assms bus by (auto simp: find_None_iff)
  then have "rule_hit u (u_lower u txt) ?s ?r \<noteq> None" by (auto simp: rule_hit_def split: option.splits)
  then obtain c where c: "rule_hit u (u_lower u txt) ?s ?r = Some c" by blast
  have "cr_category ?r = lit ''transportation''" by (simp add: category_rules_def)
  with rule_hit_category [OF c] c show ?thesis
    by (simp add: classify_invoice_def category_rules_def)
qed

lemma bus_means_transportation_witness:
  "fst (classify_invoice toy_ucd (lit ''Google Workspace Business'') (Some (lit ''google'')) False) = Some (lit ''transportation'')"
  by (rule bus_means_transportation) code_simp+

subsection \<open>The record\<close>

lemma confidence_bound: "compute_parse_confidence r \<le> float_of (99 / 100)"
  by (simp add: compute_parse_confidence_def Let_def)

lemma distinct_refs_sound:
  "distinct ordered \<Longrightarrow> length ordered < 5 \<Longrightarrow> [] \<notin> set ordered \<Longrightarrow>
     distinct (distinct_refs u ordered refs) \<and> length (distinct_refs u ordered refs) \<le> 5 \<and>
     [] \<notin> set (distinct_refs u ordered refs)"
  by (induction u ordered refs rule: distinct_refs.induct) (auto simp: Let_def)

lemma references_sound:
  "distinct (extract_reference_numbers u txt) \<and> length (extract_reference_numbers u txt) \<le> 5 \<and>
     [] \<notin> set (extract_reference_numbers u txt)"
  by (simp add: extract_reference_numbers_def distinct_refs_sound)

lemma shortened_length: "shortened s = Some t \<Longrightarrow> length t \<le> 120"
  by (cases s; cases "120 < length (the s)") (auto simp: shortened_def lit_def)

lemma add_note_simps [simp]:
  "iv_source_file (add_note r) = iv_source_file r" "iv_invoice_from (add_note r) = iv_invoice_from r"
  "iv_invoice_vat (add_note r) = iv_invoice_vat r" "iv_municipal (add_note r) = iv_municipal r"
  "iv_reference_numbers (add_note r) = iv_reference_numbers r" "iv_invoice_id (add_note r) = iv_invoice_id r"
  "iv_base_before_vat (add_note r) = iv_base_before_vat r" "iv_parse_confidence (add_note r) = iv_parse_confidence r"
  by (simp_all add: add_note_def)

lemma with_totals_simps [simp]:
  "iv_source_file (with_totals t r) = iv_source_file r" "iv_invoice_from (with_totals t r) = iv_invoice_from r"
  "iv_municipal (with_totals t r) = Some (tr_municipal t)" "iv_reference_numbers (with_totals t r) = iv_reference_numbers r"
  by (simp_all add: with_totals_def Let_def split: option.splits)

lemma municipal_defaults_simps [simp]:
  "iv_source_file (municipal_defaults txt r) = iv_source_file r" "iv_municipal (municipal_defaults txt r) = iv_municipal r"
  "iv_reference_numbers (municipal_defaults txt r) = iv_reference_numbers r"
  by (simp_all add: municipal_defaults_def)

lemma municipal_defaults_given:
  "iv_municipal r = Some True \<Longrightarrow>
     iv_invoice_vat (municipal_defaults txt r) \<noteq> None \<and> nonempty (iv_invoice_from (municipal_defaults txt r)) \<noteq> None"
  by (auto simp: municipal_defaults_def or_else_def nonempty_def petah_tikva_def local_authority_def split: option.splits if_splits)

lemma municipal_defaults_from:
  "\<forall>s. iv_invoice_from r = Some s \<longrightarrow> length s \<le> 120 \<Longrightarrow> iv_invoice_from (municipal_defaults txt r) = Some s \<Longrightarrow> length s \<le> 120"
  by (auto simp: municipal_defaults_def petah_tikva_def local_authority_def split: if_splits)

definition record_ok :: "pdf_file \<Rightarrow> invoice_rec \<Rightarrow> bool" where
  "record_ok f r \<longleftrightarrow>
     iv_source_file r = pf_name f \<and>
     (case iv_parse_confidence r of Some c \<Rightarrow> c \<le> float_of (99 / 100) | None \<Rightarrow> iv_notes r = Some (lit ''extract_text_failed'')) \<and>
     (case iv_invoice_from r of Some s \<Rightarrow> length s \<le> 120 | None \<Rightarrow> True) \<and>
     (case iv_reference_numbers r of
        Some refs \<Rightarrow> refs \<noteq> [] \<and> distinct refs \<and> length refs \<le> 5 \<and> [] \<notin> set refs | None \<Rightarrow> True) \<and>
     (iv_municipal r = Some True \<longrightarrow> iv_invoice_vat r \<noteq> None \<and> nonempty (iv_invoice_from r) \<noteq> None \<and>
        iv_category r = Some (lit ''municipal_tax''))"

lemma with_details_ok:
  assumes "iv_source_file r = pf_name f" "\<forall>s. iv_invoice_from r = Some s \<longrightarrow> length s \<le> 120" "iv_reference_numbers r = None"
    and "iv_municipal r = Some True \<longrightarrow> iv_invoice_vat r \<noteq> None \<and> nonempty (iv_invoice_from r) \<noteq> None"
  shows "record_ok f (with_details u txt used sha period due r)"
proof -
  obtain s e l where "period = (s, e, l)" by (cases period)
  moreover obtain a b c where c: "classify_invoice u txt (iv_invoice_from r) (iv_municipal r = Some True) = (a, b, c)"
    by (cases "classify_invoice u txt (iv_invoice_from r) (iv_municipal r = Some True)")
  moreover have "iv_municipal r = Some True \<Longrightarrow> a = Some (lit ''municipal_tax'')"
    using c by (auto simp: classify_invoice_def)
  ultimately show ?thesis
    using assms references_sound [of u "txt"] confidence_bound
    by (auto simp: with_details_def record_ok_def Let_def split: option.splits)
qed

lemma parse_invoice_parts:
  assumes "parse_invoice u have f = Inr r" "(case pf_miner f of Some t \<Rightarrow> t | None \<Rightarrow> []) \<noteq> []"
  shows "\<exists>lines body mupdf used period due t. r = with_details u body used (pf_sha256 f) period due
    (municipal_defaults body (with_totals t (first_record u f lines body mupdf)))"
  using assms(1) unfolding parse_invoice_def Let_def if_not_P [OF assms(2)] res_bind_Inr sum.inject by blast

text \<open>
  C36: A record carries the name of its file and, unless no text could be read, a confidence of
  at most 0.99; its vendor has at most 120 characters; its reference numbers are distinct,
  non-empty and at most five; and a municipal record names a vendor, has a VAT amount and the
  municipal category.
\<close>

theorem parse_invoice_sound:
  assumes "parse_invoice u have f = Inr r"
  shows "record_ok f r"
proof (cases "(case pf_miner f of Some t \<Rightarrow> t | None \<Rightarrow> []) = []")
  case True
  then show ?thesis using assms by (auto simp: parse_invoice_def record_ok_def new_record_def Let_def)
next
  case False
  from parse_invoice_parts [OF assms False] obtain lines body mupdf used period due t where r:
    "r = with_details u body used (pf_sha256 f) period due
       (municipal_defaults body (with_totals t (first_record u f lines body mupdf)))" by blast
  let ?r = "with_totals t (first_record u f lines body mupdf)"
  have first: "iv_source_file ?r = pf_name f" "iv_reference_numbers ?r = None"
    "\<exists>s. iv_invoice_from ?r = shortened s"
    by (simp_all add: first_record_def new_record_def sender_of_def Let_def) blast
  have "\<forall>s. iv_invoice_from (municipal_defaults body ?r) = Some s \<longrightarrow> length s \<le> 120"
    using first(3) shortened_length municipal_defaults_from [of ?r body] by metis
  moreover have "iv_municipal ?r = Some True \<longrightarrow>
      iv_invoice_vat (municipal_defaults body ?r) \<noteq> None \<and> nonempty (iv_invoice_from (municipal_defaults body ?r)) \<noteq> None"
    using municipal_defaults_given [of ?r body] by blast
  ultimately show ?thesis
    unfolding r using first(1,2) by (intro with_details_ok) (simp_all only: municipal_defaults_simps)
qed

definition demo_bus_bill :: pdf_file where
  "demo_bus_bill =
     \<lparr>pf_name = lit ''a.pdf'', pf_miner = Some (lit ''Due Date: 5/2/24 bus''), pf_doc = None, pf_sha256 = None\<rparr>"

lemma demo_bus_bill_ok:
  "(case parse_invoice toy_ucd False demo_bus_bill of
      Inr r \<Rightarrow> iv_due_date r = Some (lit ''2024-02-05'') \<and> iv_category r = Some (lit ''transportation'')
    | Inl e \<Rightarrow> False)"
  by code_simp

lemma parse_invoice_sound_witness:
  "\<exists>r. parse_invoice toy_ucd False demo_bus_bill = Inr r \<and> record_ok demo_bus_bill r \<and>
     iv_due_date r = Some (lit ''2024-02-05'')"
proof -
  from demo_bus_bill_ok obtain r where r: "parse_invoice toy_ucd False demo_bus_bill = Inr r"
    "iv_due_date r = Some (lit ''2024-02-05'')"
    by (auto split: sum.splits)
  with parse_invoice_sound [OF r(1)] show ?thesis by blast
qed

end
