(* ===== verification/Report_Split.thy ===== *)
theory Report_Split
  imports Report_Parser
begin

text \<open>
  Several invoices in one municipal file (\<open>split_municipal_multi_invoice\<close>) and the loop over the
  files of a report (\<open>generate_report\<close>).
\<close>

subsection \<open>Municipal files with several invoices\<close>

definition direct_debit_labels :: "ustr list" where
  "direct_debit_labels = [[1505, 1492, 34, 1499, 32, 1497, 1490, 1489, 1492, 32, 1502, 1492, 1495, 1513, 1489, 1493, 1503], [1505, 1492, 34, 1499, 32, 1497, 1490, 1489, 1492]]"

definition municipal_breakdown_markers :: "ustr list" where
  "municipal_breakdown_markers = [[1495, 1497, 1493, 1489, 32, 1514, 1511, 1493, 1508, 1514, 1497], [1495, 1497, 1493, 1489, 32, 1513, 1504, 1514, 1497], [1492, 1504, 1495, 1514, 32, 1490, 1489, 1497, 1492], [1492, 1504, 1495, 1514, 32, 1514, 1513, 1500, 1493, 1501]]"

text \<open>A line that is a number of 8 to 12 digits, below one with letters; \<open>earlier\<close> is nearest first.\<close>

fun municipal_id :: "ucd \<Rightarrow> ustr list \<Rightarrow> ustr list \<Rightarrow> (ustr \<times> ustr) option" where
  "municipal_id u earlier [] = None"
| "municipal_id u earlier (line # lines) =
     (let token = re_sub u False (run_of True [Space]) (\<lambda>_. []) line;
          prev = find (\<lambda>s. s \<noteq> []) (map (u_strip u) earlier)
      in if u_is_digits u token \<and> 8 \<le> length token \<and> length token \<le> 12 \<and>
            (case prev of Some p \<Rightarrow> has_letter p | None \<Rightarrow> False)
         then Some (token, the prev) else municipal_id u (line # earlier) lines)"

definition find_municipal_invoice_id :: "ucd \<Rightarrow> ustr list \<Rightarrow> (ustr \<times> ustr) option" where
  "find_municipal_invoice_id u lines = municipal_id u [] lines"

definition number_word_text :: "ustr \<Rightarrow> bool" where
  "number_word_text s \<longleftrightarrow> s \<noteq> [] \<and> list_all (\<lambda>c. (48 \<le> c \<and> c \<le> 57) \<or> c = 46 \<or> c = 44) s"

definition amount_on_line :: "ucd \<Rightarrow> ustr list \<Rightarrow> pdf_word list \<Rightarrow> rat option" where
  "amount_on_line u labels words =
     (case find (\<lambda>w. any_of labels (wd_text w)) words of
        None \<Rightarrow> None
      | Some w \<Rightarrow>
          let line_words = filter (\<lambda>v. wd_block v = wd_block w \<and> wd_line v = wd_line w) words;
              y = f_div (f_sum (map wd_y0 line_words)) (of_nat (length line_words));
              digits = filter (\<lambda>v. \<bar>f_sub (wd_y0 v) y\<bar> < float_of (6 / 10) \<and> number_word_text (wd_text v)) words
          in if digits = [] then None
             else parse_number u (concat (map wd_text (sort_key wd_x0 digits))))"

definition extract_amount_from_label :: "ucd \<Rightarrow> pdf_page \<Rightarrow> ustr list \<Rightarrow> (rat option) res" where
  "extract_amount_from_label u page labels =
     (case pg_words page of None \<Rightarrow> Inl page_error | Some words \<Rightarrow> Inr (amount_on_line u labels words))"

definition breakdown_amount :: "ucd \<Rightarrow> ustr \<Rightarrow> rat option" where
  "breakdown_amount u line =
     (if any_of municipal_breakdown_markers line
      then map_option (\<lambda>x. if any_of [[1492, 1504, 1495, 1514], [1494, 1497, 1499, 1493, 1497]] line \<or> has_prefix [45] (u_lstrip u line) then - \<bar>x\<bar> else x)
             (select_amount u (number_tokens u line))
      else None)"

definition extract_municipal_breakdown :: "ucd \<Rightarrow> ustr list \<Rightarrow> rat list option" where
  "extract_municipal_breakdown u lines =
     (let values = List.map_filter (breakdown_amount u) lines in if values = [] then None else Some values)"

record split_entry =
  se_invoice_id :: ustr
  se_invoice_for :: ustr
  se_invoice_date :: "ustr option"
  se_invoice_total :: "rat option"
  se_breakdown_values :: "rat list option"
  se_breakdown_sum :: "rat option"

definition payable_total :: "ucd \<Rightarrow> pdf_page \<Rightarrow> (rat option) res" where
  "payable_total u page =
     res_bind (extract_amount_from_label u page [[1497, 1490, 1489, 1492]]) (\<lambda>t.
       if t = None then extract_amount_from_label u page [[1500, 1514, 1513, 1500, 1493, 1501]] else Inr t)"

definition page_entry :: "ucd \<Rightarrow> pdf_page \<Rightarrow> (split_entry option) res" where
  "page_entry u page =
     (case pg_text page of
        None \<Rightarrow> Inl page_error
      | Some txt \<Rightarrow>
          let lines = extract_lines u txt in
          if txt = [] \<or> \<not> any_of direct_debit_labels txt then Inr None
          else (case find_municipal_invoice_id u lines of
                  None \<Rightarrow> Inr None
                | Some (number, description) \<Rightarrow>
                    res_bind (payable_total u page) (\<lambda>t.
                      let values = extract_municipal_breakdown u lines;
                          s = map_option (\<lambda>vs. py_round 2 (f_sum vs)) values
                      in if t = None \<and> s = None then Inr None
                         else Inr (Some \<lparr>se_invoice_id = number, se_invoice_for = description,
                                         se_invoice_date = infer_invoice_date u txt,
                                         se_invoice_total = (if t = None \<or> t = Some 0 then s else t),
                                         se_breakdown_values = values, se_breakdown_sum = s\<rparr>))))"

definition entry_record :: "invoice_rec \<Rightarrow> split_entry \<Rightarrow> invoice_rec" where
  "entry_record base e =
     (let r = base\<lparr>iv_invoice_id := Some (se_invoice_id e), iv_invoice_for := Some (se_invoice_for e),
                   iv_invoice_date := or_else (se_invoice_date e) (iv_invoice_date base),
                   iv_invoice_total := se_invoice_total e, iv_breakdown_values := se_breakdown_values e,
                   iv_breakdown_sum := se_breakdown_sum e, iv_invoice_vat := Some 0,
                   iv_data_source := Some (lit ''pymupdf'')\<rparr>;
          r = r\<lparr>iv_parse_confidence := Some (compute_parse_confidence r)\<rparr>
      in case (se_breakdown_sum e, se_invoice_total e) of
           (Some s, Some t) \<Rightarrow> if 1 < \<bar>f_sub s t\<bar> then add_note r else r
         | _ \<Rightarrow> r)"

text \<open>The first entry of each number\<close>

fun first_entries :: "ustr list \<Rightarrow> split_entry list \<Rightarrow> split_entry list" where
  "first_entries seen [] = []"
| "first_entries seen (e # es) =
     (if se_invoice_id e \<in> set seen then first_entries seen es
      else e # first_entries (se_invoice_id e # seen) es)"

definition split_municipal_multi_invoice :: "ucd \<Rightarrow> bool \<Rightarrow> pdf_file \<Rightarrow> invoice_rec \<Rightarrow> (invoice_rec list) res" where
  "split_municipal_multi_invoice u have f base =
     (if \<not> have \<or> iv_municipal base \<noteq> Some True \<or> iv_notes base = Some (lit ''extract_text_failed'') then Inr [base]
      else (case pf_doc f of
              None \<Rightarrow> Inr [base]
            | Some pages \<Rightarrow>
                res_bind (res_map (page_entry u) pages) (\<lambda>found.
                  let entries = given found; records = map (entry_record base) (first_entries [] entries)
                  in Inr (if length entries < 2 \<or> length records < 2 then [base] else records))))"

definition parse_invoices :: "ucd \<Rightarrow> bool \<Rightarrow> pdf_file \<Rightarrow> (invoice_rec list) res" where
  "parse_invoices u have f = res_bind (parse_invoice u have f) (split_municipal_multi_invoice u have f)"

text \<open>\<open>generate_report\<close>: the files of the report in order, those that exist\<close>

fun generate_records :: "ucd \<Rightarrow> bool \<Rightarrow> pdf_file list \<Rightarrow> (invoice_rec list) res" where
  "generate_records u have [] = Inr []"
| "generate_records u have (f # fs) =
     res_bind (parse_invoices u have f) (\<lambda>rs. res_bind (generate_records u have fs) (\<lambda>rest. Inr (rs @ rest)))"

definition generate_report :: "ucd \<Rightarrow> bool \<Rightarrow> bool \<Rightarrow> pdf_file option list \<Rightarrow> (invoice_rec list) res" where
  "generate_report u have dir_exists candidates =
     (if dir_exists then generate_records u have (given candidates)
      else Inl (OSError ''Input directory does not exist''))"

lemma first_entries_distinct:
  "distinct (map se_invoice_id (first_entries seen es)) \<and>
     set (map se_invoice_id (first_entries seen es)) \<inter> set seen = {} \<and>
     set (first_entries seen es) \<subseteq> set es"
  by (induction seen es rule: first_entries.induct) auto

lemma entry_record_simps [simp]:
  "iv_invoice_id (entry_record base e) = Some (se_invoice_id e)"
  "iv_invoice_vat (entry_record base e) = Some 0"
  "iv_source_file (entry_record base e) = iv_source_file base"
  "iv_base_before_vat (entry_record base e) = iv_base_before_vat base"
  by (simp_all add: entry_record_def Let_def split: option.splits)

text \<open>
  C37: Splitting a municipal file keeps the record it was given or replaces it by at least two, of
  the same file, with pairwise different numbers and no VAT; and every one of them keeps the
  subtotal of the whole file.
\<close>

theorem split_records_sound:
  assumes "split_municipal_multi_invoice u have f base = Inr records"
  shows "records = [base] \<or>
    2 \<le> length records \<and> distinct (map iv_invoice_id records) \<and>
    (\<forall>r \<in> set records. iv_source_file r = iv_source_file base \<and> iv_invoice_id r \<noteq> None \<and>
       iv_invoice_vat r = Some 0 \<and> iv_base_before_vat r = iv_base_before_vat base)"
proof (cases "records = [base]")
  case False
  with assms obtain es where records: "records = map (entry_record base) (first_entries [] es)" "2 \<le> length records"
    by (auto simp: split_municipal_multi_invoice_def Let_def res_bind_Inr split: if_splits option.splits)
  have "map iv_invoice_id records = map Some (map se_invoice_id (first_entries [] es))"
    by (simp add: records(1))
  then have "distinct (map iv_invoice_id records)"
    using first_entries_distinct [of "[]" es] by (simp only: distinct_map) simp
  with records show ?thesis by auto
qed simp

definition demo_bill_page :: "ustr \<Rightarrow> ustr \<Rightarrow> pdf_page" where
  "demo_bill_page number amount =
     \<lparr>pg_text = Some ([1505, 1492, 34, 1499, 32, 1497, 1490, 1489, 1492] @ [10, 97, 10] @ number),
      pg_words = Some [\<lparr>wd_x0 = 5, wd_y0 = 0, wd_text = [1497, 1490, 1489, 1492], wd_block = 1, wd_line = 1\<rparr>,
                       \<lparr>wd_x0 = 1, wd_y0 = 0, wd_text = amount, wd_block = 1, wd_line = 1\<rparr>]\<rparr>"

definition demo_bills :: pdf_file where
  "demo_bills =
     \<lparr>pf_name = lit ''arnona.pdf'', pf_miner = None,
      pf_doc = Some [demo_bill_page (lit ''12345678'') (lit ''100.50''),
                     demo_bill_page (lit ''87654321'') (lit ''20.25'')],
      pf_sha256 = None\<rparr>"

definition demo_base :: invoice_rec where
  "demo_base = (new_record (lit ''arnona.pdf''))
     \<lparr>iv_municipal := Some True, iv_base_before_vat := Some (py_round 2 (10232 / 100))\<rparr>"

lemma demo_split:
  "(case split_municipal_multi_invoice toy_ucd True demo_bills demo_base of
      Inr rs \<Rightarrow> map (\<lambda>r. (iv_invoice_id r, iv_invoice_total r)) rs =
        [(Some (lit ''12345678''), py_float (201 / 2)), (Some (lit ''87654321''), py_float (81 / 4))]
    | Inl e \<Rightarrow> False)"
  by code_simp

lemma split_records_sound_witness:
  "\<exists>a b. split_municipal_multi_invoice toy_ucd True demo_bills demo_base = Inr [a, b] \<and>
     iv_invoice_id a \<noteq> iv_invoice_id b \<and> iv_base_before_vat a = iv_base_before_vat b"
proof -
  from demo_split obtain rs where split: "split_municipal_multi_invoice toy_ucd True demo_bills demo_base = Inr rs"
    and len: "length rs = 2"
    by (auto split: sum.splits dest: map_eq_imp_length_eq)
  obtain a b where rs: "rs = [a, b]" using len by (auto simp: numeral_2_eq_2 length_Suc_conv)
  from split_records_sound [OF split] have "iv_invoice_id a \<noteq> iv_invoice_id b" "iv_base_before_vat a = iv_base_before_vat b"
    by (simp_all add: rs)
  with split rs show ?thesis by blast
qed


subsection \<open>The whole report\<close>

lemma generate_records_exact:
  "generate_records u have fs =
     (case find (\<lambda>f. isl (parse_invoices u have f)) fs of
        Some f \<Rightarrow> Inl (projl (parse_invoices u have f))
      | None \<Rightarrow> Inr (concat (map (\<lambda>f. projr (parse_invoices u have f)) fs)))"
proof (induction fs)
  case (Cons f fs)
  then show ?case by (cases "parse_invoices u have f") (auto split: option.splits)
qed simp

text \<open>
  A report is all or nothing: it is the records of all files in their order, and the first
  file whose parsing raises ends it with that error, however many files were read before.
\<close>

theorem report_all_or_nothing:
  "generate_report u have True candidates =
     (case find (\<lambda>f. isl (parse_invoices u have f)) (given candidates) of
        Some f \<Rightarrow> Inl (projl (parse_invoices u have f))
      | None \<Rightarrow> Inr (concat (map (\<lambda>f. projr (parse_invoices u have f)) (given candidates))))"
  by (simp add: generate_report_def generate_records_exact)

definition demo_unreadable :: pdf_file where
  "demo_unreadable = \<lparr>pf_name = lit ''a.pdf'', pf_miner = None, pf_doc = None, pf_sha256 = None\<rparr>"

definition demo_thirteenth :: pdf_file where
  "demo_thirteenth =
     \<lparr>pf_name = lit ''b.pdf'', pf_miner = Some (lit ''Due Date 13/2024''), pf_doc = None, pf_sha256 = None\<rparr>"

text \<open>One date with a thirteenth month in a text loses the report of every other file.\<close>

lemma demo_lost_report:
  "generate_report toy_ucd False True [Some demo_unreadable, Some demo_thirteenth] =
     Inl (ValueError ''bad month number 13; must be 1-12'')"
  by code_simp

end
