(* ===== verification/Report_Output.thy ===== *)
theory Report_Output
  imports Report_Split
begin

text \<open>
  What \<open>cli/invoices_report.py\<close> writes of the records: the JSON and CSV reports, the totals and the
  summary CSV. The texts of the files are the results; opening and writing them is not modelled.
  \<open>csv_read\<close> is not in the source: it is the reader of RFC 4180 the CSV reports are for.
\<close>

subsection \<open>The cells of a record\<close>

datatype cell =
  CNone | CFloat rat | CBool bool | CFloats "rat list" | CTexts "ustr list" | CText ustr

definition opt_cell :: "('a \<Rightarrow> cell) \<Rightarrow> 'a option \<Rightarrow> cell" where
  "opt_cell f v = (case v of None \<Rightarrow> CNone | Some x \<Rightarrow> f x)"

definition record_fields :: "(pystr \<times> (invoice_rec \<Rightarrow> cell)) list" where
  "record_fields =
     [(''source_file'', \<lambda>r. CText (iv_source_file r)),
      (''invoice_id'', \<lambda>r. opt_cell CText (iv_invoice_id r)),
      (''invoice_date'', \<lambda>r. opt_cell CText (iv_invoice_date r)),
      (''invoice_from'', \<lambda>r. opt_cell CText (iv_invoice_from r)),
      (''invoice_for'', \<lambda>r. opt_cell CText (iv_invoice_for r)),
      (''base_before_vat'', \<lambda>r. opt_cell CFloat (iv_base_before_vat r)),
      (''invoice_vat'', \<lambda>r. opt_cell CFloat (iv_invoice_vat r)),
      (''invoice_total'', \<lambda>r. opt_cell CFloat (iv_invoice_total r)),
      (''currency'', \<lambda>r. opt_cell CText (iv_currency r)),
      (''notes'', \<lambda>r. opt_cell CText (iv_notes r)),
      (''breakdown_sum'', \<lambda>r. opt_cell CFloat (iv_breakdown_sum r)),
      (''breakdown_values'', \<lambda>r. opt_cell CFloats (iv_breakdown_values r)),
      (''vat_rate'', \<lambda>r. opt_cell CFloat (iv_vat_rate r)),
      (''period_start'', \<lambda>r. opt_cell CText (iv_period_start r)),
      (''period_end'', \<lambda>r. opt_cell CText (iv_period_end r)),
      (''period_label'', \<lambda>r. opt_cell CText (iv_period_label r)),
      (''due_date'', \<lambda>r. opt_cell CText (iv_due_date r)),
      (''category'', \<lambda>r. opt_cell CText (iv_category r)),
      (''category_confidence'', \<lambda>r. opt_cell CFloat (iv_category_confidence r)),
      (''category_rule'', \<lambda>r. opt_cell CText (iv_category_rule r)),
      (''reference_numbers'', \<lambda>r. opt_cell CTexts (iv_reference_numbers r)),
      (''data_source'', \<lambda>r. opt_cell CText (iv_data_source r)),
      (''parse_confidence'', \<lambda>r. opt_cell CFloat (iv_parse_confidence r)),
      (''municipal'', \<lambda>r. opt_cell CBool (iv_municipal r)),
      (''duplicate_hash'', \<lambda>r. opt_cell CText (iv_duplicate_hash r))]"

text \<open>\<open>json.dumps(.., ensure_ascii=False)\<close> of a string and of a list\<close>

definition json_char :: "int \<Rightarrow> ustr" where
  "json_char c =
     (if c = 34 then [92, 34] else if c = 92 then [92, 92] else if c = 10 then [92, 110]
      else if c = 13 then [92, 114] else if c = 9 then [92, 116] else if c = 12 then [92, 102]
      else if c = 8 then [92, 98]
      else if c < 32 then [92, 117, 48, 48] @ [48 + c div 16, (if c mod 16 < 10 then 48 else 87) + c mod 16]
      else [c])"

definition json_text :: "ustr \<Rightarrow> ustr" where
  "json_text s = [34] @ concat (map json_char s) @ [34]"

definition json_items :: "ustr \<Rightarrow> ustr \<Rightarrow> ustr \<Rightarrow> ustr list \<Rightarrow> ustr" where
  "json_items before_all sep after_all items =
     (if items = [] then [91, 93] else [91] @ before_all @ u_join ([44] @ sep) items @ after_all @ [93])"

definition float_text :: "rat \<Rightarrow> ustr" where "float_text x = lit (py_float_repr x)"

definition bool_text :: "bool \<Rightarrow> ustr" where "bool_text b = lit (if b then ''true'' else ''false'')"

definition cell_text :: "cell \<Rightarrow> ustr" where
  "cell_text v =
     (case v of
        CFloat x \<Rightarrow> lit (py_fixed2 x)
      | CBool b \<Rightarrow> bool_text b
      | CFloats xs \<Rightarrow> json_items [] [32] [] (map float_text xs)
      | CTexts ts \<Rightarrow> json_items [] [32] [] (map json_text ts)
      | CNone \<Rightarrow> []
      | CText s \<Rightarrow> s)"

definition to_csv_row :: "pystr list \<Rightarrow> invoice_rec \<Rightarrow> ustr list" where
  "to_csv_row cells r =
     map (\<lambda>f. cell_text (case map_of record_fields f of Some g \<Rightarrow> g r | None \<Rightarrow> CNone)) cells"

text \<open>A field that holds a comma, a quote or a line break is quoted, its quotes doubled.\<close>

definition csv_quote :: "ustr \<Rightarrow> ustr" where
  "csv_quote s =
     (if list_ex (\<lambda>c. c = 44 \<or> c = 34 \<or> c = 13 \<or> c = 10) s
      then [34] @ concat (map (\<lambda>c. if c = 34 then [34, 34] else [c]) s) @ [34] else s)"

definition report_csv_row :: "ustr list \<Rightarrow> ustr" where
  "report_csv_row cells = u_join [44] (map csv_quote cells) @ [13, 10]"

definition csv_columns :: "pystr list" where
  "csv_columns =
     [''source_file'', ''invoice_id'', ''invoice_date'', ''invoice_from'', ''invoice_for'', ''base_before_vat'',
      ''invoice_vat'', ''invoice_total'', ''currency'', ''breakdown_sum'', ''breakdown_values'', ''notes'',
      ''vat_rate'', ''period_start'', ''period_end'', ''period_label'', ''due_date'', ''category'',
      ''category_confidence'', ''category_rule'', ''reference_numbers'', ''data_source'',
      ''parse_confidence'', ''municipal'', ''duplicate_hash'']"

definition write_csv :: "invoice_rec list \<Rightarrow> ustr" where
  "write_csv records =
     report_csv_row (map lit csv_columns) @ concat (map (\<lambda>r. report_csv_row (to_csv_row csv_columns r)) records)"

text \<open>\<open>json.dump(.., indent=2)\<close> of the records as dictionaries\<close>

definition new_line :: "nat \<Rightarrow> ustr" where "new_line n = 10 # replicate n 32"

definition json_cell :: "cell \<Rightarrow> ustr" where
  "json_cell v =
     (case v of
        CNone \<Rightarrow> lit ''null''
      | CFloat x \<Rightarrow> float_text x
      | CBool b \<Rightarrow> bool_text b
      | CFloats xs \<Rightarrow> json_items (new_line 6) (new_line 6) (new_line 4) (map float_text xs)
      | CTexts ts \<Rightarrow> json_items (new_line 6) (new_line 6) (new_line 4) (map json_text ts)
      | CText s \<Rightarrow> json_text s)"

definition json_record :: "invoice_rec \<Rightarrow> ustr" where
  "json_record r =
     [123] @ new_line 4 @
     u_join ([44] @ new_line 4) (map (\<lambda>(name, g). json_text (lit name) @ [58, 32] @ json_cell (g r)) record_fields) @
     new_line 2 @ [125]"

definition write_json :: "invoice_rec list \<Rightarrow> ustr" where
  "write_json records = json_items (new_line 2) (new_line 2) (new_line 0) (map json_record records)"


subsection \<open>Totals\<close>

record column_tally =
  tl_total :: rat
  tl_abs_total :: rat
  tl_count :: int
  tl_missing :: int
  tl_zero :: int
  tl_negative :: int
  tl_positive :: int
  tl_min :: "rat option"
  tl_max :: "rat option"

definition no_column_tally :: column_tally where
  "no_column_tally = \<lparr>tl_total = 0, tl_abs_total = 0, tl_count = 0, tl_missing = 0, tl_zero = 0, tl_negative = 0,
     tl_positive = 0, tl_min = None, tl_max = None\<rparr>"

definition tally_value :: "column_tally \<Rightarrow> rat option \<Rightarrow> column_tally" where
  "tally_value t v =
     (case v of
        None \<Rightarrow> t\<lparr>tl_missing := tl_missing t + 1\<rparr>
      | Some x \<Rightarrow>
          if x = 0 then t\<lparr>tl_zero := tl_zero t + 1\<rparr>
          else t\<lparr>tl_count := tl_count t + 1, tl_total := f_add (tl_total t) x,
                 tl_abs_total := f_add (tl_abs_total t) \<bar>x\<bar>,
                 tl_negative := tl_negative t + (if x < 0 then 1 else 0),
                 tl_positive := tl_positive t + (if x < 0 then 0 else 1),
                 tl_min := (case tl_min t of None \<Rightarrow> Some x | Some m \<Rightarrow> if x < m then Some x else Some m),
                 tl_max := (case tl_max t of None \<Rightarrow> Some x | Some m \<Rightarrow> if m < x then Some x else Some m)\<rparr>)"

record field_stats =
  fs_sum :: rat
  fs_abs_sum :: rat
  fs_count :: int
  fs_missing :: int
  fs_zero :: int
  fs_negative :: int
  fs_positive :: int
  fs_min :: "rat option"
  fs_max :: "rat option"
  fs_avg :: "rat option"

definition stats_for :: "rat option list \<Rightarrow> field_stats" where
  "stats_for column =
     (let t = foldl tally_value no_column_tally column
      in \<lparr>fs_sum = py_round 2 (tl_total t), fs_abs_sum = py_round 2 (tl_abs_total t), fs_count = tl_count t,
          fs_missing = tl_missing t, fs_zero = tl_zero t, fs_negative = tl_negative t,
          fs_positive = tl_positive t, fs_min = tl_min t, fs_max = tl_max t,
          fs_avg = (if tl_count t = 0 then None else Some (py_round 2 (f_div (tl_total t) (of_int (tl_count t)))))\<rparr>)"

record report_totals =
  rt_records :: nat
  rt_invoice_vat :: field_stats
  rt_invoice_total :: field_stats

definition compute_report_totals :: "invoice_rec list \<Rightarrow> report_totals" where
  "compute_report_totals records =
     \<lparr>rt_records = length records, rt_invoice_vat = stats_for (map iv_invoice_vat records),
      rt_invoice_total = stats_for (map iv_invoice_total records)\<rparr>"

definition amount_or_empty :: "rat option \<Rightarrow> ustr" where
  "amount_or_empty v = (case v of None \<Rightarrow> [] | Some x \<Rightarrow> lit (py_fixed2 x))"

definition metric_row :: "pystr \<Rightarrow> field_stats \<Rightarrow> ustr list" where
  "metric_row metric s =
     [lit metric, lit (py_fixed2 (fs_sum s)), lit (py_fixed2 (fs_abs_sum s)), lit (py_str_int (fs_count s)),
      lit (py_str_int (fs_missing s)), lit (py_str_int (fs_zero s)), lit (py_str_int (fs_negative s)),
      lit (py_str_int (fs_positive s)), amount_or_empty (fs_min s), amount_or_empty (fs_max s),
      amount_or_empty (fs_avg s)]"

definition summary_rows :: "report_totals \<Rightarrow> ustr list list" where
  "summary_rows t =
     [map lit [''metric'', ''sum'', ''abs_sum'', ''count'', ''missing'', ''zero'', ''negative'', ''positive'', ''min'', ''max'', ''avg''],
      [lit ''records'', [], [], lit (py_str_nat (rt_records t)), [], [], [], [], [], [], []],
      metric_row ''invoice_vat'' (rt_invoice_vat t), metric_row ''invoice_total'' (rt_invoice_total t)]"

definition write_summary_csv :: "report_totals \<Rightarrow> ustr" where
  "write_summary_csv t = concat (map report_csv_row (summary_rows t))"


subsection \<open>Reading a CSV report\<close>

datatype csv_mode = FieldStart | Plain | Quoted | QuoteEnd

fun csv_scan :: "csv_mode \<Rightarrow> ustr \<Rightarrow> ustr list \<Rightarrow> ustr \<Rightarrow> ustr list list" where
  "csv_scan m cur row [] = (if m = FieldStart \<and> row = [] then [] else [row @ [cur]])"
| "csv_scan m cur row (c # s) =
     (if m = Quoted then (if c = 34 then csv_scan QuoteEnd cur row s else csv_scan Quoted (cur @ [c]) row s)
      else if c = 44 then csv_scan FieldStart [] (row @ [cur]) s
      else if c = 13 then csv_scan m cur row s
      else if c = 10 then (row @ [cur]) # csv_scan FieldStart [] [] s
      else if c = 34 \<and> m = FieldStart then csv_scan Quoted cur row s
      else if c = 34 \<and> m = QuoteEnd then csv_scan Quoted (cur @ [c]) row s
      else csv_scan Plain (cur @ [c]) row s)"

definition csv_read :: "ustr \<Rightarrow> ustr list list" where
  "csv_read s = csv_scan FieldStart [] [] s"

lemma scan_quoted:
  "csv_scan Quoted cur row (concat (map (\<lambda>c. if c = 34 then [34, 34] else [c]) s) @ 34 # rest) =
     csv_scan QuoteEnd (cur @ s) row rest"
  by (induction s arbitrary: cur) auto

lemma scan_plain:
  "\<not> list_ex (\<lambda>c. c = 44 \<or> c = 34 \<or> c = 13 \<or> c = 10) s \<Longrightarrow> m = FieldStart \<or> m = Plain \<Longrightarrow>
     csv_scan m cur row (s @ rest) = csv_scan (if s = [] then m else Plain) (cur @ s) row rest"
  by (induction s arbitrary: cur m) auto

lemma scan_field: "\<exists>m. m \<noteq> Quoted \<and> csv_scan FieldStart [] row (csv_quote s @ rest) = csv_scan m s row rest"
  using scan_plain [of s FieldStart "[]" row rest] scan_quoted [of "[]" row s rest]
  by (cases "list_ex (\<lambda>c. c = 44 \<or> c = 34 \<or> c = 13 \<or> c = 10) s") (auto simp: csv_quote_def)

lemma scan_field_comma:
  "csv_scan FieldStart [] row (csv_quote s @ 44 # rest) = csv_scan FieldStart [] (row @ [s]) rest"
  using scan_field [of row s "44 # rest"] by auto

lemma scan_field_end:
  "csv_scan FieldStart [] row (csv_quote s @ 13 # 10 # rest) = (row @ [s]) # csv_scan FieldStart [] [] rest"
  using scan_field [of row s "13 # 10 # rest"] by auto

lemma scan_row:
  "cells \<noteq> [] \<Longrightarrow>
     csv_scan FieldStart [] row (report_csv_row cells @ rest) = (row @ cells) # csv_scan FieldStart [] [] rest"
proof (induction cells arbitrary: row)
  case (Cons f cells)
  then show ?case
    by (cases cells) (simp_all add: report_csv_row_def scan_field_comma scan_field_end)
qed simp

lemma read_rows: "[] \<notin> set rows \<Longrightarrow> csv_read (concat (map report_csv_row rows)) = rows"
  unfolding csv_read_def by (induction rows) (auto simp: scan_row)

text \<open>
  C38: Whatever text the invoices hold, a reader of the CSV reports gets back exactly the header and
  the cells of every record, and the rows of the summary: no comma, quote or line break of an
  invoice moves a column or a row.
\<close>

theorem csv_reports_read_back:
  "csv_read (write_csv records) = map lit csv_columns # map (to_csv_row csv_columns) records \<and>
     csv_read (write_summary_csv t) = summary_rows t"
proof -
  have "csv_read (concat (map report_csv_row (map lit csv_columns # map (to_csv_row csv_columns) records))) =
      map lit csv_columns # map (to_csv_row csv_columns) records"
    by (rule read_rows) (auto simp: csv_columns_def to_csv_row_def)
  moreover have "csv_read (concat (map report_csv_row (summary_rows t))) = summary_rows t"
    by (rule read_rows) (auto simp: summary_rows_def metric_row_def)
  ultimately show ?thesis by (simp add: write_csv_def write_summary_csv_def o_def)
qed


subsection \<open>The totals add up\<close>

definition nonzero :: "rat option list \<Rightarrow> rat list" where
  "nonzero column = filter (\<lambda>x. x \<noteq> 0) (List.map_filter id column)"

lemma nonzero_snoc [simp]:
  "nonzero (column @ [v]) = nonzero column @ (case v of Some x \<Rightarrow> if x = 0 then [] else [x] | None \<Rightarrow> [])"
  by (simp add: nonzero_def map_filter_def split: option.split)

lemma nonzero_Nil [simp]: "nonzero [] = []"
  by (simp add: nonzero_def map_filter_def)

lemma f_sum_snoc [simp]: "f_sum (xs @ [x]) = f_add (f_sum xs) x"
  by (simp add: f_sum_def)

lemma tally_counts:
  "tl_missing (foldl tally_value no_column_tally column) = int (length (filter ((=) None) column)) \<and>
   tl_zero (foldl tally_value no_column_tally column) = int (length (filter ((=) (Some 0)) column)) \<and>
   tl_count (foldl tally_value no_column_tally column) = int (length (nonzero column)) \<and>
   tl_negative (foldl tally_value no_column_tally column) = int (length (filter (\<lambda>x. x < 0) (nonzero column))) \<and>
   tl_positive (foldl tally_value no_column_tally column) = int (length (filter (\<lambda>x. 0 < x) (nonzero column)))"
  by (induction column rule: rev_induct) (auto simp: tally_value_def no_column_tally_def split: option.splits)

lemma tally_sums:
  "tl_total (foldl tally_value no_column_tally column) = f_sum (nonzero column) \<and>
   tl_abs_total (foldl tally_value no_column_tally column) = f_sum (map abs (nonzero column))"
  by (induction column rule: rev_induct) (auto simp: tally_value_def no_column_tally_def f_sum_def split: option.splits)

lemma tally_value_range [simp]:
  "tl_min (tally_value t v) =
     (case v of Some x \<Rightarrow> if x = 0 then tl_min t else Some (case tl_min t of None \<Rightarrow> x | Some m \<Rightarrow> min x m) | None \<Rightarrow> tl_min t)"
  "tl_max (tally_value t v) =
     (case v of Some x \<Rightarrow> if x = 0 then tl_max t else Some (case tl_max t of None \<Rightarrow> x | Some m \<Rightarrow> max x m) | None \<Rightarrow> tl_max t)"
  by (auto simp: tally_value_def min_def max_def split: option.split)

lemma tally_range:
  "tl_min (foldl tally_value no_column_tally column) = (if nonzero column = [] then None else Some (Min (set (nonzero column)))) \<and>
   tl_max (foldl tally_value no_column_tally column) = (if nonzero column = [] then None else Some (Max (set (nonzero column))))"
proof (induction column rule: rev_induct)
  case (snoc v column)
  then show ?case by (cases v) simp_all
qed (simp add: no_column_tally_def)

text \<open>
  C39: The statistics of a column are those of its values: every record is counted once, as missing,
  zero, negative or positive; the sums, the average and the range are those of the values that are
  present and not zero, and there is a range and an average exactly when there is such a value.
\<close>

theorem report_totals_exact:
  "stats_for column =
     (let amounts = nonzero column
      in \<lparr>fs_sum = py_round 2 (f_sum amounts), fs_abs_sum = py_round 2 (f_sum (map abs amounts)),
          fs_count = int (length amounts),
          fs_missing = int (length (filter ((=) None) column)),
          fs_zero = int (length (filter ((=) (Some 0)) column)),
          fs_negative = int (length (filter (\<lambda>x. x < 0) amounts)),
          fs_positive = int (length (filter (\<lambda>x. 0 < x) amounts)),
          fs_min = (if amounts = [] then None else Some (Min (set amounts))),
          fs_max = (if amounts = [] then None else Some (Max (set amounts))),
          fs_avg = (if amounts = [] then None
                    else Some (py_round 2 (f_div (f_sum amounts) (of_nat (length amounts)))))\<rparr>) \<and>
   fs_count (stats_for column) + fs_missing (stats_for column) + fs_zero (stats_for column) = int (length column) \<and>
   fs_negative (stats_for column) + fs_positive (stats_for column) = fs_count (stats_for column)"
proof -
  have "int (length (nonzero column)) + int (length (filter ((=) None) column)) +
      int (length (filter ((=) (Some 0)) column)) = int (length column)"
    by (induction column rule: rev_induct) (auto split: option.split)
  moreover have "int (length (filter (\<lambda>x. x < 0) (nonzero column))) + int (length (filter (\<lambda>x. 0 < x) (nonzero column))) =
      int (length (nonzero column))"
    by (induction column rule: rev_induct) (auto split: option.split)
  ultimately show ?thesis
    using tally_counts [of column] tally_sums [of column] tally_range [of column]
    by (simp add: stats_for_def Let_def)
qed

end
