(* ===== verification/Report_Pdf.thy ===== *)
theory Report_Pdf
  imports Report_Output
begin

text \<open>
  The PDF report of \<open>cli/invoices_report.py\<close>: its rows, with the subtotals of the vendors
  (\<open>_build_pdf_rows_with_vendor_subtotals\<close>), the place of each on the pages, and \<open>main\<close>, which
  puts the reports together. Fonts, rules and the drawing itself are not modelled.
\<close>

subsection \<open>Rows\<close>

datatype pdf_row =
  DetailRow invoice_rec
| SubtotalRow ustr "rat option" "rat option" "rat option"
| GrandTotalRow "rat option" "rat option" "rat option"

definition sum_field :: "rat option list \<Rightarrow> rat option" where
  "sum_field column = (let xs = given column in if xs = [] then None else Some (py_round 2 (f_sum xs)))"

definition vendor_display_name :: "ucd \<Rightarrow> invoice_rec \<Rightarrow> ustr" where
  "vendor_display_name u r =
     (let name = squeeze u (case iv_invoice_from r of Some s \<Rightarrow> s | None \<Rightarrow> [])
      in if name = [] then lit ''Unknown Vendor'' else name)"

definition invoice_date_sort_key :: "ucd \<Rightarrow> ustr option \<Rightarrow> ustr" where
  "invoice_date_sort_key u value =
     (case nonempty value of
        None \<Rightarrow> lit ''9999-12-31''
      | Some s \<Rightarrow> (case strptime_date u 47 [FDay, FMonth, FYear4] s of Some d \<Rightarrow> date_text d | None \<Rightarrow> s))"

text \<open>Tuples of strings compare as the lists of their members.\<close>

definition pdf_sort_key :: "ucd \<Rightarrow> invoice_rec \<Rightarrow> ustr list" where
  "pdf_sort_key u r =
     [u_casefold u (vendor_display_name u r), invoice_date_sort_key u (iv_invoice_date r),
      (case iv_invoice_id r of Some s \<Rightarrow> s | None \<Rightarrow> []), iv_source_file r]"

definition flush_vendor_group :: "ucd \<Rightarrow> bool \<Rightarrow> bool \<Rightarrow> invoice_rec list \<Rightarrow> pdf_row list" where
  "flush_vendor_group u subtotals skip_single recs =
     (if recs = [] then []
      else map DetailRow recs @
        (if subtotals \<and> (\<not> skip_single \<or> 1 < length recs)
         then [SubtotalRow (vendor_display_name u (hd recs)) (sum_field (map iv_base_before_vat recs))
                 (sum_field (map iv_invoice_vat recs)) (sum_field (map iv_invoice_total recs))]
         else []))"

fun group_rows :: "ucd \<Rightarrow> bool \<Rightarrow> bool \<Rightarrow> ustr option \<Rightarrow> invoice_rec list \<Rightarrow> invoice_rec list \<Rightarrow> pdf_row list" where
  "group_rows u subtotals skip_single current recs [] = flush_vendor_group u subtotals skip_single recs"
| "group_rows u subtotals skip_single current recs (r # rs) =
     (let name = vendor_display_name u r; now = (case current of None \<Rightarrow> name | Some c \<Rightarrow> c)
      in if name \<noteq> now
         then flush_vendor_group u subtotals skip_single recs @ group_rows u subtotals skip_single (Some name) [r] rs
         else group_rows u subtotals skip_single (Some now) (recs @ [r]) rs)"

definition build_pdf_rows :: "ucd \<Rightarrow> bool \<Rightarrow> bool \<Rightarrow> invoice_rec list \<Rightarrow> pdf_row list" where
  "build_pdf_rows u subtotals skip_single records =
     group_rows u subtotals skip_single None [] (sort_key (pdf_sort_key u) records) @
     [GrandTotalRow (sum_field (map iv_base_before_vat records)) (sum_field (map iv_invoice_vat records))
        (sum_field (map iv_invoice_total records))]"


subsection \<open>Pages\<close>

definition pdf_report_columns :: "pystr list" where
  "pdf_report_columns =
     [''invoice_id'', ''invoice_date'', ''invoice_from'', ''invoice_for'', ''base_before_vat'', ''invoice_vat'', ''invoice_total'']"

definition row_cell :: "pdf_row \<Rightarrow> pystr \<Rightarrow> cell" where
  "row_cell row name =
     (case row of
        DetailRow r \<Rightarrow> (case map_of record_fields name of Some g \<Rightarrow> g r | None \<Rightarrow> CNone)
      | SubtotalRow vendor b v t \<Rightarrow>
          (if name = ''invoice_from'' then CText vendor
           else if name = ''invoice_for'' then CText (lit ''Vendor Subtotal'')
           else if name = ''base_before_vat'' then opt_cell CFloat b
           else if name = ''invoice_vat'' then opt_cell CFloat v
           else if name = ''invoice_total'' then opt_cell CFloat t else CNone)
      | GrandTotalRow b v t \<Rightarrow>
          (if name = ''invoice_for'' then CText (lit ''Grand Total'')
           else if name = ''base_before_vat'' then opt_cell CFloat b
           else if name = ''invoice_vat'' then opt_cell CFloat v
           else if name = ''invoice_total'' then opt_cell CFloat t else CNone))"

definition format_pdf_value :: "ucd \<Rightarrow> pystr \<Rightarrow> cell \<Rightarrow> ustr" where
  "format_pdf_value u name v =
     (if v = CNone then []
      else if name \<in> set [''base_before_vat'', ''invoice_vat'', ''invoice_total'']
      then (case v of CFloat x \<Rightarrow> lit (amount_text x) | _ \<Rightarrow> [])
      else (let compact = squeeze u (cell_text v)
            in if 120 < length compact then take 117 compact @ lit ''...'' else compact))"

datatype row_fill = ZebraOdd | ZebraEven | SubtotalFill | SummaryFill

record placed_row =
  pl_page :: nat
  pl_y :: int
  pl_fill :: row_fill
  pl_texts :: "ustr list"

text \<open>The points of the page: the rows start below the header and end above the bottom margin.\<close>

definition page_height :: int where "page_height = 595"
definition margin :: int where "margin = 24"
definition header_h :: int where "header_h = 24"
definition row_h :: int where "row_h = 22"

definition table_start :: int where "table_start = margin + 22 + header_h"
definition table_bottom_limit :: int where "table_bottom_limit = page_height - margin"

fun draw_rows :: "ucd \<Rightarrow> nat \<Rightarrow> int \<Rightarrow> nat \<Rightarrow> pdf_row list \<Rightarrow> placed_row list" where
  "draw_rows u page y detail_idx [] = []"
| "draw_rows u page y detail_idx (row # rows) =
     (let full = (table_bottom_limit < y + row_h);
          page = (if full then page + 1 else page);
          y = (if full then table_start else y);
          fill = (case row of DetailRow r \<Rightarrow> if even detail_idx then ZebraOdd else ZebraEven
                  | SubtotalRow _ _ _ _ \<Rightarrow> SubtotalFill | GrandTotalRow _ _ _ \<Rightarrow> SummaryFill);
          idx = (case row of DetailRow r \<Rightarrow> detail_idx + 1 | _ \<Rightarrow> detail_idx)
      in \<lparr>pl_page = page, pl_y = y, pl_fill = fill,
          pl_texts = map (\<lambda>name. format_pdf_value u name (row_cell row name)) pdf_report_columns\<rparr> #
         draw_rows u page (y + row_h) idx rows)"

definition write_pdf_report :: "ucd \<Rightarrow> bool \<Rightarrow> bool \<Rightarrow> invoice_rec list \<Rightarrow> placed_row list" where
  "write_pdf_report u subtotals skip_single records =
     draw_rows u 0 table_start 0 (build_pdf_rows u subtotals skip_single records)"


subsection \<open>The program\<close>

record report_output =
  ro_json :: ustr
  ro_csv :: ustr
  ro_summary_csv :: ustr
  ro_pdf :: "placed_row list option"

definition invoices_report ::
    "ucd \<Rightarrow> bool \<Rightarrow> bool \<Rightarrow> bool \<Rightarrow> bool \<Rightarrow> pdf_file option list \<Rightarrow> report_output res" where
  "invoices_report u have subtotals skip_single dir_exists candidates =
     res_bind (generate_report u have dir_exists candidates) (\<lambda>records.
       Inr \<lparr>ro_json = write_json records, ro_csv = write_csv records,
            ro_summary_csv = write_summary_csv (compute_report_totals records),
            ro_pdf = (if have then Some (write_pdf_report u subtotals skip_single records) else None)\<rparr>)"


subsection \<open>The rows of the report\<close>

definition group_name :: "ucd \<Rightarrow> invoice_rec list \<Rightarrow> ustr" where
  "group_name u recs = vendor_display_name u (hd recs)"

definition one_vendor :: "ucd \<Rightarrow> invoice_rec list \<Rightarrow> bool" where
  "one_vendor u recs \<longleftrightarrow> recs \<noteq> [] \<and> list_all (\<lambda>r. vendor_display_name u r = group_name u recs) recs"

lemma one_vendor_snoc: "one_vendor u recs \<Longrightarrow> vendor_display_name u r = group_name u recs \<Longrightarrow> one_vendor u (recs @ [r])"
  by (cases recs) (auto simp: one_vendor_def group_name_def)

lemma group_rows_groups:
  "one_vendor u recs \<Longrightarrow>
     \<exists>groups. group_rows u s k (Some (group_name u recs)) recs rs = concat (map (flush_vendor_group u s k) groups) \<and>
       concat groups = recs @ rs \<and> list_all (one_vendor u) groups \<and> distinct_adj (map (group_name u) groups) \<and>
       groups \<noteq> [] \<and> group_name u (hd groups) = group_name u recs"
proof (induction rs arbitrary: recs)
  case Nil
  then show ?case by (intro exI [of _ "[recs]"]) simp
next
  case (Cons r rs)
  have name: "group_name u (recs @ [r]) = group_name u recs"
    using Cons.prems by (cases recs) (auto simp: one_vendor_def group_name_def)
  show ?case
  proof (cases "vendor_display_name u r = group_name u recs")
    case True
    with Cons.IH [OF one_vendor_snoc [OF Cons.prems True]] show ?thesis by (simp add: name)
  next
    case False
    have "one_vendor u [r]" "group_name u [r] = vendor_display_name u r" by (simp_all add: one_vendor_def group_name_def)
    with Cons.IH [of "[r]"] obtain groups where g:
      "group_rows u s k (Some (vendor_display_name u r)) [r] rs = concat (map (flush_vendor_group u s k) groups)"
      "concat groups = r # rs" "list_all (one_vendor u) groups" "distinct_adj (map (group_name u) groups)"
      "groups \<noteq> []" "group_name u (hd groups) = vendor_display_name u r"
      by auto
    with False Cons.prems show ?thesis
      by (intro exI [of _ "recs # groups"]) (cases groups; simp)
  qed
qed

lemma build_groups:
  "\<exists>groups. group_rows u s k None [] rs = concat (map (flush_vendor_group u s k) groups) \<and>
     concat groups = rs \<and> list_all (one_vendor u) groups \<and> distinct_adj (map (group_name u) groups)"
proof (cases rs)
  case Nil
  then show ?thesis by (intro exI [of _ "[]"]) (simp add: flush_vendor_group_def)
next
  case (Cons r rs')
  have "one_vendor u [r]" "group_name u [r] = vendor_display_name u r" by (simp_all add: one_vendor_def group_name_def)
  with group_rows_groups [of u "[r]" s k rs'] Cons show ?thesis by auto
qed

text \<open>
  C40: The PDF report holds every record once, ordered by vendor, date, number and file, in groups
  of one vendor each, no two neighbours of the same; each group is its records followed by the
  subtotal over them, where subtotals are asked for; and the last row is the total of all.
\<close>

theorem pdf_rows_exact:
  "\<exists>groups.
     build_pdf_rows u subtotals skip_single records =
       concat (map (\<lambda>recs. map DetailRow recs @
         (if subtotals \<and> (if skip_single then 1 < length recs else True)
          then [SubtotalRow (group_name u recs) (sum_field (map iv_base_before_vat recs))
                  (sum_field (map iv_invoice_vat recs)) (sum_field (map iv_invoice_total recs))]
          else [])) groups) @
       [GrandTotalRow (sum_field (map iv_base_before_vat records)) (sum_field (map iv_invoice_vat records))
          (sum_field (map iv_invoice_total records))] \<and>
     mset (concat groups) = mset records \<and> sorted (map (pdf_sort_key u) (concat groups)) \<and>
     list_all (one_vendor u) groups \<and> distinct_adj (map (group_name u) groups)"
proof -
  obtain groups where g:
    "group_rows u subtotals skip_single None [] (sort_key (pdf_sort_key u) records) =
       concat (map (flush_vendor_group u subtotals skip_single) groups)"
    "concat groups = sort_key (pdf_sort_key u) records"
    "list_all (one_vendor u) groups" "distinct_adj (map (group_name u) groups)"
    using build_groups by blast
  have "list_all (\<lambda>recs. recs \<noteq> []) groups"
    using g(3) by (induction groups) (auto simp: one_vendor_def)
  then have "map (flush_vendor_group u subtotals skip_single) groups =
      map (\<lambda>recs. map DetailRow recs @
         (if subtotals \<and> (if skip_single then 1 < length recs else True)
          then [SubtotalRow (group_name u recs) (sum_field (map iv_base_before_vat recs))
                  (sum_field (map iv_invoice_vat recs)) (sum_field (map iv_invoice_total recs))]
          else [])) groups"
    by (induction groups) (auto simp: flush_vendor_group_def group_name_def)
  note rows = this
  show ?thesis
    unfolding build_pdf_rows_def g(1) rows by (intro exI [of _ groups]) (simp add: g)
qed

definition demo_vendor :: "pystr \<Rightarrow> pystr \<Rightarrow> invoice_rec" where
  "demo_vendor name number =
     (new_record (lit number))\<lparr>iv_invoice_from := Some (lit name), iv_invoice_total := Some 10\<rparr>"

text \<open>Names that differ only in case share their place in the order but not their group.\<close>

lemma repeated_vendor_subtotals:
  "build_pdf_rows toy_ucd True False [demo_vendor ''ACME'' ''1'', demo_vendor ''Acme'' ''2'', demo_vendor ''ACME'' ''3''] =
     [DetailRow (demo_vendor ''ACME'' ''1''), SubtotalRow (lit ''ACME'') None None (Some 10),
      DetailRow (demo_vendor ''Acme'' ''2''), SubtotalRow (lit ''Acme'') None None (Some 10),
      DetailRow (demo_vendor ''ACME'' ''3''), SubtotalRow (lit ''ACME'') None None (Some 10),
      GrandTotalRow None None (Some 30)]"
  by code_simp


subsection \<open>The pages of the report\<close>

lemma draw_rows_places:
  "y = table_start + row_h * int j \<Longrightarrow> j \<le> 22 \<Longrightarrow>
     map (\<lambda>p. (pl_page p, pl_y p)) (draw_rows u page y idx rows) =
       map (\<lambda>i. (page + i div 22, table_start + row_h * int (i mod 22))) [j..<j + length rows]"
proof (induction rows arbitrary: page y idx j)
  case (Cons row rows)
  have range: "[j..<j + length (row # rows)] = j # [Suc j..<Suc j + length rows]"
    by (subst upt_conv_Cons) (simp_all del: upt_Suc)
  show ?case
  proof (cases "j = 22")
    case True
    have shift: "[23..<23 + length rows] = map (\<lambda>i. i + 22) [1..<1 + length rows]"
      by (rule nth_equalityI) (simp_all del: upt_Suc)
    have first: "draw_rows u page y idx (row # rows) = p # ps \<Longrightarrow>
        pl_page p = page + 1 \<and> pl_y p = table_start \<and> (\<exists>idx. ps = draw_rows u (page + 1) (table_start + row_h) idx rows)" for p ps
      using Cons.prems True
      by (auto simp: Let_def table_bottom_limit_def table_start_def row_h_def page_height_def margin_def header_h_def)
    obtain p ps where ps: "draw_rows u page y idx (row # rows) = p # ps" by (simp add: Let_def)
    from first [OF ps] obtain idx' where "ps = draw_rows u (page + 1) (table_start + row_h) idx' rows" by blast
    with first [OF ps] Cons.IH [of "table_start + row_h" 1 "page + 1" idx'] show ?thesis
      unfolding ps range using True
      by (simp add: shift del: upt_Suc)
  next
    case False
    then show ?thesis
      unfolding range using Cons.prems Cons.IH [of _ "Suc j"]
      by (simp add: Let_def table_bottom_limit_def table_start_def row_h_def page_height_def margin_def
          header_h_def del: upt_Suc)
  qed
qed simp

text \<open>
  The pages hold 22 rows each: the row number i is on page i div 22, below the header and the
  rows before it, and ends above the bottom margin; so no row is lost, covered or cut off.
\<close>

theorem pdf_rows_fit:
  "map (\<lambda>p. (pl_page p, pl_y p)) (write_pdf_report u subtotals skip_single records) =
     map (\<lambda>i. (i div 22, table_start + row_h * int (i mod 22)))
       [0..<length (build_pdf_rows u subtotals skip_single records)] \<and>
   list_all (\<lambda>p. table_start \<le> pl_y p \<and> pl_y p + row_h \<le> table_bottom_limit)
     (write_pdf_report u subtotals skip_single records)"
proof -
  let ?rows = "build_pdf_rows u subtotals skip_single records"
  have places: "map (\<lambda>p. (pl_page p, pl_y p)) (write_pdf_report u subtotals skip_single records) =
      map (\<lambda>i. (i div 22, table_start + row_h * int (i mod 22))) [0..<length ?rows]"
    unfolding write_pdf_report_def using draw_rows_places [of table_start 0 u 0 0 ?rows] by simp
  have "table_start \<le> y \<and> y + row_h \<le> table_bottom_limit"
    if "(page, y) \<in> set (map (\<lambda>p. (pl_page p, pl_y p)) (write_pdf_report u subtotals skip_single records))" for page y
    using that unfolding places
    by (auto simp: table_bottom_limit_def table_start_def row_h_def page_height_def margin_def header_h_def)
  note inside = this
  have "table_start \<le> pl_y p \<and> pl_y p + row_h \<le> table_bottom_limit"
    if "p \<in> set (write_pdf_report u subtotals skip_single records)" for p
    by (rule inside [of "pl_page p"]) (use that in simp)
  then show ?thesis using places by (simp add: list_all_iff)
qed

end
