(* ===== verification/Gmail_Messages.thy ===== *)
theory Gmail_Messages
  imports Downloads Mail_Fetch File_Names
begin

text \<open>
  What \<open>cli/gmail_invoice_finder.py\<close> reads of a message: the query, the parts of a message with
  their texts and attachments, the links in them, and whether its sender is trusted. The links
  BeautifulSoup finds in HTML are a parameter. Addresses are read as Latin-1 texts where they are
  taken apart.
\<close>

subsection \<open>Decoding\<close>

text \<open>\<open>bytes.decode("utf-8", errors)\<close>: what is no character becomes \<open>bad\<close>.\<close>

definition utf8_cont :: "int \<Rightarrow> bool" where "utf8_cont c \<longleftrightarrow> 128 \<le> c \<and> c < 192"

definition utf8_second :: "int \<Rightarrow> int \<Rightarrow> bool" where
  "utf8_second b c \<longleftrightarrow>
     utf8_cont c \<and> (b = 224 \<longrightarrow> 160 \<le> c) \<and> (b = 237 \<longrightarrow> c < 160) \<and> (b = 240 \<longrightarrow> 144 \<le> c) \<and> (b = 244 \<longrightarrow> c < 144)"

fun utf8_text :: "ustr \<Rightarrow> int list \<Rightarrow> ustr" where
  "utf8_text bad [] = []"
| "utf8_text bad (b # s) =
     (if b < 128 then b # utf8_text bad s
      else if 194 \<le> b \<and> b < 224 then
        (case s of
           [] \<Rightarrow> bad
         | c # t \<Rightarrow> if utf8_cont c then ((b - 192) * 64 + (c - 128)) # utf8_text bad t else bad @ utf8_text bad (c # t))
      else if 224 \<le> b \<and> b < 240 then
        (case s of
           [] \<Rightarrow> bad
         | c # t \<Rightarrow>
             if \<not> utf8_second b c then bad @ utf8_text bad (c # t)
             else (case t of
                     [] \<Rightarrow> bad
                   | d # v \<Rightarrow>
                       if utf8_cont d then ((b - 224) * 4096 + (c - 128) * 64 + (d - 128)) # utf8_text bad v
                       else bad @ utf8_text bad (d # v)))
      else if 240 \<le> b \<and> b < 245 then
        (case s of
           [] \<Rightarrow> bad
         | c # t \<Rightarrow>
             if \<not> utf8_second b c then bad @ utf8_text bad (c # t)
             else (case t of
                     [] \<Rightarrow> bad
                   | d # v \<Rightarrow>
                       if \<not> utf8_cont d then bad @ utf8_text bad (d # v)
                       else (case v of
                               [] \<Rightarrow> bad
                             | f # w \<Rightarrow>
                                 if utf8_cont f
                                 then ((b - 240) * 262144 + (c - 128) * 4096 + (d - 128) * 64 + (f - 128)) # utf8_text bad w
                                 else bad @ utf8_text bad (f # w))))
      else bad @ utf8_text bad s)"

text \<open>\<open>urllib.parse.unquote\<close> and \<open>parse_qs\<close>\<close>

definition hex_int :: "int \<Rightarrow> int option" where
  "hex_int c =
     (if 48 \<le> c \<and> c \<le> 57 then Some (c - 48) else if 65 \<le> c \<and> c \<le> 70 then Some (c - 55)
      else if 97 \<le> c \<and> c \<le> 102 then Some (c - 87) else None)"

fun unquote_bytes :: "int list \<Rightarrow> int list" where
  "unquote_bytes (c # a # b # s) =
     (if c = 37 \<and> hex_int a \<noteq> None \<and> hex_int b \<noteq> None
      then (16 * the (hex_int a) + the (hex_int b)) # unquote_bytes s else c # unquote_bytes (a # b # s))"
| "unquote_bytes s = s"

definition unquote :: "ustr \<Rightarrow> ustr" where
  "unquote s =
     (if 37 \<in> set s then sub_runs (\<lambda>c. 0 \<le> c \<and> c < 128) (\<lambda>run. utf8_text [65533] (unquote_bytes run)) s else s)"

definition query_value :: "ustr \<Rightarrow> ustr \<Rightarrow> ustr option" where
  "query_value query key =
     map_option (\<lambda>pair. unquote (replace_all [43] [32] (drop 1 (dropWhile (\<lambda>c. c \<noteq> 61) pair))))
       (find (\<lambda>pair. 61 \<in> set pair \<and> drop 1 (dropWhile (\<lambda>c. c \<noteq> 61) pair) \<noteq> [] \<and>
                unquote (replace_all [43] [32] (takeWhile (\<lambda>c. c \<noteq> 61) pair)) = key)
          (split_at 38 query))"

text \<open>\<open>list(dict.fromkeys(..))\<close>: the first of each\<close>

definition from_keys :: "'a list \<Rightarrow> 'a list" where
  "from_keys xs = rev (remdups (rev xs))"

lemma from_keys_distinct [simp]: "distinct (from_keys xs)" "set (from_keys xs) = set xs"
  by (simp_all add: from_keys_def)


subsection \<open>The query\<close>

definition gmail_date :: "ustr \<Rightarrow> ustr" where
  "gmail_date d = replace_all [45] [47] d"

definition quote_term :: "ucd \<Rightarrow> ustr \<Rightarrow> ustr" where
  "quote_term u term = (if list_ex (uc_space u) term then [34] @ term @ [34] else term)"

definition subject_term :: "ucd \<Rightarrow> ustr \<Rightarrow> ustr" where
  "subject_term u term = lit ''subject:'' @ quote_term u term"

definition heb_terms :: "ustr list" where
  "heb_terms =
     concat (map (\<lambda>term. if term \<noteq> [] \<and> \<not> has_prefix [1492] term then [term, [1492] @ term] else [term]) heb_pos)"

definition build_gmail_query :: "ucd \<Rightarrow> ustr \<Rightarrow> ustr \<Rightarrow> bool \<Rightarrow> ustr" where
  "build_gmail_query u start_date end_date exclude_sent =
     (let keyword_terms = from_keys (lit ''filename:pdf'' #
            concat (map (\<lambda>term. [subject_term u term, quote_term u term]) (heb_terms @ en_pos)));
          parts = [lit ''after:'' @ gmail_date start_date, lit ''before:'' @ gmail_date end_date] @
            (if exclude_sent then [lit ''-in:sent'', lit ''-from:me''] else []) @
            [lit ''('' @ u_join (lit '' OR '') keyword_terms @ lit '')'', lit ''in:anywhere'']
      in u_join [32] parts)"


subsection \<open>Parts of a message\<close>

text \<open>A part of a message; the empty text stands for what is missing.\<close>

datatype mail_part =
  Part (mp_mime: ustr) (mp_filename: ustr) (mp_headers: "(ustr \<times> ustr) list") (mp_attachment: ustr)
    (mp_data: pystr) (mp_parts: "mail_part list")

record gmail_message =
  gm_payload :: "mail_part option"
  gm_internal_date :: int
  gm_snippet :: ustr

text \<open>\<open>parse_headers\<close>: of headers with the same name the last counts.\<close>

definition parse_headers :: "ucd \<Rightarrow> mail_part option \<Rightarrow> (ustr \<times> ustr) list" where
  "parse_headers u payload =
     (case payload of None \<Rightarrow> [] | Some p \<Rightarrow> rev (map (\<lambda>(name, v). (u_lower u name, v)) (mp_headers p)))"

definition header :: "(ustr \<times> ustr) list \<Rightarrow> pystr \<Rightarrow> ustr \<Rightarrow> ustr" where
  "header headers name fallback = (case map_of headers (lit name) of Some v \<Rightarrow> v | None \<Rightarrow> fallback)"

primrec walk_parts :: "mail_part \<Rightarrow> mail_part list" where
  "walk_parts (Part mime filename headers att data parts) =
     Part mime filename headers att data parts # concat (map walk_parts parts)"

definition extract_parts :: "mail_part option \<Rightarrow> mail_part list" where
  "extract_parts payload = (case payload of None \<Rightarrow> [] | Some p \<Rightarrow> walk_parts p)"

definition part_text :: "mail_part \<Rightarrow> ustr option" where
  "part_text p =
     (if mp_data p = [] then None
      else map_option (\<lambda>raw. utf8_text [] (map of_char raw)) (a2b_base64 0 0 0 (mp_data p)))"

definition texts_with :: "ucd \<Rightarrow> pystr \<Rightarrow> mail_part option \<Rightarrow> ustr" where
  "texts_with u mime payload =
     concat (map (\<lambda>raw. raw @ [10])
       (List.map_filter (\<lambda>p. if u_lower u (mp_mime p) = lit mime then part_text p else None) (extract_parts payload)))"

definition get_body_text :: "ucd \<Rightarrow> mail_part option \<Rightarrow> ustr \<times> ustr" where
  "get_body_text u payload = (texts_with u ''text/html'' payload, texts_with u ''text/plain'' payload)"

definition pdf_attachment :: "ucd \<Rightarrow> mail_part \<Rightarrow> bool" where
  "pdf_attachment u p \<longleftrightarrow>
     mp_attachment p \<noteq> [] \<and>
     (contains (lit ''pdf'') (u_lower u (mp_mime p)) \<or> has_suffix (lit ''.pdf'') (u_lower u (mp_filename p)))"

definition payload_has_pdf_attachment :: "ucd \<Rightarrow> mail_part option \<Rightarrow> bool" where
  "payload_has_pdf_attachment u payload \<longleftrightarrow> list_ex (pdf_attachment u) (extract_parts payload)"


subsection \<open>Links\<close>

record html_links =
  hl_anchors :: "ustr \<Rightarrow> ustr list"
  hl_areas :: "ustr \<Rightarrow> ustr list"

definition extract_links_from_html :: "html_links \<Rightarrow> ustr \<Rightarrow> ustr list" where
  "extract_links_from_html soup html =
     (if html = [] then []
      else from_keys (hl_anchors soup html @ filter (\<lambda>href. href \<noteq> []) (hl_areas soup html)))"

definition link_pattern :: regex where
  "link_pattern =
     rseq [rlit [104, 116, 116, 112], RRep 0 (Some 1) True (RSet True [Lit 115]), rlit [58, 47, 47], RRep
     1 None True (RSet False [Space, Lit 60, Lit 62, Lit 34, Lit 41, Lit 93])]"


definition extract_links_from_text :: "ucd \<Rightarrow> ustr \<Rightarrow> ustr list" where
  "extract_links_from_text u txt = from_keys (re_findall u True link_pattern 0 txt)"

text \<open>A redirection of Google is replaced by its target.\<close>

definition normalize_link :: "env \<Rightarrow> ustr \<Rightarrow> ustr" where
  "normalize_link e link =
     (case urlparse e (latin link) of
        Inl _ \<Rightarrow> link
      | Inr parsed \<Rightarrow>
          let query = lit (url_query parsed);
              target = (case query_value query (lit ''url'') of Some t \<Rightarrow> Some t | None \<Rightarrow> query_value query (lit ''q''))
          in if url_hostname parsed \<in> {''www.google.com'', ''google.com''} \<and> has_prefix ''/url'' (url_path parsed)
             then (case target of Some t \<Rightarrow> unquote t | None \<Rightarrow> link) else link)"

definition links_from_message :: "env \<Rightarrow> ucd \<Rightarrow> html_links \<Rightarrow> ustr \<Rightarrow> ustr \<Rightarrow> ustr list" where
  "links_from_message e u soup html plain =
     from_keys (filter (has_prefix (lit ''http''))
       (map (normalize_link e)
         (filter (has_prefix (lit ''http'')) (extract_links_from_html soup html @ extract_links_from_text u plain))))"


subsection \<open>Senders\<close>

definition trusted_providers :: "pystr list" where
  "trusted_providers =
     [''myinvoice.bezeq.co.il'', ''my.bezeq.co.il'', ''bmy.bezeq.co.il'', ''icount.co.il'', ''greeninvoice.co.il'',
      ''ezcount.co.il'', ''tax.gov.il'', ''gov.il'', ''quickbooks.intuit.com'', ''stripe.com'']"

definition trusted_sender_domains :: "pystr list" where
  "trusted_sender_domains = [''ravpass.co.il'', ''hopon.co.il'']"

definition angle_address :: regex where
  "angle_address =
     rseq [RSet True [Lit 60], RGroup 1 (RRep 1 None True (RSet False [Lit 62])), RSet True [Lit 62]]"


definition sender_domain :: "ucd \<Rightarrow> ustr \<Rightarrow> ustr" where
  "sender_domain u address =
     (let found = (case re_search u False angle_address address of
            Some m \<Rightarrow> (case group m 1 of Some g \<Rightarrow> g | None \<Rightarrow> []) | None \<Rightarrow> address);
          email = u_lower u (u_strip u found)
      in if address = [] \<or> 64 \<notin> set email then [] else last (split_at 64 email))"

definition is_trusted_sender :: "ucd \<Rightarrow> ustr \<Rightarrow> bool" where
  "is_trusted_sender u address \<longleftrightarrow>
     (let domain = sender_domain u address in
      domain \<noteq> [] \<and> list_ex (\<lambda>d. has_suffix (lit d) domain) trusted_sender_domains)"

definition should_fetch_full_message :: "ucd \<Rightarrow> ustr \<Rightarrow> ustr \<Rightarrow> bool \<Rightarrow> mail_part option \<Rightarrow> bool \<Rightarrow> bool" where
  "should_fetch_full_message u subject preview sender_trusted payload disable_prefilter \<longleftrightarrow>
     disable_prefilter \<or> sender_trusted \<or> should_consider_message u subject preview \<or>
     payload_has_pdf_attachment u payload"


subsection \<open>Names\<close>

definition numbered_stem :: regex where
  "numbered_stem =
     rseq [RBol False, RGroup 1 (RRep 0 None True (RDot)), rlit [95, 95], RRep 1 None True (RSet True
     [Digit]), REol False]"


definition normalized_stem :: "ucd \<Rightarrow> ustr \<Rightarrow> ustr" where
  "normalized_stem u name =
     (let stem = fst (split_ext (last (split_at 47 name))) in
      case re_match u False numbered_stem stem of
        Some m \<Rightarrow> (case group m 1 of Some g \<Rightarrow> g | None \<Rightarrow> [])
      | None \<Rightarrow> stem)"

definition build_tagged_name :: "ucd \<Rightarrow> ustr \<Rightarrow> ustr \<Rightarrow> ustr \<times> ustr" where
  "build_tagged_name u name msg_tag =
     (let (stem, ext) = split_ext (sanitize_filename u name (lit ''invoice.pdf''));
          full = tagged stem msg_tag @ (if ext = [] then lit ''.pdf'' else ext)
      in (full, normalized_stem u full))"


subsection \<open>Texts and links are read as they were written\<close>

lemma utf8_two: "128 \<le> c \<Longrightarrow> c < 2048 \<Longrightarrow> utf8_text bad ((192 + c div 64) # (128 + c mod 64) # s) = c # utf8_text bad s"
proof -
  assume c: "128 \<le> c" "c < 2048"
  have "2 \<le> c div 64" "c div 64 < 32" using c by linarith+
  moreover have "0 \<le> c mod 64" "c mod 64 < 64" "c div 64 * 64 + c mod 64 = c" by simp_all
  ultimately show ?thesis by (simp add: utf8_cont_def)
qed

lemma utf8_three_parts:
  "0 \<le> h \<Longrightarrow> h < 16 \<Longrightarrow> 0 \<le> m \<Longrightarrow> m < 64 \<Longrightarrow> 0 \<le> l \<Longrightarrow> l < 64 \<Longrightarrow>
     (h = 0 \<Longrightarrow> 32 \<le> m) \<Longrightarrow> (h = 13 \<Longrightarrow> m < 32) \<Longrightarrow>
     utf8_text bad ((224 + h) # (128 + m) # (128 + l) # s) = (h * 4096 + m * 64 + l) # utf8_text bad s"
  by (simp add: utf8_cont_def utf8_second_def)

lemma utf8_three:
  assumes "2048 \<le> c" "c < 65536" "\<not> (55296 \<le> c \<and> c < 57344)"
  shows "utf8_text bad ((224 + c div 4096) # (128 + c div 64 mod 64) # (128 + c mod 64) # s) = c # utf8_text bad s"
proof -
  define h m l where "h = c div 4096" and "m = c div 64 mod 64" and "l = c mod 64"
  have c: "c = h * 4096 + m * 64 + l"
  proof -
    have "c div 64 = c div 64 div 64 * 64 + m" by (simp add: m_def)
    moreover have "c div 64 div 64 = h" by (simp add: h_def zdiv_zmult2_eq [symmetric])
    moreover have "c = c div 64 * 64 + l" by (simp add: l_def)
    ultimately show ?thesis by linarith
  qed
  have range: "0 \<le> m" "m < 64" "0 \<le> l" "l < 64" by (simp_all add: m_def l_def)
  have "utf8_text bad ((224 + h) # (128 + m) # (128 + l) # s) = c # utf8_text bad s"
    unfolding c by (rule utf8_three_parts) (use assms c range in linarith)+
  then show ?thesis by (simp only: h_def m_def l_def)
qed

lemma utf8_four_parts:
  "0 \<le> h \<Longrightarrow> h < 5 \<Longrightarrow> 0 \<le> k \<Longrightarrow> k < 64 \<Longrightarrow> 0 \<le> m \<Longrightarrow> m < 64 \<Longrightarrow> 0 \<le> l \<Longrightarrow> l < 64 \<Longrightarrow>
     (h = 0 \<Longrightarrow> 16 \<le> k) \<Longrightarrow> (h = 4 \<Longrightarrow> k < 16) \<Longrightarrow>
     utf8_text bad ((240 + h) # (128 + k) # (128 + m) # (128 + l) # s) =
       (h * 262144 + k * 4096 + m * 64 + l) # utf8_text bad s"
  by (simp add: utf8_cont_def utf8_second_def)

lemma utf8_four:
  assumes "65536 \<le> c" "c < 1114112"
  shows "utf8_text bad ((240 + c div 262144) # (128 + c div 4096 mod 64) # (128 + c div 64 mod 64) # (128 + c mod 64) # s) =
    c # utf8_text bad s"
proof -
  define h k m l where "h = c div 262144" and "k = c div 4096 mod 64" and "m = c div 64 mod 64" and "l = c mod 64"
  have c: "c = h * 262144 + k * 4096 + m * 64 + l"
  proof -
    have "c div 4096 = c div 4096 div 64 * 64 + k" "c div 64 = c div 64 div 64 * 64 + m" by (simp_all add: k_def m_def)
    moreover have "c div 4096 div 64 = h" "c div 64 div 64 = c div 4096" by (simp_all add: h_def zdiv_zmult2_eq [symmetric])
    moreover have "c = c div 64 * 64 + l" by (simp add: l_def)
    ultimately show ?thesis by linarith
  qed
  have range: "0 \<le> k" "k < 64" "0 \<le> m" "m < 64" "0 \<le> l" "l < 64" by (simp_all add: k_def m_def l_def)
  have "utf8_text bad ((240 + h) # (128 + k) # (128 + m) # (128 + l) # s) = c # utf8_text bad s"
    unfolding c by (rule utf8_four_parts) (use assms c range in linarith)+
  then show ?thesis by (simp only: h_def k_def m_def l_def)
qed

lemma utf8_text_code:
  assumes "0 \<le> c" "c < 1114112" "\<not> (55296 \<le> c \<and> c < 57344)"
  shows "utf8_text bad (utf8_code c @ s) = c # utf8_text bad s"
proof -
  consider "c < 128" | "128 \<le> c" "c < 2048" | "2048 \<le> c" "c < 65536" | "65536 \<le> c" by linarith
  then show ?thesis
    by cases (use assms in \<open>simp_all add: utf8_code_def utf8_two utf8_three utf8_four del: utf8_text.simps(2)\<close>,
      simp add: utf8_code_def)
qed

definition scalar :: "int \<Rightarrow> bool" where
  "scalar c \<longleftrightarrow> 0 \<le> c \<and> c < 1114112 \<and> \<not> (55296 \<le> c \<and> c < 57344)"

lemma utf8_code_bytes:
  assumes "scalar c" "b \<in> set (utf8_code c)"
  shows "0 \<le> b \<and> b < 256"
proof -
  have "0 \<le> c" "c < 1114112" using assms(1) by (simp_all add: scalar_def)
  moreover have "0 \<le> c mod 64" "c mod 64 < 64" "0 \<le> c div 64 mod 64" "c div 64 mod 64 < 64"
    "0 \<le> c div 4096 mod 64" "c div 4096 mod 64 < 64" by simp_all
  ultimately show ?thesis
    using assms(2) by (auto simp: utf8_code_def split: if_splits)
qed

lemma utf8_text_encode:
  assumes "list_all scalar s"
  shows "\<exists>b. u_encode s = Some b \<and> utf8_text bad (map of_char b) = s"
proof -
  have "map of_char (map char_of bs :: pystr) = bs" if "\<forall>b\<in>set bs. 0 \<le> b \<and> b < 256" for bs :: "int list"
    using that by (induction bs) simp_all
  moreover have "\<forall>b\<in>set (concat (map utf8_code s)). 0 \<le> b \<and> b < 256"
    using assms utf8_code_bytes by (fastforce simp: list_all_iff)
  ultimately have "map of_char (map char_of (concat (map utf8_code s)) :: pystr) = concat (map utf8_code s)"
    by blast
  moreover have "utf8_text bad (concat (map utf8_code s)) = s"
    using assms by (induction s) (simp_all add: utf8_text_code scalar_def del: utf8_text.simps(2))
  moreover have "\<not> list_ex (\<lambda>c. 55296 \<le> c \<and> c < 57344) s"
    using assms by (auto simp: list_all_iff list_ex_iff scalar_def)
  ultimately show ?thesis by (simp add: u_encode_def)
qed

text \<open>
  A text part is read as it was written: encoded in UTF-8 and base64 as mail programs do, any
  text of Unicode characters comes back unchanged.
\<close>

theorem text_parts_read_back:
  assumes "list_all scalar s" and "s \<noteq> []" and "u_encode s = Some b"
  shows "part_text (Part mime filename headers att (urlsafe_b64encode b) parts) = Some s"
proof -
  have "utf8_text [] (map of_char b) = s"
    using utf8_text_encode [OF assms(1), of "[]"] assms(3) by simp
  moreover from this have "b \<noteq> []" using assms(2) by auto
  then have "urlsafe_b64encode b \<noteq> []" by (cases b rule: urlsafe_b64encode.cases) auto
  ultimately show ?thesis by (simp add: part_text_def a2b_base64_encode)
qed

lemma text_parts_read_back_witness:
  "part_text (Part [] [] [] [] (urlsafe_b64encode (the (u_encode [104, 1488, 8362, 128512]))) []) = Some [104, 1488, 8362, 128512]"
  by (rule text_parts_read_back) code_simp+

end
