(* ===== verification/Gmail_Finder.thy ===== *)
theory Gmail_Finder
  imports Gmail_Messages Month_Files
begin

text \<open>
  The run of \<open>cli/gmail_invoice_finder.py\<close>: the messages a query finds, one after the other, their
  PDF attachments and, when none was saved, the links in them; what is new and looks like an
  invoice is saved in the invoices directory. Paths are relative to that directory, and listed
  in the order it is walked. The mail service, the replies of web servers, the browser and the
  PDF reader are parameters. Reading and writing local files does not fail here, save for files
  that are not readable when the directory is indexed.
\<close>

subsection \<open>The directory\<close>

record invoice_dir =
  vd_files :: "(ustr list \<times> bytes) list"
  vd_dirs :: "ustr list list"

definition tmp_name :: ustr where "tmp_name = lit ''_tmp''"
definition quarantine_name :: ustr where "quarantine_name = lit ''quarantine''"
definition duplicates_name :: ustr where "duplicates_name = lit ''duplicates''"

text \<open>The names a directory holds, for \<open>os.path.exists\<close>\<close>

definition names_in :: "ustr list \<Rightarrow> invoice_dir \<Rightarrow> ustr list" where
  "names_in d fs = map last (filter (\<lambda>p. p \<noteq> [] \<and> butlast p = d) (map fst (vd_files fs) @ vd_dirs fs))"

definition ensure_dir :: "ustr \<Rightarrow> invoice_dir \<Rightarrow> unit res \<times> invoice_dir" where
  "ensure_dir name fs =
     (if [name] \<in> set (map fst (vd_files fs)) then (Inl (OSError ''[Errno 17] File exists''), fs)
      else (Inr (), fs\<lparr>vd_dirs := List.insert [name] (vd_dirs fs)\<rparr>))"

definition put_file :: "ustr list \<Rightarrow> bytes \<Rightarrow> invoice_dir \<Rightarrow> invoice_dir" where
  "put_file p data fs = fs\<lparr>vd_files := dict_set p data (vd_files fs)\<rparr>"

definition remove_file :: "ustr list \<Rightarrow> invoice_dir \<Rightarrow> invoice_dir" where
  "remove_file p fs = fs\<lparr>vd_files := dict_pop p (vd_files fs)\<rparr>"

definition replace_file :: "ustr list \<Rightarrow> ustr list \<Rightarrow> invoice_dir \<Rightarrow> invoice_dir" where
  "replace_file src dest fs =
     (case map_of (vd_files fs) src of None \<Rightarrow> fs | Some data \<Rightarrow> put_file dest data (remove_file src fs))"

definition walk_pdfs :: "ucd \<Rightarrow> ustr list \<Rightarrow> invoice_dir \<Rightarrow> (ustr list \<times> bytes) list" where
  "walk_pdfs u skip fs =
     filter (\<lambda>(p, _). p \<noteq> [] \<and> has_suffix (lit ''.pdf'') (u_lower u (last p)) \<and> \<not> list_ex (\<lambda>d. d \<in> set skip) (butlast p))
       (vd_files fs)"


subsection \<open>The run and its arguments\<close>

record gmail_setup =
  gs_env :: env
  gs_ucd :: ucd
  gs_have_pymupdf :: bool
  gs_doc :: "bytes \<Rightarrow> pdf_pages"
  gs_readable :: "ustr list \<Rightarrow> bool"
  gs_soup :: html_links
  gs_pages :: "ustr \<Rightarrow> ustr list list"
  gs_metadata :: "ustr \<Rightarrow> gmail_message res"
  gs_full :: "ustr \<Rightarrow> gmail_message res"
  gs_attachment :: "ustr \<Rightarrow> ustr \<Rightarrow> bytes res"
  gs_request :: "ustr \<Rightarrow> request_get"
  gs_yes :: "ustr \<Rightarrow> ustr \<Rightarrow> (ustr \<times> bytes) option"
  gs_bezeq :: "ustr \<Rightarrow> ustr \<Rightarrow> (ustr \<times> bytes) option"
  gs_query :: ustr
  gs_start_date :: ustr
  gs_end_date :: ustr
  gs_exclude_sent :: bool
  gs_max_messages :: int
  gs_keep_quarantine :: bool
  gs_disable_prefilter :: bool
  gs_verify :: bool
  gs_save_candidates :: bool

record message_info =
  mi_subject :: ustr
  mi_from :: ustr
  mi_received :: ustr

record saved_row =
  sr_id :: ustr
  sr_info :: message_info
  sr_source :: pystr
  sr_path :: "ustr list"

record rejected_row =
  rr_id :: ustr
  rr_info :: "message_info option"
  rr_reason :: pystr

text \<open>A candidate with what was decided about it; statistics and confidence are left out.\<close>

record candidate =
  cd_id :: ustr
  cd_type :: pystr
  cd_label :: ustr
  cd_sha256 :: "pystr option"
  cd_decision :: pystr
  cd_reason :: "pystr option"
  cd_path :: "ustr list option"

record finder =
  fi_dir :: invoice_dir
  fi_hashes :: "pystr list \<times> (pystr \<times> ustr list) list"
  fi_stems :: "ustr list"
  fi_texts :: "pystr list \<times> (pystr \<times> ustr list) list"
  fi_saved :: "saved_row list"
  fi_rejected :: "rejected_row list"
  fi_candidates :: "candidate list"


subsection \<open>What the directory already holds\<close>

definition add_index :: "pystr option \<Rightarrow> ustr list \<Rightarrow> (pystr \<times> ustr list) list \<Rightarrow> (pystr \<times> ustr list) list" where
  "add_index key p index =
     (case key of
        None \<Rightarrow> index
      | Some k \<Rightarrow> if k = [] \<or> map_of index k \<noteq> None then index else index @ [(k, p)])"

definition sha256_file :: "gmail_setup \<Rightarrow> ustr list \<Rightarrow> bytes \<Rightarrow> pystr option" where
  "sha256_file g p data = (if gs_readable g p then Some (hexdigest (sha256 (gs_env g) data)) else None)"

definition fingerprint :: "gmail_setup \<Rightarrow> bytes \<Rightarrow> pystr option" where
  "fingerprint g data = text_fingerprint (gs_env g) (gs_ucd g) (gs_have_pymupdf g) 20000 (gs_doc g data)"

definition load_existing_hash_index :: "gmail_setup \<Rightarrow> invoice_dir \<Rightarrow> (pystr \<times> ustr list) list" where
  "load_existing_hash_index g fs =
     foldl (\<lambda>index (p, data). add_index (sha256_file g p data) p index) []
       (walk_pdfs (gs_ucd g) [tmp_name, quarantine_name] fs)"

definition load_existing_stems :: "gmail_setup \<Rightarrow> invoice_dir \<Rightarrow> ustr list" where
  "load_existing_stems g fs =
     map (\<lambda>(p, _). normalized_stem (gs_ucd g) (last p))
       (walk_pdfs (gs_ucd g) [tmp_name, quarantine_name, duplicates_name] fs)"

definition load_existing_text_fps :: "gmail_setup \<Rightarrow> invoice_dir \<Rightarrow> (pystr \<times> ustr list) list" where
  "load_existing_text_fps g fs =
     foldl (\<lambda>index (p, data). add_index (if gs_readable g p then fingerprint g data else None) p index) []
       (walk_pdfs (gs_ucd g) [tmp_name, quarantine_name, duplicates_name] fs)"


subsection \<open>One file\<close>

datatype outcome =
  Duplicate pystr "ustr list option"
| Quarantined "ustr list"
| Rejected
| Saved "ustr list"

definition relevant :: "gmail_setup \<Rightarrow> bool \<Rightarrow> bytes \<Rightarrow> bool" where
  "relevant g trusted data \<longleftrightarrow>
     decide_pdf_relevance_gmail (pdf_keyword_stats (gs_ucd g) (gs_have_pymupdf g) (gs_doc g data)) (gs_have_pymupdf g) trusted"

definition digest_of :: "gmail_setup \<Rightarrow> bytes \<Rightarrow> pystr" where
  "digest_of g data = hexdigest (sha256 (gs_env g) data)"

definition tmp_path :: "ustr \<Rightarrow> ustr list" where
  "tmp_path tag = [tmp_name, lit ''tmp__'' @ tag @ lit ''.pdf'']"

text \<open>
  The steps attachments and links share, from the hash to the file in its place. Only what comes
  by a link is compared by the stem of its name, and is named with its tag before it is numbered.
\<close>

definition store_pdf :: "gmail_setup \<Rightarrow> bool \<Rightarrow> ustr \<Rightarrow> ustr \<Rightarrow> bool \<Rightarrow> bytes \<Rightarrow> finder \<Rightarrow> outcome \<times> finder" where
  "store_pdf g by_link name tag trusted blob st =
     (let u = gs_ucd g;
          h = digest_of g blob;
          tmp = tmp_path tag;
          held = put_file tmp blob (fi_dir st);
          dropped = st\<lparr>fi_dir := remove_file tmp held\<rparr>;
          text_fp = fingerprint g blob;
          (tagged_name, stem) = build_tagged_name u name tag
      in if duplicate_by_hash h (fst (fi_hashes st))
         then (Duplicate ''duplicate_hash'' (duplicate_of_hash h (snd (fi_hashes st))), st)
         else if duplicate_by_text_fingerprint text_fp (fst (fi_texts st))
         then (Duplicate ''duplicate_text'' (duplicate_of_text text_fp (snd (fi_texts st))), dropped)
         else if gs_verify g \<and> \<not> relevant g trusted blob
         then (if gs_keep_quarantine g
               then let q = [quarantine_name, ensure_unique_path u (names_in [quarantine_name] held)
                                (if name = [] \<and> \<not> by_link then lit ''file.pdf'' else name) (Some tag)]
                    in (Quarantined q, st\<lparr>fi_dir := replace_file tmp q held\<rparr>)
               else (Rejected, dropped))
         else if by_link \<and> duplicate_by_stem stem (fi_stems st) then (Duplicate ''duplicate_stem'' None, dropped)
         else
           let out = [if by_link then ensure_unique_path u (names_in [] held) tagged_name None
                      else ensure_unique_path u (names_in [] held) (if name = [] then lit ''invoice.pdf'' else name) (Some tag)]
           in (Saved out,
               st\<lparr>fi_dir := replace_file tmp out held, fi_hashes := remember_hash h out (fi_hashes st),
                  fi_stems := (if by_link then remember_stem stem (fi_stems st) else fi_stems st),
                  fi_texts := remember_text_fingerprint text_fp out (fi_texts st)\<rparr>))"

definition record_candidate :: "gmail_setup \<Rightarrow> candidate \<Rightarrow> finder \<Rightarrow> finder" where
  "record_candidate g c st = (if gs_save_candidates g then st\<lparr>fi_candidates := fi_candidates st @ [c]\<rparr> else st)"

definition record_nonmatch :: "rejected_row \<Rightarrow> finder \<Rightarrow> finder" where
  "record_nonmatch r st = st\<lparr>fi_rejected := fi_rejected st @ [r]\<rparr>"

text \<open>What is noted about a candidate; a file of Bezeq set aside is noted as rejected.\<close>

definition decided :: "outcome \<Rightarrow> candidate \<Rightarrow> candidate" where
  "decided outcome c =
     (case outcome of
        Duplicate reason of_path \<Rightarrow> c\<lparr>cd_decision := ''skip'', cd_reason := Some reason, cd_path := of_path\<rparr>
      | Quarantined p \<Rightarrow>
          c\<lparr>cd_decision := (if cd_type c = ''bezeq_api'' then ''reject'' else ''quarantine''),
            cd_reason := Some ''verify_failed'', cd_path := Some p\<rparr>
      | Rejected \<Rightarrow> c\<lparr>cd_decision := ''reject'', cd_reason := Some ''verify_failed''\<rparr>
      | Saved p \<Rightarrow> c\<lparr>cd_decision := ''saved'', cd_path := Some p\<rparr>)"

definition take_pdf ::
  "gmail_setup \<Rightarrow> bool \<Rightarrow> ustr \<Rightarrow> message_info \<Rightarrow> pystr \<Rightarrow> ustr \<Rightarrow> ustr \<Rightarrow> ustr \<Rightarrow> bool \<Rightarrow> bytes \<Rightarrow> finder \<Rightarrow> bool \<times> finder" where
  "take_pdf g by_link msg_id info source label name tag trusted blob st =
     (let (outcome, st) = store_pdf g by_link name tag trusted blob st;
          st = record_candidate g (decided outcome
                 \<lparr>cd_id = msg_id, cd_type = source, cd_label = label, cd_sha256 = Some (digest_of g blob),
                  cd_decision = [], cd_reason = None, cd_path = None\<rparr>) st
      in (case outcome of
            Saved p \<Rightarrow> (True, st\<lparr>fi_saved := fi_saved st @ [\<lparr>sr_id = msg_id, sr_info = info, sr_source = source, sr_path = p\<rparr>]\<rparr>)
          | _ \<Rightarrow> (False, st)))"


subsection \<open>Attachments and links\<close>

definition take_attachment :: "gmail_setup \<Rightarrow> ustr \<Rightarrow> message_info \<Rightarrow> ustr \<Rightarrow> bool \<Rightarrow> mail_part \<Rightarrow> finder \<Rightarrow> bool \<times> finder" where
  "take_attachment g msg_id info tag trusted p st =
     (if \<not> pdf_attachment (gs_ucd g) p then (False, st)
      else (case gs_attachment g msg_id (mp_attachment p) of
              Inl err \<Rightarrow>
                (False, record_candidate g
                   \<lparr>cd_id = msg_id, cd_type = ''attachment'', cd_label = mp_filename p, cd_sha256 = None,
                    cd_decision = ''error'', cd_reason = Some (''attach_download_fail:'' @ exn_text err), cd_path = None\<rparr> st)
            | Inr blob \<Rightarrow>
                if blob = [] then (False, st)
                else take_pdf g False msg_id info ''attachment'' (mp_filename p) (mp_filename p) tag trusted blob st))"

fun take_attachments :: "gmail_setup \<Rightarrow> ustr \<Rightarrow> message_info \<Rightarrow> ustr \<Rightarrow> bool \<Rightarrow> mail_part list \<Rightarrow> finder \<Rightarrow> bool \<times> finder" where
  "take_attachments g msg_id info tag trusted [] st = (False, st)"
| "take_attachments g msg_id info tag trusted (p # ps) st =
     (let (saved, st) = take_attachment g msg_id info tag trusted p st;
          (more, st) = take_attachments g msg_id info tag trusted ps st
      in (saved \<or> more, st))"

definition bezeq_domains :: "pystr list" where
  "bezeq_domains = [''myinvoice.bezeq.co.il'', ''my.bezeq.co.il'', ''bmy.bezeq.co.il'']"

definition link_options :: download_options where
  "link_options =
     \<lparr>do_referer = Some ''https://mail.google.com/'', do_user_agent = Some default_browser_ua,
      do_include_yes_headers = True, do_fallback_on_403 = True\<rparr>"

definition take_link ::
  "gmail_setup \<Rightarrow> ustr \<Rightarrow> message_info \<Rightarrow> ustr \<Rightarrow> bool \<Rightarrow> ustr \<Rightarrow> ustr \<Rightarrow> finder \<Rightarrow> bool res \<times> finder" where
  "take_link g msg_id info tag trusted snippet link st =
     (let e = gs_env g; u = gs_ucd g; url = latin link;
          trusted_hint = (trusted \<or> within_domain e url trusted_providers \<or>
                          is_municipal_text (mi_subject info @ [32] @ snippet));
          missed = \<lparr>cd_id = msg_id, cd_type = ''link_direct_pdf'', cd_label = link, cd_sha256 = None,
                    cd_decision = ''download_failed'', cd_reason = None, cd_path = None\<rparr>
      in case download_direct_pdf e u (gs_request g msg_id) (\<lambda>s. sanitize_filename u s (lit ''invoice.pdf'')) url link_options of
           Inl err \<Rightarrow> (Inl err, st)
         | Inr (Some (name, blob)) \<Rightarrow>
             (case take_pdf g True msg_id info ''link_direct_pdf'' link name tag trusted_hint blob st of
                (saved, st) \<Rightarrow> (Inr saved, st))
         | Inr None \<Rightarrow>
             (case (if within_domain e url yes_domains then gs_yes g msg_id link else None) of
                Some (name, blob) \<Rightarrow>
                  (case take_pdf g True msg_id info ''link_browser_pdf'' link name tag trusted_hint blob st of
                     (saved, st) \<Rightarrow> (Inr saved, st))
              | None \<Rightarrow>
                  if within_domain e url bezeq_domains
                  then (case gs_bezeq g msg_id link of
                          Some (name, blob) \<Rightarrow>
                            (case take_pdf g True msg_id info ''bezeq_api'' link name tag True blob st of
                               (saved, st) \<Rightarrow> (Inr saved, st))
                        | None \<Rightarrow>
                            (Inr False, record_candidate g
                               (missed\<lparr>cd_type := ''bezeq_api'', cd_decision := ''no_pdf'', cd_reason := Some ''bezeq_no_pdf''\<rparr>) st))
                  else (Inr False, record_candidate g missed st)))"

fun take_links ::
  "gmail_setup \<Rightarrow> ustr \<Rightarrow> message_info \<Rightarrow> ustr \<Rightarrow> bool \<Rightarrow> ustr \<Rightarrow> ustr list \<Rightarrow> finder \<Rightarrow> bool res \<times> finder" where
  "take_links g msg_id info tag trusted snippet [] st = (Inr False, st)"
| "take_links g msg_id info tag trusted snippet (link # links) st =
     (case take_link g msg_id info tag trusted snippet link st of
        (Inl err, st) \<Rightarrow> (Inl err, st)
      | (Inr True, st) \<Rightarrow> (Inr True, st)
      | (Inr False, st) \<Rightarrow> take_links g msg_id info tag trusted snippet links st)"


subsection \<open>Messages\<close>

text \<open>\<open>utcfromtimestamp(ts).isoformat()\<close>, empty for the epoch\<close>

definition received_text :: "int \<Rightarrow> ustr" where
  "received_text internal_date =
     (let ts = internal_date div 1000; s = datetime_isoformat (ts * 1000000)
      in if ts = 0 then [] else lit (take (length s - 6) s))"

definition info_of :: "gmail_setup \<Rightarrow> message_info \<Rightarrow> gmail_message \<Rightarrow> message_info" where
  "info_of g fallback msg =
     (let headers = parse_headers (gs_ucd g) (gm_payload msg)
      in \<lparr>mi_subject = header headers ''subject'' (mi_subject fallback), mi_from = header headers ''from'' (mi_from fallback),
          mi_received = received_text (gm_internal_date msg)\<rparr>)"

definition nonmatch :: "ustr \<Rightarrow> message_info option \<Rightarrow> pystr \<Rightarrow> finder \<Rightarrow> finder" where
  "nonmatch msg_id info reason st = record_nonmatch \<lparr>rr_id = msg_id, rr_info = info, rr_reason = reason\<rparr> st"

definition scan_message :: "gmail_setup \<Rightarrow> ustr \<Rightarrow> message_info \<Rightarrow> gmail_message \<Rightarrow> finder \<Rightarrow> unit res \<times> finder" where
  "scan_message g msg_id info msg st =
     (let u = gs_ucd g;
          trusted = is_trusted_sender u (mi_from info);
          tag = short_msg_tag u msg_id 8;
          (any_saved, st) = take_attachments g msg_id info tag trusted (extract_parts (gm_payload msg)) st;
          (html, plain) = get_body_text u (gm_payload msg);
          links = links_from_message (gs_env g) u (gs_soup g) html plain
      in if any_saved then (Inr (), st)
         else (case take_links g msg_id info tag trusted (gm_snippet msg) links st of
                 (Inl err, st) \<Rightarrow> (Inl err, st)
               | (Inr True, st) \<Rightarrow> (Inr (), st)
               | (Inr False, st) \<Rightarrow>
                   (Inr (), nonmatch msg_id (Some info)
                      (if links \<noteq> [] then ''links_no_pdf'' else ''no_attach_no_pdf_links'') st)))"

definition process_message :: "gmail_setup \<Rightarrow> ustr \<Rightarrow> finder \<Rightarrow> unit res \<times> finder" where
  "process_message g msg_id st =
     (case gs_metadata g msg_id of
        Inl err \<Rightarrow> (Inr (), nonmatch msg_id None (''get_message_metadata_fail:'' @ exn_text err) st)
      | Inr meta \<Rightarrow>
          let info = info_of g \<lparr>mi_subject = [], mi_from = [], mi_received = []\<rparr> meta in
          if \<not> should_fetch_full_message (gs_ucd g) (mi_subject info) (gm_snippet meta)
                 (is_trusted_sender (gs_ucd g) (mi_from info)) (gm_payload meta) (gs_disable_prefilter g)
          then (Inr (), nonmatch msg_id (Some info) ''prefilter_non_invoice'' st)
          else (case gs_full g msg_id of
                  Inl err \<Rightarrow> (Inr (), nonmatch msg_id (Some info) (''get_message_full_fail:'' @ exn_text err) st)
                | Inr msg \<Rightarrow> scan_message g msg_id (info_of g info msg) msg st))"

fun process_messages :: "gmail_setup \<Rightarrow> ustr list \<Rightarrow> finder \<Rightarrow> unit res \<times> finder" where
  "process_messages g [] st = (Inr (), st)"
| "process_messages g (msg_id # ids) st =
     (case process_message g msg_id st of
        (Inl err, st) \<Rightarrow> (Inl err, st)
      | (Inr _, st) \<Rightarrow> process_messages g ids st)"

text \<open>\<open>list_messages\<close> stops at the limit, but not before the first message.\<close>

definition list_messages :: "int \<Rightarrow> ustr list list \<Rightarrow> ustr list" where
  "list_messages max_results pages = take (nat (max 1 max_results)) (concat pages)"

definition start_finder :: "gmail_setup \<Rightarrow> invoice_dir \<Rightarrow> finder" where
  "start_finder g fs =
     (let index = load_existing_hash_index g fs; texts = load_existing_text_fps g fs
      in \<lparr>fi_dir = fs, fi_hashes = (map fst index, index), fi_stems = load_existing_stems g fs,
          fi_texts = (map fst texts, texts), fi_saved = [], fi_rejected = [], fi_candidates = []\<rparr>)"

definition finder_query :: "gmail_setup \<Rightarrow> ustr" where
  "finder_query g =
     (if gs_query g \<noteq> [] then gs_query g
      else build_gmail_query (gs_ucd g) (gs_start_date g) (gs_end_date g) (gs_exclude_sent g))"

text \<open>The exit code of \<open>main\<close> with what the run leaves; the reports are written when it is 0.\<close>

definition gmail_main :: "gmail_setup \<Rightarrow> invoice_dir \<Rightarrow> int res \<times> finder" where
  "gmail_main g fs =
     (let (made, fs) = (if gs_keep_quarantine g then ensure_dir quarantine_name fs else (Inr (), fs));
          (made_tmp, fs) = (if isl made then (made, fs) else ensure_dir tmp_name fs);
          st = start_finder g fs
      in case made_tmp of
           Inl err \<Rightarrow> (Inl err, st)
         | Inr _ \<Rightarrow>
             if gs_query g = [] \<and> (gs_start_date g = [] \<or> gs_end_date g = []) then (Inr 2, st)
             else (case process_messages g (list_messages (gs_max_messages g) (gs_pages g (finder_query g))) st of
                     (Inl err, st) \<Rightarrow> (Inl err, st)
                   | (Inr _, st) \<Rightarrow> (Inr 0, st)))"


subsection \<open>What a run does to the directory\<close>

lemma ensure_unique_path_free: "ensure_unique_path u taken name tag \<notin> set taken"
  by (simp add: ensure_unique_path_def Let_def free_name_free split: prod.split)

lemma names_in_free: "n \<notin> set (names_in d fs) \<Longrightarrow> map_of (vd_files fs) (d @ [n]) = None"
  by (force simp: names_in_def map_of_eq_None_iff)

lemma unique_in_free: "map_of (vd_files fs) (d @ [ensure_unique_path u (names_in d fs) name tag]) = None"
  by (rule names_in_free) (rule ensure_unique_path_free)

lemma dir_ops [simp]:
  "map_of (vd_files (put_file p data fs)) = (map_of (vd_files fs))(p \<mapsto> data)"
  "map_of (vd_files (remove_file p fs)) = (map_of (vd_files fs))(p := None)"
  by (simp_all add: put_file_def remove_file_def)

lemma replace_put [simp]:
  "map_of (vd_files (replace_file p q (put_file p data fs))) = (map_of (vd_files fs))(p := None, q \<mapsto> data)"
  by (simp add: replace_file_def)

text \<open>Files outside the scratch directory stay as they are.\<close>

definition keeps_files :: "invoice_dir \<Rightarrow> invoice_dir \<Rightarrow> bool" where
  "keeps_files fs fs' \<longleftrightarrow>
     (\<forall>p data. butlast p \<noteq> [tmp_name] \<longrightarrow> map_of (vd_files fs) p = Some data \<longrightarrow> map_of (vd_files fs') p = Some data)"

lemma keeps_files_refl [simp]: "keeps_files fs fs"
  by (simp add: keeps_files_def)

lemma keeps_files_trans: "keeps_files fs fs1 \<Longrightarrow> keeps_files fs1 fs2 \<Longrightarrow> keeps_files fs fs2"
  by (simp add: keeps_files_def)

lemma keeps_files_drop: "keeps_files fs (remove_file (tmp_path tag) (put_file (tmp_path tag) data fs))"
  by (auto simp: keeps_files_def tmp_path_def)

lemma keeps_files_move:
  "map_of (vd_files (put_file (tmp_path tag) data fs)) q = None \<Longrightarrow>
     keeps_files fs (replace_file (tmp_path tag) q (put_file (tmp_path tag) data fs))"
  by (auto simp: keeps_files_def tmp_path_def split: if_splits)

definition same_reports :: "finder \<Rightarrow> finder \<Rightarrow> bool" where
  "same_reports st st' \<longleftrightarrow> fi_saved st' = fi_saved st \<and> fi_rejected st' = fi_rejected st"

text \<open>A file that is saved is new, relevant where it is checked, and remembered.\<close>

definition newly_saved :: "gmail_setup \<Rightarrow> bytes \<Rightarrow> ustr list \<Rightarrow> finder \<Rightarrow> finder \<Rightarrow> bool" where
  "newly_saved g blob out st st' \<longleftrightarrow>
     (\<exists>n. out = [n]) \<and> map_of (vd_files (fi_dir st)) out = None \<and> map_of (vd_files (fi_dir st')) out = Some blob \<and>
     (gs_verify g \<longrightarrow> (\<exists>trusted. relevant g trusted blob)) \<and> digest_of g blob \<notin> set (fst (fi_hashes st)) \<and>
     set (fst (fi_hashes st')) = insert (digest_of g blob) (set (fst (fi_hashes st)))"

lemma store_pdf_effect:
  assumes "store_pdf g by_link name tag trusted blob st = (outcome, st')"
  shows "same_reports st st' \<and> keeps_files (fi_dir st) (fi_dir st') \<and>
    (case outcome of Saved out \<Rightarrow> newly_saved g blob out st st' | _ \<Rightarrow> fi_hashes st' = fi_hashes st)"
proof -
  let ?held = "put_file (tmp_path tag) blob (fi_dir st)"
  obtain tagged_name stem where t: "build_tagged_name (gs_ucd g) name tag = (tagged_name, stem)"
    by (cases "build_tagged_name (gs_ucd g) name tag")
  let ?q = "\<lambda>n. [quarantine_name, ensure_unique_path (gs_ucd g) (names_in [quarantine_name] ?held) n (Some tag)]"
  let ?out = "[if by_link then ensure_unique_path (gs_ucd g) (names_in [] ?held) tagged_name None
               else ensure_unique_path (gs_ucd g) (names_in [] ?held) (if name = [] then lit ''invoice.pdf'' else name) (Some tag)]"
  have q: "map_of (vd_files ?held) (?q n) = None" for n
    using unique_in_free [of ?held "[quarantine_name]"] by (simp only: append_Cons append_Nil)
  have out: "map_of (vd_files ?held) ?out = None"
    using unique_in_free [of ?held "[]"] by (simp only: append_Nil split: if_split) blast
  have out_new: "map_of (vd_files (fi_dir st)) ?out = None" "?out \<noteq> tmp_path tag"
    using out by (auto simp: tmp_path_def split: if_splits)
  note keeps = keeps_files_move [OF q] keeps_files_move [OF out] keeps_files_drop
  have saved: "outcome = Saved out \<Longrightarrow> newly_saved g blob out st st'" for out
    using assms out_new
    unfolding store_pdf_def Let_def t newly_saved_def
    by (auto simp: remember_hash_def duplicate_by_hash_def split: if_splits prod.splits)
  show ?thesis
    using assms saved keeps unfolding store_pdf_def Let_def t same_reports_def
    by (auto split: if_splits)
qed

lemma store_pdf_keeps: "keeps_files (fi_dir st) (fi_dir (snd (store_pdf g by_link name tag trusted blob st)))"
  using store_pdf_effect [of g by_link name tag trusted blob st] by (metis prod.collapse)


subsection \<open>A run never loses a file, and saves what is new\<close>

text \<open>
  From \<open>fs\<close> on: files stay, and what the rows name is new, still as it was saved, and differs from
  the files that were there and from the others that were saved.
\<close>

definition digest_at :: "gmail_setup \<Rightarrow> finder \<Rightarrow> saved_row \<Rightarrow> pystr option" where
  "digest_at g st r = map_option (digest_of g) (map_of (vd_files (fi_dir st)) (sr_path r))"

definition row_ok :: "gmail_setup \<Rightarrow> invoice_dir \<Rightarrow> finder \<Rightarrow> saved_row \<Rightarrow> bool" where
  "row_ok g fs st r \<longleftrightarrow>
     (\<exists>n data. sr_path r = [n] \<and> map_of (vd_files fs) [n] = None \<and> map_of (vd_files (fi_dir st)) [n] = Some data \<and>
        (gs_verify g \<longrightarrow> (\<exists>trusted. relevant g trusted data)) \<and>
        digest_of g data \<notin> set (map fst (load_existing_hash_index g fs)) \<and> digest_of g data \<in> set (fst (fi_hashes st)))"

definition finder_ok :: "gmail_setup \<Rightarrow> invoice_dir \<Rightarrow> finder \<Rightarrow> bool" where
  "finder_ok g fs st \<longleftrightarrow>
     keeps_files fs (fi_dir st) \<and> set (map fst (load_existing_hash_index g fs)) \<subseteq> set (fst (fi_hashes st)) \<and>
     (\<forall>r\<in>set (fi_saved st). row_ok g fs st r) \<and> distinct (map (digest_at g st) (fi_saved st))"

text \<open>What a step does to the reports: rows of the message at hand are added.\<close>

definition files_saved :: "ustr \<Rightarrow> bool \<Rightarrow> finder \<Rightarrow> finder \<Rightarrow> bool" where
  "files_saved msg_id saved st st' \<longleftrightarrow>
     fi_rejected st' = fi_rejected st \<and>
     (\<exists>rows. fi_saved st' = fi_saved st @ rows \<and> set (map sr_id rows) \<subseteq> {msg_id} \<and> (saved \<longleftrightarrow> rows \<noteq> []))"

lemma files_saved_none [simp]: "files_saved msg_id False st st"
  by (simp add: files_saved_def)

lemma files_saved_trans:
  "files_saved msg_id b st st1 \<Longrightarrow> files_saved msg_id c st1 st2 \<Longrightarrow> files_saved msg_id (b \<or> c) st st2"
  unfolding files_saved_def by force

lemma kept_single: "keeps_files fs fs' \<Longrightarrow> map_of (vd_files fs) [n] = Some data \<Longrightarrow> map_of (vd_files fs') [n] = Some data"
  by (simp add: keeps_files_def)

lemma row_ok_step:
  "row_ok g fs st r \<Longrightarrow> keeps_files (fi_dir st) (fi_dir st') \<Longrightarrow> set (fst (fi_hashes st)) \<subseteq> set (fst (fi_hashes st')) \<Longrightarrow>
     row_ok g fs st' r \<and> digest_at g st' r = digest_at g st r"
proof -
  assume row: "row_ok g fs st r" and keeps: "keeps_files (fi_dir st) (fi_dir st')"
    and hashes: "set (fst (fi_hashes st)) \<subseteq> set (fst (fi_hashes st'))"
  obtain n data where r: "sr_path r = [n]" "map_of (vd_files fs) [n] = None" "map_of (vd_files (fi_dir st)) [n] = Some data"
    "gs_verify g \<longrightarrow> (\<exists>trusted. relevant g trusted data)" "digest_of g data \<notin> set (map fst (load_existing_hash_index g fs))"
    "digest_of g data \<in> set (fst (fi_hashes st))"
    using row unfolding row_ok_def by blast
  have kept: "map_of (vd_files (fi_dir st')) [n] = Some data"
    by (rule kept_single [OF keeps r(3)])
  have "row_ok g fs st' r"
    unfolding row_ok_def using r kept hashes by blast
  then show ?thesis
    by (simp only: digest_at_def r kept)
qed

lemma finder_ok_step:
  assumes ok: "finder_ok g fs st" and keeps: "keeps_files (fi_dir st) (fi_dir st')"
    and hashes: "set (fst (fi_hashes st)) \<subseteq> set (fst (fi_hashes st'))" and "fi_saved st' = fi_saved st"
  shows "finder_ok g fs st'"
proof -
  have rows: "\<And>r. r \<in> set (fi_saved st) \<Longrightarrow> row_ok g fs st' r \<and> digest_at g st' r = digest_at g st r"
    using ok row_ok_step [OF _ keeps hashes] unfolding finder_ok_def by blast
  then have same: "map (digest_at g st') (fi_saved st) = map (digest_at g st) (fi_saved st)"
    by simp
  show ?thesis
    using ok rows keeps_files_trans [OF _ keeps] hashes unfolding finder_ok_def assms(4) same by blast
qed

lemma finder_ok_saved:
  assumes ok: "finder_ok g fs st" and keeps: "keeps_files (fi_dir st) (fi_dir st')"
    and new: "newly_saved g blob (sr_path r) st st'" and rows: "fi_saved st' = fi_saved st @ [r]"
  shows "finder_ok g fs st'"
proof -
  have hashes: "set (fst (fi_hashes st)) \<subseteq> set (fst (fi_hashes st'))"
    using new by (auto simp: newly_saved_def)
  let ?st = "st'\<lparr>fi_saved := fi_saved st\<rparr>"
  have ok': "finder_ok g fs ?st"
    by (rule finder_ok_step [OF ok]) (use keeps hashes in simp_all)
  have same: "\<And>x. row_ok g fs ?st x = row_ok g fs st' x" "digest_at g ?st = digest_at g st'"
    by (simp_all add: row_ok_def digest_at_def fun_eq_iff)
  have old: "\<And>x. x \<in> set (fi_saved st) \<Longrightarrow> row_ok g fs st x \<and> digest_at g st' x = digest_at g st x"
    using ok row_ok_step [OF _ keeps hashes] unfolding finder_ok_def by blast
  then have seen: "\<And>x. x \<in> set (fi_saved st) \<Longrightarrow> \<exists>h. digest_at g st' x = Some h \<and> h \<in> set (fst (fi_hashes st))"
    by (fastforce simp: row_ok_def digest_at_def)
  have fresh: "map_of (vd_files fs) (sr_path r) = None"
    using new ok kept_single [of fs "fi_dir st"] unfolding newly_saved_def finder_ok_def
    by (metis not_None_eq)
  have digest: "digest_at g st' r = Some (digest_of g blob)"
    using new by (simp add: newly_saved_def digest_at_def)
  have "digest_of g blob \<notin> set (map fst (load_existing_hash_index g fs))"
    using new ok unfolding newly_saved_def finder_ok_def by blast
  then have row: "row_ok g fs st' r"
    using new fresh unfolding newly_saved_def row_ok_def by (metis insertI1)
  have "digest_at g st' r \<notin> digest_at g st' ` set (fi_saved st)"
    using seen new digest by (fastforce simp: newly_saved_def)
  then show ?thesis
    using ok' row rows same by (simp add: finder_ok_def)
qed

text \<open>What a step leads to, whether it ends the run or not\<close>

definition finder_step :: "gmail_setup \<Rightarrow> invoice_dir \<Rightarrow> ustr \<Rightarrow> bool \<Rightarrow> finder \<Rightarrow> finder \<Rightarrow> bool" where
  "finder_step g fs msg_id saved st st' \<longleftrightarrow> finder_ok g fs st' \<and> files_saved msg_id saved st st'"

lemma finder_step_trans:
  "finder_step g fs msg_id b st st1 \<Longrightarrow> finder_step g fs msg_id c st1 st2 \<Longrightarrow> finder_step g fs msg_id (b \<or> c) st st2"
  unfolding finder_step_def using files_saved_trans by blast

lemma finder_step_none: "finder_ok g fs st \<Longrightarrow> finder_step g fs msg_id False st st"
  by (simp add: finder_step_def)

lemma candidate_keeps [simp]:
  "fi_dir (record_candidate g c st) = fi_dir st" "fi_hashes (record_candidate g c st) = fi_hashes st"
  "fi_saved (record_candidate g c st) = fi_saved st" "fi_rejected (record_candidate g c st) = fi_rejected st"
  by (simp_all add: record_candidate_def)

lemma finder_step_candidate: "finder_ok g fs st \<Longrightarrow> finder_step g fs msg_id False st (record_candidate g c st)"
  unfolding finder_step_def
  by (intro conjI, erule finder_ok_step) (simp_all add: files_saved_def)

lemma take_pdf_step:
  assumes "finder_ok g fs st" "take_pdf g by_link msg_id info source label name tag trusted blob st = (saved, st')"
  shows "finder_step g fs msg_id saved st st'"
proof -
  obtain outcome st1 where s: "store_pdf g by_link name tag trusted blob st = (outcome, st1)"
    by (cases "store_pdf g by_link name tag trusted blob st")
  note effect = store_pdf_effect [OF s]
  show ?thesis
  proof (cases outcome)
    case (Saved p)
    let ?r = "\<lparr>sr_id = msg_id, sr_info = info, sr_source = source, sr_path = p\<rparr>"
    have st': "saved" "fi_saved st' = fi_saved st @ [?r]" "fi_rejected st' = fi_rejected st" "fi_dir st' = fi_dir st1"
      "fi_hashes st' = fi_hashes st1"
      using assms(2) effect by (auto simp: take_pdf_def s Saved same_reports_def)
    have new: "newly_saved g blob (sr_path ?r) st st'"
      using effect st' by (simp add: Saved newly_saved_def)
    have "finder_ok g fs st'"
      by (rule finder_ok_saved [OF assms(1) _ new st'(2)]) (use effect st' in simp)
    then show ?thesis
      using st' by (simp add: finder_step_def files_saved_def)
  qed (use assms effect in \<open>auto simp: take_pdf_def s same_reports_def finder_step_def files_saved_def
         intro!: finder_ok_step [OF assms(1)]\<close>)
qed

lemma take_attachment_step:
  assumes "finder_ok g fs st" "take_attachment g msg_id info tag trusted p st = (saved, st')"
  shows "finder_step g fs msg_id saved st st'"
  using assms unfolding take_attachment_def
  by (auto split: if_splits sum.splits intro: finder_step_none finder_step_candidate take_pdf_step)

lemma take_attachments_step:
  "finder_ok g fs st \<Longrightarrow> take_attachments g msg_id info tag trusted ps st = (saved, st') \<Longrightarrow>
     finder_step g fs msg_id saved st st'"
proof (induction ps arbitrary: st saved st')
  case (Cons p ps)
  obtain b st1 where one: "take_attachment g msg_id info tag trusted p st = (b, st1)"
    by (cases "take_attachment g msg_id info tag trusted p st")
  obtain c st2 where more: "take_attachments g msg_id info tag trusted ps st1 = (c, st2)"
    by (cases "take_attachments g msg_id info tag trusted ps st1")
  have first: "finder_step g fs msg_id b st st1"
    by (rule take_attachment_step [OF Cons.prems(1) one])
  then have "finder_ok g fs st1"
    by (simp add: finder_step_def)
  then show ?case
    using finder_step_trans [OF first Cons.IH [OF _ more]] Cons.prems(2) one more by simp
qed (simp add: finder_step_none)

text \<open>A link that ends the run has saved nothing.\<close>

definition is_saved :: "bool res \<Rightarrow> bool" where
  "is_saved r \<longleftrightarrow> r = Inr True"

lemma is_saved_simps [simp]: "is_saved (Inl err) = False" "is_saved (Inr b) = b"
  by (simp_all add: is_saved_def)

lemma take_link_step:
  assumes "finder_ok g fs st" "take_link g msg_id info tag trusted snippet link st = (r, st')"
  shows "finder_step g fs msg_id (is_saved r) st st'"
  using assms unfolding take_link_def Let_def
  by (auto split: if_splits sum.splits option.splits prod.splits intro: finder_step_none finder_step_candidate take_pdf_step)

lemma take_links_step:
  "finder_ok g fs st \<Longrightarrow> take_links g msg_id info tag trusted snippet links st = (r, st') \<Longrightarrow>
     finder_step g fs msg_id (is_saved r) st st'"
proof (induction links arbitrary: st)
  case (Cons link links)
  obtain q st1 where one: "take_link g msg_id info tag trusted snippet link st = (q, st1)"
    by (cases "take_link g msg_id info tag trusted snippet link st")
  have first: "finder_step g fs msg_id (is_saved q) st st1"
    by (rule take_link_step [OF Cons.prems(1) one])
  then have ok: "finder_ok g fs st1"
    by (simp add: finder_step_def)
  consider err where "q = Inl err" | "q = Inr True" | "q = Inr False"
    by (cases q) auto
  then show ?case
  proof cases
    case 3
    then show ?thesis
      using finder_step_trans [OF first Cons.IH [OF ok]] Cons.prems(2) one by simp
  qed (use first Cons.prems(2) one in auto)
qed (auto intro: finder_step_none)

lemma finder_step_nonmatch:
  "finder_ok g fs st \<Longrightarrow> finder_ok g fs (nonmatch msg_id info reason st)"
  by (erule finder_ok_step) (simp_all add: nonmatch_def record_nonmatch_def)

text \<open>A message that is dealt with has its files in the report, or one reason why there are none.\<close>

definition reported :: "ustr \<Rightarrow> finder \<Rightarrow> finder \<Rightarrow> bool" where
  "reported msg_id st st' \<longleftrightarrow>
     files_saved msg_id True st st' \<or>
     (fi_saved st' = fi_saved st \<and> (\<exists>r. fi_rejected st' = fi_rejected st @ [r] \<and> rr_id r = msg_id))"

lemma reported_nonmatch:
  "files_saved msg_id False st st1 \<Longrightarrow> reported msg_id st (nonmatch msg_id info reason st1)"
  by (auto simp: reported_def files_saved_def nonmatch_def record_nonmatch_def)

lemma scan_message_step:
  assumes ok: "finder_ok g fs st" and run: "scan_message g msg_id info msg st = (r, st')"
  shows "finder_ok g fs st' \<and> (r = Inr () \<longrightarrow> reported msg_id st st')"
proof -
  let ?u = "gs_ucd g"
  let ?tag = "short_msg_tag ?u msg_id 8"
  let ?trusted = "is_trusted_sender ?u (mi_from info)"
  obtain b st1 where one: "take_attachments g msg_id info ?tag ?trusted (extract_parts (gm_payload msg)) st = (b, st1)"
    by (cases "take_attachments g msg_id info ?tag ?trusted (extract_parts (gm_payload msg)) st")
  obtain html plain where body: "get_body_text ?u (gm_payload msg) = (html, plain)"
    by (cases "get_body_text ?u (gm_payload msg)")
  let ?links = "links_from_message (gs_env g) ?u (gs_soup g) html plain"
  obtain q st2 where two: "take_links g msg_id info ?tag ?trusted (gm_snippet msg) ?links st1 = (q, st2)"
    by (cases "take_links g msg_id info ?tag ?trusted (gm_snippet msg) ?links st1")
  have first: "finder_step g fs msg_id b st st1"
    by (rule take_attachments_step [OF ok one])
  then have ok1: "finder_ok g fs st1"
    by (simp add: finder_step_def)
  have both: "finder_step g fs msg_id (b \<or> is_saved q) st st2" "finder_ok g fs st2"
    using finder_step_trans [OF first take_links_step [OF ok1 two]] take_links_step [OF ok1 two]
    by (simp_all add: finder_step_def)
  consider "b" | err where "\<not> b" "q = Inl err" | "\<not> b" "q = Inr True" | "\<not> b" "q = Inr False"
    by (cases q) auto
  then show ?thesis
  proof cases
    case 4
    then have "reported msg_id st (nonmatch msg_id i reason st2)" for i reason
      using both reported_nonmatch [of msg_id st st2] by (simp add: finder_step_def)
    then show ?thesis
      using run 4 two finder_step_nonmatch [OF both(2)] unfolding scan_message_def by (auto simp: Let_def one body)
  qed (use run two both first in \<open>auto simp: scan_message_def Let_def one body reported_def finder_step_def\<close>)
qed

lemma process_message_step:
  assumes ok: "finder_ok g fs st" and run: "process_message g msg_id st = (r, st')"
  shows "finder_ok g fs st' \<and> (r = Inr () \<longrightarrow> reported msg_id st st')"
  using run scan_message_step [OF ok] finder_step_nonmatch [OF ok] reported_nonmatch [OF files_saved_none]
  unfolding process_message_def Let_def by (auto split: sum.splits if_splits)

lemma process_messages_ok:
  "finder_ok g fs st \<Longrightarrow> process_messages g ids st = (r, st') \<Longrightarrow> finder_ok g fs st'"
proof (induction ids arbitrary: st)
  case (Cons msg_id ids)
  obtain q st1 where one: "process_message g msg_id st = (q, st1)"
    by (cases "process_message g msg_id st")
  show ?case
    using Cons process_message_step [OF Cons.prems(1) one] one by (cases q) auto
qed simp

text \<open>The rows a list of messages leads to\<close>

definition all_reported :: "ustr list \<Rightarrow> finder \<Rightarrow> finder \<Rightarrow> bool" where
  "all_reported ids st st' \<longleftrightarrow>
     (\<exists>rows reasons. fi_saved st' = fi_saved st @ rows \<and> fi_rejected st' = fi_rejected st @ reasons \<and>
        set (map sr_id rows) \<subseteq> set ids \<and> map rr_id reasons = filter (\<lambda>i. i \<notin> set (map sr_id rows)) ids)"

lemma all_reported_Cons:
  assumes first: "reported i st st1" and rest: "all_reported ids st1 st'" and "i \<notin> set ids"
  shows "all_reported (i # ids) st st'"
proof -
  obtain rows reasons where r: "fi_saved st' = fi_saved st1 @ rows" "fi_rejected st' = fi_rejected st1 @ reasons"
    "set (map sr_id rows) \<subseteq> set ids" "map rr_id reasons = filter (\<lambda>i. i \<notin> set (map sr_id rows)) ids"
    using rest unfolding all_reported_def by blast
  have new: "i \<notin> set (map sr_id rows)"
    using r(3) assms(3) by blast
  from first consider
      rows1 where "fi_saved st1 = fi_saved st @ rows1" "set (map sr_id rows1) = {i}" "fi_rejected st1 = fi_rejected st"
    | reason where "fi_saved st1 = fi_saved st" "fi_rejected st1 = fi_rejected st @ [reason]" "rr_id reason = i"
    unfolding reported_def files_saved_def by (metis set_empty subset_singleton_iff map_is_Nil_conv)
  then show ?thesis
  proof cases
    case 1
    have "filter (\<lambda>j. j \<notin> set (map sr_id (rows1 @ rows))) (i # ids) = filter (\<lambda>j. j \<notin> set (map sr_id rows)) ids"
      using 1(2) assms(3) by (auto intro: filter_cong)
    then show ?thesis
      using r 1 unfolding all_reported_def by (intro exI [of _ "rows1 @ rows"] exI [of _ reasons]) auto
  next
    case 2
    then show ?thesis
      using r new unfolding all_reported_def by (intro exI [of _ rows] exI [of _ "reason # reasons"]) auto
  qed
qed

lemma process_messages_reported:
  "finder_ok g fs st \<Longrightarrow> process_messages g ids st = (Inr u, st') \<Longrightarrow> distinct ids \<Longrightarrow> all_reported ids st st'"
proof (induction ids arbitrary: st)
  case (Cons i ids)
  obtain q st1 where one: "process_message g i st = (q, st1)"
    by (cases "process_message g i st")
  show ?case
    using Cons process_message_step [OF Cons.prems(1) one] one all_reported_Cons [of i st st1 ids st'] by (cases q) auto
qed (simp add: all_reported_def)

lemma start_finder_ok: "vd_files fs' = vd_files fs \<Longrightarrow> finder_ok g fs (start_finder g fs')"
  by (simp add: finder_ok_def start_finder_def Let_def keeps_files_def load_existing_hash_index_def walk_pdfs_def)

lemma index_keys_mono: "set (map fst index) \<subseteq> set (map fst (foldl (\<lambda>index (p, data). add_index (f p data) p index) index files))"
proof (induction files arbitrary: index)
  case (Cons x files)
  have "set (map fst index) \<subseteq> set (map fst (add_index (f (fst x) (snd x)) (fst x) index))"
    by (auto simp: add_index_def split: option.splits)
  then show ?case
    using Cons [of "add_index (f (fst x) (snd x)) (fst x) index"] by (simp add: case_prod_unfold)
qed simp

lemma index_keys:
  "(p, data) \<in> set files \<Longrightarrow> f p data = Some k \<Longrightarrow> k \<noteq> [] \<Longrightarrow>
     k \<in> set (map fst (foldl (\<lambda>index (p, data). add_index (f p data) p index) index files))"
proof (induction files arbitrary: index)
  case (Cons x files)
  show ?case
  proof (cases "x = (p, data)")
    case True
    have "k \<in> set (map fst (add_index (Some k) p index))"
      using Cons.prems(3) by (force simp: add_index_def map_of_eq_None_iff)
    then show ?thesis
      using index_keys_mono [of "add_index (Some k) p index" f files] Cons.prems(2) True by (simp add: subset_iff)
  next
    case False
    then have "(p, data) \<in> set files"
      using Cons.prems(1) by simp
    then show ?thesis
      using Cons.IH [OF _ Cons.prems(2,3)] by simp
  qed
qed simp

lemma ensure_dir_files: "vd_files (snd (ensure_dir name fs)) = vd_files fs"
  by (simp add: ensure_dir_def)

text \<open>A run is a scan from the index of the directory, or none.\<close>

lemma gmail_main_cases:
  obtains fs' r where "vd_files fs' = vd_files fs" "snd (gmail_main g fs) = start_finder g fs'" "fst (gmail_main g fs) \<noteq> Inr 0"
  | fs' r st where "vd_files fs' = vd_files fs" "snd (gmail_main g fs) = st"
      "process_messages g (list_messages (gs_max_messages g) (gs_pages g (finder_query g))) (start_finder g fs') = (r, st)"
      "fst (gmail_main g fs) = map_sum id (\<lambda>_. 0) r"
proof -
  obtain made fs1 where q: "(if gs_keep_quarantine g then ensure_dir quarantine_name fs else (Inr (), fs)) = (made, fs1)"
    by (cases "if gs_keep_quarantine g then ensure_dir quarantine_name fs else (Inr (), fs)")
  obtain made2 fs2 where t: "(if isl made then (made, fs1) else ensure_dir tmp_name fs1) = (made2, fs2)"
    by (cases "if isl made then (made, fs1) else ensure_dir tmp_name fs1")
  have "vd_files fs1 = vd_files fs" "vd_files fs2 = vd_files fs1"
    using q t ensure_dir_files [of quarantine_name fs] ensure_dir_files [of tmp_name fs1]
    by (auto split: if_splits)
  then have files: "vd_files fs2 = vd_files fs" by simp
  obtain r st where run: "process_messages g (list_messages (gs_max_messages g) (gs_pages g (finder_query g))) (start_finder g fs2) = (r, st)"
    by (cases "process_messages g (list_messages (gs_max_messages g) (gs_pages g (finder_query g))) (start_finder g fs2)")
  show thesis
  proof (cases "isl made2 \<or> gs_query g = [] \<and> (gs_start_date g = [] \<or> gs_end_date g = [])")
    case True
    then show thesis
      by (intro that(1) [OF files]; cases made2) (auto simp: gmail_main_def Let_def q t)
  next
    case False
    then show thesis
      by (intro that(2) [OF files _ run]; cases made2; cases r) (auto simp: gmail_main_def Let_def q t run)
  qed
qed

text \<open>
  C25: A run of the Gmail finder loses no file: what is in the invoices directory before it, outside
  the scratch directory, is there unchanged afterwards, also when the run ends with an error. Every
  row it reports as saved names a file that is directly in the directory, was not there before,
  holds what was saved, passed the relevance check where that is asked for, and differs from every
  PDF of the directory and from every other file saved.
\<close>

theorem finder_run_safe:
  fixes g fs
  defines "st \<equiv> snd (gmail_main g fs)"
  shows "(\<forall>p data. butlast p \<noteq> [tmp_name] \<longrightarrow> map_of (vd_files fs) p = Some data \<longrightarrow>
        map_of (vd_files (fi_dir st)) p = Some data) \<and>
    (\<forall>r\<in>set (fi_saved st). \<exists>n data. sr_path r = [n] \<and> map_of (vd_files fs) [n] = None \<and>
        map_of (vd_files (fi_dir st)) [n] = Some data \<and> (gs_verify g \<longrightarrow> (\<exists>trusted. relevant g trusted data)) \<and>
        (\<forall>(p, old)\<in>set (walk_pdfs (gs_ucd g) [tmp_name, quarantine_name] fs).
           gs_readable g p \<longrightarrow> digest_of g old \<noteq> [] \<longrightarrow> digest_of g old \<noteq> digest_of g data)) \<and>
    distinct (map (digest_at g st) (fi_saved st))"
proof -
  have ok: "finder_ok g fs st"
    by (rule gmail_main_cases [of fs g]) (auto simp: st_def intro: start_finder_ok process_messages_ok)
  have known: "digest_of g old \<in> set (map fst (load_existing_hash_index g fs))"
    if "(p, old) \<in> set (walk_pdfs (gs_ucd g) [tmp_name, quarantine_name] fs)" "gs_readable g p" "digest_of g old \<noteq> []" for p old
    using index_keys [OF that(1), of "sha256_file g"] that(2,3)
    by (simp add: load_existing_hash_index_def sha256_file_def digest_of_def)
  have kept: "keeps_files fs (fi_dir st)" and rows: "\<And>r. r \<in> set (fi_saved st) \<Longrightarrow> row_ok g fs st r"
    and all_new: "distinct (map (digest_at g st) (fi_saved st))"
    using ok unfolding finder_ok_def by blast+
  show ?thesis
  proof (intro conjI ballI all_new)
    fix r assume "r \<in> set (fi_saved st)"
    then obtain n data where row: "sr_path r = [n]" "map_of (vd_files fs) [n] = None" "map_of (vd_files (fi_dir st)) [n] = Some data"
      "gs_verify g \<longrightarrow> (\<exists>trusted. relevant g trusted data)" "digest_of g data \<notin> set (map fst (load_existing_hash_index g fs))"
      using rows unfolding row_ok_def by blast
    moreover have "digest_of g old \<noteq> digest_of g data"
      if "(p, old) \<in> set (walk_pdfs (gs_ucd g) [tmp_name, quarantine_name] fs)" "gs_readable g p" "digest_of g old \<noteq> []" for p old
      using known [OF that] row(5) by metis
    ultimately show "\<exists>n data. sr_path r = [n] \<and> map_of (vd_files fs) [n] = None \<and>
        map_of (vd_files (fi_dir st)) [n] = Some data \<and> (gs_verify g \<longrightarrow> (\<exists>trusted. relevant g trusted data)) \<and>
        (\<forall>(p, old)\<in>set (walk_pdfs (gs_ucd g) [tmp_name, quarantine_name] fs).
           gs_readable g p \<longrightarrow> digest_of g old \<noteq> [] \<longrightarrow> digest_of g old \<noteq> digest_of g data)"
      by (intro exI [of _ n] exI [of _ data]) blast
  qed (use kept in \<open>simp add: keeps_files_def\<close>)
qed

text \<open>
  C26: A run that ends well accounts for every message it listed: the messages without a saved file
  are the rejected ones, each noted once and in the order of the list, and every saved row is of a
  message that was listed.
\<close>

theorem every_message_reported:
  fixes g fs
  defines "ids \<equiv> list_messages (gs_max_messages g) (gs_pages g (finder_query g))"
  assumes "gmail_main g fs = (Inr 0, st)" and "distinct ids"
  shows "set (map sr_id (fi_saved st)) \<subseteq> set ids \<and>
    map rr_id (fi_rejected st) = filter (\<lambda>i. i \<notin> set (map sr_id (fi_saved st))) ids"
proof (rule gmail_main_cases [of fs g])
  fix fs' r st'
  assume run: "vd_files fs' = vd_files fs" "snd (gmail_main g fs) = st'" "fst (gmail_main g fs) = map_sum id (\<lambda>_. 0) r"
    "process_messages g (list_messages (gs_max_messages g) (gs_pages g (finder_query g))) (start_finder g fs') = (r, st')"
  then obtain u where "r = Inr u" "st' = st"
    using assms(2) by (cases r) auto
  then have "all_reported ids (start_finder g fs') st"
    using process_messages_reported [OF start_finder_ok [OF run(1)]] run(4) assms(3) by (simp add: ids_def)
  then show ?thesis
    by (simp add: all_reported_def start_finder_def Let_def)
qed (use assms(2) in simp)



subsection \<open>An example\<close>

definition demo_mail :: "ustr \<Rightarrow> gmail_message" where
  "demo_mail i =
     (if i = lit ''m1''
      then \<lparr>gm_payload = Some (Part [] [] [] [] [] [Part (lit ''application/pdf'') (lit ''bill.pdf'') [] (lit ''att'') [] []]),
            gm_internal_date = 0, gm_snippet = []\<rparr>
      else \<lparr>gm_payload = Some (Part (lit ''text/plain'') [] [] [] (urlsafe_b64encode (if i = lit ''m2'' then ''thanks'' else ''see http://[x'')) []),
            gm_internal_date = 0, gm_snippet = []\<rparr>)"

definition demo_gmail :: "ustr list \<Rightarrow> gmail_setup" where
  "demo_gmail ids =
     \<lparr>gs_env = toy_env, gs_ucd = toy_ucd, gs_have_pymupdf = True,
      gs_doc = (\<lambda>data. Some [Some (lit (if data = ''A'' then ''Invoice 7'' else ''salary''))]),
      gs_readable = (\<lambda>_. True), gs_soup = \<lparr>hl_anchors = (\<lambda>_. []), hl_areas = (\<lambda>_. [])\<rparr>, gs_pages = (\<lambda>_. [ids]),
      gs_metadata = (\<lambda>i. Inr (demo_mail i)), gs_full = (\<lambda>i. Inr (demo_mail i)),
      gs_attachment = (\<lambda>_ _. Inr ''A''), gs_request = (\<lambda>_. demo_request), gs_yes = (\<lambda>_ _. None), gs_bezeq = (\<lambda>_ _. None),
      gs_query = lit ''bill'', gs_start_date = [], gs_end_date = [], gs_exclude_sent = False, gs_max_messages = 100,
      gs_keep_quarantine = False, gs_disable_prefilter = True, gs_verify = True, gs_save_candidates = False\<rparr>"

definition demo_invoices :: invoice_dir where
  "demo_invoices = \<lparr>vd_files = [([lit ''bill__m1.pdf''], ''old'')], vd_dirs = []\<rparr>"

definition no_info :: message_info where
  "no_info = \<lparr>mi_subject = [], mi_from = [], mi_received = []\<rparr>"

definition demo_left :: finder where
  "demo_left =
     \<lparr>fi_dir = \<lparr>vd_files = [([lit ''bill__m1.pdf''], ''old''), ([lit ''bill__m1__2.pdf''], ''A'')], vd_dirs = [[tmp_name]]\<rparr>,
      fi_hashes = ([''41'', ''6f6c64''], [(''6f6c64'', [lit ''bill__m1.pdf'']), (''41'', [lit ''bill__m1__2.pdf''])]),
      fi_stems = [lit ''bill__m1''],
      fi_texts = ([''496e766f6963652037'', ''73616c617279''],
        [(''73616c617279'', [lit ''bill__m1.pdf'']), (''496e766f6963652037'', [lit ''bill__m1__2.pdf''])]),
      fi_saved = [\<lparr>sr_id = lit ''m1'', sr_info = no_info, sr_source = ''attachment'', sr_path = [lit ''bill__m1__2.pdf'']\<rparr>],
      fi_rejected = [], fi_candidates = []\<rparr>"

lemma demo_fetched: "process_message (demo_gmail ids) i st = scan_message (demo_gmail ids) i no_info (demo_mail i) st"
proof -
  have "gs_disable_prefilter (demo_gmail ids)" "gs_metadata (demo_gmail ids) i = Inr (demo_mail i)"
    "gs_full (demo_gmail ids) i = Inr (demo_mail i)"
    by (simp_all add: demo_gmail_def)
  moreover have "info_of (demo_gmail ids) no_info (demo_mail i) = no_info"
    by (simp add: info_of_def demo_mail_def no_info_def parse_headers_def header_def received_text_def)
  ultimately show ?thesis
    by (simp add: process_message_def should_fetch_full_message_def no_info_def)
qed

lemma demo_scan: "scan_message (demo_gmail ids) (lit ''m1'') no_info (demo_mail (lit ''m1'')) (start_finder (demo_gmail ids) (demo_invoices\<lparr>vd_dirs := [[tmp_name]]\<rparr>)) = (Inr (), demo_left)"
  by code_simp

lemma demo_skip:
  "scan_message (demo_gmail ids) (lit ''m2'') no_info (demo_mail (lit ''m2'')) demo_left = (Inr (), nonmatch (lit ''m2'') (Some no_info) ''no_attach_no_pdf_links'' demo_left)"
  by code_simp

lemma demo_listed: "list_messages 100 [[lit ''m1'', lit ''m2'']] = [lit ''m1'', lit ''m2'']"
  by code_simp

lemma demo_run:
  "gmail_main (demo_gmail [lit ''m1'', lit ''m2'']) demo_invoices =
     (Inr 0, nonmatch (lit ''m2'') (Some no_info) ''no_attach_no_pdf_links'' demo_left)"
proof -
  let ?g = "demo_gmail [lit ''m1'', lit ''m2'']"
  have g: "\<not> gs_keep_quarantine ?g" "gs_query ?g \<noteq> []" "gs_max_messages ?g = 100" "\<And>q. gs_pages ?g q = [[lit ''m1'', lit ''m2'']]"
    by (simp_all add: demo_gmail_def lit_def)
  have "ensure_dir tmp_name demo_invoices = (Inr (), demo_invoices\<lparr>vd_dirs := [[tmp_name]]\<rparr>)"
    by code_simp
  moreover have "process_messages ?g [lit ''m1'', lit ''m2''] (start_finder ?g (demo_invoices\<lparr>vd_dirs := [[tmp_name]]\<rparr>)) =
      (Inr (), nonmatch (lit ''m2'') (Some no_info) ''no_attach_no_pdf_links'' demo_left)"
    by (simp only: process_messages.simps demo_fetched demo_scan demo_skip prod.case sum.case)
  ultimately show ?thesis
    using g by (simp add: gmail_main_def Let_def demo_listed)
qed

lemma demo_kept:
  "butlast [lit ''bill__m1.pdf''] \<noteq> [tmp_name]" "map_of (vd_files demo_invoices) [lit ''bill__m1.pdf''] = Some ''old''"
  by code_simp+

lemma finder_run_safe_witness:
  "map_of (vd_files (fi_dir (snd (gmail_main (demo_gmail [lit ''m1'', lit ''m2'']) demo_invoices)))) [lit ''bill__m1.pdf''] = Some ''old''"
  using finder_run_safe [of demo_invoices "demo_gmail [lit ''m1'', lit ''m2'']"] demo_kept by blast

lemma demo_rows: "map sr_id (fi_saved (nonmatch (lit ''m2'') (Some no_info) ''no_attach_no_pdf_links'' demo_left)) = [lit ''m1'']"
  by code_simp

lemma every_message_reported_witness:
  "map rr_id (fi_rejected (nonmatch (lit ''m2'') (Some no_info) ''no_attach_no_pdf_links'' demo_left)) =
     filter (\<lambda>i. i \<notin> {lit ''m1''}) [lit ''m1'', lit ''m2'']"
proof -
  let ?g = "demo_gmail [lit ''m1'', lit ''m2'']"
  have "list_messages (gs_max_messages ?g) (gs_pages ?g (finder_query ?g)) = [lit ''m1'', lit ''m2'']"
    by (simp add: demo_gmail_def demo_listed)
  moreover have "distinct [lit ''m1'', lit ''m2'']"
    by code_simp
  ultimately show ?thesis
    using every_message_reported [OF demo_run] demo_rows by simp
qed

lemma demo_bad_link1: "\<not> payload_has_pdf_attachment toy_ucd (gm_payload (demo_mail (lit ''m3'')))"
  by code_simp

lemma demo_bad_link2: "get_body_text toy_ucd (gm_payload (demo_mail (lit ''m3''))) = ([], lit ''see http://[x'' @ [10])"
  by code_simp

lemma demo_bad_link3: "links_from_message toy_env toy_ucd \<lparr>hl_anchors = (\<lambda>_. []), hl_areas = (\<lambda>_. [])\<rparr> [] (lit ''see http://[x'' @ [10]) = [lit ''http://[x'']"
  by code_simp

lemma demo_bad_link4: "urlparse toy_env (latin (lit ''http://[x'')) = Inl (ValueError ''Invalid IPv6 URL'')"
  by code_simp

lemma demo_bad_link5: "[tmp_name] \<notin> set (map fst (vd_files demo_invoices))"
  by code_simp

lemma demo_bad_link6: "list_messages 100 [[lit ''m3'', lit ''m1'']] = [lit ''m3'', lit ''m1'']"
  by code_simp

lemmas demo_bad_link = demo_bad_link1 demo_bad_link2 demo_bad_link3 demo_bad_link4 demo_bad_link5 demo_bad_link6


end
