(* ===== verification/Spec2Isabelle.thy ===== *)
theory Spec2Isabelle
  imports System Month_Run Quarantine Mail_Fetch Downloads Amount_Text Report_Pdf Gmail_Finder
begin

text \<open>
  A verified model of the invoice platform's workers (\<open>apps/workers-py/src/invplatform\<close>): the
  multi-tenant SaaS core in \<open>saas/\<close> with its HTTP API, its service layer and its background tasks;
  the programs of \<open>cli/\<close> that gather a month of invoices, set aside what is none and report on the
  rest; and the use cases and domain rules they stand on.

  \<^bold>\<open>The program.\<close> An HTTP request passes the audit middleware and a route of \<open>saas/api.py\<close>, which
  resolves the tenant from an API key or a bearer token and calls one method of \<open>SaaSService\<close>
  (\<open>saas/service.py\<close>). The service reads and writes the rows of \<open>saas/models.py\<close> in a session that
  commits or rolls back (\<open>saas/db.py\<close>), and queues tasks (\<open>saas/queue.py\<close>). Workers take tasks from
  the queue (\<open>saas/tasks.py\<close>) and run the jobs of \<open>saas/worker.py\<close>: collecting files from
  providers, parsing them into invoices, writing reports, removing old reports. Files live in
  a storage backend (\<open>saas/storage.py\<close>).

  Beside it, \<open>cli/gmail_invoice_finder.py\<close> searches a mailbox and saves the PDFs attached to its
  messages or linked from them; \<open>cli/monthly_invoices.py\<close> runs the finders of a month, removes duplicates within each
  provider's directory and copies every new content into the month's folder;
  \<open>cli/quarantine_invoices.py\<close> moves PDFs that do not look like invoices out of the way; and
  \<open>cli/invoices_report.py\<close> reads the text of every PDF, guesses number, dates, sender, amounts and
  category from it (\<open>usecases/report_*.py\<close>) and writes JSON, CSV and PDF reports.

  \<^bold>\<open>The state.\<close> \<open>world\<close> (Saas_World) is the database, the queue, the store of the storage backend
  and a counter of random draws. The database \<open>db\<close> (Models) is one list of records per table, in
  insertion order. A session is a function on the database; \<open>commit_with\<close> and \<open>session_scope\<close>
  either install its result, after the check of every primary key and unique constraint, or
  give back the old database with an \<open>IntegrityError\<close>. Exceptions are the values of \<open>exn\<close>
  (Runtime), fallible code returns \<open>exn + 'a\<close>. Time is an integer number of microseconds and
  an argument of the operations, as are the outcomes of the libraries: \<open>env\<close> holds the hash,
  HMAC, PBKDF2 and random functions, \<open>storage_ops\<close> the backend, and the PDF parser, the provider
  executor and pypdf are parameters of the tasks. A race with another request is a function
  on the database, applied where the code flushes.

  \<^bold>\<open>The theories.\<close>
  \<^item> Prelude, Py_Text, Py_Float, Py_Json, Py_Codec, Py_Date, Runtime: lookups and updates of tables,
    and what the code uses of Python: strings, doubles with their text, JSON in both directions,
    base64, UTF-8, URLs, dates and ISO timestamps, exceptions and truth values.
  \<^item> Models: the records, the constraints and \<open>db_ok\<close>. Saas_World: the queue and its drain, sessions.
  \<^item> Tenant_Guard: the guard of \<open>saas/db.py\<close> and the repository of \<open>saas/repository.py\<close>, the latter a
    locale interpreted on every table a tenant owns. Metrics: \<open>saas/metrics.py\<close>.
  \<^item> Storage: the local and the S3 backend. Auth_Core: \<open>saas/auth.py\<close>, with passwords, tokens, slugs.
  \<^item> Service_Base, Service_Auth, Service_Providers, Service_Jobs, Service_Reports: the methods of
    \<open>SaaSService\<close>, one definition per method, with their audit events and idempotency keys.
  \<^item> Worker_Parse, Worker_Collection, Worker_Reports, Worker_Tasks: the runs of \<open>saas/worker.py\<close>, each
    split where the code commits, and the tasks by name.
  \<^item> Api_Core, Api_Routes, Api_Serve: credentials, error mapping, one definition \<open>api_*\<close> per route,
    the middleware (\<open>serve\<close>).
  \<^item> Tenant_Updates, Api_Updates: a locale for what holds of every operation that acts for a tenant
    (the rows it writes are its own), proved operation by operation inside it. Tenant_Frame
    interprets it with ``rows of other tenants stay'', Tenant_Links with ``links stay inside a
    tenant''. System: the step relation of requests, deliveries, lost and scheduled tasks.

  \<^item> Month_Files, Month_Dedupe, Month_Plan, Month_Run: a file system as a map from paths to contents
    and directories; \<open>usecases/duplicate_policy.py\<close>; the window of a month, its providers and their
    command lines; running them (parameters) and gathering what they left.
  \<^item> Py_Unicode, Py_Regex: texts as lists of code points over a character database (a parameter with
    a toy instance for the witnesses), and a backtracking matcher for the regular expressions of
    the code, each written out as a value of the type \<open>regex\<close>.
  \<^item> Mail_Rules, Quarantine, Mail_Fetch, File_Names, Downloads: the keywords and verdicts of \<open>domain/\<close>
    and \<open>usecases/pdf_verification.py\<close>, the quarantine run, \<open>usecases/fetch_invoices.py\<close> over a mail
    adapter, file names, \<open>usecases/pdf_download.py\<close> and \<open>usecases/provider_shared.py\<close>.
  \<^item> Gmail_Messages, Gmail_Finder: \<open>cli/gmail_invoice_finder.py\<close>, what it reads of a message and its run
    over the messages of a query. Attachments and links share the steps from the hash of a file to
    its place (\<open>store_pdf\<close>), which the code has three times; \<open>finder\<close> holds the directory, the
    indexes and the rows of the reports.
  \<^item> Report_Amounts, Amount_Text, Report_Totals (\<open>usecases/report_totals.py\<close>), Report_Vendors
    (\<open>usecases/report_vendor_strategies.py\<close>), Report_Lines, Report_Dates, Report_Parser,
    Report_Split, Report_Output, Report_Pdf (\<open>usecases/report_parser.py\<close>, \<open>report_partner.py\<close>,
    \<open>report_municipal.py\<close>, \<open>report_splitter.py\<close> and \<open>cli/invoices_report.py\<close>): from the text of a
    PDF to its record, from the records to the texts of the reports. A cascade of guesses is one
    definition per guess, in the order of the code.

  \<^bold>\<open>What is shown.\<close> Of the whole system: every reachable state satisfies the schema's constraints
  and links rows of one tenant only; a tenant's request changes and reads rows of that tenant
  only, needs its credentials, and leaves nothing behind when it fails; a drain of the queue
  returns. Of the components: logins, refreshes, logouts and tokens do what they promise over
  any sequence of operations; OAuth states are used once; jobs are created, linked and queued
  together, once per idempotency key; runs leave rows, counters, artifacts and files that agree
  or a failed job; a retention cleanup removes exactly the expired reports; listings page
  through the matching rows; encodings round-trip. Some theorems show what the code does not do:
  a parse task delivered twice records its invoices twice, two racing requests with one
  idempotency key do not both get the job, a report ignores its filters, the S3 cache is stale
  after an overwrite.

  Of the programs: a month's window is exact; gathering loses no content and brings every readable
  PDF into the month's folder; quarantine moves exactly what fails the check; a keyword is found
  exactly where it stands as a word; downloads and file names are safe; printed amounts read
  back. A run of the Gmail finder loses no file, saves what is new and relevant under names of its
  own, and accounts for every message, unless a link that cannot be parsed ends it. Of the reports: dates are dates; lines are whole; the amounts of an invoice fit together;
  a record is well formed; the CSV files read back as what was written; totals and the PDF's rows
  are those of the records. The heuristics are shown to keep these bounds, not to guess right, and
  some theorems show where they do not: 1,250 is read as 1.25, ``business'' is taken for a bus, a
  thirteenth month in one file loses the report of all, the records a municipal file is split
  into each keep the subtotal of the whole.

  \<^bold>\<open>Bounds and fuel.\<close> Strings of the service are lists of 8-bit characters, so text beyond Latin-1 is
  outside its model. Integers are unbounded, as in Python; doubles are rationals rounded to
  53 bits. The search for a free slug and the drain of the queue are partial functions whose
  termination is proved (Auth_Core, System). The JSON parser takes the length of its text as
  fuel, which the round trip in Py_Json shows to be enough. The matcher of Py_Regex bounds a repeat by
  the length of the rest of the text and its least count, since past that count an iteration that
  consumes nothing ends the repeat;
  theorems there show what it finds to be a match and its absence to mean that there is none.
  The other loops that are not structural have their termination proved. Text of the programs
  (as opposed to the service) is a list of code points without a limit; sums of doubles are folded from the
  left, as \<open>sum\<close> does up to Python 3.11, and doubles are finite.

  \<^bold>\<open>Not modelled.\<close> FastAPI's routing, pydantic's validation and the static pages of the API;
  SQLAlchemy, of which only the documented effect of queries, flushes and commits is used (foreign
  keys are off, as in the default SQLite configuration); the Redis queue; process entry points and
  migrations. Of the programs: \<open>cli/graph_invoice_finder.py\<close>, which has the steps of the Gmail finder
  written out again, \<open>cli/meta_billing_export.py\<close> and \<open>usecases/provider_browser.py\<close>, which drive
  other services and a browser; argument parsing, printing and the drawing of the PDF; the Unicode
  database and what pdfminer and PyMuPDF read of a file, which are parameters. Monthly runs of
  several providers at once are modelled one after the other, on directories of their own; a
  directory is listed before its files are moved. The archived versions under \<open>archive/\<close> are not
  part of the system.
\<close>

end
